(* ===== verification/Prelude.thy ===== *)
theory Prelude
  imports Complex_Main "HOL-Library.Product_Lexorder" "HOL-Library.List_Lexorder"
    "HOL-Library.Char_ord" "HOL-Library.Multiset"
begin

text \<open>
  The prelude of the development: the exceptions the Python code raises, results as sums with a
  monadic sequencing operator, the database transaction (committed and working state of a
  SQLAlchemy session), stateful operations with exceptions, stable sorting by a key, ordered
  dictionaries as association lists, and the generic locales every component shares: a state
  machine with an invariant and its refinement of an abstract one.
\<close>

named_theorems result_simps \<open>rewriting of results and their sequencing\<close>
named_theorems op_defs \<open>definitions of stateful operations\<close>
named_theorems inv_intros \<open>introduction rules of invariants\<close>

section \<open>Exceptions\<close>

text \<open>
  One constructor per exception class that the code raises, catches or classifies. The string is
  the message (\<open>str(exc)\<close>), the number of \<open>HTTPException\<close> its status code.
\<close>

datatype exn =
    TypeError string
  | ValueError string
  | AssertionError string
  | ScoreEngineInputError string
  | OverflowError string
  | ZeroDivisionError string
  | InvalidOperation string
  | KeyError string
  | IndexError string
  | AttributeError string
  | RuntimeError string
  | TimeoutError string
  | ConnectionError string
  | OSError string
  | RobotsPolicyError string
  | IntegrityError string
  | PendingRollbackError string
  | OperationalError string
  | DBAPIError string
  | NoResultFound string
  | MultipleResultsFound string
  | LLMProviderError string
  | LLMProviderTimeoutError string
  | LLMProviderResponseError string
  | StripeGatewayError string
  | StripeSignatureError string
  | SoftTimeLimitExceeded string
  | HTTPException nat string
  | OtherException string

text \<open>The text \<open>str(exc)\<close> of an exception.\<close>

fun exn_text :: "exn \<Rightarrow> string" where
  "exn_text (TypeError s) = s"
| "exn_text (ValueError s) = s"
| "exn_text (AssertionError s) = s"
| "exn_text (ScoreEngineInputError s) = s"
| "exn_text (OverflowError s) = s"
| "exn_text (ZeroDivisionError s) = s"
| "exn_text (InvalidOperation s) = s"
| "exn_text (KeyError s) = s"
| "exn_text (IndexError s) = s"
| "exn_text (AttributeError s) = s"
| "exn_text (RuntimeError s) = s"
| "exn_text (TimeoutError s) = s"
| "exn_text (ConnectionError s) = s"
| "exn_text (OSError s) = s"
| "exn_text (RobotsPolicyError s) = s"
| "exn_text (IntegrityError s) = s"
| "exn_text (PendingRollbackError s) = s"
| "exn_text (OperationalError s) = s"
| "exn_text (DBAPIError s) = s"
| "exn_text (NoResultFound s) = s"
| "exn_text (MultipleResultsFound s) = s"
| "exn_text (LLMProviderError s) = s"
| "exn_text (LLMProviderTimeoutError s) = s"
| "exn_text (LLMProviderResponseError s) = s"
| "exn_text (StripeGatewayError s) = s"
| "exn_text (StripeSignatureError s) = s"
| "exn_text (SoftTimeLimitExceeded s) = s"
| "exn_text (HTTPException _ s) = s"
| "exn_text (OtherException s) = s"

section \<open>Results\<close>

type_synonym 'a result = "exn + 'a"

definition bindR :: "'e + 'a \<Rightarrow> ('a \<Rightarrow> 'e + 'b) \<Rightarrow> 'e + 'b" where
  "bindR r f = (case r of Inl e \<Rightarrow> Inl e | Inr x \<Rightarrow> f x)"

lemma bindR_simps [simp, result_simps]:
  "bindR (Inl e) f = Inl e"
  "bindR (Inr x) f = f x"
  by (simp_all add: bindR_def)

lemma bindR_eq_Inr [result_simps]: "bindR r f = Inr y \<longleftrightarrow> (\<exists>x. r = Inr x \<and> f x = Inr y)"
  by (cases r) simp_all

lemma bindR_eq_Inl [result_simps]:
  "bindR r f = Inl e \<longleftrightarrow> r = Inl e \<or> (\<exists>x. r = Inr x \<and> f x = Inl e)"
  by (cases r) simp_all

lemma bindR_cong [fundef_cong]:
  "r = r' \<Longrightarrow> (\<And>x. r' = Inr x \<Longrightarrow> f x = g x) \<Longrightarrow> bindR r f = bindR r' g"
  by (cases r') simp_all

lemma bindR_Inr_right [simp]: "bindR r Inr = r"
  by (cases r) simp_all

lemma bindR_assoc: "bindR (bindR r f) g = bindR r (\<lambda>x. bindR (f x) g)"
  by (cases r) simp_all

text \<open>A loop that stops at the first exception and collects the results.\<close>

fun mapR :: "('a \<Rightarrow> 'e + 'b) \<Rightarrow> 'a list \<Rightarrow> 'e + 'b list" where
  "mapR f [] = Inr []"
| "mapR f (x # xs) = bindR (f x) (\<lambda>y. bindR (mapR f xs) (\<lambda>ys. Inr (y # ys)))"

lemma mapR_eq: "(\<And>x. x \<in> set xs \<Longrightarrow> f x = g x) \<Longrightarrow> mapR f xs = mapR g xs"
  by (induction xs) simp_all

lemma mapR_cong [fundef_cong]:
  "xs = ys \<Longrightarrow> (\<And>x. x \<in> set ys \<Longrightarrow> f x = g x) \<Longrightarrow> mapR f xs = mapR g ys"
  using mapR_eq by blast

lemma mapR_Inr_iff: "mapR f xs = Inr ys \<longleftrightarrow> list_all2 (\<lambda>x y. f x = Inr y) xs ys"
  by (induction xs arbitrary: ys) (auto simp: bindR_eq_Inr list_all2_Cons1)

lemma mapR_Inr_length: "mapR f xs = Inr ys \<Longrightarrow> length ys = length xs"
  by (auto simp: mapR_Inr_iff dest: list_all2_lengthD)

lemma mapR_all_Inr: "(\<And>x. x \<in> set xs \<Longrightarrow> f x = Inr (g x)) \<Longrightarrow> mapR f xs = Inr (map g xs)"
  by (induction xs) simp_all

lemma mapR_Inr_mem: "mapR f xs = Inr ys \<Longrightarrow> y \<in> set ys \<Longrightarrow> \<exists>x\<in>set xs. f x = Inr y"
  by (induction xs arbitrary: ys) (auto simp: bindR_eq_Inr)

lemma mapR_Inr_dom: "mapR f xs = Inr ys \<Longrightarrow> x \<in> set xs \<Longrightarrow> \<exists>y\<in>set ys. f x = Inr y"
  by (induction xs arbitrary: ys) (auto simp: bindR_eq_Inr)

lemma mapR_append:
  "mapR f (xs @ ys) = bindR (mapR f xs) (\<lambda>us. bindR (mapR f ys) (\<lambda>vs. Inr (us @ vs)))"
  by (induction xs) (simp_all add: bindR_assoc)

section \<open>Stateful operations with exceptions\<close>

text \<open>
  An operation of a service takes the state and returns its result (or the exception it raises)
  with the state after it. A raise keeps the state changes made so far, as Python does.
\<close>

type_synonym ('s, 'a) op = "'s \<Rightarrow> 'a result \<times> 's"

definition ret :: "'a \<Rightarrow> ('s, 'a) op" where
  "ret x s = (Inr x, s)"

definition raise :: "exn \<Rightarrow> ('s, 'a) op" where
  "raise e s = (Inl e, s)"

definition bindO :: "('s, 'a) op \<Rightarrow> ('a \<Rightarrow> ('s, 'b) op) \<Rightarrow> ('s, 'b) op" where
  "bindO m f s = (case m s of (Inl e, s') \<Rightarrow> (Inl e, s') | (Inr x, s') \<Rightarrow> f x s')"

definition read :: "('s \<Rightarrow> 'a) \<Rightarrow> ('s, 'a) op" where
  "read f s = (Inr (f s), s)"

definition modify :: "('s \<Rightarrow> 's) \<Rightarrow> ('s, unit) op" where
  "modify f s = (Inr (), f s)"

definition lift :: "'a result \<Rightarrow> ('s, 'a) op" where
  "lift r s = (r, s)"

text \<open>\<open>try: m except Exception as e: h e\<close>\<close>

definition catch :: "('s, 'a) op \<Rightarrow> (exn \<Rightarrow> ('s, 'a) op) \<Rightarrow> ('s, 'a) op" where
  "catch m h s = (case m s of (Inl e, s') \<Rightarrow> h e s' | (Inr x, s') \<Rightarrow> (Inr x, s'))"

text \<open>\<open>for x in xs: m x\<close>\<close>

fun forO :: "('a \<Rightarrow> ('s, unit) op) \<Rightarrow> 'a list \<Rightarrow> ('s, unit) op" where
  "forO m [] = ret ()"
| "forO m (x # xs) = bindO (m x) (\<lambda>_. forO m xs)"

text \<open>\<open>[m x for x in xs]\<close>\<close>

fun mapO :: "('a \<Rightarrow> ('s, 'b) op) \<Rightarrow> 'a list \<Rightarrow> ('s, 'b list) op" where
  "mapO m [] = ret []"
| "mapO m (x # xs) = bindO (m x) (\<lambda>y. bindO (mapO m xs) (\<lambda>ys. ret (y # ys)))"

lemmas op_basic = ret_def raise_def bindO_def read_def modify_def lift_def catch_def

lemma op_simps [simp]:
  "ret x s = (Inr x, s)"
  "raise e s = (Inl e, s)"
  "read f s = (Inr (f s), s)"
  "modify g s = (Inr (), g s)"
  "lift r s = (r, s)"
  by (simp_all add: op_basic)

lemma bindO_eq_Inr:
  "bindO m f s = (Inr y, s'') \<longleftrightarrow> (\<exists>x s'. m s = (Inr x, s') \<and> f x s' = (Inr y, s''))"
  by (auto simp: bindO_def split: prod.splits sum.splits)

lemma bindO_Inr: "m s = (Inr x, s') \<Longrightarrow> bindO m f s = f x s'"
  by (simp add: bindO_def)

lemma bindO_Inl: "m s = (Inl e, s') \<Longrightarrow> bindO m f s = (Inl e, s')"
  by (simp add: bindO_def)

lemma bindO_ret [simp]: "bindO (ret x) k s = k x s"
  by (simp add: op_basic)

lemma bindO_raise [simp]: "bindO (raise e) k s = (Inl e, s)"
  by (simp add: op_basic)

lemma bindO_read [simp]: "bindO (read f) k s = k (f s) s"
  by (simp add: op_basic)

lemma bindO_modify [simp]: "bindO (modify f) k s = k () (f s)"
  by (simp add: op_basic)

lemma bindO_lift [simp]: "bindO (lift (Inr x)) k s = k x s"
  by (simp add: op_basic)

lemma bindO_lift_error [simp]: "bindO (lift (Inl e)) k s = (Inl e, s)"
  by (simp add: op_basic)

text \<open>
  \<open>keeps P m\<close>: the operation keeps the state property, whether it returns or raises. One rule
  per combinator, so that a handler's proof is a walk over its code.
\<close>

definition keeps :: "('s \<Rightarrow> bool) \<Rightarrow> ('s, 'a) op \<Rightarrow> bool" where
  "keeps P m \<longleftrightarrow> (\<forall>s. P s \<longrightarrow> P (snd (m s)))"

lemma keepsI: "(\<And>s. P s \<Longrightarrow> P (snd (m s))) \<Longrightarrow> keeps P m"
  by (simp add: keeps_def)

lemma keepsD: "keeps P m \<Longrightarrow> P s \<Longrightarrow> m s = (r, s') \<Longrightarrow> P s'"
  unfolding keeps_def by (metis snd_conv)

lemma keeps_ret [simp, inv_intros]: "keeps P (ret x)"
  by (simp add: keeps_def)

lemma keeps_raise [simp, inv_intros]: "keeps P (raise e)"
  by (simp add: keeps_def)

lemma keeps_read [simp, inv_intros]: "keeps P (read f)"
  by (simp add: keeps_def)

lemma keeps_lift [simp, inv_intros]: "keeps P (lift r)"
  by (simp add: keeps_def)

lemma keeps_modify: "(\<And>s. P s \<Longrightarrow> P (f s)) \<Longrightarrow> keeps P (modify f)"
  by (simp add: keeps_def)

lemma keeps_bindO [inv_intros]: "keeps P m \<Longrightarrow> (\<And>x. keeps P (f x)) \<Longrightarrow> keeps P (bindO m f)"
  unfolding keeps_def bindO_def
  by (simp split: prod.splits sum.splits) (metis snd_conv)

lemma keeps_catch [inv_intros]: "keeps P m \<Longrightarrow> (\<And>e. keeps P (h e)) \<Longrightarrow> keeps P (catch m h)"
  unfolding keeps_def catch_def
  by (simp split: prod.splits sum.splits) (metis snd_conv)

lemma keeps_forO [inv_intros]: "(\<And>x. keeps P (m x)) \<Longrightarrow> keeps P (forO m xs)"
  by (induction xs) (auto intro: keeps_bindO)

lemma keeps_mapO [inv_intros]: "(\<And>x. keeps P (m x)) \<Longrightarrow> keeps P (mapO m xs)"
  by (induction xs) (auto intro!: keeps_bindO)

lemma keeps_If [inv_intros]: "keeps P m \<Longrightarrow> keeps P n \<Longrightarrow> keeps P (if b then m else n)"
  by simp

lemma keeps_case_option [inv_intros]:
  "keeps P m \<Longrightarrow> (\<And>x. keeps P (f x)) \<Longrightarrow> keeps P (case o1 of None \<Rightarrow> m | Some x \<Rightarrow> f x)"
  by (cases o1) simp_all

section \<open>Transactions\<close>

text \<open>
  A database session: what is committed, the working state that the session's flushed writes have
  reached, and whether a failed flush has aborted the transaction. \<open>commit\<close> makes the working
  state permanent; \<open>rollback\<close> drops it. A flush that breaks a constraint of the schema (\<open>ok\<close>)
  raises \<open>IntegrityError\<close>, drops the working state and leaves the session unusable until
  \<open>rollback\<close>: every later statement raises \<open>PendingRollbackError\<close>, as SQLAlchemy does.
\<close>

record 'db txn =
  committed :: 'db
  working :: 'db
  aborted :: bool

definition begin_txn :: "'db \<Rightarrow> 'db txn" where
  "begin_txn d = \<lparr>committed = d, working = d, aborted = False\<rparr>"

definition pending :: exn where
  "pending = PendingRollbackError ''transaction has been rolled back due to a previous exception during flush''"

definition commit :: "('db txn, unit) op" where
  "commit t = (if aborted t then (Inl pending, t) else (Inr (), t\<lparr>committed := working t\<rparr>))"

definition rollback :: "('db txn, unit) op" where
  "rollback t = (Inr (), t\<lparr>working := committed t, aborted := False\<rparr>)"

definition query :: "('db \<Rightarrow> 'a) \<Rightarrow> ('db txn, 'a) op" where
  "query f t = (if aborted t then (Inl pending, t) else (Inr (f (working t)), t))"

definition flush :: "('db \<Rightarrow> bool) \<Rightarrow> ('db \<Rightarrow> 'db) \<Rightarrow> ('db txn, unit) op" where
  "flush ok f t =
     (if aborted t then (Inl pending, t)
      else if ok (f (working t)) then (Inr (), t\<lparr>working := f (working t)\<rparr>)
      else (Inl (IntegrityError ''constraint violated''), t\<lparr>working := committed t, aborted := True\<rparr>))"

text \<open>
  A value that its column cannot hold, a number out of its range or a text longer than its width, makes the statement
  fail before any constraint is checked, with an error of the driver that is no \<open>IntegrityError\<close>.
\<close>

definition fits_columns :: "bool \<Rightarrow> ('db txn, unit) op" where
  "fits_columns fits t =
     (if fits then (Inr (), t)
      else if aborted t then (Inl pending, t)
      else (Inl (DBAPIError ''value out of range''), t\<lparr>working := committed t, aborted := True\<rparr>))"

definition int32 :: "int \<Rightarrow> bool" where
  "int32 n \<longleftrightarrow> - (2 ^ 31) \<le> n \<and> n < 2 ^ 31"

text \<open>
  \<open>rollback\<close> expires every row object of the session, whatever \<open>expire_on_commit\<close> says; reading a column of one
  afterwards, outside an awaited call, fails in an \<open>AsyncSession\<close>.
\<close>

definition greenlet_error :: exn where
  "greenlet_error = OtherException ''greenlet_spawn has not been called; can't call await_only() here. Was IO attempted in an unexpected place?''"

text \<open>A request: the operation on a fresh session, then the session closes.\<close>

definition request :: "('db txn, 'a) op \<Rightarrow> ('db, 'a) op" where
  "request m d = (case m (begin_txn d) of (r, t) \<Rightarrow> (r, committed t))"

lemma txn_simps [simp]:
  "\<not> aborted t \<Longrightarrow> commit t = (Inr (), t\<lparr>committed := working t\<rparr>)"
  "rollback t = (Inr (), t\<lparr>working := committed t, aborted := False\<rparr>)"
  "\<not> aborted t \<Longrightarrow> query f t = (Inr (f (working t)), t)"
  "committed (begin_txn d) = d" "working (begin_txn d) = d" "\<not> aborted (begin_txn d)"
  by (simp_all add: commit_def rollback_def query_def begin_txn_def)

lemma flush_simp [simp]:
  "\<not> aborted t \<Longrightarrow> ok (f (working t)) \<Longrightarrow> flush ok f t = (Inr (), t\<lparr>working := f (working t)\<rparr>)"
  by (simp add: flush_def)

lemma bindO_commit [simp]: "\<not> aborted t \<Longrightarrow> bindO commit k t = k () (t\<lparr>committed := working t\<rparr>)"
  by (simp add: bindO_def)

lemma bindO_query [simp]: "\<not> aborted t \<Longrightarrow> bindO (query f) k t = k (f (working t)) t"
  by (simp add: bindO_def)

lemma bindO_flush [simp]:
  "\<not> aborted t \<Longrightarrow> ok (f (working t)) \<Longrightarrow> bindO (flush ok f) k t = k () (t\<lparr>working := f (working t)\<rparr>)"
  by (simp add: bindO_def)

lemma bindO_fits [simp]: "bindO (fits_columns True) k t = k () t"
  by (simp add: bindO_def fits_columns_def)

lemma bindO_overflow [simp]:
  "\<not> aborted t \<Longrightarrow> bindO (fits_columns False) k t
    = (Inl (DBAPIError ''value out of range''), t\<lparr>working := committed t, aborted := True\<rparr>)"
  by (simp add: bindO_def fits_columns_def)

lemma fits_success: "fits_columns b t = (Inr u, t') \<longleftrightarrow> b \<and> t' = t"
  by (auto simp: fits_columns_def)

lemma flush_success:
  "flush ok f t = (Inr u, t') \<longleftrightarrow> \<not> aborted t \<and> ok (f (working t)) \<and> t' = t\<lparr>working := f (working t)\<rparr>"
  by (auto simp: flush_def)

lemma query_success: "query f t = (Inr x, t') \<longleftrightarrow> \<not> aborted t \<and> x = f (working t) \<and> t' = t"
  by (auto simp: query_def)

lemma commit_success: "commit t = (Inr u, t') \<longleftrightarrow> \<not> aborted t \<and> t' = t\<lparr>committed := working t\<rparr>"
  by (auto simp: commit_def)

lemmas txn_success = fits_success flush_success query_success commit_success bindO_eq_Inr

text \<open>
  \<open>both I\<close> says that the committed and the working state satisfy \<open>I\<close>: what a request has to
  keep so that the database satisfies \<open>I\<close> after it, wherever it stops.
\<close>

definition both :: "('db \<Rightarrow> bool) \<Rightarrow> 'db txn \<Rightarrow> bool" where
  "both I t \<longleftrightarrow> I (committed t) \<and> I (working t)"

lemma keeps_commit [inv_intros]: "keeps (both I) commit"
  by (simp add: keeps_def both_def commit_def)

lemma keeps_rollback [inv_intros]: "keeps (both I) rollback"
  by (simp add: keeps_def both_def rollback_def)

lemma keeps_query [inv_intros]: "keeps (both I) (query f)"
  by (simp add: keeps_def both_def query_def)

lemma keeps_fits [inv_intros]: "keeps (both I) (fits_columns b)"
  by (simp add: keeps_def both_def fits_columns_def)

lemma keeps_flush: "(\<And>d. I d \<Longrightarrow> ok (f d) \<Longrightarrow> I (f d)) \<Longrightarrow> keeps (both I) (flush ok f)"
  by (simp add: keeps_def both_def flush_def)

lemma keeps_flush_ok [inv_intros]: "keeps (both ok) (flush ok f)"
  by (rule keeps_flush)

lemma keeps_bind_query:
  "(\<And>d. I d \<Longrightarrow> keeps (both I) (k (f d))) \<Longrightarrow> keeps (both I) (bindO (query f) k)"
  by (auto simp: keeps_def both_def query_def bindO_def)

lemma keeps_bind_success:
  assumes "keeps P m" and "\<And>x s s'. P s \<Longrightarrow> m s = (Inr x, s') \<Longrightarrow> P s' \<Longrightarrow> P (snd (k x s'))"
  shows "keeps P (bindO m k)"
proof (rule keepsI)
  fix s assume "P s"
  then show "P (snd (bindO m k s))"
    using assms(1) assms(2) [of s] keepsD [OF assms(1) \<open>P s\<close>]
    by (cases "m s"; cases "fst (m s)") (auto simp: bindO_def)
qed

lemma request_keeps: "keeps (both I) m \<Longrightarrow> I d \<Longrightarrow> I (snd (request m d))"
  using keepsD [of "both I" m "begin_txn d"]
  by (auto simp: request_def both_def split: prod.splits)

text \<open>\<open>live I\<close>: the working state of a session that is not aborted satisfies \<open>I\<close>.\<close>

definition live :: "('db \<Rightarrow> bool) \<Rightarrow> 'db txn \<Rightarrow> bool" where
  "live I t \<longleftrightarrow> aborted t \<or> I (working t)"

lemma keeps_live_commit [inv_intros]: "keeps (live I) commit"
  by (simp add: keeps_def live_def commit_def)

lemma keeps_live_query [inv_intros]: "keeps (live I) (query f)"
  by (simp add: keeps_def live_def query_def)

lemma keeps_live_fits [inv_intros]: "keeps (live I) (fits_columns b)"
  by (simp add: keeps_def live_def fits_columns_def)

lemma keeps_live_flush: "(\<And>d. I d \<Longrightarrow> ok (f d) \<Longrightarrow> I (f d)) \<Longrightarrow> keeps (live I) (flush ok f)"
  by (simp add: keeps_def live_def flush_def)

section \<open>Tables\<close>

text \<open>\<open>UPDATE\<close> of the rows that satisfy a condition, and what a lookup returns after it.\<close>

definition upd_where :: "('a \<Rightarrow> bool) \<Rightarrow> ('a \<Rightarrow> 'a) \<Rightarrow> 'a list \<Rightarrow> 'a list" where
  "upd_where p f xs = map (\<lambda>x. if p x then f x else x) xs"

definition first :: "'a list \<Rightarrow> 'a option" where
  "first xs = (case xs of [] \<Rightarrow> None | x # _ \<Rightarrow> Some x)"

lemma first_simps [simp]: "first [] = None" "first (x # xs) = Some x"
  by (simp_all add: first_def)

lemma first_eq_None [simp]: "first xs = None \<longleftrightarrow> xs = []"
  by (cases xs) simp_all

lemma first_mem: "first xs = Some x \<Longrightarrow> x \<in> set xs"
  by (cases xs) simp_all

lemma set_upd_where: "set (upd_where p f xs) = (\<lambda>x. if p x then f x else x) ` set xs"
  by (simp add: upd_where_def)

lemma list_all_upd_where: "list_all q (upd_where p f xs) \<longleftrightarrow> (\<forall>x\<in>set xs. q (if p x then f x else x))"
  by (auto simp: upd_where_def list_all_iff)

lemma upd_where_map: "(\<And>x. p x \<Longrightarrow> k (f x) = k x) \<Longrightarrow> map k (upd_where p f xs) = map k xs"
  by (simp add: upd_where_def)

lemma upd_where_none: "(\<And>x. x \<in> set xs \<Longrightarrow> \<not> p x) \<Longrightarrow> upd_where p f xs = xs"
  by (simp add: upd_where_def map_idI)

lemma upd_where_idem: "(\<And>x. x \<in> set xs \<Longrightarrow> p x \<Longrightarrow> f x = x) \<Longrightarrow> upd_where p f xs = xs"
  by (simp add: upd_where_def map_idI)

lemma find_mem: "find p xs = Some x \<Longrightarrow> x \<in> set xs \<and> p x"
  by (induction xs) (auto split: if_splits)

lemma find_append: "find p (xs @ ys) = (case find p xs of Some x \<Rightarrow> Some x | None \<Rightarrow> find p ys)"
  by (induction xs) simp_all

text \<open>A row found by a unique key is the row of that key.\<close>

lemma find_unique:
  "distinct (map k xs) \<Longrightarrow> x \<in> set xs \<Longrightarrow> find (\<lambda>y. k y = k x) xs = Some x"
  by (induction xs) (auto simp: rev_image_eqI)

lemma find_upd_unique:
  assumes "distinct (map k xs)" and "find (\<lambda>y. k y = c) xs = Some x" and "k (f x) = c"
  shows "find (\<lambda>y. k y = c) (upd_where (\<lambda>y. k y = c) f xs) = Some (f x)"
  using assms by (induction xs) (auto simp: upd_where_def split: if_splits)

section \<open>Stable sorting\<close>

text \<open>
  \<open>sorted(xs, key=k)\<close> and \<open>ORDER BY\<close> are \<open>sort_key k xs\<close>, which is stable. Where the keys are
  distinct the result does not depend on the order of the input.
\<close>

lemma sort_key_perm:
  fixes k :: "'a \<Rightarrow> 'b::linorder"
  assumes "mset xs = mset ys" and "inj_on k (set xs)"
  shows "sort_key k xs = sort_key k ys"
  using assms by (metis properties_for_sort_key mset_sort sort_key_inj_key_eq sorted_sort_key)

section \<open>Ordered dictionaries\<close>

text \<open>
  A Python dict is an association list in insertion order with distinct keys; assignment keeps
  the place of a key that is already there.
\<close>

type_synonym 'v dict = "(string \<times> 'v) list"

fun dict_set :: "string \<Rightarrow> 'v \<Rightarrow> 'v dict \<Rightarrow> 'v dict" where
  "dict_set k v [] = [(k, v)]"
| "dict_set k v ((k', v') # d) = (if k = k' then (k, v) # d else (k', v') # dict_set k v d)"

abbreviation dict_get :: "'v dict \<Rightarrow> string \<Rightarrow> 'v option" where
  "dict_get d k \<equiv> map_of d k"

lemma dict_get_set [simp]: "dict_get (dict_set k v d) k' = (if k' = k then Some v else dict_get d k')"
  by (induction d) auto

lemma fst_dict_set: "fst ` set (dict_set k v d) = insert k (fst ` set d)"
  by (induction d rule: dict_set.induct [of _ k v]) (simp_all add: insert_commute)

lemma distinct_dict_set: "distinct (map fst d) \<Longrightarrow> distinct (map fst (dict_set k v d))"
  by (induction d) (auto simp: fst_dict_set dest: image_eqI [of _ fst])

section \<open>State machines\<close>

text \<open>
  The contract of a component whose operations are events: a step function and an invariant that
  the initial states have and every step keeps. The client's lemma is that every run keeps it.
\<close>

locale state_machine =
  fixes step :: "'e \<Rightarrow> 's \<Rightarrow> 's"
    and init :: "'s \<Rightarrow> bool"
    and inv :: "'s \<Rightarrow> bool"
  assumes init_inv: "init s \<Longrightarrow> inv s"
    and step_inv: "inv s \<Longrightarrow> inv (step e s)"
begin

lemma run_inv: "inv s \<Longrightarrow> inv (fold step es s)"
  by (induction es arbitrary: s) (auto intro: step_inv)

lemma reachable_inv: "init s \<Longrightarrow> inv (fold step es s)"
  by (rule run_inv) (rule init_inv)

end

text \<open>
  A machine that refines an abstract one: the abstraction of a step is the abstract step.
\<close>

locale refined_machine = state_machine step init inv
  for step :: "'e \<Rightarrow> 's \<Rightarrow> 's" and init :: "'s \<Rightarrow> bool" and inv :: "'s \<Rightarrow> bool" +
  fixes abs :: "'s \<Rightarrow> 'a" and astep :: "'e \<Rightarrow> 'a \<Rightarrow> 'a"
  assumes step_refines: "inv s \<Longrightarrow> abs (step e s) = astep e (abs s)"
begin

lemma run_refines: "inv s \<Longrightarrow> abs (fold step es s) = fold astep es (abs s)"
  by (induction es arbitrary: s) (simp_all add: step_refines step_inv)

end

end
