(* ===== verification/Py_Num.thy ===== *)
theory Py_Num
  imports Prelude
begin

text \<open>
  Python's two inexact number types, computed on exact rationals. A finite \<open>float\<close> is the
  rational it denotes, and an arithmetic operation is the exact one followed by \<open>fl\<close>, which
  rounds to the nearest IEEE binary64 value, ties to even (subnormals included; the sign of
  zero is dropped). A \<open>decimal.Decimal\<close> operation is the exact one followed by \<open>d28\<close>, the
  default context: 28 significant digits, ties to even. \<open>quantize2\<close> is
  \<open>quantize(Decimal("0.01"), ROUND_HALF_UP)\<close> and \<open>py_round\<close> the builtin \<open>round(x, n)\<close>.
  The locale \<open>rounding\<close> states what the clients need of all of them.
\<close>

section \<open>Rounding to integers\<close>

definition rhe :: "rat \<Rightarrow> int" where
  "rhe x = (let f = \<lfloor>x\<rfloor>; r = x - of_int f
            in if r < 1/2 then f else if 1/2 < r then f + 1 else if even f then f else f + 1)"

definition rhu :: "rat \<Rightarrow> int" where
  "rhu x = (if 0 \<le> x then \<lfloor>x + 1/2\<rfloor> else - \<lfloor>1/2 - x\<rfloor>)"

lemma rhe_close: "\<bar>of_int (rhe x) - x\<bar> \<le> 1/2"
  using floor_correct [of x] unfolding rhe_def Let_def by (auto simp: abs_le_iff)

lemma rhe_floor: "\<lfloor>x\<rfloor> \<le> rhe x \<and> rhe x \<le> \<lfloor>x\<rfloor> + 1"
  by (simp add: rhe_def Let_def)

lemma rhe_mono: "x \<le> y \<Longrightarrow> rhe x \<le> rhe y"
proof -
  assume le: "x \<le> y"
  show ?thesis
  proof (cases "\<lfloor>x\<rfloor> = \<lfloor>y\<rfloor>")
    case True
    with le show ?thesis by (simp add: rhe_def Let_def)
  next
    case False
    with floor_mono [OF le] have "\<lfloor>x\<rfloor> + 1 \<le> \<lfloor>y\<rfloor>" by simp
    with rhe_floor [of x] rhe_floor [of y] show ?thesis by linarith
  qed
qed

lemma rhe_of_int [simp]: "rhe (of_int n) = n"
  by (simp add: rhe_def)

lemma rhe_int [simp]: "rhe 0 = 0" "rhe 1 = 1" "rhe (numeral k) = numeral k"
  by (simp_all add: rhe_def)

lemma rhe_neg_half: "\<lfloor>- x\<rfloor> = - \<lfloor>x\<rfloor> - (if x = of_int \<lfloor>x\<rfloor> then 0 else 1)"
  by (simp add: floor_minus ceiling_altdef)

lemma rhe_uminus: "rhe (- x) = - rhe x"
proof (cases "x = of_int \<lfloor>x\<rfloor>")
  case True
  then obtain n where x: "x = of_int n" by blast
  show ?thesis using rhe_of_int [of "- n"] by (simp add: x del: rhe_of_int) simp
next
  case False
  then show ?thesis
    by (auto simp: rhe_def Let_def rhe_neg_half)
qed

lemma floor_half [simp]: "\<lfloor>1/2 :: rat\<rfloor> = 0"
  by (rule floor_unique) simp_all

lemma rhu_close: "\<bar>of_int (rhu x) - x\<bar> \<le> 1/2"
  unfolding rhu_def by (cases "0 \<le> x") (simp_all only: if_True if_False abs_le_iff of_int_minus, linarith+)

lemma rhu_nonneg_iff: "0 \<le> x \<Longrightarrow> 0 \<le> rhu x"
  by (simp add: rhu_def)

lemma rhu_mono: "x \<le> y \<Longrightarrow> rhu x \<le> rhu y"
proof -
  assume le: "x \<le> y"
  consider "0 \<le> x" | "x < 0" "0 \<le> y" | "y < 0" by linarith
  then show ?thesis
  proof cases
    case 1
    with le show ?thesis by (simp add: rhu_def floor_mono)
  next
    case 2
    then have "0 \<le> \<lfloor>1/2 - x\<rfloor>" "0 \<le> \<lfloor>y + 1/2\<rfloor>" by simp_all
    then have "- \<lfloor>1/2 - x\<rfloor> \<le> \<lfloor>y + 1/2\<rfloor>" by linarith
    with 2 show ?thesis by (simp add: rhu_def)
  next
    case 3
    with le show ?thesis by (simp add: rhu_def floor_mono)
  qed
qed

lemma floor_of_int_half: "\<lfloor>of_int n + 1/2 :: rat\<rfloor> = n"
  by (rule floor_unique) simp_all

lemma rhu_of_int [simp]: "rhu (of_int n) = n"
  using floor_of_int_half [of n] floor_of_int_half [of "- n"]
  by (simp add: rhu_def add.commute)

lemma rhu_uminus: "rhu (- x) = - rhu x"
  by (cases "x = 0") (auto simp: rhu_def add.commute)

section \<open>The locale of rounding functions\<close>

text \<open>
  A rounding function is monotone and leaves zero alone. From these two laws the clients get the
  sign of a rounded value and every bound by a value that is itself representable.
\<close>

locale rounding =
  fixes rnd :: "rat \<Rightarrow> rat"
  assumes rnd_mono: "x \<le> y \<Longrightarrow> rnd x \<le> rnd y"
    and rnd_zero: "rnd 0 = 0"
begin

lemma rnd_nonneg: "0 \<le> x \<Longrightarrow> 0 \<le> rnd x"
  using rnd_mono [of 0 x] by (simp add: rnd_zero)

lemma rnd_nonpos: "x \<le> 0 \<Longrightarrow> rnd x \<le> 0"
  using rnd_mono [of x 0] by (simp add: rnd_zero)

lemma rnd_le: "rnd b = b \<Longrightarrow> x \<le> b \<Longrightarrow> rnd x \<le> b"
  using rnd_mono [of x b] by simp

lemma rnd_ge: "rnd b = b \<Longrightarrow> b \<le> x \<Longrightarrow> b \<le> rnd x"
  using rnd_mono [of b x] by simp

end

section \<open>Rounding to a grid\<close>

definition grid :: "(rat \<Rightarrow> int) \<Rightarrow> rat \<Rightarrow> rat \<Rightarrow> rat" where
  "grid r u x = of_int (r (x / u)) * u"

lemma grid_mono:
  assumes "0 < u" and "\<And>a b. a \<le> b \<Longrightarrow> r a \<le> r b" and "x \<le> y"
  shows "grid r u x \<le> grid r u y"
  using assms by (simp add: grid_def divide_right_mono)

lemma grid_fixed:
  assumes "0 < u" and "\<And>n. r (of_int n) = n"
  shows "grid r u (of_int k * u) = of_int k * u"
  using assms by (simp add: grid_def)

text \<open>\<open>Decimal.quantize(Decimal("0.01"), rounding=ROUND_HALF_UP)\<close>, on values.\<close>

definition q2 :: "rat \<Rightarrow> rat" where
  "q2 x = grid rhu (1/100) x"

lemma q2_alt: "q2 x = of_int (rhu (x * 100)) / 100"
  by (simp add: q2_def grid_def)

interpretation quantum: rounding q2
proof
  show "q2 x \<le> q2 y" if "x \<le> y" for x y
    unfolding q2_def by (rule grid_mono) (use that rhu_mono in auto)
  show "q2 0 = 0" by (simp add: q2_alt rhu_def)
qed

lemma q2_cents [simp]: "q2 (of_int c / 100) = of_int c / 100"
  by (simp add: q2_alt)

lemma q2_of_int [simp]: "q2 (of_int n) = of_int n"
proof -
  have "rhu (of_int n * 100) = rhu (of_int (n * 100))" by simp
  then show ?thesis unfolding q2_alt rhu_of_int by simp
qed

lemma q2_idem [simp]: "q2 (q2 x) = q2 x"
  unfolding q2_alt [of x] by simp

lemma q2_numeral [simp]: "q2 0 = 0" "q2 1 = 1" "q2 (numeral k) = numeral k"
  using q2_of_int [of 0] q2_of_int [of 1] q2_of_int [of "numeral k"] by simp_all

lemma q2_uminus: "q2 (- x) = - q2 x"
  by (simp add: q2_alt rhu_uminus)

lemma q2_close: "\<bar>q2 x - x\<bar> \<le> 1/200"
  using rhu_close [of "x * 100"] by (simp add: q2_alt abs_le_iff field_simps)

section \<open>Integer logarithms\<close>

fun nlog :: "nat \<Rightarrow> nat \<Rightarrow> nat" where
  "nlog b n = (if b < 2 \<or> n < b then 0 else Suc (nlog b (n div b)))"

declare nlog.simps [simp del]

lemma nlog_bounds: "2 \<le> b \<Longrightarrow> 0 < n \<Longrightarrow> b ^ nlog b n \<le> n \<and> n < b ^ Suc (nlog b n)"
proof (induction b n rule: nlog.induct)
  case (1 b n)
  show ?case
  proof (cases "n < b")
    case True
    with "1.prems" show ?thesis by (simp add: nlog.simps [of b n])
  next
    case False
    with "1.prems" have pos: "0 < n div b" by (simp add: div_greater_zero_iff)
    with "1.IH" "1.prems" False
    have IH: "b ^ nlog b (n div b) \<le> n div b" "n div b < b ^ Suc (nlog b (n div b))"
      by simp_all
    have "b * b ^ nlog b (n div b) \<le> b * (n div b)" using IH(1) by simp
    moreover have "b * (n div b) \<le> n" by simp
    ultimately have low: "b * b ^ nlog b (n div b) \<le> n" by (rule le_trans)
    have "n < b * b ^ Suc (nlog b (n div b))"
    proof -
      have "n < b * (n div b) + b"
        using "1.prems" by (metis add.commute add_less_cancel_left gr0I mod_less_divisor
            mult_div_mod_eq not_numeral_le_zero)
      also have "\<dots> = b * Suc (n div b)" by simp
      also have "\<dots> \<le> b * b ^ Suc (nlog b (n div b))"
        using IH(2) by (intro mult_le_mono2) simp
      finally show ?thesis .
    qed
    then show ?thesis using low False "1.prems" by (simp add: nlog.simps [of b n])
  qed
qed

definition ilog :: "nat \<Rightarrow> rat \<Rightarrow> int" where
  "ilog b x = (let (p, q) = quotient_of x; e = int (nlog b (nat p)) - int (nlog b (nat q))
               in if of_nat b powi e \<le> x then e else e - 1)"

lemma powi_pos [simp]: "2 \<le> b \<Longrightarrow> (0::rat) < of_nat b powi e"
  by (simp add: zero_less_power_int)

lemma powi_step: "2 \<le> b \<Longrightarrow> (of_nat b :: rat) powi (e + 1) = of_nat b * of_nat b powi e"
  by (subst power_int_add) auto

lemma nlog_rat:
  assumes "2 \<le> b" and "0 < p"
  shows "(of_nat b :: rat) ^ nlog b (nat p) \<le> of_int p
    \<and> (of_int p :: rat) < of_nat b ^ Suc (nlog b (nat p))"
proof -
  have "of_nat (b ^ nlog b (nat p)) \<le> (of_nat (nat p) :: rat)"
    and "(of_nat (nat p) :: rat) < of_nat (b ^ Suc (nlog b (nat p)))"
    using nlog_bounds [OF assms(1), of "nat p"] assms(2)
    by (simp_all only: of_nat_le_iff of_nat_less_iff zero_less_nat_eq)
  moreover have "(of_nat (nat p) :: rat) = of_int p" using assms(2) by simp
  ultimately show ?thesis by (simp only: of_nat_power)
qed

lemma ilog_bounds:
  assumes "2 \<le> b" and "0 < x"
  shows "of_nat b powi ilog b x \<le> x \<and> x < of_nat b powi (ilog b x + 1)"
proof -
  obtain p q where pq: "quotient_of x = (p, q)" by (cases "quotient_of x")
  have q: "0 < q" using pq by (rule quotient_of_denom_pos)
  have x: "x = of_int p / of_int q" using pq by (rule quotient_of_div)
  with assms(2) q have p: "0 < p" by (simp add: zero_less_divide_iff)
  let ?B = "of_nat b :: rat"
  let ?lp = "nlog b (nat p)" and ?lq = "nlog b (nat q)"
  have pB: "?B ^ ?lp \<le> of_int p" "of_int p < ?B ^ Suc ?lp"
    using nlog_rat [OF assms(1) p] by simp_all
  have qB: "?B ^ ?lq \<le> of_int q" "of_int q < ?B ^ Suc ?lq"
    using nlog_rat [OF assms(1) q] by simp_all
  let ?e = "int ?lp - int ?lq"
  have B0: "?B \<noteq> 0" "0 < ?B" using assms(1) by simp_all
  have e_diff: "?B powi ?e = ?B ^ ?lp / ?B ^ ?lq"
    using B0 by (simp add: power_int_diff)
  have up: "x < ?B powi (?e + 1)"
  proof -
    have "x < ?B ^ Suc ?lp / of_int q"
      unfolding x using pB(2) q by (simp add: divide_strict_right_mono)
    also have "\<dots> \<le> ?B ^ Suc ?lp / ?B ^ ?lq"
      using qB(1) B0 q by (intro divide_left_mono) auto
    also have "\<dots> = ?B powi (?e + 1)"
      by (simp add: powi_step [OF assms(1)] e_diff)
    finally show ?thesis .
  qed
  have low: "?B powi (?e - 1) \<le> x"
  proof -
    have "?B powi (?e - 1) = ?B ^ ?lp / ?B ^ Suc ?lq"
      using B0 by (simp add: power_int_diff e_diff)
    also have "\<dots> \<le> ?B ^ ?lp / of_int q"
      using qB(2) B0 q by (intro divide_left_mono) auto
    also have "\<dots> \<le> x"
      unfolding x using pB(1) q by (intro divide_right_mono) auto
    finally show ?thesis .
  qed
  show ?thesis
    using up low by (auto simp: ilog_def pq Let_def)
qed

lemma powi_mono: "2 \<le> b \<Longrightarrow> i \<le> j \<Longrightarrow> (of_nat b :: rat) powi i \<le> of_nat b powi j"
  by (rule power_int_increasing) simp_all

lemma powi_less_cancel: "2 \<le> b \<Longrightarrow> (of_nat b :: rat) powi i < of_nat b powi j \<Longrightarrow> i < j"
  by (meson not_less powi_mono)

lemma ilog_unique:
  assumes "2 \<le> b" and "of_nat b powi e \<le> x" and "x < of_nat b powi (e + 1)"
  shows "ilog b x = e"
proof -
  have x: "0 < x" using powi_pos [OF assms(1), of e] assms(2) by (rule less_le_trans)
  note B = ilog_bounds [OF assms(1) x]
  have "ilog b x < e + 1"
    using B assms(3) powi_less_cancel [OF assms(1)] by (blast intro: le_less_trans)
  moreover have "e < ilog b x + 1"
    using B assms(2) powi_less_cancel [OF assms(1)] by (blast intro: le_less_trans)
  ultimately show ?thesis by simp
qed

lemma ilog_mono:
  assumes "2 \<le> b" and "0 < x" and "x \<le> y"
  shows "ilog b x \<le> ilog b y"
proof -
  have "of_nat b powi ilog b x < (of_nat b :: rat) powi (ilog b y + 1)"
    using ilog_bounds [OF assms(1,2)] ilog_bounds [OF assms(1), of y] assms(2,3) by linarith
  then show ?thesis using powi_less_cancel [OF assms(1)] by fastforce
qed


section \<open>Rounding to a precision\<close>

text \<open>
  \<open>rnd_prec b p m x\<close> rounds to \<open>p\<close> significant digits in base \<open>b\<close>, ties to even, with \<open>b powi m\<close>
  as the least quantum: gradual underflow.
\<close>

definition quantum_exp :: "nat \<Rightarrow> nat \<Rightarrow> int \<Rightarrow> rat \<Rightarrow> int" where
  "quantum_exp b p m x = max (ilog b \<bar>x\<bar> - (int p - 1)) m"

definition rnd_prec :: "nat \<Rightarrow> nat \<Rightarrow> int \<Rightarrow> rat \<Rightarrow> rat" where
  "rnd_prec b p m x = (if x = 0 then 0 else grid rhe (of_nat b powi quantum_exp b p m x) x)"

lemma rnd_prec_0 [simp]: "rnd_prec b p m 0 = 0"
  by (simp add: rnd_prec_def)

lemma rnd_prec_uminus: "rnd_prec b p m (- x) = - rnd_prec b p m x"
  by (simp add: rnd_prec_def grid_def quantum_exp_def rhe_uminus)

text \<open>A power of the base that is a multiple of the quantum stays on its side.\<close>

lemma grid_power_fixed:
  assumes "2 \<le> b" and "q \<le> e"
  shows "grid rhe (of_nat b powi q) (of_nat b powi e) = (of_nat b powi e :: rat)"
proof -
  have "(of_nat b powi e :: rat) = of_nat b powi (e - q) * of_nat b powi q"
    using assms by (subst power_int_add [symmetric]) auto
  also have "(of_nat b powi (e - q) :: rat) = of_int (int b ^ nat (e - q))"
    using assms by (simp add: power_int_nonneg_exp)
  finally show ?thesis
    using grid_fixed [of "of_nat b powi q" rhe "int b ^ nat (e - q)"] assms(1) by simp
qed

lemma rnd_prec_mono_pos:
  assumes b: "2 \<le> b" and p: "1 \<le> p" and x: "0 < x" and le: "x \<le> y"
  shows "rnd_prec b p m x \<le> rnd_prec b p m y"
proof -
  have y: "0 < y" using x le by simp
  let ?B = "of_nat b :: rat"
  let ?qx = "quantum_exp b p m x" and ?qy = "quantum_exp b p m y"
  have mono: "grid rhe (?B powi i) u \<le> grid rhe (?B powi i) v" if "u \<le> v" for i u v
    by (rule grid_mono [OF powi_pos [OF b] _ that]) (rule rhe_mono)
  have ex: "ilog b x \<le> ilog b y" by (rule ilog_mono [OF b x le])
  then have q: "?qx \<le> ?qy" using x y by (simp add: quantum_exp_def)
  show ?thesis
  proof (cases "?qx = ?qy")
    case True
    with x y mono [OF le] show ?thesis by (simp add: rnd_prec_def)
  next
    case False
    with q have less: "?qx < ?qy" by simp
    then have qy: "?qy = ilog b y - (int p - 1)" and exy: "ilog b x < ilog b y"
      using x y by (auto simp: quantum_exp_def split: if_splits)
    let ?e = "ilog b y"
    have qe: "?qy \<le> ?e" "?qx \<le> ?e" using qy p less by simp_all
    have "x < ?B powi (ilog b x + 1)" using ilog_bounds [OF b x] by simp
    also have "\<dots> \<le> ?B powi ?e" using exy by (intro powi_mono [OF b]) simp
    finally have "grid rhe (?B powi ?qx) x \<le> grid rhe (?B powi ?qx) (?B powi ?e)"
      by (intro mono) simp
    also have "\<dots> = ?B powi ?e" by (rule grid_power_fixed [OF b qe(2)])
    also have "\<dots> = grid rhe (?B powi ?qy) (?B powi ?e)"
      by (rule grid_power_fixed [OF b qe(1), symmetric])
    also have "\<dots> \<le> grid rhe (?B powi ?qy) y"
      using ilog_bounds [OF b y] by (intro mono) simp
    finally show ?thesis using x y by (simp add: rnd_prec_def)
  qed
qed

lemma rnd_prec_nonneg: "2 \<le> b \<Longrightarrow> 0 \<le> x \<Longrightarrow> 0 \<le> rnd_prec b p m x"
proof -
  assume b: "2 \<le> b" and x: "0 \<le> x"
  have "0 \<le> rhe (x / of_nat b powi quantum_exp b p m x)"
    using rhe_mono [of 0 "x / of_nat b powi quantum_exp b p m x"] x b by simp
  then show ?thesis using b by (simp add: rnd_prec_def grid_def)
qed

lemma rnd_prec_mono:
  assumes b: "2 \<le> b" and p: "1 \<le> p" and le: "x \<le> y"
  shows "rnd_prec b p m x \<le> rnd_prec b p m y"
proof -
  consider "0 < x" | "y < 0" | "x \<le> 0" "0 \<le> y" using le by linarith
  then show ?thesis
  proof cases
    case 1
    then show ?thesis by (rule rnd_prec_mono_pos [OF b p _ le])
  next
    case 2
    with le have "rnd_prec b p m (- y) \<le> rnd_prec b p m (- x)"
      by (intro rnd_prec_mono_pos [OF b p]) simp_all
    then show ?thesis by (simp add: rnd_prec_uminus)
  next
    case 3
    then have "rnd_prec b p m x \<le> 0"
      using rnd_prec_nonneg [OF b, of "- x"] by (simp add: rnd_prec_uminus)
    moreover have "0 \<le> rnd_prec b p m y" using 3 by (intro rnd_prec_nonneg [OF b])
    ultimately show ?thesis by linarith
  qed
qed

text \<open>A value with at most \<open>p\<close> digits above the least quantum is left alone.\<close>

lemma rnd_prec_exact:
  assumes b: "2 \<le> b" and k: "\<bar>k\<bar> \<le> int b ^ p" and q: "m \<le> q" and p: "1 \<le> p"
  shows "rnd_prec b p m (of_int k * of_nat b powi q) = of_int k * of_nat b powi q"
proof (cases "k = 0")
  case False
  let ?B = "of_nat b :: rat"
  let ?x = "of_int k * ?B powi q"
  have x0: "?x \<noteq> 0" using False b by simp
  have absx: "\<bar>?x\<bar> = of_int \<bar>k\<bar> * ?B powi q" using b by (simp add: abs_mult)
  have up: "\<bar>?x\<bar> \<le> ?B powi (int p + q)"
  proof -
    have "of_int \<bar>k\<bar> \<le> (?B ^ p)" using k
      by (metis of_int_le_iff of_int_of_nat_eq of_int_power)
    then have "\<bar>?x\<bar> \<le> ?B ^ p * ?B powi q"
      unfolding absx using b by (intro mult_right_mono) simp_all
    also have "\<dots> = ?B powi (int p + q)" using b by (subst power_int_add) auto
    finally show ?thesis .
  qed
  show ?thesis
  proof (cases "\<bar>?x\<bar> = ?B powi (int p + q)")
    case True
    let ?q' = "quantum_exp b p m ?x"
    have "ilog b \<bar>?x\<bar> = int p + q"
      unfolding True using b by (intro ilog_unique) (simp_all add: powi_step)
    then have q': "?q' \<le> int p + q" using p q by (simp add: quantum_exp_def)
    have "grid rhe (?B powi ?q') \<bar>?x\<bar> = \<bar>?x\<bar>"
      unfolding True by (rule grid_power_fixed [OF b q'])
    then have "rnd_prec b p m \<bar>?x\<bar> = \<bar>?x\<bar>"
      using x0 by (simp add: rnd_prec_def quantum_exp_def)
    then show ?thesis
      using rnd_prec_uminus [of b p m ?x] by (cases "0 \<le> ?x") (simp_all add: abs_if)
  next
    case False
    with up have less: "\<bar>?x\<bar> < ?B powi (int p + q)" by simp
    have "?B powi ilog b \<bar>?x\<bar> < ?B powi (int p + q)"
      using ilog_bounds [OF b, of "\<bar>?x\<bar>"] x0 less by simp
    then have "ilog b \<bar>?x\<bar> < int p + q" by (rule powi_less_cancel [OF b])
    then have q': "quantum_exp b p m ?x \<le> q" using q by (simp add: quantum_exp_def)
    let ?q' = "quantum_exp b p m ?x"
    have "?x = of_int (k * int b ^ nat (q - ?q')) * ?B powi ?q'"
    proof -
      have "?B powi q = ?B powi (q - ?q') * ?B powi ?q'"
        using b by (subst power_int_add [symmetric]) auto
      also have "?B powi (q - ?q') = ?B ^ nat (q - ?q')"
        using q' by (simp add: power_int_nonneg_exp)
      finally show ?thesis by simp
    qed
    then have "grid rhe (?B powi ?q') ?x = ?x"
      using grid_fixed [of "?B powi ?q'" rhe "k * int b ^ nat (q - ?q')"] b
      by (metis powi_pos rhe_of_int)
    then show ?thesis using x0 by (simp add: rnd_prec_def)
  qed
qed simp

lemma rounding_rnd_prec: "2 \<le> b \<Longrightarrow> 1 \<le> p \<Longrightarrow> rounding (rnd_prec b p m)"
  by unfold_locales (simp_all add: rnd_prec_mono)

section \<open>binary64\<close>

text \<open>\<open>fl\<close> rounds to a multiple of a power of two with 53 bits, at least \<open>2 powi -1074\<close>.\<close>

definition fl :: "rat \<Rightarrow> rat" where
  "fl = rnd_prec 2 53 (- 1074)"

interpretation binary64: rounding fl
  unfolding fl_def by (rule rounding_rnd_prec) simp_all

lemma fl_0 [simp]: "fl 0 = 0"
  by (simp add: fl_def)

lemma fl_scaled: "\<bar>k\<bar> \<le> 2 ^ 53 \<Longrightarrow> -1074 \<le> q \<Longrightarrow> fl (of_int k * 2 powi q) = of_int k * 2 powi q"
  using rnd_prec_exact [of 2 k 53 "- 1074" q] by (simp add: fl_def)

lemma fl_of_int [simp]: "\<bar>k\<bar> \<le> 2 ^ 53 \<Longrightarrow> fl (of_int k) = of_int k"
  using fl_scaled [of k 0] by simp

lemma fl_numeral [simp]: "(numeral k :: int) \<le> 2 ^ 53 \<Longrightarrow> fl (numeral k) = numeral k"
  using fl_of_int [of "numeral k"] by simp

lemma fl_one [simp]: "fl 1 = 1"
  using fl_of_int [of 1] by simp

lemma fl_uminus: "fl (- x) = - fl x"
  by (simp add: fl_def rnd_prec_uminus)

definition fadd :: "rat \<Rightarrow> rat \<Rightarrow> rat" where "fadd a b = fl (a + b)"
definition fmul :: "rat \<Rightarrow> rat \<Rightarrow> rat" where "fmul a b = fl (a * b)"
definition fdiv :: "rat \<Rightarrow> rat \<Rightarrow> rat" where "fdiv a b = fl (a / b)"

text \<open>\<open>round(x, n)\<close> for a finite float: the exact value to \<open>n\<close> decimals, ties to even, as a float.\<close>

definition py_round :: "nat \<Rightarrow> rat \<Rightarrow> rat" where
  "py_round n x = fl (grid rhe (1 / 10 ^ n) x)"

interpretation pyround: rounding "py_round n" for n
proof
  show "py_round n x \<le> py_round n y" if "x \<le> y" for x y
    unfolding py_round_def
    by (intro binary64.rnd_mono grid_mono) (use that rhe_mono in auto)
  show "py_round n 0 = 0" by (simp add: py_round_def grid_def)
qed

text \<open>All the values a Python float can have; \<open>to_float\<close> rounds a rational and overflows.\<close>

datatype pyfloat = PFin rat | PInf | PNInf | PNaN

definition to_float :: "rat \<Rightarrow> pyfloat" where
  "to_float x = (let y = fl x in if 2 ^ 1024 \<le> y then PInf else if y \<le> - (2 ^ 1024) then PNInf
                 else PFin y)"

lemma to_float_of_int [simp]: "\<bar>k\<bar> \<le> 2 ^ 53 \<Longrightarrow> to_float (of_int k) = PFin (of_int k)"
proof -
  assume k: "\<bar>k\<bar> \<le> 2 ^ 53"
  have "of_int \<bar>k\<bar> < (2 ^ 1024 :: rat)"
  proof -
    have "of_int \<bar>k\<bar> \<le> (of_int (2 ^ 53) :: rat)" using k by (simp only: of_int_le_iff)
    also have "\<dots> < 2 ^ 1024" by simp
    finally show ?thesis .
  qed
  then show ?thesis using k by (auto simp: to_float_def Let_def abs_if split: if_splits)
qed

lemma to_float_numeral [simp]:
  "(numeral k :: int) \<le> 2 ^ 53 \<Longrightarrow> to_float (numeral k) = PFin (numeral k)"
  "(numeral k :: int) \<le> 2 ^ 53 \<Longrightarrow> to_float (- numeral k) = PFin (- numeral k)"
  "to_float 0 = PFin 0" "to_float 1 = PFin 1"
  using to_float_of_int [of "numeral k"] to_float_of_int [of "- numeral k"]
    to_float_of_int [of 0] to_float_of_int [of 1]
  by simp_all

fun pf_lt :: "pyfloat \<Rightarrow> pyfloat \<Rightarrow> bool" where
  "pf_lt PNaN _ = False"
| "pf_lt _ PNaN = False"
| "pf_lt (PFin a) (PFin b) = (a < b)"
| "pf_lt PNInf b = (b \<noteq> PNInf)"
| "pf_lt a PInf = (a \<noteq> PInf)"
| "pf_lt _ _ = False"

definition pf_eq :: "pyfloat \<Rightarrow> pyfloat \<Rightarrow> bool" where
  "pf_eq a b \<longleftrightarrow> a \<noteq> PNaN \<and> a = b"

definition pf_le :: "pyfloat \<Rightarrow> pyfloat \<Rightarrow> bool" where
  "pf_le a b \<longleftrightarrow> pf_lt a b \<or> pf_eq a b"

lemma pf_le_fin [simp]: "pf_le (PFin a) (PFin b) \<longleftrightarrow> a \<le> b"
  by (auto simp: pf_le_def pf_eq_def)

lemma pf_trichotomy:
  assumes "a \<noteq> PNaN" and "b \<noteq> PNaN"
  shows "pf_lt a b \<longleftrightarrow> \<not> pf_le b a"
  using assms by (cases a; cases b) (auto simp: pf_le_def pf_eq_def)

section \<open>decimal.Decimal\<close>

text \<open>
  A finite \<open>Decimal\<close> with its coefficient and exponent: \<open>str\<close> shows both, arithmetic depends on
  the value only. \<open>d28\<close> rounds to the default context.
\<close>

datatype dec = Dec (dcoeff: int) (dexp: int)

definition dec_val :: "dec \<Rightarrow> rat" where
  "dec_val d = of_int (dcoeff d) * 10 powi dexp d"

definition d28 :: "rat \<Rightarrow> rat" where
  "d28 = rnd_prec 10 28 (- 1000026)"

interpretation decimal28: rounding d28
  unfolding d28_def by (rule rounding_rnd_prec) simp_all

lemma d28_0 [simp]: "d28 0 = 0"
  by (simp add: d28_def)

lemma d28_scaled:
  "\<bar>k\<bar> \<le> 10 ^ 28 \<Longrightarrow> -1000026 \<le> q \<Longrightarrow> d28 (of_int k * 10 powi q) = of_int k * 10 powi q"
  using rnd_prec_exact [of 10 k 28 "- 1000026" q] by (simp add: d28_def)

lemma d28_cents: "\<bar>k\<bar> \<le> 10 ^ 28 \<Longrightarrow> d28 (of_int k / 100) = of_int k / 100"
proof -
  assume k: "\<bar>k\<bar> \<le> 10 ^ 28"
  have "(10 :: rat) powi - 2 = 1 / 100" by (simp add: power_int_minus)
  with d28_scaled [OF k, of "- 2"] show ?thesis by simp
qed

text \<open>
  \<open>quantize\<close> signals \<open>InvalidOperation\<close> when the coefficient of the result would have more than
  28 digits.
\<close>

definition quantize2 :: "rat \<Rightarrow> rat result" where
  "quantize2 x = (if \<bar>rhu (x * 100)\<bar> < 10 ^ 28 then Inr (q2 x)
                  else Inl (InvalidOperation ''quantize result has too many digits for current context''))"

lemma quantize2_Inr: "quantize2 x = Inr y \<Longrightarrow> y = q2 x"
  by (auto simp: quantize2_def split: if_splits)

lemma quantize2_small: "\<bar>x\<bar> \<le> 10 ^ 20 \<Longrightarrow> quantize2 x = Inr (q2 x)"
proof -
  assume x: "\<bar>x\<bar> \<le> 10 ^ 20"
  have "\<bar>rhu (x * 100)\<bar> \<le> 10 ^ 22"
    using x rhu_mono [of "x * 100" "of_int (10 ^ 22)"] rhu_mono [of "of_int (- (10 ^ 22))" "x * 100"]
    unfolding rhu_of_int by (auto simp: abs_le_iff)
  then show ?thesis by (simp add: quantize2_def)
qed

section \<open>Exactness of a percentage at 28 digits\<close>

lemma grid_close: "0 < u \<Longrightarrow> \<bar>grid rhe u x - x\<bar> \<le> u / 2"
proof -
  assume u: "0 < u"
  have "\<bar>of_int (rhe (x / u)) - x / u\<bar> * u \<le> 1/2 * u"
    by (rule mult_right_mono [OF rhe_close]) (use u in simp)
  moreover have "grid rhe u x - x = (of_int (rhe (x / u)) - x / u) * u"
    using u by (simp add: grid_def left_diff_distrib)
  ultimately show ?thesis using u by (simp add: abs_mult)
qed

lemma rnd_prec_close:
  assumes b: "2 \<le> b" and x: "\<bar>x\<bar> < of_nat b powi (e + 1)" and m: "m \<le> e - (int p - 1)"
  shows "\<bar>rnd_prec b p m x - x\<bar> \<le> of_nat b powi (e - (int p - 1)) / 2"
proof (cases "x = 0")
  case False
  have "of_nat b powi ilog b \<bar>x\<bar> < (of_nat b :: rat) powi (e + 1)"
    using ilog_bounds [OF b, of "\<bar>x\<bar>"] False x by simp
  then have "ilog b \<bar>x\<bar> \<le> e" using powi_less_cancel [OF b] by fastforce
  then have q: "quantum_exp b p m x \<le> e - (int p - 1)" using m by (simp add: quantum_exp_def)
  have "\<bar>rnd_prec b p m x - x\<bar> \<le> of_nat b powi quantum_exp b p m x / 2"
    using grid_close [of "of_nat b powi quantum_exp b p m x" x] False b by (simp add: rnd_prec_def)
  also have "\<dots> \<le> of_nat b powi (e - (int p - 1)) / 2"
    using powi_mono [OF b q] by (rule divide_right_mono) simp
  finally show ?thesis .
qed (use b in simp)

lemma d28_close:
  assumes "\<bar>x\<bar> < 10 powi (e + 1)" and "-1000 \<le> e"
  shows "\<bar>d28 x - x\<bar> \<le> 10 powi (e - 27) / 2"
  using rnd_prec_close [of 10 x e "- 1000026" 28] assms by (simp add: d28_def)

text \<open>
  A division, a multiplication by 100 and a rounding to cents, each at 28 digits: the result is
  the exact quotient rounded half up, for quotients of integers up to \<open>10 ^ 20\<close>.
\<close>

lemma rhu_stable:
  fixes a b :: int
  assumes b: "0 < b" "b \<le> 10 ^ 20" and a: "0 \<le> a" and z: "0 \<le> z"
    and close: "\<bar>z - of_int a / of_int b\<bar> < 1 / 10 ^ 22"
    and tie: "\<And>n. of_int a / of_int b = (of_int n + 1/2 :: rat) \<Longrightarrow> z = of_int a / of_int b"
  shows "rhu z = rhu (of_int a / of_int b)"
proof -
  define y :: rat where "y = of_int a / of_int b"
  define n where "n = \<lfloor>y + 1/2\<rfloor>"
  have y0: "0 \<le> y" using a b by (simp add: y_def)
  have n: "of_int n \<le> y + 1/2" "y + 1/2 < of_int n + 1" unfolding n_def by linarith+
  have by_: "y * of_int b = of_int a" using b by (simp add: y_def)
  have "\<lfloor>z + 1/2\<rfloor> = n"
  proof (cases "y + 1/2 = of_int n")
    case True
    then have "y = of_int (n - 1) + 1/2" by simp
    then have "z = y" using tie [of "n - 1"] by (simp add: y_def)
    then show ?thesis by (simp add: n_def)
  next
    case False
    have b': "(0::rat) < of_int b" "(of_int b :: rat) \<le> 10 ^ 20"
      using b(1) apply simp
      using b(2) by (metis of_int_le_iff of_int_numeral of_int_power)
    define k where "k = 2 * a + b - 2 * b * n"
    have k: "(of_int k :: rat) = 2 * of_int b * (y + 1/2 - of_int n)"
      using by_ by (simp add: k_def algebra_simps)
    have "0 < y + 1/2 - of_int n" using n False by linarith
    then have "(0::rat) < of_int k" using b' by (simp add: k)
    then have "1 \<le> k" by simp
    have "(of_int k :: rat) < of_int (2 * b)" using n b' by (simp add: k)
    then have "k \<le> 2 * b - 1" by simp
    have lo: "1 / (2 * of_int b) \<le> y + 1/2 - of_int n"
      using \<open>1 \<le> k\<close> k b' by (simp add: field_simps)
    have hi: "y + 1/2 - of_int n \<le> 1 - 1 / (2 * of_int b)"
    proof -
      have "(of_int k :: rat) \<le> of_int (2 * b - 1)" using \<open>k \<le> 2 * b - 1\<close> by (simp only: of_int_le_iff)
      then show ?thesis using k b' by (simp add: field_simps)
    qed
    have "(1 :: rat) / 10 ^ 22 < 1 / (2 * of_int b)"
      using b' by (intro divide_strict_left_mono) auto
    then have "of_int n \<le> z + 1/2" "z + 1/2 < of_int n + 1"
      using close lo hi unfolding y_def [symmetric] by linarith+
    then show ?thesis by (intro floor_unique) auto
  qed
  then show ?thesis using z y0 by (simp add: rhu_def n_def y_def)
qed


definition percent28 :: "rat \<Rightarrow> rat" where
  "percent28 t = d28 (d28 t * 100)"

lemma d28_unit: "0 \<le> t \<Longrightarrow> t \<le> 1 \<Longrightarrow> 0 \<le> d28 t \<and> d28 t \<le> 1"
  using decimal28.rnd_nonneg [of t] decimal28.rnd_le [of 1 t] d28_scaled [of 1 0] by simp

lemma percent28_range:
  assumes "0 \<le> t" "t \<le> 1"
  shows "0 \<le> percent28 t \<and> percent28 t \<le> 100"
  using d28_unit [OF assms] decimal28.rnd_nonneg [of "d28 t * 100"]
    decimal28.rnd_le [of 100 "d28 t * 100"] d28_scaled [of 100 0]
  by (simp add: percent28_def)

lemma percent28_close:
  assumes "0 \<le> t" "t \<le> 1"
  shows "\<bar>percent28 t - t * 100\<bar> \<le> 1 / 10 ^ 25"
proof -
  have p: "(10 :: rat) powi - 27 = 1 / 10 ^ 27" "(10 :: rat) powi - 25 = 1 / 10 ^ 25"
    by (simp_all add: power_int_minus field_simps)
  have 1: "\<bar>d28 t - t\<bar> \<le> 1 / 10 ^ 27 / 2"
    using d28_close [of t 0] assms by (simp add: p)
  have 2: "\<bar>d28 (d28 t * 100) - d28 t * 100\<bar> \<le> 1 / 10 ^ 25 / 2"
    using d28_close [of "d28 t * 100" 2] d28_unit [OF assms] by (simp add: p)
  define u :: rat where "u = 1 / 10 ^ 27"
  have u: "1 / 10 ^ 25 = 100 * u" by (simp add: u_def)
  show ?thesis using 1 2 unfolding percent28_def u u_def [symmetric] by linarith
qed

lemma percent28_exact:
  assumes k: "\<bar>k\<bar> \<le> 10 ^ 20"
  shows "percent28 (of_int k / 10 ^ 5) = of_int k / 10 ^ 5 * 100"
proof -
  have p: "(10 :: rat) powi - 5 = 1 / 10 ^ 5" "(10 :: rat) powi - 3 = 1 / 10 ^ 3"
    by (simp_all add: power_int_minus field_simps)
  have "d28 (of_int k / 10 ^ 5) = of_int k / 10 ^ 5"
    using d28_scaled [of k "- 5"] k by (simp add: p)
  moreover have "d28 (of_int k / 10 ^ 3) = of_int k / 10 ^ 3"
    using d28_scaled [of k "- 3"] k by (simp add: p)
  moreover have "of_int k / 10 ^ 5 * 100 = (of_int k / 10 ^ 3 :: rat)" by simp
  ultimately show ?thesis unfolding percent28_def by (simp only:)
qed

lemma q2_percent28:
  fixes a b :: int
  assumes b: "0 < b" "b \<le> 10 ^ 20" and a: "0 \<le> a" "a \<le> b"
  shows "q2 (percent28 (of_int a / of_int b)) = of_int (rhu (of_int (10000 * a) / of_int b)) / 100"
proof -
  let ?t = "of_int a / of_int b :: rat"
  have t: "0 \<le> ?t" "?t \<le> 1" using a b by simp_all
  have "rhu (percent28 ?t * 100) = rhu (of_int (10000 * a) / of_int b)"
  proof (rule rhu_stable [OF b])
    show "0 \<le> 10000 * a" using a by simp
    show "0 \<le> percent28 ?t * 100" using percent28_range [OF t] by simp
    show "\<bar>percent28 ?t * 100 - of_int (10000 * a) / of_int b\<bar> < 1 / 10 ^ 22"
    proof -
      have "percent28 ?t * 100 - of_int (10000 * a) / of_int b = (percent28 ?t - ?t * 100) * 100"
        by (simp add: field_simps)
      then have "\<bar>percent28 ?t * 100 - of_int (10000 * a) / of_int b\<bar> = \<bar>percent28 ?t - ?t * 100\<bar> * 100"
        by (simp only: abs_mult abs_numeral)
      also have "\<dots> \<le> 1 / 10 ^ 25 * 100"
        using percent28_close [OF t] by (rule mult_right_mono) simp
      finally show ?thesis by simp
    qed
  next
    fix n assume "of_int (10000 * a) / of_int b = (of_int n + 1/2 :: rat)"
    then have "?t * 10000 = of_int n + 1/2" by simp
    moreover have "x = 5 * (2 * m + 1) / 100000" if "x * 10000 = m + 1/2" for x m :: rat
    proof -
      have "x = x * 10000 / 10000" by simp
      also have "\<dots> = (m + 1/2) / 10000" by (simp only: that)
      also have "\<dots> = 5 * (2 * m + 1) / 100000" by (simp add: field_simps)
      finally show ?thesis .
    qed
    ultimately have "?t = 5 * (2 * of_int n + 1) / 100000" by blast
    then have t5: "?t = of_int (5 * (2 * n + 1)) / 10 ^ 5" by simp
    have unit: "0 \<le> m \<and> m \<le> 10 ^ 5" if "0 \<le> of_int m / (10 ^ 5 :: rat)" "of_int m / (10 ^ 5 :: rat) \<le> 1" for m
    proof -
      have "of_int 0 \<le> (of_int m :: rat)" "of_int m \<le> (of_int (10 ^ 5) :: rat)"
        using that by (simp_all add: zero_le_divide_iff)
      then show ?thesis by (simp only: of_int_le_iff)
    qed
    have "0 \<le> 5 * (2 * n + 1) \<and> 5 * (2 * n + 1) \<le> 10 ^ 5"
      by (rule unit) (use t in \<open>simp_all only: t5\<close>)
    then have "percent28 ?t = ?t * 100" unfolding t5 by (intro percent28_exact) simp
    then show "percent28 ?t * 100 = of_int (10000 * a) / of_int b" by simp
  qed
  then show ?thesis by (simp add: q2_alt)
qed

end
