(* ===== verification/Py_Value.thy ===== *)
theory Py_Value
  imports Py_Num "HOL-Library.Word"
begin

text \<open>
  Python strings and JSON values, and the builtins the code applies to them: \<open>strip\<close>, \<open>lower\<close>,
  \<open>upper\<close>, \<open>split\<close>, \<open>int()\<close>, \<open>float()\<close>, \<open>str()\<close>, \<open>==\<close>, \<open>in\<close>, \<open>json.dumps\<close>, \<open>str(UUID)\<close> and
  \<open>hashlib.sha256(...).hexdigest()\<close>. A string is a list of code points below 256; case mapping
  and white space are those of ASCII, the alphabet of every key and literal of the program.
\<close>

section \<open>Strings\<close>

definition code :: "char \<Rightarrow> nat" where
  "code c = of_char c"

definition is_space :: "char \<Rightarrow> bool" where
  "is_space c \<longleftrightarrow> (9 \<le> code c \<and> code c \<le> 13) \<or> (28 \<le> code c \<and> code c \<le> 32)"

definition strip :: "string \<Rightarrow> string" where
  "strip s = rev (dropWhile is_space (rev (dropWhile is_space s)))"

definition lower_char :: "char \<Rightarrow> char" where
  "lower_char c = (if 65 \<le> code c \<and> code c \<le> 90 then char_of (code c + 32) else c)"

definition upper_char :: "char \<Rightarrow> char" where
  "upper_char c = (if 97 \<le> code c \<and> code c \<le> 122 then char_of (code c - 32) else c)"

definition lower :: "string \<Rightarrow> string" where
  "lower s = map lower_char s"

definition upper :: "string \<Rightarrow> string" where
  "upper s = map upper_char s"

text \<open>What the simplifier needs to evaluate these on literals.\<close>

lemmas string_eval = strip_def lower_def upper_def lower_char_def upper_char_def is_space_def code_def
  char_of_def bit_0 Let_def

text \<open>\<open>s.split(sep)\<close> for a separator of one character.\<close>

fun split_on :: "char \<Rightarrow> string \<Rightarrow> string list" where
  "split_on sep [] = [[]]"
| "split_on sep (c # cs) = (if c = sep then [] # split_on sep cs
     else (case split_on sep cs of [] \<Rightarrow> [[c]] | w # ws \<Rightarrow> (c # w) # ws))"

text \<open>\<open>sub in s\<close>\<close>

fun is_infix :: "string \<Rightarrow> string \<Rightarrow> bool" where
  "is_infix sub [] = (sub = [])"
| "is_infix sub (c # cs) = (take (length sub) (c # cs) = sub \<or> is_infix sub cs)"

text \<open>\<open>sep.join(xs)\<close>\<close>

fun join :: "string \<Rightarrow> string list \<Rightarrow> string" where
  "join sep [] = []"
| "join sep [x] = x"
| "join sep (x # xs) = x @ sep @ join sep xs"

text \<open>\<open>s.replace(old, new)\<close>\<close>

function replace_str :: "string \<Rightarrow> string \<Rightarrow> string \<Rightarrow> string" where
  "replace_str old new s =
     (if s = [] \<or> old = [] then s
      else if take (length old) s = old then new @ replace_str old new (drop (length old) s)
      else hd s # replace_str old new (tl s))"
  by pat_completeness auto
termination by (relation "measure (\<lambda>(old, new, s). length s)") auto

declare replace_str.simps [simp del]

definition strip_chars :: "string \<Rightarrow> string \<Rightarrow> string" where
  "strip_chars cs s = rev (dropWhile (\<lambda>c. c \<in> set cs) (rev (dropWhile (\<lambda>c. c \<in> set cs) s)))"

definition is_digit :: "char \<Rightarrow> bool" where
  "is_digit c \<longleftrightarrow> 48 \<le> code c \<and> code c \<le> 57"

definition digit_char :: "nat \<Rightarrow> char" where
  "digit_char d = char_of (48 + d)"

fun nat_str :: "nat \<Rightarrow> string" where
  "nat_str n = (if n < 10 then [digit_char n] else nat_str (n div 10) @ [digit_char (n mod 10)])"

declare nat_str.simps [simp del]

definition int_str :: "int \<Rightarrow> string" where
  "int_str i = (if i < 0 then ''-'' @ nat_str (nat (- i)) else nat_str (nat i))"

definition digits_val :: "string \<Rightarrow> nat" where
  "digits_val s = foldl (\<lambda>a c. 10 * a + (code c - 48)) 0 s"

lemma code_char_of [simp]: "n < 256 \<Longrightarrow> code (char_of n) = n"
  by (simp add: code_def)

lemma code_digit_char: "d < 10 \<Longrightarrow> code (digit_char d) = 48 + d"
  by (simp add: digit_char_def)

lemma digits_val_snoc: "digits_val (s @ [c]) = 10 * digits_val s + (code c - 48)"
  by (simp add: digits_val_def)

lemma digits_val_nat_str: "digits_val (nat_str n) = n"
proof (induction n rule: nat_str.induct)
  case (1 n)
  show ?case
  proof (cases "n < 10")
    case True
    then show ?thesis
      by (simp add: nat_str.simps [of n] digits_val_def code_digit_char)
  next
    case False
    with 1 have "digits_val (nat_str (n div 10)) = n div 10" by simp
    with False show ?thesis
      by (simp add: nat_str.simps [of n] digits_val_snoc code_digit_char)
  qed
qed

lemma inj_nat_str: "nat_str m = nat_str n \<longleftrightarrow> m = n"
  by (metis digits_val_nat_str)

lemma nat_str_digits: "c \<in> set (nat_str n) \<Longrightarrow> is_digit c"
proof (induction n rule: nat_str.induct)
  case (1 n)
  then show ?case
    by (cases "n < 10")
      (auto simp: nat_str.simps [of n] is_digit_def code_digit_char)
qed

lemma nat_str_ne [simp]: "nat_str n \<noteq> []"
  by (subst nat_str.simps) simp

lemma int_str_inj: "int_str i = int_str j \<longleftrightarrow> i = j"
proof -
  have minus: "''-'' @ nat_str a \<noteq> nat_str b" for a b
  proof
    assume "''-'' @ nat_str a = nat_str b"
    then have "CHR ''-'' \<in> set (nat_str b)" by (metis append_Cons list.set_intros(1))
    then show False using nat_str_digits [of "CHR ''-''" b]
      by (simp add: is_digit_def code_def)
  qed
  show ?thesis
    using minus by (auto simp: int_str_def inj_nat_str) (metis append_Cons append_Nil)+
qed

section \<open>JSON values\<close>

datatype json =
    JNull
  | JBool bool
  | JInt int
  | JFloat pyfloat
  | JStr string
  | JList "json list"
  | JObj "(string \<times> json) list"

lemma json_list_size [termination_simp]: "x \<in> set xs \<Longrightarrow> size x < Suc (size_list size xs)"
  by (induction xs) auto

lemma json_obj_size [termination_simp]:
  "(k, v) \<in> set d \<Longrightarrow> size v < Suc (size_list (size_prod (\<lambda>_. 0) size) d)"
  by (induction d) auto

subsection \<open>Equality\<close>

text \<open>
  \<open>==\<close>: numbers compare by value across \<open>bool\<close>, \<open>int\<close> and \<open>float\<close>, lists element by element,
  dicts regardless of order. (\<open>NaN\<close> differs from itself, also inside a container.)
\<close>

definition num_val :: "json \<Rightarrow> pyfloat option" where
  "num_val v = (case v of JBool b \<Rightarrow> Some (PFin (if b then 1 else 0)) | JInt n \<Rightarrow> Some (PFin (of_int n))
                | JFloat f \<Rightarrow> Some f | _ \<Rightarrow> None)"

fun py_eq :: "json \<Rightarrow> json \<Rightarrow> bool" where
  "py_eq JNull w = (w = JNull)"
| "py_eq (JStr s) w = (w = JStr s)"
| "py_eq (JList xs) (JList ys) = list_all2 py_eq xs ys"
| "py_eq (JList xs) w = False"
| "py_eq (JObj d) (JObj e) = (length d = length e \<and>
     list_all (\<lambda>(k, v). case dict_get e k of None \<Rightarrow> False | Some w \<Rightarrow> py_eq v w) d)"
| "py_eq (JObj d) w = False"
| "py_eq v w = (case (num_val v, num_val w) of (Some a, Some b) \<Rightarrow> pf_eq a b | _ \<Rightarrow> False)"

definition py_in :: "json \<Rightarrow> json list \<Rightarrow> bool" where
  "py_in x xs \<longleftrightarrow> (\<exists>y \<in> set xs. py_eq x y)"

subsection \<open>\<open>repr\<close> and \<open>str\<close>\<close>

text \<open>The shortest decimal that reads back as the float: at most 17 digits, the nearest of them.\<close>

fun shortest :: "nat \<Rightarrow> nat \<Rightarrow> rat \<Rightarrow> int \<times> int" where
  "shortest 0 n x = (\<lfloor>x\<rfloor>, 0)"
| "shortest (Suc fuel) n x =
     (let e = ilog 10 x - int n + 1; u = 10 powi e; lo = \<lfloor>x / u\<rfloor>; hi = lo + 1;
          okl = (fl (of_int lo * u) = x); okh = (fl (of_int hi * u) = x);
          dl = x - of_int lo * u; dh = of_int hi * u - x
      in if okl \<and> okh then (if dl < dh \<or> dl = dh \<and> even lo then (lo, e) else (hi, e))
         else if okl then (lo, e) else if okh then (hi, e) else shortest fuel (Suc n) x)"

definition zeros :: "int \<Rightarrow> string" where
  "zeros n = replicate (nat n) (CHR ''0'')"

definition strip_zeros :: "string \<Rightarrow> string" where
  "strip_zeros s = rev (dropWhile (\<lambda>c. c = CHR ''0'') (rev s))"

definition pos_float_repr :: "rat \<Rightarrow> string" where
  "pos_float_repr x =
     (let (d, e) = shortest 17 1 x; full = nat_str (nat d); ds = strip_zeros full;
          k = int (length ds); p = e + int (length full)
      in if -4 < p \<and> p \<le> 16 then
           (if p \<le> 0 then ''0.'' @ zeros (- p) @ ds
            else if k \<le> p then ds @ zeros (p - k) @ ''.0''
            else take (nat p) ds @ ''.'' @ drop (nat p) ds)
         else
           (let m = take 1 ds @ (if k = 1 then [] else ''.'' @ drop 1 ds); x10 = p - 1;
                es = nat_str (nat \<bar>x10\<bar>)
            in m @ ''e'' @ (if x10 < 0 then ''-'' else ''+'') @
               (if length es < 2 then ''0'' @ es else es)))"

fun float_repr :: "pyfloat \<Rightarrow> string" where
  "float_repr PNaN = ''nan''"
| "float_repr PInf = ''inf''"
| "float_repr PNInf = ''-inf''"
| "float_repr (PFin x) = (if x = 0 then ''0.0'' else if x < 0 then ''-'' @ pos_float_repr (- x)
                          else pos_float_repr x)"

definition hex_char :: "nat \<Rightarrow> char" where
  "hex_char d = (if d < 10 then char_of (48 + d) else char_of (87 + d))"

fun hex_str :: "nat \<Rightarrow> nat \<Rightarrow> string" where
  "hex_str 0 n = []"
| "hex_str (Suc k) n = hex_str k (n div 16) @ [hex_char (n mod 16)]"

definition repr_char :: "char \<Rightarrow> char \<Rightarrow> string" where
  "repr_char q c =
     (if c = q \<or> code c = 92 then [char_of (92::nat), c]
      else if code c = 9 then [char_of (92::nat), CHR ''t'']
      else if code c = 10 then [char_of (92::nat), CHR ''n'']
      else if code c = 13 then [char_of (92::nat), CHR ''r'']
      else if code c < 32 \<or> code c = 127 then char_of (92::nat) # CHR ''x'' # hex_str 2 (code c)
      else [c])"

definition str_repr :: "string \<Rightarrow> string" where
  "str_repr s = (let q = (if char_of (39::nat) \<in> set s \<and> CHR 0x22 \<notin> set s then CHR 0x22 else char_of (39::nat))
                 in [q] @ concat (map (repr_char q) s) @ [q])"

fun py_repr :: "json \<Rightarrow> string" where
  "py_repr JNull = ''None''"
| "py_repr (JBool b) = (if b then ''True'' else ''False'')"
| "py_repr (JInt n) = int_str n"
| "py_repr (JFloat f) = float_repr f"
| "py_repr (JStr s) = str_repr s"
| "py_repr (JList xs) = ''['' @ join '', '' (map py_repr xs) @ '']''"
| "py_repr (JObj d) = ''{'' @ join '', '' (map (\<lambda>(k, v). str_repr k @ '': '' @ py_repr v) d) @ ''}''"

definition py_str :: "json \<Rightarrow> string" where
  "py_str v = (case v of JStr s \<Rightarrow> s | _ \<Rightarrow> py_repr v)"

lemma py_str_JStr [simp]: "py_str (JStr s) = s"
  by (simp add: py_str_def)

text \<open>\<open>bool(v)\<close>\<close>

definition truthy :: "json \<Rightarrow> bool" where
  "truthy v = (case v of JNull \<Rightarrow> False | JBool b \<Rightarrow> b | JInt n \<Rightarrow> n \<noteq> 0 | JFloat f \<Rightarrow> f \<noteq> PFin 0
               | JStr s \<Rightarrow> s \<noteq> [] | JList xs \<Rightarrow> xs \<noteq> [] | JObj d \<Rightarrow> d \<noteq> [])"

subsection \<open>\<open>int()\<close> and \<open>float()\<close>\<close>

text \<open>Digits, with single underscores between them: what is read and the rest.\<close>

fun take_digits :: "string \<Rightarrow> string \<times> string" where
  "take_digits [] = ([], [])"
| "take_digits (c # cs) =
     (if \<not> is_digit c then ([], c # cs)
      else (case cs of
              u # d # r \<Rightarrow> (if u = CHR ''_'' \<and> is_digit d
                then (let (ds, r') = take_digits (d # r) in (c # ds, r'))
                else (let (ds, r') = take_digits cs in (c # ds, r')))
            | _ \<Rightarrow> (let (ds, r') = take_digits cs in (c # ds, r'))))"

definition take_sign :: "string \<Rightarrow> int \<times> string" where
  "take_sign s = (case s of [] \<Rightarrow> (1, [])
                  | c # cs \<Rightarrow> (if c = CHR ''-'' then (-1, cs) else if c = CHR ''+'' then (1, cs) else (1, s)))"

definition int_of_str :: "string \<Rightarrow> int result" where
  "int_of_str s0 =
     (let (sg, s) = take_sign (strip s0); (ds, r) = take_digits s
      in if ds \<noteq> [] \<and> r = [] then Inr (sg * int (digits_val ds))
         else Inl (ValueError (''invalid literal for int() with base 10: '' @ str_repr s0)))"

definition take_exp :: "string \<Rightarrow> (int \<times> string) option" where
  "take_exp s = (case s of [] \<Rightarrow> Some (0, [])
     | c # cs \<Rightarrow> (if c = CHR ''e'' \<or> c = CHR ''E''
         then (let (sg, s1) = take_sign cs; (ds, r) = take_digits s1
               in if ds = [] then None else Some (sg * int (digits_val ds), r))
         else Some (0, s)))"

definition take_frac :: "string \<Rightarrow> string \<times> string" where
  "take_frac s = (case s of [] \<Rightarrow> ([], []) | c # cs \<Rightarrow> (if c = CHR ''.'' then take_digits cs else ([], s)))"

definition float_of_str :: "string \<Rightarrow> pyfloat result" where
  "float_of_str s0 =
     (let bad = Inl (ValueError (''could not convert string to float: '' @ str_repr s0));
          (sg, s) = take_sign (strip s0)
      in if lower s = ''inf'' \<or> lower s = ''infinity'' then Inr (if sg < 0 then PNInf else PInf)
         else if lower s = ''nan'' then Inr PNaN
         else (let (ds, r) = take_digits s; (fs, r') = take_frac r
               in if ds = [] \<and> fs = [] then bad
                  else (case take_exp r' of
                          Some (x, []) \<Rightarrow> Inr (to_float (of_int (sg * int (digits_val (ds @ fs)))
                                                * 10 powi (x - int (length fs))))
                        | _ \<Rightarrow> bad)))"

definition type_name :: "json \<Rightarrow> string" where
  "type_name v = (case v of JNull \<Rightarrow> ''NoneType'' | JBool _ \<Rightarrow> ''bool'' | JInt _ \<Rightarrow> ''int''
     | JFloat _ \<Rightarrow> ''float'' | JStr _ \<Rightarrow> ''str'' | JList _ \<Rightarrow> ''list'' | JObj _ \<Rightarrow> ''dict'')"

fun py_float :: "json \<Rightarrow> pyfloat result" where
  "py_float (JBool b) = Inr (PFin (if b then 1 else 0))"
| "py_float (JInt n) = (case to_float (of_int n) of PFin x \<Rightarrow> Inr (PFin x)
                        | _ \<Rightarrow> Inl (OverflowError ''int too large to convert to float''))"
| "py_float (JFloat f) = Inr f"
| "py_float (JStr s) = float_of_str s"
| "py_float v = Inl (TypeError (''float() argument must be a string or a real number, not ''
                     @ str_repr (type_name v)))"

fun int_of_float :: "pyfloat \<Rightarrow> int result" where
  "int_of_float PNaN = Inl (ValueError ''cannot convert float NaN to integer'')"
| "int_of_float PInf = Inl (OverflowError ''cannot convert float infinity to integer'')"
| "int_of_float PNInf = Inl (OverflowError ''cannot convert float infinity to integer'')"
| "int_of_float (PFin x) = Inr (if 0 \<le> x then \<lfloor>x\<rfloor> else - \<lfloor>- x\<rfloor>)"

fun py_int :: "json \<Rightarrow> int result" where
  "py_int (JBool b) = Inr (if b then 1 else 0)"
| "py_int (JInt n) = Inr n"
| "py_int (JFloat f) = int_of_float f"
| "py_int (JStr s) = int_of_str s"
| "py_int v = Inl (TypeError (''int() argument must be a string, a bytes-like object or a real number, not ''
                   @ str_repr (type_name v)))"

lemma py_float_int [simp]: "\<bar>n\<bar> \<le> 2 ^ 53 \<Longrightarrow> py_float (JInt n) = Inr (PFin (of_int n))"
  by simp

end
