(* ===== verification/Settings.thy ===== *)
theory Settings
  imports Py_Value
begin

text \<open>
  The configuration, \<open>src/app/core/config\<close>: the fields that the modelled code reads, their
  defaults in each environment, the parsing of the list-valued variables, the production checks,
  and \<open>get_settings\<close>. The environment variables are a function that overrides defaults.
\<close>

record settings =
  app_env :: string
  jwt_secret_key :: string
  jwt_algorithm :: string
  jwt_access_token_expire_minutes :: int
  jwt_refresh_token_expire_minutes :: int
  score_algorithm_version :: string
  roadmap_schema_version :: string
  score_task_max_retries :: int
  roadmap_task_max_retries :: int
  ingestion_task_max_retries :: int
  ingestion_retry_backoff_base_seconds :: int
  llm_provider :: string
  openai_api_key :: "string option"
  openai_model :: string
  anthropic_model :: string
  pro_roadmap_feature_key :: string
  assessment_feature_key :: string
  processing_priority_feature_key :: string
  history_extended_feature_key :: string
  country_comparison_feature_key :: string
  free_assessment_monthly_limit :: int
  pro_plan_code :: string
  free_plan_code :: string
  pro_plan_name :: string
  free_plan_name :: string
  stripe_secret_key :: "string option"
  stripe_webhook_secret :: "string option"
  stripe_pro_price_id :: "string option"
  ingestion_internal_token :: "string option"
  ingestion_user_agent :: string
  ingestion_enforce_robots :: bool
  ingestion_bronze_bucket :: string
  ingestion_local_fallback_dir :: string
  ingestion_gateway_max_retries :: int
  ingestion_gateway_base_backoff_seconds :: rat
  ingestion_quarantine_after_failures :: int
  ingestion_quarantine_hours :: int
  cors_origins :: "string list"
  trusted_hosts :: "string list"
  admin_emails :: "string list"
  auth_rate_limit_requests :: int
  auth_rate_limit_window_seconds :: int
  creation_rate_limit_requests :: int
  creation_rate_limit_window_seconds :: int
  rate_limit_fail_open :: bool
  llm_circuit_breaker_failure_threshold :: int
  llm_circuit_breaker_recovery_seconds :: int
  force_https_redirect :: bool

definition base_defaults :: settings where
  "base_defaults = \<lparr>
     app_env = ''dev'',
     jwt_secret_key = ''change-me'',
     jwt_algorithm = ''HS256'',
     jwt_access_token_expire_minutes = 30,
     jwt_refresh_token_expire_minutes = 60 * 24 * 7,
     score_algorithm_version = ''score-engine-v1'',
     roadmap_schema_version = ''roadmap.v1'',
     score_task_max_retries = 3,
     roadmap_task_max_retries = 3,
     ingestion_task_max_retries = 3,
     ingestion_retry_backoff_base_seconds = 2,
     llm_provider = ''openai'',
     openai_api_key = None,
     openai_model = ''gpt-4o-mini'',
     anthropic_model = ''claude-3-5-sonnet-latest'',
     pro_roadmap_feature_key = ''roadmap.pro'',
     assessment_feature_key = ''assessments.monthly'',
     processing_priority_feature_key = ''processing.priority'',
     history_extended_feature_key = ''history.extended'',
     country_comparison_feature_key = ''countries.comparison'',
     free_assessment_monthly_limit = 3,
     pro_plan_code = ''pro'',
     free_plan_code = ''free'',
     pro_plan_name = ''Pro Monthly'',
     free_plan_name = ''Free'',
     stripe_secret_key = None,
     stripe_webhook_secret = None,
     stripe_pro_price_id = None,
     ingestion_internal_token = None,
     ingestion_user_agent = ''imigrAI-ingestion-bot/1.0'',
     ingestion_enforce_robots = True,
     ingestion_bronze_bucket = ''immigration-bronze'',
     ingestion_local_fallback_dir = ''.cache/ingestion'',
     ingestion_gateway_max_retries = 3,
     ingestion_gateway_base_backoff_seconds = 1 / 2,
     ingestion_quarantine_after_failures = 3,
     ingestion_quarantine_hours = 24,
     cors_origins = [''http://localhost:3000''],
     trusted_hosts = [''localhost'', ''127.0.0.1'', ''testserver''],
     admin_emails = [],
     auth_rate_limit_requests = 10,
     auth_rate_limit_window_seconds = 60,
     creation_rate_limit_requests = 20,
     creation_rate_limit_window_seconds = 60,
     rate_limit_fail_open = True,
     llm_circuit_breaker_failure_threshold = 3,
     llm_circuit_breaker_recovery_seconds = 120,
     force_https_redirect = False\<rparr>"

definition prod_defaults :: settings where
  "prod_defaults = base_defaults\<lparr>force_https_redirect := True\<rparr>"

text \<open>A list-valued variable: a comma-separated string.\<close>

definition parse_string_list :: "string \<Rightarrow> string list" where
  "parse_string_list value =
     map strip (filter (\<lambda>item. strip item \<noteq> []) (split_on (CHR '','') value))"

definition starts_with :: "string \<Rightarrow> string \<Rightarrow> bool" where
  "starts_with p s \<longleftrightarrow> take (length p) s = p"

fun check_origins :: "string list \<Rightarrow> unit result" where
  "check_origins [] = Inr ()"
| "check_origins (origin # origins) =
     (let lower_origin = lower origin
      in if starts_with ''http://localhost'' lower_origin \<or> starts_with ''http://127.0.0.1'' lower_origin
         then Inl (ValueError ''CORS_ORIGINS must not include localhost in production'')
         else if \<not> starts_with ''https://'' lower_origin
         then Inl (ValueError ''CORS_ORIGINS must use HTTPS in production'')
         else check_origins origins)"

definition opt_truthy :: "string option \<Rightarrow> bool" where
  "opt_truthy v \<longleftrightarrow> (case v of None \<Rightarrow> False | Some s \<Rightarrow> s \<noteq> [])"

definition validate_production_security :: "settings \<Rightarrow> settings result" where
  "validate_production_security s =
     (if app_env s \<notin> {''prod'', ''staging''} then Inr s
      else if jwt_secret_key s = ''change-me'' then
        Inl (ValueError ''JWT_SECRET_KEY must be set via secret manager in production'')
      else if \<not> opt_truthy (ingestion_internal_token s) then
        Inl (ValueError ''INGESTION_INTERNAL_TOKEN must be set via secret manager in production'')
      else if ''*'' \<in> set (trusted_hosts s) then
        Inl (ValueError ''TRUSTED_HOSTS cannot contain wildcard in production'')
      else if \<not> force_https_redirect s then
        Inl (ValueError ''FORCE_HTTPS_REDIRECT must be true in production'')
      else bindR (check_origins (cors_origins s)) (\<lambda>_. Inr s))"

text \<open>
  \<open>get_settings\<close>: the environment is read once with the base class, only to learn its name, then
  again with the class of that environment.
\<close>

definition get_settings :: "(settings \<Rightarrow> settings) \<Rightarrow> settings result" where
  "get_settings env =
     bindR (validate_production_security (env base_defaults)) (\<lambda>b.
     if app_env b = ''prod'' then validate_production_security (env prod_defaults)
     else if app_env b = ''staging'' then
       validate_production_security ((env prod_defaults)\<lparr>app_env := ''staging''\<rparr>)
     else validate_production_security (env base_defaults))"

lemma check_origins_https:
  "check_origins os = Inr () \<Longrightarrow> o1 \<in> set os \<Longrightarrow> starts_with ''https://'' (lower o1)"
  by (induction os) (auto simp: Let_def split: if_splits)

definition secure :: "settings \<Rightarrow> bool" where
  "secure s \<longleftrightarrow> jwt_secret_key s \<noteq> ''change-me'' \<and> opt_truthy (ingestion_internal_token s)
     \<and> ''*'' \<notin> set (trusted_hosts s) \<and> force_https_redirect s
     \<and> list_all (\<lambda>o1. starts_with ''https://'' (lower o1)) (cors_origins s)"

lemma validated_secure:
  "validate_production_security s = Inr s' \<Longrightarrow> s' = s \<and> (app_env s \<in> {''prod'', ''staging''} \<longrightarrow> secure s)"
  unfolding validate_production_security_def secure_def list_all_iff
  by (auto simp: bindR_eq_Inr dest: check_origins_https split: if_splits)

section \<open>Properties\<close>

text \<open>
  C40. Settings that load for production or staging are secure: a secret key and an ingestion token
  of their own, no wildcard host, the HTTPS redirect on, and HTTPS origins only.
\<close>

theorem production_settings_secure:
  assumes "get_settings env = Inr s" and "app_env s = ''prod'' \<or> app_env s = ''staging''"
  shows "secure s"
  using assms unfolding get_settings_def
  by (auto simp: bindR_eq_Inr split: if_splits dest!: validated_secure)

definition prod_env :: "settings \<Rightarrow> settings" where
  "prod_env s = s\<lparr>app_env := ''prod'', jwt_secret_key := ''k'', ingestion_internal_token := Some ''t'',
     trusted_hosts := [''api.example''], cors_origins := [''https://example''], force_https_redirect := True\<rparr>"

theorem production_settings_secure_witness: "\<exists>s. get_settings prod_env = Inr s \<and> secure s"
proof -
  have "get_settings prod_env = Inr (prod_env prod_defaults)"
    by (simp add: get_settings_def validate_production_security_def prod_env_def prod_defaults_def
      base_defaults_def opt_truthy_def starts_with_def lower_def lower_char_def code_def)
  from production_settings_secure [OF this] this show ?thesis by (simp add: prod_env_def)
qed

text \<open>
  The default \<open>force_https_redirect = True\<close> of the production class never takes effect: the
  base class is built first and rejects its own default, so a production environment that does
  not set the variable does not start.
\<close>

theorem prod_default_unreachable:
  assumes "app_env (env base_defaults) \<in> {''prod'', ''staging''}"
    and "\<not> force_https_redirect (env base_defaults)"
  shows "\<exists>e. get_settings env = Inl e"
  using assms by (auto simp: get_settings_def validate_production_security_def bindR_eq_Inl)

theorem prod_default_unreachable_witness:
  "\<exists>e. get_settings (\<lambda>s. s\<lparr>app_env := ''prod'', jwt_secret_key := ''k''\<rparr>) = Inl e"
  by (rule prod_default_unreachable) (simp_all add: base_defaults_def)

end
