(* ===== verification/Py_Json.thy ===== *)
theory Py_Json
  imports Py_Value
begin

text \<open>
  \<open>json.dumps\<close> with \<open>ensure_ascii\<close>, \<open>str(UUID)\<close> and SHA-256: what the content hashes of the
  profile, of a rule set and of an extraction are computed from. A UUID is its 128-bit number;
  its canonical text determines it.
\<close>

unbundle bit_operations_syntax

section \<open>\<open>json.dumps\<close>\<close>

definition json_char :: "char \<Rightarrow> string" where
  "json_char c =
     (if code c = 34 \<or> code c = 92 then [char_of (92::nat), c]
      else if code c = 10 then [char_of (92::nat), CHR ''n'']
      else if code c = 13 then [char_of (92::nat), CHR ''r'']
      else if code c = 9 then [char_of (92::nat), CHR ''t'']
      else if code c = 12 then [char_of (92::nat), CHR ''f'']
      else if code c = 8 then [char_of (92::nat), CHR ''b'']
      else if 32 \<le> code c \<and> code c \<le> 126 then [c]
      else char_of (92::nat) # CHR ''u'' # hex_str 4 (code c))"

definition json_string :: "string \<Rightarrow> string" where
  "json_string s = [CHR 0x22] @ concat (map json_char s) @ [CHR 0x22]"

definition json_float :: "pyfloat \<Rightarrow> string" where
  "json_float f = (case f of PNaN \<Rightarrow> ''NaN'' | PInf \<Rightarrow> ''Infinity'' | PNInf \<Rightarrow> ''-Infinity''
                   | PFin x \<Rightarrow> float_repr (PFin x))"

text \<open>\<open>json.dumps(v, sort_keys=srt, ensure_ascii=True, separators=(isep, ksep))\<close>\<close>

fun dumps :: "bool \<Rightarrow> string \<Rightarrow> string \<Rightarrow> json \<Rightarrow> string" where
  "dumps srt isep ksep JNull = ''null''"
| "dumps srt isep ksep (JBool b) = (if b then ''true'' else ''false'')"
| "dumps srt isep ksep (JInt n) = int_str n"
| "dumps srt isep ksep (JFloat f) = json_float f"
| "dumps srt isep ksep (JStr s) = json_string s"
| "dumps srt isep ksep (JList xs) = ''['' @ join isep (map (dumps srt isep ksep) xs) @ '']''"
| "dumps srt isep ksep (JObj d) =
     (let ms = map (\<lambda>(k, v). (k, json_string k @ ksep @ dumps srt isep ksep v)) d
      in ''{'' @ join isep (map snd (if srt then sort_key fst ms else ms)) @ ''}'')"

text \<open>The canonical form that is hashed: sorted keys, no white space.\<close>

definition canonical :: "json \<Rightarrow> string" where
  "canonical v = dumps True '','' '':'' v"

text \<open>\<open>json.dumps(v, ensure_ascii=True)\<close>\<close>

definition dumps_default :: "json \<Rightarrow> string" where
  "dumps_default v = dumps False '', '' '': '' v"

text \<open>The canonical form does not depend on the order in which a dict was built.\<close>

lemma canonical_perm:
  assumes "mset d = mset e" and "distinct (map fst d)"
  shows "canonical (JObj d) = canonical (JObj e)"
proof -
  let ?f = "\<lambda>(k, v). (k, json_string k @ '':'' @ dumps True '','' '':'' v)"
  have "mset (map ?f d) = mset (map ?f e)" using assms(1) by simp
  moreover have "inj_on fst (set (map ?f d))"
  proof -
    have "map fst (map ?f d) = map fst d" by auto
    with assms(2) have "distinct (map fst (map ?f d))" by (simp only:)
    then show ?thesis by (simp only: distinct_map)
  qed
  ultimately have "sort_key fst (map ?f d) = sort_key fst (map ?f e)"
    by (rule sort_key_perm)
  then show ?thesis by (simp add: canonical_def)
qed

section \<open>UUIDs\<close>

type_synonym uuid = nat

definition uuid_str :: "uuid \<Rightarrow> string" where
  "uuid_str u =
     hex_str 8 (u div 16 ^ 24) @ ''-'' @ hex_str 4 (u div 16 ^ 20) @ ''-'' @
     hex_str 4 (u div 16 ^ 16) @ ''-'' @ hex_str 4 (u div 16 ^ 12) @ ''-'' @ hex_str 12 u"

lemma length_hex_str [simp]: "length (hex_str k n) = k"
  by (induction k arbitrary: n) auto

lemma hex_char_inj: "a < 16 \<Longrightarrow> b < 16 \<Longrightarrow> hex_char a = hex_char b \<Longrightarrow> a = b"
proof -
  assume ab: "a < 16" "b < 16" and eq: "hex_char a = hex_char b"
  have c: "code (hex_char n) = (if n < 10 then 48 + n else 87 + n)" if "n < 16" for n
    using that by (simp add: hex_char_def)
  have "code (hex_char a) = code (hex_char b)" using eq by simp
  with ab have "(if a < 10 then 48 + a else 87 + a) = (if b < 10 then 48 + b else 87 + b)"
    by (simp only: c)
  then show ?thesis by (cases "a < 10"; cases "b < 10") simp_all
qed

lemma hex_str_inj: "hex_str k m = hex_str k n \<Longrightarrow> m mod 16 ^ k = n mod 16 ^ k"
proof (induction k arbitrary: m n)
  case (Suc k)
  have "hex_str k (m div 16) = hex_str k (n div 16)" using Suc.prems by simp
  then have 1: "(m div 16) mod 16 ^ k = (n div 16) mod 16 ^ k" by (rule Suc.IH)
  have "hex_char (m mod 16) = hex_char (n mod 16)" using Suc.prems by simp
  then have 2: "m mod 16 = n mod 16" by (intro hex_char_inj) simp_all
  show ?case unfolding power_Suc mod_mult2_eq 1 2 by (rule refl)
qed simp


lemma append_split: "length a = length c \<Longrightarrow> a @ x = c @ y \<longleftrightarrow> a = c \<and> x = y"
  by simp

lemma uuid_str_inj:
  assumes "a < 2 ^ 128" and "b < 2 ^ 128" and eq: "uuid_str a = uuid_str b"
  shows "a = b"
proof -
  let ?m = "\<lambda>k u. u div 16 ^ k :: nat"
  have parts: "hex_str 8 (?m 24 a) = hex_str 8 (?m 24 b)" "hex_str 4 (?m 20 a) = hex_str 4 (?m 20 b)"
    "hex_str 4 (?m 16 a) = hex_str 4 (?m 16 b)" "hex_str 4 (?m 12 a) = hex_str 4 (?m 12 b)"
    "hex_str 12 a = hex_str 12 b"
    using eq unfolding uuid_str_def by (simp_all add: append_split)
  have step: "?m k a mod 16 ^ l = ?m k b mod 16 ^ l \<Longrightarrow> ?m (k + l) a = ?m (k + l) b
      \<Longrightarrow> ?m k a = ?m k b" for k l
    by (metis div_mult2_eq div_mult_mod_eq power_add)
  have top: "?m 32 a = 0" "?m 32 b = 0" using assms(1,2) by simp_all
  have "?m 24 a = ?m 24 b" using step [of 24 8] hex_str_inj [OF parts(1)] top by simp
  then have "?m 20 a = ?m 20 b" using step [of 20 4] hex_str_inj [OF parts(2)] by simp
  then have "?m 16 a = ?m 16 b" using step [of 16 4] hex_str_inj [OF parts(3)] by simp
  then have "?m 12 a = ?m 12 b" using step [of 12 4] hex_str_inj [OF parts(4)] by simp
  then show ?thesis using step [of 0 12] hex_str_inj [OF parts(5)] by simp
qed

text \<open>
  \<open>UUID(s)\<close>: \<open>urn:\<close>, \<open>uuid:\<close>, braces and hyphens are dropped, 32 characters must remain, and
  \<open>int(hex, 16)\<close> reads them (with its sign, prefix and underscores).
\<close>

definition hex_digit :: "char \<Rightarrow> nat option" where
  "hex_digit c = (let n = code c in if 48 \<le> n \<and> n \<le> 57 then Some (n - 48)
     else if 97 \<le> n \<and> n \<le> 102 then Some (n - 87) else if 65 \<le> n \<and> n \<le> 70 then Some (n - 55) else None)"

fun read_hex :: "bool \<Rightarrow> nat \<Rightarrow> string \<Rightarrow> nat option" where
  "read_hex sep acc [] = (if sep then None else Some acc)"
| "read_hex sep acc (c # cs) =
     (if c = CHR ''_'' then (if sep then None else read_hex True acc cs)
      else (case hex_digit c of None \<Rightarrow> None | Some d \<Rightarrow> read_hex False (16 * acc + d) cs))"

definition int16_of_str :: "string \<Rightarrow> int result" where
  "int16_of_str s0 =
     (let bad = Inl (ValueError (''invalid literal for int() with base 16: '' @ str_repr s0));
          (sg, s) = take_sign (strip s0);
          pre = lower (take 2 s) = ''0x'';
          r = (if pre then (if take 1 (drop 2 s) = ''_'' then drop 3 s else drop 2 s) else s)
      in case read_hex True 0 r of None \<Rightarrow> bad | Some n \<Rightarrow> Inr (sg * int n))"

definition uuid_parse :: "string \<Rightarrow> uuid result" where
  "uuid_parse s =
     (let h = replace_str ''-'' [] (strip_chars ''{}'' (replace_str ''uuid:'' [] (replace_str ''urn:'' [] s)))
      in if length h \<noteq> 32 then Inl (ValueError ''badly formed hexadecimal UUID string'')
         else bindR (int16_of_str h) (\<lambda>n.
           if 0 \<le> n then Inr (nat n)
           else Inl (ValueError ''int is out of range (need a 128-bit value)'')))"

section \<open>SHA-256\<close>

type_synonym u32 = "32 word"

definition sha_k :: "u32 list" where
  "sha_k =
    [1116352408, 1899447441, 3049323471, 3921009573, 961987163, 1508970993,
     2453635748, 2870763221, 3624381080, 310598401, 607225278, 1426881987,
     1925078388, 2162078206, 2614888103, 3248222580, 3835390401, 4022224774,
     264347078, 604807628, 770255983, 1249150122, 1555081692, 1996064986,
     2554220882, 2821834349, 2952996808, 3210313671, 3336571891, 3584528711,
     113926993, 338241895, 666307205, 773529912, 1294757372, 1396182291,
     1695183700, 1986661051, 2177026350, 2456956037, 2730485921, 2820302411,
     3259730800, 3345764771, 3516065817, 3600352804, 4094571909, 275423344,
     430227734, 506948616, 659060556, 883997877, 958139571, 1322822218,
     1537002063, 1747873779, 1955562222, 2024104815, 2227730452, 2361852424,
     2428436474, 2756734187, 3204031479, 3329325298]"

definition sha_h0 :: "u32 list" where
  "sha_h0 = [1779033703, 3144134277, 1013904242, 2773480762, 1359893119, 2600822924,
     528734635, 1541459225]"

definition rotr32 :: "nat \<Rightarrow> u32 \<Rightarrow> u32" where
  "rotr32 n x = drop_bit n x OR push_bit (32 - n) x"

text \<open>The schedule holds its words latest first: 64 words from the 16 of a block.\<close>

fun sha_schedule :: "nat \<Rightarrow> u32 list \<Rightarrow> u32 list" where
  "sha_schedule 0 w = w"
| "sha_schedule (Suc k) w =
     (let w15 = w ! 14; w2 = w ! 1;
          s0 = rotr32 7 w15 XOR rotr32 18 w15 XOR drop_bit 3 w15;
          s1 = rotr32 17 w2 XOR rotr32 19 w2 XOR drop_bit 10 w2
      in sha_schedule k ((w ! 15 + s0 + w ! 6 + s1) # w))"

fun sha_round :: "u32 list \<Rightarrow> u32 \<times> u32 \<Rightarrow> u32 list" where
  "sha_round [a, b, c, d, e, f, g, h] (k, w) =
     (let s1 = rotr32 6 e XOR rotr32 11 e XOR rotr32 25 e;
          ch = (e AND f) XOR (NOT e AND g);
          t1 = h + s1 + ch + k + w;
          s0 = rotr32 2 a XOR rotr32 13 a XOR rotr32 22 a;
          maj = (a AND b) XOR (a AND c) XOR (b AND c)
      in [t1 + (s0 + maj), a, b, c, d + t1, e, f, g])"
| "sha_round s _ = s"

definition sha_block :: "u32 list \<Rightarrow> u32 list \<Rightarrow> u32 list" where
  "sha_block hs ws = map2 (+) hs (foldl sha_round hs (zip sha_k (rev (sha_schedule 48 (rev ws)))))"

definition be_word :: "nat list \<Rightarrow> u32" where
  "be_word bs = of_nat (foldl (\<lambda>a b. a * 256 + b) 0 bs)"

fun chunks :: "nat \<Rightarrow> 'a list \<Rightarrow> 'a list list" where
  "chunks n xs = (if n = 0 \<or> xs = [] then [] else take n xs # chunks n (drop n xs))"

declare chunks.simps [simp del]

definition sha_pad :: "nat list \<Rightarrow> nat list" where
  "sha_pad bs = (let n = length bs; z = (119 - n mod 64) mod 64
                 in bs @ [128] @ replicate z 0 @ map (\<lambda>i. (8 * n) div 256 ^ (7 - i) mod 256) [0..<8])"

definition sha256_hex :: "string \<Rightarrow> string" where
  "sha256_hex s =
     (let blocks = chunks 64 (sha_pad (map code s));
          hs = foldl (\<lambda>h b. sha_block h (map be_word (chunks 4 b))) sha_h0 blocks
      in concat (map (\<lambda>w. hex_str 8 (unat w)) hs))"

lemma length_sha_round [simp]: "length s = 8 \<Longrightarrow> length (sha_round s kw) = 8"
  by (cases "(s, kw)" rule: sha_round.cases) (auto simp: Let_def)

lemma length_sha_rounds: "length s = 8 \<Longrightarrow> length (foldl sha_round s kws) = 8"
  by (induction kws arbitrary: s) auto

lemma length_sha_block: "length h = 8 \<Longrightarrow> length (sha_block h ws) = 8"
  by (simp add: sha_block_def length_sha_rounds)

text \<open>A digest has the 64 hexadecimal digits that its columns (\<open>String(64)\<close>) are sized for.\<close>

lemma length_sha256_hex [simp]: "length (sha256_hex s) = 64"
proof -
  have "length (foldl (\<lambda>h b. sha_block h (map be_word (chunks 4 b))) hs bs) = 8"
    if "length hs = 8" for hs bs
    using that by (induction bs arbitrary: hs) (simp_all add: length_sha_block)
  moreover have "length (concat (map (\<lambda>w. hex_str 8 (unat w)) ws)) = 8 * length ws" for ws :: "u32 list"
    by (induction ws) auto
  ultimately show ?thesis by (simp add: sha256_hex_def sha_h0_def)
qed

end
