(* ===== verification/Py_Time.thy ===== *)
theory Py_Time
  imports Py_Value
begin

text \<open>
  Date and time as the code uses them. A \<open>datetime\<close> is its instant: microseconds since
  1970-01-01T00:00:00 UTC, an integer. Every datetime of the program is aware and in UTC
  (\<open>datetime.now(UTC)\<close>, \<open>TIMESTAMP WITH TIME ZONE\<close>), so instants compare as the datetimes do.
  The calendar is the proleptic Gregorian one of \<open>datetime\<close>; the lemmas say that the month
  windows partition the time line.
\<close>

type_synonym time = int
type_synonym date = int

definition usec_per_day :: int where
  "usec_per_day = 86400000000"

section \<open>Calendar\<close>

definition leap :: "int \<Rightarrow> bool" where
  "leap y \<longleftrightarrow> y mod 4 = 0 \<and> (y mod 100 \<noteq> 0 \<or> y mod 400 = 0)"

definition days_before_year :: "int \<Rightarrow> int" where
  "days_before_year y = (let p = y - 1 in p * 365 + p div 4 - p div 100 + p div 400)"

definition month_lengths :: "int \<Rightarrow> int list" where
  "month_lengths y = [31, if leap y then 29 else 28, 31, 30, 31, 30, 31, 31, 30, 31, 30, 31]"

definition days_before_month :: "int \<Rightarrow> int \<Rightarrow> int" where
  "days_before_month y m = sum_list (take (nat (m - 1)) (month_lengths y))"

text \<open>The ordinal of a date: 1 for 0001-01-01.\<close>

definition ordinal :: "int \<Rightarrow> int \<Rightarrow> int \<Rightarrow> date" where
  "ordinal y m d = days_before_year y + days_before_month y m + d"

text \<open>The year of an ordinal and the day of that year, from 0.\<close>

definition year_day :: "date \<Rightarrow> int \<times> int" where
  "year_day n =
     (let z = n - 1; a = z div 146097; r1 = z mod 146097; b = r1 div 36524; r2 = r1 mod 36524;
          c = r2 div 1461; r3 = r2 mod 1461; e = r3 div 365; r4 = r3 mod 365;
          y = 400 * a + 100 * b + 4 * c + e + 1
      in if b = 4 \<or> e = 4 then (y - 1, 365) else (y, r4))"

fun month_scan :: "int \<Rightarrow> int list \<Rightarrow> int \<Rightarrow> int \<times> int" where
  "month_scan m [] d = (m, d + 1)"
| "month_scan m (l # ls) d = (if d < l then (m, d + 1) else month_scan (m + 1) ls (d - l))"

definition ymd :: "date \<Rightarrow> int \<times> int \<times> int" where
  "ymd n = (let (y, d) = year_day n in (y, month_scan 1 (month_lengths y) d))"

definition date_of :: "time \<Rightarrow> date" where
  "date_of t = t div usec_per_day + 719163"

definition time_of_day :: "time \<Rightarrow> int" where
  "time_of_day t = t mod usec_per_day"

text \<open>\<open>datetime(y, m, d, tzinfo=UTC)\<close>\<close>

definition midnight :: "int \<Rightarrow> int \<Rightarrow> int \<Rightarrow> time" where
  "midnight y m d = (ordinal y m d - 719163) * usec_per_day"

definition year :: "time \<Rightarrow> int" where "year t = fst (ymd (date_of t))"
definition month :: "time \<Rightarrow> int" where "month t = fst (snd (ymd (date_of t)))"
definition day :: "time \<Rightarrow> int" where "day t = snd (snd (ymd (date_of t)))"

text \<open>\<open>timedelta(...)\<close>\<close>

definition seconds :: "int \<Rightarrow> int" where "seconds n = n * 1000000"
definition minutes :: "int \<Rightarrow> int" where "minutes n = n * 60000000"
definition hours :: "int \<Rightarrow> int" where "hours n = n * 3600000000"
definition days :: "int \<Rightarrow> int" where "days n = n * usec_per_day"

definition pad0 :: "nat \<Rightarrow> int \<Rightarrow> string" where
  "pad0 k n = (let s = nat_str (nat n) in replicate (k - length s) (CHR ''0'') @ s)"

text \<open>\<open>t.date().isoformat()\<close> and \<open>t.astimezone(UTC).isoformat()\<close>\<close>

definition iso_date :: "date \<Rightarrow> string" where
  "iso_date n = (case ymd n of (y, m, d) \<Rightarrow> pad0 4 y @ ''-'' @ pad0 2 m @ ''-'' @ pad0 2 d)"

definition isoformat :: "time \<Rightarrow> string" where
  "isoformat t =
     (let u = time_of_day t; s = u div 1000000; f = u mod 1000000
      in iso_date (date_of t) @ ''T'' @ pad0 2 (s div 3600) @ '':'' @ pad0 2 (s div 60 mod 60)
         @ '':'' @ pad0 2 (s mod 60) @ (if f = 0 then [] else ''.'' @ pad0 6 f) @ ''+00:00'')"

section \<open>The calendar is consistent\<close>

lemma leap_shift:
  assumes "0 \<le> b" "b \<le> 3" "0 \<le> c" "c \<le> 24" "0 \<le> e" "e \<le> 3"
  shows "leap (400 * a + 100 * b + 4 * c + e + 1) \<longleftrightarrow> e = 3 \<and> (c \<noteq> 24 \<or> b = 3)"
proof -
  let ?y = "400 * a + 100 * b + 4 * c + e + 1"
  have m4: "?y mod 4 = (if e = 3 then 0 else e + 1)"
    using assms by (intro int_mod_pos_eq [of _ _ "100 * a + 25 * b + c + (if e = 3 then 1 else 0)"]) auto
  have m100: "?y mod 100 = (if 4 * c + e = 99 then 0 else 4 * c + e + 1)"
    using assms by (intro int_mod_pos_eq [of _ _ "4 * a + b + (if 4 * c + e = 99 then 1 else 0)"]) auto
  have m400: "?y mod 400 = (if 100 * b + 4 * c + e = 399 then 0 else 100 * b + 4 * c + e + 1)"
    using assms
    by (intro int_mod_pos_eq [of _ _ "a + (if 100 * b + 4 * c + e = 399 then 1 else 0)"]) auto
  have "4 * c + e = 99 \<longleftrightarrow> c = 24 \<and> e = 3"
    using assms by presburger
  moreover from this have "100 * b + 4 * c + e = 399 \<longleftrightarrow> b = 3 \<and> c = 24 \<and> e = 3"
    using assms by linarith
  ultimately show ?thesis unfolding leap_def m4 m100 m400 using assms by auto
qed

lemma days_before_shift:
  assumes "0 \<le> b" "b \<le> 3" "0 \<le> c" "c \<le> 24" "0 \<le> e" "e \<le> 3"
  shows "days_before_year (400 * a + 100 * b + 4 * c + e + 1)
    = 146097 * a + 36524 * b + 1461 * c + 365 * e"
proof -
  let ?p = "400 * a + 100 * b + 4 * c + e"
  have "?p div 4 = 100 * a + 25 * b + c"
    using assms by (intro int_div_pos_eq [of _ _ _ e]) simp_all
  moreover have "?p div 100 = 4 * a + b"
    using assms by (intro int_div_pos_eq [of _ _ _ "4 * c + e"]) simp_all
  moreover have "?p div 400 = a"
    using assms by (intro int_div_pos_eq [of _ _ _ "100 * b + 4 * c + e"]) simp_all
  ultimately show ?thesis unfolding days_before_year_def Let_def by simp
qed

text \<open>The decomposition of an ordinal into 400, 100, 4 and 1 years.\<close>

lemma year_digits:
  fixes z :: int
  assumes "a = z div 146097" "r1 = z mod 146097" "b = r1 div 36524" "r2 = r1 mod 36524"
    "c = r2 div 1461" "r3 = r2 mod 1461" "e = r3 div 365" "q = r3 mod 365"
  shows "z = 146097 * a + 36524 * b + 1461 * c + 365 * e + q"
    and "0 \<le> b" "b \<le> 4" "0 \<le> c" "c \<le> 24" "0 \<le> e" "e \<le> 4" "0 \<le> q" "q < 365"
    and "b = 4 \<Longrightarrow> c = 0 \<and> e = 0 \<and> q = 0" and "e = 4 \<Longrightarrow> q = 0" and "c = 24 \<Longrightarrow> e \<le> 3"
proof -
  have d: "z = 146097 * a + r1" "r1 = 36524 * b + r2" "r2 = 1461 * c + r3" "r3 = 365 * e + q"
    unfolding assms by simp_all
  have r: "0 \<le> r1" "r1 < 146097" "0 \<le> r2" "r2 < 36524" "0 \<le> r3" "r3 < 1461" "0 \<le> q" "q < 365"
    unfolding assms by simp_all
  show "z = 146097 * a + 36524 * b + 1461 * c + 365 * e + q" using d by linarith
  show bd: "0 \<le> b" "b \<le> 4" "0 \<le> c" "c \<le> 24" "0 \<le> e" "e \<le> 4" using d(2-4) r by linarith+
  show "0 \<le> q" "q < 365" by (fact r)+
  show "b = 4 \<Longrightarrow> c = 0 \<and> e = 0 \<and> q = 0" using d(2-4) r bd by linarith
  show "e = 4 \<Longrightarrow> q = 0" using d(4) r by linarith
  show "c = 24 \<Longrightarrow> e \<le> 3" using d(3,4) r by linarith
qed

lemma year_day_correct:
  assumes "year_day n = (y, r)"
  shows "days_before_year y + r = n - 1" and "0 \<le> r" and "r < (if leap y then 366 else 365)"
proof -
  define z where "z = n - 1"
  define a where "a = z div 146097"
  define r1 where "r1 = z mod 146097"
  define b where "b = r1 div 36524"
  define r2 where "r2 = r1 mod 36524"
  define c where "c = r2 div 1461"
  define r3 where "r3 = r2 mod 1461"
  define e where "e = r3 div 365"
  define q where "q = r3 mod 365"
  note defs = a_def r1_def b_def r2_def c_def r3_def e_def q_def
  note dg = year_digits [OF defs]
  have yr: "(if b = 4 \<or> e = 4 then (400 * a + 100 * b + 4 * c + e + 1 - 1, 365)
      else (400 * a + 100 * b + 4 * c + e + 1, q)) = (y, r)"
    using assms unfolding year_day_def Let_def z_def [symmetric] defs [symmetric] .
  consider "b = 4" | "b \<le> 3" "e = 4" | "b \<le> 3" "e \<le> 3" using dg(3,7) by linarith
  then have "days_before_year y + r = z \<and> 0 \<le> r \<and> r < (if leap y then 366 else 365)"
  proof cases
    case 1
    with dg(10) yr have y: "y = 400 * a + 100 * 3 + 4 * 24 + 3 + 1" "r = 365" by auto
    show ?thesis
      using days_before_shift [of 3 24 3 a] leap_shift [of 3 24 3 a] dg(1) 1 dg(10) unfolding y by simp
  next
    case 2
    with yr have y: "y = 400 * a + 100 * b + 4 * c + 3 + 1" "r = 365" by auto
    have "c \<noteq> 24" using dg(12) 2 by auto
    then show ?thesis
      using days_before_shift [of b c 3 a] leap_shift [of b c 3 a] 2 dg(1-5,11) unfolding y by simp
  next
    case 3
    with yr have y: "y = 400 * a + 100 * b + 4 * c + e + 1" "r = q" by auto
    have "days_before_year y = 146097 * a + 36524 * b + 1461 * c + 365 * e"
      unfolding y by (rule days_before_shift) (use 3 dg in simp_all)
    with dg(1,8,9) y show ?thesis by auto
  qed
  then show "days_before_year y + r = n - 1" "0 \<le> r" "r < (if leap y then 366 else 365)"
    by (simp_all add: z_def)
qed

lemma month_scan_correct:
  assumes "month_scan m ls d = (m', d')" and "0 \<le> d" and "d < sum_list ls"
  shows "m \<le> m' \<and> m' < m + int (length ls) \<and> 1 \<le> d' \<and> d' \<le> ls ! nat (m' - m)
    \<and> sum_list (take (nat (m' - m)) ls) + d' = d + 1"
  using assms
proof (induction m ls d rule: month_scan.induct)
  case (2 m l ls d)
  show ?case
  proof (cases "d < l")
    case False
    with 2 have ih: "m + 1 \<le> m'" "m' < m + 1 + int (length ls)" "1 \<le> d'"
      "d' \<le> ls ! nat (m' - (m + 1))"
      "sum_list (take (nat (m' - (m + 1))) ls) + d' = d - l + 1"
      by simp_all
    then have "nat (m' - m) = Suc (nat (m' - (m + 1)))" by linarith
    with ih show ?thesis by simp
  qed (use 2 in auto)
qed simp

lemma length_month_lengths [simp]: "length (month_lengths y) = 12"
  by (simp add: month_lengths_def)

lemma sum_month_lengths: "sum_list (month_lengths y) = (if leap y then 366 else 365)"
  by (simp add: month_lengths_def)

text \<open>The date of an ordinal is a date of the calendar, and it has that ordinal.\<close>

lemma ymd_correct:
  assumes "ymd n = (y, m, d)"
  shows "ordinal y m d = n" and "1 \<le> m" and "m \<le> 12" and "1 \<le> d"
    and "d \<le> month_lengths y ! nat (m - 1)"
proof -
  obtain r where yd: "year_day n = (y, r)" and ms: "month_scan 1 (month_lengths y) r = (m, d)"
    using assms by (auto simp: ymd_def split: prod.splits)
  note y = year_day_correct [OF yd]
  have r: "0 \<le> r" "r < sum_list (month_lengths y)" using y(2,3) by (simp_all add: sum_month_lengths)
  from month_scan_correct [OF ms r] y(1)
  show "ordinal y m d = n" "1 \<le> m" "m \<le> 12" "1 \<le> d" "d \<le> month_lengths y ! nat (m - 1)"
    by (simp_all add: ordinal_def days_before_month_def)
qed

text \<open>The first day after a month is the first day of the next one.\<close>

lemma div_succ:
  fixes y k :: int
  assumes "0 < k"
  shows "y div k = (y - 1) div k + (if y mod k = 0 then 1 else 0)"
proof -
  define q r where "q = (y - 1) div k" and "r = (y - 1) mod k"
  have y: "y = k * q + (r + 1)" using mult_div_mod_eq [of k "y - 1"] by (simp add: q_def r_def)
  have r: "0 \<le> r" "r < k" using assms by (simp_all add: r_def)
  show ?thesis
  proof (cases "r + 1 = k")
    case True
    then have "y = k * (q + 1)" using y by (simp add: distrib_left)
    then have "y div k = q + 1" "y mod k = 0" using assms by simp_all
    then show ?thesis by (simp add: q_def [symmetric])
  next
    case False
    then have "y div k = q" "y mod k = r + 1"
      using r y by (auto intro: int_div_pos_eq int_mod_pos_eq)
    then show ?thesis using r by (simp add: q_def [symmetric])
  qed
qed

lemma days_before_next_year:
  "days_before_year (y + 1) = days_before_year y + (if leap y then 366 else 365)"
proof -
  have d: "y mod 100 = 0 \<Longrightarrow> y mod 4 = 0" "y mod 400 = 0 \<Longrightarrow> y mod 100 = 0"
    using dvd_trans [of "4 :: int" 100 y] dvd_trans [of "100 :: int" 400 y]
    by (simp_all add: dvd_eq_mod_eq_0)
  have "days_before_year (y + 1) = y * 365 + y div 4 - y div 100 + y div 400"
    by (simp add: days_before_year_def)
  moreover have "days_before_year y = (y - 1) * 365 + (y - 1) div 4 - (y - 1) div 100 + (y - 1) div 400"
    by (simp only: days_before_year_def Let_def)
  moreover have "y div 4 = (y - 1) div 4 + (if y mod 4 = 0 then 1 else 0)"
    "y div 100 = (y - 1) div 100 + (if y mod 100 = 0 then 1 else 0)"
    "y div 400 = (y - 1) div 400 + (if y mod 400 = 0 then 1 else 0)"
    by (rule div_succ, simp)+
  ultimately have "days_before_year (y + 1) = days_before_year y + 365 + (if y mod 4 = 0 then 1 else 0)
      - (if y mod 100 = 0 then 1 else 0) + (if y mod 400 = 0 then 1 else 0)"
    by (simp only: left_diff_distrib mult_1)
  then show ?thesis using d unfolding leap_def by (auto simp only: split: if_splits)
qed

lemma days_before_next_month:
  assumes "1 \<le> m" and "m \<le> 12"
  shows "days_before_month y (m + 1) = days_before_month y m + month_lengths y ! nat (m - 1)"
proof -
  have "nat (m + 1 - 1) = Suc (nat (m - 1))" using assms by linarith
  moreover have "nat (m - 1) < length (month_lengths y)" using assms by simp
  ultimately show ?thesis by (simp only: days_before_month_def take_Suc_conv_app_nth) simp
qed

lemma ordinal_next_month:
  assumes "1 \<le> m" and "m \<le> 12"
  shows "(if m = 12 then ordinal (y + 1) 1 1 else ordinal y (m + 1) 1)
    = ordinal y m 1 + month_lengths y ! nat (m - 1)"
proof (cases "m = 12")
  case True
  have "days_before_month y 12 + month_lengths y ! 11 = (if leap y then 366 else 365)"
    by (simp add: days_before_month_def month_lengths_def)
  with True show ?thesis
    by (simp add: ordinal_def days_before_next_year days_before_month_def [of _ 1])
qed (use assms in \<open>simp add: ordinal_def days_before_next_month\<close>)

lemma time_split: "t = (date_of t - 719163) * usec_per_day + time_of_day t"
  by (simp add: date_of_def time_of_day_def)

lemma time_of_day_bounds: "0 \<le> time_of_day t" "time_of_day t < usec_per_day"
  by (simp_all add: time_of_day_def usec_per_day_def)

text \<open>An instant lies between the start of its month and the start of the next month.\<close>

lemma month_window:
  assumes y: "y = year t" and m: "m = month t"
  shows "midnight y m 1 \<le> t"
    and "t < (if m = 12 then midnight (y + 1) 1 1 else midnight y (m + 1) 1)"
proof -
  obtain d where "ymd (date_of t) = (y, m, d)"
    using y m by (cases "ymd (date_of t)") (simp add: year_def month_def)
  note c = ymd_correct [OF this]
  have o1: "ordinal y m 1 = date_of t - d + 1" using c(1) by (simp add: ordinal_def)
  have t: "t = (date_of t - 719163) * usec_per_day + time_of_day t" by (rule time_split)
  have "midnight y m 1 = (date_of t - 719163) * usec_per_day - (d - 1) * usec_per_day"
    by (simp add: midnight_def o1 algebra_simps)
  moreover have "0 \<le> (d - 1) * usec_per_day" using c(4) by (simp add: usec_per_day_def)
  ultimately show "midnight y m 1 \<le> t" using t time_of_day_bounds(1) [of t] by linarith
  have "(if m = 12 then midnight (y + 1) 1 1 else midnight y (m + 1) 1)
      = (ordinal y m 1 + month_lengths y ! nat (m - 1) - 719163) * usec_per_day"
    using ordinal_next_month [OF c(2,3), of y] by (auto simp: midnight_def split: if_splits)
  also have "\<dots> \<ge> (date_of t - 719163 + 1) * usec_per_day"
    using c(5) o1 by (simp add: usec_per_day_def)
  finally have "(date_of t - 719163) * usec_per_day + usec_per_day
      \<le> (if m = 12 then midnight (y + 1) 1 1 else midnight y (m + 1) 1)"
    by (simp add: algebra_simps)
  then show "t < (if m = 12 then midnight (y + 1) 1 1 else midnight y (m + 1) 1)"
    using t time_of_day_bounds(2) [of t] by linarith
qed

end
