(* ===== verification/Engine.thy ===== *)
theory Engine
  imports Py_Json Py_Time
begin

text \<open>
  The score engine, \<open>src/apps/assessments/engine.py\<close>: the profile normalisation, the evaluation of
  the conditions of a rule group, the blocking pass, the scoring pass, the normalisation of the
  raw score to 0..100, and the hash of the rule set. Every exception that a profile or a rule
  set can cause is a branch. The lemmas give the engine's contract: bounds and classification of
  the score, precedence of blocking rules, the audit trail, exactness of the decimal arithmetic,
  and independence of the order in which the rules are read.
\<close>

section \<open>Data\<close>

record rule_condition =
  rc_id :: uuid
  rc_field_key :: string
  rc_operator :: string
  rc_value_json :: json
  rc_condition_order :: int
  rc_is_required :: bool

record rule_outcome =
  ro_id :: uuid
  ro_score_delta :: dec
  ro_is_blocking :: bool
  ro_explanation_message :: string
  ro_outcome_code :: "string option"

record rule_group =
  rg_id :: uuid
  rg_code :: string
  rg_name :: string
  rg_priority :: int
  rg_match_operator :: string
  rg_conditions :: "rule_condition list"
  rg_outcomes :: "rule_outcome list"

record version_input =
  vi_id :: uuid
  vi_version :: string
  vi_effective_from :: time
  vi_effective_to :: "time option"

record breakdown_item =
  bi_rule_group_id :: uuid
  bi_rule_group_code :: string
  bi_rule_condition_id :: "uuid option"
  bi_rule_outcome_id :: uuid
  bi_applied :: bool
  bi_score_delta :: rat
  bi_is_blocking :: bool
  bi_explanation_message :: string
  bi_condition_checks :: "json list"

record score_result =
  sr_algorithm_version :: string
  sr_rules_version_hash :: string
  sr_score_final :: rat
  sr_raw_score :: rat
  sr_faixa :: string
  sr_is_blocked :: bool
  sr_is_eligible :: bool
  sr_fatores_positivos :: "string list"
  sr_gaps_criticos :: "string list"
  sr_breakdown :: "breakdown_item list"

section \<open>Constants\<close>

definition ALGORITHM_VERSION :: string where
  "ALGORITHM_VERSION = ''score-engine-v1''"

definition REQUIRED_PROFILE_FIELDS :: "string list" where
  "REQUIRED_PROFILE_FIELDS = [''idade'', ''escolaridade'', ''profissao'', ''idiomas'', ''renda_atual'']"

definition CEFR_TO_NUMERIC :: "int dict" where
  "CEFR_TO_NUMERIC =
     [(''A1'', 1), (''A2'', 2), (''B1'', 3), (''B2'', 4), (''C1'', 5), (''C2'', 6)]"

definition IELTS_TO_CEFR_NUMERIC :: "(rat \<times> int) list" where
  "IELTS_TO_CEFR_NUMERIC =
     [(4, 2), (9/2, 3), (5, 3), (11/2, 4), (6, 4), (13/2, 5), (7, 5), (15/2, 6), (8, 6),
      (17/2, 6), (9, 6)]"

definition EDUCATION_RANK :: "int dict" where
  "EDUCATION_RANK =
     [(''fundamental'', 1), (''ensino_medio'', 2), (''tecnico'', 3), (''bachelor'', 4),
      (''graduacao'', 4), (''master'', 5), (''phd'', 6), (''doutorado'', 6)]"

section \<open>Profile normalisation\<close>

definition obj_get :: "json dict \<Rightarrow> string \<Rightarrow> json \<Rightarrow> json" where
  "obj_get d k dflt = (case dict_get d k of None \<Rightarrow> dflt | Some v \<Rightarrow> v)"

definition cefr_level :: "json \<Rightarrow> int result" where
  "cefr_level level =
     (case dict_get CEFR_TO_NUMERIC (upper (py_str level)) of
        None \<Rightarrow> Inl (ScoreEngineInputError (''Invalid CEFR level: '' @ py_str level))
      | Some n \<Rightarrow> Inr n)"

definition round1 :: "pyfloat \<Rightarrow> pyfloat" where
  "round1 x = (case x of PFin r \<Rightarrow> PFin (py_round 1 r) | _ \<Rightarrow> x)"

definition ielts_level :: "json \<Rightarrow> int result" where
  "ielts_level level = bindR (py_float level) (\<lambda>x.
     case round1 x of
       PFin r \<Rightarrow> (case map_of IELTS_TO_CEFR_NUMERIC r of
           None \<Rightarrow> Inl (ScoreEngineInputError (''Unsupported IELTS level: '' @ py_str level))
         | Some n \<Rightarrow> Inr n)
     | _ \<Rightarrow> Inl (ScoreEngineInputError (''Unsupported IELTS level: '' @ py_str level)))"

definition unsupported_language :: "json \<Rightarrow> int result" where
  "unsupported_language payload =
     Inl (ScoreEngineInputError (''Unsupported language payload: '' @ py_str payload))"

definition language_level_to_numeric :: "json \<Rightarrow> int result" where
  "language_level_to_numeric payload =
     (case payload of
        JBool b \<Rightarrow> py_int payload
      | JInt n \<Rightarrow> py_int payload
      | JFloat x \<Rightarrow> py_int payload
      | JStr s \<Rightarrow>
          (let level = upper (strip s)
           in case dict_get CEFR_TO_NUMERIC level of
                Some n \<Rightarrow> Inr n
              | None \<Rightarrow> bindR (py_float (JStr level)) (\<lambda>x. py_int (JFloat x)))
      | JObj d \<Rightarrow>
          (let framework = upper (py_str (obj_get d ''framework'' (JStr ''CEFR'')));
               level = obj_get d ''level'' JNull
           in if framework = ''CEFR'' then cefr_level level
              else if framework = ''IELTS'' then ielts_level level
              else unsupported_language payload)
      | _ \<Rightarrow> unsupported_language payload)"

fun normalize_language_items :: "json dict \<Rightarrow> json dict \<Rightarrow> json dict result" where
  "normalize_language_items [] normalized = Inr normalized"
| "normalize_language_items ((language, payload) # items) normalized =
     bindR (language_level_to_numeric payload) (\<lambda>n.
       normalize_language_items items (dict_set (lower (strip language)) (JInt n) normalized))"

definition normalize_languages :: "json \<Rightarrow> json result" where
  "normalize_languages languages =
     (case languages of
        JObj d \<Rightarrow> bindR (normalize_language_items d []) (\<lambda>n. Inr (JObj n))
      | _ \<Rightarrow> Inl (ScoreEngineInputError ''idiomas must be an object keyed by language code''))"

definition missing_fields :: "json dict \<Rightarrow> string list" where
  "missing_fields profile =
     filter (\<lambda>k. dict_get profile k = None) REQUIRED_PROFILE_FIELDS"

definition set_profession :: "json \<Rightarrow> json dict \<Rightarrow> json dict" where
  "set_profession profession normalized =
     (case profession of
        JObj d \<Rightarrow>
          dict_set ''profissao_nome'' (JStr (strip (py_str (obj_get d ''nome'' (JStr '''')))))
            (dict_set ''profissao_codigo'' (JStr (strip (py_str (obj_get d ''codigo'' (JStr '''')))))
              normalized)
      | _ \<Rightarrow>
          dict_set ''profissao_nome'' (JStr (strip (py_str profession)))
            (dict_set ''profissao_codigo'' (JStr (strip (py_str profession))) normalized))"

definition normalize_profile :: "json dict \<Rightarrow> json dict result" where
  "normalize_profile profile =
     (if missing_fields profile \<noteq> [] then
        Inl (ScoreEngineInputError
          (''Missing required profile fields: '' @ join '', '' (sort (missing_fields profile))))
      else
        bindR (py_int (the (dict_get profile ''idade''))) (\<lambda>idade.
        bindR (py_float (the (dict_get profile ''renda_atual''))) (\<lambda>renda.
        let education = lower (strip (py_str (the (dict_get profile ''escolaridade''))));
            rank = (case dict_get EDUCATION_RANK education of None \<Rightarrow> 0 | Some r \<Rightarrow> r);
            n1 = dict_set ''idade'' (JInt idade) profile;
            n2 = dict_set ''renda_atual'' (JFloat renda) n1;
            n3 = dict_set ''escolaridade'' (JStr education) n2;
            n4 = dict_set ''escolaridade_rank'' (JInt rank) n3;
            n5 = set_profession (the (dict_get profile ''profissao'')) n4
        in bindR (normalize_languages (the (dict_get profile ''idiomas''))) (\<lambda>niveis.
           Inr (dict_set ''idiomas_nivel'' niveis n5)))))"

section \<open>Conditions\<close>

fun resolve_tokens :: "json \<Rightarrow> string list \<Rightarrow> json" where
  "resolve_tokens current [] = current"
| "resolve_tokens (JObj d) (token # tokens) =
     (case dict_get d token of None \<Rightarrow> JNull | Some v \<Rightarrow> resolve_tokens v tokens)"
| "resolve_tokens _ (token # tokens) = JNull"

definition resolve_field :: "json dict \<Rightarrow> string \<Rightarrow> json" where
  "resolve_field data path = resolve_tokens (JObj data) (split_on (CHR ''.'') path)"

definition numeric_comparison :: "string \<Rightarrow> pyfloat \<Rightarrow> pyfloat \<Rightarrow> bool" where
  "numeric_comparison operator a b =
     (if operator = ''gt'' then pf_lt b a
      else if operator = ''gte'' then pf_le b a
      else if operator = ''lt'' then pf_lt a b
      else pf_le a b)"

definition compare_numeric :: "string \<Rightarrow> json \<Rightarrow> json \<Rightarrow> bool result" where
  "compare_numeric operator actual_value expected_value =
     (if actual_value = JNull then Inr False
      else bindR (py_float actual_value) (\<lambda>actual_num.
           bindR (py_float expected_value) (\<lambda>expected_num.
           Inr (numeric_comparison operator actual_num expected_num))))"

definition is_between :: "json \<Rightarrow> json \<Rightarrow> bool result" where
  "is_between actual_value expected_value =
     (if actual_value = JNull then Inr False
      else (case expected_value of
          JList [lo, hi] \<Rightarrow>
            bindR (py_float lo) (\<lambda>lower_num.
            bindR (py_float hi) (\<lambda>upper_num.
            bindR (py_float actual_value) (\<lambda>actual_num.
            Inr (pf_le lower_num actual_num \<and> pf_le actual_num upper_num))))
        | _ \<Rightarrow> Inl (ScoreEngineInputError ''between operator expects list with [min, max]'')))"

definition is_in :: "json \<Rightarrow> json \<Rightarrow> bool result" where
  "is_in actual_value expected_value =
     (case expected_value of
        JList es \<Rightarrow>
          (case actual_value of
             JList xs \<Rightarrow> Inr (list_ex (\<lambda>item. py_in item es) xs)
           | _ \<Rightarrow> Inr (py_in actual_value es))
      | _ \<Rightarrow> Inl (ScoreEngineInputError ''in operator expects list''))"

definition evaluate_condition :: "string \<Rightarrow> json \<Rightarrow> json \<Rightarrow> bool result" where
  "evaluate_condition operator actual_value expected_value =
     (if operator = ''exists'' then
        (let expected = (case expected_value of JBool b \<Rightarrow> b | _ \<Rightarrow> True)
         in Inr ((actual_value \<noteq> JNull) = expected))
      else if operator = ''eq'' then Inr (py_eq actual_value expected_value)
      else if operator = ''ne'' then Inr (\<not> py_eq actual_value expected_value)
      else if operator \<in> {''gt'', ''gte'', ''lt'', ''lte''} then
        compare_numeric operator actual_value expected_value
      else if operator = ''between'' then is_between actual_value expected_value
      else if operator = ''in'' then is_in actual_value expected_value
      else if operator = ''not_in'' then
        bindR (is_in actual_value expected_value) (\<lambda>b. Inr (\<not> b))
      else Inl (ScoreEngineInputError (''Unsupported operator: '' @ operator)))"

definition condition_key :: "rule_condition \<Rightarrow> int \<times> string \<times> string" where
  "condition_key c = (rc_condition_order c, rc_field_key c, uuid_str (rc_id c))"

definition check_condition :: "json dict \<Rightarrow> rule_condition \<Rightarrow> (json \<times> bool) result" where
  "check_condition profile c =
     (let actual_value = resolve_field profile (rc_field_key c)
      in bindR (evaluate_condition (rc_operator c) actual_value (rc_value_json c)) (\<lambda>matched.
         Inr (JObj [(''rule_condition_id'', JStr (uuid_str (rc_id c))),
                    (''field_key'', JStr (rc_field_key c)),
                    (''operator'', JStr (rc_operator c)),
                    (''expected'', rc_value_json c),
                    (''actual'', actual_value),
                    (''matched'', JBool matched)],
              matched)))"

definition group_truth :: "string \<Rightarrow> bool list \<Rightarrow> bool" where
  "group_truth match_operator truth_values =
     (if truth_values = [] then True
      else if match_operator = ''any'' then list_ex (\<lambda>b. b) truth_values
      else list_all (\<lambda>b. b) truth_values)"

definition evaluate_group_conditions ::
    "rule_group \<Rightarrow> json dict \<Rightarrow> (json list \<times> bool) result" where
  "evaluate_group_conditions g profile =
     bindR (mapR (check_condition profile) (sort_key condition_key (rg_conditions g))) (\<lambda>cs.
     Inr (map fst cs, group_truth (rg_match_operator g) (map snd cs)))"

section \<open>The two passes\<close>

definition blocking_item :: "rule_group \<Rightarrow> json list \<Rightarrow> rule_outcome \<Rightarrow> breakdown_item result" where
  "blocking_item g checks oc =
     bindR (quantize2 (dec_val (ro_score_delta oc))) (\<lambda>delta.
     Inr \<lparr>bi_rule_group_id = rg_id g, bi_rule_group_code = rg_code g,
          bi_rule_condition_id = None, bi_rule_outcome_id = ro_id oc, bi_applied = True,
          bi_score_delta = delta, bi_is_blocking = True,
          bi_explanation_message = ro_explanation_message oc, bi_condition_checks = checks\<rparr>)"

definition blocking_group :: "json dict \<Rightarrow> rule_group \<Rightarrow> breakdown_item list result" where
  "blocking_group profile g =
     bindR (evaluate_group_conditions g profile) (\<lambda>(checks, group_applies).
     if \<not> group_applies then Inr []
     else mapR (blocking_item g checks) (filter ro_is_blocking (rg_outcomes g)))"

definition evaluate_blocking_pass ::
    "rule_group list \<Rightarrow> json dict \<Rightarrow> breakdown_item list result" where
  "evaluate_blocking_pass groups profile =
     bindR (mapR (blocking_group profile) groups) (\<lambda>iss. Inr (concat iss))"

definition scoring_item ::
    "rule_group \<Rightarrow> json list \<Rightarrow> bool \<Rightarrow> rule_outcome \<Rightarrow> breakdown_item result" where
  "scoring_item g checks applied oc =
     bindR (quantize2 (if applied then dec_val (ro_score_delta oc) else 0)) (\<lambda>delta.
     Inr \<lparr>bi_rule_group_id = rg_id g, bi_rule_group_code = rg_code g,
          bi_rule_condition_id = None, bi_rule_outcome_id = ro_id oc, bi_applied = applied,
          bi_score_delta = delta, bi_is_blocking = False,
          bi_explanation_message = ro_explanation_message oc, bi_condition_checks = checks\<rparr>)"

definition scoring_group :: "json dict \<Rightarrow> rule_group \<Rightarrow> breakdown_item list result" where
  "scoring_group profile g =
     bindR (evaluate_group_conditions g profile) (\<lambda>(checks, group_applies).
     mapR (scoring_item g checks group_applies)
       (filter (\<lambda>oc. \<not> ro_is_blocking oc) (rg_outcomes g)))"

definition evaluate_scoring_pass ::
    "rule_group list \<Rightarrow> json dict \<Rightarrow> breakdown_item list result" where
  "evaluate_scoring_pass groups profile =
     bindR (mapR (scoring_group profile) groups) (\<lambda>iss. Inr (concat iss))"

section \<open>The score\<close>

text \<open>\<open>sum(ds, Decimal("0"))\<close>: each addition rounds to the context's 28 digits.\<close>

definition dec_sum :: "rat list \<Rightarrow> rat" where
  "dec_sum ds = foldl (\<lambda>a d. d28 (a + d)) 0 ds"

definition scoring_deltas :: "rule_group list \<Rightarrow> rat list" where
  "scoring_deltas groups =
     map (\<lambda>oc. dec_val (ro_score_delta oc))
       (filter (\<lambda>oc. \<not> ro_is_blocking oc) (concat (map rg_outcomes groups)))"

definition normalize_score :: "rat \<Rightarrow> rule_group list \<Rightarrow> rat result" where
  "normalize_score raw_score groups =
     (let deltas = scoring_deltas groups;
          min_possible = dec_sum (map (\<lambda>d. min d 0) deltas);
          max_possible = dec_sum (map (\<lambda>d. max d 0) deltas)
      in if max_possible = min_possible then Inr (if 0 < raw_score then 100 else 0)
         else if d28 (max_possible - min_possible) = 0 then Inl (ZeroDivisionError ''division by zero'')
         else (let normalized =
                     d28 (d28 (d28 (raw_score - min_possible) / d28 (max_possible - min_possible)) * 100);
                   clamped = min (max normalized 0) 100
               in quantize2 clamped))"

definition to_faixa :: "rat \<Rightarrow> string" where
  "to_faixa score = (if score < 40 then ''baixo'' else if score < 70 then ''medio'' else ''alto'')"

section \<open>The hash of the rule set\<close>

text \<open>\<open>str(Decimal)\<close>\<close>

definition dec_str :: "dec \<Rightarrow> string" where
  "dec_str d =
     (let ds = nat_str (nat \<bar>dcoeff d\<bar>); n = int (length ds); leftdigits = dexp d + n;
          dotplace = (if dexp d \<le> 0 \<and> -6 < leftdigits then leftdigits else 1);
          body = (if dotplace \<le> 0 then ''0.'' @ zeros (- dotplace) @ ds
                  else if n \<le> dotplace then ds @ zeros (dotplace - n)
                  else take (nat dotplace) ds @ ''.'' @ drop (nat dotplace) ds);
          ex = leftdigits - dotplace
      in (if dcoeff d < 0 then ''-'' else []) @ body @
         (if ex = 0 then [] else ''E'' @ (if ex < 0 then [] else ''+'') @ int_str ex))"

definition opt_json :: "('a \<Rightarrow> json) \<Rightarrow> 'a option \<Rightarrow> json" where
  "opt_json f v = (case v of None \<Rightarrow> JNull | Some x \<Rightarrow> f x)"

definition condition_payload :: "rule_condition \<Rightarrow> json" where
  "condition_payload c = JObj [
     (''id'', JStr (uuid_str (rc_id c))),
     (''field_key'', JStr (rc_field_key c)),
     (''operator'', JStr (rc_operator c)),
     (''value_json'', rc_value_json c),
     (''condition_order'', JInt (rc_condition_order c)),
     (''is_required'', JBool (rc_is_required c))]"

definition outcome_payload :: "rule_outcome \<Rightarrow> json" where
  "outcome_payload oc = JObj [
     (''id'', JStr (uuid_str (ro_id oc))),
     (''score_delta'', JStr (dec_str (ro_score_delta oc))),
     (''is_blocking'', JBool (ro_is_blocking oc)),
     (''explanation_message'', JStr (ro_explanation_message oc)),
     (''outcome_code'', opt_json JStr (ro_outcome_code oc))]"

definition outcome_key :: "rule_outcome \<Rightarrow> bool \<times> string" where
  "outcome_key oc = (ro_is_blocking oc, uuid_str (ro_id oc))"

definition group_payload :: "rule_group \<Rightarrow> json" where
  "group_payload g = JObj [
     (''id'', JStr (uuid_str (rg_id g))),
     (''code'', JStr (rg_code g)),
     (''priority'', JInt (rg_priority g)),
     (''match_operator'', JStr (rg_match_operator g)),
     (''conditions'', JList (map condition_payload (sort_key condition_key (rg_conditions g)))),
     (''outcomes'', JList (map outcome_payload (sort_key outcome_key (rg_outcomes g))))]"

definition hash_payload :: "version_input \<Rightarrow> rule_group list \<Rightarrow> json" where
  "hash_payload pv groups = JObj [
     (''program_version'', JObj [
        (''id'', JStr (uuid_str (vi_id pv))),
        (''version'', JStr (vi_version pv)),
        (''effective_from'', JStr (isoformat (vi_effective_from pv))),
        (''effective_to'', opt_json (\<lambda>t. JStr (isoformat t)) (vi_effective_to pv))]),
     (''rule_groups'', JList (map group_payload groups))]"

definition compute_rules_version_hash :: "version_input \<Rightarrow> rule_group list \<Rightarrow> string" where
  "compute_rules_version_hash pv groups = sha256_hex (canonical (hash_payload pv groups))"

section \<open>\<open>ScoreEngine.evaluate\<close>\<close>

definition group_key :: "rule_group \<Rightarrow> int \<times> string \<times> string" where
  "group_key g = (rg_priority g, rg_code g, uuid_str (rg_id g))"

definition blocked_result :: "string \<Rightarrow> string \<Rightarrow> breakdown_item list \<Rightarrow> score_result" where
  "blocked_result algorithm hash items =
     \<lparr>sr_algorithm_version = algorithm, sr_rules_version_hash = hash, sr_score_final = 0,
      sr_raw_score = 0, sr_faixa = ''baixo'', sr_is_blocked = True, sr_is_eligible = False,
      sr_fatores_positivos = [], sr_gaps_criticos = map bi_explanation_message items,
      sr_breakdown = items\<rparr>"

definition scored_result ::
    "string \<Rightarrow> string \<Rightarrow> rat \<Rightarrow> rat \<Rightarrow> breakdown_item list \<Rightarrow> score_result" where
  "scored_result algorithm hash score raw items =
     \<lparr>sr_algorithm_version = algorithm, sr_rules_version_hash = hash, sr_score_final = score,
      sr_raw_score = raw, sr_faixa = to_faixa score, sr_is_blocked = False,
      sr_is_eligible = (60 \<le> score),
      sr_fatores_positivos = map bi_explanation_message (filter (\<lambda>i. 0 < bi_score_delta i) items),
      sr_gaps_criticos = map bi_explanation_message (filter (\<lambda>i. bi_score_delta i < 0) items),
      sr_breakdown = items\<rparr>"

definition evaluate ::
    "string \<Rightarrow> json dict \<Rightarrow> version_input \<Rightarrow> rule_group list \<Rightarrow> score_result result" where
  "evaluate algorithm profile_snapshot pv rule_groups =
     bindR (normalize_profile profile_snapshot) (\<lambda>profile.
     let groups = sort_key group_key rule_groups;
         hash = compute_rules_version_hash pv groups
     in bindR (evaluate_blocking_pass groups profile) (\<lambda>blocking.
        if blocking \<noteq> [] then Inr (blocked_result algorithm hash blocking)
        else
          bindR (evaluate_scoring_pass groups profile) (\<lambda>items.
          let raw = dec_sum (map bi_score_delta items)
          in bindR (normalize_score raw groups) (\<lambda>score.
             bindR (quantize2 raw) (\<lambda>raw_q.
             Inr (scored_result algorithm hash score raw_q items))))))"

section \<open>What a successful evaluation has computed\<close>

definition applies :: "json dict \<Rightarrow> rule_group \<Rightarrow> bool" where
  "applies profile g = (case evaluate_group_conditions g profile of Inr (_, b) \<Rightarrow> b | Inl _ \<Rightarrow> False)"

lemma evaluate_success:
  assumes "evaluate alg p pv gs = Inr r"
  obtains (blocked) profile items where
      "normalize_profile p = Inr profile"
      "evaluate_blocking_pass (sort_key group_key gs) profile = Inr items" "items \<noteq> []"
      "r = blocked_result alg (compute_rules_version_hash pv (sort_key group_key gs)) items"
    | (scored) profile items score raw_q where
      "normalize_profile p = Inr profile"
      "evaluate_blocking_pass (sort_key group_key gs) profile = Inr []"
      "evaluate_scoring_pass (sort_key group_key gs) profile = Inr items"
      "normalize_score (dec_sum (map bi_score_delta items)) (sort_key group_key gs) = Inr score"
      "quantize2 (dec_sum (map bi_score_delta items)) = Inr raw_q"
      "r = scored_result alg (compute_rules_version_hash pv (sort_key group_key gs)) score raw_q items"
  using assms unfolding evaluate_def Let_def
  by (auto simp: bindR_eq_Inr split: if_splits)

lemma result_fields [simp]:
  "sr_is_blocked (blocked_result alg h is)" "sr_score_final (blocked_result alg h is) = 0"
  "sr_raw_score (blocked_result alg h is) = 0" "sr_faixa (blocked_result alg h is) = ''baixo''"
  "\<not> sr_is_eligible (blocked_result alg h is)" "sr_breakdown (blocked_result alg h is) = is"
  "sr_fatores_positivos (blocked_result alg h is) = []"
  "sr_gaps_criticos (blocked_result alg h is) = map bi_explanation_message is"
  "\<not> sr_is_blocked (scored_result alg h s w is)" "sr_score_final (scored_result alg h s w is) = s"
  "sr_raw_score (scored_result alg h s w is) = w" "sr_faixa (scored_result alg h s w is) = to_faixa s"
  "sr_is_eligible (scored_result alg h s w is) \<longleftrightarrow> 60 \<le> s" "sr_breakdown (scored_result alg h s w is) = is"
  "sr_rules_version_hash (blocked_result alg h is) = h"
  "sr_rules_version_hash (scored_result alg h s w is) = h"
  by (simp_all add: blocked_result_def scored_result_def)

lemma normalize_score_range: "normalize_score raw gs = Inr s \<Longrightarrow> 0 \<le> s \<and> s \<le> 100"
  unfolding normalize_score_def Let_def
  by (auto split: if_splits dest!: quantize2_Inr intro!: quantum.rnd_nonneg quantum.rnd_le)

lemma applies_Inr: "evaluate_group_conditions g profile = Inr (checks, b) \<Longrightarrow> applies profile g = b"
  by (simp add: applies_def)

lemma blocking_item_Inr:
  "blocking_item g checks oc = Inr i \<Longrightarrow> bi_is_blocking i \<and> bi_applied i
     \<and> bi_rule_group_id i = rg_id g \<and> bi_rule_outcome_id i = ro_id oc
     \<and> bi_explanation_message i = ro_explanation_message oc"
  by (auto simp: blocking_item_def bindR_eq_Inr)

lemma blocking_group_nonempty:
  assumes "blocking_group profile g = Inr is"
  shows "is \<noteq> [] \<longleftrightarrow> applies profile g \<and> (\<exists>oc\<in>set (rg_outcomes g). ro_is_blocking oc)"
proof -
  obtain checks b where e: "evaluate_group_conditions g profile = Inr (checks, b)"
    using assms by (auto simp: blocking_group_def bindR_eq_Inr)
  show ?thesis
  proof (cases b)
    case True
    with e assms have "mapR (blocking_item g checks) (filter ro_is_blocking (rg_outcomes g)) = Inr is"
      by (simp add: blocking_group_def)
    then have "length is = length (filter ro_is_blocking (rg_outcomes g))" by (rule mapR_Inr_length)
    then have "is = [] \<longleftrightarrow> filter ro_is_blocking (rg_outcomes g) = []" by (metis length_0_conv)
    with True applies_Inr [OF e] show ?thesis by (auto simp: filter_empty_conv)
  qed (use assms e applies_Inr [OF e] in \<open>simp add: blocking_group_def\<close>)
qed

lemma blocking_pass_nonempty:
  assumes "evaluate_blocking_pass gs profile = Inr items"
  shows "items \<noteq> [] \<longleftrightarrow>
    (\<exists>g\<in>set gs. applies profile g \<and> (\<exists>oc\<in>set (rg_outcomes g). ro_is_blocking oc))"
proof -
  obtain iss where m: "mapR (blocking_group profile) gs = Inr iss" and items: "items = concat iss"
    using assms by (auto simp: evaluate_blocking_pass_def bindR_eq_Inr)
  have "items \<noteq> [] \<longleftrightarrow> (\<exists>is\<in>set iss. is \<noteq> [])" using items by auto
  also have "\<dots> \<longleftrightarrow> (\<exists>g\<in>set gs. applies profile g \<and> (\<exists>oc\<in>set (rg_outcomes g). ro_is_blocking oc))"
    using mapR_Inr_mem [OF m] mapR_Inr_dom [OF m] blocking_group_nonempty by metis
  finally show ?thesis .
qed

section \<open>The audit trail\<close>

text \<open>The breakdown that the rules and the normalised profile call for.\<close>

definition expected_items :: "json dict \<Rightarrow> rule_group \<Rightarrow> breakdown_item list" where
  "expected_items profile g =
     (case evaluate_group_conditions g profile of
        Inl _ \<Rightarrow> []
      | Inr (checks, b) \<Rightarrow>
          map (\<lambda>oc. \<lparr>bi_rule_group_id = rg_id g, bi_rule_group_code = rg_code g,
                  bi_rule_condition_id = None, bi_rule_outcome_id = ro_id oc, bi_applied = b,
                  bi_score_delta = (if b then q2 (dec_val (ro_score_delta oc)) else 0),
                  bi_is_blocking = False, bi_explanation_message = ro_explanation_message oc,
                  bi_condition_checks = checks\<rparr>)
            (filter (\<lambda>oc. \<not> ro_is_blocking oc) (rg_outcomes g)))"

lemma scoring_item_Inr:
  "scoring_item g checks b oc = Inr i \<Longrightarrow>
     i = \<lparr>bi_rule_group_id = rg_id g, bi_rule_group_code = rg_code g,
                  bi_rule_condition_id = None, bi_rule_outcome_id = ro_id oc, bi_applied = b,
                  bi_score_delta = (if b then q2 (dec_val (ro_score_delta oc)) else 0),
                  bi_is_blocking = False, bi_explanation_message = ro_explanation_message oc,
                  bi_condition_checks = checks\<rparr>"
  by (auto simp: scoring_item_def bindR_eq_Inr dest!: quantize2_Inr)

lemma mapR_Inr_map: "mapR f xs = Inr ys \<Longrightarrow> (\<And>x y. f x = Inr y \<Longrightarrow> y = h x) \<Longrightarrow> ys = map h xs"
  by (induction xs arbitrary: ys) (auto simp: bindR_eq_Inr)

lemma scoring_group_Inr: "scoring_group profile g = Inr is \<Longrightarrow> is = expected_items profile g"
  unfolding scoring_group_def expected_items_def
  by (auto simp: bindR_eq_Inr intro!: mapR_Inr_map dest: scoring_item_Inr)

lemma scoring_pass_Inr:
  "evaluate_scoring_pass gs profile = Inr items \<Longrightarrow> items = concat (map (expected_items profile) gs)"
  unfolding evaluate_scoring_pass_def
  by (auto simp: bindR_eq_Inr dest: mapR_Inr_map [OF _ scoring_group_Inr])

section \<open>The exact score\<close>

text \<open>
  The score in exact arithmetic, for deltas in cents (the column is \<open>Numeric(8, 2)\<close>): the share
  of the reachable interval, as a percentage rounded half up to two decimals.
\<close>

definition cents_group :: "rule_group \<Rightarrow> bool" where
  "cents_group g \<longleftrightarrow>
     list_all (\<lambda>oc. dexp (ro_score_delta oc) = -2 \<and> \<bar>dcoeff (ro_score_delta oc)\<bar> < 10 ^ 8) (rg_outcomes g)"

definition cents :: "rule_group \<Rightarrow> int list" where
  "cents g = map (\<lambda>oc. dcoeff (ro_score_delta oc)) (filter (\<lambda>oc. \<not> ro_is_blocking oc) (rg_outcomes g))"

definition min_cents :: "rule_group list \<Rightarrow> int" where
  "min_cents gs = (\<Sum>g\<leftarrow>gs. \<Sum>k\<leftarrow>cents g. min k 0)"

definition max_cents :: "rule_group list \<Rightarrow> int" where
  "max_cents gs = (\<Sum>g\<leftarrow>gs. \<Sum>k\<leftarrow>cents g. max k 0)"

definition raw_cents :: "json dict \<Rightarrow> rule_group list \<Rightarrow> int" where
  "raw_cents profile gs = (\<Sum>g\<leftarrow>gs. if applies profile g then sum_list (cents g) else 0)"

definition exact_score :: "json dict \<Rightarrow> rule_group list \<Rightarrow> rat" where
  "exact_score profile gs =
     (if max_cents gs = min_cents gs then 0
      else of_int (rhu (of_int (10000 * (raw_cents profile gs - min_cents gs))
                        / of_int (max_cents gs - min_cents gs))) / 100)"

text \<open>At most this many outcomes: far more than a rule set holds, and enough for exactness.\<close>

definition outcome_count :: "rule_group list \<Rightarrow> nat" where
  "outcome_count gs = (\<Sum>g\<leftarrow>gs. length (rg_outcomes g))"

lemma dec_val_cents: "dexp d = -2 \<Longrightarrow> dec_val d = of_int (dcoeff d) / 100"
  by (simp add: dec_val_def power_int_minus)

lemma foldl_d28_cents:
  assumes "\<bar>a\<bar> + (\<Sum>k\<leftarrow>ks. \<bar>k\<bar>) \<le> 10 ^ 28"
  shows "foldl (\<lambda>a d. d28 (a + d)) (of_int a / 100) (map (\<lambda>k. of_int k / 100) ks)
    = of_int (a + sum_list ks) / 100"
  using assms
proof (induction ks arbitrary: a)
  case (Cons k ks)
  have "0 \<le> (\<Sum>k\<leftarrow>ks. \<bar>k\<bar>)" by (intro sum_list_nonneg) auto
  with Cons.prems have k: "\<bar>a + k\<bar> \<le> 10 ^ 28" and r: "\<bar>a + k\<bar> + (\<Sum>k\<leftarrow>ks. \<bar>k\<bar>) \<le> 10 ^ 28" by auto
  have "d28 (of_int a / 100 + of_int k / 100) = of_int (a + k) / 100"
    using d28_cents [OF k] by (simp add: add_divide_distrib)
  with Cons.IH [OF r] show ?case by (simp only: list.map foldl.simps sum_list.Cons add.assoc)
qed simp

lemma dec_sum_cents:
  "(\<Sum>k\<leftarrow>ks. \<bar>k\<bar>) \<le> 10 ^ 28 \<Longrightarrow> dec_sum (map (\<lambda>k. of_int k / 100) ks) = of_int (sum_list ks) / 100"
  using foldl_d28_cents [of 0 ks] by (simp add: dec_sum_def)

lemma abs_sum_bound:
  "(\<And>k. k \<in> set ks \<Longrightarrow> \<bar>k\<bar> \<le> B) \<Longrightarrow> (\<Sum>k\<leftarrow>ks. \<bar>k\<bar>) \<le> B * int (length ks)"
  by (induction ks) (force simp: algebra_simps)+

lemma scoring_deltas_cents:
  assumes "list_all cents_group gs"
  shows "scoring_deltas gs = map (\<lambda>k. of_int k / 100) (concat (map cents gs))"
proof -
  have "map (\<lambda>oc. dec_val (ro_score_delta oc)) (filter (\<lambda>oc. \<not> ro_is_blocking oc) (rg_outcomes g))
      = map (\<lambda>k. of_int k / 100) (cents g)" if "cents_group g" for g
    using that by (auto simp: cents_group_def cents_def list_all_iff dec_val_cents)
  with assms show ?thesis
    by (induction gs) (simp_all add: scoring_deltas_def)
qed

lemma expected_deltas_cents:
  assumes "cents_group g" and "evaluate_group_conditions g profile = Inr (cs, b)"
  shows "map bi_score_delta (expected_items profile g)
    = map (\<lambda>k. of_int k / 100) (map (\<lambda>k. if applies profile g then k else 0) (cents g))"
  using assms applies_Inr [OF assms(2)]
  by (auto simp: expected_items_def cents_def cents_group_def list_all_iff dec_val_cents)

lemma cents_bounds:
  assumes "list_all cents_group gs" and "k \<in> set (concat (map cents gs))"
  shows "\<bar>k\<bar> \<le> 10 ^ 8"
  using assms by (fastforce simp: cents_group_def cents_def list_all_iff)

lemma length_cents: "length (concat (map cents gs)) \<le> outcome_count gs"
  by (induction gs) (auto simp: outcome_count_def cents_def intro: order_trans [OF add_mono])

lemma sum_min_max: "(\<Sum>k\<leftarrow>ks. min k 0) \<le> (\<Sum>k\<leftarrow>ks. if b then k else (0::int))"
  "(\<Sum>k\<leftarrow>ks. if b then k else (0::int)) \<le> (\<Sum>k\<leftarrow>ks. max k 0)"
  by (auto intro!: sum_list_mono)

lemma raw_between: "min_cents gs \<le> raw_cents profile gs \<and> raw_cents profile gs \<le> max_cents gs"
proof -
  have "(\<Sum>k\<leftarrow>cents g. min k 0) \<le> (if applies profile g then sum_list (cents g) else 0)
      \<and> (if applies profile g then sum_list (cents g) else 0) \<le> (\<Sum>k\<leftarrow>cents g. max k 0)" for g
    using sum_min_max [where ks = "cents g" and b = "applies profile g"] by (cases "applies profile g") simp_all
  then show ?thesis
    unfolding min_cents_def max_cents_def raw_cents_def by (auto intro!: sum_list_mono)
qed

lemma sum_list_concat_map: "sum_list (map f (concat xss)) = (\<Sum>xs\<leftarrow>xss. sum_list (map f xs))"
  for f :: "'a \<Rightarrow> int"
  by (induction xss) simp_all

lemma sum_sort_key: "(\<Sum>x\<leftarrow>sort_key k xs. f x) = (\<Sum>x\<leftarrow>xs. f x)"
  for f :: "'a \<Rightarrow> 'b::comm_monoid_add"
  by (metis mset_map mset_sort sum_mset_sum_list)

lemma cents_total:
  assumes "list_all cents_group gs" and "outcome_count gs \<le> 10 ^ 12"
  shows "(\<Sum>k\<leftarrow>concat (map cents gs). \<bar>k\<bar>) \<le> 10 ^ 20"
proof -
  let ?ks = "concat (map cents gs)"
  have "(\<Sum>k\<leftarrow>?ks. \<bar>k\<bar>) \<le> 10 ^ 8 * int (length ?ks)"
    by (rule abs_sum_bound) (rule cents_bounds [OF assms(1)])
  also have "int (length ?ks) \<le> 10 ^ 12"
    using order_trans [OF length_cents assms(2)] by simp
  finally show ?thesis by simp
qed

lemma abs_sum_mono:
  "(\<And>k. \<bar>f k\<bar> \<le> \<bar>k\<bar>) \<Longrightarrow> (\<Sum>k\<leftarrow>map f ks. \<bar>k\<bar>) \<le> (\<Sum>k\<leftarrow>ks. \<bar>k :: int\<bar>)"
  by (induction ks) (simp_all add: add_mono)

lemma sum_max_min: "(\<Sum>k\<leftarrow>ks. max k 0) - (\<Sum>k\<leftarrow>ks. min k 0) = (\<Sum>k\<leftarrow>ks. \<bar>k :: int\<bar>)"
  by (induction ks) auto

lemma cents_interval: "max_cents gs - min_cents gs = (\<Sum>k\<leftarrow>concat (map cents gs). \<bar>k\<bar>)"
proof (induction gs)
  case (Cons g gs)
  then show ?case using sum_max_min [of "cents g"] by (simp add: min_cents_def max_cents_def)
qed (simp add: min_cents_def max_cents_def)

lemma possible_cents:
  assumes "list_all cents_group gs" and "outcome_count gs \<le> 10 ^ 12"
  shows "dec_sum (map (\<lambda>d. min d 0) (scoring_deltas gs)) = of_int (min_cents gs) / 100"
    and "dec_sum (map (\<lambda>d. max d 0) (scoring_deltas gs)) = of_int (max_cents gs) / 100"
    and "max_cents gs - min_cents gs \<le> 10 ^ 20"
proof -
  let ?ks = "concat (map cents gs)"
  have tot: "(\<Sum>k\<leftarrow>?ks. \<bar>k\<bar>) \<le> 10 ^ 20" by (rule cents_total [OF assms])
  have bd: "(\<Sum>k\<leftarrow>map (\<lambda>k. min k 0) ?ks. \<bar>k\<bar>) \<le> 10 ^ 28" "(\<Sum>k\<leftarrow>map (\<lambda>k. max k 0) ?ks. \<bar>k\<bar>) \<le> 10 ^ 28"
    by (rule order_trans [OF abs_sum_mono order_trans [OF tot]]; simp)+
  have mm: "min (of_int k / 100) 0 = (of_int (min k 0) / 100 :: rat)"
    "max (of_int k / 100) 0 = (of_int (max k 0) / 100 :: rat)" for k
    by (auto simp: min_def max_def)
  have e: "map (\<lambda>d. min d 0) (scoring_deltas gs) = map (\<lambda>k. of_int k / 100) (map (\<lambda>k. min k 0) ?ks)"
    "map (\<lambda>d. max d 0) (scoring_deltas gs) = map (\<lambda>k. of_int k / 100) (map (\<lambda>k. max k 0) ?ks)"
    by (simp_all only: scoring_deltas_cents [OF assms(1)] list.map_comp o_def mm)
  show "dec_sum (map (\<lambda>d. min d 0) (scoring_deltas gs)) = of_int (min_cents gs) / 100"
    unfolding e dec_sum_cents [OF bd(1)] sum_list_concat_map min_cents_def
    by (simp only: list.map_comp o_def)
  show "dec_sum (map (\<lambda>d. max d 0) (scoring_deltas gs)) = of_int (max_cents gs) / 100"
    unfolding e dec_sum_cents [OF bd(2)] sum_list_concat_map max_cents_def
    by (simp only: list.map_comp o_def)
  have "max_cents gs - min_cents gs = (\<Sum>k\<leftarrow>?ks. \<bar>k\<bar>)" by (rule cents_interval)
  with tot show "max_cents gs - min_cents gs \<le> 10 ^ 20" by simp
qed

lemma raw_total:
  assumes gs: "list_all cents_group gs" and n: "outcome_count gs \<le> 10 ^ 12"
    and pass: "evaluate_scoring_pass gs profile = Inr items"
  shows "dec_sum (map bi_score_delta items) = of_int (raw_cents profile gs) / 100"
proof -
  let ?f = "\<lambda>g. map (\<lambda>k. if applies profile g then k else 0) (cents g)"
  have items: "items = concat (map (expected_items profile) gs)" by (rule scoring_pass_Inr [OF pass])
  obtain iss where m: "mapR (scoring_group profile) gs = Inr iss"
    using pass by (auto simp: evaluate_scoring_pass_def bindR_eq_Inr)
  have g: "map bi_score_delta (expected_items profile g) = map (\<lambda>k. of_int k / 100) (?f g)"
    if mem: "g \<in> set gs" for g
  proof -
    obtain cs b where "evaluate_group_conditions g profile = Inr (cs, b)"
      using mapR_Inr_dom [OF m mem] by (auto simp: scoring_group_def bindR_eq_Inr)
    then show ?thesis using gs mem by (intro expected_deltas_cents) (auto simp: list_all_iff)
  qed
  then have "map bi_score_delta items = map (\<lambda>k. of_int k / 100) (concat (map ?f gs))"
    unfolding items map_concat list.map_comp o_def by (intro arg_cong [of _ _ concat] map_cong refl)
  moreover have "(\<Sum>k\<leftarrow>concat (map ?f gs). \<bar>k\<bar>) \<le> (\<Sum>k\<leftarrow>concat (map cents gs). \<bar>k\<bar>)"
    unfolding sum_list_concat_map list.map_comp o_def
    by (intro sum_list_mono) (auto intro!: sum_list_mono)
  moreover have "sum_list (concat (map ?f gs)) = raw_cents profile gs"
    using sum_list_concat_map [of "\<lambda>k. k" "map ?f gs"]
    by (auto simp: raw_cents_def o_def intro!: arg_cong [of _ _ sum_list] map_cong)
  ultimately show ?thesis
    using dec_sum_cents [of "concat (map ?f gs)"] cents_total [OF gs n] by simp
qed

lemma normalize_score_exact:
  assumes gs: "list_all cents_group gs" and n: "outcome_count gs \<le> 10 ^ 12"
    and norm: "normalize_score (of_int (raw_cents profile gs) / 100) gs = Inr score"
  shows "score = exact_score profile gs"
proof -
  define a b where "a = raw_cents profile gs - min_cents gs" and "b = max_cents gs - min_cents gs"
  note pc = possible_cents [OF gs n]
  have a: "0 \<le> a" "a \<le> b" and b: "b \<le> 10 ^ 20"
    using raw_between [of gs profile] pc(3) by (simp_all add: a_def b_def)
  have mx: "of_int (max_cents gs) / 100 - of_int (min_cents gs) / 100 = (of_int b / 100 :: rat)"
    and rw: "of_int (raw_cents profile gs) / 100 - of_int (min_cents gs) / 100 = (of_int a / 100 :: rat)"
    by (simp_all add: a_def b_def diff_divide_distrib)
  have d: "d28 (of_int b / 100) = of_int b / 100" "d28 (of_int a / 100) = of_int a / 100"
    using a b by (simp_all add: d28_cents)
  show ?thesis
  proof (cases "b = 0")
    case True
    then have "raw_cents profile gs = 0"
    proof -
      have "min_cents gs \<le> 0" "0 \<le> max_cents gs"
        unfolding min_cents_def max_cents_def by (auto intro!: sum_list_nonpos sum_list_nonneg)
      with True a show ?thesis by (simp add: a_def b_def)
    qed
    with True norm show ?thesis
      by (simp add: normalize_score_def pc exact_score_def b_def)
  next
    case False
    with a have b0: "0 < b" by simp
    have t: "0 \<le> (of_int a / of_int b :: rat)" "(of_int a / of_int b :: rat) \<le> 1" using a b0 by simp_all
    have ne: "max_cents gs \<noteq> min_cents gs" using False by (simp add: b_def)
    have quot: "of_int a / 100 / (of_int b / 100) = (of_int a / of_int b :: rat)" by simp
    have "quantize2 (min (max (percent28 (of_int a / of_int b)) 0) 100) = Inr score"
      using norm ne False
      by (simp add: normalize_score_def pc mx rw d quot percent28_def Let_def del: divide_divide_eq_left)
    then have "score = q2 (percent28 (of_int a / of_int b))"
      using percent28_range [OF t] by (auto dest!: quantize2_Inr simp: min_def max_def)
    also have "\<dots> = of_int (rhu (of_int (10000 * a) / of_int b)) / 100"
      by (rule q2_percent28 [OF b0 b a])
    also have "\<dots> = exact_score profile gs" using ne by (simp add: exact_score_def a_def b_def)
    finally show ?thesis .
  qed
qed

lemma exact_sorted:
  "exact_score profile (sort_key k gs) = exact_score profile gs"
  "raw_cents profile (sort_key k gs) = raw_cents profile gs"
  "outcome_count (sort_key k gs) = outcome_count gs"
  "list_all cents_group (sort_key k gs) = list_all cents_group gs"
  by (simp_all add: exact_score_def raw_cents_def min_cents_def max_cents_def outcome_count_def
    sum_sort_key list_all_iff)

section \<open>The order of the rules\<close>

text \<open>A rule set as a set: groups in any order, the conditions of each in any order.\<close>

definition canon_group :: "rule_group \<Rightarrow> rule_group" where
  "canon_group g = g\<lparr>rg_conditions := sort_key condition_key (rg_conditions g)\<rparr>"

definition group_contents :: "rule_group \<Rightarrow> rule_group \<times> rule_condition multiset" where
  "group_contents g = (g\<lparr>rg_conditions := []\<rparr>, mset (rg_conditions g))"

definition same_rules :: "rule_group list \<Rightarrow> rule_group list \<Rightarrow> bool" where
  "same_rules gs gs' \<longleftrightarrow> mset (map group_contents gs) = mset (map group_contents gs')"

definition uuids_ok :: "uuid list \<Rightarrow> bool" where
  "uuids_ok us \<longleftrightarrow> distinct us \<and> (\<forall>u\<in>set us. u < 2 ^ 128)"

lemma sort_key_idem [simp]: "sort_key k (sort_key k xs) = sort_key k xs"
  by (rule sort_key_id_if_sorted) simp

lemma canon_group_simps [simp]:
  "rg_id (canon_group g) = rg_id g" "rg_code (canon_group g) = rg_code g"
  "rg_outcomes (canon_group g) = rg_outcomes g" "group_key (canon_group g) = group_key g"
  "group_payload (canon_group g) = group_payload g"
  "evaluate_group_conditions (canon_group g) profile = evaluate_group_conditions g profile"
  by (simp_all add: canon_group_def group_key_def group_payload_def evaluate_group_conditions_def)

lemma canon_group_pass [simp]:
  "blocking_group profile (canon_group g) = blocking_group profile g"
  "scoring_group profile (canon_group g) = scoring_group profile g"
  by (simp_all add: blocking_group_def [abs_def] scoring_group_def blocking_item_def [abs_def]
      scoring_item_def [abs_def] cong: if_cong)

lemma mapR_map: "mapR f (map g xs) = mapR (\<lambda>x. f (g x)) xs"
  by (induction xs) simp_all

lemma insort_key_map: "insort_key f (g x) (map g xs) = map g (insort_key (\<lambda>x. f (g x)) x xs)"
  by (induction xs) simp_all

lemma sort_key_map: "sort_key f (map g xs) = map g (sort_key (\<lambda>x. f (g x)) xs)"
  by (induction xs) (simp_all add: insort_key_map)

lemma evaluate_canon: "evaluate alg p pv (map canon_group gs) = evaluate alg p pv gs"
proof -
  let ?s = "sort_key group_key gs"
  have s: "sort_key group_key (map canon_group gs) = map canon_group ?s"
    by (simp add: sort_key_map)
  have "compute_rules_version_hash pv (map canon_group ?s) = compute_rules_version_hash pv ?s"
    by (simp add: compute_rules_version_hash_def hash_payload_def o_def)
  moreover have "evaluate_blocking_pass (map canon_group ?s) profile = evaluate_blocking_pass ?s profile"
    "evaluate_scoring_pass (map canon_group ?s) profile = evaluate_scoring_pass ?s profile" for profile
    by (simp_all add: evaluate_blocking_pass_def evaluate_scoring_pass_def mapR_map)
  moreover have "normalize_score raw (map canon_group ?s) = normalize_score raw ?s" for raw
    by (simp add: normalize_score_def scoring_deltas_def o_def)
  ultimately show ?thesis by (simp only: evaluate_def s Let_def)
qed

lemma group_key_inj: "\<forall>g\<in>set gs. rg_id g < 2 ^ 128 \<Longrightarrow> distinct (map rg_id gs) \<Longrightarrow> inj_on group_key (set gs)"
  unfolding inj_on_def group_key_def
  by (auto dest!: uuid_str_inj [rotated 2]) (metis distinct_map inj_onD)

lemma condition_key_inj: "uuids_ok (map rc_id cs) \<Longrightarrow> inj_on condition_key (set cs)"
  unfolding inj_on_def condition_key_def uuids_ok_def
  by (auto dest!: uuid_str_inj [rotated 2]) (metis distinct_map inj_onD)

lemma uuids_ok_perm: "mset us = mset vs \<Longrightarrow> uuids_ok us \<Longrightarrow> uuids_ok vs"
  by (auto simp: uuids_ok_def dest: mset_eq_imp_distinct_iff mset_eq_setD)

text \<open>The canonical group is a function of the contents.\<close>

lemma same_rules_canon:
  assumes same: "same_rules gs gs'" and ids: "\<forall>g\<in>set gs. uuids_ok (map rc_id (rg_conditions g))"
  shows "mset (map canon_group gs) = mset (map canon_group gs')"
proof -
  define canon where "canon p = (case p of (h, M) \<Rightarrow>
      h\<lparr>rg_conditions := sort_key condition_key (SOME cs. mset cs = M)\<rparr>)" for p :: "rule_group \<times> rule_condition multiset"
  have canon: "canon (group_contents g) = canon_group g" if "uuids_ok (map rc_id (rg_conditions g))" for g
  proof -
    let ?cs = "SOME cs. mset cs = mset (rg_conditions g)"
    have "mset ?cs = mset (rg_conditions g)" by (rule someI) (rule refl)
    then have "sort_key condition_key (rg_conditions g) = sort_key condition_key ?cs"
      by (intro sort_key_perm condition_key_inj that) simp
    then show ?thesis by (simp add: canon_def group_contents_def canon_group_def)
  qed
  have "uuids_ok (map rc_id (rg_conditions g'))" if "g' \<in> set gs'" for g'
  proof -
    have "group_contents g' \<in># mset (map group_contents gs)" using same that by (simp add: same_rules_def)
    then obtain g where g: "g \<in> set gs" "mset (rg_conditions g) = mset (rg_conditions g')"
      by (auto simp: group_contents_def)
    then have "mset (map rc_id (rg_conditions g)) = mset (map rc_id (rg_conditions g'))" by (simp only: mset_map)
    with uuids_ok_perm ids g(1) show ?thesis by blast
  qed
  with ids have "map canon_group gs = map canon (map group_contents gs)" "map canon_group gs' = map canon (map group_contents gs')"
    by (simp_all add: canon)
  with same show ?thesis by (simp only: same_rules_def mset_map)
qed

lemma evaluate_perm:
  assumes "mset gs = mset gs'" and "uuids_ok (map rg_id gs)"
  shows "evaluate alg p pv gs = evaluate alg p pv gs'"
proof -
  have "sort_key group_key gs = sort_key group_key gs'"
    using assms by (intro sort_key_perm group_key_inj) (auto simp: uuids_ok_def)
  then show ?thesis by (simp add: evaluate_def)
qed

section \<open>When the engine returns\<close>

definition is_ok :: "'a result \<Rightarrow> bool" where
  "is_ok r = (case r of Inr _ \<Rightarrow> True | Inl _ \<Rightarrow> False)"

lemma is_ok_simps [simp]: "is_ok (Inr x)" "\<not> is_ok (Inl e)"
  by (simp_all add: is_ok_def)

lemma is_ok_iff: "is_ok r \<longleftrightarrow> (\<exists>x. r = Inr x)"
  by (cases r) simp_all

lemma is_ok_bindR: "is_ok (bindR r f) \<longleftrightarrow> (\<exists>x. r = Inr x \<and> is_ok (f x))"
  by (cases r) simp_all

lemma is_ok_ret [simp]: "is_ok (bindR r (\<lambda>x. Inr (f x))) \<longleftrightarrow> is_ok r"
  by (cases r) simp_all

lemma is_ok_const [simp]: "is_ok (bindR r (\<lambda>x. m)) \<longleftrightarrow> is_ok r \<and> is_ok m"
  by (cases r) simp_all

lemma is_ok_bindR_I: "(\<And>x. is_ok (f x) \<longleftrightarrow> b) \<Longrightarrow> is_ok (bindR r f) \<longleftrightarrow> is_ok r \<and> b"
  by (cases r) simp_all

lemma is_ok_mapR: "is_ok (mapR f xs) \<longleftrightarrow> (\<forall>x\<in>set xs. is_ok (f x))"
proof (induction xs)
  case (Cons a xs)
  have "is_ok (mapR f (a # xs)) \<longleftrightarrow> is_ok (f a) \<and> is_ok (mapR f xs)"
    unfolding mapR.simps by (rule is_ok_bindR_I) simp
  then show ?case by (simp add: Cons)
qed simp

definition float_ok :: "json \<Rightarrow> bool" where
  "float_ok v = (case v of JNull \<Rightarrow> False | JBool _ \<Rightarrow> True | JInt n \<Rightarrow> to_float (of_int n) \<notin> {PInf, PNInf}
     | JFloat _ \<Rightarrow> True | JStr s \<Rightarrow> is_ok (float_of_str s) | JList _ \<Rightarrow> False | JObj _ \<Rightarrow> False)"

lemma to_float_not_nan: "to_float x \<noteq> PNaN"
  by (simp add: to_float_def Let_def)

lemma float_ok: "is_ok (py_float v) \<longleftrightarrow> float_ok v"
  by (cases v) (auto simp: float_ok_def to_float_not_nan simp del: of_int_of_nat split: pyfloat.splits)

text \<open>The conditions that evaluate: a known operator, and operands of its types.\<close>

definition operands_ok :: "string \<Rightarrow> json \<Rightarrow> json \<Rightarrow> bool" where
  "operands_ok operator actual_value expected_value =
     (if operator \<in> {''exists'', ''eq'', ''ne''} then True
      else if operator \<in> {''gt'', ''gte'', ''lt'', ''lte''} then
        actual_value = JNull \<or> float_ok actual_value \<and> float_ok expected_value
      else if operator = ''between'' then
        actual_value = JNull \<or> float_ok actual_value \<and>
          (case expected_value of JList [lo, hi] \<Rightarrow> float_ok lo \<and> float_ok hi | _ \<Rightarrow> False)
      else if operator \<in> {''in'', ''not_in''} then
        (case expected_value of JList _ \<Rightarrow> True | _ \<Rightarrow> False)
      else False)"

lemma is_between_ok:
  "is_ok (is_between a e) \<longleftrightarrow> a = JNull \<or> float_ok a \<and>
     (case e of JList [lo, hi] \<Rightarrow> float_ok lo \<and> float_ok hi | _ \<Rightarrow> False)"
proof -
  have "is_ok (bindR (py_float lo) (\<lambda>l. bindR (py_float hi) (\<lambda>h. bindR (py_float a) (\<lambda>x.
      Inr (pf_le l x \<and> pf_le x h))))) \<longleftrightarrow> float_ok lo \<and> float_ok hi \<and> float_ok a" for lo hi
    by (simp only: float_ok [symmetric]) (intro is_ok_bindR_I is_ok_ret)
  then show ?thesis by (auto simp: is_between_def split: json.splits list.splits)
qed

lemma compare_numeric_ok:
  "is_ok (compare_numeric operator a e) \<longleftrightarrow> a = JNull \<or> float_ok a \<and> float_ok e"
proof -
  have "is_ok (bindR (py_float a) (\<lambda>x. bindR (py_float e) (\<lambda>y. Inr (numeric_comparison operator x y))))
      \<longleftrightarrow> float_ok a \<and> float_ok e"
    by (simp only: float_ok [symmetric]) (intro is_ok_bindR_I is_ok_ret)
  then show ?thesis by (simp add: compare_numeric_def)
qed

lemma is_in_ok: "is_ok (is_in a e) \<longleftrightarrow> (case e of JList _ \<Rightarrow> True | _ \<Rightarrow> False)"
  by (auto simp: is_in_def split: json.splits)

lemma evaluate_condition_ok: "is_ok (evaluate_condition operator a e) \<longleftrightarrow> operands_ok operator a e"
  unfolding evaluate_condition_def operands_ok_def
  by (simp add: is_between_ok compare_numeric_ok is_in_ok Let_def)

definition condition_ok :: "json dict \<Rightarrow> rule_condition \<Rightarrow> bool" where
  "condition_ok profile c = operands_ok (rc_operator c) (resolve_field profile (rc_field_key c)) (rc_value_json c)"

definition group_ok :: "json dict \<Rightarrow> rule_group \<Rightarrow> bool" where
  "group_ok profile g = list_all (condition_ok profile) (rg_conditions g)"

lemma check_condition_ok: "is_ok (check_condition profile c) \<longleftrightarrow> condition_ok profile c"
  by (simp add: check_condition_def Let_def condition_ok_def evaluate_condition_ok)

lemma group_conditions_ok: "is_ok (evaluate_group_conditions g profile) \<longleftrightarrow> group_ok profile g"
  by (simp add: evaluate_group_conditions_def is_ok_mapR check_condition_ok group_ok_def list_all_iff)

text \<open>The profiles that normalise.\<close>

definition finite_float :: "json \<Rightarrow> bool" where
  "finite_float v = (case py_float v of Inr (PFin _) \<Rightarrow> True | _ \<Rightarrow> False)"

definition level_ok :: "json \<Rightarrow> bool" where
  "level_ok payload =
     (case payload of
        JBool _ \<Rightarrow> True
      | JInt _ \<Rightarrow> True
      | JFloat x \<Rightarrow> finite_float payload
      | JStr s \<Rightarrow> upper (strip s) \<in> set (map fst CEFR_TO_NUMERIC) \<or> finite_float (JStr (upper (strip s)))
      | JObj d \<Rightarrow>
          (let framework = upper (py_str (obj_get d ''framework'' (JStr ''CEFR'')));
               level = obj_get d ''level'' JNull
           in framework = ''CEFR'' \<and> upper (py_str level) \<in> set (map fst CEFR_TO_NUMERIC) \<or>
              framework = ''IELTS'' \<and>
                (case py_float level of
                   Inr (PFin x) \<Rightarrow> py_round 1 x \<in> set (map fst IELTS_TO_CEFR_NUMERIC) | _ \<Rightarrow> False))
      | _ \<Rightarrow> False)"

definition int_ok :: "json \<Rightarrow> bool" where
  "int_ok v = (case v of JBool _ \<Rightarrow> True | JInt _ \<Rightarrow> True | JFloat (PFin _) \<Rightarrow> True
     | JStr s \<Rightarrow> is_ok (int_of_str s) | _ \<Rightarrow> False)"

definition profile_ok :: "json dict \<Rightarrow> bool" where
  "profile_ok p \<longleftrightarrow>
     missing_fields p = [] \<and> int_ok (the (dict_get p ''idade'')) \<and> float_ok (the (dict_get p ''renda_atual'')) \<and>
     (case the (dict_get p ''idiomas'') of JObj d \<Rightarrow> list_all level_ok (map snd d) | _ \<Rightarrow> False)"

lemma int_ok: "is_ok (py_int v) \<longleftrightarrow> int_ok v"
proof (cases v)
  case (JFloat x) then show ?thesis by (cases x) (simp_all add: int_ok_def)
qed (simp_all add: int_ok_def)

lemma int_of_float_ok: "is_ok (int_of_float x) \<longleftrightarrow> (case x of PFin _ \<Rightarrow> True | _ \<Rightarrow> False)"
  by (cases x) simp_all

lemma is_ok_lookup:
  "is_ok (case map_of d k of None \<Rightarrow> Inl e | Some n \<Rightarrow> Inr n) \<longleftrightarrow> k \<in> set (map fst d)"
proof (cases "map_of d k")
  case None
  then show ?thesis using map_of_eq_None_iff [of d k] by simp
next
  case (Some n)
  then show ?thesis using map_of_eq_None_iff [of d k] by (simp del: map_of_eq_None_iff)
qed

lemma cefr_level_ok: "is_ok (cefr_level v) \<longleftrightarrow> upper (py_str v) \<in> set (map fst CEFR_TO_NUMERIC)"
  unfolding cefr_level_def by (rule is_ok_lookup)

lemma ielts_level_ok:
  "is_ok (ielts_level v) \<longleftrightarrow>
     (case py_float v of Inr (PFin x) \<Rightarrow> py_round 1 x \<in> set (map fst IELTS_TO_CEFR_NUMERIC) | _ \<Rightarrow> False)"
proof (cases "py_float v")
  case (Inr x)
  then show ?thesis by (cases x) (simp_all only: ielts_level_def round1_def is_ok_lookup bindR_simps
        is_ok_simps sum.case pyfloat.case)
qed (simp add: ielts_level_def)

lemma language_level_ok: "is_ok (language_level_to_numeric v) \<longleftrightarrow> level_ok v"
proof (cases v)
  case (JFloat x)
  then show ?thesis
    by (simp add: language_level_to_numeric_def level_ok_def finite_float_def int_of_float_ok)
next
  case (JStr s)
  let ?u = "upper (strip s)"
  have "is_ok (bindR (float_of_str ?u) int_of_float) \<longleftrightarrow> finite_float (JStr ?u)"
    by (auto simp: finite_float_def is_ok_bindR int_of_float_ok split: sum.splits)
  moreover have "?u \<in> set (map fst CEFR_TO_NUMERIC) \<longleftrightarrow> dict_get CEFR_TO_NUMERIC ?u \<noteq> None"
    by (simp add: map_of_eq_None_iff)
  ultimately show ?thesis
    by (auto simp: JStr language_level_to_numeric_def level_ok_def Let_def split: option.splits)
next
  case (JObj d)
  then show ?thesis
    by (simp add: language_level_to_numeric_def level_ok_def Let_def cefr_level_ok ielts_level_ok
        unsupported_language_def)
qed (simp_all add: language_level_to_numeric_def level_ok_def unsupported_language_def)

lemma language_items_ok: "is_ok (normalize_language_items d acc) \<longleftrightarrow> list_all level_ok (map snd d)"
proof (induction d acc rule: normalize_language_items.induct)
  case (2 language payload items normalized)
  show ?case
  proof (cases "language_level_to_numeric payload")
    case (Inr n)
    with language_level_ok [of payload] 2 [of n] show ?thesis by simp
  qed (use language_level_ok [of payload] in simp)
qed simp

lemma normalize_languages_ok:
  "is_ok (normalize_languages v) \<longleftrightarrow> (case v of JObj d \<Rightarrow> list_all level_ok (map snd d) | _ \<Rightarrow> False)"
  by (simp add: normalize_languages_def language_items_ok split: json.splits)

lemma normalize_profile_ok: "is_ok (normalize_profile p) \<longleftrightarrow> profile_ok p"
proof (cases "missing_fields p = []")
  case True
  have "is_ok (normalize_profile p) \<longleftrightarrow> is_ok (py_int (the (dict_get p ''idade''))) \<and>
      is_ok (py_float (the (dict_get p ''renda_atual''))) \<and>
      is_ok (normalize_languages (the (dict_get p ''idiomas'')))"
    unfolding normalize_profile_def Let_def using True
    by (simp only: not_not if_False simp_thms) (intro is_ok_bindR_I is_ok_ret)
  with True show ?thesis by (simp add: profile_ok_def int_ok float_ok normalize_languages_ok)
qed (simp add: normalize_profile_def profile_ok_def)

text \<open>With deltas in cents the arithmetic of both passes never fails.\<close>

lemma quantize2_cents: "dexp d = -2 \<Longrightarrow> \<bar>dcoeff d\<bar> < 10 ^ 8 \<Longrightarrow> is_ok (quantize2 (dec_val d))"
proof -
  assume d: "dexp d = -2" "\<bar>dcoeff d\<bar> < 10 ^ 8"
  have "\<bar>dec_val d\<bar> \<le> 10 ^ 20"
  proof -
    have "(of_int \<bar>dcoeff d\<bar> :: rat) \<le> of_int (10 ^ 8)" using d(2) by (simp only: of_int_le_iff)
    then show ?thesis using d(1) by (simp add: dec_val_cents)
  qed
  then show ?thesis by (simp add: quantize2_small)
qed

lemma cents_outcome_ok: "cents_group g \<Longrightarrow> oc \<in> set (rg_outcomes g) \<Longrightarrow> is_ok (quantize2 (dec_val (ro_score_delta oc)))"
  by (rule quantize2_cents) (auto simp: cents_group_def list_all_iff)

lemma blocking_group_ok: "cents_group g \<Longrightarrow> is_ok (blocking_group profile g) \<longleftrightarrow> group_ok profile g"
  unfolding blocking_group_def group_conditions_ok [symmetric]
  by (cases "evaluate_group_conditions g profile")
    (auto simp: is_ok_mapR blocking_item_def intro: cents_outcome_ok)

lemma scoring_group_ok: "cents_group g \<Longrightarrow> is_ok (scoring_group profile g) \<longleftrightarrow> group_ok profile g"
  unfolding scoring_group_def group_conditions_ok [symmetric]
  by (cases "evaluate_group_conditions g profile")
    (auto simp: is_ok_mapR scoring_item_def quantize2_small intro: cents_outcome_ok)

lemma normalize_score_ok:
  assumes gs: "list_all cents_group gs" and n: "outcome_count gs \<le> 10 ^ 12"
  shows "is_ok (normalize_score raw gs)"
proof -
  note pc = possible_cents [OF gs n]
  have le: "min_cents gs \<le> max_cents gs" using raw_between [of gs "[]"] by linarith
  have "d28 (of_int (max_cents gs) / 100 - of_int (min_cents gs) / 100)
      = of_int (max_cents gs - min_cents gs) / 100"
    using d28_cents [of "max_cents gs - min_cents gs"] pc(3) le by (simp add: diff_divide_distrib)
  then have "d28 (of_int (max_cents gs) / 100 - of_int (min_cents gs) / 100) \<noteq> 0"
    if "max_cents gs \<noteq> min_cents gs"
    using that by simp
  moreover have "is_ok (quantize2 (min (max x 0) 100))" for x
    using quantize2_small [of "min (max x 0) 100"] by (simp add: min_def max_def)
  ultimately show ?thesis by (simp add: normalize_score_def pc Let_def)
qed

lemma raw_quantize_ok:
  assumes gs: "list_all cents_group gs" and n: "outcome_count gs \<le> 10 ^ 12"
  shows "quantize2 (of_int (raw_cents profile gs) / 100) = Inr (of_int (raw_cents profile gs) / 100)"
proof -
  have "min_cents gs \<le> 0" "0 \<le> max_cents gs"
    unfolding min_cents_def max_cents_def by (auto intro!: sum_list_nonpos sum_list_nonneg)
  then have "\<bar>raw_cents profile gs\<bar> \<le> 10 ^ 20"
    using raw_between [of gs profile] possible_cents(3) [OF gs n] by linarith
  then have "of_int \<bar>raw_cents profile gs\<bar> \<le> (of_int (10 ^ 20) :: rat)" by (simp only: of_int_le_iff)
  then have "\<bar>of_int (raw_cents profile gs) / 100\<bar> \<le> (10 ^ 20 :: rat)" by simp
  then show ?thesis by (simp add: quantize2_small)
qed

lemma passes_ok:
  assumes gs: "list_all cents_group gs"
  shows "is_ok (evaluate_blocking_pass gs profile) \<longleftrightarrow> list_all (group_ok profile) gs"
    and "is_ok (evaluate_scoring_pass gs profile) \<longleftrightarrow> list_all (group_ok profile) gs"
  using gs by (auto simp: evaluate_blocking_pass_def evaluate_scoring_pass_def is_ok_mapR
      blocking_group_ok scoring_group_ok list_all_iff)

lemma evaluate_ok:
  assumes gs: "list_all cents_group gs" and n: "outcome_count gs \<le> 10 ^ 12"
    and norm: "normalize_profile p = Inr profile"
  shows "is_ok (evaluate alg p pv gs) \<longleftrightarrow> list_all (group_ok profile) gs"
proof -
  let ?s = "sort_key group_key gs"
  have gs': "list_all cents_group ?s" and n': "outcome_count ?s \<le> 10 ^ 12"
    using gs n by (simp_all add: exact_sorted)
  have all: "list_all (group_ok profile) ?s \<longleftrightarrow> list_all (group_ok profile) gs"
    by (simp add: list_all_iff)
  show ?thesis
  proof (cases "evaluate_blocking_pass ?s profile")
    case (Inl e)
    then show ?thesis using passes_ok(1) [OF gs', of profile] norm all
      by (simp add: evaluate_def Let_def)
  next
    case (Inr blocking)
    then have ok: "list_all (group_ok profile) gs" using passes_ok(1) [OF gs', of profile] all by simp
    then obtain items where items: "evaluate_scoring_pass ?s profile = Inr items"
      using passes_ok(2) [OF gs', of profile] all by (auto simp: is_ok_iff)
    note raw = raw_total [OF gs' n' items]
    have "is_ok (normalize_score (of_int (raw_cents profile ?s) / 100) ?s)"
      by (rule normalize_score_ok [OF gs' n'])
    then show ?thesis
      using Inr items norm ok
      by (auto simp: evaluate_def Let_def raw raw_quantize_ok [OF gs' n'] simp del: sort_key_simps)
  qed
qed

lemma scored_exact:
  assumes gs: "list_all cents_group gs" and n: "outcome_count gs \<le> 10 ^ 12"
    and norm: "normalize_profile p = Inr profile" and ev: "evaluate alg p pv gs = Inr r"
    and nb: "\<not> sr_is_blocked r"
  shows "sr_score_final r = exact_score profile gs"
    and "sr_raw_score r = of_int (raw_cents profile gs) / 100"
    and "sr_breakdown r = concat (map (expected_items profile) (sort_key group_key gs))"
proof -
  let ?s = "sort_key group_key gs"
  have gs': "list_all cents_group ?s" and n': "outcome_count ?s \<le> 10 ^ 12"
    using gs n by (simp_all add: exact_sorted)
  obtain items score raw_q h where items: "evaluate_scoring_pass ?s profile = Inr items"
    and sc: "normalize_score (dec_sum (map bi_score_delta items)) ?s = Inr score"
    and rq: "quantize2 (dec_sum (map bi_score_delta items)) = Inr raw_q"
    and r: "r = scored_result alg h score raw_q items"
    using evaluate_success [OF ev] norm nb by (metis Inr_inject result_fields(1))
  note raw = raw_total [OF gs' n' items]
  show "sr_score_final r = exact_score profile gs"
    using normalize_score_exact [OF gs' n'] sc r by (simp add: raw exact_sorted)
  show "sr_raw_score r = of_int (raw_cents profile gs) / 100"
    using raw_quantize_ok [OF gs' n'] rq r by (simp add: raw exact_sorted)
  show "sr_breakdown r = concat (map (expected_items profile) ?s)"
    using scoring_pass_Inr [OF items] r by simp
qed

section \<open>Concrete inputs\<close>

definition sample_profile :: "json dict" where
  "sample_profile =
     [(''idade'', JInt 30), (''escolaridade'', JStr '' Master ''), (''profissao'', JStr ''Engenheira''),
      (''idiomas'', JObj [(''EN'', JStr ''c1'')]), (''renda_atual'', JInt 9000)]"

definition sample_version :: version_input where
  "sample_version = \<lparr>vi_id = 1, vi_version = ''2026.01'', vi_effective_from = 0, vi_effective_to = None\<rparr>"

definition sample_condition :: "nat \<Rightarrow> string \<Rightarrow> string \<Rightarrow> json \<Rightarrow> rule_condition" where
  "sample_condition i f oper v = \<lparr>rc_id = i, rc_field_key = f, rc_operator = oper, rc_value_json = v,
     rc_condition_order = 1, rc_is_required = True\<rparr>"

definition sample_group :: "nat \<Rightarrow> rule_condition \<Rightarrow> int \<Rightarrow> bool \<Rightarrow> rule_group" where
  "sample_group i c delta blocking =
     \<lparr>rg_id = i, rg_code = ''G'', rg_name = ''G'', rg_priority = 1, rg_match_operator = ''all'',
      rg_conditions = [c],
      rg_outcomes = [\<lparr>ro_id = i, ro_score_delta = Dec delta (-2), ro_is_blocking = blocking,
                      ro_explanation_message = ''m'', ro_outcome_code = None\<rparr>]\<rparr>"

definition sample_groups :: "rule_group list" where
  "sample_groups =
     [sample_group 1 (sample_condition 1 ''idiomas_nivel.en'' ''gte'' (JInt 4)) 2000 False,
      sample_group 2 (sample_condition 2 ''idade'' ''gt'' (JInt 45)) 1000 False]"

definition sample_blocking :: "rule_group list" where
  "sample_blocking = [sample_group 3 (sample_condition 3 ''passaporte'' ''exists'' (JBool False)) 0 True]"

definition sample_normal :: "json dict" where
  "sample_normal =
     [(''idade'', JInt 30), (''escolaridade'', JStr ''master''), (''profissao'', JStr ''Engenheira''),
      (''idiomas'', JObj [(''EN'', JStr ''c1'')]), (''renda_atual'', JFloat (PFin 9000)),
      (''escolaridade_rank'', JInt 5), (''profissao_codigo'', JStr ''Engenheira''),
      (''profissao_nome'', JStr ''Engenheira''), (''idiomas_nivel'', JObj [(''en'', JInt 5)])]"

lemma sample_normalized: "normalize_profile sample_profile = Inr sample_normal"
  by (simp add: normalize_profile_def sample_profile_def missing_fields_def REQUIRED_PROFILE_FIELDS_def
      string_eval EDUCATION_RANK_def set_profession_def normalize_languages_def
      language_level_to_numeric_def CEFR_TO_NUMERIC_def sample_normal_def)

lemma sample_cents: "list_all cents_group sample_groups" "outcome_count sample_groups \<le> 10 ^ 12"
  "list_all cents_group sample_blocking" "outcome_count sample_blocking \<le> 10 ^ 12"
  by (simp_all add: sample_groups_def sample_blocking_def sample_group_def cents_group_def outcome_count_def)

lemma sample_groups_ok:
  "list_all (group_ok sample_normal) sample_groups" "list_all (group_ok sample_normal) sample_blocking"
  by (simp_all add: sample_groups_def sample_blocking_def sample_group_def sample_condition_def group_ok_def
     condition_ok_def operands_ok_def resolve_field_def sample_normal_def float_ok_def)

lemma sample_runs: "is_ok (evaluate alg sample_profile pv sample_groups)"
  "is_ok (evaluate alg sample_profile pv sample_blocking)"
  using evaluate_ok [OF sample_cents(1,2) sample_normalized] evaluate_ok [OF sample_cents(3,4) sample_normalized]
    sample_groups_ok
  by simp_all

lemma sample_not_blocked: "evaluate alg sample_profile pv sample_groups = Inr r \<Longrightarrow> \<not> sr_is_blocked r"
  using blocking_pass_nonempty [of "sort_key group_key sample_groups" sample_normal]
  by (elim evaluate_success)
    (auto simp: sample_normalized sample_groups_def sample_group_def split: if_splits)

section \<open>Properties\<close>

text \<open>
  C2. Whatever the profile and the rules are, a result that the engine returns has a score between
  0 and 100, the band low below 40, medium from 40 and high from 70, eligibility exactly from 60
  and never when blocked, and a blocked result scores 0 with the blocking messages as its gaps.
\<close>

theorem score_in_range:
  assumes "evaluate alg p pv gs = Inr r"
  shows "0 \<le> sr_score_final r \<and> sr_score_final r \<le> 100
    \<and> sr_faixa r = (if sr_score_final r < 40 then ''baixo'' else if sr_score_final r < 70 then ''medio'' else ''alto'')
    \<and> (sr_is_eligible r \<longleftrightarrow> \<not> sr_is_blocked r \<and> 60 \<le> sr_score_final r)
    \<and> (sr_is_blocked r \<longrightarrow> sr_score_final r = 0 \<and> sr_breakdown r \<noteq> []
          \<and> sr_gaps_criticos r = map bi_explanation_message (sr_breakdown r))"
  using assms by (rule evaluate_success) (auto dest: normalize_score_range simp: to_faixa_def)

theorem score_in_range_witness:
  "\<exists>r. evaluate ALGORITHM_VERSION sample_profile sample_version sample_groups = Inr r \<and> sr_score_final r \<le> 100"
proof -
  obtain r where "evaluate ALGORITHM_VERSION sample_profile sample_version sample_groups = Inr r"
    using sample_runs(1) by (auto simp: is_ok_iff)
  from this score_in_range [OF this] show ?thesis by blast
qed

text \<open>
  C1. The 28-digit decimal arithmetic of the engine computes the exact score: for deltas with two
  decimals, at most \<open>10 ^ 12\<close> outcomes and a result that is not blocked, the score is the exact
  percentage of the reachable interval rounded half up once, and the raw score is the exact sum of
  the deltas of the groups that apply. (The quotient and the product round on the way; no double
  rounding shows, and the clamp to 0..100 never acts.)
\<close>

theorem score_exact:
  assumes "list_all cents_group gs" and "outcome_count gs \<le> 10 ^ 12"
    and "normalize_profile p = Inr profile" and "evaluate alg p pv gs = Inr r"
    and "\<not> sr_is_blocked r"
  shows "sr_score_final r = exact_score profile gs \<and> sr_raw_score r = of_int (raw_cents profile gs) / 100"
  using scored_exact [OF assms] by simp

theorem score_exact_witness:
  "\<exists>r. evaluate ALGORITHM_VERSION sample_profile sample_version sample_groups = Inr r
     \<and> sr_score_final r = exact_score sample_normal sample_groups"
proof -
  obtain r where r: "evaluate ALGORITHM_VERSION sample_profile sample_version sample_groups = Inr r"
    using sample_runs(1) by (auto simp: is_ok_iff)
  have "\<not> sr_is_blocked r" by (rule sample_not_blocked [OF r])
  from r score_exact [OF sample_cents(1,2) sample_normalized r this] show ?thesis by blast
qed

text \<open>
  C4. Blocking rules come first: a result is blocked exactly when some group with a blocking
  outcome applies to the normalised profile, whatever the scoring rules give.
\<close>

theorem blocked_iff:
  assumes "evaluate alg p pv gs = Inr r" and "normalize_profile p = Inr profile"
  shows "sr_is_blocked r \<longleftrightarrow>
    (\<exists>g\<in>set gs. applies profile g \<and> (\<exists>oc\<in>set (rg_outcomes g). ro_is_blocking oc))"
  using assms(1)
proof (rule evaluate_success)
  fix profile' items
  assume "normalize_profile p = Inr profile'" "items \<noteq> []"
    and "evaluate_blocking_pass (sort_key group_key gs) profile' = Inr items"
    and "r = blocked_result alg (compute_rules_version_hash pv (sort_key group_key gs)) items"
  with assms(2) show ?thesis using blocking_pass_nonempty by fastforce
next
  fix profile' items score raw_q
  assume "normalize_profile p = Inr profile'"
    and "evaluate_blocking_pass (sort_key group_key gs) profile' = Inr []"
    and "r = scored_result alg (compute_rules_version_hash pv (sort_key group_key gs)) score raw_q items"
  with assms(2) show ?thesis using blocking_pass_nonempty by fastforce
qed

theorem blocked_iff_witness:
  "\<exists>r. evaluate ALGORITHM_VERSION sample_profile sample_version sample_blocking = Inr r \<and> sr_is_blocked r"
proof -
  obtain r where r: "evaluate ALGORITHM_VERSION sample_profile sample_version sample_blocking = Inr r"
    using sample_runs(2) by (auto simp: is_ok_iff)
  have "\<exists>g\<in>set sample_blocking. applies sample_normal g \<and> (\<exists>oc\<in>set (rg_outcomes g). ro_is_blocking oc)"
    by (simp add: sample_blocking_def sample_group_def sample_condition_def applies_def
        evaluate_group_conditions_def check_condition_def evaluate_condition_def resolve_field_def
        sample_normal_def group_truth_def Let_def)
  with r blocked_iff [OF r sample_normalized] show ?thesis by blast
qed

text \<open>The audit trail is complete and honest: the breakdown of a result that is not blocked has,
  group by group in the evaluation order and outcome by outcome, one item for every scoring
  outcome, applied or not, with its delta in cents or 0; the raw score is the sum of these deltas,
  and the positive factors and the critical gaps are the messages of the items above and below 0.
\<close>

theorem breakdown_audit:
  assumes "evaluate alg p pv gs = Inr r" and "normalize_profile p = Inr profile"
    and "\<not> sr_is_blocked r"
  shows "sr_breakdown r = concat (map (expected_items profile) (sort_key group_key gs))
    \<and> sr_raw_score r = q2 (dec_sum (map bi_score_delta (sr_breakdown r)))
    \<and> sr_fatores_positivos r = map bi_explanation_message (filter (\<lambda>i. 0 < bi_score_delta i) (sr_breakdown r))
    \<and> sr_gaps_criticos r = map bi_explanation_message (filter (\<lambda>i. bi_score_delta i < 0) (sr_breakdown r))"
  using assms(1)
proof (rule evaluate_success)
  fix profile' items score raw_q
  assume "normalize_profile p = Inr profile'"
    and pass: "evaluate_scoring_pass (sort_key group_key gs) profile' = Inr items"
    and rq: "quantize2 (dec_sum (map bi_score_delta items)) = Inr raw_q"
    and r: "r = scored_result alg (compute_rules_version_hash pv (sort_key group_key gs)) score raw_q items"
  with assms(2) have "items = concat (map (expected_items profile) (sort_key group_key gs))"
    using scoring_pass_Inr by fastforce
  with r quantize2_Inr [OF rq] show ?thesis by (simp add: scored_result_def)
qed (use assms(3) in simp)

theorem breakdown_audit_witness:
  "\<exists>r. evaluate ALGORITHM_VERSION sample_profile sample_version sample_groups = Inr r
     \<and> length (sr_breakdown r) = 2"
proof -
  obtain r where r: "evaluate ALGORITHM_VERSION sample_profile sample_version sample_groups = Inr r"
    using sample_runs(1) by (auto simp: is_ok_iff)
  have nb: "\<not> sr_is_blocked r" by (rule sample_not_blocked [OF r])
  have len: "length (expected_items sample_normal g) = 1" if "g \<in> set sample_groups" for g
    using that sample_groups_ok(1) group_conditions_ok [of g sample_normal]
    by (auto simp: sample_groups_def sample_group_def expected_items_def is_ok_iff)
  have "length (concat (map (expected_items sample_normal) (sort_key group_key sample_groups)))
      = (\<Sum>g\<leftarrow>sample_groups. length (expected_items sample_normal g))"
    by (simp only: length_concat list.map_comp o_def sum_sort_key)
  also have "\<dots> = 2" using len by (simp add: sample_groups_def)
  finally have "length (sr_breakdown r) = 2"
    using breakdown_audit [OF r sample_normalized nb] by simp
  with r show ?thesis by blast
qed

text \<open>
  C21. The result, its hash and its breakdown do not depend on the order in which the groups of a
  rule set, and the conditions of each group, are read from the database, whose rows have distinct
  identifiers: two lists with the same groups, but for their order and that of their conditions,
  give the same.
\<close>

theorem evaluate_order_independent:
  assumes "same_rules gs gs'" and "uuids_ok (map rg_id gs)" and "\<forall>g\<in>set gs. uuids_ok (map rc_id (rg_conditions g))"
  shows "evaluate alg p pv gs = evaluate alg p pv gs'"
proof -
  have "uuids_ok (map rg_id (map canon_group gs))" using assms(2) by (simp add: o_def)
  then show ?thesis
    using evaluate_perm [of "map canon_group gs" "map canon_group gs'"] same_rules_canon [OF assms(1,3)]
    by (simp only: evaluate_canon)
qed

theorem evaluate_order_independent_witness:
  "evaluate ALGORITHM_VERSION sample_profile sample_version sample_groups
     = evaluate ALGORITHM_VERSION sample_profile sample_version (rev sample_groups)"
  by (rule evaluate_order_independent)
    (simp_all add: same_rules_def uuids_ok_def sample_groups_def sample_group_def sample_condition_def)

text \<open>
  C16. When the engine returns: for deltas with two decimals it gives a result exactly when the
  profile is complete and typed as the code expects (age, income and every language level) and
  every condition of every group, also those behind a blocking rule, has a known operator and
  operands of its type. Everything else is an exception.
\<close>

theorem evaluate_total:
  assumes "list_all cents_group gs" and "outcome_count gs \<le> 10 ^ 12"
  shows "(\<exists>r. evaluate alg p pv gs = Inr r) \<longleftrightarrow>
    profile_ok p \<and> (\<exists>profile. normalize_profile p = Inr profile \<and> list_all (group_ok profile) gs)"
proof (cases "normalize_profile p")
  case (Inl e)
  then show ?thesis using normalize_profile_ok [of p] by (simp add: evaluate_def)
next
  case (Inr profile)
  then show ?thesis using normalize_profile_ok [of p] evaluate_ok [OF assms Inr, of alg pv]
    by (simp add: is_ok_iff)
qed

theorem evaluate_total_witness: "\<exists>r. evaluate ALGORITHM_VERSION sample_profile sample_version sample_groups = Inr r"
  unfolding evaluate_total [OF sample_cents(1,2)]
  using sample_normalized sample_groups_ok normalize_profile_ok [of sample_profile] by simp

end
