(* ===== verification/Billing.thy ===== *)
theory Billing
  imports Settings Py_Json Py_Time
begin

text \<open>
  Billing, \<open>src/apps/billing\<close>: the tables of \<open>models.py\<close> with their constraints, the queries of
  \<open>repositories.py\<close> and the service of \<open>services.py\<close> (plans, entitlements, the monthly quota, the
  Stripe webhook). Stripe's library is a parameter (\<open>stripe_api\<close>). A request takes the clock as an
  argument, read once; a new row takes the next identifier. Rows keep their insertion order, which
  is the order of a query that asks for none and of ties in one that does.
\<close>

section \<open>Tables\<close>

datatype plan_interval = month_interval | year_interval
datatype subscription_status = trialing | active | past_due | canceled | expired
datatype entitlement_window = daily | monthly | lifetime
datatype billing_provider = stripe
datatype billing_event_status = received | processed | ignored | failed

record plan =
  pl_id :: uuid
  pl_code :: string
  pl_name :: string
  pl_description :: "string option"
  pl_price_cents :: int
  pl_currency :: string
  pl_billing_interval :: plan_interval
  pl_provider :: billing_provider
  pl_stripe_price_id :: "string option"
  pl_stripe_product_id :: "string option"
  pl_is_free :: bool
  pl_is_active :: bool

record subscription =
  su_id :: uuid
  su_created_at :: time
  su_user_id :: uuid
  su_plan_id :: uuid
  su_status :: subscription_status
  su_started_at :: time
  su_current_period_start :: time
  su_current_period_end :: time
  su_canceled_at :: "time option"
  su_provider :: billing_provider
  su_provider_customer_id :: "string option"
  su_provider_subscription_id :: "string option"
  su_cancel_at_period_end :: bool

record entitlement =
  en_id :: uuid
  en_user_id :: uuid
  en_plan_id :: "uuid option"
  en_subscription_id :: "uuid option"
  en_feature_key :: string
  en_limit_value :: "int option"
  en_usage_window :: entitlement_window
  en_is_enabled :: bool
  en_valid_from :: time
  en_valid_to :: "time option"

record usage_counter =
  uc_id :: uuid
  uc_user_id :: uuid
  uc_feature_key :: string
  uc_window_start :: time
  uc_window_end :: time
  uc_used_count :: int

record billing_event =
  be_id :: uuid
  be_provider :: billing_provider
  be_provider_event_id :: string
  be_event_type :: string
  be_status :: billing_event_status
  be_payload_json :: json
  be_processed_at :: "time option"
  be_last_error :: "string option"

text \<open>
  The tables; \<open>bd_users\<close> are the ids of the users table that the foreign keys refer to,
  \<open>bd_next\<close> the next fresh id, \<open>bd_conversions\<close> the counter of conversions.
\<close>

record billing_db =
  bd_plans :: "plan list"
  bd_subscriptions :: "subscription list"
  bd_entitlements :: "entitlement list"
  bd_counters :: "usage_counter list"
  bd_events :: "billing_event list"
  bd_users :: "uuid list"
  bd_next :: uuid
  bd_conversions :: nat

text \<open>The constraints that the schema declares: primary, unique and foreign keys.\<close>

definition somes :: "('a \<Rightarrow> 'b option) \<Rightarrow> 'a list \<Rightarrow> 'b list" where
  "somes f xs = map the (filter (\<lambda>v. v \<noteq> None) (map f xs))"

definition fk :: "'a option \<Rightarrow> 'a list \<Rightarrow> bool" where
  "fk v ids \<longleftrightarrow> (case v of None \<Rightarrow> True | Some i \<Rightarrow> i \<in> set ids)"

definition entitlement_key :: "entitlement \<Rightarrow> uuid \<times> string \<times> entitlement_window \<times> time" where
  "entitlement_key e = (en_user_id e, en_feature_key e, en_usage_window e, en_valid_from e)"

definition counter_key :: "usage_counter \<Rightarrow> uuid \<times> string \<times> time" where
  "counter_key c = (uc_user_id c, uc_feature_key c, uc_window_start c)"

definition plans_ok :: "'z billing_db_scheme \<Rightarrow> bool" where
  "plans_ok d \<longleftrightarrow> distinct (map pl_code (bd_plans d)) \<and> distinct (map pl_id (bd_plans d))
     \<and> distinct (somes pl_stripe_price_id (bd_plans d))"

definition subscriptions_ok :: "'z billing_db_scheme \<Rightarrow> bool" where
  "subscriptions_ok d \<longleftrightarrow>
     distinct (map su_id (bd_subscriptions d))
     \<and> distinct (somes su_provider_subscription_id (bd_subscriptions d))
     \<and> list_all (\<lambda>s. su_user_id s \<in> set (bd_users d) \<and> su_plan_id s \<in> set (map pl_id (bd_plans d)))
         (bd_subscriptions d)"

definition entitlements_ok :: "'z billing_db_scheme \<Rightarrow> bool" where
  "entitlements_ok d \<longleftrightarrow>
     distinct (map en_id (bd_entitlements d)) \<and> distinct (map entitlement_key (bd_entitlements d))
     \<and> list_all (\<lambda>e. en_user_id e \<in> set (bd_users d)
          \<and> fk (en_plan_id e) (map pl_id (bd_plans d))
          \<and> fk (en_subscription_id e) (map su_id (bd_subscriptions d)))
         (bd_entitlements d)"

definition counters_ok :: "'z billing_db_scheme \<Rightarrow> bool" where
  "counters_ok d \<longleftrightarrow>
     distinct (map uc_id (bd_counters d)) \<and> distinct (map counter_key (bd_counters d))
     \<and> list_all (\<lambda>c. uc_user_id c \<in> set (bd_users d)) (bd_counters d)"

definition events_ok :: "'z billing_db_scheme \<Rightarrow> bool" where
  "events_ok d \<longleftrightarrow>
     distinct (map be_id (bd_events d))
     \<and> distinct (map (\<lambda>e. (be_provider e, be_provider_event_id e)) (bd_events d))"

definition schema_ok :: "'z billing_db_scheme \<Rightarrow> bool" where
  "schema_ok d \<longleftrightarrow> plans_ok d \<and> subscriptions_ok d \<and> entitlements_ok d \<and> counters_ok d \<and> events_ok d"

type_synonym ('z, 'a) billing_op = "('z billing_db_scheme txn, 'a) op"

abbreviation bflush :: "('z billing_db_scheme \<Rightarrow> 'z billing_db_scheme) \<Rightarrow> ('z, unit) billing_op" where
  "bflush f \<equiv> flush schema_ok f"

section \<open>Repository\<close>

definition plan_by_code :: "'z billing_db_scheme \<Rightarrow> string \<Rightarrow> plan option" where
  "plan_by_code d c = find (\<lambda>p. pl_code p = c \<and> pl_is_active p) (bd_plans d)"

definition get_plan_by_code :: "string \<Rightarrow> ('z, plan option) billing_op" where
  "get_plan_by_code c = query (\<lambda>d. plan_by_code d c)"

definition get_plan_by_stripe_price_id :: "string \<Rightarrow> ('z, plan option) billing_op" where
  "get_plan_by_stripe_price_id price =
     query (\<lambda>d. find (\<lambda>p. pl_stripe_price_id p = Some price \<and> pl_is_active p) (bd_plans d))"

text \<open>The arguments of \<open>get_or_create_plan\<close> are the columns of a plan, its id apart.\<close>

definition get_or_create_plan :: "plan \<Rightarrow> ('z, plan) billing_op" where
  "get_or_create_plan args =
     bindO (get_plan_by_code (pl_code args)) (\<lambda>existing.
     case existing of
       Some p \<Rightarrow>
         (let p' = p\<lparr>pl_name := pl_name args, pl_description := pl_description args,
                     pl_price_cents := pl_price_cents args, pl_currency := pl_currency args,
                     pl_billing_interval := pl_billing_interval args, pl_provider := pl_provider args,
                     pl_stripe_price_id := pl_stripe_price_id args,
                     pl_stripe_product_id := pl_stripe_product_id args,
                     pl_is_free := pl_is_free args, pl_is_active := True\<rparr>
          in bindO (bflush (\<lambda>d. d\<lparr>bd_plans := upd_where (\<lambda>q. pl_id q = pl_id p) (\<lambda>_. p') (bd_plans d)\<rparr>)) (\<lambda>_.
             bindO commit (\<lambda>_. ret p')))
     | None \<Rightarrow>
         bindO (query bd_next) (\<lambda>i.
         let p = args\<lparr>pl_id := i, pl_is_active := True\<rparr>
         in bindO (bflush (\<lambda>d. d\<lparr>bd_plans := bd_plans d @ [p], bd_next := i + 1\<rparr>)) (\<lambda>_.
            bindO commit (\<lambda>_. ret p))))"

definition get_subscription_by_provider_id ::
    "billing_provider \<Rightarrow> string \<Rightarrow> ('z, subscription option) billing_op" where
  "get_subscription_by_provider_id prov psid =
     query (\<lambda>d. find (\<lambda>s. su_provider s = prov \<and> su_provider_subscription_id s = Some psid)
                  (bd_subscriptions d))"

definition get_active_subscription_for_user :: "uuid \<Rightarrow> ('z, subscription option) billing_op" where
  "get_active_subscription_for_user u =
     query (\<lambda>d. first (sort_key (\<lambda>s. (- su_current_period_end s, - su_created_at s))
       (filter (\<lambda>s. su_user_id s = u \<and> su_status s \<in> {active, trialing, past_due}) (bd_subscriptions d))))"

text \<open>The row condition of the queries for entitlements in force at \<open>t\<close>.\<close>

definition in_force :: "uuid \<Rightarrow> time \<Rightarrow> entitlement \<Rightarrow> bool" where
  "in_force u t e \<longleftrightarrow> en_user_id e = u \<and> en_is_enabled e \<and> en_valid_from e \<le> t
     \<and> (case en_valid_to e of None \<Rightarrow> True | Some v \<Rightarrow> t < v)"

definition active_entitlements :: "'z billing_db_scheme \<Rightarrow> uuid \<Rightarrow> time \<Rightarrow> entitlement list" where
  "active_entitlements d u t =
     sort_key (\<lambda>e. (en_feature_key e, - en_valid_from e)) (filter (in_force u t) (bd_entitlements d))"

definition list_active_entitlements :: "uuid \<Rightarrow> time \<Rightarrow> ('z, entitlement list) billing_op" where
  "list_active_entitlements u t = query (\<lambda>d. active_entitlements d u t)"

definition active_entitlement :: "'z billing_db_scheme \<Rightarrow> uuid \<Rightarrow> string \<Rightarrow> time \<Rightarrow> entitlement option" where
  "active_entitlement d u k t =
     first (sort_key (\<lambda>e. - en_valid_from e)
       (filter (\<lambda>e. in_force u t e \<and> en_feature_key e = k) (bd_entitlements d)))"

definition get_active_entitlement :: "uuid \<Rightarrow> string \<Rightarrow> time \<Rightarrow> ('z, entitlement option) billing_op" where
  "get_active_entitlement u k t = query (\<lambda>d. active_entitlement d u k t)"

definition deactivate_active_entitlements :: "uuid \<Rightarrow> time \<Rightarrow> ('z, unit) billing_op" where
  "deactivate_active_entitlements u t =
     bflush (\<lambda>d. d\<lparr>bd_entitlements :=
       upd_where (in_force u t) (\<lambda>e. e\<lparr>en_valid_to := Some t\<rparr>) (bd_entitlements d)\<rparr>)"

text \<open>A row to be inserted: its id is assigned by the insertion.\<close>

definition create_entitlement :: "entitlement \<Rightarrow> ('z, unit) billing_op" where
  "create_entitlement e =
     bflush (\<lambda>d. d\<lparr>bd_entitlements := bd_entitlements d @ [e\<lparr>en_id := bd_next d\<rparr>],
                   bd_next := bd_next d + 1\<rparr>)"

text \<open>The arguments of \<open>upsert_subscription\<close> are the columns of a subscription, id and creation apart.\<close>

definition upsert_subscription :: "time \<Rightarrow> subscription \<Rightarrow> ('z, subscription) billing_op" where
  "upsert_subscription now args =
     bindO (case su_provider_subscription_id args of
              None \<Rightarrow> ret None
            | Some psid \<Rightarrow> if psid = [] then ret None
                            else get_subscription_by_provider_id (su_provider args) psid) (\<lambda>existing.
     case existing of
       None \<Rightarrow>
         bindO (query bd_next) (\<lambda>i.
         let s = args\<lparr>su_id := i, su_created_at := now\<rparr>
         in bindO (bflush (\<lambda>d. d\<lparr>bd_subscriptions := bd_subscriptions d @ [s], bd_next := i + 1\<rparr>)) (\<lambda>_. ret s))
     | Some s0 \<Rightarrow>
         (let s = args\<lparr>su_id := su_id s0, su_created_at := su_created_at s0\<rparr>
          in bindO (bflush (\<lambda>d. d\<lparr>bd_subscriptions :=
                      upd_where (\<lambda>x. su_id x = su_id s0) (\<lambda>_. s) (bd_subscriptions d)\<rparr>)) (\<lambda>_. ret s)))"

definition get_or_create_usage_counter ::
    "uuid \<Rightarrow> string \<Rightarrow> time \<Rightarrow> time \<Rightarrow> ('z, usage_counter) billing_op" where
  "get_or_create_usage_counter u k ws we =
     bindO (query (\<lambda>d. find (\<lambda>c. counter_key c = (u, k, ws)) (bd_counters d))) (\<lambda>found.
     case found of
       Some c \<Rightarrow> ret c
     | None \<Rightarrow>
         bindO (query bd_next) (\<lambda>i.
         let c = \<lparr>uc_id = i, uc_user_id = u, uc_feature_key = k, uc_window_start = ws,
                  uc_window_end = we, uc_used_count = 0\<rparr>
         in bindO (bflush (\<lambda>d. d\<lparr>bd_counters := bd_counters d @ [c], bd_next := i + 1\<rparr>)) (\<lambda>_. ret c)))"

definition list_current_usage_counters :: "uuid \<Rightarrow> time \<Rightarrow> ('z, usage_counter list) billing_op" where
  "list_current_usage_counters u t =
     query (\<lambda>d. sort_key uc_feature_key
       (filter (\<lambda>c. uc_user_id c = u \<and> uc_window_start c \<le> t \<and> t < uc_window_end c) (bd_counters d)))"

definition billing_event_of :: "'z billing_db_scheme \<Rightarrow> billing_provider \<Rightarrow> string \<Rightarrow> billing_event option" where
  "billing_event_of d prov eid = find (\<lambda>e. (be_provider e, be_provider_event_id e) = (prov, eid)) (bd_events d)"

definition get_billing_event :: "billing_provider \<Rightarrow> string \<Rightarrow> ('z, billing_event option) billing_op" where
  "get_billing_event prov eid = query (\<lambda>d. billing_event_of d prov eid)"

definition create_billing_event ::
    "billing_provider \<Rightarrow> string \<Rightarrow> string \<Rightarrow> json \<Rightarrow> ('z, billing_event) billing_op" where
  "create_billing_event prov eid ty payload =
     bindO (query bd_next) (\<lambda>i.
     let e = \<lparr>be_id = i, be_provider = prov, be_provider_event_id = eid, be_event_type = ty,
              be_status = received, be_payload_json = payload, be_processed_at = None,
              be_last_error = None\<rparr>
     in bindO (bflush (\<lambda>d. d\<lparr>bd_events := bd_events d @ [e], bd_next := i + 1\<rparr>)) (\<lambda>_. ret e))"

definition set_billing_event ::
    "billing_event \<Rightarrow> billing_event_status \<Rightarrow> time \<Rightarrow> string option \<Rightarrow> ('z, unit) billing_op" where
  "set_billing_event e st now err =
     bflush (\<lambda>d. d\<lparr>bd_events := upd_where (\<lambda>x. be_id x = be_id e)
       (\<lambda>x. x\<lparr>be_status := st, be_processed_at := Some now, be_last_error := err\<rparr>) (bd_events d)\<rparr>)"

definition mark_billing_event_processed ::
    "billing_event \<Rightarrow> time \<Rightarrow> billing_event_status \<Rightarrow> ('z, unit) billing_op" where
  "mark_billing_event_processed e now st = set_billing_event e st now None"

definition mark_billing_event_failed :: "billing_event \<Rightarrow> time \<Rightarrow> string \<Rightarrow> ('z, unit) billing_op" where
  "mark_billing_event_failed e now err = set_billing_event e failed now (Some err)"

section \<open>Stripe\<close>

text \<open>
  What the code uses of Stripe's library: \<open>Webhook.construct_event\<close> (payload, signature, secret), which also reads the
  clock, since it refuses a signature that is older than its tolerance; \<open>Subscription.retrieve\<close> and
  \<open>checkout.Session.create\<close>. \<open>Inl True\<close> is a signature error.
\<close>

record stripe_api =
  construct_event :: "time \<Rightarrow> string \<Rightarrow> string \<Rightarrow> string \<Rightarrow> (bool \<times> string) + json dict"
  retrieve :: "string \<Rightarrow> string + json dict"
  session_create :: "json dict \<Rightarrow> string + (string \<times> string)"

definition build_stripe_gateway :: "settings \<Rightarrow> unit result" where
  "build_stripe_gateway cfg =
     (if opt_truthy (stripe_secret_key cfg) then Inr ()
      else Inl (StripeGatewayError ''STRIPE_SECRET_KEY is required for Stripe integration''))"

definition gateway_checkout :: "stripe_api \<Rightarrow> json dict \<Rightarrow> (string \<times> string) result" where
  "gateway_checkout api args =
     (case session_create api args of
        Inl e \<Rightarrow> Inl (StripeGatewayError (''stripe checkout session create failed: '' @ e))
      | Inr s \<Rightarrow> Inr s)"

definition verify_and_parse_webhook ::
    "settings \<Rightarrow> stripe_api \<Rightarrow> time \<Rightarrow> string \<Rightarrow> string option \<Rightarrow> json dict result" where
  "verify_and_parse_webhook cfg api now payload signature =
     (if \<not> opt_truthy (stripe_webhook_secret cfg) then
        Inl (StripeGatewayError ''STRIPE_WEBHOOK_SECRET is required for webhook validation'')
      else if \<not> opt_truthy signature then
        Inl (StripeSignatureError ''Missing Stripe-Signature header'')
      else (case construct_event api now payload (the signature) (the (stripe_webhook_secret cfg)) of
          Inl (sig_error, e) \<Rightarrow>
            (if sig_error then Inl (StripeSignatureError ''Invalid Stripe webhook signature'')
             else Inl (StripeGatewayError (''stripe webhook parse failed: '' @ e)))
        | Inr ev \<Rightarrow> Inr ev))"

definition retrieve_subscription :: "stripe_api \<Rightarrow> string \<Rightarrow> json dict result" where
  "retrieve_subscription api i =
     (case retrieve api i of
        Inl e \<Rightarrow> Inl (StripeGatewayError (''stripe subscription retrieve failed: '' @ e))
      | Inr s \<Rightarrow> Inr s)"

section \<open>Service: plans and entitlements\<close>

definition default_plan :: "string \<Rightarrow> string \<Rightarrow> string \<Rightarrow> string option \<Rightarrow> bool \<Rightarrow> plan" where
  "default_plan plan_code name desc price free =
     \<lparr>pl_id = 0, pl_code = plan_code, pl_name = name, pl_description = Some desc, pl_price_cents = 0,
      pl_currency = ''BRL'', pl_billing_interval = month_interval, pl_provider = stripe,
      pl_stripe_price_id = price, pl_stripe_product_id = None, pl_is_free = free, pl_is_active = True\<rparr>"

definition free_default :: "settings \<Rightarrow> plan" where
  "free_default cfg = default_plan (free_plan_code cfg) (free_plan_name cfg) ''Free tier'' None True"

definition pro_default :: "settings \<Rightarrow> plan" where
  "pro_default cfg =
     default_plan (pro_plan_code cfg) (pro_plan_name cfg) ''Pro tier'' (stripe_pro_price_id cfg) False"

definition ensure_default_plans :: "settings \<Rightarrow> ('z, unit) billing_op" where
  "ensure_default_plans cfg =
     bindO (get_or_create_plan (free_default cfg)) (\<lambda>_.
     bindO (get_or_create_plan (pro_default cfg)) (\<lambda>_. ret ()))"

record entitlement_spec =
  es_feature_key :: string
  es_limit_value :: "int option"
  es_usage_window :: entitlement_window
  es_is_enabled :: bool

definition spec_of :: "string \<Rightarrow> int option \<Rightarrow> entitlement_window \<Rightarrow> entitlement_spec" where
  "spec_of k cap w = \<lparr>es_feature_key = k, es_limit_value = cap, es_usage_window = w, es_is_enabled = True\<rparr>"

definition entitlements_for_plan :: "settings \<Rightarrow> string \<Rightarrow> entitlement_spec list" where
  "entitlements_for_plan cfg plan_code =
     (if plan_code = pro_plan_code cfg then
        [spec_of (assessment_feature_key cfg) None monthly,
         spec_of (pro_roadmap_feature_key cfg) None lifetime,
         spec_of (history_extended_feature_key cfg) None lifetime,
         spec_of (country_comparison_feature_key cfg) None lifetime,
         spec_of (processing_priority_feature_key cfg) None lifetime]
      else [spec_of (assessment_feature_key cfg) (Some (free_assessment_monthly_limit cfg)) monthly])"

definition apply_plan_entitlements ::
    "settings \<Rightarrow> time \<Rightarrow> uuid \<Rightarrow> plan \<Rightarrow> uuid option \<Rightarrow> ('z, unit) billing_op" where
  "apply_plan_entitlements cfg now u p sub =
     bindO (deactivate_active_entitlements u now) (\<lambda>_.
     forO (\<lambda>sp. create_entitlement
       \<lparr>en_id = 0, en_user_id = u, en_plan_id = Some (pl_id p), en_subscription_id = sub,
        en_feature_key = es_feature_key sp, en_limit_value = es_limit_value sp,
        en_usage_window = es_usage_window sp, en_is_enabled = es_is_enabled sp,
        en_valid_from = now, en_valid_to = None\<rparr>)
       (entitlements_for_plan cfg (pl_code p)))"

definition ensure_user_access_baseline :: "settings \<Rightarrow> time \<Rightarrow> uuid \<Rightarrow> ('z, unit) billing_op" where
  "ensure_user_access_baseline cfg now u =
     bindO (ensure_default_plans cfg) (\<lambda>_.
     bindO (list_active_entitlements u now) (\<lambda>es.
     if es \<noteq> [] then ret ()
     else bindO (get_plan_by_code (free_plan_code cfg)) (\<lambda>free_plan.
       case free_plan of
         None \<Rightarrow> raise (HTTPException 500 ''Free plan not configured'')
       | Some p \<Rightarrow> bindO (apply_plan_entitlements cfg now u p None) (\<lambda>_. commit))))"

definition require_entitlement :: "settings \<Rightarrow> time \<Rightarrow> uuid \<Rightarrow> string \<Rightarrow> ('z, entitlement) billing_op" where
  "require_entitlement cfg now u k =
     bindO (ensure_user_access_baseline cfg now u) (\<lambda>_.
     bindO (get_active_entitlement u k now) (\<lambda>e.
     case e of
       None \<Rightarrow> raise (HTTPException 403 (''Feature '' @ [CHR 0x27] @ k @ [CHR 0x27] @ '' requires active entitlement''))
     | Some x \<Rightarrow> ret x))"

section \<open>Service: the monthly quota\<close>

definition current_month_window :: "time \<Rightarrow> time \<times> time" where
  "current_month_window now =
     (let y = year now; m = month now
      in (midnight y m 1, if m = 12 then midnight (y + 1) 1 1 else midnight y (m + 1) 1))"

definition increment_counter :: "uuid \<Rightarrow> ('z, unit) billing_op" where
  "increment_counter i =
     bflush (\<lambda>d. d\<lparr>bd_counters := upd_where (\<lambda>c. uc_id c = i)
       (\<lambda>c. c\<lparr>uc_used_count := uc_used_count c + 1\<rparr>) (bd_counters d)\<rparr>)"

text \<open>The metered part: nothing happens where the entitlement has no limit.\<close>

definition meter_usage :: "settings \<Rightarrow> time \<Rightarrow> uuid \<Rightarrow> entitlement \<Rightarrow> ('z, unit) billing_op" where
  "meter_usage cfg now u e =
     (case en_limit_value e of
        None \<Rightarrow> ret ()
      | Some cap \<Rightarrow>
          (let (window_start, window_end) = current_month_window now
           in bindO (get_or_create_usage_counter u (assessment_feature_key cfg) window_start window_end) (\<lambda>c.
              if cap \<le> uc_used_count c then
                raise (HTTPException 403 (''Monthly assessment quota reached for free plan (''
                  @ int_str cap @ ''/'' @ int_str cap @ '')''))
              else increment_counter (uc_id c))))"

definition consume_assessment_quota :: "settings \<Rightarrow> time \<Rightarrow> uuid \<Rightarrow> ('z, bool) billing_op" where
  "consume_assessment_quota cfg now u =
     bindO (ensure_user_access_baseline cfg now u) (\<lambda>_.
     bindO (get_active_entitlement u (assessment_feature_key cfg) now) (\<lambda>e.
     case e of
       None \<Rightarrow> raise (HTTPException 403 ''No active entitlement for assessments'')
     | Some ent \<Rightarrow>
         bindO (meter_usage cfg now u ent) (\<lambda>_.
         bindO (get_active_entitlement u (processing_priority_feature_key cfg) now) (\<lambda>priority.
         bindO commit (\<lambda>_. ret (priority \<noteq> None))))))"

definition has_priority_processing :: "settings \<Rightarrow> time \<Rightarrow> uuid \<Rightarrow> ('z, bool) billing_op" where
  "has_priority_processing cfg now u =
     bindO (ensure_user_access_baseline cfg now u) (\<lambda>_.
     bindO (get_active_entitlement u (processing_priority_feature_key cfg) now) (\<lambda>priority.
     ret (priority \<noteq> None)))"

record entitlements_me =
  me_plan :: "plan option"
  me_subscription :: "subscription option"
  me_entitlements :: "entitlement list"
  me_usage_counters :: "usage_counter list"

definition get_entitlements_me :: "settings \<Rightarrow> time \<Rightarrow> uuid \<Rightarrow> ('z, entitlements_me) billing_op" where
  "get_entitlements_me cfg now u =
     bindO (ensure_user_access_baseline cfg now u) (\<lambda>_.
     bindO (list_active_entitlements u now) (\<lambda>es.
     bindO (list_current_usage_counters u now) (\<lambda>us.
     bindO (get_active_subscription_for_user u) (\<lambda>sub.
     bindO (case sub of
              Some s \<Rightarrow> query (\<lambda>d. find (\<lambda>p. pl_id p = su_plan_id s) (bd_plans d))
            | None \<Rightarrow> get_plan_by_code (free_plan_code cfg)) (\<lambda>p.
     ret \<lparr>me_plan = p, me_subscription = sub, me_entitlements = es, me_usage_counters = us\<rparr>)))))"

section \<open>Service: checkout\<close>

record checkout_payload =
  cp_plan_code :: string
  cp_success_url :: string
  cp_cancel_url :: string

definition create_checkout_session ::
    "settings \<Rightarrow> stripe_api \<Rightarrow> uuid \<Rightarrow> string \<Rightarrow> checkout_payload \<Rightarrow> ('z, (string \<times> string)) billing_op" where
  "create_checkout_session cfg api u email payload =
     bindO (ensure_default_plans cfg) (\<lambda>_.
     bindO (get_plan_by_code (cp_plan_code payload)) (\<lambda>found.
     case found of
       None \<Rightarrow> raise (HTTPException 404 ''Plan not found'')
     | Some p \<Rightarrow>
         if pl_is_free p then raise (HTTPException 422 ''Checkout not applicable for free plan'')
         else if \<not> opt_truthy (pl_stripe_price_id p) then
           raise (HTTPException 409 ''Plan is missing Stripe price id'')
         else
           bindO (lift (build_stripe_gateway cfg)) (\<lambda>_.
           lift (gateway_checkout api
             [(''mode'', JStr ''subscription''),
              (''customer_email'', JStr email),
              (''line_items'', JList [JObj [(''price'', JStr (the (pl_stripe_price_id p))), (''quantity'', JInt 1)]]),
              (''success_url'', JStr (cp_success_url payload)),
              (''cancel_url'', JStr (cp_cancel_url payload)),
              (''client_reference_id'', JStr (uuid_str u)),
              (''metadata'', JObj [(''user_id'', JStr (uuid_str u)), (''plan_code'', JStr (pl_code p))])]))))"

section \<open>Service: the Stripe webhook\<close>

text \<open>\<open>v.get(k, dflt)\<close> of a JSON value: an exception where it is not an object.\<close>

definition as_dict :: "json \<Rightarrow> json dict result" where
  "as_dict v = (case v of JObj d \<Rightarrow> Inr d
     | _ \<Rightarrow> Inl (AttributeError (str_repr (type_name v) @ '' object has no attribute '' @ str_repr ''get'')))"

definition get_or :: "json dict \<Rightarrow> string \<Rightarrow> json \<Rightarrow> json" where
  "get_or d k dflt = (case dict_get d k of None \<Rightarrow> dflt | Some v \<Rightarrow> v)"

definition json_get :: "json \<Rightarrow> string \<Rightarrow> json \<Rightarrow> json result" where
  "json_get v k dflt = bindR (as_dict v) (\<lambda>d. Inr (get_or d k dflt))"

definition str_if :: "json \<Rightarrow> string option" where
  "str_if v = (if truthy v then Some (py_str v) else None)"

definition map_subscription_status :: "string \<Rightarrow> subscription_status" where
  "map_subscription_status raw_status =
     (let normalized = lower (strip raw_status)
      in if normalized = ''active'' then active
         else if normalized = ''trialing'' then trialing
         else if normalized \<in> {''past_due'', ''unpaid''} then past_due
         else if normalized \<in> {''canceled'', ''cancelled''} then canceled
         else expired)"

text \<open>\<open>datetime.fromtimestamp(int(value), tz=UTC)\<close>: the years 1 to 9999.\<close>

definition from_unix :: "json \<Rightarrow> time option result" where
  "from_unix value =
     (if value = JNull then Inr None
      else bindR (py_int value) (\<lambda>n.
        if -62135596800 \<le> n \<and> n \<le> 253402300799 then Inr (Some (seconds n))
        else Inl (ValueError ''year is out of range'')))"

definition price_id_of :: "json dict \<Rightarrow> json result" where
  "price_id_of so =
     bindR (json_get (get_or so ''items'' (JObj [])) ''data'' (JList [])) (\<lambda>items.
     case items of
       JList (x # _) \<Rightarrow>
         bindR (json_get (if truthy x then x else JObj []) ''price'' (JObj [])) (\<lambda>price.
         json_get price ''id'' JNull)
     | _ \<Rightarrow> Inr JNull)"

definition pro_plan :: "settings \<Rightarrow> ('z, plan) billing_op" where
  "pro_plan cfg =
     bindO (get_plan_by_code (pro_plan_code cfg)) (\<lambda>p.
     case p of None \<Rightarrow> raise (ValueError ''Pro plan not configured'') | Some x \<Rightarrow> ret x)"

definition resolve_plan_from_subscription_payload :: "settings \<Rightarrow> json dict \<Rightarrow> ('z, plan) billing_op" where
  "resolve_plan_from_subscription_payload cfg so =
     bindO (lift (price_id_of so)) (\<lambda>price_id.
     if \<not> truthy price_id then pro_plan cfg
     else bindO (get_plan_by_stripe_price_id (py_str price_id)) (\<lambda>p.
       case p of
         Some x \<Rightarrow> ret x
       | None \<Rightarrow>
           if opt_truthy (stripe_pro_price_id cfg) \<and> stripe_pro_price_id cfg = Some (py_str price_id)
           then pro_plan cfg
           else raise (ValueError (''Unknown Stripe price id: '' @ py_str price_id))))"

definition resolve_user_id_from_subscription ::
    "subscription option \<Rightarrow> string option \<Rightarrow> json dict \<Rightarrow> uuid result" where
  "resolve_user_id_from_subscription existing user_id_hint so =
     (case existing of
        Some s \<Rightarrow> Inr (su_user_id s)
      | None \<Rightarrow>
          (let m = get_or so ''metadata'' (JObj []);
               metadata = (if truthy m then m else JObj [])
           in bindR (if opt_truthy user_id_hint then Inr (JStr (the user_id_hint))
                     else json_get metadata ''user_id'' JNull) (\<lambda>raw_user_id.
              if \<not> truthy raw_user_id then
                Inl (ValueError ''Cannot resolve user for subscription event without metadata.user_id'')
              else uuid_parse (py_str raw_user_id))))"

definition apply_entitlements_for_status ::
    "settings \<Rightarrow> time \<Rightarrow> subscription_status \<Rightarrow> uuid \<Rightarrow> uuid \<Rightarrow> plan \<Rightarrow> ('z, unit) billing_op" where
  "apply_entitlements_for_status cfg now st u sub p =
     (if st \<in> {active, trialing, past_due} then apply_plan_entitlements cfg now u p (Some sub)
      else bindO (get_plan_by_code (free_plan_code cfg)) (\<lambda>free_plan.
        case free_plan of
          None \<Rightarrow> raise (ValueError ''Free plan not configured'')
        | Some fp \<Rightarrow> apply_plan_entitlements cfg now u fp (Some sub)))"

text \<open>The columns of the subscription that a payload gives.\<close>

definition subscription_args ::
    "time \<Rightarrow> uuid \<Rightarrow> uuid \<Rightarrow> string \<Rightarrow> subscription_status \<Rightarrow> json dict \<Rightarrow> subscription result" where
  "subscription_args now u plan_id psid st so =
     bindR (from_unix (get_or so ''start_date'' JNull)) (\<lambda>started.
     bindR (from_unix (get_or so ''current_period_start'' JNull)) (\<lambda>pstart.
     bindR (from_unix (get_or so ''current_period_end'' JNull)) (\<lambda>pend.
     bindR (from_unix (get_or so ''canceled_at'' JNull)) (\<lambda>canceled_at.
     let or_now = (\<lambda>t. case t of None \<Rightarrow> now | Some x \<Rightarrow> x)
     in Inr \<lparr>su_id = 0, su_created_at = now, su_user_id = u, su_plan_id = plan_id, su_status = st,
             su_started_at = or_now started, su_current_period_start = or_now pstart,
             su_current_period_end = or_now pend, su_canceled_at = canceled_at, su_provider = stripe,
             su_provider_customer_id = str_if (get_or so ''customer'' JNull),
             su_provider_subscription_id = Some psid,
             su_cancel_at_period_end = truthy (get_or so ''cancel_at_period_end'' (JBool False))\<rparr>))))"

text \<open>The counter is one of the process, which no rollback takes back.\<close>

definition count_conversion :: "'z billing_db_scheme \<Rightarrow> 'z billing_db_scheme" where
  "count_conversion d = d\<lparr>bd_conversions := bd_conversions d + 1\<rparr>"

definition increment_free_to_pro_conversion :: "('z, unit) billing_op" where
  "increment_free_to_pro_conversion t =
     (Inr (), t\<lparr>committed := count_conversion (committed t), working := count_conversion (working t)\<rparr>)"

definition sync_subscription_object ::
    "settings \<Rightarrow> time \<Rightarrow> json \<Rightarrow> string option \<Rightarrow> ('z, unit) billing_op" where
  "sync_subscription_object cfg now subscription_object user_id_hint =
     bindO (lift (as_dict subscription_object)) (\<lambda>so.
     let psid = py_str (get_or so ''id'' (JStr ''''))
     in if psid = [] then raise (ValueError ''Stripe subscription payload missing id'')
        else
          bindO (resolve_plan_from_subscription_payload cfg so) (\<lambda>p.
          let st = map_subscription_status (py_str (get_or so ''status'' (JStr '''')))
          in bindO (get_subscription_by_provider_id stripe psid) (\<lambda>existing.
             bindO (lift (resolve_user_id_from_subscription existing user_id_hint so)) (\<lambda>u.
             bindO (lift (subscription_args now u (pl_id p) psid st so)) (\<lambda>args.
             bindO (upsert_subscription now args) (\<lambda>s.
             bindO (if pl_code p = pro_plan_code cfg
                       \<and> (case existing of None \<Rightarrow> True | Some e \<Rightarrow> su_plan_id e \<noteq> pl_id p)
                    then increment_free_to_pro_conversion else ret ()) (\<lambda>_.
             apply_entitlements_for_status cfg now st u (su_id s) p)))))))"

text \<open>The hints that a checkout session gives for a subscription without customer or user.\<close>

definition with_hints :: "string option \<Rightarrow> string option \<Rightarrow> json dict \<Rightarrow> json dict result" where
  "with_hints user_id_hint customer_id_hint so =
     (let so1 = (if opt_truthy customer_id_hint \<and> \<not> truthy (get_or so ''customer'' JNull)
                 then dict_set ''customer'' (JStr (the customer_id_hint)) so else so)
      in if opt_truthy user_id_hint \<and> dict_get so1 ''metadata'' \<noteq> None then
           bindR (as_dict (the (dict_get so1 ''metadata''))) (\<lambda>md.
           if truthy (get_or md ''user_id'' JNull) then Inr so1
           else Inr (dict_set ''metadata'' (JObj (dict_set ''user_id'' (JStr (the user_id_hint)) md)) so1))
         else Inr so1)"

definition sync_subscription_from_provider ::
    "settings \<Rightarrow> stripe_api \<Rightarrow> time \<Rightarrow> string \<Rightarrow> string option \<Rightarrow> string option \<Rightarrow> ('z, unit) billing_op" where
  "sync_subscription_from_provider cfg api now psid user_id_hint customer_id_hint =
     bindO (lift (retrieve_subscription api psid)) (\<lambda>so.
     bindO (lift (with_hints user_id_hint customer_id_hint so)) (\<lambda>so'.
     sync_subscription_object cfg now (JObj so') user_id_hint))"

definition user_hint :: "json \<Rightarrow> json result" where
  "user_hint data_object =
     bindR (json_get data_object ''client_reference_id'' JNull) (\<lambda>r.
     if truthy r then Inr r
     else bindR (json_get data_object ''metadata'' (JObj [])) (\<lambda>md. json_get md ''user_id'' JNull))"

definition handle_stripe_event :: "settings \<Rightarrow> stripe_api \<Rightarrow> time \<Rightarrow> json dict \<Rightarrow> ('z, bool) billing_op" where
  "handle_stripe_event cfg api now event =
     (let event_type = py_str (get_or event ''type'' JNull)
      in bindO (lift (json_get (get_or event ''data'' (JObj [])) ''object'' (JObj []))) (\<lambda>data_object.
      if event_type = ''checkout.session.completed'' then
        bindO (lift (json_get data_object ''subscription'' JNull)) (\<lambda>sid.
        if \<not> truthy sid then ret False
        else
          bindO (lift (user_hint data_object)) (\<lambda>u.
          bindO (lift (json_get data_object ''customer'' JNull)) (\<lambda>customer.
          bindO (sync_subscription_from_provider cfg api now (py_str sid) (str_if u) (str_if customer))
            (\<lambda>_. ret True))))
      else if event_type = ''invoice.paid'' then
        bindO (lift (json_get data_object ''subscription'' JNull)) (\<lambda>sid.
        if \<not> truthy sid then ret False
        else bindO (sync_subscription_from_provider cfg api now (py_str sid) None None) (\<lambda>_. ret True))
      else if event_type \<in> {''customer.subscription.updated'', ''customer.subscription.deleted''} then
        bindO (sync_subscription_object cfg now data_object None) (\<lambda>_. ret True)
      else ret False))"

record webhook_ack =
  wa_received :: bool
  wa_idempotent_replay :: bool

definition webhook_event ::
    "settings \<Rightarrow> stripe_api \<Rightarrow> time \<Rightarrow> string \<Rightarrow> string option \<Rightarrow> json dict result" where
  "webhook_event cfg api now payload signature =
     (case verify_and_parse_webhook cfg api now payload signature of
        Inr ev \<Rightarrow> Inr ev
      | Inl (StripeSignatureError e) \<Rightarrow> Inl (HTTPException 401 e)
      | Inl (StripeGatewayError e) \<Rightarrow> Inl (HTTPException 503 e)
      | Inl e \<Rightarrow> Inl e)"

definition process_billing_event ::
    "settings \<Rightarrow> stripe_api \<Rightarrow> time \<Rightarrow> json dict \<Rightarrow> billing_event \<Rightarrow> ('z, unit) billing_op" where
  "process_billing_event cfg api now event be =
     catch
       (bindO (handle_stripe_event cfg api now event) (\<lambda>handled.
        bindO (mark_billing_event_processed be now (if handled then processed else ignored)) (\<lambda>_.
        commit)))
       (\<lambda>e. bindO (mark_billing_event_failed be now (exn_text e)) (\<lambda>_.
            bindO commit (\<lambda>_.
            raise (HTTPException 500 (''Failed to process billing event: '' @ exn_text e)))))"

definition process_stripe_webhook ::
    "settings \<Rightarrow> stripe_api \<Rightarrow> time \<Rightarrow> string \<Rightarrow> string option \<Rightarrow> ('z, webhook_ack) billing_op" where
  "process_stripe_webhook cfg api now payload signature =
     bindO (ensure_default_plans cfg) (\<lambda>_.
     bindO (lift (build_stripe_gateway cfg)) (\<lambda>_.
     bindO (lift (webhook_event cfg api now payload signature)) (\<lambda>event.
     let event_id = py_str (get_or event ''id'' (JStr ''''));
         event_type = py_str (get_or event ''type'' (JStr ''''))
     in if event_id = [] \<or> event_type = [] then raise (HTTPException 400 ''Invalid Stripe event payload'')
        else
          bindO (get_billing_event stripe event_id) (\<lambda>existing.
          if (case existing of None \<Rightarrow> False | Some e \<Rightarrow> be_status e \<in> {processed, ignored}) then
            ret \<lparr>wa_received = True, wa_idempotent_replay = True\<rparr>
          else
            bindO (case existing of Some e \<Rightarrow> ret e
                   | None \<Rightarrow> create_billing_event stripe event_id event_type (JObj event)) (\<lambda>be.
            bindO (process_billing_event cfg api now event be) (\<lambda>_.
            ret \<lparr>wa_received = True, wa_idempotent_replay = False\<rparr>))))))"

end
