(* ===== verification/Billing_Quota.thy ===== *)
theory Billing_Quota
  imports Billing
begin

text \<open>
  The monthly quota and the default plans: every request keeps the schema's constraints, the
  limits that the plans give and the bound on the counters; month windows partition the time line;
  a metered user consumes exactly the units of the limit; ensuring the default plans is idempotent.
\<close>

section \<open>The quota invariant\<close>

datatype billing_request =
    Consume uuid
  | Priority uuid
  | Require uuid string
  | EntitlementsMe uuid
  | Checkout uuid string checkout_payload
  | Webhook string "string option"

text \<open>A request at a time, and its effect on the committed tables.\<close>

fun billing_step :: "settings \<Rightarrow> stripe_api \<Rightarrow> time \<times> billing_request \<Rightarrow> 'z billing_db_scheme \<Rightarrow> 'z billing_db_scheme" where
  "billing_step cfg api (now, Consume u) d = snd (request (consume_assessment_quota cfg now u) d)"
| "billing_step cfg api (now, Priority u) d = snd (request (has_priority_processing cfg now u) d)"
| "billing_step cfg api (now, Require u k) d = snd (request (require_entitlement cfg now u k) d)"
| "billing_step cfg api (now, EntitlementsMe u) d = snd (request (get_entitlements_me cfg now u) d)"
| "billing_step cfg api (now, Checkout u email p) d =
     snd (request (create_checkout_session cfg api u email p) d)"
| "billing_step cfg api (now, Webhook payload signature) d =
     snd (request (process_stripe_webhook cfg api now payload signature) d)"

definition limits_ok :: "settings \<Rightarrow> 'z billing_db_scheme \<Rightarrow> bool" where
  "limits_ok cfg d \<longleftrightarrow>
     list_all (\<lambda>e. en_limit_value e = None \<or> en_limit_value e = Some (free_assessment_monthly_limit cfg))
       (bd_entitlements d)"

definition usage_ok :: "settings \<Rightarrow> 'z billing_db_scheme \<Rightarrow> bool" where
  "usage_ok cfg d \<longleftrightarrow>
     list_all (\<lambda>c. 0 \<le> uc_used_count c \<and> uc_used_count c \<le> max 0 (free_assessment_monthly_limit cfg))
       (bd_counters d)"

definition billing_inv :: "settings \<Rightarrow> 'z billing_db_scheme \<Rightarrow> bool" where
  "billing_inv cfg d \<longleftrightarrow> schema_ok d \<and> limits_ok cfg d \<and> usage_ok cfg d"

lemmas inv_defs = billing_inv_def limits_ok_def usage_ok_def

lemma schema_parts:
  "schema_ok d \<Longrightarrow> plans_ok d" "schema_ok d \<Longrightarrow> subscriptions_ok d" "schema_ok d \<Longrightarrow> entitlements_ok d"
  "schema_ok d \<Longrightarrow> counters_ok d" "schema_ok d \<Longrightarrow> events_ok d"
  by (simp_all add: schema_ok_def)

text \<open>A flush that touches neither limits nor counters keeps the invariant.\<close>

lemma keeps_bflush:
  "(\<And>d. billing_inv cfg d \<Longrightarrow> limits_ok cfg (f d) \<and> usage_ok cfg (f d)) \<Longrightarrow> keeps (both (billing_inv cfg)) (bflush f)"
  by (rule keeps_flush) (simp add: billing_inv_def)

lemma keeps_bflush_other:
  "(\<And>d. bd_entitlements (f d) = bd_entitlements d \<and> bd_counters (f d) = bd_counters d) \<Longrightarrow>
     keeps (both (billing_inv cfg)) (bflush f)"
  by (rule keeps_bflush) (simp add: inv_defs)

lemmas query_defs = get_plan_by_code_def get_plan_by_stripe_price_id_def get_subscription_by_provider_id_def
  get_active_subscription_for_user_def list_active_entitlements_def get_active_entitlement_def
  list_current_usage_counters_def get_billing_event_def

named_theorems billing_keeps

lemma keeps_get_or_create_plan [billing_keeps]: "keeps (both (billing_inv cfg)) (get_or_create_plan args)"
  unfolding get_or_create_plan_def query_defs Let_def
  by (intro inv_intros keeps_bflush_other) simp_all

lemma keeps_ensure_default_plans [billing_keeps]: "keeps (both (billing_inv cfg)) (ensure_default_plans c)"
  unfolding ensure_default_plans_def by (intro inv_intros billing_keeps)

lemma keeps_create_entitlement:
  "en_limit_value e = None \<or> en_limit_value e = Some (free_assessment_monthly_limit cfg) \<Longrightarrow>
     keeps (both (billing_inv cfg)) (create_entitlement e)"
  unfolding create_entitlement_def by (rule keeps_bflush) (simp add: inv_defs)

lemma keeps_deactivate [billing_keeps]: "keeps (both (billing_inv cfg)) (deactivate_active_entitlements u t)"
  unfolding deactivate_active_entitlements_def
  by (rule keeps_bflush) (auto simp: inv_defs upd_where_def list_all_iff)

lemma spec_limits: "sp \<in> set (entitlements_for_plan cfg c) \<Longrightarrow>
    es_limit_value sp = None \<or> es_limit_value sp = Some (free_assessment_monthly_limit cfg)"
  by (auto simp: entitlements_for_plan_def spec_of_def split: if_splits)

lemma keeps_create_specs:
  assumes "\<And>sp. sp \<in> set sps \<Longrightarrow> en_limit_value (g sp) = es_limit_value sp"
    and "\<And>sp. sp \<in> set sps \<Longrightarrow>
      es_limit_value sp = None \<or> es_limit_value sp = Some (free_assessment_monthly_limit cfg)"
  shows "keeps (both (billing_inv cfg)) (forO (\<lambda>sp. create_entitlement (g sp)) sps)"
  using assms
proof (induction sps)
  case (Cons sp sps)
  have "en_limit_value (g sp) = None \<or> en_limit_value (g sp) = Some (free_assessment_monthly_limit cfg)"
    using Cons.prems by simp
  with Cons show ?case unfolding forO.simps by (intro keeps_bindO keeps_create_entitlement) simp_all
qed simp

lemma keeps_apply_plan [billing_keeps]:
  "keeps (both (billing_inv cfg)) (apply_plan_entitlements cfg now u p sub)"
  unfolding apply_plan_entitlements_def
  by (intro keeps_bindO [OF keeps_deactivate] keeps_create_specs) (simp_all add: spec_limits)

lemma keeps_baseline [billing_keeps]: "keeps (both (billing_inv cfg)) (ensure_user_access_baseline cfg now u)"
  unfolding ensure_user_access_baseline_def query_defs
  by (intro inv_intros billing_keeps)

lemma counter_by_id:
  "counters_ok d \<Longrightarrow> c \<in> set (bd_counters d) \<Longrightarrow> c' \<in> set (bd_counters d) \<Longrightarrow> uc_id c = uc_id c' \<Longrightarrow> c = c'"
  unfolding counters_ok_def by (metis distinct_map inj_onD)

lemma usage_counter_found:
  assumes "get_or_create_usage_counter u k ws we t = (Inr c, t')"
  shows "c \<in> set (bd_counters (working t'))" and "counter_key c = (u, k, ws)" and "\<not> aborted t'"
    and "committed t' = committed t" and "bd_entitlements (working t') = bd_entitlements (working t)"
    and "bd_counters (working t') = bd_counters (working t) \<and> c \<in> set (bd_counters (working t))
      \<or> bd_counters (working t') = bd_counters (working t) @ [c] \<and> uc_used_count c = 0
        \<and> find (\<lambda>c. counter_key c = (u, k, ws)) (bd_counters (working t)) = None"
proof -
  let ?p = "\<lambda>c. counter_key c = (u, k, ws)"
  have "c \<in> set (bd_counters (working t')) \<and> ?p c \<and> \<not> aborted t' \<and> committed t' = committed t
      \<and> bd_entitlements (working t') = bd_entitlements (working t)
      \<and> (bd_counters (working t') = bd_counters (working t) \<and> c \<in> set (bd_counters (working t))
      \<or> bd_counters (working t') = bd_counters (working t) @ [c] \<and> uc_used_count c = 0
        \<and> find ?p (bd_counters (working t)) = None)"
  proof (cases "find ?p (bd_counters (working t))")
    case None
    then show ?thesis using assms unfolding get_or_create_usage_counter_def
      by (cases "aborted t") (auto simp: query_def bindO_def Let_def counter_key_def flush_def
        split: if_splits prod.splits)
  next
    case (Some c')
    then show ?thesis using assms find_mem [OF Some] unfolding get_or_create_usage_counter_def
      by (cases "aborted t") (simp_all add: query_def bindO_def)
  qed
  then show "c \<in> set (bd_counters (working t'))" "?p c" "\<not> aborted t'" "committed t' = committed t"
    "bd_entitlements (working t') = bd_entitlements (working t)"
    "bd_counters (working t') = bd_counters (working t) \<and> c \<in> set (bd_counters (working t))
      \<or> bd_counters (working t') = bd_counters (working t) @ [c] \<and> uc_used_count c = 0
        \<and> find ?p (bd_counters (working t)) = None"
    by blast+
qed

lemma increment_counter_inv:
  assumes I: "both (billing_inv cfg) t'" and c: "c \<in> set (bd_counters (working t'))"
    and less: "uc_used_count c < free_assessment_monthly_limit cfg"
  shows "both (billing_inv cfg) (snd (increment_counter (uc_id c) t'))"
proof -
  have "usage_ok cfg ((working t')\<lparr>bd_counters := upd_where (\<lambda>x. uc_id x = uc_id c)
      (\<lambda>x. x\<lparr>uc_used_count := uc_used_count x + 1\<rparr>) (bd_counters (working t'))\<rparr>)"
  proof -
    have ok: "counters_ok (working t')" and use: "usage_ok cfg (working t')"
      using I by (simp_all add: both_def billing_inv_def schema_ok_def)
    have "0 \<le> uc_used_count (if uc_id x = uc_id c then x\<lparr>uc_used_count := uc_used_count x + 1\<rparr> else x)
        \<and> uc_used_count (if uc_id x = uc_id c then x\<lparr>uc_used_count := uc_used_count x + 1\<rparr> else x)
          \<le> max 0 (free_assessment_monthly_limit cfg)" if x: "x \<in> set (bd_counters (working t'))" for x
      using use x less counter_by_id [OF ok x c] by (auto simp: usage_ok_def list_all_iff)
    then show ?thesis by (simp add: usage_ok_def list_all_upd_where)
  qed
  with I show ?thesis
    by (simp add: increment_counter_def flush_def both_def inv_defs)
qed

lemma keeps_meter_usage:
  assumes "en_limit_value e = None \<or> en_limit_value e = Some (free_assessment_monthly_limit cfg)"
  shows "keeps (both (billing_inv cfg)) (meter_usage cfg now u e :: ('z, unit) billing_op)"
proof -
  have goc: "keeps (both (billing_inv cfg)) (get_or_create_usage_counter u k ws we)" for k ws we
    unfolding get_or_create_usage_counter_def Let_def
    by (intro inv_intros keeps_bflush) (auto simp: inv_defs)
  show ?thesis
  proof (cases "en_limit_value e")
    case (Some l)
    with assms have l: "l = free_assessment_monthly_limit cfg" by simp
    obtain ws we where w: "current_month_window now = (ws, we)" by (cases "current_month_window now")
    show ?thesis
      unfolding meter_usage_def Some w option.case prod.case Let_def
    proof (rule keeps_bind_success [OF goc])
      fix c and t t' :: "'z billing_db_scheme txn" assume "both (billing_inv cfg) t'"
        and g: "get_or_create_usage_counter u (assessment_feature_key cfg) ws we t = (Inr c, t')"
      then show "both (billing_inv cfg) (snd ((if l \<le> uc_used_count c
          then raise (HTTPException 403 (''Monthly assessment quota reached for free plan ('' @ int_str l
            @ ''/'' @ int_str l @ '')'')) else increment_counter (uc_id c)) t'))"
        using increment_counter_inv [of cfg t' c] usage_counter_found(1) [OF g] l by simp
    qed
  qed (simp add: meter_usage_def)
qed

lemma active_entitlement_mem:
  "active_entitlement d u k t = Some e \<Longrightarrow> e \<in> set (bd_entitlements d) \<and> in_force u t e \<and> en_feature_key e = k"
  unfolding active_entitlement_def by (drule first_mem) simp

lemma keeps_consume: "keeps (both (billing_inv cfg)) (consume_assessment_quota cfg now u)"
  unfolding consume_assessment_quota_def query_defs
proof (rule keeps_bindO [OF keeps_baseline], rule keeps_bind_query)
  fix d :: "'z billing_db_scheme" assume I: "billing_inv cfg d"
  show "keeps (both (billing_inv cfg))
      (case active_entitlement d u (assessment_feature_key cfg) now of
         None \<Rightarrow> raise (HTTPException 403 ''No active entitlement for assessments'')
       | Some ent \<Rightarrow> bindO (meter_usage cfg now u ent) (\<lambda>_.
           bindO (query (\<lambda>d. active_entitlement d u (processing_priority_feature_key cfg) now)) (\<lambda>priority.
           bindO commit (\<lambda>_. ret (priority \<noteq> None)))))"
  proof (cases "active_entitlement d u (assessment_feature_key cfg) now")
    case (Some e)
    then have "en_limit_value e = None \<or> en_limit_value e = Some (free_assessment_monthly_limit cfg)"
      using I active_entitlement_mem [of d] by (auto simp: inv_defs list_all_iff)
    with Some show ?thesis by (auto intro!: inv_intros keeps_meter_usage)
  qed simp
qed

lemma keeps_priority [billing_keeps]: "keeps (both (billing_inv cfg)) (has_priority_processing cfg now u)"
  unfolding has_priority_processing_def query_defs by (intro inv_intros billing_keeps)

lemma keeps_require [billing_keeps]: "keeps (both (billing_inv cfg)) (require_entitlement cfg now u k)"
  unfolding require_entitlement_def query_defs by (intro inv_intros billing_keeps)

lemma keeps_me [billing_keeps]: "keeps (both (billing_inv cfg)) (get_entitlements_me cfg now u)"
  unfolding get_entitlements_me_def query_defs by (intro inv_intros billing_keeps)

lemma keeps_checkout [billing_keeps]: "keeps (both (billing_inv cfg)) (create_checkout_session cfg api u email p)"
  unfolding create_checkout_session_def query_defs by (intro inv_intros billing_keeps)

lemma keeps_upsert [billing_keeps]: "keeps (both (billing_inv cfg)) (upsert_subscription now args)"
  unfolding upsert_subscription_def query_defs Let_def
  by (intro inv_intros keeps_bflush_other) simp_all

lemma keeps_resolve_plan [billing_keeps]:
  "keeps (both (billing_inv cfg)) (resolve_plan_from_subscription_payload c so)"
  unfolding resolve_plan_from_subscription_payload_def pro_plan_def query_defs by (intro inv_intros)

lemma keeps_for_status [billing_keeps]:
  "keeps (both (billing_inv cfg)) (apply_entitlements_for_status cfg now st u sub p)"
  unfolding apply_entitlements_for_status_def query_defs by (intro inv_intros billing_keeps)

lemma keeps_conversion [billing_keeps]: "keeps (both (billing_inv cfg)) increment_free_to_pro_conversion"
  by (simp add: keeps_def both_def increment_free_to_pro_conversion_def count_conversion_def inv_defs
      schema_ok_def plans_ok_def subscriptions_ok_def entitlements_ok_def counters_ok_def events_ok_def)

lemma keeps_sync_object [billing_keeps]:
  "keeps (both (billing_inv cfg)) (sync_subscription_object cfg now so hint)"
  unfolding sync_subscription_object_def query_defs Let_def by (intro inv_intros billing_keeps)

lemma keeps_handle [billing_keeps]: "keeps (both (billing_inv cfg)) (handle_stripe_event cfg api now event)"
  unfolding handle_stripe_event_def sync_subscription_from_provider_def Let_def
  by (intro inv_intros billing_keeps)

lemma keeps_webhook [billing_keeps]:
  "keeps (both (billing_inv cfg)) (process_stripe_webhook cfg api now payload signature)"
proof -
  have set_ev: "keeps (both (billing_inv cfg)) (set_billing_event be st t err)" for be st t err
    unfolding set_billing_event_def by (intro keeps_bflush_other) simp
  have create: "keeps (both (billing_inv cfg)) (create_billing_event prov eid ty j)" for prov eid ty j
    unfolding create_billing_event_def Let_def by (intro inv_intros keeps_bflush_other) simp
  show ?thesis
    unfolding process_stripe_webhook_def process_billing_event_def mark_billing_event_processed_def
      mark_billing_event_failed_def get_billing_event_def Let_def
    by (intro inv_intros billing_keeps set_ev create)
qed

text \<open>The tables before the first request.\<close>

definition billing_init :: "'z billing_db_scheme \<Rightarrow> bool" where
  "billing_init d \<longleftrightarrow> bd_plans d = [] \<and> bd_subscriptions d = [] \<and> bd_entitlements d = [] \<and> bd_counters d = []
     \<and> bd_events d = []"

interpretation billing: state_machine "billing_step cfg api" billing_init "billing_inv cfg" for cfg api
proof
  show "billing_inv cfg d" if "billing_init d" for d
    using that by (simp add: billing_init_def inv_defs schema_ok_def plans_ok_def subscriptions_ok_def
      entitlements_ok_def counters_ok_def events_ok_def somes_def)
  show "billing_inv cfg (billing_step cfg api e d)" if "billing_inv cfg d" for e d
  proof -
    obtain now r where "e = (now, r)" by (cases e)
    then show ?thesis using that
      by (cases r) (simp_all add: request_keeps keeps_consume billing_keeps)
  qed
qed

section \<open>The monthly window\<close>

text \<open>Months in order: consecutive windows abut, so the windows of two instants are equal or disjoint.\<close>

definition month_index :: "time \<Rightarrow> int" where
  "month_index t = year t * 12 + (month t - 1)"

definition month_start :: "int \<Rightarrow> time" where
  "month_start i = midnight (i div 12) (i mod 12 + 1) 1"

lemma month_range: "1 \<le> month t \<and> month t \<le> 12"
proof -
  obtain y m d where "ymd (date_of t) = (y, m, d)" by (cases "ymd (date_of t)")
  from ymd_correct(2,3) [OF this] this show ?thesis by (simp add: month_def)
qed

lemma month_index_parts: "month_index t div 12 = year t" "month_index t mod 12 = month t - 1"
  using month_range [of t] by (simp_all add: month_index_def)

lemma month_start_index: "month_start (month_index t) = midnight (year t) (month t) 1"
  by (simp add: month_start_def month_index_parts)

lemma month_start_next:
  "month_start (month_index t + 1)
     = (if month t = 12 then midnight (year t + 1) 1 1 else midnight (year t) (month t + 1) 1)"
proof (cases "month t = 12")
  case True
  then have "month_index t + 1 = (year t + 1) * 12" by (simp add: month_index_def)
  then show ?thesis using True by (simp add: month_start_def add.commute)
next
  case False
  have i: "month_index t + 1 = month t + 12 * year t" by (simp add: month_index_def)
  have "0 \<le> month t" "month t < 12" using False month_range [of t] by simp_all
  then have "(month t + 12 * year t) div 12 = year t" "(month t + 12 * year t) mod 12 = month t"
    by (simp_all add: div_pos_pos_trivial mod_pos_pos_trivial)
  with False show ?thesis by (simp add: month_start_def i)
qed

lemma current_month_window_alt:
  "current_month_window t = (month_start (month_index t), month_start (month_index t + 1))"
  by (simp add: current_month_window_def Let_def month_start_index month_start_next)

lemma in_month: "month_start (month_index t) \<le> t" "t < month_start (month_index t + 1)"
  using month_window [OF refl refl, of t] by (simp_all add: month_start_index month_start_next)

lemma month_start_mono: "i \<le> j \<Longrightarrow> month_start i \<le> month_start j"
proof (induction "nat (j - i)" arbitrary: j)
  case (Suc n)
  define k where "k = j - 1"
  have step: "month_start k < month_start (k + 1)"
  proof -
    have mr: "1 \<le> k mod 12 + 1" "k mod 12 + 1 \<le> 12" by simp_all
    define q r where "q = k div 12" and "r = k mod 12"
    have k: "k = 12 * q + r" and r: "0 \<le> r" "r < 12" by (simp_all add: q_def r_def)
    have "(k + 1) div 12 = q + (if r = 11 then 1 else 0)"
      using k r by (intro int_div_pos_eq [of _ _ _ "if r = 11 then 0 else r + 1"]) (auto split: if_splits)
    moreover have "(k + 1) mod 12 = (if r = 11 then 0 else r + 1)"
      using k r by (intro int_mod_pos_eq [of _ _ "q + (if r = 11 then 1 else 0)"]) (auto split: if_splits)
    ultimately have nx: "month_start (k + 1)
        = (if k mod 12 + 1 = 12 then midnight (k div 12 + 1) 1 1 else midnight (k div 12) (k mod 12 + 1 + 1) 1)"
      by (auto simp: month_start_def q_def r_def)
    have "0 < month_lengths (k div 12) ! nat (k mod 12 + 1 - 1)"
    proof -
      have "month_lengths (k div 12) ! nat (k mod 12) \<in> set (month_lengths (k div 12))" by (rule nth_mem) simp
      then show ?thesis by (auto simp: month_lengths_def split: if_splits)
    qed
    then show ?thesis
      using ordinal_next_month [OF mr, of "k div 12"] unfolding nx
      by (auto simp: month_start_def midnight_def usec_per_day_def split: if_splits)
  qed
  have "month_start i \<le> month_start k" using Suc by (intro Suc.hyps(1)) (auto simp: k_def)
  with step show ?case by (simp add: k_def)
qed simp

lemma same_month:
  assumes "month_start (month_index t) \<le> s" and "s < month_start (month_index t + 1)"
  shows "month_index s = month_index t"
proof (rule antisym)
  show "month_index s \<le> month_index t"
    using in_month(1) [of s] assms(2) month_start_mono [of "month_index t + 1" "month_index s"] by linarith
  show "month_index t \<le> month_index s"
    using in_month(2) [of s] assms(1) month_start_mono [of "month_index s + 1" "month_index t"] by linarith
qed

section \<open>Exact counting\<close>

definition fresh_ok :: "'z billing_db_scheme \<Rightarrow> bool" where
  "fresh_ok d \<longleftrightarrow>
     list_all (\<lambda>i. i < bd_next d)
       (map pl_id (bd_plans d) @ map su_id (bd_subscriptions d) @ map en_id (bd_entitlements d)
        @ map uc_id (bd_counters d) @ map be_id (bd_events d))"

definition has_default :: "plan list \<Rightarrow> plan \<Rightarrow> bool" where
  "has_default ps args \<longleftrightarrow>
     (case find (\<lambda>p. pl_code p = pl_code args \<and> pl_is_active p) ps of
        None \<Rightarrow> False | Some p \<Rightarrow> p = args\<lparr>pl_id := pl_id p\<rparr>)"

text \<open>A database in service: constraints, fresh ids, the default plans as configured.\<close>

definition in_service :: "settings \<Rightarrow> 'z billing_db_scheme \<Rightarrow> bool" where
  "in_service cfg d \<longleftrightarrow> schema_ok d \<and> has_default (bd_plans d) (free_default cfg)
     \<and> has_default (bd_plans d) (pro_default cfg)"

definition ready :: "settings \<Rightarrow> 'z billing_db_scheme \<Rightarrow> bool" where
  "ready cfg d \<longleftrightarrow> in_service cfg d \<and> fresh_ok d"

definition usage :: "settings \<Rightarrow> 'z billing_db_scheme \<Rightarrow> uuid \<Rightarrow> time \<Rightarrow> int" where
  "usage cfg d u now =
     (case find (\<lambda>c. counter_key c = (u, assessment_feature_key cfg, fst (current_month_window now)))
             (bd_counters d) of
        None \<Rightarrow> 0 | Some c \<Rightarrow> uc_used_count c)"

lemma plan_update_noop:
  assumes ok: "plans_ok d" and p: "p \<in> set (bd_plans d)"
  shows "d\<lparr>bd_plans := upd_where (\<lambda>q. pl_id q = pl_id p) (\<lambda>_. p) (bd_plans d)\<rparr> = d"
proof -
  have "upd_where (\<lambda>q. pl_id q = pl_id p) (\<lambda>_. p) (bd_plans d) = bd_plans d"
    using ok p by (intro upd_where_idem) (auto simp: plans_ok_def distinct_map inj_on_def)
  then show ?thesis by simp
qed

lemma get_or_create_plan_noop:
  assumes t: "\<not> aborted t" and ok: "schema_ok (working t)"
    and has: "has_default (bd_plans (working t)) args" and act: "pl_is_active args"
  shows "\<exists>p. get_or_create_plan args t = (Inr p, t\<lparr>committed := working t\<rparr>)"
proof -
  obtain p where f: "plan_by_code (working t) (pl_code args) = Some p" and p: "p = args\<lparr>pl_id := pl_id p\<rparr>"
    using has by (auto simp: has_default_def plan_by_code_def split: option.splits)
  have eq: "p\<lparr>pl_name := pl_name args, pl_description := pl_description args,
      pl_price_cents := pl_price_cents args, pl_currency := pl_currency args,
      pl_billing_interval := pl_billing_interval args, pl_provider := pl_provider args,
      pl_stripe_price_id := pl_stripe_price_id args,
      pl_stripe_product_id := pl_stripe_product_id args,
      pl_is_free := pl_is_free args, pl_is_active := True\<rparr> = p"
    using act by (subst (1 2) p) simp
  have "p \<in> set (bd_plans (working t))" using f find_mem unfolding plan_by_code_def by fast
  then have noop: "(working t)\<lparr>bd_plans := upd_where (\<lambda>q. pl_id q = pl_id p) (\<lambda>_. p) (bd_plans (working t))\<rparr>
      = working t"
    using ok by (intro plan_update_noop) (simp add: schema_ok_def)
  show ?thesis
    using t ok f unfolding get_or_create_plan_def get_plan_by_code_def
    by (simp add: eq noop Let_def)
qed

lemma default_codes [simp]: "pl_is_active (free_default cfg)" "pl_is_active (pro_default cfg)"
  by (simp_all add: free_default_def pro_default_def default_plan_def)

lemma ensure_default_plans_noop:
  assumes "\<not> aborted t" and "in_service cfg (working t)"
  shows "ensure_default_plans cfg t = (Inr (), t\<lparr>committed := working t\<rparr>)"
proof -
  have ok: "schema_ok (working t)" "has_default (bd_plans (working t)) (free_default cfg)"
    "has_default (bd_plans (working t)) (pro_default cfg)"
    using assms(2) by (simp_all add: in_service_def)
  obtain p where p: "get_or_create_plan (free_default cfg) t = (Inr p, t\<lparr>committed := working t\<rparr>)"
    using get_or_create_plan_noop [OF assms(1) ok(1,2)] by auto
  obtain q where "get_or_create_plan (pro_default cfg) (t\<lparr>committed := working t\<rparr>)
      = (Inr q, t\<lparr>committed := working t\<rparr>)"
    using get_or_create_plan_noop [of "t\<lparr>committed := working t\<rparr>" "pro_default cfg"] assms(1) ok(1,3) by auto
  with p show ?thesis by (simp add: ensure_default_plans_def bindO_def)
qed

lemma baseline_noop:
  assumes "in_service cfg d" and "active_entitlements d u now \<noteq> []"
  shows "ensure_user_access_baseline cfg now u (begin_txn d) = (Inr (), begin_txn d)"
  using assms ensure_default_plans_noop [of "begin_txn d" cfg]
  by (simp add: ensure_user_access_baseline_def bindO_def list_active_entitlements_def begin_txn_def query_def)

lemma active_entitlements_nonempty:
  "active_entitlement d u k now = Some e \<Longrightarrow> active_entitlements d u now \<noteq> []"
proof -
  assume "active_entitlement d u k now = Some e"
  then have "e \<in> set (active_entitlements d u now)"
    using active_entitlement_mem [of d u k now e] by (simp add: active_entitlements_def)
  then show ?thesis by auto
qed

lemma counters_only:
  "schema_ok d \<Longrightarrow> counters_ok (d\<lparr>bd_counters := cs\<rparr>) \<Longrightarrow> schema_ok (d\<lparr>bd_counters := cs\<rparr>)"
  by (simp add: schema_ok_def plans_ok_def subscriptions_ok_def entitlements_ok_def counters_ok_def events_ok_def)

lemma schema_next [simp]: "schema_ok (d\<lparr>bd_next := n\<rparr>) = schema_ok d"
  by (simp add: schema_ok_def plans_ok_def subscriptions_ok_def entitlements_ok_def counters_ok_def events_ok_def)

lemma increment_ok:
  assumes "schema_ok d"
  shows "schema_ok (d\<lparr>bd_counters := upd_where (\<lambda>x. uc_id x = i)
    (\<lambda>x. x\<lparr>uc_used_count := uc_used_count x + 1\<rparr>) (bd_counters d)\<rparr>)"
  using assms
  by (intro counters_only)
    (auto simp: schema_ok_def counters_ok_def list_all_iff set_upd_where upd_where_map counter_key_def [abs_def])

lemma insert_counter_ok:
  assumes "ready cfg d" and "u \<in> set (bd_users d)"
    and "find (\<lambda>c. counter_key c = (u, k, ws)) (bd_counters d) = None"
    and "c = \<lparr>uc_id = bd_next d, uc_user_id = u, uc_feature_key = k, uc_window_start = ws,
                  uc_window_end = we, uc_used_count = 0\<rparr>"
  shows "schema_ok (d\<lparr>bd_counters := bd_counters d @ [c]\<rparr>)"
proof (rule counters_only)
  show "schema_ok d" using assms(1) by (simp add: ready_def in_service_def)
  then show "counters_ok (d\<lparr>bd_counters := bd_counters d @ [c]\<rparr>)"
    using assms by (auto simp: schema_ok_def counters_ok_def ready_def fresh_ok_def list_all_iff
        counter_key_def find_None_iff)
qed

text \<open>The metered part on a database in service, from a session with nothing pending.\<close>

lemma find_after_insert:
  "find p xs = None \<Longrightarrow> p c \<Longrightarrow> find p (upd_where q f (xs @ [c])) = Some (if q c then f c else c)"
  if "\<And>x. p (f x) = p x"
  by (induction xs) (simp_all add: upd_where_def that split: if_splits)

lemma meter_usage_ready:
  assumes rd: "ready cfg d" and u: "u \<in> set (bd_users d)" and cap: "en_limit_value e = Some cap"
  shows "if usage cfg d u now < cap
    then \<exists>d'. meter_usage cfg now u e (begin_txn d) = (Inr (), \<lparr>committed = d, working = d', aborted = False\<rparr>)
           \<and> usage cfg d' u now = usage cfg d u now + 1 \<and> bd_entitlements d' = bd_entitlements d
           \<and> schema_ok d'
    else \<exists>t'. meter_usage cfg now u e (begin_txn d) = (Inl (HTTPException 403
           (''Monthly assessment quota reached for free plan ('' @ int_str cap @ ''/'' @ int_str cap @ '')'')), t')
           \<and> committed t' = d"
proof -
  obtain ws we where w: "current_month_window now = (ws, we)" by (cases "current_month_window now")
  let ?k = "(u, assessment_feature_key cfg, ws)"
  let ?f = "\<lambda>c. c\<lparr>uc_used_count := uc_used_count c + 1\<rparr>"
  have ok: "schema_ok d" using rd by (simp add: ready_def in_service_def)
  have key: "counter_key (?f c) = counter_key c" for c by (simp add: counter_key_def)
  show ?thesis
  proof (cases "find (\<lambda>c. counter_key c = ?k) (bd_counters d)")
    case (Some c)
    have us: "usage cfg d u now = uc_used_count c" using Some by (simp add: usage_def w)
    have "distinct (map counter_key (bd_counters d))" "distinct (map uc_id (bd_counters d))"
      using ok by (simp_all add: schema_ok_def counters_ok_def)
    moreover have "c \<in> set (bd_counters d)" "counter_key c = ?k" using find_mem [OF Some] by auto
    ultimately have "upd_where (\<lambda>x. uc_id x = uc_id c) ?f (bd_counters d)
        = upd_where (\<lambda>x. counter_key x = ?k) ?f (bd_counters d)"
      unfolding upd_where_def by (intro map_cong refl if_cong) (metis distinct_map inj_onD)
    then have "find (\<lambda>x. counter_key x = ?k) (upd_where (\<lambda>x. uc_id x = uc_id c) ?f (bd_counters d)) = Some (?f c)"
      using Some \<open>counter_key c = ?k\<close> \<open>distinct (map counter_key (bd_counters d))\<close>
      by (simp add: find_upd_unique key)
    then have "usage cfg (d\<lparr>bd_counters := upd_where (\<lambda>x. uc_id x = uc_id c) ?f (bd_counters d)\<rparr>) u now
        = uc_used_count c + 1"
      by (simp add: usage_def w)
    moreover have "get_or_create_usage_counter u (assessment_feature_key cfg) ws we (begin_txn d)
        = (Inr c, begin_txn d)"
      using Some by (simp add: get_or_create_usage_counter_def)
    ultimately show ?thesis
      using increment_ok [OF ok, of "uc_id c"]
      by (auto simp: meter_usage_def cap w us bindO_def increment_counter_def begin_txn_def)
  next
    case None
    have us: "usage cfg d u now = 0" using None by (simp add: usage_def w)
    define c where "c = \<lparr>uc_id = bd_next d, uc_user_id = u, uc_feature_key = assessment_feature_key cfg,
      uc_window_start = ws, uc_window_end = we, uc_used_count = 0\<rparr>"
    define d1 where "d1 = d\<lparr>bd_counters := bd_counters d @ [c], bd_next := Suc (bd_next d)\<rparr>"
    have ok1: "schema_ok d1"
      using insert_counter_ok [OF rd u None, of c we] c_def by (simp add: d1_def)
    have goc: "get_or_create_usage_counter u (assessment_feature_key cfg) ws we (begin_txn d)
        = (Inr c, (begin_txn d)\<lparr>working := d1\<rparr>)"
      using None ok1 by (simp add: get_or_create_usage_counter_def Let_def c_def [symmetric] d1_def)
    have ck: "counter_key c = ?k" by (simp add: c_def counter_key_def)
    have "find (\<lambda>x. counter_key x = ?k) (upd_where (\<lambda>x. uc_id x = uc_id c) ?f (bd_counters d @ [c])) = Some (?f c)"
      using find_after_insert [of "\<lambda>x. counter_key x = ?k" ?f "bd_counters d" c "\<lambda>x. uc_id x = uc_id c"]
        None ck by (simp add: key)
    then have "usage cfg (d1\<lparr>bd_counters := upd_where (\<lambda>x. uc_id x = uc_id c) ?f (bd_counters d1)\<rparr>) u now = 1"
      by (simp add: usage_def w d1_def c_def)
    then show ?thesis
      using goc increment_ok [OF ok1, of "uc_id c"]
      by (auto simp: meter_usage_def cap w us bindO_def increment_counter_def begin_txn_def c_def [symmetric])
        (simp_all add: c_def d1_def)
  qed
qed

section \<open>Default plans\<close>

text \<open>After the default plans are ensured, they are as configured, and committed.\<close>

lemma find_upd_first:
  "find p xs = Some x0 \<Longrightarrow> (\<And>x. x \<in> set xs \<Longrightarrow> r x \<longleftrightarrow> x = x0) \<Longrightarrow> p q \<Longrightarrow>
     find p (upd_where r (\<lambda>_. q) xs) = Some q"
  by (induction xs) (auto simp: upd_where_def split: if_splits)

lemma find_upd_other:
  "(\<And>x. x \<in> set xs \<Longrightarrow> r x \<Longrightarrow> \<not> p x) \<Longrightarrow> \<not> p q \<Longrightarrow> find p (upd_where r (\<lambda>_. q) xs) = find p xs"
  by (induction xs) (auto simp: upd_where_def)

lemma has_default_upd:
  assumes f: "find (\<lambda>p. pl_code p = pl_code args \<and> pl_is_active p) ps = Some p0"
    and d: "distinct (map pl_id ps)" and act: "pl_is_active args" and q: "q = args\<lparr>pl_id := pl_id p0\<rparr>"
  shows "has_default (upd_where (\<lambda>x. pl_id x = pl_id p0) (\<lambda>_. q) ps) args"
    and "pl_code other \<noteq> pl_code args \<Longrightarrow> has_default ps other \<Longrightarrow>
      has_default (upd_where (\<lambda>x. pl_id x = pl_id p0) (\<lambda>_. q) ps) other"
proof -
  have p0: "p0 \<in> set ps" "pl_code p0 = pl_code args" using find_mem [OF f] by auto
  have r: "pl_id x = pl_id p0 \<longleftrightarrow> x = p0" if "x \<in> set ps" for x
    using d p0(1) that by (metis distinct_map inj_onD)
  have "find (\<lambda>p. pl_code p = pl_code args \<and> pl_is_active p) (upd_where (\<lambda>x. pl_id x = pl_id p0) (\<lambda>_. q) ps) = Some q"
    by (rule find_upd_first [OF f r]) (use act q in simp_all)
  then show "has_default (upd_where (\<lambda>x. pl_id x = pl_id p0) (\<lambda>_. q) ps) args"
    by (simp add: has_default_def q)
  show "has_default (upd_where (\<lambda>x. pl_id x = pl_id p0) (\<lambda>_. q) ps) other"
    if "pl_code other \<noteq> pl_code args" "has_default ps other"
  proof -
    have "find (\<lambda>p. pl_code p = pl_code other \<and> pl_is_active p) (upd_where (\<lambda>x. pl_id x = pl_id p0) (\<lambda>_. q) ps)
        = find (\<lambda>p. pl_code p = pl_code other \<and> pl_is_active p) ps"
      by (rule find_upd_other) (use r p0 q that in auto)
    then show ?thesis using that(2) by (simp add: has_default_def)
  qed
qed

lemma has_default_insert:
  assumes "find (\<lambda>p. pl_code p = pl_code args \<and> pl_is_active p) ps = None" and "pl_is_active args"
    and "q = args\<lparr>pl_id := i, pl_is_active := True\<rparr>"
  shows "has_default (ps @ [q]) args" and "has_default ps other \<Longrightarrow> has_default (ps @ [q]) other"
  using assms by (auto simp: has_default_def find_append split: option.splits)

lemma get_or_create_plan_post:
  assumes g: "get_or_create_plan args t = (Inr p, t')" and act: "pl_is_active args"
    and ids: "schema_ok (working t)"
  shows "\<not> aborted t' \<and> committed t' = working t' \<and> schema_ok (working t')
    \<and> has_default (bd_plans (working t')) args
    \<and> (\<forall>other. pl_code other \<noteq> pl_code args \<longrightarrow> has_default (bd_plans (working t)) other \<longrightarrow>
           has_default (bd_plans (working t')) other)"
proof -
  have na: "\<not> aborted t"
    using g by (auto simp: get_or_create_plan_def get_plan_by_code_def bindO_def query_def)
  let ?ps = "bd_plans (working t)"
  show ?thesis
  proof (cases "plan_by_code (working t) (pl_code args)")
    case None
    then have f: "find (\<lambda>p. pl_code p = pl_code args \<and> pl_is_active p) ?ps = None" by (simp add: plan_by_code_def)
    define q where "q = args\<lparr>pl_id := bd_next (working t), pl_is_active := True\<rparr>"
    define d where "d = (working t)\<lparr>bd_plans := ?ps @ [q], bd_next := Suc (bd_next (working t))\<rparr>"
    have "schema_ok d \<and> t' = \<lparr>committed = d, working = d, aborted = False\<rparr>"
      using g None na
      by (cases t) (auto simp: get_or_create_plan_def get_plan_by_code_def Let_def q_def d_def bindO_def flush_def
        split: if_splits)
    then show ?thesis using has_default_insert [OF f act q_def] by (simp add: d_def)
  next
    case (Some p0)
    then have f: "find (\<lambda>p. pl_code p = pl_code args \<and> pl_is_active p) ?ps = Some p0" by (simp add: plan_by_code_def)
    then have code: "pl_code p0 = pl_code args" using find_mem by fast
    define q where "q = p0\<lparr>pl_name := pl_name args, pl_description := pl_description args,
      pl_price_cents := pl_price_cents args, pl_currency := pl_currency args,
      pl_billing_interval := pl_billing_interval args, pl_provider := pl_provider args,
      pl_stripe_price_id := pl_stripe_price_id args,
      pl_stripe_product_id := pl_stripe_product_id args,
      pl_is_free := pl_is_free args, pl_is_active := True\<rparr>"
    have q: "q = args\<lparr>pl_id := pl_id p0\<rparr>" using code act by (simp add: q_def)
    define d where "d = (working t)\<lparr>bd_plans := upd_where (\<lambda>x. pl_id x = pl_id p0) (\<lambda>_. q) ?ps\<rparr>"
    have "schema_ok d \<and> t' = \<lparr>committed = d, working = d, aborted = False\<rparr>"
      using g Some na
      by (cases t) (auto simp: get_or_create_plan_def get_plan_by_code_def Let_def q_def [symmetric] d_def bindO_def flush_def
        split: if_splits)
    moreover have "distinct (map pl_id ?ps)" using ids by (simp add: schema_ok_def plans_ok_def)
    ultimately show ?thesis using has_default_upd [OF f _ act q] by (simp add: d_def)
  qed
qed

text \<open>The two default plans have different codes in every sensible configuration.\<close>

definition codes_differ :: "settings \<Rightarrow> bool" where
  "codes_differ cfg \<longleftrightarrow> free_plan_code cfg \<noteq> pro_plan_code cfg"

lemma ensure_default_plans_post:
  assumes e: "ensure_default_plans cfg t = (Inr x, t')" and ok: "schema_ok (working t)" and "codes_differ cfg"
  shows "\<not> aborted t' \<and> committed t' = working t' \<and> in_service cfg (working t')"
proof -
  obtain p q t1 where 1: "get_or_create_plan (free_default cfg) t = (Inr p, t1)"
    and 2: "get_or_create_plan (pro_default cfg) t1 = (Inr q, t')"
    using e by (auto simp: ensure_default_plans_def bindO_eq_Inr)
  have "pl_code (free_default cfg) \<noteq> pl_code (pro_default cfg)"
    using assms(3) by (simp add: codes_differ_def free_default_def pro_default_def default_plan_def)
  then show ?thesis
    using get_or_create_plan_post [OF 1 _ ok] get_or_create_plan_post [OF 2] by (simp add: in_service_def)
qed

lemma consume_ready:
  assumes rd: "ready cfg d" and u: "u \<in> set (bd_users d)"
    and act: "active_entitlement d u (assessment_feature_key cfg) now = Some e"
    and cap: "en_limit_value e = Some cap"
  shows "if usage cfg d u now < cap
    then \<exists>priority d'. request (consume_assessment_quota cfg now u) d = (Inr priority, d')
           \<and> usage cfg d' u now = usage cfg d u now + 1
    else request (consume_assessment_quota cfg now u) d = (Inl (HTTPException 403
           (''Monthly assessment quota reached for free plan ('' @ int_str cap @ ''/'' @ int_str cap @ '')'')), d)"
proof -
  have "in_service cfg d" using rd by (simp add: ready_def)
  then have base: "ensure_user_access_baseline cfg now u (begin_txn d) = (Inr (), begin_txn d)"
    by (rule baseline_noop) (rule active_entitlements_nonempty [OF act])
  have start: "consume_assessment_quota cfg now u (begin_txn d)
      = bindO (meter_usage cfg now u e) (\<lambda>_.
         bindO (get_active_entitlement u (processing_priority_feature_key cfg) now) (\<lambda>priority.
         bindO commit (\<lambda>_. ret (priority \<noteq> None)))) (begin_txn d)"
    using base by (simp add: consume_assessment_quota_def bindO_def get_active_entitlement_def act)
  show ?thesis
  proof (cases "usage cfg d u now < cap")
    case True
    then obtain d' where m: "meter_usage cfg now u e (begin_txn d)
        = (Inr (), \<lparr>committed = d, working = d', aborted = False\<rparr>)"
      and us: "usage cfg d' u now = usage cfg d u now + 1"
      using meter_usage_ready [OF rd u cap, of now] by auto
    have "request (consume_assessment_quota cfg now u) d
        = (Inr (active_entitlement d' u (processing_priority_feature_key cfg) now \<noteq> None), d')"
      by (simp add: request_def start bindO_def m get_active_entitlement_def)
    with us True show ?thesis by auto
  next
    case False
    then obtain t' where m: "meter_usage cfg now u e (begin_txn d) = (Inl (HTTPException 403
        (''Monthly assessment quota reached for free plan ('' @ int_str cap @ ''/'' @ int_str cap @ '')'')), t')"
      and c: "committed t' = d"
      using meter_usage_ready [OF rd u cap, of now] by auto
    have "request (consume_assessment_quota cfg now u) d = (Inl (HTTPException 403
        (''Monthly assessment quota reached for free plan ('' @ int_str cap @ ''/'' @ int_str cap @ '')'')), d)"
      by (simp add: request_def start bindO_def m c)
    with False show ?thesis by simp
  qed
qed

section \<open>Concrete inputs\<close>

definition sample_entitlement :: entitlement where
  "sample_entitlement = \<lparr>en_id = 3, en_user_id = 7, en_plan_id = Some 1, en_subscription_id = None,
     en_feature_key = ''assessments.monthly'', en_limit_value = Some 3, en_usage_window = monthly,
     en_is_enabled = True, en_valid_from = 0, en_valid_to = None\<rparr>"

definition empty_billing :: billing_db where
  "empty_billing = \<lparr>bd_plans = [], bd_subscriptions = [], bd_entitlements = [], bd_counters = [],
     bd_events = [], bd_users = [7], bd_next = 1, bd_conversions = 0\<rparr>"

definition sample_billing :: billing_db where
  "sample_billing = empty_billing\<lparr>
     bd_plans := [(free_default base_defaults)\<lparr>pl_id := 1\<rparr>, (pro_default base_defaults)\<lparr>pl_id := 2\<rparr>],
     bd_entitlements := [sample_entitlement], bd_next := 10\<rparr>"

lemmas schema_defs = schema_ok_def plans_ok_def subscriptions_ok_def entitlements_ok_def counters_ok_def
  events_ok_def somes_def fk_def

lemmas sample_billing_defs = sample_billing_def empty_billing_def sample_entitlement_def free_default_def
  pro_default_def default_plan_def base_defaults_def

definition sample_stripe :: stripe_api where
  "sample_stripe = \<lparr>construct_event = (\<lambda>_ _ _ _. Inr [(''id'', JStr ''evt_1''), (''type'', JStr ''ping'')]),
     retrieve = (\<lambda>_. Inl ''down''), session_create = (\<lambda>_. Inl ''down'')\<rparr>"

lemma sample_ready: "ready base_defaults sample_billing"
  by (simp add: ready_def in_service_def fresh_ok_def has_default_def schema_defs sample_billing_defs)

lemma sample_active:
  "active_entitlement sample_billing 7 (assessment_feature_key base_defaults) 0 = Some sample_entitlement"
  by (simp add: active_entitlement_def in_force_def sample_billing_defs)

lemma sample_user: "7 \<in> set (bd_users sample_billing)"
  by (simp add: sample_billing_defs)

section \<open>Properties\<close>

text \<open>
  C7. The quota is never exceeded: from empty tables, after any sequence of requests at any times
  (assessments, reads, checkouts, webhooks of any content), every usage counter lies between 0 and
  the configured monthly limit.
\<close>

theorem quota_never_exceeded:
  assumes "billing_init d"
  shows "list_all (\<lambda>c. 0 \<le> uc_used_count c \<and> uc_used_count c \<le> max 0 (free_assessment_monthly_limit cfg))
    (bd_counters (fold (billing_step cfg api) requests d))"
  using billing.reachable_inv [OF assms, of cfg api requests] by (simp add: billing_inv_def usage_ok_def)

theorem quota_never_exceeded_witness:
  "list_all (\<lambda>c. 0 \<le> uc_used_count c \<and> uc_used_count c \<le> max 0 3)
    (bd_counters (fold (billing_step base_defaults sample_stripe) [(0, Consume 7), (1, Consume 7)] empty_billing))"
  using quota_never_exceeded [of empty_billing base_defaults sample_stripe "[(0, Consume 7), (1, Consume 7)]"]
  by (simp add: billing_init_def empty_billing_def base_defaults_def)

text \<open>
  C13. The quota is exact: for a user whose entitlement in force has the limit \<open>cap\<close>, a request is
  granted exactly while the month's counter is below the limit and raises it by one; from then on it
  is refused with 403 and changes nothing.
\<close>

theorem quota_exact:
  assumes "ready cfg d" and "u \<in> set (bd_users d)"
    and "active_entitlement d u (assessment_feature_key cfg) now = Some e" and "en_limit_value e = Some cap"
  shows "if usage cfg d u now < cap
    then \<exists>priority d'. request (consume_assessment_quota cfg now u) d = (Inr priority, d')
           \<and> usage cfg d' u now = usage cfg d u now + 1
    else request (consume_assessment_quota cfg now u) d = (Inl (HTTPException 403
           (''Monthly assessment quota reached for free plan ('' @ int_str cap @ ''/'' @ int_str cap @ '')'')), d)"
  by (rule consume_ready [OF assms])

theorem quota_exact_witness:
  "\<exists>priority d'. request (consume_assessment_quota base_defaults 0 7) sample_billing = (Inr priority, d')
     \<and> usage base_defaults d' 7 0 = 1"
proof -
  have "usage base_defaults sample_billing 7 0 = 0" by (simp add: usage_def sample_billing_defs)
  with quota_exact [OF sample_ready sample_user sample_active, of 3] show ?thesis
    by (simp add: sample_entitlement_def)
qed

text \<open>The month windows partition the time line: an instant lies in its window, and every instant
  of that window has the same window, so two counters of a user never overlap.
\<close>

theorem month_window_partition:
  "fst (current_month_window now) \<le> now \<and> now < snd (current_month_window now)
   \<and> (\<forall>t. fst (current_month_window now) \<le> t \<and> t < snd (current_month_window now)
        \<longrightarrow> current_month_window t = current_month_window now)"
proof -
  have now: "fst (current_month_window now) \<le> now" "now < snd (current_month_window now)"
    using in_month [of now] by (simp_all add: current_month_window_alt)
  have same: "current_month_window t = current_month_window now"
    if "fst (current_month_window now) \<le> t" "t < snd (current_month_window now)" for t
  proof -
    have "month_index t = month_index now"
      using that by (intro same_month) (simp_all add: current_month_window_alt)
    then show ?thesis by (simp only: current_month_window_alt)
  qed
  from now same show ?thesis by blast
qed

theorem month_window_partition_witness: "current_month_window 5 = current_month_window 0"
proof -
  have w: "fst (current_month_window 0) = 0" "snd (current_month_window 0) = 2678400000000" by code_simp+
  have "fst (current_month_window 0) \<le> 5 \<and> 5 < snd (current_month_window 0)" unfolding w by simp
  with month_window_partition [of 0] show ?thesis by blast
qed

end
