(* ===== verification/Rules.thy ===== *)
theory Rules
  imports Billing_Quota
begin

text \<open>
  Immigration rules, \<open>src/apps/immigration_rules\<close>: countries, programs, their versions with an
  effective period, and the rule groups, conditions and outcomes of a version. The tables extend
  the database of \<open>Billing\<close>, so that one transaction covers both. The handlers of
  \<open>services.py\<close> are modelled whole; pending changes reach the database where the session flushes
  them: at the next query (autoflush) or at the commit.
\<close>

section \<open>Tables\<close>

datatype version_status = draft | active_version | archived

datatype rule_operator =
  op_eq | op_ne | op_gt | op_gte | op_lt | op_lte | op_between | op_in | op_not_in | op_exists

datatype match_operator = match_all | match_any

text \<open>The values of the string enumerations.\<close>

fun operator_value :: "rule_operator \<Rightarrow> string" where
  "operator_value op_eq = ''eq''"
| "operator_value op_ne = ''ne''"
| "operator_value op_gt = ''gt''"
| "operator_value op_gte = ''gte''"
| "operator_value op_lt = ''lt''"
| "operator_value op_lte = ''lte''"
| "operator_value op_between = ''between''"
| "operator_value op_in = ''in''"
| "operator_value op_not_in = ''not_in''"
| "operator_value op_exists = ''exists''"

fun match_value :: "match_operator \<Rightarrow> string" where
  "match_value match_all = ''all''"
| "match_value match_any = ''any''"

record country =
  co_id :: uuid
  co_code :: string
  co_name :: string
  co_priority_rank :: "int option"
  co_diaspora_population_estimate :: "int option"
  co_prioritization_source_url :: "string option"
  co_is_active :: bool

record program =
  pg_id :: uuid
  pg_country_id :: uuid
  pg_code :: string
  pg_name :: string
  pg_description :: "string option"
  pg_is_active :: bool

record program_version =
  pv_id :: uuid
  pv_created_at :: time
  pv_program_id :: uuid
  pv_version :: string
  pv_status :: version_status
  pv_effective_from :: time
  pv_effective_to :: "time option"

record group_row =
  gr_id :: uuid
  gr_created_at :: time
  gr_program_version_id :: uuid
  gr_code :: string
  gr_name :: string
  gr_description :: "string option"
  gr_priority :: int
  gr_match_operator :: match_operator
  gr_is_active :: bool

record condition_row =
  cr_id :: uuid
  cr_created_at :: time
  cr_rule_group_id :: uuid
  cr_field_key :: string
  cr_operator :: rule_operator
  cr_value_json :: json
  cr_condition_order :: int
  cr_is_required :: bool

record outcome_row =
  ot_id :: uuid
  ot_rule_group_id :: uuid
  ot_score_delta :: dec
  ot_is_blocking :: bool
  ot_explanation_message :: string
  ot_outcome_code :: "string option"

record rules_db = billing_db +
  rd_countries :: "country list"
  rd_programs :: "program list"
  rd_versions :: "program_version list"
  rd_groups :: "group_row list"
  rd_conditions :: "condition_row list"
  rd_outcomes :: "outcome_row list"

definition countries_ok :: "'z rules_db_scheme \<Rightarrow> bool" where
  "countries_ok d \<longleftrightarrow> distinct (map co_id (rd_countries d)) \<and> distinct (map co_code (rd_countries d))"

definition programs_ok :: "'z rules_db_scheme \<Rightarrow> bool" where
  "programs_ok d \<longleftrightarrow>
     distinct (map pg_id (rd_programs d))
     \<and> distinct (map (\<lambda>p. (pg_country_id p, pg_code p)) (rd_programs d))
     \<and> list_all (\<lambda>p. pg_country_id p \<in> set (map co_id (rd_countries d))) (rd_programs d)"

definition range_ok :: "program_version \<Rightarrow> bool" where
  "range_ok v \<longleftrightarrow> (case pv_effective_to v of None \<Rightarrow> True | Some t \<Rightarrow> pv_effective_from v < t)"

definition versions_ok :: "'z rules_db_scheme \<Rightarrow> bool" where
  "versions_ok d \<longleftrightarrow>
     distinct (map pv_id (rd_versions d))
     \<and> distinct (map (\<lambda>v. (pv_program_id v, pv_version v)) (rd_versions d))
     \<and> list_all (\<lambda>v. range_ok v \<and> pv_program_id v \<in> set (map pg_id (rd_programs d))) (rd_versions d)"

definition groups_ok :: "'z rules_db_scheme \<Rightarrow> bool" where
  "groups_ok d \<longleftrightarrow>
     distinct (map gr_id (rd_groups d))
     \<and> distinct (map (\<lambda>g. (gr_program_version_id g, gr_code g)) (rd_groups d))
     \<and> list_all (\<lambda>g. gr_program_version_id g \<in> set (map pv_id (rd_versions d))) (rd_groups d)"

definition conditions_ok :: "'z rules_db_scheme \<Rightarrow> bool" where
  "conditions_ok d \<longleftrightarrow>
     distinct (map cr_id (rd_conditions d))
     \<and> list_all (\<lambda>c. cr_rule_group_id c \<in> set (map gr_id (rd_groups d))) (rd_conditions d)"

definition outcomes_ok :: "'z rules_db_scheme \<Rightarrow> bool" where
  "outcomes_ok d \<longleftrightarrow>
     distinct (map ot_id (rd_outcomes d))
     \<and> list_all (\<lambda>c. ot_rule_group_id c \<in> set (map gr_id (rd_groups d))) (rd_outcomes d)"

definition rules_ok :: "'z rules_db_scheme \<Rightarrow> bool" where
  "rules_ok d \<longleftrightarrow> countries_ok d \<and> programs_ok d \<and> versions_ok d \<and> groups_ok d \<and> conditions_ok d
     \<and> outcomes_ok d"

lemmas rules_ok_defs = rules_ok_def countries_ok_def programs_ok_def versions_ok_def groups_ok_def
  conditions_ok_def outcomes_ok_def range_ok_def

type_synonym ('z, 'a) rules_op = "('z rules_db_scheme txn, 'a) op"

text \<open>
  A field of an update payload (\<open>model_dump(exclude_unset=True)\<close>): absent, an explicit null, or a
  value. A null for a column that is \<open>NOT NULL\<close> fails at the flush.
\<close>

type_synonym 'a field = "'a option option"

definition put :: "'a field \<Rightarrow> 'a \<Rightarrow> 'a" where
  "put f old = (case f of Some (Some v) \<Rightarrow> v | _ \<Rightarrow> old)"

definition put_nullable :: "'a field \<Rightarrow> 'a option \<Rightarrow> 'a option" where
  "put_nullable f old = (case f of None \<Rightarrow> old | Some v \<Rightarrow> v)"

abbreviation null :: "'a field \<Rightarrow> bool" where
  "null f \<equiv> f = Some None"

section \<open>Repository\<close>

text \<open>\<open>scalar_one_or_none()\<close>\<close>

definition scalar_one_or_none :: "'a list \<Rightarrow> 'a option result" where
  "scalar_one_or_none rows =
     (case rows of [] \<Rightarrow> Inr None | [x] \<Rightarrow> Inr (Some x)
      | _ \<Rightarrow> Inl (MultipleResultsFound ''Multiple rows were found when one or none was required''))"

definition get_country_by_code :: "string \<Rightarrow> ('z, country option) rules_op" where
  "get_country_by_code c = query (\<lambda>d. find (\<lambda>x. co_code x = upper c) (rd_countries d))"

definition get_country :: "uuid \<Rightarrow> ('z, country option) rules_op" where
  "get_country i = query (\<lambda>d. find (\<lambda>x. co_id x = i) (rd_countries d))"

definition list_countries :: "('z, country list) rules_op" where
  "list_countries = query (\<lambda>d. sort_key co_code (rd_countries d))"

text \<open>\<open>ORDER BY priority_rank ASC NULLS LAST, code ASC\<close>\<close>

definition catalog_key :: "country \<Rightarrow> bool \<times> int \<times> string" where
  "catalog_key c = (case co_priority_rank c of None \<Rightarrow> (True, 0, co_code c) | Some r \<Rightarrow> (False, r, co_code c))"

definition list_countries_for_catalog :: "('z, country list) rules_op" where
  "list_countries_for_catalog = query (\<lambda>d. sort_key catalog_key (filter co_is_active (rd_countries d)))"

definition get_program_by_country_code :: "uuid \<Rightarrow> string \<Rightarrow> ('z, program option) rules_op" where
  "get_program_by_country_code i c =
     query (\<lambda>d. find (\<lambda>p. pg_country_id p = i \<and> pg_code p = c) (rd_programs d))"

definition get_program :: "uuid \<Rightarrow> ('z, program option) rules_op" where
  "get_program i = query (\<lambda>d. find (\<lambda>p. pg_id p = i) (rd_programs d))"

definition list_programs :: "uuid option \<Rightarrow> ('z, program list) rules_op" where
  "list_programs i = query (\<lambda>d. sort_key pg_code
     (case i of None \<Rightarrow> rd_programs d | Some c \<Rightarrow> filter (\<lambda>p. pg_country_id p = c) (rd_programs d)))"

definition list_programs_by_country_code :: "string \<Rightarrow> ('z, program list) rules_op" where
  "list_programs_by_country_code c = query (\<lambda>d. sort_key pg_code
     (filter (\<lambda>p. pg_is_active p
        \<and> list_ex (\<lambda>x. co_id x = pg_country_id p \<and> co_code x = upper c) (rd_countries d)) (rd_programs d)))"

definition get_program_version_by_program_and_version ::
    "uuid \<Rightarrow> string \<Rightarrow> ('z, program_version option) rules_op" where
  "get_program_version_by_program_and_version i v =
     query (\<lambda>d. find (\<lambda>x. pv_program_id x = i \<and> pv_version x = v) (rd_versions d))"

definition get_program_version :: "uuid \<Rightarrow> ('z, program_version option) rules_op" where
  "get_program_version i = query (\<lambda>d. find (\<lambda>v. pv_id v = i) (rd_versions d))"

definition list_program_versions :: "uuid \<Rightarrow> ('z, program_version list) rules_op" where
  "list_program_versions i = query (\<lambda>d. sort_key (\<lambda>v. - pv_effective_from v)
     (filter (\<lambda>v. pv_program_id v = i) (rd_versions d)))"

definition get_latest_program_version_for_program :: "uuid \<Rightarrow> ('z, program_version option) rules_op" where
  "get_latest_program_version_for_program i = query (\<lambda>d. first
     (sort_key (\<lambda>v. (- pv_effective_from v, - pv_created_at v))
       (filter (\<lambda>v. pv_program_id v = i) (rd_versions d))))"

definition end_of_time :: time where
  "end_of_time = 253402300799999999"

definition version_end :: "program_version \<Rightarrow> time" where
  "version_end v = (case pv_effective_to v of None \<Rightarrow> end_of_time | Some t \<Rightarrow> t)"

definition active_overlaps :: "'z rules_db_scheme \<Rightarrow> program_version \<Rightarrow> program_version list" where
  "active_overlaps d t = filter (\<lambda>v. pv_program_id v = pv_program_id t \<and> pv_status v = active_version
     \<and> pv_id v \<noteq> pv_id t \<and> pv_effective_from v < version_end t \<and> version_end v > pv_effective_from t)
     (rd_versions d)"

definition find_active_overlap_for_program_version ::
    "program_version \<Rightarrow> ('z, program_version option) rules_op" where
  "find_active_overlap_for_program_version t =
     bindO (query (\<lambda>d. active_overlaps d t)) (\<lambda>rows. lift (scalar_one_or_none rows))"

definition list_active_versions_by_program :: "uuid \<Rightarrow> ('z, program_version list) rules_op" where
  "list_active_versions_by_program i =
     query (\<lambda>d. filter (\<lambda>v. pv_program_id v = i \<and> pv_status v = active_version) (rd_versions d))"

definition get_rule_group :: "uuid \<Rightarrow> ('z, group_row option) rules_op" where
  "get_rule_group i = query (\<lambda>d. find (\<lambda>g. gr_id g = i) (rd_groups d))"

definition list_rule_groups_by_version :: "uuid \<Rightarrow> ('z, group_row list) rules_op" where
  "list_rule_groups_by_version i = query (\<lambda>d. sort_key (\<lambda>g. (gr_priority g, gr_created_at g))
     (filter (\<lambda>g. gr_program_version_id g = i) (rd_groups d)))"

definition get_rule_condition :: "uuid \<Rightarrow> ('z, condition_row option) rules_op" where
  "get_rule_condition i = query (\<lambda>d. find (\<lambda>c. cr_id c = i) (rd_conditions d))"

definition list_rule_conditions :: "uuid \<Rightarrow> ('z, condition_row list) rules_op" where
  "list_rule_conditions i = query (\<lambda>d. sort_key (\<lambda>c. (cr_condition_order c, cr_created_at c))
     (filter (\<lambda>c. cr_rule_group_id c = i) (rd_conditions d)))"

definition get_rule_outcome :: "uuid \<Rightarrow> ('z, outcome_row option) rules_op" where
  "get_rule_outcome i = query (\<lambda>d. find (\<lambda>c. ot_id c = i) (rd_outcomes d))"

definition list_rule_outcomes :: "uuid \<Rightarrow> ('z, outcome_row list) rules_op" where
  "list_rule_outcomes i = query (\<lambda>d. filter (\<lambda>c. ot_rule_group_id c = i) (rd_outcomes d))"

section \<open>Rows of the create payloads\<close>

record country_create =
  cc_code :: string
  cc_name :: string
  cc_priority_rank :: "int option"
  cc_diaspora_population_estimate :: "int option"
  cc_prioritization_source_url :: "string option"

record program_create =
  pc_country_id :: uuid
  pc_code :: string
  pc_name :: string
  pc_description :: "string option"

record version_create =
  vc_program_id :: uuid
  vc_version :: string
  vc_status :: version_status
  vc_effective_from :: time
  vc_effective_to :: "time option"

record group_create =
  gc_program_version_id :: uuid
  gc_code :: string
  gc_name :: string
  gc_description :: "string option"
  gc_priority :: int
  gc_match_operator :: match_operator

record condition_create =
  dc_rule_group_id :: uuid
  dc_field_key :: string
  dc_operator :: rule_operator
  dc_value_json :: "json dict"
  dc_condition_order :: int
  dc_is_required :: bool

record outcome_create =
  oc_rule_group_id :: uuid
  oc_score_delta :: dec
  oc_is_blocking :: bool
  oc_explanation_message :: string
  oc_outcome_code :: "string option"

definition new_country :: "uuid \<Rightarrow> country_create \<Rightarrow> country" where
  "new_country i p = \<lparr>co_id = i, co_code = upper (cc_code p), co_name = cc_name p,
     co_priority_rank = cc_priority_rank p,
     co_diaspora_population_estimate = cc_diaspora_population_estimate p,
     co_prioritization_source_url = cc_prioritization_source_url p, co_is_active = True\<rparr>"

definition new_program :: "uuid \<Rightarrow> program_create \<Rightarrow> program" where
  "new_program i p = \<lparr>pg_id = i, pg_country_id = pc_country_id p, pg_code = pc_code p, pg_name = pc_name p,
     pg_description = pc_description p, pg_is_active = True\<rparr>"

definition new_program_version :: "uuid \<Rightarrow> time \<Rightarrow> version_create \<Rightarrow> program_version" where
  "new_program_version i now p = \<lparr>pv_id = i, pv_created_at = now, pv_program_id = vc_program_id p,
     pv_version = vc_version p, pv_status = vc_status p, pv_effective_from = vc_effective_from p,
     pv_effective_to = vc_effective_to p\<rparr>"

definition new_rule_group :: "uuid \<Rightarrow> time \<Rightarrow> group_create \<Rightarrow> group_row" where
  "new_rule_group i now p = \<lparr>gr_id = i, gr_created_at = now,
     gr_program_version_id = gc_program_version_id p, gr_code = gc_code p, gr_name = gc_name p,
     gr_description = gc_description p, gr_priority = gc_priority p,
     gr_match_operator = gc_match_operator p, gr_is_active = True\<rparr>"

definition new_rule_condition :: "uuid \<Rightarrow> time \<Rightarrow> condition_create \<Rightarrow> condition_row" where
  "new_rule_condition i now p = \<lparr>cr_id = i, cr_created_at = now, cr_rule_group_id = dc_rule_group_id p,
     cr_field_key = dc_field_key p, cr_operator = dc_operator p, cr_value_json = JObj (dc_value_json p),
     cr_condition_order = dc_condition_order p, cr_is_required = dc_is_required p\<rparr>"

definition new_rule_outcome :: "uuid \<Rightarrow> outcome_create \<Rightarrow> outcome_row" where
  "new_rule_outcome i p = \<lparr>ot_id = i, ot_rule_group_id = oc_rule_group_id p,
     ot_score_delta = oc_score_delta p, ot_is_blocking = oc_is_blocking p,
     ot_explanation_message = oc_explanation_message p, ot_outcome_code = oc_outcome_code p\<rparr>"

section \<open>Service\<close>

text \<open>
  \<open>await\<close> on a value that is not awaitable. The repository's \<open>create_*\<close> methods are plain
  functions that return the row, yet the service awaits their result; the row is pending in the
  session and was not flushed.
\<close>

definition await_row :: "string \<Rightarrow> 'r \<Rightarrow> ('s, 'r) op" where
  "await_row cls row = raise (TypeError (''object '' @ cls @ '' can't be used in 'await' expression''))"

text \<open>
  \<open>commit_and_refresh valid f\<close>: commit with the pending changes \<open>f\<close>, which set a null in a
  \<open>NOT NULL\<close> column unless \<open>valid\<close>.
\<close>

abbreviation rflush :: "bool \<Rightarrow> ('z rules_db_scheme \<Rightarrow> 'z rules_db_scheme) \<Rightarrow> ('z, unit) rules_op" where
  "rflush valid f \<equiv> flush (\<lambda>d. valid \<and> rules_ok d) f"

definition integrity_conflict :: "exn \<Rightarrow> ('z, 'a) rules_op" where
  "integrity_conflict e = (case e of
     IntegrityError _ \<Rightarrow> bindO rollback (\<lambda>_. raise (HTTPException 409 ''Integrity constraint violation''))
   | _ \<Rightarrow> raise e)"

definition commit_and_refresh ::
    "bool \<Rightarrow> ('z rules_db_scheme \<Rightarrow> 'z rules_db_scheme) \<Rightarrow> ('z, unit) rules_op" where
  "commit_and_refresh valid f = catch (bindO (rflush valid f) (\<lambda>_. commit)) integrity_conflict"

text \<open>
  The values of an update that reach an \<open>Integer\<close>, a \<open>Numeric(8, 2)\<close> or a \<open>String(64)\<close> column without a bound of
  the payload; it bounds the lengths of the other texts by the widths of their columns.
\<close>

definition fits_integer :: "int field \<Rightarrow> bool" where
  "fits_integer f = (case f of Some (Some n) \<Rightarrow> int32 n | _ \<Rightarrow> True)"

definition numeric_8_2 :: "dec \<Rightarrow> bool" where
  "numeric_8_2 d \<longleftrightarrow> \<bar>q2 (dec_val d)\<bar> < 10 ^ 6"

definition fits_text :: "nat \<Rightarrow> string field \<Rightarrow> bool" where
  "fits_text width f = (case f of Some (Some s) \<Rightarrow> length s \<le> width | _ \<Rightarrow> True)"

definition fits_numeric :: "dec field \<Rightarrow> bool" where
  "fits_numeric f = (case f of Some (Some d) \<Rightarrow> numeric_8_2 d | _ \<Rightarrow> True)"

definition found :: "string \<Rightarrow> 'r option \<Rightarrow> ('s, 'r) op" where
  "found what row = (case row of None \<Rightarrow> raise (HTTPException 404 what) | Some r \<Rightarrow> ret r)"

definition create_country :: "country_create \<Rightarrow> ('z, country) rules_op" where
  "create_country p =
     bindO (get_country_by_code (cc_code p)) (\<lambda>existing.
     if existing \<noteq> None then raise (HTTPException 409 ''Country code already exists'')
     else bindO (query (\<lambda>d. new_country (bd_next d) p)) (\<lambda>row.
          bindO (await_row ''Country'' row) (\<lambda>country.
          bindO (commit_and_refresh True
            (\<lambda>d. d\<lparr>rd_countries := rd_countries d @ [country], bd_next := Suc (bd_next d)\<rparr>)) (\<lambda>_.
          ret country))))"

record country_update =
  cu_name :: "string field"
  cu_priority_rank :: "int field"
  cu_diaspora_population_estimate :: "int field"
  cu_prioritization_source_url :: "string field"
  cu_is_active :: "bool field"

definition apply_country_update :: "country_update \<Rightarrow> country \<Rightarrow> country" where
  "apply_country_update p c = c\<lparr>co_name := put (cu_name p) (co_name c),
     co_priority_rank := put_nullable (cu_priority_rank p) (co_priority_rank c),
     co_diaspora_population_estimate :=
       put_nullable (cu_diaspora_population_estimate p) (co_diaspora_population_estimate c),
     co_prioritization_source_url :=
       put_nullable (cu_prioritization_source_url p) (co_prioritization_source_url c),
     co_is_active := put (cu_is_active p) (co_is_active c)\<rparr>"

definition update_country :: "uuid \<Rightarrow> country_update \<Rightarrow> ('z, country) rules_op" where
  "update_country i p =
     bindO (get_country i) (\<lambda>row. bindO (found ''Country not found'' row) (\<lambda>c.
     bindO (fits_columns (fits_integer (cu_priority_rank p) \<and> fits_integer (cu_diaspora_population_estimate p))) (\<lambda>_.
     bindO (commit_and_refresh (\<not> null (cu_name p) \<and> \<not> null (cu_is_active p))
       (\<lambda>d. d\<lparr>rd_countries := upd_where (\<lambda>x. co_id x = i) (apply_country_update p) (rd_countries d)\<rparr>))
     (\<lambda>_. ret (apply_country_update p c)))))"

definition create_program :: "program_create \<Rightarrow> ('z, program) rules_op" where
  "create_program p =
     bindO (get_country (pc_country_id p)) (\<lambda>row. bindO (found ''Country not found'' row) (\<lambda>_.
     bindO (get_program_by_country_code (pc_country_id p) (pc_code p)) (\<lambda>existing.
     if existing \<noteq> None then raise (HTTPException 409 ''Program code already exists for this country'')
     else bindO (query (\<lambda>d. new_program (bd_next d) p)) (\<lambda>row.
          bindO (await_row ''ImmigrationProgram'' row) (\<lambda>program.
          bindO (commit_and_refresh True
            (\<lambda>d. d\<lparr>rd_programs := rd_programs d @ [program], bd_next := Suc (bd_next d)\<rparr>)) (\<lambda>_.
          ret program))))))"

record program_update =
  pu_name :: "string field"
  pu_description :: "string field"
  pu_is_active :: "bool field"

definition apply_program_update :: "program_update \<Rightarrow> program \<Rightarrow> program" where
  "apply_program_update p x = x\<lparr>pg_name := put (pu_name p) (pg_name x),
     pg_description := put_nullable (pu_description p) (pg_description x),
     pg_is_active := put (pu_is_active p) (pg_is_active x)\<rparr>"

definition update_program :: "uuid \<Rightarrow> program_update \<Rightarrow> ('z, program) rules_op" where
  "update_program i p =
     bindO (get_program i) (\<lambda>row. bindO (found ''Program not found'' row) (\<lambda>x.
     bindO (commit_and_refresh (\<not> null (pu_name p) \<and> \<not> null (pu_is_active p))
       (\<lambda>d. d\<lparr>rd_programs := upd_where (\<lambda>x. pg_id x = i) (apply_program_update p) (rd_programs d)\<rparr>))
     (\<lambda>_. ret (apply_program_update p x))))"

definition add_version :: "program_version \<Rightarrow> 'z rules_db_scheme \<Rightarrow> 'z rules_db_scheme" where
  "add_version v d = d\<lparr>rd_versions := rd_versions d @ [v], bd_next := Suc (bd_next d)\<rparr>"

text \<open>
  The handler of a conflict rolls the transaction back and then reads the version of the conflicting row for its
  message; the rollback has expired that row, so that the answer is no 409.
\<close>

definition create_program_version :: "time \<Rightarrow> version_create \<Rightarrow> ('z, program_version) rules_op" where
  "create_program_version now p =
     bindO (get_program (vc_program_id p)) (\<lambda>row. bindO (found ''Program not found'' row) (\<lambda>_.
     bindO (get_program_version_by_program_and_version (vc_program_id p) (vc_version p)) (\<lambda>existing.
     if existing \<noteq> None then raise (HTTPException 409 ''Version already exists for this program'')
     else bindO (query (\<lambda>d. new_program_version (bd_next d) now p)) (\<lambda>row.
          bindO (await_row ''ProgramVersion'' row) (\<lambda>v.
          if pv_status v = active_version then
            bindO (rflush True (add_version v)) (\<lambda>_.
            bindO (find_active_overlap_for_program_version v) (\<lambda>overlap.
            case overlap of
              Some conflict \<Rightarrow> bindO rollback (\<lambda>_. raise greenlet_error)
            | None \<Rightarrow> bindO (commit_and_refresh True id) (\<lambda>_. ret v)))
          else bindO (commit_and_refresh True (add_version v)) (\<lambda>_. ret v))))))"

record version_update =
  vu_version :: "string field"
  vu_status :: "version_status field"
  vu_effective_from :: "time field"
  vu_effective_to :: "time field"

definition apply_version_update :: "version_update \<Rightarrow> program_version \<Rightarrow> program_version" where
  "apply_version_update p v = v\<lparr>pv_version := put (vu_version p) (pv_version v),
     pv_status := put (vu_status p) (pv_status v),
     pv_effective_from := put (vu_effective_from p) (pv_effective_from v),
     pv_effective_to := put_nullable (vu_effective_to p) (pv_effective_to v)\<rparr>"

definition set_version :: "program_version \<Rightarrow> 'z rules_db_scheme \<Rightarrow> 'z rules_db_scheme" where
  "set_version v d = d\<lparr>rd_versions := upd_where (\<lambda>x. pv_id x = pv_id v) (\<lambda>_. v) (rd_versions d)\<rparr>"

definition update_program_version :: "uuid \<Rightarrow> version_update \<Rightarrow> ('z, program_version) rules_op" where
  "update_program_version i p =
     bindO (get_program_version i) (\<lambda>row. bindO (found ''Program version not found'' row) (\<lambda>old.
     let v = apply_version_update p old;
         valid = (\<not> null (vu_version p) \<and> \<not> null (vu_status p) \<and> \<not> null (vu_effective_from p))
     in if \<not> null (vu_status p) \<and> pv_status v = active_version then
          bindO (rflush valid (set_version v)) (\<lambda>_.
          bindO (find_active_overlap_for_program_version v) (\<lambda>overlap.
          case overlap of
            Some conflict \<Rightarrow> bindO rollback (\<lambda>_. raise greenlet_error)
          | None \<Rightarrow> bindO (commit_and_refresh True id) (\<lambda>_. ret v)))
        else bindO (commit_and_refresh valid (set_version v)) (\<lambda>_. ret v)))"

definition archive_versions :: "uuid list \<Rightarrow> 'z rules_db_scheme \<Rightarrow> 'z rules_db_scheme" where
  "archive_versions ids d = d\<lparr>rd_versions :=
     upd_where (\<lambda>v. pv_id v \<in> set ids) (\<lambda>v. v\<lparr>pv_status := archived\<rparr>) (rd_versions d)\<rparr>"

definition activate_program_version :: "uuid \<Rightarrow> bool \<Rightarrow> ('z, program_version) rules_op" where
  "activate_program_version i force =
     bindO (get_program_version i) (\<lambda>row. bindO (found ''Program version not found'' row) (\<lambda>target.
     bindO (find_active_overlap_for_program_version target) (\<lambda>overlap.
     if overlap \<noteq> None \<and> \<not> force then raise (HTTPException 409
       (''Activation would overlap with another active version. ''
        @ ''Set force=true to archive conflicting active versions first.''))
     else
       bindO (if overlap \<noteq> None \<and> force then
                bindO (list_active_versions_by_program (pv_program_id target)) (\<lambda>active_versions.
                ret (filter (\<lambda>j. j \<noteq> pv_id target) (map pv_id active_versions)))
              else ret []) (\<lambda>ids.
       bindO (commit_and_refresh True
         (\<lambda>d. set_version (target\<lparr>pv_status := active_version\<rparr>) (archive_versions ids d)))
       (\<lambda>_. ret (target\<lparr>pv_status := active_version\<rparr>))))))"

definition create_rule_group :: "time \<Rightarrow> group_create \<Rightarrow> ('z, group_row) rules_op" where
  "create_rule_group now p =
     bindO (get_program_version (gc_program_version_id p)) (\<lambda>row.
     bindO (found ''Program version not found'' row) (\<lambda>_.
     bindO (query (\<lambda>d. new_rule_group (bd_next d) now p)) (\<lambda>row.
     bindO (await_row ''RuleGroup'' row) (\<lambda>g.
     bindO (commit_and_refresh True
       (\<lambda>d. d\<lparr>rd_groups := rd_groups d @ [g], bd_next := Suc (bd_next d)\<rparr>)) (\<lambda>_. ret g)))))"

record group_update =
  gu_name :: "string field"
  gu_description :: "string field"
  gu_priority :: "int field"
  gu_match_operator :: "match_operator field"
  gu_is_active :: "bool field"

definition apply_group_update :: "group_update \<Rightarrow> group_row \<Rightarrow> group_row" where
  "apply_group_update p g = g\<lparr>gr_name := put (gu_name p) (gr_name g),
     gr_description := put_nullable (gu_description p) (gr_description g),
     gr_priority := put (gu_priority p) (gr_priority g),
     gr_match_operator := put (gu_match_operator p) (gr_match_operator g),
     gr_is_active := put (gu_is_active p) (gr_is_active g)\<rparr>"

definition update_rule_group :: "uuid \<Rightarrow> group_update \<Rightarrow> ('z, group_row) rules_op" where
  "update_rule_group i p =
     bindO (get_rule_group i) (\<lambda>row. bindO (found ''Rule group not found'' row) (\<lambda>g.
     bindO (fits_columns (fits_integer (gu_priority p))) (\<lambda>_.
     bindO (commit_and_refresh (\<not> null (gu_name p) \<and> \<not> null (gu_priority p)
         \<and> \<not> null (gu_match_operator p) \<and> \<not> null (gu_is_active p))
       (\<lambda>d. d\<lparr>rd_groups := upd_where (\<lambda>x. gr_id x = i) (apply_group_update p) (rd_groups d)\<rparr>))
     (\<lambda>_. ret (apply_group_update p g)))))"

text \<open>
  \<open>delete\<close> and \<open>commit\<close>. The relationships of a group to its conditions and outcomes declare no
  delete cascade, so the session first sets their \<open>rule_group_id\<close> to null, which the column
  refuses; like a dangling reference, a child row makes the flush fail.
\<close>

definition delete_rule_group :: "uuid \<Rightarrow> ('z, unit) rules_op" where
  "delete_rule_group i =
     bindO (get_rule_group i) (\<lambda>row. bindO (found ''Rule group not found'' row) (\<lambda>_.
     bindO (rflush True (\<lambda>d. d\<lparr>rd_groups := filter (\<lambda>g. gr_id g \<noteq> i) (rd_groups d)\<rparr>)) (\<lambda>_. commit)))"

definition create_rule_condition :: "time \<Rightarrow> condition_create \<Rightarrow> ('z, condition_row) rules_op" where
  "create_rule_condition now p =
     bindO (get_rule_group (dc_rule_group_id p)) (\<lambda>row. bindO (found ''Rule group not found'' row) (\<lambda>_.
     bindO (query (\<lambda>d. new_rule_condition (bd_next d) now p)) (\<lambda>row.
     bindO (await_row ''RuleCondition'' row) (\<lambda>c.
     bindO (commit_and_refresh True
       (\<lambda>d. d\<lparr>rd_conditions := rd_conditions d @ [c], bd_next := Suc (bd_next d)\<rparr>)) (\<lambda>_. ret c)))))"

record condition_update =
  du_field_key :: "string field"
  du_operator :: "rule_operator field"
  du_value_json :: "json dict field"
  du_condition_order :: "int field"
  du_is_required :: "bool field"

text \<open>A null for the JSON column is the JSON value \<open>null\<close>, which the column takes.\<close>

definition apply_condition_update :: "condition_update \<Rightarrow> condition_row \<Rightarrow> condition_row" where
  "apply_condition_update p c = c\<lparr>cr_field_key := put (du_field_key p) (cr_field_key c),
     cr_operator := put (du_operator p) (cr_operator c),
     cr_value_json := (case du_value_json p of None \<Rightarrow> cr_value_json c | Some None \<Rightarrow> JNull
                       | Some (Some v) \<Rightarrow> JObj v),
     cr_condition_order := put (du_condition_order p) (cr_condition_order c),
     cr_is_required := put (du_is_required p) (cr_is_required c)\<rparr>"

definition update_rule_condition :: "uuid \<Rightarrow> condition_update \<Rightarrow> ('z, condition_row) rules_op" where
  "update_rule_condition i p =
     bindO (get_rule_condition i) (\<lambda>row. bindO (found ''Rule condition not found'' row) (\<lambda>c.
     bindO (fits_columns (fits_integer (du_condition_order p))) (\<lambda>_.
     bindO (commit_and_refresh (\<not> null (du_field_key p) \<and> \<not> null (du_operator p)
         \<and> \<not> null (du_condition_order p) \<and> \<not> null (du_is_required p))
       (\<lambda>d. d\<lparr>rd_conditions :=
          upd_where (\<lambda>x. cr_id x = i) (apply_condition_update p) (rd_conditions d)\<rparr>))
     (\<lambda>_. ret (apply_condition_update p c)))))"

definition delete_rule_condition :: "uuid \<Rightarrow> ('z, unit) rules_op" where
  "delete_rule_condition i =
     bindO (get_rule_condition i) (\<lambda>row. bindO (found ''Rule condition not found'' row) (\<lambda>_.
     bindO (rflush True (\<lambda>d. d\<lparr>rd_conditions := filter (\<lambda>c. cr_id c \<noteq> i) (rd_conditions d)\<rparr>))
     (\<lambda>_. commit)))"

definition create_rule_outcome :: "outcome_create \<Rightarrow> ('z, outcome_row) rules_op" where
  "create_rule_outcome p =
     bindO (get_rule_group (oc_rule_group_id p)) (\<lambda>row. bindO (found ''Rule group not found'' row) (\<lambda>_.
     bindO (query (\<lambda>d. new_rule_outcome (bd_next d) p)) (\<lambda>row.
     bindO (await_row ''RuleOutcome'' row) (\<lambda>c.
     bindO (commit_and_refresh True
       (\<lambda>d. d\<lparr>rd_outcomes := rd_outcomes d @ [c], bd_next := Suc (bd_next d)\<rparr>)) (\<lambda>_. ret c)))))"

record outcome_update =
  ou_score_delta :: "dec field"
  ou_is_blocking :: "bool field"
  ou_explanation_message :: "string field"
  ou_outcome_code :: "string field"

definition apply_outcome_update :: "outcome_update \<Rightarrow> outcome_row \<Rightarrow> outcome_row" where
  "apply_outcome_update p c = c\<lparr>ot_score_delta := put (ou_score_delta p) (ot_score_delta c),
     ot_is_blocking := put (ou_is_blocking p) (ot_is_blocking c),
     ot_explanation_message := put (ou_explanation_message p) (ot_explanation_message c),
     ot_outcome_code := put_nullable (ou_outcome_code p) (ot_outcome_code c)\<rparr>"

definition update_rule_outcome :: "uuid \<Rightarrow> outcome_update \<Rightarrow> ('z, outcome_row) rules_op" where
  "update_rule_outcome i p =
     bindO (get_rule_outcome i) (\<lambda>row. bindO (found ''Rule outcome not found'' row) (\<lambda>c.
     bindO (fits_columns (fits_numeric (ou_score_delta p) \<and> fits_text 64 (ou_outcome_code p))) (\<lambda>_.
     bindO (commit_and_refresh (\<not> null (ou_score_delta p) \<and> \<not> null (ou_is_blocking p)
         \<and> \<not> null (ou_explanation_message p))
       (\<lambda>d. d\<lparr>rd_outcomes := upd_where (\<lambda>x. ot_id x = i) (apply_outcome_update p) (rd_outcomes d)\<rparr>))
     (\<lambda>_. ret (apply_outcome_update p c)))))"

definition delete_rule_outcome :: "uuid \<Rightarrow> ('z, unit) rules_op" where
  "delete_rule_outcome i =
     bindO (get_rule_outcome i) (\<lambda>row. bindO (found ''Rule outcome not found'' row) (\<lambda>_.
     bindO (rflush True (\<lambda>d. d\<lparr>rd_outcomes := filter (\<lambda>c. ot_id c \<noteq> i) (rd_outcomes d)\<rparr>))
     (\<lambda>_. commit)))"

text \<open>The requests that the service takes, and the database after one.\<close>

datatype rules_request =
    Create_Country country_create
  | Update_Country uuid country_update
  | Create_Program program_create
  | Update_Program uuid program_update
  | Create_Version version_create
  | Update_Version uuid version_update
  | Activate_Version uuid bool
  | Create_Group group_create
  | Update_Group uuid group_update
  | Delete_Group uuid
  | Create_Condition condition_create
  | Update_Condition uuid condition_update
  | Delete_Condition uuid
  | Create_Outcome outcome_create
  | Update_Outcome uuid outcome_update
  | Delete_Outcome uuid

fun rules_step :: "time \<times> rules_request \<Rightarrow> 'z rules_db_scheme \<Rightarrow> 'z rules_db_scheme" where
  "rules_step (now, Create_Country p) d = snd (request (create_country p) d)"
| "rules_step (now, Update_Country i p) d = snd (request (update_country i p) d)"
| "rules_step (now, Create_Program p) d = snd (request (create_program p) d)"
| "rules_step (now, Update_Program i p) d = snd (request (update_program i p) d)"
| "rules_step (now, Create_Version p) d = snd (request (create_program_version now p) d)"
| "rules_step (now, Update_Version i p) d = snd (request (update_program_version i p) d)"
| "rules_step (now, Activate_Version i force) d = snd (request (activate_program_version i force) d)"
| "rules_step (now, Create_Group p) d = snd (request (create_rule_group now p) d)"
| "rules_step (now, Update_Group i p) d = snd (request (update_rule_group i p) d)"
| "rules_step (now, Delete_Group i) d = snd (request (delete_rule_group i) d)"
| "rules_step (now, Create_Condition p) d = snd (request (create_rule_condition now p) d)"
| "rules_step (now, Update_Condition i p) d = snd (request (update_rule_condition i p) d)"
| "rules_step (now, Delete_Condition i) d = snd (request (delete_rule_condition i) d)"
| "rules_step (now, Create_Outcome p) d = snd (request (create_rule_outcome p) d)"
| "rules_step (now, Update_Outcome i p) d = snd (request (update_rule_outcome i p) d)"
| "rules_step (now, Delete_Outcome i) d = snd (request (delete_rule_outcome i) d)"

end
