(* ===== verification/Uuid_Text.thy ===== *)
theory Uuid_Text
  imports Py_Json
begin

text \<open>
  \<open>UUID(str(u)) = u\<close>: identifiers survive the text form in which the queue messages carry them.
\<close>

definition hex_digits :: string where
  "hex_digits = map hex_char [0..<16]"

lemma hex_digits_eq: "hex_digits = ''0123456789abcdef''"
  by (simp add: hex_digits_def hex_char_def upt_rec char_of_def bit_0)

lemma hex_char_mem: "n < 16 \<Longrightarrow> hex_char n \<in> set hex_digits"
  by (simp add: hex_digits_def)

lemma set_hex_str: "set (hex_str k n) \<subseteq> set hex_digits"
  by (induction k arbitrary: n) (auto intro: hex_char_mem)

lemma hex_str_append: "hex_str (a + b) n = hex_str a (n div 16 ^ b) @ hex_str b n"
  by (induction b arbitrary: n) (simp_all add: div_mult2_eq)

lemma hex_digit_char: "n < 16 \<Longrightarrow> hex_digit (hex_char n) = Some n"
  by (simp add: hex_digit_def hex_char_def code_def Let_def)

lemma hex_char_sep: "n < 16 \<Longrightarrow> hex_char n \<noteq> CHR ''_''"
  using hex_digit_char [of n] by (auto simp: hex_digit_def code_def Let_def)

lemma read_hex_append:
  "read_hex sep acc (hex_str k n @ s) =
   (if k = 0 then read_hex sep acc s else read_hex False (16 ^ k * acc + n mod 16 ^ k) s)"
proof (induction k arbitrary: n s)
  case (Suc k)
  have m: "n mod (16 * 16 ^ k) = 16 * (n div 16 mod 16 ^ k) + n mod 16"
    by (rule mod_mult2_eq)
  show ?case using Suc [of "n div 16" "hex_char (n mod 16) # s"]
    by (simp add: hex_digit_char hex_char_sep m algebra_simps)
qed simp

lemma replace_absent: "old \<noteq> [] \<Longrightarrow> hd old \<notin> set s \<Longrightarrow> replace_str old new s = s"
proof (induction s)
  case (Cons c s)
  then have "take (length old) (c # s) \<noteq> old" by (cases old) auto
  with Cons show ?case by (subst replace_str.simps) simp
qed (simp add: replace_str.simps)

lemma replace_char: "replace_str [c] [] s = filter (\<lambda>x. x \<noteq> c) s"
  by (induction s) (subst replace_str.simps; simp)+

lemma strip_chars_absent: "set cs \<inter> set s = {} \<Longrightarrow> strip_chars cs s = s"
proof -
  have d: "dropWhile (\<lambda>c. c \<in> set cs) xs = xs" if "set cs \<inter> set xs = {}" for xs
    using that by (cases xs) auto
  assume "set cs \<inter> set s = {}"
  then show ?thesis by (simp add: strip_chars_def d)
qed

lemma strip_absent: "\<forall>c\<in>set s. \<not> is_space c \<Longrightarrow> strip s = s"
proof -
  have d: "dropWhile is_space xs = xs" if "\<forall>c\<in>set xs. \<not> is_space c" for xs
    using that by (cases xs) auto
  assume "\<forall>c\<in>set s. \<not> is_space c"
  then show ?thesis by (simp add: strip_def d)
qed

lemma hex_digits_plain: "c \<in> set hex_digits \<Longrightarrow> \<not> is_space c \<and> lower_char c \<noteq> CHR ''x'' \<and> c \<notin> set ''+-{}ux''"
  by (auto simp: hex_digits_eq is_space_def lower_char_def code_def)

lemma uuid_str_dashes: "filter (\<lambda>x. x \<noteq> CHR ''-'') (uuid_str u) = hex_str 32 u"
proof -
  have f: "filter (\<lambda>x. x \<noteq> CHR ''-'') (hex_str k n) = hex_str k n" for k n
    using set_hex_str [of k n] hex_digits_plain by (intro filter_True) auto
  have "hex_str 32 u = hex_str 8 (u div 16 ^ 24) @ hex_str 4 (u div 16 ^ 20) @ hex_str 4 (u div 16 ^ 16)
      @ hex_str 4 (u div 16 ^ 12) @ hex_str 12 u"
    using hex_str_append [of 8 24 u] hex_str_append [of 4 20 u] hex_str_append [of 4 16 u]
      hex_str_append [of 4 12 u] by simp
  then show ?thesis by (simp add: uuid_str_def f del: hex_str.simps)
qed

lemma int16_hex_str:
  assumes "2 \<le> k"
  shows "int16_of_str (hex_str k n) = Inr (int (n mod 16 ^ k))"
proof -
  let ?s = "hex_str k n"
  obtain a b r where s: "?s = a # b # r"
    using assms length_hex_str [of k n] by (metis Suc_le_length_iff numeral_2_eq_2)
  have ab: "a \<in> set hex_digits" "b \<in> set hex_digits" using set_hex_str [of k n] s by auto
  have 1: "strip ?s = ?s" using set_hex_str [of k n] hex_digits_plain by (intro strip_absent) auto
  have 2: "take_sign ?s = (1, ?s)" using hex_digits_plain [OF ab(1)] by (auto simp: take_sign_def s)
  have 3: "lower (take 2 ?s) \<noteq> ''0x''" using hex_digits_plain [OF ab(2)] by (simp add: s lower_def)
  have 4: "read_hex True 0 ?s = Some (n mod 16 ^ k)"
    using read_hex_append [of True 0 k n "[]"] assms by simp
  show ?thesis by (simp add: int16_of_str_def 1 2 3 4 Let_def)
qed

lemma uuid_parse_str:
  assumes "u < 2 ^ 128"
  shows "uuid_parse (uuid_str u) = Inr u"
proof -
  have set: "set (uuid_str u) \<subseteq> set hex_digits \<union> {CHR ''-''}"
    using set_hex_str unfolding uuid_str_def by (auto simp del: hex_str.simps)
  have u: "replace_str ''uuid:'' [] (replace_str ''urn:'' [] (uuid_str u)) = uuid_str u"
    using set hex_digits_plain by (subst (2) replace_absent; (subst replace_absent)?) auto
  have b: "strip_chars ''{}'' (uuid_str u) = uuid_str u"
    using set hex_digits_plain by (intro strip_chars_absent) auto
  have "(2::nat) ^ 128 = 16 ^ 32" by simp
  with assms have m: "u mod 16 ^ 32 = u" by (metis mod_less)
  show ?thesis
    unfolding uuid_parse_def u b replace_char uuid_str_dashes Let_def
    using int16_hex_str [of 32 u] m by (simp del: hex_str.simps)
qed

end
