(* ===== verification/Mvp_Rules.thy ===== *)
theory Mvp_Rules
  imports Engine Rules Uuid_Text
begin

text \<open>
  The rule fixtures, \<open>src/apps/assessments/fixtures/mvp_rules.py\<close>, as data, and the builders that turn a
  fixture into the inputs of the engine. One definition per rule group and one per country. The texts of the times
  are the times they denote.
\<close>

section \<open>Data\<close>

record condition_data =
  fc_id :: string
  fc_field_key :: string
  fc_operator :: string
  fc_value_json :: json
  fc_condition_order :: int
  fc_is_required :: bool

record outcome_data =
  fo_id :: string
  fo_score_delta :: string
  fo_is_blocking :: bool
  fo_explanation_message :: string
  fo_outcome_code :: string

record group_data =
  fg_id :: string
  fg_code :: string
  fg_name :: string
  fg_priority :: int
  fg_match_operator :: string
  fg_conditions :: "condition_data list"
  fg_outcomes :: "outcome_data list"

record rule_fixture =
  fx_country_code :: string
  fx_country_name :: string
  fx_program_code :: string
  fx_program_name :: string
  fx_version_id :: string
  fx_version :: string
  fx_effective_from :: time
  fx_effective_to :: "time option"
  fx_rule_groups :: "group_data list"

definition MVP_PROGRAM_EFFECTIVE_FROM :: time where
  "MVP_PROGRAM_EFFECTIVE_FROM = midnight 2026 1 1"

definition ca_block_age_above_45 :: group_data where
  "ca_block_age_above_45 =
     \<lparr>fg_id = ''d3a7be84-20f7-4f05-a0dd-30263c9e3fdf'', fg_code = ''block_age_above_45'',
      fg_name = ''Bloqueio por idade'', fg_priority = 10, fg_match_operator = ''all'',
      fg_conditions =
        [\<lparr>fc_id = ''35d54c31-c9a8-46dc-92d0-5f7daf640a53'', fc_field_key = ''idade'', fc_operator = ''gt'',
         fc_value_json = JInt 45, fc_condition_order = 1, fc_is_required = True\<rparr>],
      fg_outcomes =
        [\<lparr>fo_id = ''6baf7f5f-c85d-4c1a-8ef4-99b2bc7b6003'', fo_score_delta = ''-100'', fo_is_blocking = True,
         fo_explanation_message = ''Idade acima do limite do programa'', fo_outcome_code = ''AGE_BLOCK''\<rparr>]\<rparr>"

definition ca_age_ideal :: group_data where
  "ca_age_ideal =
     \<lparr>fg_id = ''d4198868-f7d2-4749-9f93-b083ce89f8eb'', fg_code = ''age_ideal'',
      fg_name = ''Faixa etaria ideal'', fg_priority = 20, fg_match_operator = ''all'',
      fg_conditions =
        [\<lparr>fc_id = ''f4f3727d-7278-4e60-bc94-d6faf23bf76a'', fc_field_key = ''idade'', fc_operator = ''between'',
         fc_value_json = JList [JInt 25, JInt 35], fc_condition_order = 1, fc_is_required = True\<rparr>],
      fg_outcomes =
        [\<lparr>fo_id = ''0eeb46a2-596f-4d53-b598-c2f69b7ebe43'', fo_score_delta = ''25'', fo_is_blocking = False,
         fo_explanation_message = ''Idade em faixa ideal'', fo_outcome_code = ''AGE_BONUS''\<rparr>]\<rparr>"

definition ca_education_high :: group_data where
  "ca_education_high =
     \<lparr>fg_id = ''f762693b-0dd3-4787-9a8c-13c33924931f'', fg_code = ''education_high'',
      fg_name = ''Escolaridade avancada'', fg_priority = 30, fg_match_operator = ''all'',
      fg_conditions =
        [\<lparr>fc_id = ''88c95db0-c218-4108-89be-dcd48e5057bd'', fc_field_key = ''escolaridade_rank'',
         fc_operator = ''gte'', fc_value_json = JInt 4, fc_condition_order = 1, fc_is_required = True\<rparr>],
      fg_outcomes =
        [\<lparr>fo_id = ''8a8ee8ba-f950-4f57-9404-8ed78fbb57e7'', fo_score_delta = ''20'', fo_is_blocking = False,
         fo_explanation_message = ''Escolaridade competitiva'', fo_outcome_code = ''EDU_BONUS''\<rparr>]\<rparr>"

definition ca_priority_profession :: group_data where
  "ca_priority_profession =
     \<lparr>fg_id = ''7a7af4ec-fe5a-4db5-bda8-aa01b65ee111'', fg_code = ''priority_profession'',
      fg_name = ''Profissao prioritaria'', fg_priority = 40, fg_match_operator = ''all'',
      fg_conditions =
        [\<lparr>fc_id = ''e7d2b467-42a8-4af7-baa8-52b39720eaac'', fc_field_key = ''profissao_codigo'',
         fc_operator = ''in'', fc_value_json = JList [JStr ''21231'', JStr ''21300'', JStr ''11101''],
         fc_condition_order = 1, fc_is_required = True\<rparr>],
      fg_outcomes =
        [\<lparr>fo_id = ''d7b021bf-a7ac-47f7-9a69-42eddf0b57f2'', fo_score_delta = ''20'', fo_is_blocking = False,
         fo_explanation_message = ''Profissao em lista prioritaria'', fo_outcome_code = ''PROF_BONUS''\<rparr>]\<rparr>"

definition ca_english_high :: group_data where
  "ca_english_high =
     \<lparr>fg_id = ''38d3009d-25fd-4223-9298-a4eb007d5273'', fg_code = ''english_high'', fg_name = ''Ingles forte'',
      fg_priority = 50, fg_match_operator = ''all'',
      fg_conditions =
        [\<lparr>fc_id = ''7e0f77af-c50e-47d4-9efd-8add78ef8f3d'', fc_field_key = ''idiomas_nivel.en'',
         fc_operator = ''gte'', fc_value_json = JInt 5, fc_condition_order = 1, fc_is_required = True\<rparr>],
      fg_outcomes =
        [\<lparr>fo_id = ''e091015f-1f46-4f72-b37b-aeb8ca545391'', fo_score_delta = ''20'', fo_is_blocking = False,
         fo_explanation_message = ''Ingles em nivel competitivo'', fo_outcome_code = ''LANG_EN_BONUS''\<rparr>]\<rparr>"

definition ca_french_bonus :: group_data where
  "ca_french_bonus =
     \<lparr>fg_id = ''73faff26-766c-48f6-aa2a-a35ad188d6cd'', fg_code = ''french_bonus'',
      fg_name = ''Frances adicional'', fg_priority = 60, fg_match_operator = ''all'',
      fg_conditions =
        [\<lparr>fc_id = ''4cfeb9cc-c57e-4d8f-89ad-bd90df567f5d'', fc_field_key = ''idiomas_nivel.fr'',
         fc_operator = ''gte'', fc_value_json = JInt 4, fc_condition_order = 1, fc_is_required = True\<rparr>],
      fg_outcomes =
        [\<lparr>fo_id = ''8240f343-2afd-4767-bf37-310f603fd385'', fo_score_delta = ''10'', fo_is_blocking = False,
         fo_explanation_message = ''Frances adiciona pontos'', fo_outcome_code = ''LANG_FR_BONUS''\<rparr>]\<rparr>"

definition ca_income_ok :: group_data where
  "ca_income_ok =
     \<lparr>fg_id = ''f5be625a-0f74-4ac5-a6d4-a0177f6121f2'', fg_code = ''income_ok'', fg_name = ''Renda adequada'',
      fg_priority = 70, fg_match_operator = ''all'',
      fg_conditions =
        [\<lparr>fc_id = ''780fc551-68f5-4f5c-ae6d-0d4341f2a1c9'', fc_field_key = ''renda_atual'',
         fc_operator = ''gte'', fc_value_json = JInt 5000, fc_condition_order = 1, fc_is_required = True\<rparr>],
      fg_outcomes =
        [\<lparr>fo_id = ''722c4f0b-4c96-44d9-b333-b4fc3d15193e'', fo_score_delta = ''15'', fo_is_blocking = False,
         fo_explanation_message = ''Renda atual competitiva'', fo_outcome_code = ''INCOME_BONUS''\<rparr>]\<rparr>"

definition ca_english_gap :: group_data where
  "ca_english_gap =
     \<lparr>fg_id = ''7f0e4b7e-5bf2-4215-b05d-3bc177d9dce8'', fg_code = ''english_gap'', fg_name = ''Gap de ingles'',
      fg_priority = 80, fg_match_operator = ''all'',
      fg_conditions =
        [\<lparr>fc_id = ''33275bf0-f4ba-46fb-ae6d-13e0e58f9f26'', fc_field_key = ''idiomas_nivel.en'',
         fc_operator = ''lt'', fc_value_json = JInt 5, fc_condition_order = 1, fc_is_required = True\<rparr>],
      fg_outcomes =
        [\<lparr>fo_id = ''8ac4bd7e-8231-4ca6-97f9-b4f5687a5a5e'', fo_score_delta = ''-15'', fo_is_blocking = False,
         fo_explanation_message = ''Gap critico de idioma ingles'', fo_outcome_code = ''LANG_EN_GAP''\<rparr>]\<rparr>"

definition fixture_ca :: rule_fixture where
  "fixture_ca =
     \<lparr>fx_country_code = ''CA'', fx_country_name = ''Canada'', fx_program_code = ''CA_IRCC_IMMIGRATION'',
      fx_program_name = ''IRCC Immigration Programs'', fx_version_id = ''9a6cff22-dd5a-4f60-bfbb-54b4a8dc0ea1'',
      fx_version = ''2026.01'', fx_effective_from = MVP_PROGRAM_EFFECTIVE_FROM, fx_effective_to = None,
      fx_rule_groups =
        [ca_block_age_above_45, ca_age_ideal, ca_education_high, ca_priority_profession, ca_english_high,
         ca_french_bonus, ca_income_ok, ca_english_gap]\<rparr>"

definition au_block_medical_issue :: group_data where
  "au_block_medical_issue =
     \<lparr>fg_id = ''95de1688-6f0a-4f7a-9e97-55d025181c6a'', fg_code = ''block_medical_issue'',
      fg_name = ''Bloqueio por questao medica'', fg_priority = 10, fg_match_operator = ''all'',
      fg_conditions =
        [\<lparr>fc_id = ''b84f55c6-efdf-4bb0-9db1-c55f5784dc8f'', fc_field_key = ''tem_restricao_medica'',
         fc_operator = ''eq'', fc_value_json = JBool True, fc_condition_order = 1, fc_is_required = True\<rparr>],
      fg_outcomes =
        [\<lparr>fo_id = ''7c8515af-c4c9-4d74-b13f-2f14f6a39dd8'', fo_score_delta = ''-100'', fo_is_blocking = True,
         fo_explanation_message = ''Restricao medica impeditiva'', fo_outcome_code = ''MEDICAL_BLOCK''\<rparr>]\<rparr>"

definition au_age_bonus :: group_data where
  "au_age_bonus =
     \<lparr>fg_id = ''33662bb0-bf95-4f43-8f26-17a1df00531a'', fg_code = ''age_bonus'',
      fg_name = ''Faixa etaria ideal'', fg_priority = 20, fg_match_operator = ''all'',
      fg_conditions =
        [\<lparr>fc_id = ''15dc188d-3005-43df-b943-54db4f8c6395'', fc_field_key = ''idade'', fc_operator = ''between'',
         fc_value_json = JList [JInt 26, JInt 32], fc_condition_order = 1, fc_is_required = True\<rparr>],
      fg_outcomes =
        [\<lparr>fo_id = ''37f496da-7004-4a29-a47e-af2d6a0f6014'', fo_score_delta = ''30'', fo_is_blocking = False,
         fo_explanation_message = ''Idade em faixa ideal'', fo_outcome_code = ''AGE_BONUS''\<rparr>]\<rparr>"

definition au_education_bonus :: group_data where
  "au_education_bonus =
     \<lparr>fg_id = ''8e5e29cf-3bf8-44bf-a6f6-bd978d9062d7'', fg_code = ''education_bonus'',
      fg_name = ''Escolaridade'', fg_priority = 30, fg_match_operator = ''all'',
      fg_conditions =
        [\<lparr>fc_id = ''7b0f8ec8-c3e0-4f16-a55d-ec6275f06c27'', fc_field_key = ''escolaridade_rank'',
         fc_operator = ''gte'', fc_value_json = JInt 4, fc_condition_order = 1, fc_is_required = True\<rparr>],
      fg_outcomes =
        [\<lparr>fo_id = ''ff8adca6-88bf-4b79-8cc3-a6e3a31968ce'', fo_score_delta = ''15'', fo_is_blocking = False,
         fo_explanation_message = ''Formacao academica favorece selecao'', fo_outcome_code = ''EDU_BONUS''\<rparr>]\<rparr>"

definition au_occupation_bonus :: group_data where
  "au_occupation_bonus =
     \<lparr>fg_id = ''f91ee8f8-ef54-48d0-a5b4-d7c53903842f'', fg_code = ''occupation_bonus'',
      fg_name = ''Profissao elegivel'', fg_priority = 40, fg_match_operator = ''all'',
      fg_conditions =
        [\<lparr>fc_id = ''74b65543-4782-4793-a2bb-3c8df626a667'', fc_field_key = ''profissao_codigo'',
         fc_operator = ''in'', fc_value_json = JList [JStr ''261313'', JStr ''261312'', JStr ''225113''],
         fc_condition_order = 1, fc_is_required = True\<rparr>],
      fg_outcomes =
        [\<lparr>fo_id = ''602f1cb0-6f02-4b7f-a3f2-4a38106cab95'', fo_score_delta = ''10'', fo_is_blocking = False,
         fo_explanation_message = ''Profissao em lista ocupacional'', fo_outcome_code = ''PROF_BONUS''\<rparr>]\<rparr>"

definition au_income_bonus :: group_data where
  "au_income_bonus =
     \<lparr>fg_id = ''f534a0ba-6e27-4af4-b7c0-340647611989'', fg_code = ''income_bonus'',
      fg_name = ''Renda favoravel'', fg_priority = 50, fg_match_operator = ''all'',
      fg_conditions =
        [\<lparr>fc_id = ''73e526ec-f3de-4f7f-a555-b3fdcb6f31fd'', fc_field_key = ''renda_atual'',
         fc_operator = ''gte'', fc_value_json = JInt 4500, fc_condition_order = 1, fc_is_required = True\<rparr>],
      fg_outcomes =
        [\<lparr>fo_id = ''835ff81c-95cd-4cec-96b9-a74ab7e97f95'', fo_score_delta = ''30'', fo_is_blocking = False,
         fo_explanation_message = ''Renda fortalece sustentabilidade financeira'',
         fo_outcome_code = ''INCOME_BONUS''\<rparr>]\<rparr>"

definition au_income_gap :: group_data where
  "au_income_gap =
     \<lparr>fg_id = ''ea966f40-08ca-4dc1-a811-0a95188d84e1'', fg_code = ''income_gap'', fg_name = ''Gap de renda'',
      fg_priority = 60, fg_match_operator = ''all'',
      fg_conditions =
        [\<lparr>fc_id = ''d710de18-4ae1-4cef-b08f-ad15a2f4efdd'', fc_field_key = ''renda_atual'', fc_operator = ''lt'',
         fc_value_json = JInt 4500, fc_condition_order = 1, fc_is_required = True\<rparr>],
      fg_outcomes =
        [\<lparr>fo_id = ''a3064388-f742-47dc-8c6b-d3b534b5a278'', fo_score_delta = ''-15'', fo_is_blocking = False,
         fo_explanation_message = ''Gap de renda atual'', fo_outcome_code = ''INCOME_GAP''\<rparr>]\<rparr>"

definition fixture_au :: rule_fixture where
  "fixture_au =
     \<lparr>fx_country_code = ''AU'', fx_country_name = ''Australia'', fx_program_code = ''skilled_independent'',
      fx_program_name = ''Skilled Independent'', fx_version_id = ''4cfcd0c1-e078-49c0-8ec8-4cf1fb251d2b'',
      fx_version = ''2026.01'', fx_effective_from = MVP_PROGRAM_EFFECTIVE_FROM, fx_effective_to = None,
      fx_rule_groups =
        [au_block_medical_issue, au_age_bonus, au_education_bonus, au_occupation_bonus, au_income_bonus,
         au_income_gap]\<rparr>"

definition pt_minimum_income :: group_data where
  "pt_minimum_income =
     \<lparr>fg_id = ''30807eb3-c84b-4906-82cc-d305ba67d221'', fg_code = ''minimum_income'',
      fg_name = ''Renda minima'', fg_priority = 10, fg_match_operator = ''all'',
      fg_conditions =
        [\<lparr>fc_id = ''9901a2f4-6f85-447d-974f-26f727a62866'', fc_field_key = ''renda_atual'',
         fc_operator = ''gte'', fc_value_json = JInt 3000, fc_condition_order = 1, fc_is_required = True\<rparr>],
      fg_outcomes =
        [\<lparr>fo_id = ''a7b62ea5-4f75-4f2f-b183-1d8f39185553'', fo_score_delta = ''35'', fo_is_blocking = False,
         fo_explanation_message = ''Renda atende referencia do programa'', fo_outcome_code = ''INCOME_OK''\<rparr>]\<rparr>"

definition pt_language_bonus :: group_data where
  "pt_language_bonus =
     \<lparr>fg_id = ''c0173632-662d-44ca-a35c-cbb5e12de128'', fg_code = ''language_bonus'',
      fg_name = ''Idioma portugues'', fg_priority = 20, fg_match_operator = ''all'',
      fg_conditions =
        [\<lparr>fc_id = ''bf4ffa95-03e8-4c1d-a35e-54805fe8d79e'', fc_field_key = ''idiomas_nivel.pt'',
         fc_operator = ''gte'', fc_value_json = JInt 3, fc_condition_order = 1, fc_is_required = True\<rparr>],
      fg_outcomes =
        [\<lparr>fo_id = ''f4007889-cee5-4f4f-975f-c63566abe6cb'', fo_score_delta = ''15'', fo_is_blocking = False,
         fo_explanation_message = ''Idioma portugues facilita integracao'', fo_outcome_code = ''PT_LANG_BONUS''\<rparr>]\<rparr>"

definition pt_background_exists :: group_data where
  "pt_background_exists =
     \<lparr>fg_id = ''7642da13-f77a-4dc0-ae00-b68e37f3037d'', fg_code = ''background_exists'',
      fg_name = ''Dados basicos presentes'', fg_priority = 30, fg_match_operator = ''all'',
      fg_conditions =
        [\<lparr>fc_id = ''5ea0d7c7-9cb0-476c-b8dc-f20accfdf734'', fc_field_key = ''profissao_codigo'',
         fc_operator = ''exists'', fc_value_json = JBool True, fc_condition_order = 1, fc_is_required = True\<rparr>],
      fg_outcomes =
        [\<lparr>fo_id = ''34f63cae-f10f-4a5a-b3ec-dbf66f0763d5'', fo_score_delta = ''10'', fo_is_blocking = False,
         fo_explanation_message = ''Historico profissional informado'',
         fo_outcome_code = ''PROFILE_COMPLETENESS''\<rparr>]\<rparr>"

definition fixture_pt :: rule_fixture where
  "fixture_pt =
     \<lparr>fx_country_code = ''PT'', fx_country_name = ''Portugal'', fx_program_code = ''PT_AIMA_VISAS'',
      fx_program_name = ''AIMA Residence and Visa Rules'',
      fx_version_id = ''54b82206-3858-4125-8ce3-6c440e6dddc8'', fx_version = ''2026.01'',
      fx_effective_from = MVP_PROGRAM_EFFECTIVE_FROM, fx_effective_to = None,
      fx_rule_groups =
        [pt_minimum_income, pt_language_bonus, pt_background_exists]\<rparr>"

definition us_professional_experience :: group_data where
  "us_professional_experience =
     \<lparr>fg_id = ''f5f29bce-d00d-4ed3-b425-09d6e6bf8cb4'', fg_code = ''professional_experience'',
      fg_name = ''Experiencia profissional'', fg_priority = 10, fg_match_operator = ''all'',
      fg_conditions =
        [\<lparr>fc_id = ''2f1ef2db-0f77-4fb8-847a-9e3d0db43f5f'', fc_field_key = ''anos_experiencia'',
         fc_operator = ''gte'', fc_value_json = JInt 3, fc_condition_order = 1, fc_is_required = True\<rparr>],
      fg_outcomes =
        [\<lparr>fo_id = ''fafe8330-ddde-4f27-a025-c4e8fff53443'', fo_score_delta = ''20'', fo_is_blocking = False,
         fo_explanation_message = ''Experiencia profissional competitiva'',
         fo_outcome_code = ''EXPERIENCE_BONUS''\<rparr>]\<rparr>"

definition us_english_requirement :: group_data where
  "us_english_requirement =
     \<lparr>fg_id = ''bf44caaf-c7af-45d5-8183-2f5d6ca9b9af'', fg_code = ''english_requirement'',
      fg_name = ''Ingles minimo'', fg_priority = 20, fg_match_operator = ''all'',
      fg_conditions =
        [\<lparr>fc_id = ''7df77ffe-2f49-42ec-b68f-28af93b26e20'', fc_field_key = ''idiomas_nivel.en'',
         fc_operator = ''gte'', fc_value_json = JInt 4, fc_condition_order = 1, fc_is_required = True\<rparr>],
      fg_outcomes =
        [\<lparr>fo_id = ''58d16465-8572-4ecb-abc3-f810464d4f52'', fo_score_delta = ''15'', fo_is_blocking = False,
         fo_explanation_message = ''Nivel de ingles adequado para aplicacao'',
         fo_outcome_code = ''LANGUAGE_BONUS''\<rparr>]\<rparr>"

definition us_inadmissibility_block :: group_data where
  "us_inadmissibility_block =
     \<lparr>fg_id = ''a0f0f1aa-cf66-4df4-88db-96abf9d2ca39'', fg_code = ''inadmissibility_block'',
      fg_name = ''Bloqueio por inadmissibilidade'', fg_priority = 30, fg_match_operator = ''all'',
      fg_conditions =
        [\<lparr>fc_id = ''b97d59f6-83b5-4269-bbce-0e0f1be9d40e'', fc_field_key = ''possui_inadmissibilidade'',
         fc_operator = ''eq'', fc_value_json = JBool True, fc_condition_order = 1, fc_is_required = True\<rparr>],
      fg_outcomes =
        [\<lparr>fo_id = ''7048a266-eb8c-4f15-8bca-26df5e77ac48'', fo_score_delta = ''-100'', fo_is_blocking = True,
         fo_explanation_message = ''Existem criterios impeditivos de admissibilidade'',
         fo_outcome_code = ''INADMISSIBILITY_BLOCK''\<rparr>]\<rparr>"

definition fixture_us :: rule_fixture where
  "fixture_us =
     \<lparr>fx_country_code = ''US'', fx_country_name = ''Estados Unidos'',
      fx_program_code = ''US_GENERAL_IMMIGRATION'', fx_program_name = ''USCIS Immigration Pathways'',
      fx_version_id = ''b2e31b89-6d98-492f-a40d-0d0cd86b0869'', fx_version = ''2026.01'',
      fx_effective_from = MVP_PROGRAM_EFFECTIVE_FROM, fx_effective_to = None,
      fx_rule_groups =
        [us_professional_experience, us_english_requirement, us_inadmissibility_block]\<rparr>"

definition gb_salary_threshold :: group_data where
  "gb_salary_threshold =
     \<lparr>fg_id = ''3c8c8ef1-4f16-440a-a923-3f4d5575d58e'', fg_code = ''salary_threshold'',
      fg_name = ''Faixa salarial'', fg_priority = 10, fg_match_operator = ''all'',
      fg_conditions =
        [\<lparr>fc_id = ''55a660d2-22a3-4ea2-a216-30235e2d95d4'', fc_field_key = ''salario_anual'',
         fc_operator = ''gte'', fc_value_json = JInt 38700, fc_condition_order = 1, fc_is_required = True\<rparr>],
      fg_outcomes =
        [\<lparr>fo_id = ''f5c4735b-84e7-44a8-975c-4d0d7de6f8f9'', fo_score_delta = ''25'', fo_is_blocking = False,
         fo_explanation_message = ''Faixa salarial alinhada ao programa'', fo_outcome_code = ''SALARY_BONUS''\<rparr>]\<rparr>"

definition gb_english_b1 :: group_data where
  "gb_english_b1 =
     \<lparr>fg_id = ''f72411f9-a052-40ca-89d5-49f26895a8e4'', fg_code = ''english_b1'', fg_name = ''Ingles nivel B1'',
      fg_priority = 20, fg_match_operator = ''all'',
      fg_conditions =
        [\<lparr>fc_id = ''3c7ce8f7-c7de-485b-b6c0-a4213f4f0e72'', fc_field_key = ''idiomas_nivel.en'',
         fc_operator = ''gte'', fc_value_json = JInt 3, fc_condition_order = 1, fc_is_required = True\<rparr>],
      fg_outcomes =
        [\<lparr>fo_id = ''2044f54b-f9a0-4745-8895-e40f6a43dcfd'', fo_score_delta = ''15'', fo_is_blocking = False,
         fo_explanation_message = ''Comprovacao de ingles em nivel minimo'', fo_outcome_code = ''ENGLISH_OK''\<rparr>]\<rparr>"

definition fixture_gb :: rule_fixture where
  "fixture_gb =
     \<lparr>fx_country_code = ''GB'', fx_country_name = ''Reino Unido'', fx_program_code = ''UK_VISAS_IMMIGRATION'',
      fx_program_name = ''UK Visas and Immigration'', fx_version_id = ''1c7f52bc-6fd4-4cc6-825e-7bca0f974ebf'',
      fx_version = ''2026.01'', fx_effective_from = MVP_PROGRAM_EFFECTIVE_FROM, fx_effective_to = None,
      fx_rule_groups =
        [gb_salary_threshold, gb_english_b1]\<rparr>"

definition de_qualification_recognized :: group_data where
  "de_qualification_recognized =
     \<lparr>fg_id = ''994238af-e40f-4f75-80f3-cd8d24b6b8d3'', fg_code = ''qualification_recognized'',
      fg_name = ''Qualificacao reconhecida'', fg_priority = 10, fg_match_operator = ''all'',
      fg_conditions =
        [\<lparr>fc_id = ''6d61da55-98db-4a1b-a05c-7afc02bdc3ff'', fc_field_key = ''qualificacao_reconhecida'',
         fc_operator = ''eq'', fc_value_json = JBool True, fc_condition_order = 1, fc_is_required = True\<rparr>],
      fg_outcomes =
        [\<lparr>fo_id = ''ac53c10b-1be5-4a9b-afd5-f97d91d9fa4f'', fo_score_delta = ''25'', fo_is_blocking = False,
         fo_explanation_message = ''Qualificacao reconhecida para trabalho qualificado'',
         fo_outcome_code = ''RECOGNITION_BONUS''\<rparr>]\<rparr>"

definition de_german_language :: group_data where
  "de_german_language =
     \<lparr>fg_id = ''cd1325bd-b222-4288-9e3f-b3f8647d5cd7'', fg_code = ''german_language'',
      fg_name = ''Idioma alemao'', fg_priority = 20, fg_match_operator = ''all'',
      fg_conditions =
        [\<lparr>fc_id = ''634e10dd-94af-4203-bd58-9788182276bc'', fc_field_key = ''idiomas_nivel.de'',
         fc_operator = ''gte'', fc_value_json = JInt 3, fc_condition_order = 1, fc_is_required = True\<rparr>],
      fg_outcomes =
        [\<lparr>fo_id = ''41135f62-64d2-42e6-bec1-9f977936f5f4'', fo_score_delta = ''15'', fo_is_blocking = False,
         fo_explanation_message = ''Nivel de alemao ajuda na elegibilidade'', fo_outcome_code = ''GERMAN_BONUS''\<rparr>]\<rparr>"

definition fixture_de :: rule_fixture where
  "fixture_de =
     \<lparr>fx_country_code = ''DE'', fx_country_name = ''Alemanha'', fx_program_code = ''DE_WORK_IMMIGRATION'',
      fx_program_name = ''Make it in Germany'', fx_version_id = ''8cadfce6-57fd-4975-9530-9012cccd5be6'',
      fx_version = ''2026.01'', fx_effective_from = MVP_PROGRAM_EFFECTIVE_FROM, fx_effective_to = None,
      fx_rule_groups =
        [de_qualification_recognized, de_german_language]\<rparr>"

definition MVP_RULE_FIXTURES :: "rule_fixture dict" where
  "MVP_RULE_FIXTURES =
     [(''CA'', fixture_ca), (''AU'', fixture_au), (''PT'', fixture_pt), (''US'', fixture_us), (''GB'', fixture_gb),
      (''DE'', fixture_de)]"

section \<open>Builders\<close>

text \<open>\<open>Decimal(s)\<close> of a plain numeral: a sign, digits and a fraction. (The other forms that Python reads,
  exponents, underscores and special values, are refused here; the fixtures have none.)\<close>

definition decimal_of_str :: "string \<Rightarrow> dec result" where
  "decimal_of_str s =
     (let r = (if take 1 s \<in> {''-'', ''+''} then drop 1 s else s);
          whole = takeWhile is_digit r; rest = dropWhile is_digit r;
          fraction = drop 1 rest
      in if (rest = [] \<or> hd rest = CHR ''.'') \<and> list_all is_digit fraction \<and> whole @ fraction \<noteq> []
         then Inr (Dec ((if take 1 s = ''-'' then -1 else 1) * int (digits_val (whole @ fraction))) (- int (length fraction)))
         else Inl (OtherException ''InvalidOperation''))"

definition fixture_of :: "string \<Rightarrow> rule_fixture result" where
  "fixture_of country_code =
     (case dict_get MVP_RULE_FIXTURES country_code of None \<Rightarrow> Inl (KeyError country_code) | Some f \<Rightarrow> Inr f)"

definition build_program_version_input :: "string \<Rightarrow> version_input result" where
  "build_program_version_input country_code =
     bindR (fixture_of country_code) (\<lambda>f.
     bindR (uuid_parse (fx_version_id f)) (\<lambda>i.
     Inr \<lparr>vi_id = i, vi_version = fx_version f, vi_effective_from = fx_effective_from f,
       vi_effective_to = fx_effective_to f\<rparr>))"

definition build_condition_input :: "condition_data \<Rightarrow> rule_condition result" where
  "build_condition_input c =
     bindR (uuid_parse (fc_id c)) (\<lambda>i.
     Inr \<lparr>rc_id = i, rc_field_key = fc_field_key c, rc_operator = fc_operator c, rc_value_json = fc_value_json c,
       rc_condition_order = fc_condition_order c, rc_is_required = fc_is_required c\<rparr>)"

definition build_outcome_input :: "outcome_data \<Rightarrow> rule_outcome result" where
  "build_outcome_input u =
     bindR (uuid_parse (fo_id u)) (\<lambda>i.
     bindR (decimal_of_str (fo_score_delta u)) (\<lambda>delta.
     Inr \<lparr>ro_id = i, ro_score_delta = delta, ro_is_blocking = fo_is_blocking u,
       ro_explanation_message = fo_explanation_message u, ro_outcome_code = Some (fo_outcome_code u)\<rparr>))"

definition build_group_input :: "group_data \<Rightarrow> rule_group result" where
  "build_group_input g =
     bindR (mapR build_condition_input (fg_conditions g)) (\<lambda>conditions.
     bindR (mapR build_outcome_input (fg_outcomes g)) (\<lambda>outcomes.
     bindR (uuid_parse (fg_id g)) (\<lambda>i.
     Inr \<lparr>rg_id = i, rg_code = fg_code g, rg_name = fg_name g, rg_priority = fg_priority g,
       rg_match_operator = fg_match_operator g, rg_conditions = conditions, rg_outcomes = outcomes\<rparr>)))"

definition build_rule_group_inputs :: "string \<Rightarrow> rule_group list result" where
  "build_rule_group_inputs country_code =
     bindR (fixture_of country_code) (\<lambda>f. mapR build_group_input (fx_rule_groups f))"

end
