(* ===== verification/Stored_Deltas.thy ===== *)
theory Stored_Deltas
  imports Engine
begin

text \<open>
  The deltas of the rules pass through a column \<open>Numeric(8, 2)\<close>, which gives them two decimals. The engine
  computes with their values, so that nothing of a result but its hash depends on the number of decimals.
\<close>

definition stored_delta :: "dec \<Rightarrow> dec" where
  "stored_delta d = Dec (dcoeff d * 10 ^ nat (dexp d + 2)) (-2)"

definition in_cents :: "rule_group \<Rightarrow> rule_group" where
  "in_cents g = g\<lparr>rg_outcomes := map (\<lambda>u. u\<lparr>ro_score_delta := stored_delta (ro_score_delta u)\<rparr>) (rg_outcomes g)\<rparr>"

text \<open>Deltas with at most two decimals.\<close>

definition short_deltas :: "rule_group \<Rightarrow> bool" where
  "short_deltas g \<longleftrightarrow> list_all (\<lambda>u. -2 \<le> dexp (ro_score_delta u)) (rg_outcomes g)"

lemma stored_delta_val: "-2 \<le> dexp d \<Longrightarrow> dec_val (stored_delta d) = dec_val d"
proof -
  assume d: "-2 \<le> dexp d"
  have "(10 :: rat) ^ nat (dexp d + 2) = 10 powi (dexp d + 2)" using d by (simp add: power_int_def)
  also have "\<dots> = 10 powi dexp d * 100" by (simp add: power_int_add)
  finally show ?thesis by (simp add: dec_val_def stored_delta_def power_int_minus)
qed

lemma in_cents_fields [simp]:
  "rg_id (in_cents g) = rg_id g" "rg_code (in_cents g) = rg_code g" "rg_priority (in_cents g) = rg_priority g"
  "rg_match_operator (in_cents g) = rg_match_operator g" "rg_conditions (in_cents g) = rg_conditions g"
  "group_key (in_cents g) = group_key g"
  by (simp_all add: in_cents_def group_key_def)

lemma in_cents_conditions [simp]: "evaluate_group_conditions (in_cents g) profile = evaluate_group_conditions g profile"
  by (simp add: evaluate_group_conditions_def)

lemma in_cents_blocking: "short_deltas g \<Longrightarrow> blocking_group profile (in_cents g) = blocking_group profile g"
  by (auto simp: blocking_group_def in_cents_def filter_map comp_def mapR_map short_deltas_def list_all_iff blocking_item_def
      stored_delta_val evaluate_group_conditions_def intro!: bindR_cong mapR_cong)

lemma in_cents_scoring: "short_deltas g \<Longrightarrow> scoring_group profile (in_cents g) = scoring_group profile g"
  by (auto simp: scoring_group_def in_cents_def filter_map comp_def mapR_map short_deltas_def list_all_iff scoring_item_def
      stored_delta_val evaluate_group_conditions_def intro!: bindR_cong mapR_cong)

text \<open>What a result says besides the hash.\<close>

definition verdict :: "score_result \<Rightarrow> rat \<times> rat \<times> string \<times> bool \<times> bool \<times> string list \<times> string list \<times> breakdown_item list" where
  "verdict r = (sr_score_final r, sr_raw_score r, sr_faixa r, sr_is_blocked r, sr_is_eligible r, sr_fatores_positivos r,
     sr_gaps_criticos r, sr_breakdown r)"

lemma verdict_results [simp]:
  "verdict (blocked_result alg h items) = verdict (blocked_result alg h' items)"
  "verdict (scored_result alg h s w items) = verdict (scored_result alg h' s w items)"
  by (simp_all add: verdict_def blocked_result_def scored_result_def)

lemma results_differ [simp]: "scored_result alg h s w xs \<noteq> blocked_result alg h' ys"
  "blocked_result alg h' ys \<noteq> scored_result alg h s w xs"
  by (simp_all add: scored_result_def blocked_result_def)

lemma in_cents_deltas: "list_all short_deltas gs \<Longrightarrow> scoring_deltas (map in_cents gs) = scoring_deltas gs"
proof (induction gs)
  case (Cons g gs)
  then have "map (\<lambda>u. dec_val (ro_score_delta u)) (filter (\<lambda>u. \<not> ro_is_blocking u) (rg_outcomes (in_cents g)))
      = map (\<lambda>u. dec_val (ro_score_delta u)) (filter (\<lambda>u. \<not> ro_is_blocking u) (rg_outcomes g))"
    by (simp add: in_cents_def short_deltas_def list_all_iff filter_map comp_def stored_delta_val)
  with Cons show ?case by (simp add: scoring_deltas_def)
qed simp

lemma evaluate_in_cents:
  assumes short: "list_all short_deltas gs" and ev: "evaluate alg p pv (map in_cents gs) = Inr r"
  shows "\<exists>r'. evaluate alg p pv gs = Inr r' \<and> verdict r' = verdict r"
proof -
  let ?s = "sort_key group_key gs"
  have s: "sort_key group_key (map in_cents gs) = map in_cents ?s" by (simp add: sort_key_map)
  have short': "\<forall>g\<in>set ?s. short_deltas g" using short by (simp add: list_all_iff)
  have b: "evaluate_blocking_pass (map in_cents ?s) profile = evaluate_blocking_pass ?s profile"
    "evaluate_scoring_pass (map in_cents ?s) profile = evaluate_scoring_pass ?s profile" for profile
  proof -
    have "mapR (\<lambda>g. blocking_group profile (in_cents g)) ?s = mapR (blocking_group profile) ?s"
      "mapR (\<lambda>g. scoring_group profile (in_cents g)) ?s = mapR (scoring_group profile) ?s"
      using short' by (auto intro!: mapR_cong simp: in_cents_blocking in_cents_scoring)
    then show "evaluate_blocking_pass (map in_cents ?s) profile = evaluate_blocking_pass ?s profile"
      "evaluate_scoring_pass (map in_cents ?s) profile = evaluate_scoring_pass ?s profile"
      by (simp_all add: evaluate_blocking_pass_def evaluate_scoring_pass_def mapR_map)
  qed
  have "scoring_deltas (map in_cents ?s) = scoring_deltas ?s"
    using short' by (intro in_cents_deltas) (simp add: list_all_iff)
  then have n: "normalize_score raw (map in_cents ?s) = normalize_score raw ?s" for raw
    by (simp add: normalize_score_def)
  show ?thesis
    using ev unfolding evaluate_def Let_def s b n
    by (auto simp: bindR_eq_Inr split: if_splits)
qed

end
