(* ===== verification/Mvp_Rules_Contract.thy ===== *)
theory Mvp_Rules_Contract
  imports Mvp_Rules Stored_Deltas
begin

text \<open>
  What the shipped rules mean: for every country with a fixture the builders and the engine succeed, and the score is
  the percentage of the points that the fixture's own texts state.
\<close>

section \<open>Identifiers\<close>

definition uuid_text :: "string \<Rightarrow> bool" where
  "uuid_text s \<longleftrightarrow> list_all (\<lambda>c. c = CHR ''-'' \<or> c \<in> set ''0123456789abcdef'') s
     \<and> length (filter (\<lambda>c. c \<noteq> CHR ''-'') s) = 32"

lemma read_hex_total: "set s \<subseteq> set hex_digits \<Longrightarrow> s \<noteq> [] \<or> \<not> sep \<Longrightarrow> \<exists>n. read_hex sep acc s = Some n"
proof (induction s arbitrary: sep acc)
  case (Cons c s)
  obtain n where n: "n < 16" "c = hex_char n" using Cons.prems(1) by (auto simp: hex_digits_def)
  then have "hex_digit c = Some n" "c \<noteq> CHR ''_''" using hex_digit_char hex_char_sep by auto
  with Cons show ?case by simp
qed simp

lemma uuid_text_parses:
  assumes "uuid_text s"
  shows "is_ok (uuid_parse s)"
proof -
  have set: "set s \<subseteq> set hex_digits \<union> {CHR ''-''}"
    using assms unfolding uuid_text_def list_all_iff hex_digits_eq by blast
  have u: "replace_str ''uuid:'' [] (replace_str ''urn:'' [] s) = s"
    using set hex_digits_plain by (subst (2) replace_absent; (subst replace_absent)?) auto
  have b: "strip_chars ''{}'' s = s"
    using set hex_digits_plain by (intro strip_chars_absent) auto
  let ?h = "filter (\<lambda>c. c \<noteq> CHR ''-'') s"
  have h: "set ?h \<subseteq> set hex_digits" "length ?h = 32" using set assms unfolding uuid_text_def by auto
  then obtain x y r where s: "?h = x # y # r"
    by (metis Suc_le_length_iff numeral_2_eq_2 numeral_le_iff semiring_norm(68,71,78))
  have ab: "x \<in> set hex_digits" "y \<in> set hex_digits" using h s by auto
  have 1: "strip ?h = ?h" using h hex_digits_plain by (intro strip_absent) auto
  have 2: "take_sign ?h = (1, ?h)" using hex_digits_plain [OF ab(1)] by (auto simp: take_sign_def s)
  have 3: "lower (take 2 ?h) \<noteq> ''0x''" using hex_digits_plain [OF ab(2)] by (simp add: s lower_def)
  obtain n where 4: "read_hex True 0 ?h = Some n" using read_hex_total [OF h(1), of True 0] s by auto
  have "int16_of_str ?h = Inr (int n)" by (simp add: int16_of_str_def 1 2 3 4 Let_def)
  then show ?thesis unfolding uuid_parse_def u b replace_char Let_def using h(2) by (simp add: is_ok_def)
qed

section \<open>Points\<close>

definition points :: "outcome_data \<Rightarrow> int" where
  "points u = (case decimal_of_str (fo_score_delta u) of Inr d \<Rightarrow> dcoeff d | Inl _ \<Rightarrow> 0)"

definition group_points :: "group_data \<Rightarrow> int list" where
  "group_points g = map points (filter (\<lambda>u. \<not> fo_is_blocking u) (fg_outcomes g))"

definition condition_holds :: "json dict \<Rightarrow> condition_data \<Rightarrow> bool" where
  "condition_holds profile c \<longleftrightarrow>
     evaluate_condition (fc_operator c) (resolve_field profile (fc_field_key c)) (fc_value_json c) = Inr True"

definition group_holds :: "json dict \<Rightarrow> group_data \<Rightarrow> bool" where
  "group_holds profile g \<longleftrightarrow> list_all (condition_holds profile) (fg_conditions g)"

definition earned :: "json dict \<Rightarrow> group_data list \<Rightarrow> int" where
  "earned profile gs = (\<Sum>g\<leftarrow>gs. if group_holds profile g then sum_list (group_points g) else 0)"

definition most :: "group_data list \<Rightarrow> int" where
  "most gs = (\<Sum>g\<leftarrow>gs. \<Sum>k\<leftarrow>group_points g. max k 0)"

definition least :: "group_data list \<Rightarrow> int" where
  "least gs = (\<Sum>g\<leftarrow>gs. \<Sum>k\<leftarrow>group_points g. min k 0)"

text \<open>What the fixtures have in common, checked on them below.\<close>

definition group_data_ok :: "group_data \<Rightarrow> bool" where
  "group_data_ok g \<longleftrightarrow> uuid_text (fg_id g) \<and> fg_match_operator g = ''all''
     \<and> list_all (\<lambda>c. uuid_text (fc_id c)) (fg_conditions g)
     \<and> list_all (\<lambda>u. uuid_text (fo_id u)
          \<and> (case decimal_of_str (fo_score_delta u) of Inr d \<Rightarrow> dexp d = 0 \<and> \<bar>dcoeff d\<bar> < 10 ^ 6 | Inl _ \<Rightarrow> False))
        (fg_outcomes g)"

definition fixture_ok :: "rule_fixture \<Rightarrow> bool" where
  "fixture_ok f \<longleftrightarrow> uuid_text (fx_version_id f) \<and> list_all group_data_ok (fx_rule_groups f)
     \<and> length (concat (map fg_outcomes (fx_rule_groups f))) \<le> 100 \<and> least (fx_rule_groups f) < most (fx_rule_groups f)"

lemma groups_data_ok:
  "group_data_ok ca_block_age_above_45"
  "group_data_ok ca_age_ideal"
  "group_data_ok ca_education_high"
  "group_data_ok ca_priority_profession"
  "group_data_ok ca_english_high"
  "group_data_ok ca_french_bonus"
  "group_data_ok ca_income_ok"
  "group_data_ok ca_english_gap"
  "group_data_ok au_block_medical_issue"
  "group_data_ok au_age_bonus"
  "group_data_ok au_education_bonus"
  "group_data_ok au_occupation_bonus"
  "group_data_ok au_income_bonus"
  "group_data_ok au_income_gap"
  "group_data_ok pt_minimum_income"
  "group_data_ok pt_language_bonus"
  "group_data_ok pt_background_exists"
  "group_data_ok us_professional_experience"
  "group_data_ok us_english_requirement"
  "group_data_ok us_inadmissibility_block"
  "group_data_ok gb_salary_threshold"
  "group_data_ok gb_english_b1"
  "group_data_ok de_qualification_recognized"
  "group_data_ok de_german_language"
  by code_simp+

lemma points_of_groups:
  "least (fx_rule_groups fixture_ca) < most (fx_rule_groups fixture_ca)"
  "least (fx_rule_groups fixture_au) < most (fx_rule_groups fixture_au)"
  "least (fx_rule_groups fixture_pt) < most (fx_rule_groups fixture_pt)"
  "least (fx_rule_groups fixture_us) < most (fx_rule_groups fixture_us)"
  "least (fx_rule_groups fixture_gb) < most (fx_rule_groups fixture_gb)"
  "least (fx_rule_groups fixture_de) < most (fx_rule_groups fixture_de)"
  by code_simp+

lemma outcomes_of_groups:
  "length (concat (map fg_outcomes (fx_rule_groups fixture_ca))) \<le> 100"
  "length (concat (map fg_outcomes (fx_rule_groups fixture_au))) \<le> 100"
  "length (concat (map fg_outcomes (fx_rule_groups fixture_pt))) \<le> 100"
  "length (concat (map fg_outcomes (fx_rule_groups fixture_us))) \<le> 100"
  "length (concat (map fg_outcomes (fx_rule_groups fixture_gb))) \<le> 100"
  "length (concat (map fg_outcomes (fx_rule_groups fixture_de))) \<le> 100"
  by code_simp+

lemma versions_of_fixtures:
  "uuid_text (fx_version_id fixture_ca)"
  "uuid_text (fx_version_id fixture_au)"
  "uuid_text (fx_version_id fixture_pt)"
  "uuid_text (fx_version_id fixture_us)"
  "uuid_text (fx_version_id fixture_gb)"
  "uuid_text (fx_version_id fixture_de)"
  by code_simp+

lemma fixtures_ok: "dict_get MVP_RULE_FIXTURES c = Some f \<Longrightarrow> fixture_ok f"
  unfolding fixture_ok_def MVP_RULE_FIXTURES_def
  using points_of_groups outcomes_of_groups versions_of_fixtures groups_data_ok
  by (auto split: if_splits simp: fixture_ca_def [THEN arg_cong, of fx_rule_groups] fixture_au_def [THEN arg_cong, of fx_rule_groups] fixture_pt_def [THEN arg_cong, of fx_rule_groups] fixture_us_def [THEN arg_cong, of fx_rule_groups] fixture_gb_def [THEN arg_cong, of fx_rule_groups] fixture_de_def [THEN arg_cong, of fx_rule_groups])

section \<open>The built groups\<close>

lemma build_condition_fields:
  "build_condition_input c = Inr x \<Longrightarrow> rc_field_key x = fc_field_key c \<and> rc_operator x = fc_operator c
     \<and> rc_value_json x = fc_value_json c"
  by (auto simp: build_condition_input_def bindR_eq_Inr)

lemma build_outcome_fields:
  "build_outcome_input u = Inr x \<Longrightarrow> decimal_of_str (fo_score_delta u) = Inr (ro_score_delta x)
     \<and> ro_is_blocking x = fo_is_blocking u \<and> ro_explanation_message x = fo_explanation_message u"
  by (auto simp: build_outcome_input_def bindR_eq_Inr)

lemma mapR_Inr_map2: "mapR f xs = Inr ys \<Longrightarrow> (\<And>x y. x \<in> set xs \<Longrightarrow> f x = Inr y \<Longrightarrow> h y = k x) \<Longrightarrow> map h ys = map k xs"
  by (induction xs arbitrary: ys) (auto simp: bindR_eq_Inr)

lemma mapR_is_ok: "(\<And>x. x \<in> set xs \<Longrightarrow> is_ok (f x)) \<Longrightarrow> is_ok (mapR f xs)"
  by (simp add: is_ok_mapR list_all_iff)

text \<open>A group whose conditions all evaluate applies when all of them hold.\<close>

lemma applies_all:
  assumes ok: "group_ok profile g" and all: "rg_match_operator g = ''all''"
  shows "applies profile g \<longleftrightarrow> list_all (\<lambda>c. evaluate_condition (rc_operator c) (resolve_field profile (rc_field_key c))
    (rc_value_json c) = Inr True) (rg_conditions g)"
proof -
  let ?cs = "sort_key condition_key (rg_conditions g)"
  let ?ev = "\<lambda>c. evaluate_condition (rc_operator c) (resolve_field profile (rc_field_key c)) (rc_value_json c)"
  have "is_ok (mapR (check_condition profile) ?cs)"
    using ok by (intro mapR_is_ok) (simp add: check_condition_ok group_ok_def list_all_iff)
  then obtain rs where rs: "mapR (check_condition profile) ?cs = Inr rs" by (auto simp: is_ok_iff)
  have "map snd rs = map (\<lambda>c. ?ev c = Inr True) ?cs"
    by (rule mapR_Inr_map2 [OF rs]) (auto simp: check_condition_def Let_def bindR_eq_Inr)
  moreover have "applies profile g = group_truth ''all'' (map snd rs)"
    by (simp add: applies_def evaluate_group_conditions_def rs all)
  moreover have "group_truth ''all'' bs = list_all (\<lambda>b. b) bs" for bs by (cases bs) (simp_all add: group_truth_def)
  ultimately show ?thesis by (simp add: list_all_iff)
qed

definition group_evaluable :: "json dict \<Rightarrow> group_data \<Rightarrow> bool" where
  "group_evaluable profile g \<longleftrightarrow>
     list_all (\<lambda>c. operands_ok (fc_operator c) (resolve_field profile (fc_field_key c)) (fc_value_json c)) (fg_conditions g)"

lemma build_group_ok:
  assumes "group_data_ok g"
  shows "is_ok (build_group_input g)"
proof -
  have "is_ok (mapR build_condition_input (fg_conditions g))"
  proof (intro mapR_is_ok)
    fix c assume "c \<in> set (fg_conditions g)"
    with assms have "uuid_text (fc_id c)" by (simp add: group_data_ok_def list_all_iff)
    then obtain i where "uuid_parse (fc_id c) = Inr i" using uuid_text_parses is_ok_iff by metis
    then show "is_ok (build_condition_input c)" by (simp add: build_condition_input_def is_ok_iff)
  qed
  moreover have "is_ok (mapR build_outcome_input (fg_outcomes g))"
  proof (intro mapR_is_ok)
    fix u assume "u \<in> set (fg_outcomes g)"
    with assms have "uuid_text (fo_id u)" "\<exists>d. decimal_of_str (fo_score_delta u) = Inr d"
      by (cases "decimal_of_str (fo_score_delta u)"; auto simp: group_data_ok_def list_all_iff)+
    moreover from this obtain i where "uuid_parse (fo_id u) = Inr i" using uuid_text_parses is_ok_iff by metis
    ultimately show "is_ok (build_outcome_input u)" by (auto simp: build_outcome_input_def is_ok_iff)
  qed
  moreover have "is_ok (uuid_parse (fg_id g))" using assms uuid_text_parses by (simp add: group_data_ok_def)
  ultimately show ?thesis by (auto simp: build_group_input_def is_ok_iff)
qed

lemma built_group:
  assumes ok: "group_data_ok g" and x: "build_group_input g = Inr x"
  shows "group_ok profile (in_cents x) \<longleftrightarrow> group_evaluable profile g"
    and "group_evaluable profile g \<Longrightarrow> applies profile (in_cents x) \<longleftrightarrow> group_holds profile g"
    and "short_deltas x" "cents_group (in_cents x)" "cents (in_cents x) = map (\<lambda>k. 100 * k) (group_points g)"
    and "length (rg_outcomes x) = length (fg_outcomes g)"
    and "(\<exists>u\<in>set (rg_outcomes x). ro_is_blocking u) \<longleftrightarrow> (\<exists>u\<in>set (fg_outcomes g). fo_is_blocking u)"
proof -
  obtain cs us i where parts: "mapR build_condition_input (fg_conditions g) = Inr cs"
    "mapR build_outcome_input (fg_outcomes g) = Inr us" "x = \<lparr>rg_id = i, rg_code = fg_code g, rg_name = fg_name g,
      rg_priority = fg_priority g, rg_match_operator = fg_match_operator g, rg_conditions = cs, rg_outcomes = us\<rparr>"
    using x by (auto simp: build_group_input_def bindR_eq_Inr)
  have c: "map (\<lambda>c. (rc_field_key c, rc_operator c, rc_value_json c)) cs
      = map (\<lambda>c. (fc_field_key c, fc_operator c, fc_value_json c)) (fg_conditions g)"
    by (rule mapR_Inr_map2 [OF parts(1)]) (auto dest: build_condition_fields)
  have u: "map (\<lambda>u. (ro_is_blocking u, ro_score_delta u)) us
      = map (\<lambda>u. (fo_is_blocking u, Dec (points u) 0)) (fg_outcomes g)"
  proof (rule mapR_Inr_map2 [OF parts(2)])
    fix y z assume "y \<in> set (fg_outcomes g)" "build_outcome_input y = Inr z"
    with ok build_outcome_fields [of y z] show "(ro_is_blocking z, ro_score_delta z) = (fo_is_blocking y, Dec (points y) 0)"
      by (cases "ro_score_delta z") (auto simp: group_data_ok_def list_all_iff points_def)
  qed
  have all: "list_all (\<lambda>c. P (rc_field_key c) (rc_operator c) (rc_value_json c)) cs
      \<longleftrightarrow> list_all (\<lambda>c. P (fc_field_key c) (fc_operator c) (fc_value_json c)) (fg_conditions g)" for P
    using arg_cong [OF c, of "list_all (\<lambda>(a, b, c). P a b c)"] by (simp add: list.pred_map comp_def)
  show gok: "group_ok profile (in_cents x) \<longleftrightarrow> group_evaluable profile g"
    using all [of "\<lambda>a b c. operands_ok b (resolve_field profile a) c"]
    by (simp add: group_ok_def condition_ok_def [abs_def] group_evaluable_def parts(3))
  show "applies profile (in_cents x) \<longleftrightarrow> group_holds profile g" if "group_evaluable profile g"
  proof -
    have "rg_match_operator (in_cents x) = ''all''" using ok by (simp add: parts(3) group_data_ok_def)
    with that gok applies_all [of profile "in_cents x"] all [of "\<lambda>a b c. evaluate_condition b (resolve_field profile a) c = Inr True"]
    show ?thesis by (simp add: group_holds_def condition_holds_def [abs_def] parts(3))
  qed
  have mem: "(ro_is_blocking y, ro_score_delta y) \<in> (\<lambda>u. (fo_is_blocking u, Dec (points u) 0)) ` set (fg_outcomes g)"
    if "y \<in> set us" for y
    using that arg_cong [OF u, of set] by auto
  have small: "\<bar>points y\<bar> < 10 ^ 6" if "y \<in> set (fg_outcomes g)" for y
    using that ok by (auto simp: group_data_ok_def list_all_iff points_def split: sum.splits)
  show "short_deltas x" using mem by (fastforce simp: short_deltas_def list_all_iff parts(3))
  show "cents_group (in_cents x)"
    using mem small by (fastforce simp: cents_group_def in_cents_def list_all_iff parts(3) stored_delta_def)
  have "map (\<lambda>(b, d). dcoeff (stored_delta d)) (filter (\<lambda>(b, d). \<not> b) (map (\<lambda>u. (ro_is_blocking u, ro_score_delta u)) us))
      = map (\<lambda>(b, d). dcoeff (stored_delta d)) (filter (\<lambda>(b, d). \<not> b) (map (\<lambda>u. (fo_is_blocking u, Dec (points u) 0)) (fg_outcomes g)))"
    by (simp only: u)
  then show "cents (in_cents x) = map (\<lambda>k. 100 * k) (group_points g)"
    by (simp add: cents_def in_cents_def parts(3) filter_map comp_def group_points_def stored_delta_def mult.commute)
  show "length (rg_outcomes x) = length (fg_outcomes g)" using arg_cong [OF u, of length] by (simp add: parts(3))
  have "fst ` set (map (\<lambda>u. (ro_is_blocking u, ro_score_delta u)) us)
      = fst ` set (map (\<lambda>u. (fo_is_blocking u, Dec (points u) 0)) (fg_outcomes g))" by (simp only: u)
  then show "(\<exists>u\<in>set (rg_outcomes x). ro_is_blocking u) \<longleftrightarrow> (\<exists>u\<in>set (fg_outcomes g). fo_is_blocking u)"
    by (simp add: parts(3) image_image) (metis imageE imageI)
qed

section \<open>The score of the shipped rules\<close>

lemma sum_list_scaled: "(\<Sum>k\<leftarrow>map (\<lambda>k. 100 * k) ks. f k) = (\<Sum>k\<leftarrow>ks. f (100 * k :: int) :: int)"
  by (simp add: comp_def)

lemma scaled_extremes:
  "(\<Sum>k\<leftarrow>ks. min (100 * k) 0) = 100 * (\<Sum>k\<leftarrow>ks. min k (0 :: int))"
  "(\<Sum>k\<leftarrow>ks. max (100 * k) 0) = 100 * (\<Sum>k\<leftarrow>ks. max k (0 :: int))"
  "sum_list (map (\<lambda>k. 100 * k) ks) = 100 * sum_list (ks :: int list)"
  by (induction ks) (simp_all add: min_def max_def)

lemma built_sums:
  assumes "mapR build_group_input gds = Inr gs" "list_all group_data_ok gds" "list_all (group_evaluable profile) gds"
  shows "list_all short_deltas gs \<and> list_all cents_group (map in_cents gs) \<and> list_all (group_ok profile) (map in_cents gs)
    \<and> raw_cents profile (map in_cents gs) = 100 * earned profile gds \<and> max_cents (map in_cents gs) = 100 * most gds
    \<and> min_cents (map in_cents gs) = 100 * least gds
    \<and> outcome_count (map in_cents gs) = length (concat (map fg_outcomes gds))
    \<and> ((\<exists>x\<in>set gs. applies profile (in_cents x) \<and> (\<exists>u\<in>set (rg_outcomes (in_cents x)). ro_is_blocking u))
        \<longleftrightarrow> (\<exists>g\<in>set gds. group_holds profile g \<and> (\<exists>u\<in>set (fg_outcomes g). fo_is_blocking u)))"
  using assms
proof (induction gds arbitrary: gs)
  case Nil
  then show ?case
    by (simp add: raw_cents_def earned_def max_cents_def most_def min_cents_def least_def outcome_count_def)
next
  case (Cons g gds)
  then obtain x xs where x: "build_group_input g = Inr x" "mapR build_group_input gds = Inr xs" "gs = x # xs"
    by (auto simp: bindR_eq_Inr)
  have g: "group_data_ok g" "group_evaluable profile g" using Cons.prems by simp_all
  note b = built_group(1,2) [OF g(1) x(1), of profile] built_group(3-7) [OF g(1) x(1)]
  have blocking: "(\<exists>u\<in>set (rg_outcomes (in_cents x)). ro_is_blocking u) \<longleftrightarrow> (\<exists>u\<in>set (fg_outcomes g). fo_is_blocking u)"
    using b(7) by (simp add: in_cents_def)
  have n: "length (rg_outcomes (in_cents x)) = length (fg_outcomes g)" using b(6) by (simp add: in_cents_def)
  have ih: "list_all short_deltas xs \<and> list_all cents_group (map in_cents xs) \<and> list_all (group_ok profile) (map in_cents xs)
    \<and> raw_cents profile (map in_cents xs) = 100 * earned profile gds \<and> max_cents (map in_cents xs) = 100 * most gds
    \<and> min_cents (map in_cents xs) = 100 * least gds
    \<and> outcome_count (map in_cents xs) = length (concat (map fg_outcomes gds))
    \<and> ((\<exists>x\<in>set xs. applies profile (in_cents x) \<and> (\<exists>u\<in>set (rg_outcomes (in_cents x)). ro_is_blocking u))
        \<longleftrightarrow> (\<exists>g\<in>set gds. group_holds profile g \<and> (\<exists>u\<in>set (fg_outcomes g). fo_is_blocking u)))"
    using Cons.IH [OF x(2)] Cons.prems(2,3) by simp
  have sums: "sum_list (cents (in_cents x)) = 100 * sum_list (group_points g)"
    "(\<Sum>k\<leftarrow>cents (in_cents x). max k 0) = 100 * (\<Sum>k\<leftarrow>group_points g. max k 0)"
    "(\<Sum>k\<leftarrow>cents (in_cents x). min k 0) = 100 * (\<Sum>k\<leftarrow>group_points g. min k 0)"
    by (simp_all only: b(5) sum_list_scaled scaled_extremes)
  show ?case
    using ih b(1,3,4) g(2) b(2) [OF g(2)] blocking n
    by (simp add: x(3) raw_cents_def earned_def max_cents_def most_def min_cents_def least_def outcome_count_def sums)
qed

text \<open>C9. The shipped rules of every country mean what their texts say: for every profile that the engine normalises and
  whose fields the conditions can compare, the builders and the engine succeed; the result is blocked exactly when a
  group with a blocking outcome holds; and otherwise the score is the percentage, rounded half up to two decimals, of
  the points earned by the groups that hold between the least and the most points that the fixture can give.\<close>

theorem shipped_rules_score:
  assumes f: "dict_get MVP_RULE_FIXTURES c = Some f" and norm: "normalize_profile p = Inr profile"
    and fields: "list_all (\<lambda>g. list_all (\<lambda>c. operands_ok (fc_operator c) (resolve_field profile (fc_field_key c))
      (fc_value_json c)) (fg_conditions g)) (fx_rule_groups f)"
  shows "\<exists>v gs r. build_program_version_input c = Inr v \<and> build_rule_group_inputs c = Inr gs
    \<and> evaluate ALGORITHM_VERSION p v gs = Inr r
    \<and> (sr_is_blocked r \<longleftrightarrow> (\<exists>g\<in>set (fx_rule_groups f). group_holds profile g \<and> (\<exists>u\<in>set (fg_outcomes g). fo_is_blocking u)))
    \<and> (\<not> sr_is_blocked r \<longrightarrow> sr_raw_score r = of_int (earned profile (fx_rule_groups f))
        \<and> sr_score_final r = of_int (rhu (of_int (10000 * (earned profile (fx_rule_groups f) - least (fx_rule_groups f)))
            / of_int (most (fx_rule_groups f) - least (fx_rule_groups f)))) / 100)"
proof -
  let ?gds = "fx_rule_groups f"
  have ok: "uuid_text (fx_version_id f)" "list_all group_data_ok ?gds" "length (concat (map fg_outcomes ?gds)) \<le> 100"
    "least ?gds < most ?gds"
    using fixtures_ok [OF f] by (simp_all add: fixture_ok_def)
  have eval: "list_all (group_evaluable profile) ?gds" using fields by (simp add: group_evaluable_def [abs_def])
  obtain i where "uuid_parse (fx_version_id f) = Inr i" using uuid_text_parses [OF ok(1)] is_ok_iff by metis
  then obtain v where v: "build_program_version_input c = Inr v"
    using f by (simp add: build_program_version_input_def fixture_of_def)
  have "is_ok (mapR build_group_input ?gds)"
    using ok(2) by (intro mapR_is_ok build_group_ok) (simp add: list_all_iff)
  then obtain gs where gs: "mapR build_group_input ?gds = Inr gs" by (auto simp: is_ok_iff)
  then have gs': "build_rule_group_inputs c = Inr gs" using f by (simp add: build_rule_group_inputs_def fixture_of_def)
  have b: "list_all short_deltas gs" "list_all cents_group (map in_cents gs)" "list_all (group_ok profile) (map in_cents gs)"
    "raw_cents profile (map in_cents gs) = 100 * earned profile ?gds" "max_cents (map in_cents gs) = 100 * most ?gds"
    "min_cents (map in_cents gs) = 100 * least ?gds"
    "outcome_count (map in_cents gs) = length (concat (map fg_outcomes ?gds))"
    "(\<exists>x\<in>set gs. applies profile (in_cents x) \<and> (\<exists>u\<in>set (rg_outcomes (in_cents x)). ro_is_blocking u))
        \<longleftrightarrow> (\<exists>g\<in>set ?gds. group_holds profile g \<and> (\<exists>u\<in>set (fg_outcomes g). fo_is_blocking u))"
    using built_sums [OF gs ok(2) eval] by auto
  have count: "outcome_count (map in_cents gs) \<le> 10 ^ 12" unfolding b(7) by (rule order_trans [OF ok(3)]) simp
  have "is_ok (evaluate ALGORITHM_VERSION p v (map in_cents gs))"
    using evaluate_ok [OF b(2) count norm] b(3) by simp
  then obtain r0 where r0: "evaluate ALGORITHM_VERSION p v (map in_cents gs) = Inr r0" by (auto simp: is_ok_iff)
  then obtain r where r: "evaluate ALGORITHM_VERSION p v gs = Inr r" "verdict r = verdict r0"
    using evaluate_in_cents [OF b(1)] by blast
  have same: "sr_is_blocked r = sr_is_blocked r0" "sr_score_final r = sr_score_final r0" "sr_raw_score r = sr_raw_score r0"
    using r(2) by (simp_all add: verdict_def)
  have blocked: "sr_is_blocked r \<longleftrightarrow> (\<exists>g\<in>set ?gds. group_holds profile g \<and> (\<exists>u\<in>set (fg_outcomes g). fo_is_blocking u))"
    unfolding same using r0
    by (rule evaluate_success) (use norm blocking_pass_nonempty b(8) in \<open>fastforce+\<close>)
  have "sr_raw_score r = of_int (earned profile ?gds)
        \<and> sr_score_final r = of_int (rhu (of_int (10000 * (earned profile ?gds - least ?gds))
            / of_int (most ?gds - least ?gds))) / 100" if "\<not> sr_is_blocked r"
  proof -
    have "(of_int (10000 * (100 * earned profile ?gds - 100 * least ?gds)) / of_int (100 * most ?gds - 100 * least ?gds) :: rat)
        = of_int (10000 * (earned profile ?gds - least ?gds)) / of_int (most ?gds - least ?gds)"
      using ok(4) by (simp add: field_simps)
    then show ?thesis
      using scored_exact(1,2) [OF b(2) count norm r0] that ok(4) unfolding same exact_score_def b(4-6) by simp
  qed
  with v gs' r(1) blocked show ?thesis by blast
qed

lemma shipped_rules_score_witness:
  "\<exists>v gs r. build_program_version_input ''PT'' = Inr v \<and> build_rule_group_inputs ''PT'' = Inr gs
    \<and> evaluate ALGORITHM_VERSION sample_profile v gs = Inr r
    \<and> (sr_is_blocked r \<longleftrightarrow> (\<exists>g\<in>set (fx_rule_groups fixture_pt). group_holds sample_normal g \<and> (\<exists>u\<in>set (fg_outcomes g). fo_is_blocking u)))
    \<and> (\<not> sr_is_blocked r \<longrightarrow> sr_raw_score r = of_int (earned sample_normal (fx_rule_groups fixture_pt))
        \<and> sr_score_final r = of_int (rhu (of_int (10000 * (earned sample_normal (fx_rule_groups fixture_pt)
              - least (fx_rule_groups fixture_pt)))
            / of_int (most (fx_rule_groups fixture_pt) - least (fx_rule_groups fixture_pt)))) / 100)"
proof (rule shipped_rules_score [OF _ sample_normalized])
  show "dict_get MVP_RULE_FIXTURES ''PT'' = Some fixture_pt" by (simp add: MVP_RULE_FIXTURES_def)
  show "list_all (\<lambda>g. list_all (\<lambda>c. operands_ok (fc_operator c) (resolve_field sample_normal (fc_field_key c))
      (fc_value_json c)) (fg_conditions g)) (fx_rule_groups fixture_pt)"
    by (simp add: fixture_pt_def pt_minimum_income_def pt_language_bonus_def pt_background_exists_def operands_ok_def
        resolve_field_def sample_normal_def float_ok_def)
qed

end
