(* ===== verification/Billing_Webhook.thy ===== *)
theory Billing_Webhook
  imports Billing_Quota
begin

text \<open>
  The Stripe webhook: an event that was handled is settled and its replay changes nothing, the
  entitlements in force follow the subscription that was synchronised, and a failure is recorded.
\<close>

section \<open>The webhook\<close>

text \<open>Handling an event leaves the plans and the events of the log alone.\<close>

definition fixed :: "plan list \<Rightarrow> billing_event list \<Rightarrow> 'z billing_db_scheme \<Rightarrow> bool" where
  "fixed ps es d \<longleftrightarrow> bd_plans d = ps \<and> bd_events d = es \<and> schema_ok d"

lemma keeps_fixed_flush:
  "(\<And>d. bd_plans (f d) = bd_plans d \<and> bd_events (f d) = bd_events d) \<Longrightarrow> keeps (live (fixed ps es)) (bflush f)"
  by (rule keeps_live_flush) (simp add: fixed_def)

named_theorems fixed_keeps

lemma fixed_create_entitlement [fixed_keeps]: "keeps (live (fixed ps es)) (create_entitlement e)"
  unfolding create_entitlement_def by (intro keeps_fixed_flush) simp

lemma fixed_deactivate [fixed_keeps]: "keeps (live (fixed ps es)) (deactivate_active_entitlements u t)"
  unfolding deactivate_active_entitlements_def by (intro keeps_fixed_flush) simp

lemma fixed_for_status [fixed_keeps]:
  "keeps (live (fixed ps es)) (apply_entitlements_for_status cfg now st u sub p)"
  unfolding apply_entitlements_for_status_def apply_plan_entitlements_def query_defs
  by (intro inv_intros fixed_keeps)

lemma fixed_conversion [fixed_keeps]: "keeps (live (fixed ps es)) increment_free_to_pro_conversion"
  by (simp add: keeps_def live_def fixed_def increment_free_to_pro_conversion_def count_conversion_def schema_defs)

lemma fixed_sync [fixed_keeps]: "keeps (live (fixed ps es)) (sync_subscription_object cfg now so hint)"
  unfolding sync_subscription_object_def upsert_subscription_def
    resolve_plan_from_subscription_payload_def pro_plan_def query_defs Let_def
  by (intro inv_intros fixed_keeps keeps_fixed_flush) simp_all

lemma fixed_handle: "keeps (live (fixed ps es)) (handle_stripe_event cfg api now event)"
  unfolding handle_stripe_event_def sync_subscription_from_provider_def Let_def
  by (intro inv_intros fixed_keeps)

lemma find_upd_inv:
  "(\<And>x. p (f x) = p x) \<Longrightarrow> find p (upd_where r f xs) = map_option (\<lambda>x. if r x then f x else x) (find p xs)"
  by (induction xs) (simp_all add: upd_where_def)

definition event_settled :: "'z billing_db_scheme \<Rightarrow> string \<Rightarrow> bool" where
  "event_settled d i \<longleftrightarrow> (case billing_event_of d stripe i of None \<Rightarrow> False | Some e \<Rightarrow> be_status e \<in> {processed, ignored})"

lemma process_event_success:
  assumes p: "process_billing_event cfg api now event be t = (Inr x, t')" and na: "\<not> aborted t"
    and wk: "in_service cfg (working t)"
    and found: "billing_event_of (working t) stripe i = Some be"
  shows "in_service cfg (committed t') \<and> event_settled (committed t') i"
proof -
  obtain handled t1 t2 where h: "handle_stripe_event cfg api now event t = (Inr handled, t1)"
    and m: "mark_billing_event_processed be now (if handled then processed else ignored) t1 = (Inr (), t2)"
    and c: "commit t2 = (Inr (), t')"
  proof -
    have "bindO (handle_stripe_event cfg api now event) (\<lambda>handled.
        bindO (mark_billing_event_processed be now (if handled then processed else ignored)) (\<lambda>_. commit)) t
        = (Inr x, t')"
      using p unfolding process_billing_event_def catch_def
      by (auto split: prod.splits sum.splits simp: bindO_def)
    then show thesis by (auto simp: bindO_eq_Inr intro: that)
  qed
  have ok: "schema_ok (working t)" using wk by (simp add: in_service_def)
  have na1: "\<not> aborted t1" "\<not> aborted t2" using m c
    by (auto simp: mark_billing_event_processed_def set_billing_event_def flush_success commit_success)
  have "live (fixed (bd_plans (working t)) (bd_events (working t))) t1"
    using keepsD [OF fixed_handle _ h] ok by (simp add: live_def fixed_def)
  with na1 have f1: "bd_plans (working t1) = bd_plans (working t)" "bd_events (working t1) = bd_events (working t)"
    by (simp_all add: live_def fixed_def)
  let ?f = "\<lambda>x. x\<lparr>be_status := if handled then processed else ignored, be_processed_at := Some now, be_last_error := None\<rparr>"
  have w: "committed t' = (working t1)\<lparr>bd_events := upd_where (\<lambda>x. be_id x = be_id be) ?f (bd_events (working t1))\<rparr>"
    and ok': "schema_ok (committed t')"
    using m c by (auto simp: mark_billing_event_processed_def set_billing_event_def flush_success commit_success)
  have "billing_event_of (committed t') stripe i = Some (?f be)"
    using found unfolding billing_event_of_def w by (simp add: find_upd_inv f1)
  moreover have "in_service cfg (committed t')" using wk ok' by (simp add: in_service_def w f1)
  ultimately show ?thesis by (simp add: event_settled_def)
qed

lemma webhook_success:
  assumes p: "process_stripe_webhook cfg api now payload signature (begin_txn d) = (Inr ack, t')"
    and d: "schema_ok d" "codes_differ cfg"
  shows "in_service cfg (committed t') \<and> build_stripe_gateway cfg = Inr ()
    \<and> (\<exists>event. webhook_event cfg api now payload signature = Inr event
         \<and> py_str (get_or event ''id'' (JStr [])) \<noteq> [] \<and> py_str (get_or event ''type'' (JStr [])) \<noteq> []
         \<and> event_settled (committed t') (py_str (get_or event ''id'' (JStr []))))"
proof -
  obtain t1 event where e: "ensure_default_plans cfg (begin_txn d) = (Inr (), t1)"
    and g: "build_stripe_gateway cfg = Inr ()" and ev: "webhook_event cfg api now payload signature = Inr event"
    and ids: "py_str (get_or event ''id'' (JStr [])) \<noteq> []" "py_str (get_or event ''type'' (JStr [])) \<noteq> []"
    and rest: "bindO (get_billing_event stripe (py_str (get_or event ''id'' (JStr [])))) (\<lambda>existing.
          if (case existing of None \<Rightarrow> False | Some e \<Rightarrow> be_status e \<in> {processed, ignored}) then
            ret \<lparr>wa_received = True, wa_idempotent_replay = True\<rparr>
          else
            bindO (case existing of Some e \<Rightarrow> ret e
                   | None \<Rightarrow> create_billing_event stripe (py_str (get_or event ''id'' (JStr [])))
                       (py_str (get_or event ''type'' (JStr []))) (JObj event)) (\<lambda>be.
            bindO (process_billing_event cfg api now event be) (\<lambda>_.
            ret \<lparr>wa_received = True, wa_idempotent_replay = False\<rparr>))) t1 = (Inr ack, t')"
    using p unfolding process_stripe_webhook_def Let_def
    by (auto simp: bindO_eq_Inr lift_def raise_def split: if_splits)
  let ?i = "py_str (get_or event ''id'' (JStr []))"
  have t1: "\<not> aborted t1" "committed t1 = working t1" "in_service cfg (working t1)"
    using ensure_default_plans_post [OF e] d by auto
  have "in_service cfg (committed t') \<and> event_settled (committed t') ?i"
  proof (cases "billing_event_of (working t1) stripe ?i")
    case (Some be)
    show ?thesis
    proof (cases "be_status be \<in> {processed, ignored}")
      case True
      then have "t' = t1" using rest t1(1) Some by (simp add: get_billing_event_def)
      with t1 Some True show ?thesis by (simp add: event_settled_def)
    next
      case False
      then obtain x t2 where "process_billing_event cfg api now event be t1 = (Inr x, t2)" "t' = t2"
        using rest t1(1) Some by (auto simp: get_billing_event_def bindO_eq_Inr)
      with process_event_success [OF _ t1(1,3) Some] show ?thesis by blast
    qed
  next
    case None
    define be where "be = \<lparr>be_id = bd_next (working t1), be_provider = stripe, be_provider_event_id = ?i,
      be_event_type = py_str (get_or event ''type'' (JStr [])), be_status = received,
      be_payload_json = JObj event, be_processed_at = None, be_last_error = None\<rparr>"
    define w where "w = (working t1)\<lparr>bd_events := bd_events (working t1) @ [be], bd_next := Suc (bd_next (working t1))\<rparr>"
    obtain x where "schema_ok w" and pr: "process_billing_event cfg api now event be (t1\<lparr>working := w\<rparr>) = (Inr x, t')"
      using rest t1(1) None
      by (auto simp: get_billing_event_def create_billing_event_def Let_def be_def [symmetric] w_def [symmetric]
          bindO_def flush_def split: if_splits prod.splits sum.splits)
    have "billing_event_of w stripe ?i = Some be"
      using None by (simp add: billing_event_of_def w_def find_append be_def)
    then show ?thesis
      using process_event_success [OF pr] t1 \<open>schema_ok w\<close> by (simp add: in_service_def w_def)
  qed
  with g ev ids show ?thesis by blast
qed

section \<open>What a subscription grants\<close>

definition granted :: "entitlement \<Rightarrow> entitlement_spec" where
  "granted e = \<lparr>es_feature_key = en_feature_key e, es_limit_value = en_limit_value e,
     es_usage_window = en_usage_window e, es_is_enabled = en_is_enabled e\<rparr>"

definition grants :: "'z billing_db_scheme \<Rightarrow> uuid \<Rightarrow> time \<Rightarrow> entitlement_spec list" where
  "grants d u now = map granted (filter (in_force u now) (bd_entitlements d))"

lemma specs_enabled: "sp \<in> set (entitlements_for_plan cfg c) \<Longrightarrow> es_is_enabled sp"
  by (auto simp: entitlements_for_plan_def spec_of_def split: if_splits)

lemma create_all:
  assumes "forO (\<lambda>sp. create_entitlement (g sp)) sps t = (Inr (), t')" and "\<not> aborted t"
    and "\<And>sp. sp \<in> set sps \<Longrightarrow> en_user_id (g sp) = u \<and> en_is_enabled (g sp) \<and> en_valid_from (g sp) = now
           \<and> en_valid_to (g sp) = None \<and> granted (g sp) = sp"
  shows "grants (working t') u now = grants (working t) u now @ sps
    \<and> bd_subscriptions (working t') = bd_subscriptions (working t)
    \<and> bd_plans (working t') = bd_plans (working t) \<and> \<not> aborted t'
    \<and> bd_counters (working t') = bd_counters (working t)"
  using assms
proof (induction sps arbitrary: t)
  case (Cons sp sps)
  let ?e = "(g sp)\<lparr>en_id := bd_next (working t)\<rparr>"
  let ?w = "(working t)\<lparr>bd_entitlements := bd_entitlements (working t) @ [?e], bd_next := bd_next (working t) + 1\<rparr>"
  have sp: "en_user_id (g sp) = u" "en_is_enabled (g sp)" "en_valid_from (g sp) = now"
    "en_valid_to (g sp) = None" "granted (g sp) = sp"
    using Cons.prems(3) by auto
  have "forO (\<lambda>sp. create_entitlement (g sp)) sps (t\<lparr>working := ?w\<rparr>) = (Inr (), t')"
    using Cons.prems(1,2) by (auto simp: create_entitlement_def bindO_eq_Inr flush_success)
  from Cons.IH [OF this] Cons.prems(2,3)
  have "grants (working t') u now = grants ?w u now @ sps
      \<and> bd_subscriptions (working t') = bd_subscriptions (working t)
      \<and> bd_plans (working t') = bd_plans (working t) \<and> \<not> aborted t'
      \<and> bd_counters (working t') = bd_counters (working t)"
    by simp
  moreover have "grants ?w u now = grants (working t) u now @ [sp]"
    using sp by (simp add: grants_def in_force_def granted_def)
  ultimately show ?case by simp
qed (simp add: grants_def)

lemma deactivate_success:
  "deactivate_active_entitlements u now t = (Inr x, t1) \<longleftrightarrow> \<not> aborted t
    \<and> schema_ok ((working t)\<lparr>bd_entitlements :=
         upd_where (in_force u now) (\<lambda>e. e\<lparr>en_valid_to := Some now\<rparr>) (bd_entitlements (working t))\<rparr>)
    \<and> t1 = t\<lparr>working := (working t)\<lparr>bd_entitlements :=
         upd_where (in_force u now) (\<lambda>e. e\<lparr>en_valid_to := Some now\<rparr>) (bd_entitlements (working t))\<rparr>\<rparr>"
  unfolding deactivate_active_entitlements_def flush_success by (rule refl)

lemma deactivated: "grants (d\<lparr>bd_entitlements :=
    upd_where (in_force u now) (\<lambda>e. e\<lparr>en_valid_to := Some now\<rparr>) es\<rparr>) u now = []"
proof -
  have "\<not> in_force u now (e\<lparr>en_valid_to := Some now\<rparr>)" for e
    by (simp add: in_force_def)
  then have "filter (in_force u now) (map (\<lambda>e. if in_force u now e then e\<lparr>en_valid_to := Some now\<rparr> else e) es) = []"
    by (simp only: filter_empty_conv) auto
  then show ?thesis by (simp add: grants_def upd_where_def)
qed

lemma apply_plan_post:
  assumes "apply_plan_entitlements cfg now u p sub t = (Inr (), t')"
  shows "grants (working t') u now = entitlements_for_plan cfg (pl_code p)
    \<and> bd_subscriptions (working t') = bd_subscriptions (working t)
    \<and> bd_plans (working t') = bd_plans (working t) \<and> \<not> aborted t'
    \<and> bd_counters (working t') = bd_counters (working t)"
proof -
  let ?w = "(working t)\<lparr>bd_entitlements :=
       upd_where (in_force u now) (\<lambda>e. e\<lparr>en_valid_to := Some now\<rparr>) (bd_entitlements (working t))\<rparr>"
  let ?g = "\<lambda>sp. \<lparr>en_id = 0, en_user_id = u, en_plan_id = Some (pl_id p), en_subscription_id = sub,
        en_feature_key = es_feature_key sp, en_limit_value = es_limit_value sp,
        en_usage_window = es_usage_window sp, en_is_enabled = es_is_enabled sp,
        en_valid_from = now, en_valid_to = None\<rparr>"
  obtain x t1 where d: "deactivate_active_entitlements u now t = (Inr x, t1)"
    and f1: "forO (\<lambda>sp. create_entitlement (?g sp)) (entitlements_for_plan cfg (pl_code p)) t1 = (Inr (), t')"
    using assms unfolding apply_plan_entitlements_def bindO_eq_Inr by (elim exE conjE) (rule that)
  have na: "\<not> aborted t" and t1: "t1 = t\<lparr>working := ?w\<rparr>"
    using d [unfolded deactivate_success] by blast+
  note f = f1 [unfolded t1]
  have "grants ?w u now = []" by (rule deactivated)
  moreover have "grants (working t') u now
      = grants (working (t\<lparr>working := ?w\<rparr>)) u now @ entitlements_for_plan cfg (pl_code p)
    \<and> bd_subscriptions (working t') = bd_subscriptions (working (t\<lparr>working := ?w\<rparr>))
    \<and> bd_plans (working t') = bd_plans (working (t\<lparr>working := ?w\<rparr>)) \<and> \<not> aborted t'
    \<and> bd_counters (working t') = bd_counters (working (t\<lparr>working := ?w\<rparr>))"
    by (rule create_all [OF f]) (use na in \<open>simp_all add: specs_enabled granted_def\<close>)
  ultimately show ?thesis by simp
qed

lemma for_status_post:
  assumes "apply_entitlements_for_status cfg now st u sub p t = (Inr (), t')"
  shows "grants (working t') u now
      = entitlements_for_plan cfg (if st \<in> {active, trialing, past_due} then pl_code p else free_plan_code cfg)
    \<and> bd_subscriptions (working t') = bd_subscriptions (working t) \<and> bd_plans (working t') = bd_plans (working t)"
proof (cases "st \<in> {active, trialing, past_due}")
  case True
  then show ?thesis using assms apply_plan_post by (fastforce simp: apply_entitlements_for_status_def)
next
  case False
  then obtain fp where fp: "plan_by_code (working t) (free_plan_code cfg) = Some fp"
    and a: "apply_plan_entitlements cfg now u fp (Some sub) t = (Inr (), t')"
    using assms by (auto simp: apply_entitlements_for_status_def get_plan_by_code_def bindO_eq_Inr query_success
      raise_def split: option.splits)
  have "pl_code fp = free_plan_code cfg" using fp find_mem unfolding plan_by_code_def by fast
  with apply_plan_post [OF a] False show ?thesis by simp
qed

lemma upsert_post:
  assumes "upsert_subscription now args t = (Inr s, t')"
  shows "s \<in> set (bd_subscriptions (working t')) \<and> s = args\<lparr>su_id := su_id s, su_created_at := su_created_at s\<rparr>
    \<and> bd_plans (working t') = bd_plans (working t) \<and> \<not> aborted t'"
proof -
  have upd: "s \<in> set (upd_where (\<lambda>x. su_id x = su_id s0) (\<lambda>_. s) xs)" if "s0 \<in> set xs" for s0 s :: subscription and xs
    using that by (auto simp: set_upd_where)
  show ?thesis
    using assms unfolding upsert_subscription_def get_subscription_by_provider_id_def Let_def
    by (auto simp: bindO_eq_Inr query_success flush_success ret_def split: option.splits if_splits
        simp: upd dest!: find_mem [OF sym])
qed

lemma resolve_plan_post:
  "resolve_plan_from_subscription_payload cfg so t = (Inr p, t') \<Longrightarrow> p \<in> set (bd_plans (working t)) \<and> t' = t"
  unfolding resolve_plan_from_subscription_payload_def pro_plan_def get_plan_by_code_def plan_by_code_def
    get_plan_by_stripe_price_id_def
  by (auto simp: bindO_eq_Inr query_success lift_def ret_def raise_def split: option.splits if_splits dest!: find_mem)

lemma subscription_args_post:
  "subscription_args now u pid psid st so = Inr args \<Longrightarrow>
     su_user_id args = u \<and> su_plan_id args = pid \<and> su_status args = st
     \<and> su_provider_subscription_id args = Some psid"
  unfolding subscription_args_def Let_def by (auto simp: bindR_eq_Inr)

lemma sync_post:
  assumes s: "sync_subscription_object cfg now (JObj so) hint t = (Inr (), t')"
  shows "\<exists>s \<in> set (bd_subscriptions (working t')). \<exists>p \<in> set (bd_plans (working t')).
     su_provider_subscription_id s = Some (py_str (get_or so ''id'' (JStr [])))
     \<and> su_status s = map_subscription_status (py_str (get_or so ''status'' (JStr [])))
     \<and> su_plan_id s = pl_id p
     \<and> grants (working t') (su_user_id s) now = entitlements_for_plan cfg
         (if su_status s \<in> {active, trialing, past_due} then pl_code p else free_plan_code cfg)"
proof -
  let ?psid = "py_str (get_or so ''id'' (JStr []))"
  let ?st = "map_subscription_status (py_str (get_or so ''status'' (JStr [])))"
  let ?conv = "\<lambda>p existing. pl_code p = pro_plan_code cfg
    \<and> (case existing of None \<Rightarrow> True | Some e \<Rightarrow> su_plan_id e \<noteq> pl_id p)"
  have "bindO (resolve_plan_from_subscription_payload cfg so) (\<lambda>p.
      bindO (get_subscription_by_provider_id stripe ?psid) (\<lambda>existing.
      bindO (lift (resolve_user_id_from_subscription existing hint so)) (\<lambda>u.
      bindO (lift (subscription_args now u (pl_id p) ?psid ?st so)) (\<lambda>args.
      bindO (upsert_subscription now args) (\<lambda>s.
      bindO (if ?conv p existing then increment_free_to_pro_conversion else ret ()) (\<lambda>_.
      apply_entitlements_for_status cfg now ?st u (su_id s) p)))))) t = (Inr (), t')"
    using s by (simp add: sync_subscription_object_def as_dict_def Let_def split: if_splits)
  then obtain p t0 existing t00 u t01 args t02 s t1 x t2
    where r: "resolve_plan_from_subscription_payload cfg so t = (Inr p, t0)"
      and "get_subscription_by_provider_id stripe ?psid t0 = (Inr existing, t00)"
      and "lift (resolve_user_id_from_subscription existing hint so) t00 = (Inr u, t01)"
      and "lift (subscription_args now u (pl_id p) ?psid ?st so) t01 = (Inr args, t02)"
      and up0: "upsert_subscription now args t02 = (Inr s, t1)"
      and c: "(if ?conv p existing then increment_free_to_pro_conversion else ret ()) t1 = (Inr x, t2)"
      and fs: "apply_entitlements_for_status cfg now ?st u (su_id s) p t2 = (Inr (), t')"
    unfolding bindO_eq_Inr by (elim exE conjE) (rule that)
  then have p: "p \<in> set (bd_plans (working t))" and up: "upsert_subscription now args t = (Inr s, t1)"
    and args: "subscription_args now u (pl_id p) ?psid ?st so = Inr args"
    using resolve_plan_post [OF r] by (auto simp: get_subscription_by_provider_id_def query_success lift_def)
  have conv: "bd_subscriptions (working t2) = bd_subscriptions (working t1)" "bd_plans (working t2) = bd_plans (working t1)"
    using c by (auto simp: increment_free_to_pro_conversion_def count_conversion_def ret_def split: if_splits)
  note up' = upsert_post [OF up] and a = subscription_args_post [OF args] and fs' = for_status_post [OF fs]
  have "su_provider_subscription_id s = Some ?psid" "su_status s = ?st" "su_plan_id s = pl_id p" "su_user_id s = u"
    using up' a by (metis subscription.select_convs subscription.surjective subscription.update_convs(1,2))+
  with up' fs' conv p show ?thesis by (intro bexI [of _ s] bexI [of _ p]) auto
qed

section \<open>The baseline\<close>

lemma plans_keep_entitlements: "keeps (both (\<lambda>d. bd_entitlements d = es)) (ensure_default_plans cfg)"
  unfolding ensure_default_plans_def get_or_create_plan_def get_plan_by_code_def Let_def
  by (intro inv_intros keeps_flush) simp_all

lemma active_filter: "active_entitlements d u now = [] \<longleftrightarrow> filter (in_force u now) (bd_entitlements d) = []"
  by (metis active_entitlements_def mset_sort mset_zero_iff)

lemma plans_success:
  assumes "ensure_default_plans cfg (begin_txn d) = (Inr x, t1)" and "schema_ok d" and "codes_differ cfg"
  shows "\<not> aborted t1 \<and> committed t1 = working t1 \<and> in_service cfg (working t1)
    \<and> bd_entitlements (working t1) = bd_entitlements d"
  using ensure_default_plans_post [OF assms(1)] assms(2,3)
    keepsD [OF plans_keep_entitlements [of "bd_entitlements d"] _ assms(1)]
  by (simp add: both_def)

lemma baseline_post:
  assumes b: "request (ensure_user_access_baseline cfg now u) d = (Inr x, d')"
    and ok: "schema_ok d" "codes_differ cfg"
  shows "if active_entitlements d u now = []
    then grants d' u now = entitlements_for_plan cfg (free_plan_code cfg)
    else bd_entitlements d' = bd_entitlements d"
proof -
  obtain t' where r: "ensure_user_access_baseline cfg now u (begin_txn d) = (Inr x, t')" and d': "d' = committed t'"
    using b by (auto simp: request_def split: prod.splits)
  obtain y t1 where e: "ensure_default_plans cfg (begin_txn d) = (Inr y, t1)"
    and k: "bindO (list_active_entitlements u now) (\<lambda>es.
     if es \<noteq> [] then ret ()
     else bindO (get_plan_by_code (free_plan_code cfg)) (\<lambda>free_plan.
       case free_plan of
         None \<Rightarrow> raise (HTTPException 500 ''Free plan not configured'')
       | Some p \<Rightarrow> bindO (apply_plan_entitlements cfg now u p None) (\<lambda>_. commit))) t1 = (Inr x, t')"
    using r unfolding ensure_user_access_baseline_def bindO_eq_Inr by (elim exE conjE) (rule that, assumption, simp add: bindO_eq_Inr)
  note t1 = plans_success [OF e ok]
  have act: "active_entitlements (working t1) u now = active_entitlements d u now"
    using t1 by (simp add: active_entitlements_def)
  show ?thesis
  proof (cases "active_entitlements d u now = []")
    case False
    then have "t' = t1" using k t1 act by (simp add: list_active_entitlements_def)
    with False t1 d' show ?thesis by simp
  next
    case True
    then obtain p z t2 where p: "plan_by_code (working t1) (free_plan_code cfg) = Some p"
      and a: "apply_plan_entitlements cfg now u p None t1 = (Inr z, t2)" and c: "commit t2 = (Inr x, t')"
      using k t1 act by (auto simp: list_active_entitlements_def get_plan_by_code_def bindO_eq_Inr split: option.splits)
    have "pl_code p = free_plan_code cfg" using p find_mem unfolding plan_by_code_def by fast
    with apply_plan_post [of cfg now u p None t1 t2] a c d' True show ?thesis
      by (auto simp: commit_success)
  qed
qed

text \<open>A default plan that is not active blocks every request that ensures the plans.\<close>

lemma inactive_plan_insert:
  assumes ok: "schema_ok d" and p: "p \<in> set (bd_plans d)" "pl_code p = free_plan_code cfg" "\<not> pl_is_active p"
  shows "ensure_default_plans cfg (begin_txn d)
    = (Inl (IntegrityError ''constraint violated''), \<lparr>committed = d, working = d, aborted = True\<rparr>)"
proof -
  have code: "pl_code (free_default cfg) = free_plan_code cfg"
    by (simp add: free_default_def default_plan_def)
  have uniq: "q = p" if "q \<in> set (bd_plans d)" "pl_code q = free_plan_code cfg" for q
    using ok p(1,2) that unfolding schema_ok_def plans_ok_def by (metis distinct_map inj_onD)
  have none: "plan_by_code d (free_plan_code cfg) = None"
    unfolding plan_by_code_def find_None_iff using uniq p(3) by blast
  have bad: "\<not> schema_ok (d\<lparr>bd_plans := bd_plans d @ [(free_default cfg)\<lparr>pl_id := i, pl_is_active := True\<rparr>],
      bd_next := Suc i\<rparr>)" for i
    using p(1,2) code by (force simp: schema_ok_def plans_ok_def)
  show ?thesis
    using none bad
    by (simp add: ensure_default_plans_def get_or_create_plan_def get_plan_by_code_def bindO_def code
        flush_def begin_txn_def Let_def query_def)
qed

section \<open>Concrete inputs\<close>

definition sample_settings :: settings where
  "sample_settings = base_defaults\<lparr>stripe_secret_key := Some ''k'', stripe_webhook_secret := Some ''s''\<rparr>"

definition sample_event :: billing_event where
  "sample_event = \<lparr>be_id = 9, be_provider = stripe, be_provider_event_id = ''e'',
     be_event_type = ''customer.subscription.updated'', be_status = received, be_payload_json = JObj [],
     be_processed_at = None, be_last_error = None\<rparr>"

definition sample_subscription :: "string \<Rightarrow> json dict" where
  "sample_subscription st = [(''id'', JStr ''sub_1''), (''status'', JStr st)]"

definition subscribed :: billing_db where
  "subscribed = sample_billing\<lparr>bd_subscriptions :=
     [\<lparr>su_id = 4, su_created_at = 0, su_user_id = 7, su_plan_id = 2, su_status = active, su_started_at = 0,
       su_current_period_start = 0, su_current_period_end = 0, su_canceled_at = None, su_provider = stripe,
       su_provider_customer_id = None, su_provider_subscription_id = Some ''sub_1'',
       su_cancel_at_period_end = False\<rparr>]\<rparr>"

lemma sample_settings_default:
  "free_default sample_settings = free_default base_defaults" "pro_default sample_settings = pro_default base_defaults"
  "codes_differ sample_settings"
  by (simp_all add: sample_settings_def free_default_def pro_default_def codes_differ_def base_defaults_def)

lemma sample_in_service: "in_service sample_settings sample_billing"
  using sample_ready by (simp add: ready_def in_service_def sample_settings_default)

section \<open>Properties\<close>

text \<open>
  C10. The webhook is idempotent: once an event was accepted, every later delivery of it that Stripe's library accepts,
  under whatever signature and with whatever payload, is acknowledged as a replay and leaves the database exactly as it
  is; a delivery that the library refuses, such as one whose signature has become too old, is answered with the
  error and leaves the database as it is, too.
\<close>

theorem webhook_replay:
  assumes "request (process_stripe_webhook cfg api now payload signature) d = (Inr ack, d')"
    and "schema_ok d" and "codes_differ cfg"
  shows "\<exists>event. webhook_event cfg api now payload signature = Inr event
    \<and> (\<forall>later payload' signature' e. webhook_event cfg api later payload' signature' = Inl e \<longrightarrow>
         request (process_stripe_webhook cfg api later payload' signature') d' = (Inl e, d'))
    \<and> (\<forall>later payload' signature' event'. webhook_event cfg api later payload' signature' = Inr event'
         \<and> py_str (get_or event' ''id'' (JStr [])) = py_str (get_or event ''id'' (JStr []))
         \<and> py_str (get_or event' ''type'' (JStr [])) \<noteq> [] \<longrightarrow>
         request (process_stripe_webhook cfg api later payload' signature') d'
           = (Inr \<lparr>wa_received = True, wa_idempotent_replay = True\<rparr>, d'))"
proof -
  obtain t' where "process_stripe_webhook cfg api now payload signature (begin_txn d) = (Inr ack, t')"
    and d': "d' = committed t'"
    using assms(1) by (auto simp: request_def split: prod.splits)
  from webhook_success [OF this(1) assms(2,3)] obtain event where
    sv: "in_service cfg d'" and g: "build_stripe_gateway cfg = Inr ()"
    and ev: "webhook_event cfg api now payload signature = Inr event"
    and ids: "py_str (get_or event ''id'' (JStr [])) \<noteq> []"
    and st: "event_settled d' (py_str (get_or event ''id'' (JStr [])))"
    using d' by blast
  have plans: "ensure_default_plans cfg (begin_txn d') = (Inr (), begin_txn d')"
    using ensure_default_plans_noop [of "begin_txn d'" cfg] sv by (simp add: begin_txn_def)
  then have run: "request (process_stripe_webhook cfg api later payload' signature') d' = (Inl e, d')"
    if "webhook_event cfg api later payload' signature' = Inl e" for later payload' signature' e
    using g that by (simp add: request_def process_stripe_webhook_def bindO_def lift_def begin_txn_def)
  have "request (process_stripe_webhook cfg api later payload' signature') d'
      = (Inr \<lparr>wa_received = True, wa_idempotent_replay = True\<rparr>, d')"
    if "webhook_event cfg api later payload' signature' = Inr event'"
      "py_str (get_or event' ''id'' (JStr [])) = py_str (get_or event ''id'' (JStr []))"
      "py_str (get_or event' ''type'' (JStr [])) \<noteq> []" for later payload' signature' event'
    using g ids st that plans
    by (simp add: request_def process_stripe_webhook_def bindO_def lift_def get_billing_event_def event_settled_def
        Let_def query_def begin_txn_def)
  with run ev show ?thesis by blast
qed

text \<open>A library that accepts a signature for 300 seconds.\<close>

definition timed_stripe :: stripe_api where
  "timed_stripe = sample_stripe\<lparr>construct_event := (\<lambda>t payload signature secret.
     if t \<le> seconds 300 then Inr [(''id'', JStr ''evt_1''), (''type'', JStr ''ping'')] else Inl (True, ''too old''))\<rparr>"

theorem webhook_replay_witness:
  "\<exists>d' :: billing_db.
     request (process_stripe_webhook sample_settings timed_stripe 9 ''p'' (Some ''other'')) d'
       = (Inr \<lparr>wa_received = True, wa_idempotent_replay = True\<rparr>, d')
   \<and> request (process_stripe_webhook sample_settings timed_stripe (seconds 301) ''p'' (Some ''sig'')) d'
       = (Inl (HTTPException 401 ''Invalid Stripe webhook signature''), d')"
proof -
  let ?event = "[(''id'', JStr ''evt_1''), (''type'', JStr ''ping'')]"
  have e: "ensure_default_plans sample_settings (begin_txn sample_billing) = (Inr (), begin_txn sample_billing)"
    using ensure_default_plans_noop [of "begin_txn sample_billing" sample_settings] sample_in_service
    by (simp add: begin_txn_def)
  have ok: "schema_ok sample_billing" using sample_in_service by (simp add: in_service_def)
  have ev: "webhook_event sample_settings timed_stripe t ''p'' (Some sig) = (if t \<le> seconds 300 then Inr ?event
      else Inl (HTTPException 401 ''Invalid Stripe webhook signature''))" if "sig \<noteq> []" for t sig
    using that by (simp add: webhook_event_def verify_and_parse_webhook_def sample_settings_def opt_truthy_def timed_stripe_def)
  obtain ack d' where run: "request (process_stripe_webhook sample_settings timed_stripe 5 ''p'' (Some ''sig'')) sample_billing
      = (Inr ack, d')"
    using e ev [of "''sig''" 5]
    by (simp add: request_def process_stripe_webhook_def bindO_def lift_def build_stripe_gateway_def
        sample_settings_def opt_truthy_def get_or_def seconds_def
        get_billing_event_def billing_event_of_def create_billing_event_def process_billing_event_def
        handle_stripe_event_def json_get_def as_dict_def mark_billing_event_processed_def set_billing_event_def
        catch_def flush_def schema_defs sample_billing_defs Let_def upd_where_def begin_txn_def query_def commit_def)
  from webhook_replay [OF run ok sample_settings_default(3)] obtain event
    where "webhook_event sample_settings timed_stripe 5 ''p'' (Some ''sig'') = Inr event"
      and old: "\<forall>later payload' signature' e. webhook_event sample_settings timed_stripe later payload' signature' = Inl e \<longrightarrow>
         request (process_stripe_webhook sample_settings timed_stripe later payload' signature') d' = (Inl e, d')"
      and replay: "\<forall>later payload' signature' event'. webhook_event sample_settings timed_stripe later payload' signature' = Inr event'
         \<and> py_str (get_or event' ''id'' (JStr [])) = py_str (get_or event ''id'' (JStr []))
         \<and> py_str (get_or event' ''type'' (JStr [])) \<noteq> [] \<longrightarrow>
         request (process_stripe_webhook sample_settings timed_stripe later payload' signature') d'
           = (Inr \<lparr>wa_received = True, wa_idempotent_replay = True\<rparr>, d')" by blast
  then have "event = ?event" using ev [of "''sig''" 5] by (simp add: seconds_def)
  with replay [THEN spec, THEN spec, THEN spec, THEN spec, of 9 "''p''" "Some ''other''" ?event]
  have "request (process_stripe_webhook sample_settings timed_stripe 9 ''p'' (Some ''other'')) d'
      = (Inr \<lparr>wa_received = True, wa_idempotent_replay = True\<rparr>, d')"
    by (simp add: ev seconds_def get_or_def)
  moreover have "request (process_stripe_webhook sample_settings timed_stripe (seconds 301) ''p'' (Some ''sig'')) d'
      = (Inl (HTTPException 401 ''Invalid Stripe webhook signature''), d')"
    by (intro old [rule_format]) (simp add: ev seconds_def)
  ultimately show ?thesis by blast
qed

text \<open>
  C25. Entitlements follow the subscription: after a subscription object was synchronised, its row
  carries the mapped status, and the entitlements in force of its user are exactly those of its
  plan while the subscription is active, trialing or past due, and those of the free plan
  otherwise.
\<close>

theorem subscription_entitlements:
  assumes "sync_subscription_object cfg now (JObj so) hint t = (Inr (), t')"
  shows "\<exists>s \<in> set (bd_subscriptions (working t')). \<exists>p \<in> set (bd_plans (working t')).
     su_provider_subscription_id s = Some (py_str (get_or so ''id'' (JStr [])))
     \<and> su_status s = map_subscription_status (py_str (get_or so ''status'' (JStr [])))
     \<and> su_plan_id s = pl_id p
     \<and> grants (working t') (su_user_id s) now = entitlements_for_plan cfg
         (if su_status s \<in> {active, trialing, past_due} then pl_code p else free_plan_code cfg)"
  by (rule sync_post [OF assms])

theorem subscription_entitlements_witness:
  "\<exists>t'. sync_subscription_object base_defaults 5 (JObj (sample_subscription ''canceled'')) None (begin_txn subscribed)
       = (Inr (), t')
     \<and> (\<exists>s \<in> set (bd_subscriptions (working t')). su_status s = canceled
          \<and> grants (working t') (su_user_id s) 5 = [spec_of ''assessments.monthly'' (Some 3) monthly])"
proof -
  have st: "map_subscription_status ''canceled'' = canceled"
    by (simp add: map_subscription_status_def string_eval)
  have run: "\<exists>t'. sync_subscription_object base_defaults 5 (JObj (sample_subscription ''canceled'')) None
      (begin_txn subscribed) = (Inr (), t')"
    by (simp add: sync_subscription_object_def as_dict_def sample_subscription_def get_or_def
        resolve_plan_from_subscription_payload_def price_id_of_def json_get_def pro_plan_def get_plan_by_code_def
        plan_by_code_def subscribed_def sample_billing_defs get_subscription_by_provider_id_def
        resolve_user_id_from_subscription_def subscription_args_def from_unix_def upsert_subscription_def
        flush_def schema_defs upd_where_def begin_txn_def query_def bindO_def lift_def st Let_def truthy_def
        apply_entitlements_for_status_def apply_plan_entitlements_def deactivate_active_entitlements_def
        create_entitlement_def entitlements_for_plan_def spec_of_def in_force_def entitlement_key_def)
  then obtain t' where t': "sync_subscription_object base_defaults 5 (JObj (sample_subscription ''canceled'')) None
      (begin_txn subscribed) = (Inr (), t')" by blast
  from subscription_entitlements [OF t'] have "\<exists>s \<in> set (bd_subscriptions (working t')). su_status s = canceled
      \<and> grants (working t') (su_user_id s) 5 = [spec_of ''assessments.monthly'' (Some 3) monthly]"
    by (auto simp: sample_subscription_def get_or_def st entitlements_for_plan_def base_defaults_def)
  with t' show ?thesis by blast
qed

text \<open>Access always has a baseline: after it, a user who had an entitlement in force has the same
  entitlements as before (a paid plan is never downgraded), and one who had none has exactly those
  of the free plan.
\<close>

theorem baseline_entitlements:
  assumes "request (ensure_user_access_baseline cfg now u) d = (Inr x, d')"
    and "schema_ok d" and "codes_differ cfg"
  shows "if active_entitlements d u now = []
    then grants d' u now = entitlements_for_plan cfg (free_plan_code cfg)
    else bd_entitlements d' = bd_entitlements d"
  by (rule baseline_post [OF assms])

theorem baseline_entitlements_witness:
  "\<exists>d'. request (ensure_user_access_baseline sample_settings 0 7) (sample_billing\<lparr>bd_entitlements := []\<rparr>)
       = (Inr (), d') \<and> grants d' 7 0 = [spec_of ''assessments.monthly'' (Some 3) monthly]"
proof -
  let ?d = "sample_billing\<lparr>bd_entitlements := []\<rparr>"
  have sv: "in_service sample_settings ?d"
    using sample_in_service by (simp add: in_service_def schema_defs sample_billing_defs)
  then have ok: "schema_ok ?d" by (simp add: in_service_def)
  have e: "ensure_default_plans sample_settings (begin_txn ?d) = (Inr (), begin_txn ?d)"
    using ensure_default_plans_noop [of "begin_txn ?d" sample_settings] sv by (simp add: begin_txn_def)
  have none: "active_entitlements ?d 7 0 = []" by (simp add: active_entitlements_def)
  have run: "\<exists>d'. request (ensure_user_access_baseline sample_settings 0 7) ?d = (Inr (), d')"
    using e none
    by (simp add: request_def ensure_user_access_baseline_def bindO_def list_active_entitlements_def
        get_plan_by_code_def plan_by_code_def apply_plan_entitlements_def deactivate_active_entitlements_def
        create_entitlement_def entitlements_for_plan_def spec_of_def entitlement_key_def upd_where_def
        flush_def schema_defs sample_billing_defs sample_settings_def begin_txn_def query_def commit_def)
  then obtain d' where d': "request (ensure_user_access_baseline sample_settings 0 7) ?d = (Inr (), d')" by blast
  have "grants d' 7 0 = entitlements_for_plan sample_settings (free_plan_code sample_settings)"
    using baseline_entitlements [OF d' ok sample_settings_default(3)] none by simp
  then have "grants d' 7 0 = [spec_of ''assessments.monthly'' (Some 3) monthly]"
    by (simp add: entitlements_for_plan_def sample_settings_def base_defaults_def)
  with d' show ?thesis by blast
qed

text \<open>A failure of the handler is recorded, with what it had written: when handling an event raises
  an error that is not a broken constraint, the answer is 500 with the error, and the event is
  committed as failed with its text, together with every change that the handler had flushed
  before (there is no rollback). After a broken constraint nothing is committed and the event is
  not recorded.
\<close>

theorem failed_event_recorded:
  assumes "handle_stripe_event cfg api now event t = (Inl e, t1)"
  shows "if aborted t1 then process_billing_event cfg api now event be t = (Inl pending, t1)
    else schema_ok (working t1) \<longrightarrow>
      (\<exists>t'. process_billing_event cfg api now event be t
         = (Inl (HTTPException 500 (''Failed to process billing event: '' @ exn_text e)), t')
       \<and> committed t' = (working t1)\<lparr>bd_events := upd_where (\<lambda>x. be_id x = be_id be)
           (\<lambda>x. x\<lparr>be_status := failed, be_processed_at := Some now, be_last_error := Some (exn_text e)\<rparr>)
           (bd_events (working t1))\<rparr>)"
proof -
  have ok: "schema_ok (d\<lparr>bd_events := upd_where r f (bd_events d)\<rparr>)"
    if "schema_ok d" "\<And>x. be_id (f x) = be_id x" "\<And>x. be_provider (f x) = be_provider x"
      "\<And>x. be_provider_event_id (f x) = be_provider_event_id x" for d r f
    using that by (simp add: schema_defs upd_where_map)
  show ?thesis
    using assms
    by (auto simp: process_billing_event_def catch_def bindO_def mark_billing_event_failed_def
        set_billing_event_def flush_def ok commit_def)
qed

theorem failed_event_recorded_witness:
  "\<exists>t'. process_billing_event sample_settings sample_stripe 5
       [(''id'', JStr ''e''), (''type'', JStr ''customer.subscription.updated'')] sample_event (begin_txn sample_billing)
     = (Inl (HTTPException 500 (''Failed to process billing event: Stripe subscription payload missing id'')), t')"
proof -
  have h: "handle_stripe_event sample_settings sample_stripe 5
      [(''id'', JStr ''e''), (''type'', JStr ''customer.subscription.updated'')] (begin_txn sample_billing)
    = (Inl (ValueError ''Stripe subscription payload missing id''), begin_txn sample_billing)"
    by (simp add: handle_stripe_event_def json_get_def as_dict_def get_or_def sync_subscription_object_def
        bindO_def lift_def)
  have "schema_ok sample_billing" using sample_in_service by (simp add: in_service_def)
  with failed_event_recorded [OF h, of sample_event] show ?thesis by auto
qed

text \<open>
  A default plan that was deactivated is not reactivated: its lookup ignores inactive rows, so
  the insertion breaks the unique code, and every request that needs the plans fails and changes
  nothing. (The update branch sets \<open>is_active\<close>, which a row it finds always has.)
\<close>

theorem inactive_default_plan:
  assumes "schema_ok d" and "p \<in> set (bd_plans d)" and "pl_code p = free_plan_code cfg"
    and "\<not> pl_is_active p"
  shows "request (ensure_user_access_baseline cfg now u) d = (Inl (IntegrityError ''constraint violated''), d)
    \<and> request (consume_assessment_quota cfg now u) d = (Inl (IntegrityError ''constraint violated''), d)
    \<and> request (process_stripe_webhook cfg api now payload signature) d
        = (Inl (IntegrityError ''constraint violated''), d)"
  using inactive_plan_insert [OF assms]
  by (simp add: request_def ensure_user_access_baseline_def consume_assessment_quota_def
      process_stripe_webhook_def bindO_def)

theorem inactive_default_plan_witness:
  "fst (request (consume_assessment_quota base_defaults 0 7) (empty_billing\<lparr>bd_plans :=
     [(free_default base_defaults)\<lparr>pl_id := 1, pl_is_active := False\<rparr>], bd_next := 2\<rparr>))
   = Inl (IntegrityError ''constraint violated'')"
  by (subst inactive_default_plan [of _ "(free_default base_defaults)\<lparr>pl_id := 1, pl_is_active := False\<rparr>"])
    (simp_all add: schema_defs sample_billing_defs)

end
