(* ===== verification/Jobs.thy ===== *)
theory Jobs
  imports Rules
begin

text \<open>
  Assessments, roadmaps and jobs share one schema: their tables, from \<open>models.py\<close> of
  \<open>src/apps/assessments\<close>, \<open>src/apps/roadmaps\<close> and \<open>src/apps/common\<close>, extend the database of
  \<open>Rules\<close>. Then the jobs repository of \<open>src/apps/common\<close>, which tracks the background tasks, and
  the classification of errors that decides about retries (\<open>src/app/core/retry.py\<close>).
\<close>

section \<open>Tables\<close>

datatype assessment_status = as_pending | as_running | as_completed | as_failed | as_canceled

fun assessment_status_value :: "assessment_status \<Rightarrow> string" where
  "assessment_status_value as_pending = ''pending''"
| "assessment_status_value as_running = ''running''"
| "assessment_status_value as_completed = ''completed''"
| "assessment_status_value as_failed = ''failed''"
| "assessment_status_value as_canceled = ''canceled''"

datatype roadmap_status = rm_pending | rm_completed | rm_failed | rm_draft | rm_published | rm_archived

datatype job_type = score_job | roadmap_job

datatype job_status = job_pending | job_running | job_completed | job_failed | job_dead_letter

record snapshot =
  sn_id :: uuid
  sn_user_id :: uuid
  sn_snapshot_version :: int
  sn_profile_json :: "json dict"
  sn_profile_hash :: string

record assessment =
  am_id :: uuid
  am_user_id :: uuid
  am_program_id :: uuid
  am_profile_snapshot_id :: uuid
  am_idempotency_key :: string
  am_status :: assessment_status
  am_requested_at :: time
  am_completed_at :: "time option"

text \<open>\<open>total_score\<close> and \<open>score_delta\<close> are the values of \<open>Numeric(8, 2)\<close> columns.\<close>

record assessment_result =
  rs_id :: uuid
  rs_assessment_id :: uuid
  rs_program_version_id :: uuid
  rs_rules_version_hash :: string
  rs_algorithm_version :: string
  rs_total_score :: rat
  rs_is_eligible :: bool
  rs_computed_at :: time

record result_item =
  ri_id :: uuid
  ri_created_at :: time
  ri_assessment_result_id :: uuid
  ri_rule_group_id :: "uuid option"
  ri_rule_condition_id :: "uuid option"
  ri_rule_outcome_id :: "uuid option"
  ri_applied :: bool
  ri_score_delta :: rat
  ri_explanation_message :: string
  ri_audit_payload_json :: "json dict"

record roadmap =
  rm_id :: uuid
  rm_created_at :: time
  rm_user_id :: uuid
  rm_assessment_result_id :: uuid
  rm_roadmap_schema_version :: string
  rm_status :: roadmap_status
  rm_summary :: string
  rm_manual_review_required :: bool
  rm_llm_provider :: "string option"
  rm_llm_model :: "string option"
  rm_generation_error :: "string option"
  rm_trace_id :: "string option"
  rm_completed_at :: "time option"

record roadmap_step =
  st_id :: uuid
  st_roadmap_id :: uuid
  st_step_order :: int
  st_title :: string
  st_description :: string
  st_related_gap_json :: "json dict"
  st_is_required :: bool
  st_eta_weeks :: "int option"
  st_dependencies_json :: "int list"
  st_risk_level :: string
  st_completion_criteria :: string

record job =
  jb_id :: uuid
  jb_created_at :: time
  jb_job_type :: job_type
  jb_idempotency_key :: string
  jb_status :: job_status
  jb_assessment_id :: "uuid option"
  jb_roadmap_id :: "uuid option"
  jb_attempts :: int
  jb_last_error :: "string option"
  jb_trace_id :: "string option"
  jb_duration_ms :: "int option"
  jb_queued_at :: time
  jb_started_at :: "time option"
  jb_completed_at :: "time option"

record app_db = rules_db +
  ad_snapshots :: "snapshot list"
  ad_assessments :: "assessment list"
  ad_results :: "assessment_result list"
  ad_items :: "result_item list"
  ad_roadmaps :: "roadmap list"
  ad_steps :: "roadmap_step list"
  ad_jobs :: "job list"

definition snapshots_ok :: "'z app_db_scheme \<Rightarrow> bool" where
  "snapshots_ok d \<longleftrightarrow>
     distinct (map sn_id (ad_snapshots d))
     \<and> distinct (map (\<lambda>s. (sn_user_id s, sn_snapshot_version s)) (ad_snapshots d))
     \<and> list_all (\<lambda>s. sn_user_id s \<in> set (bd_users d)) (ad_snapshots d)"

definition assessments_ok :: "'z app_db_scheme \<Rightarrow> bool" where
  "assessments_ok d \<longleftrightarrow>
     distinct (map am_id (ad_assessments d))
     \<and> distinct (map (\<lambda>a. (am_user_id a, am_idempotency_key a)) (ad_assessments d))
     \<and> list_all (\<lambda>a. am_user_id a \<in> set (bd_users d)
          \<and> am_program_id a \<in> set (map pg_id (rd_programs d))
          \<and> am_profile_snapshot_id a \<in> set (map sn_id (ad_snapshots d))) (ad_assessments d)"

definition results_ok :: "'z app_db_scheme \<Rightarrow> bool" where
  "results_ok d \<longleftrightarrow>
     distinct (map rs_id (ad_results d)) \<and> distinct (map rs_assessment_id (ad_results d))
     \<and> list_all (\<lambda>r. rs_assessment_id r \<in> set (map am_id (ad_assessments d))
          \<and> rs_program_version_id r \<in> set (map pv_id (rd_versions d))) (ad_results d)"

definition items_ok :: "'z app_db_scheme \<Rightarrow> bool" where
  "items_ok d \<longleftrightarrow>
     distinct (map ri_id (ad_items d))
     \<and> list_all (\<lambda>i. ri_assessment_result_id i \<in> set (map rs_id (ad_results d))) (ad_items d)"

definition roadmaps_ok :: "'z app_db_scheme \<Rightarrow> bool" where
  "roadmaps_ok d \<longleftrightarrow>
     distinct (map rm_id (ad_roadmaps d))
     \<and> list_all (\<lambda>r. rm_user_id r \<in> set (bd_users d)
          \<and> rm_assessment_result_id r \<in> set (map rs_id (ad_results d))) (ad_roadmaps d)"

definition steps_ok :: "'z app_db_scheme \<Rightarrow> bool" where
  "steps_ok d \<longleftrightarrow>
     distinct (map st_id (ad_steps d))
     \<and> distinct (map (\<lambda>s. (st_roadmap_id s, st_step_order s)) (ad_steps d))
     \<and> list_all (\<lambda>s. st_roadmap_id s \<in> set (map rm_id (ad_roadmaps d))) (ad_steps d)"

definition jobs_ok :: "'z app_db_scheme \<Rightarrow> bool" where
  "jobs_ok d \<longleftrightarrow>
     distinct (map jb_id (ad_jobs d))
     \<and> distinct (map (\<lambda>j. (jb_job_type j, jb_idempotency_key j)) (ad_jobs d))
     \<and> list_all (\<lambda>j. fk (jb_assessment_id j) (map am_id (ad_assessments d))
          \<and> fk (jb_roadmap_id j) (map rm_id (ad_roadmaps d))) (ad_jobs d)"

definition app_ok :: "'z app_db_scheme \<Rightarrow> bool" where
  "app_ok d \<longleftrightarrow> snapshots_ok d \<and> assessments_ok d \<and> results_ok d \<and> items_ok d \<and> roadmaps_ok d
     \<and> steps_ok d \<and> jobs_ok d"

lemmas app_ok_defs = app_ok_def snapshots_ok_def assessments_ok_def results_ok_def items_ok_def
  roadmaps_ok_def steps_ok_def jobs_ok_def

type_synonym ('z, 'a) app_op = "('z app_db_scheme txn, 'a) op"

abbreviation aflush :: "('z app_db_scheme \<Rightarrow> 'z app_db_scheme) \<Rightarrow> ('z, unit) app_op" where
  "aflush f \<equiv> flush app_ok f"

section \<open>The jobs repository\<close>

definition job_of :: "'z app_db_scheme \<Rightarrow> uuid \<Rightarrow> job option" where
  "job_of d i = find (\<lambda>j. jb_id j = i) (ad_jobs d)"

definition get_job :: "uuid \<Rightarrow> ('z, job option) app_op" where
  "get_job i = query (\<lambda>d. job_of d i)"

definition owns_job :: "'z app_db_scheme \<Rightarrow> uuid \<Rightarrow> job \<Rightarrow> bool" where
  "owns_job d u j \<longleftrightarrow>
     list_ex (\<lambda>a. Some (am_id a) = jb_assessment_id j \<and> am_user_id a = u) (ad_assessments d)
     \<or> list_ex (\<lambda>r. Some (rm_id r) = jb_roadmap_id j \<and> rm_user_id r = u) (ad_roadmaps d)"

definition get_job_for_user :: "uuid \<Rightarrow> uuid \<Rightarrow> ('z, job option) app_op" where
  "get_job_for_user i u = query (\<lambda>d. find (\<lambda>j. jb_id j = i \<and> owns_job d u j) (ad_jobs d))"

definition job_by_key :: "'z app_db_scheme \<Rightarrow> job_type \<Rightarrow> string \<Rightarrow> job option" where
  "job_by_key d ty key = find (\<lambda>j. jb_job_type j = ty \<and> jb_idempotency_key j = key) (ad_jobs d)"

definition get_job_by_key :: "job_type \<Rightarrow> string \<Rightarrow> ('z, job option) app_op" where
  "get_job_by_key ty key = query (\<lambda>d. job_by_key d ty key)"

definition set_job :: "uuid \<Rightarrow> (job \<Rightarrow> job) \<Rightarrow> 'z app_db_scheme \<Rightarrow> 'z app_db_scheme" where
  "set_job i f d = d\<lparr>ad_jobs := upd_where (\<lambda>j. jb_id j = i) f (ad_jobs d)\<rparr>"

definition new_job ::
    "uuid \<Rightarrow> time \<Rightarrow> job_type \<Rightarrow> string \<Rightarrow> uuid option \<Rightarrow> uuid option \<Rightarrow> string option \<Rightarrow> job" where
  "new_job i now ty key assessment_id roadmap_id trace_id =
     \<lparr>jb_id = i, jb_created_at = now, jb_job_type = ty, jb_idempotency_key = key,
      jb_status = job_pending, jb_assessment_id = assessment_id, jb_roadmap_id = roadmap_id,
      jb_attempts = 0, jb_last_error = None, jb_trace_id = trace_id, jb_duration_ms = None,
      jb_queued_at = now, jb_started_at = None, jb_completed_at = None\<rparr>"

definition get_or_create_job ::
    "time \<Rightarrow> job_type \<Rightarrow> string \<Rightarrow> uuid option \<Rightarrow> uuid option \<Rightarrow> string option \<Rightarrow> ('z, job) app_op" where
  "get_or_create_job now ty key assessment_id roadmap_id trace_id =
     bindO (get_job_by_key ty key) (\<lambda>existing.
     case existing of
       Some j \<Rightarrow>
         if opt_truthy trace_id \<and> \<not> opt_truthy (jb_trace_id j) then
           bindO (aflush (set_job (jb_id j) (\<lambda>x. x\<lparr>jb_trace_id := trace_id\<rparr>))) (\<lambda>_.
           bindO commit (\<lambda>_. ret (j\<lparr>jb_trace_id := trace_id\<rparr>)))
         else ret j
     | None \<Rightarrow>
         bindO (query (\<lambda>d. new_job (bd_next d) now ty key assessment_id roadmap_id trace_id)) (\<lambda>j.
         bindO (aflush (\<lambda>d. d\<lparr>ad_jobs := ad_jobs d @ [j], bd_next := Suc (bd_next d)\<rparr>)) (\<lambda>_.
         bindO commit (\<lambda>_. ret j))))"

definition latest_job :: "job list \<Rightarrow> job option" where
  "latest_job js = first (sort_key (\<lambda>j. - jb_created_at j) js)"

definition get_latest_job_for_assessment :: "uuid \<Rightarrow> ('z, job option) app_op" where
  "get_latest_job_for_assessment i = query (\<lambda>d. latest_job
     (filter (\<lambda>j. jb_assessment_id j = Some i \<and> jb_job_type j = score_job) (ad_jobs d)))"

definition get_latest_job_for_roadmap :: "uuid \<Rightarrow> ('z, job option) app_op" where
  "get_latest_job_for_roadmap i = query (\<lambda>d. latest_job
     (filter (\<lambda>j. jb_roadmap_id j = Some i \<and> jb_job_type j = roadmap_job) (ad_jobs d)))"

text \<open>\<open>SELECT ... FOR UPDATE\<close>, \<open>scalar_one()\<close>, the change, commit.\<close>

definition change_job :: "uuid \<Rightarrow> (job \<Rightarrow> job) \<Rightarrow> ('z, job) app_op" where
  "change_job i f =
     bindO (get_job i) (\<lambda>row.
     case row of
       None \<Rightarrow> raise (NoResultFound ''No row was found when one was required'')
     | Some j \<Rightarrow> bindO (aflush (set_job i f)) (\<lambda>_. bindO commit (\<lambda>_. ret (f j))))"

definition running_job :: "time \<Rightarrow> string option \<Rightarrow> job \<Rightarrow> job" where
  "running_job now trace_id j =
     (if jb_status j \<noteq> job_completed then
        j\<lparr>jb_status := job_running, jb_attempts := jb_attempts j + 1, jb_started_at := Some now,
          jb_trace_id := (if opt_truthy trace_id then trace_id else jb_trace_id j)\<rparr>
      else j)"

definition mark_running :: "time \<Rightarrow> uuid \<Rightarrow> string option \<Rightarrow> ('z, job) app_op" where
  "mark_running now i trace_id = change_job i (running_job now trace_id)"

definition retried_job :: "string \<Rightarrow> job \<Rightarrow> job" where
  "retried_job error_message j =
     (if jb_status j \<noteq> job_completed then j\<lparr>jb_status := job_pending, jb_last_error := Some error_message\<rparr>
      else j)"

definition mark_pending_retry :: "uuid \<Rightarrow> string \<Rightarrow> ('z, job) app_op" where
  "mark_pending_retry i error_message = change_job i (retried_job error_message)"

definition finished_job :: "time \<Rightarrow> job_status \<Rightarrow> string option \<Rightarrow> int \<Rightarrow> job \<Rightarrow> job" where
  "finished_job now st error_message duration_ms j =
     j\<lparr>jb_status := st, jb_last_error := error_message, jb_duration_ms := Some duration_ms,
       jb_completed_at := Some now,
       jb_started_at := (if jb_started_at j = None then Some now else jb_started_at j)\<rparr>"

definition mark_completed :: "time \<Rightarrow> uuid \<Rightarrow> int \<Rightarrow> ('z, job) app_op" where
  "mark_completed now i duration_ms = change_job i (finished_job now job_completed None duration_ms)"

definition mark_failed :: "time \<Rightarrow> uuid \<Rightarrow> string \<Rightarrow> int \<Rightarrow> bool \<Rightarrow> ('z, job) app_op" where
  "mark_failed now i error_message duration_ms dead_letter = change_job i
     (finished_job now (if dead_letter then job_dead_letter else job_failed) (Some error_message) duration_ms)"

text \<open>\<open>JobsService.get_job_status\<close>: an administrator sees every job, a user the jobs of their own.\<close>

definition get_job_status :: "uuid \<Rightarrow> uuid \<Rightarrow> bool \<Rightarrow> ('z, job) app_op" where
  "get_job_status i u is_admin =
     bindO (if is_admin then get_job i else get_job_for_user i u) (\<lambda>row.
     case row of None \<Rightarrow> raise (HTTPException 404 ''Job not found'') | Some j \<Rightarrow> ret j)"

section \<open>Retry policy\<close>

fun is_definitive_error :: "exn \<Rightarrow> bool" where
  "is_definitive_error (ValueError _) = True"
| "is_definitive_error (ScoreEngineInputError _) = True"
| "is_definitive_error (AssertionError _) = True"
| "is_definitive_error (TypeError _) = True"
| "is_definitive_error (IntegrityError _) = True"
| "is_definitive_error (LLMProviderResponseError _) = True"
| "is_definitive_error _ = False"

fun is_transient_error :: "exn \<Rightarrow> bool" where
  "is_transient_error e =
     (if is_definitive_error e then False
      else case e of
        TimeoutError _ \<Rightarrow> True
      | ConnectionError _ \<Rightarrow> True
      | OSError _ \<Rightarrow> True
      | RobotsPolicyError _ \<Rightarrow> True
      | OperationalError _ \<Rightarrow> True
      | LLMProviderTimeoutError _ \<Rightarrow> True
      | LLMProviderError _ \<Rightarrow> True
      | _ \<Rightarrow> True)"

declare is_transient_error.simps [simp del]

lemma transient_iff: "is_transient_error e \<longleftrightarrow> \<not> is_definitive_error e"
  by (cases e) (simp_all add: is_transient_error.simps)

end
