(* ===== verification/Assessments.thy ===== *)
theory Assessments
  imports Engine Jobs
begin

text \<open>
  Assessments, \<open>src/apps/assessments\<close>: the repository, the service (creation against the monthly
  quota, computation with the score engine, status and breakdown) and the background task with its
  retry policy. The message that \<open>apply_async\<close> sends to the queue is a result of the request; the
  queue itself, which delivers a task again after \<open>retry\<close>, is Celery.
\<close>

section \<open>Repository\<close>

definition assessment_of :: "'z app_db_scheme \<Rightarrow> uuid \<Rightarrow> assessment option" where
  "assessment_of d i = find (\<lambda>a. am_id a = i) (ad_assessments d)"

definition snapshot_of :: "'z app_db_scheme \<Rightarrow> uuid \<Rightarrow> snapshot option" where
  "snapshot_of d i = find (\<lambda>s. sn_id s = i) (ad_snapshots d)"

definition result_of :: "'z app_db_scheme \<Rightarrow> uuid \<Rightarrow> assessment_result option" where
  "result_of d i = find (\<lambda>r. rs_assessment_id r = i) (ad_results d)"

definition items_of :: "'z app_db_scheme \<Rightarrow> assessment_result \<Rightarrow> result_item list" where
  "items_of d r = filter (\<lambda>i. ri_assessment_result_id i = rs_id r) (ad_items d)"

definition version_of :: "'z app_db_scheme \<Rightarrow> uuid \<Rightarrow> program_version option" where
  "version_of d i = find (\<lambda>v. pv_id v = i) (rd_versions d)"

text \<open>An assessment with the relations that the query loads.\<close>

record loaded_assessment =
  la_assessment :: assessment
  la_snapshot :: "snapshot option"
  la_result :: "assessment_result option"
  la_items :: "result_item list"
  la_version :: "program_version option"

definition load_assessment :: "'z app_db_scheme \<Rightarrow> assessment \<Rightarrow> loaded_assessment" where
  "load_assessment d a =
     \<lparr>la_assessment = a, la_snapshot = snapshot_of d (am_profile_snapshot_id a), la_result = result_of d (am_id a),
      la_items = (case result_of d (am_id a) of None \<Rightarrow> [] | Some r \<Rightarrow> items_of d r),
      la_version = (case result_of d (am_id a) of None \<Rightarrow> None
                    | Some r \<Rightarrow> version_of d (rs_program_version_id r))\<rparr>"

definition get_assessment :: "uuid \<Rightarrow> ('z, loaded_assessment option) app_op" where
  "get_assessment i = query (\<lambda>d. map_option (load_assessment d) (assessment_of d i))"

definition assessment_by_key :: "'z app_db_scheme \<Rightarrow> uuid \<Rightarrow> string \<Rightarrow> assessment option" where
  "assessment_by_key d u key = find (\<lambda>a. am_user_id a = u \<and> am_idempotency_key a = key) (ad_assessments d)"

definition get_assessment_by_user_idempotency :: "uuid \<Rightarrow> string \<Rightarrow> ('z, assessment option) app_op" where
  "get_assessment_by_user_idempotency u key = query (\<lambda>d. assessment_by_key d u key)"

definition latest_snapshot_version :: "'z app_db_scheme \<Rightarrow> uuid \<Rightarrow> int" where
  "latest_snapshot_version d u =
     (case first (sort_key uminus (map sn_snapshot_version (filter (\<lambda>s. sn_user_id s = u) (ad_snapshots d)))) of
        None \<Rightarrow> 0 | Some v \<Rightarrow> v)"

definition get_latest_snapshot_version :: "uuid \<Rightarrow> ('z, int) app_op" where
  "get_latest_snapshot_version u = query (\<lambda>d. latest_snapshot_version d u)"

definition create_profile_snapshot ::
    "uuid \<Rightarrow> int \<Rightarrow> json dict \<Rightarrow> string \<Rightarrow> ('z, snapshot) app_op" where
  "create_profile_snapshot u version profile_json profile_hash =
     bindO (query (\<lambda>d. \<lparr>sn_id = bd_next d, sn_user_id = u, sn_snapshot_version = version,
                       sn_profile_json = profile_json, sn_profile_hash = profile_hash\<rparr>)) (\<lambda>s.
     bindO (aflush (\<lambda>d. d\<lparr>ad_snapshots := ad_snapshots d @ [s], bd_next := Suc (bd_next d)\<rparr>)) (\<lambda>_.
     ret s))"

definition create_assessment_row :: "time \<Rightarrow> uuid \<Rightarrow> uuid \<Rightarrow> uuid \<Rightarrow> string \<Rightarrow> ('z, assessment) app_op" where
  "create_assessment_row now u program_id snapshot_id key =
     bindO (query (\<lambda>d. \<lparr>am_id = bd_next d, am_user_id = u, am_program_id = program_id,
                       am_profile_snapshot_id = snapshot_id, am_idempotency_key = key,
                       am_status = as_pending, am_requested_at = now, am_completed_at = None\<rparr>)) (\<lambda>a.
     bindO (aflush (\<lambda>d. d\<lparr>ad_assessments := ad_assessments d @ [a], bd_next := Suc (bd_next d)\<rparr>)) (\<lambda>_.
     ret a))"

definition put_status ::
    "uuid \<Rightarrow> assessment_status \<Rightarrow> time option \<Rightarrow> 'z app_db_scheme \<Rightarrow> 'z app_db_scheme" where
  "put_status i st completed_at d = d\<lparr>ad_assessments := upd_where (\<lambda>a. am_id a = i)
     (\<lambda>a. a\<lparr>am_status := st, am_completed_at := completed_at\<rparr>) (ad_assessments d)\<rparr>"

definition set_assessment_status ::
    "uuid \<Rightarrow> assessment_status \<Rightarrow> time option \<Rightarrow> ('z, unit) app_op" where
  "set_assessment_status i st completed_at =
     bindO (aflush (put_status i st completed_at)) (\<lambda>_. commit)"

definition versions_in_force :: "'z rules_db_scheme \<Rightarrow> uuid \<Rightarrow> time \<Rightarrow> program_version list" where
  "versions_in_force d program_id at_utc = filter (\<lambda>v. pv_program_id v = program_id
     \<and> pv_status v = active_version \<and> pv_effective_from v \<le> at_utc
     \<and> (case pv_effective_to v of None \<Rightarrow> True | Some t \<Rightarrow> t > at_utc)) (rd_versions d)"

definition get_active_program_version :: "uuid \<Rightarrow> time \<Rightarrow> ('z, program_version option) app_op" where
  "get_active_program_version program_id at_utc = query (\<lambda>d.
     first (sort_key (\<lambda>v. - pv_effective_from v) (versions_in_force d program_id at_utc)))"

text \<open>The rule groups of a version, each with its conditions and outcomes, in the form the engine takes.\<close>

definition condition_input :: "condition_row \<Rightarrow> rule_condition" where
  "condition_input c = \<lparr>rc_id = cr_id c, rc_field_key = cr_field_key c,
     rc_operator = operator_value (cr_operator c), rc_value_json = cr_value_json c,
     rc_condition_order = cr_condition_order c, rc_is_required = cr_is_required c\<rparr>"

definition outcome_input :: "outcome_row \<Rightarrow> rule_outcome" where
  "outcome_input r = \<lparr>ro_id = ot_id r, ro_score_delta = ot_score_delta r, ro_is_blocking = ot_is_blocking r,
     ro_explanation_message = ot_explanation_message r, ro_outcome_code = ot_outcome_code r\<rparr>"

definition group_input :: "'z rules_db_scheme \<Rightarrow> group_row \<Rightarrow> rule_group" where
  "group_input d g = \<lparr>rg_id = gr_id g, rg_code = gr_code g, rg_name = gr_name g, rg_priority = gr_priority g,
     rg_match_operator = match_value (gr_match_operator g),
     rg_conditions = map condition_input
       (sort_key (\<lambda>c. (cr_condition_order c, cr_field_key c, uuid_str (cr_id c)))
         (filter (\<lambda>c. cr_rule_group_id c = gr_id g) (rd_conditions d))),
     rg_outcomes = map outcome_input (filter (\<lambda>r. ot_rule_group_id r = gr_id g) (rd_outcomes d))\<rparr>"

definition rule_inputs :: "'z rules_db_scheme \<Rightarrow> uuid \<Rightarrow> rule_group list" where
  "rule_inputs d version_id = map (group_input d)
     (sort_key (\<lambda>g. (gr_priority g, gr_code g)) (filter (\<lambda>g. gr_program_version_id g = version_id) (rd_groups d)))"

definition list_rule_groups :: "uuid \<Rightarrow> ('z, rule_group list) app_op" where
  "list_rule_groups version_id = query (\<lambda>d. rule_inputs d version_id)"

definition program_version_input :: "program_version \<Rightarrow> version_input" where
  "program_version_input v = \<lparr>vi_id = pv_id v, vi_version = pv_version v,
     vi_effective_from = pv_effective_from v, vi_effective_to = pv_effective_to v\<rparr>"

text \<open>
  What a \<open>Numeric(8, 2)\<close> column returns for a stored float: the value to two decimals. (Its bound,
  \<open>10 ^ 6\<close>, is that of the deltas, which come from such a column, and is far above a score.)
\<close>

definition numeric_2 :: "rat \<Rightarrow> rat" where
  "numeric_2 x = q2 (fl x)"

definition new_result ::
    "uuid \<Rightarrow> time \<Rightarrow> uuid \<Rightarrow> uuid \<Rightarrow> score_result \<Rightarrow> assessment_result" where
  "new_result i now assessment_id version_id c =
     \<lparr>rs_id = i, rs_assessment_id = assessment_id, rs_program_version_id = version_id,
      rs_rules_version_hash = sr_rules_version_hash c, rs_algorithm_version = sr_algorithm_version c,
      rs_total_score = numeric_2 (sr_score_final c), rs_is_eligible = sr_is_eligible c, rs_computed_at = now\<rparr>"

definition new_item :: "time \<Rightarrow> uuid \<Rightarrow> uuid \<times> breakdown_item \<Rightarrow> result_item" where
  "new_item now result_id p = (case p of (i, b) \<Rightarrow>
     \<lparr>ri_id = i, ri_created_at = now, ri_assessment_result_id = result_id,
      ri_rule_group_id = Some (bi_rule_group_id b), ri_rule_condition_id = bi_rule_condition_id b,
      ri_rule_outcome_id = Some (bi_rule_outcome_id b), ri_applied = bi_applied b,
      ri_score_delta = numeric_2 (bi_score_delta b), ri_explanation_message = bi_explanation_message b,
      ri_audit_payload_json =
        [(''condition_checks'', JList (bi_condition_checks b)),
         (''is_blocking'', JBool (bi_is_blocking b)),
         (''rule_group_code'', JStr (bi_rule_group_code b))]\<rparr>)"

text \<open>
  The deletion of an earlier result sets the foreign key of its items to null, which the column
  refuses; with items left, the flush fails.
\<close>

definition delete_result :: "assessment_result option \<Rightarrow> ('z, unit) app_op" where
  "delete_result r = (case r of
     None \<Rightarrow> ret ()
   | Some x \<Rightarrow> aflush (\<lambda>d. d\<lparr>ad_results := filter (\<lambda>y. rs_id y \<noteq> rs_id x) (ad_results d)\<rparr>))"

definition add_items :: "result_item list \<Rightarrow> 'z app_db_scheme \<Rightarrow> 'z app_db_scheme" where
  "add_items xs d = d\<lparr>ad_items := ad_items d @ xs, bd_next := bd_next d + length xs\<rparr>"

definition replace_assessment_result ::
    "time \<Rightarrow> loaded_assessment \<Rightarrow> uuid \<Rightarrow> score_result \<Rightarrow> ('z, assessment_result) app_op" where
  "replace_assessment_result now a version_id c =
     bindO (delete_result (la_result a)) (\<lambda>_.
     bindO (query (\<lambda>d. new_result (bd_next d) now (am_id (la_assessment a)) version_id c)) (\<lambda>r.
     bindO (aflush (\<lambda>d. d\<lparr>ad_results := ad_results d @ [r], bd_next := Suc (bd_next d)\<rparr>)) (\<lambda>_.
     bindO (query (\<lambda>d. map (new_item now (rs_id r))
       (zip [bd_next d..<bd_next d + length (sr_breakdown c)] (sr_breakdown c)))) (\<lambda>items.
     bindO (aflush (\<lambda>d. put_status (am_id (la_assessment a)) as_completed (Some now) (add_items items d))) (\<lambda>_.
     bindO commit (\<lambda>_. ret r))))))"

section \<open>Service\<close>

definition hash_profile :: "json dict \<Rightarrow> string" where
  "hash_profile profile_json = sha256_hex (canonical (JObj profile_json))"

record assessment_create =
  ac_program_id :: uuid
  ac_profile_json :: "json dict"
  ac_idempotency_key :: string

text \<open>The validation of the request body; a violation is a 422 answer.\<close>

definition validate_assessment_create :: "assessment_create \<Rightarrow> unit result" where
  "validate_assessment_create p =
     (if length (ac_idempotency_key p) < 1 \<or> 128 < length (ac_idempotency_key p) then
        Inl (ValueError ''idempotency_key length'')
      else if 30000 < length (dumps_default (JObj (ac_profile_json p))) then
        Inl (ValueError ''profile_json payload is too large'')
      else if ac_profile_json p = [] then Inl (ValueError ''profile_json cannot be empty'')
      else Inr ())"

record task_message =
  tm_target_id :: string
  tm_job_id :: string
  tm_trace_id :: "string option"
  tm_priority :: int

record assessment_queued =
  aq_assessment_id :: uuid
  aq_status :: assessment_status
  aq_job_id :: uuid
  aq_message :: "task_message option"

definition create_or_find_assessment ::
    "settings \<Rightarrow> time \<Rightarrow> uuid \<Rightarrow> assessment_create \<Rightarrow> ('z, assessment \<times> bool) app_op" where
  "create_or_find_assessment cfg now u p =
     bindO (get_assessment_by_user_idempotency u (ac_idempotency_key p)) (\<lambda>existing.
     case existing of
       None \<Rightarrow>
         bindO (consume_assessment_quota cfg now u) (\<lambda>priority.
         bindO (get_latest_snapshot_version u) (\<lambda>latest.
         bindO (create_profile_snapshot u (latest + 1) (ac_profile_json p) (hash_profile (ac_profile_json p)))
           (\<lambda>s.
         bindO (create_assessment_row now u (ac_program_id p) (sn_id s) (ac_idempotency_key p)) (\<lambda>a.
         bindO commit (\<lambda>_. ret (a, priority))))))
     | Some a \<Rightarrow> bindO (has_priority_processing cfg now u) (\<lambda>priority. ret (a, priority)))"

definition create_assessment ::
    "settings \<Rightarrow> time \<Rightarrow> uuid \<Rightarrow> assessment_create \<Rightarrow> string option \<Rightarrow> ('z, assessment_queued) app_op" where
  "create_assessment cfg now u p trace_id =
     bindO (create_or_find_assessment cfg now u p) (\<lambda>(a, priority).
     bindO (get_or_create_job now score_job (''assessment:'' @ uuid_str (am_id a)) (Some (am_id a)) None trace_id)
       (\<lambda>j.
     ret \<lparr>aq_assessment_id = am_id a, aq_status = am_status a, aq_job_id = jb_id j,
       aq_message = (if am_status a \<in> {as_pending, as_failed} then
         Some \<lparr>tm_target_id = uuid_str (am_id a), tm_job_id = uuid_str (jb_id j), tm_trace_id = trace_id,
           tm_priority = (if priority then 0 else 9)\<rparr> else None)\<rparr>))"

record assessment_status_read =
  av_assessment_id :: uuid
  av_status :: assessment_status
  av_completed_at :: "time option"
  av_job_id :: "uuid option"

definition get_assessment_status :: "uuid \<Rightarrow> uuid \<Rightarrow> ('z, assessment_status_read) app_op" where
  "get_assessment_status i u =
     bindO (query (\<lambda>d. assessment_of d i)) (\<lambda>row.
     case row of
       None \<Rightarrow> raise (HTTPException 404 ''Assessment not found'')
     | Some a \<Rightarrow>
         if am_user_id a \<noteq> u then raise (HTTPException 404 ''Assessment not found'')
         else bindO (get_latest_job_for_assessment (am_id a)) (\<lambda>j.
              ret \<lparr>av_assessment_id = am_id a, av_status = am_status a, av_completed_at = am_completed_at a,
                   av_job_id = map_option jb_id j\<rparr>))"

definition compute_and_persist_assessment ::
    "settings \<Rightarrow> time \<Rightarrow> loaded_assessment \<Rightarrow> ('z, assessment_result) app_op" where
  "compute_and_persist_assessment cfg now a =
     (case la_snapshot a of
        None \<Rightarrow> raise (ValueError ''Assessment is missing profile snapshot'')
      | Some s \<Rightarrow>
          bindO (get_active_program_version (am_program_id (la_assessment a)) (am_requested_at (la_assessment a)))
            (\<lambda>version.
          case version of
            None \<Rightarrow> raise (ValueError ''No active program version found for requested timestamp'')
          | Some v \<Rightarrow>
              bindO (list_rule_groups (pv_id v)) (\<lambda>rule_groups.
              if rule_groups = [] then raise (ValueError ''Program version has no rules configured'')
              else
                bindO (lift (evaluate (score_algorithm_version cfg) (sn_profile_json s)
                  (program_version_input v) rule_groups)) (\<lambda>computation.
                replace_assessment_result now a (pv_id v) computation))))"

definition process_assessment :: "settings \<Rightarrow> time \<Rightarrow> uuid \<Rightarrow> ('z, unit) app_op" where
  "process_assessment cfg now i =
     bindO (get_assessment i) (\<lambda>row.
     case row of
       None \<Rightarrow> raise (ValueError ''Assessment not found'')
     | Some a \<Rightarrow>
         if la_result a \<noteq> None \<and> am_status (la_assessment a) = as_completed then ret ()
         else
           bindO (set_assessment_status i as_running None) (\<lambda>_.
           catch (bindO (compute_and_persist_assessment cfg now a) (\<lambda>_. ret ()))
             (\<lambda>e. bindO (set_assessment_status i as_failed None) (\<lambda>_. raise e))))"

text \<open>The breakdown that the client reads.\<close>

record breakdown_entry =
  br_rule_group_id :: "uuid option"
  br_rule_group_code :: string
  br_rule_condition_id :: "uuid option"
  br_rule_outcome_id :: "uuid option"
  br_applied :: bool
  br_score_delta :: rat
  br_is_blocking :: bool
  br_explanation_message :: string
  br_condition_checks :: json

record assessment_breakdown =
  ab_assessment_id :: uuid
  ab_score_final :: rat
  ab_faixa :: string
  ab_fatores_positivos :: "string list"
  ab_gaps_criticos :: "string list"
  ab_program_version_used :: version_input
  ab_algorithm_version :: string
  ab_rules_version_hash :: string
  ab_items :: "breakdown_entry list"

definition faixa :: "rat \<Rightarrow> string" where
  "faixa score = (if score < 40 then ''baixo'' else if score < 70 then ''medio'' else ''alto'')"

definition item_blocking :: "result_item \<Rightarrow> bool" where
  "item_blocking i = truthy (get_or (ri_audit_payload_json i) ''is_blocking'' (JBool False))"

definition breakdown_entry_of :: "result_item \<Rightarrow> breakdown_entry" where
  "breakdown_entry_of i =
     \<lparr>br_rule_group_id = ri_rule_group_id i,
      br_rule_group_code = py_str (get_or (ri_audit_payload_json i) ''rule_group_code'' (JStr ''unknown'')),
      br_rule_condition_id = ri_rule_condition_id i, br_rule_outcome_id = ri_rule_outcome_id i,
      br_applied = ri_applied i, br_score_delta = ri_score_delta i, br_is_blocking = item_blocking i,
      br_explanation_message = ri_explanation_message i,
      br_condition_checks = get_or (ri_audit_payload_json i) ''condition_checks'' (JList [])\<rparr>"

definition item_order :: "result_item \<Rightarrow> time \<times> string" where
  "item_order i = (ri_created_at i, uuid_str (ri_id i))"

definition critical_gaps :: "result_item list \<Rightarrow> string list" where
  "critical_gaps items = map ri_explanation_message
     (filter (\<lambda>i. ri_applied i \<and> (item_blocking i \<or> ri_score_delta i < 0)) items)"

definition positive_factors :: "result_item list \<Rightarrow> string list" where
  "positive_factors items = map ri_explanation_message (filter (\<lambda>i. ri_applied i \<and> 0 < ri_score_delta i) items)"

definition to_breakdown_response :: "loaded_assessment \<Rightarrow> assessment_breakdown result" where
  "to_breakdown_response a =
     (case (la_result a, la_version a) of
        (Some r, Some v) \<Rightarrow>
          let items = sort_key item_order (la_items a)
          in bindR (quantize2 (rs_total_score r)) (\<lambda>score_final.
             Inr \<lparr>ab_assessment_id = am_id (la_assessment a), ab_score_final = score_final,
               ab_faixa = faixa score_final, ab_fatores_positivos = positive_factors items,
               ab_gaps_criticos = critical_gaps items, ab_program_version_used = program_version_input v,
               ab_algorithm_version = rs_algorithm_version r, ab_rules_version_hash = rs_rules_version_hash r,
               ab_items = map breakdown_entry_of items\<rparr>)
      | _ \<Rightarrow> Inl (HTTPException 500 ''Assessment result is incomplete''))"

definition get_assessment_breakdown :: "uuid \<Rightarrow> uuid \<Rightarrow> ('z, assessment_breakdown) app_op" where
  "get_assessment_breakdown i u =
     bindO (get_assessment i) (\<lambda>row.
     case row of
       None \<Rightarrow> raise (HTTPException 404 ''Assessment not found'')
     | Some a \<Rightarrow>
         if am_user_id (la_assessment a) \<noteq> u then raise (HTTPException 404 ''Assessment not found'')
         else if la_result a = None then raise (HTTPException 409 (''Assessment is ''
           @ assessment_status_value (am_status (la_assessment a)) @ ''. Result not ready''))
         else lift (to_breakdown_response a))"

section \<open>Faults of a delivery\<close>

text \<open>
  What may go wrong around one delivery of a task. Each of its sessions (the work, the mark of completion, the handler's
  record of a failure) may break with an error at any statement (a lost connection, the soft time limit, a commit whose
  answer is lost): \<open>left\<close> says what it had committed by then. The broker may refuse the retry, and the hard time
  limit may kill the worker process at any point, which ends the delivery: messages are acknowledged early
  (Celery's default, \<open>celery_app.py\<close> does not set \<open>acks_late\<close>), so it is not delivered again.
\<close>

type_synonym 's broken = "(exn \<times> ('s \<Rightarrow> 's)) option"

record 's faults =
  fl_work :: "'s broken"
  fl_finish :: "'s broken"
  fl_record :: "'s broken"
  fl_requeue :: "exn option"
  fl_killed :: "('s \<Rightarrow> 's) option"

definition no_faults :: "'s faults" where
  "no_faults = \<lparr>fl_work = None, fl_finish = None, fl_record = None, fl_requeue = None, fl_killed = None\<rparr>"

definition session :: "'s broken \<Rightarrow> ('s txn, 'a) op \<Rightarrow> ('s, 'a) op" where
  "session broken run d = (case broken of None \<Rightarrow> request run d | Some (e, left) \<Rightarrow> (Inl e, left d))"

definition killable :: "'s faults \<Rightarrow> 'a \<Rightarrow> ('s, 'a) op \<Rightarrow> ('s, 'a) op" where
  "killable flt killed run d = (case fl_killed flt of None \<Rightarrow> run d | Some left \<Rightarrow> (Inr killed, left d))"

section \<open>The background task\<close>

text \<open>
  A delivery of a task ends in a return, an exception, or a request for redelivery after a delay.
  \<open>emitted\<close> is the dead-letter event, which is sent once the failure is recorded.
\<close>

record dead_letter =
  dl_source :: string
  dl_job_id :: string
  dl_trace_id :: "string option"
  dl_event :: string
  dl_error :: string

datatype delivery =
    Returned
  | Raised exn (emitted: "dead_letter option")
  | Retried exn int

definition is_soft_timeout :: "exn \<Rightarrow> bool" where
  "is_soft_timeout e = (case e of SoftTimeLimitExceeded _ \<Rightarrow> True | _ \<Rightarrow> False)"

text \<open>\<open>task.retry\<close> publishes the message again and raises \<open>Retry\<close>; a broker that is away refuses it.\<close>

definition retry_task :: "'s faults \<Rightarrow> exn \<Rightarrow> int \<Rightarrow> ('s, delivery) op" where
  "retry_task flt e countdown = (case fl_requeue flt of None \<Rightarrow> ret (Retried e countdown) | Some e' \<Rightarrow> raise e')"

text \<open>How a delivery ends that the hard time limit kills.\<close>

definition time_limit_exceeded :: delivery where
  "time_limit_exceeded = Raised (OtherException ''TimeLimitExceeded'') None"

text \<open>\<open>max(1, 2 ** retries)\<close>\<close>

definition retry_countdown :: "nat \<Rightarrow> int" where
  "retry_countdown retries = max 1 (2 ^ retries)"

definition score_dead_letter :: "uuid \<Rightarrow> string option \<Rightarrow> exn \<Rightarrow> dead_letter" where
  "score_dead_letter job_id trace_id e =
     \<lparr>dl_source = ''score_job'', dl_job_id = uuid_str job_id, dl_trace_id = trace_id,
      dl_event = (if is_soft_timeout e then ''score_job_timeout'' else ''score_job_failed''),
      dl_error = exn_text e\<rparr>"

definition handle_score_failure ::
    "settings \<Rightarrow> 'z app_db_scheme faults \<Rightarrow> time \<Rightarrow> int \<Rightarrow> nat \<Rightarrow> uuid \<Rightarrow> string option \<Rightarrow> exn
     \<Rightarrow> ('z app_db_scheme, delivery) op" where
  "handle_score_failure cfg flt now duration_ms retries job_id trace_id e =
     (if is_definitive_error e \<or> \<not> (is_transient_error e \<or> is_soft_timeout e) then
        bindO (session (fl_record flt) (mark_failed now job_id (exn_text e) duration_ms True)) (\<lambda>_.
        ret (Raised e (Some (score_dead_letter job_id trace_id e))))
      else if score_task_max_retries cfg \<le> int retries then
        bindO (session (fl_record flt) (mark_failed now job_id (exn_text e) duration_ms True)) (\<lambda>_.
        ret (Raised e (Some (score_dead_letter job_id trace_id e))))
      else
        bindO (session (fl_record flt) (mark_pending_retry job_id (exn_text e))) (\<lambda>_.
        retry_task flt e (retry_countdown retries)))"

definition run_assessment_job ::
    "settings \<Rightarrow> time \<Rightarrow> uuid \<Rightarrow> uuid \<Rightarrow> string option \<Rightarrow> ('z, unit) app_op" where
  "run_assessment_job cfg now assessment_id job_id trace_id =
     bindO (mark_running now job_id trace_id) (\<lambda>_. process_assessment cfg now assessment_id)"

text \<open>
  One delivery with the number of earlier retries. \<open>run\<close> is the session that does the work; the
  code's own is \<open>run_assessment_job\<close>. An exception that escapes the handler is the delivery's. \<open>flt\<close> is
  what goes wrong.
\<close>

definition score_delivery ::
    "settings \<Rightarrow> 'z app_db_scheme faults \<Rightarrow> time \<Rightarrow> int \<Rightarrow> uuid \<Rightarrow> string option \<Rightarrow> ('z, unit) app_op \<Rightarrow> nat
     \<Rightarrow> ('z app_db_scheme, delivery) op" where
  "score_delivery cfg flt now duration_ms job_id trace_id run retries =
     killable flt time_limit_exceeded
       (catch
         (catch
           (bindO (session (fl_work flt) run) (\<lambda>_.
            bindO (session (fl_finish flt) (mark_completed now job_id duration_ms)) (\<lambda>_. ret Returned)))
           (handle_score_failure cfg flt now duration_ms retries job_id trace_id))
         (\<lambda>e. ret (Raised e None)))"

definition process_assessment_task ::
    "settings \<Rightarrow> 'z app_db_scheme faults \<Rightarrow> time \<Rightarrow> int \<Rightarrow> task_message \<Rightarrow> nat
     \<Rightarrow> ('z app_db_scheme, delivery) op" where
  "process_assessment_task cfg flt now duration_ms msg retries =
     (case (uuid_parse (tm_target_id msg), uuid_parse (tm_job_id msg)) of
        (Inr assessment_id, Inr job_id) \<Rightarrow>
          score_delivery cfg flt now duration_ms job_id (tm_trace_id msg)
            (run_assessment_job cfg now assessment_id job_id (tm_trace_id msg)) retries
      | (Inl e, _) \<Rightarrow> ret (Raised e None)
      | (_, Inl e) \<Rightarrow> ret (Raised e None))"

end
