(* ===== verification/Rules_Versions.thy ===== *)
theory Rules_Versions
  imports Rules
begin

text \<open>
  The contract of the rules service: the active versions of a program never overlap, whatever
  sequence of requests is served; what activation, deletion and creation do on every branch.
\<close>

section \<open>The invariant\<close>

definition overlaps :: "program_version \<Rightarrow> program_version \<Rightarrow> bool" where
  "overlaps a b \<longleftrightarrow> pv_program_id a = pv_program_id b \<and> pv_status a = active_version
     \<and> pv_status b = active_version \<and> pv_id a \<noteq> pv_id b
     \<and> pv_effective_from a < version_end b \<and> pv_effective_from b < version_end a"

definition no_overlap :: "'z rules_db_scheme \<Rightarrow> bool" where
  "no_overlap d \<longleftrightarrow> list_all (\<lambda>a. list_all (\<lambda>b. \<not> overlaps a b) (rd_versions d)) (rd_versions d)"

definition rules_inv :: "'z rules_db_scheme \<Rightarrow> bool" where
  "rules_inv d \<longleftrightarrow> rules_ok d \<and> no_overlap d"

named_theorems rules_keeps \<open>the handlers keep the invariant\<close>

lemma overlaps_sym: "overlaps a b \<longleftrightarrow> overlaps b a"
  by (auto simp: overlaps_def)

lemma active_overlaps_iff:
  "pv_status t = active_version \<Longrightarrow> v \<in> set (active_overlaps d t) \<longleftrightarrow> v \<in> set (rd_versions d) \<and> overlaps v t"
  by (auto simp: active_overlaps_def overlaps_def)

lemma no_overlap_iff: "no_overlap d \<longleftrightarrow> (\<forall>a\<in>set (rd_versions d). \<forall>b\<in>set (rd_versions d). \<not> overlaps a b)"
  by (simp add: no_overlap_def list_all_iff)

lemma set_version_mem:
  "x \<in> set (rd_versions (set_version v d)) \<Longrightarrow> x = v \<or> x \<in> set (rd_versions d) \<and> pv_id x \<noteq> pv_id v"
  by (auto simp: set_version_def set_upd_where split: if_splits)

lemma set_version_other:
  "x \<in> set (rd_versions d) \<Longrightarrow> pv_id x \<noteq> pv_id v \<Longrightarrow> x \<in> set (rd_versions (set_version v d))"
  by (force simp: set_version_def set_upd_where)

lemma no_overlap_set_version:
  assumes "no_overlap d"
    and "\<And>x. x \<in> set (rd_versions d) \<Longrightarrow> pv_id x \<noteq> pv_id v \<Longrightarrow> \<not> overlaps x v"
  shows "no_overlap (set_version v d)"
  unfolding no_overlap_iff
proof (intro ballI)
  fix a b assume a: "a \<in> set (rd_versions (set_version v d))" and b: "b \<in> set (rd_versions (set_version v d))"
  have "\<not> overlaps v v" by (simp add: overlaps_def)
  then show "\<not> overlaps a b"
    using set_version_mem [OF a] set_version_mem [OF b] assms overlaps_sym [of a b]
    by (auto simp: no_overlap_iff)
qed

lemma no_overlap_archive: "no_overlap d \<Longrightarrow> no_overlap (archive_versions ids d)"
  by (auto simp: no_overlap_iff archive_versions_def set_upd_where overlaps_def version_end_def)

lemma no_overlap_cong: "rd_versions d' = rd_versions d \<Longrightarrow> no_overlap d' = no_overlap d"
  by (simp add: no_overlap_def)

section \<open>The handlers keep it\<close>

lemma commit_and_refresh_eq:
  "\<not> aborted t \<Longrightarrow> commit_and_refresh valid f t =
     (if valid \<and> rules_ok (f (working t))
      then (Inr (), t\<lparr>committed := f (working t), working := f (working t)\<rparr>)
      else (Inl (HTTPException 409 ''Integrity constraint violation''),
            t\<lparr>working := committed t, aborted := False\<rparr>))"
  by (auto simp: commit_and_refresh_def catch_def bindO_def flush_def integrity_conflict_def)

lemma keeps_commit_and_refresh [rules_keeps]:
  assumes "\<And>d. rules_inv d \<Longrightarrow> rd_versions (f d) = rd_versions d"
  shows "keeps (both rules_inv) (commit_and_refresh valid f)"
  unfolding commit_and_refresh_def integrity_conflict_def
proof (intro keeps_catch keeps_bindO keeps_flush keeps_commit)
  fix d assume d: "rules_inv d" and ok: "valid \<and> rules_ok (f d)"
  show "rules_inv (f d)" using ok d no_overlap_cong [OF assms [OF d]] by (simp add: rules_inv_def)
next
  fix e show "keeps (both rules_inv) (case e of
      IntegrityError _ \<Rightarrow> bindO rollback (\<lambda>_. raise (HTTPException 409 ''Integrity constraint violation''))
    | _ \<Rightarrow> raise e)"
    by (cases e) (auto intro: inv_intros)
qed

lemma keeps_rflush [rules_keeps]:
  assumes "\<And>d. rules_inv d \<Longrightarrow> rd_versions (f d) = rd_versions d"
  shows "keeps (both rules_inv) (rflush valid f)"
  by (rule keeps_flush) (use no_overlap_cong [OF assms] in \<open>auto simp: rules_inv_def\<close>)

lemma keeps_found [rules_keeps]: "keeps P (found what row)"
  unfolding found_def by (intro inv_intros)

lemma keeps_await_row [rules_keeps]: "keeps P (await_row cls row)"
  unfolding await_row_def by (intro inv_intros)

lemma bindO_await [simp]: "bindO (await_row cls row) k = await_row cls row"
  by (rule ext) (simp add: await_row_def bindO_def)

lemmas rules_lookups = get_country_by_code_def get_country_def get_program_def
  get_program_by_country_code_def get_program_version_def get_program_version_by_program_and_version_def
  get_rule_group_def get_rule_condition_def get_rule_outcome_def

lemmas rules_creates = create_country_def create_program_def create_program_version_def
  create_rule_group_def create_rule_condition_def create_rule_outcome_def

lemma keeps_updates [rules_keeps]:
  "keeps (both rules_inv) (update_country i cu)"
  "keeps (both rules_inv) (update_program i pu)"
  "keeps (both rules_inv) (update_rule_group i gu)"
  "keeps (both rules_inv) (update_rule_condition i du)"
  "keeps (both rules_inv) (update_rule_outcome i ou)"
  "keeps (both rules_inv) (delete_rule_group i)"
  "keeps (both rules_inv) (delete_rule_condition i)"
  "keeps (both rules_inv) (delete_rule_outcome i)"
  unfolding update_country_def update_program_def update_rule_group_def update_rule_condition_def
    update_rule_outcome_def delete_rule_group_def delete_rule_condition_def delete_rule_outcome_def
    rules_lookups
  by (intro inv_intros rules_keeps; simp)+

lemma await_row_eq: "await_row cls row t =
    (Inl (TypeError (''object '' @ cls @ '' can't be used in 'await' expression'')), t)"
  by (simp add: await_row_def)

lemma request_eq: "m (begin_txn d) = (r, t) \<Longrightarrow> request m d = (r, committed t)"
  by (simp add: request_def)

lemmas begin_simps = request_def begin_txn_def found_def await_row_def

text \<open>No request creates a row: each ends in the missing parent, the duplicate, or the failed await.\<close>

lemma create_country_request:
  "request (create_country p) d = (Inl (if find (\<lambda>x. co_code x = upper (cc_code p)) (rd_countries d) \<noteq> None
     then HTTPException 409 ''Country code already exists''
     else TypeError ''object Country can't be used in 'await' expression''), d)"
  by (simp add: create_country_def rules_lookups request_def await_row_eq)

lemma create_program_request:
  "\<exists>e. request (create_program p) d = (Inl e, d)"
  by (cases "find (\<lambda>x. co_id x = pc_country_id p) (rd_countries d)")
    (simp_all add: create_program_def rules_lookups request_def found_def await_row_eq)

lemma create_program_version_request:
  "\<exists>e. request (create_program_version now p) d = (Inl e, d)"
  by (cases "find (\<lambda>x. pg_id x = vc_program_id p) (rd_programs d)")
    (simp_all add: create_program_version_def rules_lookups request_def found_def await_row_eq)

lemma create_rule_group_request:
  "\<exists>e. request (create_rule_group now p) d = (Inl e, d)"
  by (cases "find (\<lambda>x. pv_id x = gc_program_version_id p) (rd_versions d)")
    (simp_all add: create_rule_group_def rules_lookups request_def found_def await_row_eq)

lemma create_rule_condition_request:
  "\<exists>e. request (create_rule_condition now p) d = (Inl e, d)"
  by (cases "find (\<lambda>x. gr_id x = dc_rule_group_id p) (rd_groups d)")
    (simp_all add: create_rule_condition_def rules_lookups request_def found_def await_row_eq)

lemma create_rule_outcome_request:
  "\<exists>e. request (create_rule_outcome p) d = (Inl e, d)"
  by (cases "find (\<lambda>x. gr_id x = oc_rule_group_id p) (rd_groups d)")
    (simp_all add: create_rule_outcome_def rules_lookups request_def found_def await_row_eq)


text \<open>The version handlers: the flushed change is checked before it is committed.\<close>

lemma set_version_no_overlap:
  assumes "no_overlap d" and "active_overlaps (set_version v d) v = [] \<or> pv_status v \<noteq> active_version"
  shows "no_overlap (set_version v d)"
proof (rule no_overlap_set_version [OF assms(1)])
  fix x assume x: "x \<in> set (rd_versions d)" "pv_id x \<noteq> pv_id v"
  show "\<not> overlaps x v"
  proof
    assume o: "overlaps x v"
    then have "pv_status v = active_version" by (simp add: overlaps_def)
    with assms(2) o set_version_other [OF x] active_overlaps_iff [of v x "set_version v d"]
    show False by simp
  qed
qed

lemma scalar_one_or_none_simps [simp]:
  "scalar_one_or_none [] = Inr None" "scalar_one_or_none [x] = Inr (Some x)"
  "scalar_one_or_none (x # y # ys) = Inl (MultipleResultsFound ''Multiple rows were found when one or none was required'')"
  by (simp_all add: scalar_one_or_none_def)

lemma update_program_version_inv:
  assumes I: "rules_inv d"
  shows "rules_inv (snd (request (update_program_version i p) d))"
proof (cases "find (\<lambda>v. pv_id v = i) (rd_versions d)")
  case None
  then show ?thesis using I
    by (simp add: update_program_version_def rules_lookups request_def found_def)
next
  case (Some old)
  define v where "v = apply_version_update p old"
  define valid where "valid = (\<not> null (vu_version p) \<and> \<not> null (vu_status p) \<and> \<not> null (vu_effective_from p))"
  let ?d = "set_version v d"
  have no: "no_overlap d" using I by (simp add: rules_inv_def)
  note unf = update_program_version_def rules_lookups request_def found_def Some Let_def
    v_def [symmetric] valid_def
  show ?thesis
  proof (cases "\<not> null (vu_status p) \<and> pv_status v = active_version")
    case True
    show ?thesis
    proof (cases "valid \<and> rules_ok ?d")
      case ok: True
      consider (none) "active_overlaps ?d v = []" | (one) c where "active_overlaps ?d v = [c]"
        | (many) a b cs where "active_overlaps ?d v = a # b # cs"
        by (metis list.exhaust)
      then show ?thesis
      proof cases
        case none
        then have "rules_inv ?d" using ok set_version_no_overlap [OF no] by (simp add: rules_inv_def)
        then show ?thesis using none ok True
          by (simp add: unf find_active_overlap_for_program_version_def bindO_def commit_and_refresh_eq query_def
              begin_txn_def)
      next
        case one
        then show ?thesis using I ok True
          by (simp add: unf find_active_overlap_for_program_version_def bindO_def query_def begin_txn_def rollback_def)
      next
        case many
        then show ?thesis using I ok True
          by (simp add: unf find_active_overlap_for_program_version_def bindO_def query_def begin_txn_def)
      qed
    next
      case False
      with True I show ?thesis by (auto simp: unf bindO_def flush_def)
    qed
  next
    case False
    have ok: "rules_inv ?d" if "valid" "rules_ok ?d"
      using that False set_version_no_overlap [OF no, of v] by (auto simp: rules_inv_def valid_def)
    from False have "request (update_program_version i p) d
        = (case bindO (commit_and_refresh valid (set_version v)) (\<lambda>_. ret v) (begin_txn d) of
             (r, t) \<Rightarrow> (r, committed t))"
      by (auto simp: unf)
    with ok I show ?thesis by (simp add: bindO_def commit_and_refresh_eq)
  qed
qed

definition activated :: "program_version \<Rightarrow> program_version" where
  "activated v = v\<lparr>pv_status := active_version\<rparr>"

lemma activated_simps [simp]:
  "pv_id (activated v) = pv_id v" "pv_program_id (activated v) = pv_program_id v"
  "pv_status (activated v) = active_version" "pv_effective_from (activated v) = pv_effective_from v"
  "version_end (activated v) = version_end v" "pv_version (activated v) = pv_version v"
  "range_ok (activated v) = range_ok v"
  by (simp_all add: activated_def version_end_def range_ok_def split: option.split)

lemma rules_ok_set_version:
  assumes "rules_ok d" and "find (\<lambda>v. pv_id v = i) (rd_versions d) = Some v"
  shows "rules_ok (set_version (activated v) d)"
proof -
  have v: "v \<in> set (rd_versions d)" "pv_id v = i" using find_mem [OF assms(2)] by auto
  have same: "x = v" if "x \<in> set (rd_versions d)" "pv_id x = pv_id v" for x
    using that v assms(1) by (auto simp: rules_ok_defs distinct_map inj_on_def)
  have keys: "map g (upd_where (\<lambda>x. pv_id x = pv_id v) (\<lambda>_. activated v) (rd_versions d)) = map g (rd_versions d)"
    if "g (activated v) = g v" for g :: "program_version \<Rightarrow> 'b"
    unfolding upd_where_def map_map comp_def by (intro map_cong refl) (metis same that)
  have eq: "map pv_id (rd_versions (set_version (activated v) d)) = map pv_id (rd_versions d)"
    "map (\<lambda>v. (pv_program_id v, pv_version v)) (rd_versions (set_version (activated v) d))
       = map (\<lambda>v. (pv_program_id v, pv_version v)) (rd_versions d)"
    using keys [of pv_id] keys [of "\<lambda>v. (pv_program_id v, pv_version v)"] by (simp_all add: set_version_def)
  have all: "list_all (\<lambda>v. range_ok v \<and> pv_program_id v \<in> set (map pg_id (rd_programs d)))
      (rd_versions (set_version (activated v) d))"
    using assms(1) v(1) by (auto simp: rules_ok_def versions_ok_def list_all_iff dest!: set_version_mem)
  have rest: "rd_countries (set_version (activated v) d) = rd_countries d"
    "rd_programs (set_version (activated v) d) = rd_programs d"
    "rd_groups (set_version (activated v) d) = rd_groups d"
    "rd_conditions (set_version (activated v) d) = rd_conditions d"
    "rd_outcomes (set_version (activated v) d) = rd_outcomes d"
    by (simp_all add: set_version_def)
  show ?thesis
    using assms(1) all unfolding rules_ok_def countries_ok_def programs_ok_def versions_ok_def groups_ok_def
      conditions_ok_def outcomes_ok_def rest eq by blast
qed

lemma archive_simps [simp]:
  "rd_countries (archive_versions ids d) = rd_countries d" "rd_programs (archive_versions ids d) = rd_programs d"
  "rd_groups (archive_versions ids d) = rd_groups d" "rd_conditions (archive_versions ids d) = rd_conditions d"
  "rd_outcomes (archive_versions ids d) = rd_outcomes d"
  by (simp_all add: archive_versions_def)

lemma rules_ok_archive: "rules_ok d \<Longrightarrow> rules_ok (archive_versions ids d)"
proof -
  assume ok: "rules_ok d"
  have eq: "map pv_id (rd_versions (archive_versions ids d)) = map pv_id (rd_versions d)"
    "map (\<lambda>v. (pv_program_id v, pv_version v)) (rd_versions (archive_versions ids d))
       = map (\<lambda>v. (pv_program_id v, pv_version v)) (rd_versions d)"
    by (simp_all add: archive_versions_def upd_where_def)
  have all: "list_all (\<lambda>v. range_ok v \<and> pv_program_id v \<in> set (map pg_id (rd_programs d)))
      (rd_versions (archive_versions ids d))"
    using ok by (auto simp: rules_ok_def versions_ok_def list_all_iff archive_versions_def set_upd_where range_ok_def
        split: option.splits)
  show ?thesis using ok all
    unfolding rules_ok_def countries_ok_def programs_ok_def versions_ok_def groups_ok_def conditions_ok_def
      outcomes_ok_def archive_simps eq by blast
qed

lemma archive_none [simp]: "archive_versions [] d = d"
  by (simp add: archive_versions_def upd_where_def)

lemma find_archive:
  "i \<notin> set ids \<Longrightarrow> find (\<lambda>v. pv_id v = i) (rd_versions (archive_versions ids d)) = find (\<lambda>v. pv_id v = i) (rd_versions d)"
proof -
  assume "i \<notin> set ids"
  then have "find (\<lambda>v. pv_id v = i) (upd_where (\<lambda>v. pv_id v \<in> set ids) (\<lambda>v. v\<lparr>pv_status := archived\<rparr>) vs)
      = find (\<lambda>v. pv_id v = i) vs" for vs
    by (induction vs) (auto simp: upd_where_def)
  then show ?thesis by (simp add: archive_versions_def)
qed


text \<open>Activation: the other active versions of the program, and the four outcomes.\<close>

definition other_active :: "'z rules_db_scheme \<Rightarrow> program_version \<Rightarrow> uuid list" where
  "other_active d v = filter (\<lambda>j. j \<noteq> pv_id v)
     (map pv_id (filter (\<lambda>x. pv_program_id x = pv_program_id v \<and> pv_status x = active_version) (rd_versions d)))"

definition replaced :: "'z rules_db_scheme \<Rightarrow> program_version \<Rightarrow> 'z rules_db_scheme" where
  "replaced d v = set_version (activated v) (archive_versions (other_active d v) d)"

lemma rules_ok_replaced:
  assumes "rules_ok d" and "find (\<lambda>v. pv_id v = i) (rd_versions d) = Some v"
  shows "rules_ok (replaced d v)"
proof -
  have "pv_id v = i" using find_mem [OF assms(2)] by simp
  then have "find (\<lambda>v. pv_id v = i) (rd_versions (archive_versions (other_active d v) d)) = Some v"
    using assms(2) by (subst find_archive) (auto simp: other_active_def)
  then show ?thesis unfolding replaced_def by (rule rules_ok_set_version [OF rules_ok_archive [OF assms(1)]])
qed

lemma activate_no_conflict:
  assumes ok: "rules_ok d" and found: "find (\<lambda>v. pv_id v = i) (rd_versions d) = Some v"
    and rows: "active_overlaps d v = []"
  shows "request (activate_program_version i force) d = (Inr (activated v), set_version (activated v) d)"
  using rules_ok_set_version [OF ok found]
  by (simp add: rows activate_program_version_def rules_lookups request_def found found_def
      find_active_overlap_for_program_version_def bindO_def commit_and_refresh_eq activated_def)

lemma activate_conflict:
  assumes ok: "rules_ok d" and found: "find (\<lambda>v. pv_id v = i) (rd_versions d) = Some v"
    and rows: "active_overlaps d v = [c]"
  shows "request (activate_program_version i False) d = (Inl (HTTPException 409
     (''Activation would overlap with another active version. ''
      @ ''Set force=true to archive conflicting active versions first.'')), d)"
  by (simp add: rows activate_program_version_def rules_lookups request_def found found_def
      find_active_overlap_for_program_version_def bindO_def)

lemma activate_force:
  assumes ok: "rules_ok d" and found: "find (\<lambda>v. pv_id v = i) (rd_versions d) = Some v"
    and rows: "active_overlaps d v = [c]"
  shows "request (activate_program_version i True) d = (Inr (activated v), replaced d v)"
  using rules_ok_replaced [OF ok found]
  by (simp add: rows activate_program_version_def rules_lookups request_def found found_def
      find_active_overlap_for_program_version_def bindO_def commit_and_refresh_eq replaced_def
      list_active_versions_by_program_def other_active_def activated_def)

lemma activate_many:
  assumes ok: "rules_ok d" and found: "find (\<lambda>v. pv_id v = i) (rd_versions d) = Some v"
    and rows: "active_overlaps d v = a # b # cs"
  shows "request (activate_program_version i force) d
     = (Inl (MultipleResultsFound ''Multiple rows were found when one or none was required''), d)"
  by (simp add: rows activate_program_version_def rules_lookups request_def found found_def
      find_active_overlap_for_program_version_def bindO_def)


lemma only_active_after_force:
  assumes ok: "rules_ok d" and found: "find (\<lambda>v. pv_id v = i) (rd_versions d) = Some v"
  shows "filter (\<lambda>x. pv_program_id x = pv_program_id v \<and> pv_status x = active_version)
      (rd_versions (replaced d v)) = [activated v]"
proof -
  have v: "v \<in> set (rd_versions d)" using find_mem [OF found] by simp
  have dist: "distinct (map pv_id (rd_versions d))" using ok by (simp add: rules_ok_defs)
  define ids where "ids = other_active d v"
  have "rd_versions (replaced d v) = map (\<lambda>x. if pv_id x = pv_id v then activated v
      else if pv_id x \<in> set ids then x\<lparr>pv_status := archived\<rparr> else x) (rd_versions d)"
    by (auto simp: replaced_def set_version_def archive_versions_def upd_where_def ids_def)
  moreover have "filter (\<lambda>x. pv_program_id x = pv_program_id v \<and> pv_status x = active_version)
      (map (\<lambda>x. if pv_id x = pv_id v then activated v
        else if pv_id x \<in> set ids then x\<lparr>pv_status := archived\<rparr> else x) vs)
      = map (\<lambda>_. activated v) (filter (\<lambda>x. pv_id x = pv_id v) vs)"
    if "set vs \<subseteq> set (rd_versions d)" for vs
    using that by (induction vs) (auto simp: ids_def other_active_def)
  moreover have "filter (\<lambda>x. pv_id x = pv_id v) vs = [v]" if "distinct (map pv_id vs)" "v \<in> set vs" for vs
    using that by (induction vs) (auto simp: filter_empty_conv rev_image_eqI)
  ultimately show ?thesis using v dist by simp
qed

section \<open>The service as a state machine\<close>

lemma no_overlap_activated:
  assumes "no_overlap d" and "active_overlaps d v = []"
  shows "no_overlap (set_version (activated v) d)"
proof (rule no_overlap_set_version [OF assms(1)])
  fix x assume x: "x \<in> set (rd_versions d)" "pv_id x \<noteq> pv_id (activated v)"
  then have "x \<notin> set (active_overlaps d v)" by (simp add: assms(2))
  with x show "\<not> overlaps x (activated v)" by (auto simp: active_overlaps_def overlaps_def)
qed

lemma no_overlap_replaced:
  assumes "no_overlap d"
  shows "no_overlap (replaced d v)"
  unfolding replaced_def
proof (rule no_overlap_set_version [OF no_overlap_archive [OF assms]])
  fix x assume "x \<in> set (rd_versions (archive_versions (other_active d v) d))"
    and "pv_id x \<noteq> pv_id (activated v)"
  then show "\<not> overlaps x (activated v)"
    by (auto simp: archive_versions_def set_upd_where overlaps_def other_active_def split: if_splits)
qed

lemma activate_program_version_inv:
  assumes I: "rules_inv d"
  shows "rules_inv (snd (request (activate_program_version i force) d))"
proof (cases "find (\<lambda>v. pv_id v = i) (rd_versions d)")
  case None
  then show ?thesis using I
    by (simp add: activate_program_version_def rules_lookups request_def found_def)
next
  case (Some v)
  have ok: "rules_ok d" and no: "no_overlap d" using I by (simp_all add: rules_inv_def)
  note act = activate_no_conflict [OF ok Some] activate_conflict [OF ok Some] activate_force [OF ok Some]
    activate_many [OF ok Some]
  consider (none) "active_overlaps d v = []" | (one) c where "active_overlaps d v = [c]"
    | (many) a b cs where "active_overlaps d v = a # b # cs"
    by (metis list.exhaust)
  then show ?thesis
  proof cases
    case none
    then show ?thesis using rules_ok_set_version [OF ok Some] no_overlap_activated [OF no]
      by (simp add: act rules_inv_def)
  next
    case one
    then show ?thesis using I rules_ok_replaced [OF ok Some] no_overlap_replaced [OF no]
      by (cases force) (simp_all add: act rules_inv_def)
  next
    case many
    then show ?thesis using I by (simp add: act)
  qed
qed

lemma creates_change_nothing [simp]:
  "snd (request (create_country cc) d) = d" "snd (request (create_program pc) d) = d"
  "snd (request (create_program_version now vc) d) = d" "snd (request (create_rule_group now gc) d) = d"
  "snd (request (create_rule_condition now dc) d) = d" "snd (request (create_rule_outcome oc) d) = d"
  using create_country_request [of cc d] create_program_request [of pc d]
    create_program_version_request [of now vc d] create_rule_group_request [of now gc d]
    create_rule_condition_request [of now dc d] create_rule_outcome_request [of oc d]
  by auto

interpretation rules: state_machine rules_step rules_inv rules_inv
proof
  fix d :: "'z rules_db_scheme" and e :: "time \<times> rules_request" assume I: "rules_inv d"
  obtain now r where e: "e = (now, r)" by (cases e)
  show "rules_inv (rules_step e d)"
    unfolding e using I
    by (cases r) (simp_all add: request_keeps [OF keeps_updates(1)] request_keeps [OF keeps_updates(2)]
        request_keeps [OF keeps_updates(3)] request_keeps [OF keeps_updates(4)]
        request_keeps [OF keeps_updates(5)] request_keeps [OF keeps_updates(6)]
        request_keeps [OF keeps_updates(7)] request_keeps [OF keeps_updates(8)]
        update_program_version_inv activate_program_version_inv)
qed

section \<open>Concrete inputs\<close>

definition demo_version :: "uuid \<Rightarrow> version_status \<Rightarrow> time \<Rightarrow> time option \<Rightarrow> program_version" where
  "demo_version i s a b = \<lparr>pv_id = i, pv_created_at = 0, pv_program_id = 2, pv_version = nat_str i,
     pv_status = s, pv_effective_from = a, pv_effective_to = b\<rparr>"

definition demo_group :: group_row where
  "demo_group = \<lparr>gr_id = 20, gr_created_at = 0, gr_program_version_id = 11, gr_code = ''g'', gr_name = ''g'',
     gr_description = None, gr_priority = 1, gr_match_operator = match_all, gr_is_active = True\<rparr>"

definition demo_condition :: condition_row where
  "demo_condition = \<lparr>cr_id = 30, cr_created_at = 0, cr_rule_group_id = 20, cr_field_key = ''age'',
     cr_operator = op_exists, cr_value_json = JBool True, cr_condition_order = 1, cr_is_required = True\<rparr>"

definition sample_rules :: "program_version list \<Rightarrow> rules_db" where
  "sample_rules vs = billing_db.extend empty_billing \<lparr>
     rd_countries = [\<lparr>co_id = 1, co_code = ''PT'', co_name = ''Portugal'', co_priority_rank = Some 2,
        co_diaspora_population_estimate = None, co_prioritization_source_url = None, co_is_active = True\<rparr>],
     rd_programs = [\<lparr>pg_id = 2, pg_country_id = 1, pg_code = ''D7'', pg_name = ''D7'', pg_description = None,
        pg_is_active = True\<rparr>],
     rd_versions = vs, rd_groups = [], rd_conditions = [], rd_outcomes = []\<rparr>"

definition two_versions :: rules_db where
  "two_versions = sample_rules [demo_version 11 active_version 0 (Some 10), demo_version 12 draft 5 None]"

definition three_versions :: rules_db where
  "three_versions = sample_rules [demo_version 11 active_version 0 (Some 10),
     demo_version 12 active_version 10 (Some 20), demo_version 13 draft 5 None]"

lemmas sample_rules_defs = two_versions_def three_versions_def sample_rules_def demo_version_def
  billing_db.extend_def empty_billing_def version_end_def end_of_time_def

lemma sample_texts: "nat_str 11 \<noteq> nat_str 12" "nat_str 11 \<noteq> nat_str 13" "nat_str 12 \<noteq> nat_str 13"
  by code_simp+

lemma two_versions_inv: "rules_inv two_versions"
  by (simp add: sample_texts rules_inv_def rules_ok_defs no_overlap_def overlaps_def sample_rules_defs)

section \<open>Properties\<close>

text \<open>
  C17. The active versions of a program never overlap: from a database where they do not, after any
  sequence of requests to the rules service, two different active versions of a program have
  disjoint effective periods.
\<close>

theorem active_versions_disjoint:
  assumes "rules_inv d"
    and "a \<in> set (rd_versions (fold rules_step requests d))" and "b \<in> set (rd_versions (fold rules_step requests d))"
    and "pv_program_id a = pv_program_id b" and "pv_status a = active_version" and "pv_status b = active_version"
    and "pv_id a \<noteq> pv_id b"
  shows "version_end a \<le> pv_effective_from b \<or> version_end b \<le> pv_effective_from a"
  using rules.run_inv [OF assms(1), of requests] assms(2-) unfolding rules_inv_def no_overlap_iff overlaps_def
  by (meson not_le)

text \<open>Activation has four outcomes: without a conflict the version becomes active; with one
  conflicting version it is refused unless forced, and a forced activation leaves it the only active
  version of its program; with two or more conflicting versions it fails, forced or not, and
  changes nothing.
\<close>

theorem activation_outcomes:
  assumes "rules_ok d" and "find (\<lambda>v. pv_id v = i) (rd_versions d) = Some v"
  shows "(active_overlaps d v = [] \<longrightarrow>
      request (activate_program_version i force) d = (Inr (activated v), set_version (activated v) d))
    \<and> (length (active_overlaps d v) = 1 \<longrightarrow>
        (\<exists>e. request (activate_program_version i False) d = (Inl (HTTPException 409 e), d))
        \<and> (\<exists>d'. request (activate_program_version i True) d = (Inr (activated v), d')
             \<and> filter (\<lambda>x. pv_program_id x = pv_program_id v \<and> pv_status x = active_version) (rd_versions d')
               = [activated v]))
    \<and> (1 < length (active_overlaps d v) \<longrightarrow>
        (\<exists>e. request (activate_program_version i force) d = (Inl (MultipleResultsFound e), d)))"
proof -
  note act = activate_no_conflict [OF assms] activate_conflict [OF assms] activate_force [OF assms]
    activate_many [OF assms]
  consider (none) "active_overlaps d v = []" | (one) c where "active_overlaps d v = [c]"
    | (many) a b cs where "active_overlaps d v = a # b # cs"
    by (metis list.exhaust)
  then show ?thesis
  proof cases
    case one
    with only_active_after_force [OF assms] show ?thesis by (simp add: act)
  qed (simp_all add: act)
qed


theorem active_versions_disjoint_witness:
  "version_end (demo_version 11 active_version 0 (Some 10)) \<le> pv_effective_from (demo_version 12 active_version 10 (Some 20))
   \<or> version_end (demo_version 12 active_version 10 (Some 20)) \<le> pv_effective_from (demo_version 11 active_version 0 (Some 10))"
  by (rule active_versions_disjoint [of three_versions _ "[]"])
    (simp_all add: rules_inv_def rules_ok_defs no_overlap_def overlaps_def sample_rules_defs sample_texts)

theorem activation_outcomes_witness:
  "\<exists>d' v. request (activate_program_version 12 True) two_versions = (Inr v, d')
     \<and> filter (\<lambda>x. pv_program_id x = 2 \<and> pv_status x = active_version) (rd_versions d') = [v]"
proof -
  let ?v = "demo_version 12 draft 5 None"
  have f: "find (\<lambda>v. pv_id v = 12) (rd_versions two_versions) = Some ?v"
    and o: "length (active_overlaps two_versions ?v) = 1"
    by (simp_all add: active_overlaps_def sample_rules_defs)
  have p: "pv_program_id ?v = 2" by (simp add: demo_version_def)
  have "rules_ok two_versions" using two_versions_inv by (simp add: rules_inv_def)
  from activation_outcomes [OF this f] o show ?thesis unfolding p by blast
qed

text \<open>The service never creates a row: every create request (country, program, version, group,
  condition, outcome) ends in an error and changes nothing, since it awaits the row that the
  repository returns directly.
\<close>

theorem creates_never_succeed:
  "(\<exists>e. request (create_country cc) d = (Inl e, d)) \<and> (\<exists>e. request (create_program pc) d = (Inl e, d))
   \<and> (\<exists>e. request (create_program_version now vc) d = (Inl e, d))
   \<and> (\<exists>e. request (create_rule_group now gc) d = (Inl e, d))
   \<and> (\<exists>e. request (create_rule_condition now dc) d = (Inl e, d))
   \<and> (\<exists>e. request (create_rule_outcome oc) d = (Inl e, d))"
  using create_country_request [of cc d] create_program_request [of pc d]
    create_program_version_request [of now vc d] create_rule_group_request [of now gc d]
    create_rule_condition_request [of now dc d] create_rule_outcome_request [of oc d]
  by blast

text \<open>A rule group is deleted exactly when it has no conditions and no outcomes; otherwise the
  request fails with a broken constraint and changes nothing (the cascade that the foreign keys
  declare never runs).
\<close>

theorem delete_group_needs_empty:
  assumes "rules_ok d" and "find (\<lambda>g. gr_id g = i) (rd_groups d) = Some g"
  shows "request (delete_rule_group i) d =
    (if list_all (\<lambda>c. cr_rule_group_id c \<noteq> i) (rd_conditions d)
        \<and> list_all (\<lambda>o1. ot_rule_group_id o1 \<noteq> i) (rd_outcomes d)
     then (Inr (), d\<lparr>rd_groups := filter (\<lambda>g. gr_id g \<noteq> i) (rd_groups d)\<rparr>)
     else (Inl (IntegrityError ''constraint violated''), d))"
proof -
  let ?d = "d\<lparr>rd_groups := filter (\<lambda>g. gr_id g \<noteq> i) (rd_groups d)\<rparr>"
  have ids: "set (map gr_id (filter (\<lambda>g. gr_id g \<noteq> i) (rd_groups d))) = set (map gr_id (rd_groups d)) - {i}"
    by auto
  have "rules_ok ?d \<longleftrightarrow> list_all (\<lambda>c. cr_rule_group_id c \<noteq> i) (rd_conditions d)
        \<and> list_all (\<lambda>o1. ot_rule_group_id o1 \<noteq> i) (rd_outcomes d)"
    using assms(1) unfolding rules_ok_def countries_ok_def programs_ok_def versions_ok_def groups_ok_def
      conditions_ok_def outcomes_ok_def list_all_iff
    by (simp add: ids distinct_map_filter del: set_map)
  then show ?thesis
    by (auto simp: delete_rule_group_def rules_lookups request_def assms(2) found_def bindO_def flush_def)
qed

theorem delete_group_needs_empty_witness:
  "request (delete_rule_group 20) (two_versions\<lparr>rd_groups := [demo_group], rd_conditions := [demo_condition]\<rparr>)
   = (Inl (IntegrityError ''constraint violated''),
      two_versions\<lparr>rd_groups := [demo_group], rd_conditions := [demo_condition]\<rparr>)"
  by (subst delete_group_needs_empty [of _ _ demo_group])
    (simp_all add: rules_ok_defs sample_rules_defs sample_texts demo_group_def demo_condition_def)

end
