(* ===== verification/Jobs_Contract.thy ===== *)
theory Jobs_Contract
  imports Jobs Rules_Versions
begin

text \<open>
  The contract of the jobs repository. Its four transitions refine an abstract machine on the
  statuses alone; a completed job is left only by a recorded failure; creation is idempotent.
\<close>

section \<open>The transitions on the table\<close>

definition keeps_keys :: "(job \<Rightarrow> job) \<Rightarrow> bool" where
  "keeps_keys f \<longleftrightarrow> (\<forall>j. jb_id (f j) = jb_id j \<and> jb_job_type (f j) = jb_job_type j
     \<and> jb_idempotency_key (f j) = jb_idempotency_key j \<and> jb_assessment_id (f j) = jb_assessment_id j
     \<and> jb_roadmap_id (f j) = jb_roadmap_id j)"

lemma keeps_keys_transitions [simp]:
  "keeps_keys (running_job now tr)" "keeps_keys (retried_job err)" "keeps_keys (finished_job now st er ms)"
  "keeps_keys (\<lambda>j. j\<lparr>jb_trace_id := tr\<rparr>)"
  by (simp_all add: keeps_keys_def running_job_def retried_job_def finished_job_def)

lemma set_job_tables [simp]:
  "ad_snapshots (set_job i f d) = ad_snapshots d" "ad_assessments (set_job i f d) = ad_assessments d"
  "ad_results (set_job i f d) = ad_results d" "ad_items (set_job i f d) = ad_items d"
  "ad_roadmaps (set_job i f d) = ad_roadmaps d" "ad_steps (set_job i f d) = ad_steps d"
  "bd_users (set_job i f d) = bd_users d" "rd_programs (set_job i f d) = rd_programs d"
  "rd_versions (set_job i f d) = rd_versions d" "bd_next (set_job i f d) = bd_next d"
  by (simp_all add: set_job_def)

lemma app_ok_set_job:
  assumes "app_ok d" and f: "keeps_keys f"
  shows "app_ok (set_job i f d)"
proof -
  have eq: "map g (ad_jobs (set_job i f d)) = map g (ad_jobs d)" if "\<And>j. g (f j) = g j" for g :: "job \<Rightarrow> 'b"
    using that by (simp add: set_job_def upd_where_map)
  have maps: "map jb_id (ad_jobs (set_job i f d)) = map jb_id (ad_jobs d)"
    "map (\<lambda>j. (jb_job_type j, jb_idempotency_key j)) (ad_jobs (set_job i f d))
       = map (\<lambda>j. (jb_job_type j, jb_idempotency_key j)) (ad_jobs d)"
    using f by (intro eq; simp add: keeps_keys_def)+
  have refs: "list_all (\<lambda>j. fk (jb_assessment_id j) (map am_id (ad_assessments d))
          \<and> fk (jb_roadmap_id j) (map rm_id (ad_roadmaps d))) (ad_jobs (set_job i f d))"
    using assms by (auto simp: set_job_def set_upd_where app_ok_def jobs_ok_def list_all_iff keeps_keys_def)
  show ?thesis
    using assms(1) refs
    unfolding app_ok_def snapshots_ok_def assessments_ok_def results_ok_def items_ok_def roadmaps_ok_def
      steps_ok_def jobs_ok_def set_job_tables maps by blast
qed

lemma job_of_id: "job_of d i = Some j \<Longrightarrow> jb_id j = i \<and> j \<in> set (ad_jobs d)"
  unfolding job_of_def using find_mem by fastforce

lemma job_of_set_job:
  assumes "keeps_keys f"
  shows "job_of (set_job i f d) k = (if k = i then map_option f (job_of d i) else job_of d k)"
proof -
  have "find (\<lambda>j. jb_id j = k) (upd_where (\<lambda>j. jb_id j = i) f js)
      = (if k = i then map_option f (find (\<lambda>j. jb_id j = i) js) else find (\<lambda>j. jb_id j = k) js)" for js
    using assms by (induction js) (auto simp: upd_where_def keeps_keys_def)
  then show ?thesis by (simp add: job_of_def set_job_def)
qed

lemma change_job_eq:
  assumes "\<not> aborted t" and "app_ok (working t)" and "keeps_keys f"
  shows "change_job i f t = (case job_of (working t) i of
      None \<Rightarrow> (Inl (NoResultFound ''No row was found when one was required''), t)
    | Some j \<Rightarrow> (Inr (f j), t\<lparr>working := set_job i f (working t), committed := set_job i f (working t)\<rparr>))"
  using assms by (cases "job_of (working t) i") (simp_all add: change_job_def get_job_def app_ok_set_job)

lemma change_job_request:
  assumes "app_ok d" and "keeps_keys f"
  shows "request (change_job i f) d = (case job_of d i of
      None \<Rightarrow> (Inl (NoResultFound ''No row was found when one was required''), d)
    | Some j \<Rightarrow> (Inr (f j), set_job i f d))"
  using assms by (cases "job_of d i") (simp_all add: request_def change_job_eq)

section \<open>Refinement\<close>

datatype job_event =
    Job_Running uuid "string option"
  | Job_Retry uuid string
  | Job_Completed uuid int
  | Job_Failed uuid string int bool

fun job_step :: "time \<times> job_event \<Rightarrow> 'z app_db_scheme \<Rightarrow> 'z app_db_scheme" where
  "job_step (now, Job_Running i tr) d = snd (request (mark_running now i tr) d)"
| "job_step (now, Job_Retry i err) d = snd (request (mark_pending_retry i err) d)"
| "job_step (now, Job_Completed i ms) d = snd (request (mark_completed now i ms) d)"
| "job_step (now, Job_Failed i err ms dl) d = snd (request (mark_failed now i err ms dl) d)"

text \<open>The abstract machine: a status for each job that exists.\<close>

fun job_target :: "job_event \<Rightarrow> uuid" where
  "job_target (Job_Running i _) = i"
| "job_target (Job_Retry i _) = i"
| "job_target (Job_Completed i _) = i"
| "job_target (Job_Failed i _ _ _) = i"

fun next_status :: "job_event \<Rightarrow> job_status \<Rightarrow> job_status" where
  "next_status (Job_Running _ _) s = (if s = job_completed then s else job_running)"
| "next_status (Job_Retry _ _) s = (if s = job_completed then s else job_pending)"
| "next_status (Job_Completed _ _) s = job_completed"
| "next_status (Job_Failed _ _ _ dl) s = (if dl then job_dead_letter else job_failed)"

fun status_step :: "time \<times> job_event \<Rightarrow> (uuid \<Rightarrow> job_status option) \<Rightarrow> uuid \<Rightarrow> job_status option" where
  "status_step (now, e) m = m(job_target e := map_option (next_status e) (m (job_target e)))"

definition job_statuses :: "'z app_db_scheme \<Rightarrow> uuid \<Rightarrow> job_status option" where
  "job_statuses d i = map_option jb_status (job_of d i)"

definition event_change :: "time \<Rightarrow> job_event \<Rightarrow> job \<Rightarrow> job" where
  "event_change now e = (case e of
     Job_Running i tr \<Rightarrow> running_job now tr
   | Job_Retry i err \<Rightarrow> retried_job err
   | Job_Completed i ms \<Rightarrow> finished_job now job_completed None ms
   | Job_Failed i err ms dl \<Rightarrow> finished_job now (if dl then job_dead_letter else job_failed) (Some err) ms)"

lemma event_change_keys [simp]: "keeps_keys (event_change now e)"
  by (cases e) (simp_all add: event_change_def)

lemma event_change_status: "jb_status (event_change now e j) = next_status e (jb_status j)"
  by (cases e) (simp_all add: event_change_def running_job_def retried_job_def finished_job_def)

lemma job_step_eq:
  "job_step (now, e) d = snd (request (change_job (job_target e) (event_change now e)) d)"
  by (cases e) (simp_all add: event_change_def mark_running_def mark_pending_retry_def mark_completed_def
      mark_failed_def)

lemma set_job_absent: "job_of d i = None \<Longrightarrow> set_job i f d = d"
proof -
  assume "job_of d i = None"
  then have "\<And>j. j \<in> set (ad_jobs d) \<Longrightarrow> jb_id j \<noteq> i"
    unfolding job_of_def find_None_iff by blast
  then show ?thesis by (simp add: set_job_def upd_where_none)
qed

lemma job_step_set: "app_ok d \<Longrightarrow> job_step (now, e) d = set_job (job_target e) (event_change now e) d"
  using set_job_absent [of d "job_target e" "event_change now e"]
  by (cases "job_of d (job_target e)") (simp_all only: job_step_eq change_job_request event_change_keys
      option.case snd_conv)

interpretation jobs: refined_machine job_step app_ok app_ok job_statuses status_step
proof
  fix d :: "'z app_db_scheme" and x :: "time \<times> job_event" assume ok: "app_ok d"
  obtain now e where x: "x = (now, e)" by (cases x)
  show "app_ok (job_step x d)" using ok by (simp only: x job_step_set app_ok_set_job event_change_keys)
  show "job_statuses (job_step x d) = status_step x (job_statuses d)"
  proof
    fix k show "job_statuses (job_step x d) k = status_step x (job_statuses d) k"
      using ok by (cases "job_of d (job_target e)")
        (simp_all add: x job_step_set job_statuses_def job_of_set_job event_change_status)
  qed
qed

lemma completed_fold:
  "m i = Some job_completed \<Longrightarrow> (\<And>now err ms dl. (now, Job_Failed i err ms dl) \<notin> set es) \<Longrightarrow>
   fold status_step es m i = Some job_completed"
proof (induction es arbitrary: m)
  case (Cons x es)
  obtain now e where x: "x = (now, e)" by (cases x)
  have "status_step x m i = Some job_completed"
    using Cons.prems unfolding x by (cases e) auto
  with Cons show ?case by simp
qed simp

section \<open>Creation\<close>

lemma job_by_key_append:
  "job_by_key d (jb_job_type j) (jb_idempotency_key j) = None \<Longrightarrow>
   job_by_key (d\<lparr>ad_jobs := ad_jobs d @ [j], bd_next := n\<rparr>) (jb_job_type j) (jb_idempotency_key j) = Some j"
  by (simp add: job_by_key_def find_append)

lemma get_or_create_job_post:
  assumes "get_or_create_job now ty key a r tr t = (Inr j, t')"
  shows "job_by_key (working t') ty key = Some j \<and> \<not> aborted t'
    \<and> (opt_truthy tr \<longrightarrow> opt_truthy (jb_trace_id j))"
proof -
  note un = assms [unfolded get_or_create_job_def get_job_by_key_def, unfolded bindO_eq_Inr]
  from un obtain ex where q: "ex = job_by_key (working t) ty key" and na: "\<not> aborted t"
    and k: "(case ex of
       Some j \<Rightarrow>
         if opt_truthy tr \<and> \<not> opt_truthy (jb_trace_id j) then
           bindO (aflush (set_job (jb_id j) (\<lambda>x. x\<lparr>jb_trace_id := tr\<rparr>))) (\<lambda>_.
           bindO commit (\<lambda>_. ret (j\<lparr>jb_trace_id := tr\<rparr>)))
         else ret j
     | None \<Rightarrow>
         bindO (query (\<lambda>d. new_job (bd_next d) now ty key a r tr)) (\<lambda>j.
         bindO (aflush (\<lambda>d. d\<lparr>ad_jobs := ad_jobs d @ [j], bd_next := Suc (bd_next d)\<rparr>)) (\<lambda>_.
         bindO commit (\<lambda>_. ret j)))) t = (Inr j, t')"
    by (auto simp: query_success)
  show ?thesis
  proof (cases ex)
    case None
    let ?j = "new_job (bd_next (working t)) now ty key a r tr"
    have ty: "jb_job_type ?j = ty" "jb_idempotency_key ?j = key" "jb_trace_id ?j = tr"
      by (simp_all add: new_job_def)
    from k None na have "j = ?j" and "working t' = (working t)\<lparr>ad_jobs := ad_jobs (working t) @ [?j],
        bd_next := Suc (bd_next (working t))\<rparr>" and "\<not> aborted t'"
      by (auto simp: txn_success)
    with None q ty job_by_key_append [of "working t" ?j] show ?thesis by simp
  next
    case (Some x)
    show ?thesis
    proof (cases "opt_truthy tr \<and> \<not> opt_truthy (jb_trace_id x)")
      case True
      have x: "jb_job_type x = ty" "jb_idempotency_key x = key" using q Some find_mem
        by (fastforce simp: job_by_key_def)+
      have upd: "find (\<lambda>j. jb_job_type j = ty \<and> jb_idempotency_key j = key)
          (upd_where (\<lambda>j. jb_id j = jb_id x) (\<lambda>x. x\<lparr>jb_trace_id := tr\<rparr>) js) = Some (x\<lparr>jb_trace_id := tr\<rparr>)"
        if "find (\<lambda>j. jb_job_type j = ty \<and> jb_idempotency_key j = key) js = Some x" for js
        using that by (induction js) (auto simp: upd_where_def split: if_splits)
      from k Some True have "j = x\<lparr>jb_trace_id := tr\<rparr>" "\<not> aborted t'"
        "working t' = set_job (jb_id x) (\<lambda>x. x\<lparr>jb_trace_id := tr\<rparr>) (working t)"
        by (auto simp: txn_success)
      with True upd q Some show ?thesis by (simp add: job_by_key_def set_job_def)
    next
      case False
      with k Some q na show ?thesis by auto
    qed
  qed
qed

lemma get_or_create_job_again:
  assumes "job_by_key (working t) ty key = Some j" and "\<not> aborted t"
    and "opt_truthy tr \<longrightarrow> opt_truthy (jb_trace_id j)"
  shows "get_or_create_job now ty key a r tr t = (Inr j, t)"
  using assms by (auto simp: get_or_create_job_def get_job_by_key_def)


section \<open>Concrete inputs\<close>

definition empty_app :: app_db where
  "empty_app = rules_db.extend (sample_rules [demo_version 11 active_version 0 None]) \<lparr>
     ad_snapshots = [], ad_assessments = [], ad_results = [], ad_items = [], ad_roadmaps = [], ad_steps = [],
     ad_jobs = []\<rparr>"

definition sample_job :: job where
  "sample_job = new_job 40 0 score_job ''assessment:x'' None None None"

definition job_app :: app_db where
  "job_app = empty_app\<lparr>ad_jobs := [sample_job]\<rparr>"

lemmas job_app_defs = job_app_def empty_app_def sample_job_def new_job_def rules_db.extend_def

lemma job_app_ok: "app_ok job_app"
  by (simp add: app_ok_defs job_app_defs fk_def)

section \<open>Properties\<close>

text \<open>
  C38. The job table refines the machine of statuses: over any sequence of transitions (running,
  retry, completed, failed) the status of every job, and the absence of a job, is what the
  abstract machine computes from the statuses alone.
\<close>

theorem job_status_refinement:
  assumes "app_ok d"
  shows "job_statuses (fold job_step events d) = fold status_step events (job_statuses d)"
  by (rule jobs.run_refines [OF assms])

theorem job_status_refinement_witness:
  "job_statuses (fold job_step [(1, Job_Running 40 None), (2, Job_Completed 40 7)] job_app) 40 = Some job_completed"
  unfolding job_status_refinement [OF job_app_ok] by (simp add: job_statuses_def job_of_def job_app_defs)

text \<open>A completed job stays completed: restarts and retries of its task do not reopen it; only an
  explicitly recorded failure of the same job can.
\<close>

theorem completed_job_stays:
  assumes "app_ok d" and "job_statuses d i = Some job_completed"
    and "\<And>now err ms dl. (now, Job_Failed i err ms dl) \<notin> set events"
  shows "job_statuses (fold job_step events d) i = Some job_completed"
  unfolding jobs.run_refines [OF assms(1)] by (rule completed_fold [of "job_statuses d", OF assms(2,3)])

theorem completed_job_stays_witness:
  "job_statuses (fold job_step [(3, Job_Running 40 None), (4, Job_Retry 40 ''x'')]
     (set_job 40 (finished_job 2 job_completed None 7) job_app)) 40 = Some job_completed"
proof (rule completed_job_stays)
  show "app_ok (set_job 40 (finished_job 2 job_completed None 7) job_app)"
    by (simp add: app_ok_set_job job_app_ok)
  have "job_of job_app 40 = Some sample_job" by (simp add: job_of_def job_app_def sample_job_def new_job_def)
  then show "job_statuses (set_job 40 (finished_job 2 job_completed None 7) job_app) 40 = Some job_completed"
    by (simp add: job_statuses_def job_of_set_job finished_job_def)
qed simp

text \<open>Creating a job is idempotent: a second request for the same type and key, with the same
  trace, returns the same job and writes nothing.
\<close>

theorem get_or_create_job_idempotent:
  assumes "get_or_create_job now ty key a r tr t = (Inr j, t')"
  shows "get_or_create_job later ty key a' r' tr t' = (Inr j, t')"
  using get_or_create_job_post [OF assms] get_or_create_job_again by blast

theorem get_or_create_job_idempotent_witness:
  "\<exists>j (t' :: app_db txn). get_or_create_job 9 roadmap_job ''k'' None None None t' = (Inr j, t')
     \<and> jb_idempotency_key j = ''k'' \<and> ad_jobs (working t') = [sample_job, j]"
proof -
  let ?j = "new_job (bd_next job_app) 5 roadmap_job ''k'' None None None"
  have ok: "app_ok (job_app\<lparr>ad_jobs := ad_jobs job_app @ [?j], bd_next := Suc (bd_next job_app)\<rparr>)"
    by (simp add: app_ok_defs job_app_defs fk_def sample_rules_defs)
  have none: "job_by_key job_app roadmap_job ''k'' = None" by (simp add: job_by_key_def job_app_defs)
  have "\<exists>t'. get_or_create_job 5 roadmap_job ''k'' None None None (begin_txn job_app) = (Inr ?j, t')
      \<and> ad_jobs (working t') = ad_jobs job_app @ [?j]"
    using ok none by (simp add: get_or_create_job_def get_job_by_key_def)
  then obtain t' where t': "get_or_create_job 5 roadmap_job ''k'' None None None (begin_txn job_app) = (Inr ?j, t')"
    and js: "ad_jobs (working t') = ad_jobs job_app @ [?j]" by blast
  from get_or_create_job_idempotent [OF t', of 9 None None] js show ?thesis
    by (intro exI [of _ ?j] exI [of _ t']) (simp add: job_app_def new_job_def)
qed

end
