(* ===== verification/Assessments_Contract.thy ===== *)
theory Assessments_Contract
  imports Assessments Jobs_Contract
begin

text \<open>
  The contract of the assessments service: what is stored is what the engine computed, creation is
  idempotent, what creation costs, the outcome of a computation on every branch, and the rule
  version it uses.
\<close>

section \<open>Storing a score\<close>

lemma rhu_near: "\<bar>y - of_int c\<bar> < 1/2 \<Longrightarrow> rhu y = c"
proof -
  assume h: "\<bar>y - of_int c\<bar> < 1/2"
  have "\<lfloor>y + 1/2\<rfloor> = c" and "\<lfloor>1/2 - y\<rfloor> = - c"
    using h unfolding floor_eq_iff abs_less_iff by linarith+
  then show ?thesis by (simp add: rhu_def)
qed

lemma fl_near:
  assumes "\<bar>x\<bar> \<le> 10 ^ 6"
  shows "\<bar>fl x - x\<bar> \<le> 1 / 1024"
proof -
  define k where "k = \<lfloor>x * 1024\<rfloor>"
  have lo: "of_int k * 2 powi (-10) \<le> x" and hi: "x \<le> of_int (k + 1) * 2 powi (-10)"
    using floor_correct [of "x * 1024"] by (simp_all add: k_def power_int_minus field_simps)
  have "\<bar>k\<bar> \<le> 1024 * 10 ^ 6 + 1"
    using assms floor_correct [of "x * 1024"] unfolding k_def abs_le_iff by (auto simp: floor_le_iff le_floor_iff)
  then have b: "\<bar>k\<bar> \<le> 2 ^ 53" and b2: "\<bar>k + 1\<bar> \<le> 2 ^ 53" by (simp_all add: abs_le_iff)
  have "of_int k * 2 powi (-10) \<le> fl x"
    using binary64.rnd_mono [OF lo] fl_scaled [OF b, of "- 10"] by simp
  moreover have "fl x \<le> of_int (k + 1) * 2 powi (-10)"
    using binary64.rnd_mono [OF hi] fl_scaled [OF b2, of "- 10"] by simp
  ultimately show ?thesis
    using lo hi unfolding abs_le_iff power_int_minus by (auto simp: field_simps)
qed

lemma numeric_2_cents:
  assumes "\<bar>c\<bar> \<le> 10 ^ 8"
  shows "numeric_2 (of_int c / 100) = of_int c / 100"
proof -
  have "\<bar>of_int c / 100\<bar> \<le> (10 ^ 6 :: rat)"
  proof -
    have "\<bar>of_int c\<bar> \<le> (10 ^ 8 :: rat)" using assms by (metis of_int_abs of_int_le_iff of_int_numeral of_int_power)
    then show ?thesis by simp
  qed
  from fl_near [OF this] have "\<bar>fl (of_int c / 100) * 100 - of_int c\<bar> < 1 / 2"
    by (simp add: abs_le_iff abs_less_iff field_simps)
  from rhu_near [OF this] show ?thesis by (simp add: numeric_2_def q2_alt)
qed

section \<open>Frames\<close>

text \<open>
  \<open>same v d\<close>: the usage counters and the tables beyond billing are \<open>v\<close>. The billing operations
  that a replayed request runs keep it.
\<close>

definition same :: "usage_counter list \<times> 'z \<Rightarrow> 'z billing_db_scheme \<Rightarrow> bool" where
  "same v d \<longleftrightarrow> (bd_counters d, billing_db.more d) = v"

lemma same_flush:
  "(\<And>d. bd_counters (f d) = bd_counters d \<and> billing_db.more (f d) = billing_db.more d) \<Longrightarrow>
   keeps (both (same v)) (flush ok f)"
  by (rule keeps_flush) (simp add: same_def)

lemma same_get_or_create_plan [inv_intros]: "keeps (both (same v)) (get_or_create_plan p)"
  unfolding get_or_create_plan_def get_plan_by_code_def Let_def
  by (intro inv_intros same_flush; simp)

lemma same_ensure_default_plans [inv_intros]: "keeps (both (same v)) (ensure_default_plans cfg)"
  unfolding ensure_default_plans_def by (intro inv_intros)

lemma same_apply_plan [inv_intros]: "keeps (both (same v)) (apply_plan_entitlements cfg now u p s)"
  unfolding apply_plan_entitlements_def deactivate_active_entitlements_def create_entitlement_def
  by (intro inv_intros same_flush; simp)

lemma same_baseline [inv_intros]: "keeps (both (same v)) (ensure_user_access_baseline cfg now u)"
  unfolding ensure_user_access_baseline_def list_active_entitlements_def get_plan_by_code_def
  by (intro inv_intros)

lemma same_priority: "keeps (both (same v)) (has_priority_processing cfg now u)"
  unfolding has_priority_processing_def get_active_entitlement_def by (intro inv_intros)

lemma more_tables:
  fixes d d' :: "'z app_db_scheme"
  assumes "billing_db.more d' = billing_db.more d"
  shows "ad_assessments d' = ad_assessments d \<and> ad_jobs d' = ad_jobs d"
  using assms by (cases d; cases d'; simp)

section \<open>Idempotency\<close>

text \<open>\<open>registered u key a j d\<close>: the key names the assessment, and its job exists.\<close>

definition registered :: "uuid \<Rightarrow> string \<Rightarrow> assessment \<Rightarrow> job \<Rightarrow> 'z app_db_scheme \<Rightarrow> bool" where
  "registered u key a j d \<longleftrightarrow> assessment_by_key d u key = Some a
     \<and> job_by_key d score_job (''assessment:'' @ uuid_str (am_id a)) = Some j"

lemma registered_more: "billing_db.more d' = billing_db.more d \<Longrightarrow> registered u key a j d' = registered u key a j d"
  using more_tables [of d' d] by (simp add: registered_def assessment_by_key_def job_by_key_def)

lemma get_or_create_job_frame:
  assumes "get_or_create_job now ty key a r tr t = (Inr j, t')"
  shows "ad_assessments (working t') = ad_assessments (working t)
    \<and> (committed t' = working t' \<or> committed t' = committed t \<and> working t' = working t)"
proof (cases "job_by_key (working t) ty key")
  case None
  with assms show ?thesis by (auto simp: get_or_create_job_def get_job_by_key_def txn_success)
next
  case (Some x)
  with assms show ?thesis
    by (auto simp: get_or_create_job_def get_job_by_key_def txn_success split: if_splits)
qed

text \<open>A new assessment after the quota was granted.\<close>

definition create_after_quota :: "time \<Rightarrow> uuid \<Rightarrow> assessment_create \<Rightarrow> bool \<Rightarrow> ('z, assessment \<times> bool) app_op" where
  "create_after_quota now u p priority =
     bindO (get_latest_snapshot_version u) (\<lambda>latest.
     bindO (create_profile_snapshot u (latest + 1) (ac_profile_json p) (hash_profile (ac_profile_json p))) (\<lambda>s.
     bindO (create_assessment_row now u (ac_program_id p) (sn_id s) (ac_idempotency_key p)) (\<lambda>a.
     bindO commit (\<lambda>_. ret (a, priority)))))"

lemma create_or_find_new_eq:
  "\<not> aborted t \<Longrightarrow> assessment_by_key (working t) u (ac_idempotency_key p) = None \<Longrightarrow>
   create_or_find_assessment cfg now u p t
     = bindO (consume_assessment_quota cfg now u) (create_after_quota now u p) t"
  by (simp add: create_or_find_assessment_def get_assessment_by_user_idempotency_def create_after_quota_def
      [abs_def])

definition more_same :: "'z \<Rightarrow> 'z billing_db_scheme \<Rightarrow> bool" where
  "more_same m d \<longleftrightarrow> billing_db.more d = m"

lemma more_same_flush:
  "(\<And>d. billing_db.more (f d) = billing_db.more d) \<Longrightarrow> keeps (both (more_same m)) (flush ok f)"
  by (rule keeps_flush) (simp add: more_same_def)

lemma more_same_baseline [inv_intros]: "keeps (both (more_same m)) (ensure_user_access_baseline cfg now u)"
  unfolding ensure_user_access_baseline_def list_active_entitlements_def get_plan_by_code_def
    ensure_default_plans_def get_or_create_plan_def Let_def apply_plan_entitlements_def
    deactivate_active_entitlements_def create_entitlement_def
  by (intro inv_intros more_same_flush; simp)

lemma more_same_meter: "keeps (both (more_same m)) (meter_usage cfg now u e)"
  unfolding meter_usage_def get_or_create_usage_counter_def increment_counter_def Let_def case_prod_beta
  by (intro inv_intros more_same_flush; simp)

lemma more_same_consume: "keeps (both (more_same m)) (consume_assessment_quota cfg now u)"
  unfolding consume_assessment_quota_def get_active_entitlement_def
  by (intro inv_intros more_same_meter)

lemma create_after_quota_post:
  assumes "create_after_quota now u p pr t = (Inr (a, pr'), t')"
    and "assessment_by_key (working t) u (ac_idempotency_key p) = None"
  shows "assessment_by_key (working t') u (ac_idempotency_key p) = Some a \<and> \<not> aborted t'
    \<and> committed t' = working t' \<and> pr' = pr"
  using assms
  by (auto simp: create_after_quota_def get_latest_snapshot_version_def create_profile_snapshot_def
      create_assessment_row_def txn_success assessment_by_key_def find_append)

lemma create_or_find_new:
  assumes "create_or_find_assessment cfg now u p (begin_txn d) = (Inr (a, pr), t)"
    and "assessment_by_key d u (ac_idempotency_key p) = None"
  shows "\<exists>t2. assessment_by_key (working t2) u (ac_idempotency_key p) = None
    \<and> create_after_quota now u p pr t2 = (Inr (a, pr), t)"
proof -
  have "bindO (consume_assessment_quota cfg now u) (create_after_quota now u p) (begin_txn d) = (Inr (a, pr), t)"
    using assms create_or_find_new_eq [of "begin_txn d" u p cfg now] by simp
  then obtain pr0 t2 where c: "consume_assessment_quota cfg now u (begin_txn d) = (Inr pr0, t2)"
    and k: "create_after_quota now u p pr0 t2 = (Inr (a, pr), t)"
    unfolding bindO_eq_Inr by blast
  have "both (more_same (billing_db.more d)) t2"
    using keepsD [OF more_same_consume _ c, of "billing_db.more d"] by (simp add: both_def more_same_def)
  then have "assessment_by_key (working t2) u (ac_idempotency_key p) = None"
    using assms(2) more_tables [of "working t2" d] by (simp add: both_def more_same_def assessment_by_key_def)
  with k create_after_quota_post [OF k this] show ?thesis by blast
qed

lemma create_or_find_post:
  assumes "create_or_find_assessment cfg now u p (begin_txn d) = (Inr (a, pr), t)"
  shows "assessment_by_key (working t) u (ac_idempotency_key p) = Some a \<and> \<not> aborted t
    \<and> (committed t = working t \<or> both (same (bd_counters d, billing_db.more d)) t)"
proof (cases "assessment_by_key d u (ac_idempotency_key p)")
  case (Some x)
  from assms Some have x: "a = x" and h: "has_priority_processing cfg now u (begin_txn d) = (Inr pr, t)"
    by (auto simp: create_or_find_assessment_def get_assessment_by_user_idempotency_def bindO_eq_Inr)
  have b: "both (same (bd_counters d, billing_db.more d)) t"
    using keepsD [OF same_priority _ h, of "(bd_counters d, billing_db.more d)"] by (simp add: both_def same_def)
  then have "ad_assessments (working t) = ad_assessments d"
    using more_tables [of "working t" d] by (simp add: both_def same_def)
  moreover have "\<not> aborted t" using h
    by (auto simp: has_priority_processing_def get_active_entitlement_def txn_success)
  ultimately show ?thesis using Some x b by (simp add: assessment_by_key_def)
next
  case None
  obtain t2 where "assessment_by_key (working t2) u (ac_idempotency_key p) = None"
    and "create_after_quota now u p pr t2 = (Inr (a, pr), t)"
    using create_or_find_new [OF assms None] by blast
  from create_after_quota_post [OF this(2,1)] show ?thesis by simp
qed


lemma same_more: "both (same (bd_counters d, billing_db.more d)) t \<Longrightarrow>
    billing_db.more (working t) = billing_db.more d \<and> billing_db.more (committed t) = billing_db.more d"
  by (simp add: both_def same_def)

text \<open>After a creation that answered, the key and its job are in the committed tables.\<close>

lemma create_assessment_post:
  assumes "request (create_assessment cfg now u p tr) d = (Inr q, d1)"
  shows "\<exists>a j. registered u (ac_idempotency_key p) a j d1 \<and> aq_assessment_id q = am_id a \<and> aq_job_id q = jb_id j
    \<and> (opt_truthy tr \<longrightarrow> opt_truthy (jb_trace_id j))"
proof -
  let ?key = "ac_idempotency_key p"
  obtain t2 where run: "create_assessment cfg now u p tr (begin_txn d) = (Inr q, t2)" and d1: "d1 = committed t2"
    using assms by (auto simp: request_def split: prod.splits)
  from run [unfolded create_assessment_def bindO_eq_Inr] obtain a pr t1 j
    where c: "create_or_find_assessment cfg now u p (begin_txn d) = (Inr (a, pr), t1)"
      and g: "get_or_create_job now score_job (''assessment:'' @ uuid_str (am_id a)) (Some (am_id a)) None tr t1
        = (Inr j, t2)"
      and q: "aq_assessment_id q = am_id a" "aq_job_id q = jb_id j"
    by (auto simp: bindO_eq_Inr)
  note post = create_or_find_post [OF c] and job = get_or_create_job_post [OF g] and fr = get_or_create_job_frame [OF g]
  have reg: "registered u ?key a j (working t2)"
    using post job fr by (simp add: registered_def assessment_by_key_def)
  have "registered u ?key a j (committed t2)"
  proof (cases "committed t2 = working t2")
    case False
    with fr have f: "committed t2 = committed t1" "working t2 = working t1" by auto
    with False post have "both (same (bd_counters d, billing_db.more d)) t1" by auto
    from same_more [OF this] have "billing_db.more (committed t2) = billing_db.more (working t2)" using f by simp
    with reg registered_more show ?thesis by blast
  qed (use reg in simp)
  then show ?thesis using d1 q job by blast
qed

lemma create_assessment_again:
  assumes reg: "registered u (ac_idempotency_key p) a j d" and tr: "opt_truthy tr \<longrightarrow> opt_truthy (jb_trace_id j)"
    and run: "request (create_assessment cfg now u p tr) d = (Inr q, d1)"
  shows "aq_assessment_id q = am_id a \<and> aq_job_id q = jb_id j
    \<and> bd_counters d1 = bd_counters d \<and> billing_db.more d1 = billing_db.more d"
proof -
  obtain t2 where run: "create_assessment cfg now u p tr (begin_txn d) = (Inr q, t2)" and d1: "d1 = committed t2"
    using run by (auto simp: request_def split: prod.splits)
  from run [unfolded create_assessment_def bindO_eq_Inr] obtain b pr t1 k
    where c: "create_or_find_assessment cfg now u p (begin_txn d) = (Inr (b, pr), t1)"
      and g: "get_or_create_job now score_job (''assessment:'' @ uuid_str (am_id b)) (Some (am_id b)) None tr t1
        = (Inr k, t2)"
      and q: "aq_assessment_id q = am_id b" "aq_job_id q = jb_id k"
    by (auto simp: bindO_eq_Inr)
  from c reg have b: "b = a" and h: "has_priority_processing cfg now u (begin_txn d) = (Inr pr, t1)"
    by (auto simp: create_or_find_assessment_def get_assessment_by_user_idempotency_def bindO_eq_Inr registered_def)
  have s: "both (same (bd_counters d, billing_db.more d)) t1"
    using keepsD [OF same_priority _ h, of "(bd_counters d, billing_db.more d)"] by (simp add: both_def same_def)
  from same_more [OF s] reg have "registered u (ac_idempotency_key p) a j (working t1)"
    using registered_more by blast
  then have "get_or_create_job now score_job (''assessment:'' @ uuid_str (am_id b)) (Some (am_id b)) None tr t1
      = (Inr j, t1)"
    using create_or_find_post [OF c] tr b by (intro get_or_create_job_again) (simp_all add: registered_def)
  with g have "k = j" "t2 = t1" by simp_all
  with q b d1 s show ?thesis by (simp add: both_def same_def)
qed


section \<open>Computation\<close>

lemma score_cents:
  assumes "evaluate alg p pv gs = Inr r"
  shows "\<exists>k. sr_score_final r = of_int k / 100 \<and> 0 \<le> k \<and> k \<le> 10000"
proof -
  have q: "\<exists>k. s = of_int k / 100" if "normalize_score raw gs = Inr s" for raw gs s
  proof -
    have "s = q2 s"
      using that unfolding normalize_score_def Let_def by (auto split: if_splits dest!: quantize2_Inr)
    then show ?thesis unfolding q2_alt by blast
  qed
  have "(\<exists>k. sr_score_final r = of_int k / 100) \<and> 0 \<le> sr_score_final r \<and> sr_score_final r \<le> 100"
    using assms
  proof (rule evaluate_success)
    fix items assume "r = blocked_result alg (compute_rules_version_hash pv (sort_key group_key gs)) items"
    then show ?thesis by (simp add: exI [of _ 0])
  next
    fix items score raw_q
    assume n: "normalize_score (dec_sum (map bi_score_delta items)) (sort_key group_key gs) = Inr score"
      and r: "r = scored_result alg (compute_rules_version_hash pv (sort_key group_key gs)) score raw_q items"
    then have "sr_score_final r = score" by simp
    with q [OF n] normalize_score_range [OF n] show ?thesis by simp
  qed
  then obtain k where k: "sr_score_final r = of_int k / 100" "0 \<le> sr_score_final r" "sr_score_final r \<le> 100"
    by blast
  then have "0 \<le> (of_int k :: rat)" "(of_int k :: rat) \<le> of_int 10000" by simp_all
  then have "0 \<le> k" "k \<le> 10000" unfolding of_int_le_iff by simp_all
  with k(1) show ?thesis by blast
qed

lemma stored_score: "evaluate alg p pv gs = Inr r \<Longrightarrow> numeric_2 (sr_score_final r) = sr_score_final r"
proof -
  assume "evaluate alg p pv gs = Inr r"
  from score_cents [OF this] obtain k where "sr_score_final r = of_int k / 100" "0 \<le> k" "k \<le> 10000" by blast
  with numeric_2_cents [of k] show ?thesis by (simp only:) simp
qed

lemma put_status_tables [simp]:
  "ad_snapshots (put_status i st c d) = ad_snapshots d" "ad_results (put_status i st c d) = ad_results d"
  "ad_items (put_status i st c d) = ad_items d" "ad_roadmaps (put_status i st c d) = ad_roadmaps d"
  "ad_steps (put_status i st c d) = ad_steps d" "ad_jobs (put_status i st c d) = ad_jobs d"
  "bd_users (put_status i st c d) = bd_users d" "rd_programs (put_status i st c d) = rd_programs d"
  "rd_versions (put_status i st c d) = rd_versions d" "bd_next (put_status i st c d) = bd_next d"
  "rd_groups (put_status i st c d) = rd_groups d" "rd_conditions (put_status i st c d) = rd_conditions d"
  "rd_outcomes (put_status i st c d) = rd_outcomes d"
  by (simp_all add: put_status_def)

lemma assessment_ids_put_status [simp]:
  "am_id ` set (ad_assessments (put_status i st c d)) = am_id ` set (ad_assessments d)"
proof -
  have "map am_id (ad_assessments (put_status i st c d)) = map am_id (ad_assessments d)"
    by (simp add: put_status_def upd_where_map)
  then show ?thesis by (metis set_map)
qed

lemma list_all_upd_same: "(\<And>x. p (f x) = p x) \<Longrightarrow> list_all p (upd_where q f xs) = list_all p xs"
  by (induction xs) (simp_all add: upd_where_def)

lemma app_ok_put_status [simp]: "app_ok (put_status i st c d) = app_ok d"
proof -
  have maps: "map am_id (ad_assessments (put_status i st c d)) = map am_id (ad_assessments d)"
    "map (\<lambda>a. (am_user_id a, am_idempotency_key a)) (ad_assessments (put_status i st c d))
       = map (\<lambda>a. (am_user_id a, am_idempotency_key a)) (ad_assessments d)"
    by (simp_all add: put_status_def upd_where_map)
  have refs: "list_all (\<lambda>a. am_user_id a \<in> U \<and> am_program_id a \<in> P \<and> am_profile_snapshot_id a \<in> S)
      (ad_assessments (put_status i st c d))
    = list_all (\<lambda>a. am_user_id a \<in> U \<and> am_program_id a \<in> P \<and> am_profile_snapshot_id a \<in> S) (ad_assessments d)"
    for U P S
    unfolding put_status_def by (simp add: list_all_upd_same)
  show ?thesis
    unfolding app_ok_def snapshots_ok_def assessments_ok_def results_ok_def items_ok_def roadmaps_ok_def
      steps_ok_def jobs_ok_def put_status_tables maps refs by (rule refl)
qed

lemma put_status_twice [simp]: "put_status i st c (put_status i st' c' d) = put_status i st c d"
  by (simp add: put_status_def upd_where_def comp_def)

lemma rule_inputs_put_status [simp]: "rule_inputs (put_status i st c d) v = rule_inputs d v"
  by (simp add: rule_inputs_def group_input_def [abs_def])

lemma versions_in_force_put_status [simp]: "versions_in_force (put_status i st c d) p t = versions_in_force d p t"
  by (simp add: versions_in_force_def)

lemma assessment_of_put_status:
  "assessment_of d i = Some a \<Longrightarrow>
   assessment_of (put_status i st c d) i = Some (a\<lparr>am_status := st, am_completed_at := c\<rparr>)"
proof -
  have "find (\<lambda>a. am_id a = i) (upd_where (\<lambda>a. am_id a = i) f xs) = map_option f (find (\<lambda>a. am_id a = i) xs)"
    if "\<And>a. am_id (f a) = am_id a" for f :: "assessment \<Rightarrow> assessment" and xs
    using that by (induction xs) (auto simp: upd_where_def)
  then show "assessment_of d i = Some a \<Longrightarrow> ?thesis" by (simp add: assessment_of_def put_status_def)
qed

text \<open>What the computation of an assessment amounts to: the version and the engine's result.\<close>

definition version_in_force :: "'z rules_db_scheme \<Rightarrow> uuid \<Rightarrow> time \<Rightarrow> program_version option" where
  "version_in_force d p t = first (sort_key (\<lambda>v. - pv_effective_from v) (versions_in_force d p t))"

definition computed :: "settings \<Rightarrow> 'z app_db_scheme \<Rightarrow> assessment \<Rightarrow> (program_version \<times> score_result) result" where
  "computed cfg d a =
     (case snapshot_of d (am_profile_snapshot_id a) of
        None \<Rightarrow> Inl (ValueError ''Assessment is missing profile snapshot'')
      | Some s \<Rightarrow>
          (case version_in_force d (am_program_id a) (am_requested_at a) of
             None \<Rightarrow> Inl (ValueError ''No active program version found for requested timestamp'')
           | Some v \<Rightarrow>
               if rule_inputs d (pv_id v) = [] then Inl (ValueError ''Program version has no rules configured'')
               else bindR (evaluate (score_algorithm_version cfg) (sn_profile_json s) (program_version_input v)
                      (rule_inputs d (pv_id v))) (\<lambda>c. Inr (v, c))))"

text \<open>Result and item ids are below the next fresh id.\<close>

definition app_fresh :: "'z app_db_scheme \<Rightarrow> bool" where
  "app_fresh d \<longleftrightarrow> list_all (\<lambda>r. rs_id r < bd_next d) (ad_results d) \<and> list_all (\<lambda>i. ri_id i < bd_next d) (ad_items d)"

definition new_items :: "time \<Rightarrow> uuid \<Rightarrow> score_result \<Rightarrow> result_item list" where
  "new_items now i c = map (new_item now i)
     (zip [Suc i..<Suc i + length (sr_breakdown c)] (sr_breakdown c))"

definition with_result :: "time \<Rightarrow> uuid \<Rightarrow> program_version \<Rightarrow> score_result \<Rightarrow> 'z app_db_scheme \<Rightarrow> 'z app_db_scheme" where
  "with_result now i v c d =
     (let n = bd_next d;
          d1 = d\<lparr>ad_results := ad_results d @ [new_result n now i (pv_id v) c], bd_next := Suc n\<rparr>
      in put_status i as_completed (Some now) (add_items (new_items now n c) d1))"

lemma new_items_simps [simp]:
  "map ri_id (new_items now i c) = [Suc i..<Suc i + length (sr_breakdown c)]"
  "length (new_items now i c) = length (sr_breakdown c)"
proof -
  have "ri_id \<circ> new_item now i = fst" by (auto simp: new_item_def)
  then show "map ri_id (new_items now i c) = [Suc i..<Suc i + length (sr_breakdown c)]"
    unfolding new_items_def map_map by (simp only: map_fst_zip length_upt add_diff_cancel_left')
qed (simp add: new_items_def del: upt_Suc)

lemma new_items_result: "x \<in> set (new_items now i c) \<Longrightarrow> ri_assessment_result_id x = i"
  by (auto simp: new_items_def new_item_def)


lemma app_ok_add_result:
  assumes ok: "app_ok d" and new: "list_all (\<lambda>x. rs_id x < bd_next d) (ad_results d)"
    and none: "result_of d (rs_assessment_id r) = None"
    and refs: "rs_id r = bd_next d" "rs_assessment_id r \<in> set (map am_id (ad_assessments d))"
      "rs_program_version_id r \<in> set (map pv_id (rd_versions d))"
  shows "app_ok (d\<lparr>ad_results := ad_results d @ [r], bd_next := n\<rparr>)"
proof -
  let ?d = "d\<lparr>ad_results := ad_results d @ [r], bd_next := n\<rparr>"
  have "\<forall>x\<in>set (ad_results d). rs_id x \<noteq> rs_id r \<and> rs_assessment_id x \<noteq> rs_assessment_id r"
    using new none refs(1) by (auto simp: list_all_iff result_of_def find_None_iff)
  then have "results_ok ?d" using ok refs by (auto simp: app_ok_def results_ok_def)
  moreover have "items_ok ?d" "roadmaps_ok ?d"
    using ok by (auto simp: app_ok_def items_ok_def roadmaps_ok_def list_all_iff)
  moreover have "snapshots_ok ?d" "assessments_ok ?d" "steps_ok ?d" "jobs_ok ?d"
    using ok by (simp_all add: app_ok_def snapshots_ok_def assessments_ok_def steps_ok_def jobs_ok_def)
  ultimately show ?thesis by (simp add: app_ok_def)
qed

lemma app_ok_add_items:
  assumes ok: "app_ok d" and ids: "distinct (map ri_id (ad_items d @ xs))"
    and refs: "\<And>x. x \<in> set xs \<Longrightarrow> ri_assessment_result_id x \<in> set (map rs_id (ad_results d))"
  shows "app_ok (add_items xs d)"
proof -
  have "items_ok (add_items xs d)"
    using ok ids refs by (auto simp: add_items_def app_ok_def items_ok_def list_all_iff)
  with ok show ?thesis
    by (simp add: add_items_def app_ok_def results_ok_def roadmaps_ok_def snapshots_ok_def assessments_ok_def
        steps_ok_def jobs_ok_def)
qed

lemma replace_result_eq:
  assumes na: "\<not> aborted t" and ok: "app_ok (working t)" and fresh: "app_fresh (working t)"
    and none: "result_of (working t) (am_id (la_assessment a)) = None" "la_result a = None"
    and refs: "am_id (la_assessment a) \<in> set (map am_id (ad_assessments (working t)))"
      "v \<in> set (rd_versions (working t))"
  shows "\<exists>r. replace_assessment_result now a (pv_id v) c t = (Inr r,
    t\<lparr>committed := with_result now (am_id (la_assessment a)) v c (working t),
      working := with_result now (am_id (la_assessment a)) v c (working t)\<rparr>)"
proof -
  let ?d = "working t" and ?i = "am_id (la_assessment a)"
  let ?r = "new_result (bd_next ?d) now ?i (pv_id v) c"
  let ?d1 = "?d\<lparr>ad_results := ad_results ?d @ [?r], bd_next := Suc (bd_next ?d)\<rparr>"
  let ?its = "new_items now (bd_next ?d) c"
  have r: "rs_id ?r = bd_next ?d" "rs_assessment_id ?r = ?i" "rs_program_version_id ?r = pv_id v"
    by (simp_all add: new_result_def)
  have ok1: "app_ok ?d1"
    using ok fresh none refs r by (intro app_ok_add_result) (auto simp: app_fresh_def)
  have ids: "distinct (map ri_id (ad_items ?d1 @ ?its))"
    using ok fresh by (auto simp: app_ok_def items_ok_def app_fresh_def list_all_iff)
  have ok2: "app_ok (add_items ?its ?d1)"
    using ok1 ids r(1) by (intro app_ok_add_items) (auto dest!: new_items_result)
  have zip: "map (new_item now (rs_id ?r)) (zip [bd_next ?d1..<bd_next ?d1 + length (sr_breakdown c)] (sr_breakdown c))
      = ?its"
    by (simp add: new_items_def r(1))
  show ?thesis
    using na none(2) ok1 ok2 zip
    by (simp add: replace_assessment_result_def delete_result_def with_result_def Let_def r)
qed

lemma process_assessment_eq:
  assumes ok: "app_ok d" and fresh: "app_fresh d" and a: "assessment_of d i = Some a" and none: "result_of d i = None"
  shows "request (process_assessment cfg now i) d = (case computed cfg d a of
      Inl e \<Rightarrow> (Inl e, put_status i as_failed None d)
    | Inr (v, c) \<Rightarrow> (Inr (), with_result now i v c (put_status i as_running None d)))"
proof -
  have id: "am_id a = i" "a \<in> set (ad_assessments d)"
    using a find_mem [of "\<lambda>a. am_id a = i"] by (auto simp: assessment_of_def)
  let ?d = "put_status i as_running None d"
  let ?t = "\<lparr>committed = ?d, working = ?d, aborted = False\<rparr>"
  let ?la = "load_assessment d a"
  have la: "la_assessment ?la = a" "la_result ?la = None" "la_snapshot ?la = snapshot_of d (am_profile_snapshot_id a)"
    using none id by (simp_all add: load_assessment_def)
  have start: "process_assessment cfg now i (begin_txn d) = catch
      (bindO (compute_and_persist_assessment cfg now ?la) (\<lambda>_. ret ()))
      (\<lambda>e. bindO (set_assessment_status i as_failed None) (\<lambda>_. raise e)) ?t"
    using ok a la by (simp add: process_assessment_def get_assessment_def set_assessment_status_def bindO_def
        begin_txn_def)
  have run: "compute_and_persist_assessment cfg now ?la ?t = (case computed cfg d a of
      Inl e \<Rightarrow> (Inl e, ?t)
    | Inr (v, c) \<Rightarrow> replace_assessment_result now ?la (pv_id v) c ?t)"
    by (auto simp: compute_and_persist_assessment_def computed_def la get_active_program_version_def
        list_rule_groups_def version_in_force_def bindO_def lift_def bindR_def split: option.splits sum.splits)
  show ?thesis
  proof (cases "computed cfg d a")
    case (Inl e)
    then show ?thesis using ok
      by (simp add: request_def start run catch_def bindO_def set_assessment_status_def)
  next
    case (Inr p)
    obtain v c where p: "p = (v, c)" by (cases p)
    have v: "v \<in> set (rd_versions d)"
      using Inr p by (auto simp: computed_def version_in_force_def versions_in_force_def bindR_eq_Inr
          split: option.splits if_splits dest!: first_mem)
    have "i \<in> am_id ` set (ad_assessments d)" using id by force
    then have "\<exists>r. replace_assessment_result now ?la (pv_id v) c ?t = (Inr r,
        ?t\<lparr>committed := with_result now i v c ?d, working := with_result now i v c ?d\<rparr>)"
      using replace_result_eq [of ?t ?la v now c] ok fresh none id v la
      by (simp add: app_fresh_def result_of_def)
    then show ?thesis using Inr p
      by (auto simp: request_def start run catch_def bindO_def)
  qed
qed

end
