(* ===== verification/Task_Retry.thy ===== *)
theory Task_Retry
  imports Assessments_Contract
begin

text \<open>
  Redelivery of background tasks. Celery delivers a task again, with one more retry counted, when a
  delivery asks for it. The contract of a retried task: each delivery keeps the task's invariant, asks for
  redelivery only below the limit, and, when its own outcome could be recorded, otherwise leaves the job settled; then
  every run is finite, and it settles the job unless an outcome could not be recorded. The score task meets the contract
  whichever of its sessions break, wherever they break.
\<close>

section \<open>The queue\<close>

text \<open>At most \<open>fuel\<close> deliveries from retry \<open>n\<close> on; true when the last one asked for no other.\<close>

fun redeliver :: "(nat \<Rightarrow> ('s, delivery) op) \<Rightarrow> nat \<Rightarrow> nat \<Rightarrow> 's \<Rightarrow> bool \<times> 's" where
  "redeliver deliver 0 n s = (False, s)"
| "redeliver deliver (Suc fuel) n s =
     (case deliver n s of
        (Inr (Retried e countdown), s') \<Rightarrow> redeliver deliver fuel (Suc n) s'
      | (_, s') \<Rightarrow> (True, s'))"

locale retried_task =
  fixes deliver :: "nat \<Rightarrow> ('s, delivery) op" and inv :: "'s \<Rightarrow> bool" and settled :: "'s \<Rightarrow> bool"
    and limit :: nat and recorded :: "nat \<Rightarrow> bool"
  assumes keeps_inv: "inv s \<Longrightarrow> inv (snd (deliver n s))"
    and below_limit: "inv s \<Longrightarrow> deliver n s = (Inr (Retried e c), s') \<Longrightarrow> n < limit"
    and settles: "inv s \<Longrightarrow> deliver n s = (r, s') \<Longrightarrow> (\<And>e c. r \<noteq> Inr (Retried e c)) \<Longrightarrow> recorded n \<Longrightarrow> settled s'"
begin

lemma finishes:
  "inv s \<Longrightarrow> n \<le> limit \<Longrightarrow>
   fst (redeliver deliver (Suc (limit - n)) n s) \<and> inv (snd (redeliver deliver (Suc (limit - n)) n s))
   \<and> ((\<forall>m. n \<le> m \<and> m \<le> limit \<longrightarrow> recorded m) \<longrightarrow> settled (snd (redeliver deliver (Suc (limit - n)) n s)))"
proof (induction "limit - n" arbitrary: n s)
  case 0
  obtain r s' where d: "deliver n s = (r, s')" by (cases "deliver n s")
  have "r \<noteq> Inr (Retried e c)" for e c using below_limit [OF 0(2), of n e c s'] d 0 by auto
  then show ?case using d settles [OF 0(2) d] keeps_inv [OF 0(2), of n] 0(1,3)
    by (auto split: sum.splits delivery.splits)
next
  case (Suc k)
  obtain r s' where d: "deliver n s = (r, s')" by (cases "deliver n s")
  have inv: "inv s'" using keeps_inv [OF Suc(3), of n] d by simp
  show ?case
  proof (cases "\<exists>e c. r = Inr (Retried e c)")
    case True
    then obtain e c where r: "r = Inr (Retried e c)" by blast
    then have "Suc n \<le> limit" using below_limit [OF Suc(3)] d by fastforce
    moreover have "Suc (limit - n) = Suc (Suc (limit - Suc n))" "k = limit - Suc n" using Suc(2) by simp_all
    ultimately show ?thesis using Suc(1) [of "Suc n" s'] inv d r by simp
  next
    case False
    then show ?thesis using d inv settles [OF Suc(3) d] Suc(4)
      by (auto split: sum.splits delivery.splits)
  qed
qed

end

section \<open>Faults\<close>

text \<open>
  \<open>breaks_keep P flt\<close>: what a broken session or a killed worker leaves behind keeps \<open>P\<close>. For a
  session whose commits keep \<open>P\<close> this is what the database guarantees. \<open>recordable\<close>: the delivery was not
  killed, and the handler could record a failure and queue the retry; the work and the mark of completion may break.
\<close>

definition breaks_keep :: "('s \<Rightarrow> bool) \<Rightarrow> 's faults \<Rightarrow> bool" where
  "breaks_keep P flt \<longleftrightarrow> (\<forall>left. Some left \<in> {map_option snd (fl_work flt), map_option snd (fl_finish flt),
     map_option snd (fl_record flt), fl_killed flt} \<longrightarrow> (\<forall>s. P s \<longrightarrow> P (left s)))"

definition recordable :: "'s faults \<Rightarrow> bool" where
  "recordable flt \<longleftrightarrow> fl_killed flt = None \<and> fl_record flt = None \<and> fl_requeue flt = None"

lemma breaks_keepD:
  assumes "breaks_keep P flt" and "P s"
  shows "fl_work flt = Some (e, left) \<Longrightarrow> P (left s)" "fl_finish flt = Some (e, left) \<Longrightarrow> P (left s)"
    "fl_record flt = Some (e, left) \<Longrightarrow> P (left s)" "fl_killed flt = Some left \<Longrightarrow> P (left s)"
  using assms by (auto simp: breaks_keep_def)

lemma session_keeps:
  assumes "keeps (both P) run" and "P d" and "\<And>e left. b = Some (e, left) \<Longrightarrow> P (left d)"
  shows "P (snd (session b run d))"
  using assms request_keeps [OF assms(1,2)] by (auto simp: session_def split: option.split)

lemma session_whole [simp]: "session None run = request run"
  by (rule ext) (simp add: session_def)

lemma retry_task_cases:
  "retry_task flt e c d = (Inr (Retried e c), d) \<or> (\<exists>e'. fl_requeue flt = Some e' \<and> retry_task flt e c d = (Inl e', d))"
  by (cases "fl_requeue flt") (simp_all add: retry_task_def)

section \<open>The score task\<close>

definition score_attempt ::
    "settings \<Rightarrow> (nat \<Rightarrow> 'z app_db_scheme faults) \<Rightarrow> (nat \<Rightarrow> time) \<Rightarrow> (nat \<Rightarrow> int) \<Rightarrow> uuid \<Rightarrow> uuid \<Rightarrow> string option
     \<Rightarrow> nat \<Rightarrow> ('z app_db_scheme, delivery) op" where
  "score_attempt cfg flt now ms assessment_id job_id tr n =
     score_delivery cfg (flt n) (now n) (ms n) job_id tr (run_assessment_job cfg (now n) assessment_id job_id tr) n"

definition job_inv :: "uuid \<Rightarrow> 'z app_db_scheme \<Rightarrow> bool" where
  "job_inv i d \<longleftrightarrow> app_ok d \<and> job_of d i \<noteq> None"

definition job_settled :: "uuid \<Rightarrow> 'z app_db_scheme \<Rightarrow> bool" where
  "job_settled i d \<longleftrightarrow> (\<exists>j. job_of d i = Some j \<and> jb_status j \<in> {job_completed, job_dead_letter})"

named_theorems job_keeps \<open>the work of a task keeps the job table\<close>

lemma job_inv_flush:
  "(\<And>d. job_of (f d) i = job_of d i) \<Longrightarrow> keeps (both (job_inv i)) (aflush f)"
  by (rule keeps_flush) (simp add: job_inv_def)

lemma keeps_change_job:
  assumes "keeps_keys f"
  shows "keeps (both (job_inv i)) (change_job k f)"
  unfolding change_job_def get_job_def
  by (intro inv_intros keeps_flush) (auto simp: job_inv_def job_of_set_job [OF assms])

lemma job_of_tables: "ad_jobs d' = ad_jobs d \<Longrightarrow> job_of d' i = job_of d i"
  by (simp add: job_of_def)

lemma keeps_set_assessment_status [job_keeps]: "keeps (both (job_inv i)) (set_assessment_status a st c)"
  unfolding set_assessment_status_def by (intro inv_intros job_inv_flush job_of_tables) simp

lemma keeps_replace_result [job_keeps]: "keeps (both (job_inv i)) (replace_assessment_result now a v c)"
  unfolding replace_assessment_result_def delete_result_def
  by (intro inv_intros job_inv_flush job_of_tables) (simp_all add: add_items_def)

lemma keeps_compute [job_keeps]: "keeps (both (job_inv i)) (compute_and_persist_assessment cfg now a)"
  unfolding compute_and_persist_assessment_def get_active_program_version_def list_rule_groups_def
  by (intro inv_intros job_keeps)

lemma keeps_process [job_keeps]: "keeps (both (job_inv i)) (process_assessment cfg now a)"
  unfolding process_assessment_def get_assessment_def by (intro inv_intros job_keeps)

lemma keeps_run_assessment [job_keeps]: "keeps (both (job_inv i)) (run_assessment_job cfg now a k tr)"
  unfolding run_assessment_job_def mark_running_def
  by (intro inv_intros job_keeps keeps_change_job) simp

text \<open>The transitions that end an attempt, on an existing job.\<close>

lemma job_transition_request:
  assumes "job_inv i d" and "keeps_keys f"
  shows "\<exists>j. job_of d i = Some j \<and> request (change_job i f) d = (Inr (f j), set_job i f d)
    \<and> job_inv i (set_job i f d) \<and> job_of (set_job i f d) i = Some (f j)"
  using assms by (auto simp: job_inv_def change_job_request job_of_set_job app_ok_set_job)

text \<open>A session that changes the job, broken or not, and what a delivery does after it.\<close>

lemma change_job_session:
  assumes "job_inv i d" and "keeps_keys f" and "\<forall>e left. b = Some (e, left) \<longrightarrow> job_inv i (left d)"
  shows "(\<exists>j. b = None \<and> session b (change_job i f) d = (Inr (f j), set_job i f d)
      \<and> job_inv i (set_job i f d) \<and> job_of (set_job i f d) i = Some (f j))
    \<or> (\<exists>e left. b = Some (e, left) \<and> session b (change_job i f) d = (Inl e, left d) \<and> job_inv i (left d))"
  using job_transition_request [OF assms(1,2)] assms(3) by (cases b) (auto simp: session_def)

lemma score_failure_cases:
  assumes I: "job_inv i d" and b: "breaks_keep (job_inv i) flt"
  shows "\<exists>r d'. handle_score_failure cfg flt now ms n i tr e d = (r, d') \<and> job_inv i d'
    \<and> ((\<exists>e c. r = Inr (Retried e c)) \<longrightarrow> int n < score_task_max_retries cfg)
    \<and> (recordable flt \<and> (\<forall>e c. r \<noteq> Inr (Retried e c)) \<longrightarrow> job_settled i d' \<and> (\<exists>x. r = Inr x))"
proof -
  let ?dead = "finished_job now job_dead_letter (Some (exn_text e)) ms"
  have left: "\<forall>e left. fl_record flt = Some (e, left) \<longrightarrow> job_inv i (left d)" using breaks_keepD(3) [OF b I] by blast
  have dead: "keeps_keys ?dead" and again: "keeps_keys (retried_job (exn_text e))" by simp_all
  show ?thesis
  proof (cases "is_definitive_error e \<or> score_task_max_retries cfg \<le> int n")
    case True
    then have h: "handle_score_failure cfg flt now ms n i tr e = bindO (session (fl_record flt) (change_job i ?dead))
        (\<lambda>_. ret (Raised e (Some (score_dead_letter i tr e))))"
      by (auto simp: handle_score_failure_def mark_failed_def)
    from change_job_session [OF I dead left] show ?thesis unfolding h
      by (auto simp: bindO_def recordable_def job_settled_def finished_job_def)
  next
    case False
    then have h: "handle_score_failure cfg flt now ms n i tr e = bindO (session (fl_record flt)
        (change_job i (retried_job (exn_text e)))) (\<lambda>_. retry_task flt e (retry_countdown n))"
      by (auto simp: handle_score_failure_def mark_pending_retry_def transient_iff)
    from change_job_session [OF I again left] False show ?thesis unfolding h
      by (auto simp: bindO_def recordable_def retry_task_def split: option.splits)
  qed
qed

lemma score_delivery_cases:
  assumes I: "job_inv i d" and b: "breaks_keep (job_inv i) flt" and k: "keeps (both (job_inv i)) run"
  shows "\<exists>r d'. score_delivery cfg flt now ms i tr run n d = (Inr r, d') \<and> job_inv i d'
    \<and> ((\<exists>e c. r = Retried e c) \<longrightarrow> int n < score_task_max_retries cfg)
    \<and> (recordable flt \<and> (\<forall>e c. r \<noteq> Retried e c) \<longrightarrow> job_settled i d')"
proof (cases "fl_killed flt")
  case (Some left)
  then show ?thesis using breaks_keepD(4) [OF b I Some]
    by (auto simp: score_delivery_def killable_def time_limit_exceeded_def recordable_def)
next
  case None
  obtain r1 d1 where run: "session (fl_work flt) run d = (r1, d1)" by (cases "session (fl_work flt) run d")
  have I1: "job_inv i d1" using session_keeps [OF k I, of "fl_work flt"] breaks_keepD(1) [OF b I] run by (metis snd_conv)
  have failed: ?thesis if h: "job_inv i d2" "score_delivery cfg flt now ms i tr run n d
      = catch (handle_score_failure cfg flt now ms n i tr e) (\<lambda>e. ret (Raised e None)) d2" for e d2
    using score_failure_cases [OF h(1) b, of cfg now ms n tr e] h(2) by (auto simp: catch_def split: sum.splits)
  show ?thesis
  proof (cases r1)
    case (Inl e)
    then show ?thesis by (intro failed [OF I1]) (simp add: score_delivery_def killable_def None catch_def bindO_def run)
  next
    case (Inr u)
    have keys: "keeps_keys (finished_job now job_completed None ms)" by simp
    have "\<forall>e left. fl_finish flt = Some (e, left) \<longrightarrow> job_inv i (left d1)" using breaks_keepD(2) [OF b I1] by blast
    from change_job_session [OF I1 keys this] show ?thesis
    proof (elim disjE exE conjE)
      fix j assume "session (fl_finish flt) (change_job i (finished_job now job_completed None ms)) d1
          = (Inr (finished_job now job_completed None ms j), set_job i (finished_job now job_completed None ms) d1)"
        "job_inv i (set_job i (finished_job now job_completed None ms) d1)"
        "job_of (set_job i (finished_job now job_completed None ms) d1) i = Some (finished_job now job_completed None ms j)"
      then show ?thesis
        by (auto simp: score_delivery_def killable_def None catch_def bindO_def run Inr mark_completed_def job_settled_def
            finished_job_def)
    next
      fix e left assume "session (fl_finish flt) (change_job i (finished_job now job_completed None ms)) d1 = (Inl e, left d1)"
        "job_inv i (left d1)"
      then show ?thesis
        by (intro failed [of "left d1" e])
          (simp_all add: score_delivery_def killable_def None catch_def bindO_def run Inr mark_completed_def)
    qed
  qed
qed

text \<open>The score task under every sequence of faults that keeps the job's row.\<close>

definition keeping :: "('s \<Rightarrow> bool) \<Rightarrow> (nat \<Rightarrow> 's faults) \<Rightarrow> nat \<Rightarrow> 's faults" where
  "keeping P flt n = (if breaks_keep P (flt n) then flt n else no_faults)"

lemma keeping_keep [simp]: "breaks_keep P (keeping P flt n)"
  by (simp add: keeping_def breaks_keep_def no_faults_def)

lemma keeping_id: "(\<And>n. breaks_keep P (flt n)) \<Longrightarrow> keeping P flt = flt"
  by (rule ext) (simp add: keeping_def)

interpretation score_task: retried_task "score_attempt cfg (keeping (job_inv i) flt) now ms a i tr" "job_inv i" "job_settled i"
    "nat (score_task_max_retries cfg)" "\<lambda>n. recordable (keeping (job_inv i) flt n)"
  for cfg and flt :: "nat \<Rightarrow> 'z app_db_scheme faults" and now ms a i tr
proof
  fix d :: "'z app_db_scheme" and n assume I: "job_inv i d"
  have cases: "\<exists>r d'. score_attempt cfg (keeping (job_inv i) flt) now ms a i tr n d = (Inr r, d') \<and> job_inv i d'
    \<and> ((\<exists>e c. r = Retried e c) \<longrightarrow> int n < score_task_max_retries cfg)
    \<and> (recordable (keeping (job_inv i) flt n) \<and> (\<forall>e c. r \<noteq> Retried e c) \<longrightarrow> job_settled i d')"
    unfolding score_attempt_def by (rule score_delivery_cases [OF I keeping_keep keeps_run_assessment])
  show "job_inv i (snd (score_attempt cfg (keeping (job_inv i) flt) now ms a i tr n d))" using cases by auto
  show "n < nat (score_task_max_retries cfg)"
    if "score_attempt cfg (keeping (job_inv i) flt) now ms a i tr n d = (Inr (Retried e c), d')" for e c d'
    using cases that by auto
  show "job_settled i d'"
    if "score_attempt cfg (keeping (job_inv i) flt) now ms a i tr n d = (r, d')" and "\<And>e c. r \<noteq> Inr (Retried e c)"
      and "recordable (keeping (job_inv i) flt n)" for r d'
    using cases that by auto
qed

text \<open>
  A failure that could not be recorded stays: when the work breaks after the job was marked running and the
  handler's session breaks too, no further delivery is asked for and the job is running for good.
\<close>

theorem unrecorded_failure_left_running:
  assumes "app_ok d" and "job_of d i = Some j" and "jb_status j \<noteq> job_completed" and "fl_killed (flt n) = None"
    and "fl_work (flt n) = Some (e, \<lambda>d. snd (request (mark_running (now n) i tr) d))"
    and "fl_record (flt n) = Some (e', \<lambda>d. d)"
  shows "redeliver (score_attempt cfg flt now ms a i tr) (Suc fuel) n d
    = (True, set_job i (running_job (now n) tr) d)
    \<and> (\<exists>k. job_of (set_job i (running_job (now n) tr) d) i = Some k \<and> jb_status k = job_running)"
proof -
  have I: "job_inv i d" using assms(1,2) by (simp add: job_inv_def)
  have r: "request (mark_running (now n) i tr) d = (Inr (running_job (now n) tr j), set_job i (running_job (now n) tr) d)"
    "job_of (set_job i (running_job (now n) tr) d) i = Some (running_job (now n) tr j)"
    using job_transition_request [OF I, of "running_job (now n) tr"] assms(2) by (auto simp: mark_running_def)
  have "session (fl_record (flt n)) op x = (Inl e', x)" for op :: "('a app_db_scheme txn, job) op" and x
    using assms(6) by (simp add: session_def)
  then have h: "handle_score_failure cfg (flt n) t m k i tr e x = (Inl e', x)" for t m k x
    by (simp add: handle_score_failure_def bindO_def)
  have "score_attempt cfg flt now ms a i tr n d = (Inr (Raised e' None), set_job i (running_job (now n) tr) d)"
    using assms(4,5) by (simp add: score_attempt_def score_delivery_def killable_def catch_def bindO_def session_def r h)
  then show ?thesis using r(2) assms(3) by (simp add: running_job_def)
qed

end
