(* ===== verification/Assessments_Flow.thy ===== *)
theory Assessments_Flow
  imports Task_Retry Uuid_Text
begin

text \<open>
  The life of an assessment end to end: creation, the queue message, the background task, the
  stored result, what its owner reads, and the rule version that is used.
\<close>

section \<open>What the owner reads\<close>

lemma result_faixa: "evaluate alg p pv gs = Inr r \<Longrightarrow> sr_faixa r = faixa (sr_score_final r)"
  by (erule evaluate_success) (simp_all add: faixa_def to_faixa_def)

lemma computed_evaluate:
  assumes "computed cfg d a = Inr (v, c)"
  obtains p where "evaluate (score_algorithm_version cfg) p (program_version_input v) (rule_inputs d (pv_id v)) = Inr c"
    and "v \<in> set (rd_versions d)"
  using assms
  by (auto simp: computed_def version_in_force_def versions_in_force_def bindR_eq_Inr
      split: option.splits if_splits dest!: first_mem)

lemma with_result_tables:
  "ad_results (with_result now i v c d) = ad_results d @ [new_result (bd_next d) now i (pv_id v) c]"
  "ad_items (with_result now i v c d) = ad_items d @ new_items now (bd_next d) c"
  "rd_versions (with_result now i v c d) = rd_versions d"
  by (simp_all add: with_result_def add_items_def Let_def)

lemma assessment_of_with_result:
  "assessment_of d i = Some a \<Longrightarrow> assessment_of (with_result now i v c (put_status i st t d)) i
     = Some (a\<lparr>am_status := as_completed, am_completed_at := Some now\<rparr>)"
proof -
  assume a: "assessment_of d i = Some a"
  let ?d = "put_status i st t d"
  let ?d2 = "add_items (new_items now (bd_next ?d) c)
      (?d\<lparr>ad_results := ad_results ?d @ [new_result (bd_next ?d) now i (pv_id v) c], bd_next := Suc (bd_next ?d)\<rparr>)"
  have "assessment_of ?d2 i = Some (a\<lparr>am_status := st, am_completed_at := t\<rparr>)"
    using assessment_of_put_status [OF a] by (simp add: assessment_of_def add_items_def)
  from assessment_of_put_status [OF this, of as_completed "Some now"] show ?thesis
    by (simp add: with_result_def Let_def)
qed

lemma result_of_with_result:
  "result_of d i = None \<Longrightarrow>
   result_of (with_result now i v c d) i = Some (new_result (bd_next d) now i (pv_id v) c)"
  by (simp add: result_of_def with_result_tables find_append new_result_def)

lemma version_of_mem:
  assumes "app_ok d" and "rules_ok d" and "v \<in> set (rd_versions d)"
  shows "version_of d (pv_id v) = Some v"
  using assms find_unique [of pv_id "rd_versions d" v] by (simp add: version_of_def rules_ok_def versions_ok_def)

text \<open>The breakdown of a fresh result.\<close>

lemma breakdown_of_result:
  assumes a: "assessment_of d i = Some a" and r: "result_of d i = Some r" and v: "version_of d (rs_program_version_id r) = Some v"
    and s: "rs_total_score r = of_int k / 100" "0 \<le> k" "k \<le> 10000"
  shows "request (get_assessment_breakdown i u) d =
    (if am_user_id a \<noteq> u then (Inl (HTTPException 404 ''Assessment not found''), d)
     else (Inr \<lparr>ab_assessment_id = i, ab_score_final = rs_total_score r, ab_faixa = faixa (rs_total_score r),
       ab_fatores_positivos = positive_factors (sort_key item_order (items_of d r)),
       ab_gaps_criticos = critical_gaps (sort_key item_order (items_of d r)),
       ab_program_version_used = program_version_input v, ab_algorithm_version = rs_algorithm_version r,
       ab_rules_version_hash = rs_rules_version_hash r,
       ab_items = map breakdown_entry_of (sort_key item_order (items_of d r))\<rparr>, d))"
proof -
  have id: "am_id a = i" using a find_mem by (fastforce simp: assessment_of_def)
  have "\<bar>rhu (rs_total_score r * 100)\<bar> < 10 ^ 28" using s by simp
  moreover have "q2 (rs_total_score r) = rs_total_score r" by (simp only: s(1) q2_cents)
  ultimately have q: "quantize2 (rs_total_score r) = Inr (rs_total_score r)" by (simp only: quantize2_def if_True)
  show ?thesis
    using a r v id q
    by (simp add: get_assessment_breakdown_def get_assessment_def request_def load_assessment_def
        to_breakdown_response_def Let_def)
qed

lemma items_of_new:
  assumes "app_ok d" and "app_fresh d"
  shows "items_of (with_result now i v c (put_status i st t d)) (new_result (bd_next d) now i (pv_id v) c)
    = new_items now (bd_next d) c"
proof -
  have "filter (\<lambda>x. ri_assessment_result_id x = bd_next d) (ad_items d) = []"
    using assms by (fastforce simp: filter_empty_conv app_ok_def items_ok_def app_fresh_def list_all_iff)
  then show ?thesis
    by (simp add: items_of_def with_result_tables new_result_def new_items_result filter_id_conv)
qed

text \<open>The deltas of the breakdown are whole cents, so a column with two decimals stores them as they are.\<close>

lemma quantized_cents: "quantize2 x = Inr y \<Longrightarrow> \<exists>k. y = of_int k / 100"
  using quantize2_Inr [of x y] by (auto simp: q2_alt)

lemma blocking_delta_cents:
  assumes "evaluate_blocking_pass gs profile = Inr items" and "b \<in> set items"
  shows "\<exists>k. bi_score_delta b = of_int k / 100"
proof -
  obtain iss xs where "mapR (blocking_group profile) gs = Inr iss" "xs \<in> set iss" and b: "b \<in> set xs"
    using assms by (auto simp: evaluate_blocking_pass_def bindR_eq_Inr)
  from mapR_Inr_mem [OF this(1,2)] b obtain g where g: "blocking_group profile g = Inr xs" "b \<in> set xs" by blast
  then obtain checks oc where "blocking_item g checks oc = Inr b"
    by (auto simp: blocking_group_def bindR_eq_Inr split: if_splits dest!: mapR_Inr_mem)
  then show ?thesis by (auto simp: blocking_item_def bindR_eq_Inr dest!: quantized_cents)
qed

lemma scoring_delta_cents:
  assumes "evaluate_scoring_pass gs profile = Inr items" and "b \<in> set items"
  shows "\<exists>k. bi_score_delta b = of_int k / 100"
proof -
  obtain iss xs where "mapR (scoring_group profile) gs = Inr iss" "xs \<in> set iss" and b: "b \<in> set xs"
    using assms by (auto simp: evaluate_scoring_pass_def bindR_eq_Inr)
  from mapR_Inr_mem [OF this(1,2)] b obtain g where g: "scoring_group profile g = Inr xs" "b \<in> set xs" by blast
  then obtain checks applied oc where "scoring_item g checks applied oc = Inr b"
    by (auto simp: scoring_group_def bindR_eq_Inr split: if_splits dest!: mapR_Inr_mem)
  then show ?thesis by (auto simp: scoring_item_def bindR_eq_Inr dest!: quantized_cents)
qed

lemma delta_cents:
  assumes "evaluate alg p pv gs = Inr c" and "b \<in> set (sr_breakdown c)"
  shows "\<exists>k. bi_score_delta b = of_int k / 100"
  using assms by (auto elim!: evaluate_success dest: blocking_delta_cents scoring_delta_cents)

lemma stored_delta:
  assumes "evaluate alg p pv gs = Inr c" and "b \<in> set (sr_breakdown c)" and "\<bar>bi_score_delta b\<bar> < 10 ^ 6"
  shows "numeric_2 (bi_score_delta b) = bi_score_delta b"
proof -
  obtain k where k: "bi_score_delta b = of_int k / 100" using delta_cents [OF assms(1,2)] by blast
  then have "\<bar>of_int k\<bar> < (of_int (10 ^ 8) :: rat)" using assms(3) by simp
  then have "\<bar>k\<bar> < 10 ^ 8" by (metis of_int_abs of_int_less_iff)
  then show ?thesis unfolding k by (intro numeric_2_cents) simp
qed

lemma new_items_entries:
  assumes "evaluate alg p pv gs = Inr c"
  shows "list_all2 (\<lambda>b y. ri_rule_group_id y = Some (bi_rule_group_id b) \<and> ri_rule_condition_id y = bi_rule_condition_id b
      \<and> ri_rule_outcome_id y = Some (bi_rule_outcome_id b) \<and> ri_applied y = bi_applied b
      \<and> (\<bar>bi_score_delta b\<bar> < 10 ^ 6 \<longrightarrow> ri_score_delta y = bi_score_delta b)
      \<and> ri_explanation_message y = bi_explanation_message b \<and> ri_created_at y = now
      \<and> ri_audit_payload_json y = [(''condition_checks'', JList (bi_condition_checks b)),
          (''is_blocking'', JBool (bi_is_blocking b)), (''rule_group_code'', JStr (bi_rule_group_code b))])
    (sr_breakdown c) (new_items now n c)"
  unfolding list_all2_conv_all_nth
proof (intro conjI allI impI)
  fix m assume m: "m < length (sr_breakdown c)"
  then have y: "new_items now n c ! m = new_item now n (Suc n + m, sr_breakdown c ! m)"
    by (simp add: new_items_def del: upt_Suc)
  then show "\<bar>bi_score_delta (sr_breakdown c ! m)\<bar> < 10 ^ 6 \<Longrightarrow>
      ri_score_delta (new_items now n c ! m) = bi_score_delta (sr_breakdown c ! m)"
    using stored_delta [OF assms nth_mem [OF m]] by (simp add: new_item_def)
qed (simp_all add: new_items_def new_item_def del: upt_Suc)

lemma engine_version: "evaluate alg p pv gs = Inr c \<Longrightarrow> sr_algorithm_version c = alg"
  by (auto elim!: evaluate_success simp: blocked_result_def scored_result_def)

text \<open>A completed assessment is not computed again.\<close>

lemma process_completed:
  assumes "assessment_of d i = Some a" and "am_status a = as_completed" and "result_of d i \<noteq> None"
  shows "request (process_assessment cfg now i) d = (Inr (), d)"
proof -
  have "am_id a = i" using assms(1) find_mem by (fastforce simp: assessment_of_def)
  then show ?thesis
    using assms by (simp add: request_def process_assessment_def get_assessment_def load_assessment_def)
qed

lemma assessment_of_other:
  assumes "j \<noteq> i"
  shows "assessment_of (put_status i st t d) j = assessment_of d j"
proof -
  have "find (\<lambda>a. am_id a = j) (upd_where (\<lambda>a. am_id a = i) f xs) = find (\<lambda>a. am_id a = j) xs"
    if "\<And>a. am_id (f a) = am_id a" for f :: "assessment \<Rightarrow> assessment" and xs
    using that assms by (induction xs) (auto simp: upd_where_def)
  then show ?thesis by (simp add: assessment_of_def put_status_def)
qed

lemma with_result_other:
  "j \<noteq> i \<Longrightarrow> assessment_of (with_result now i v c (put_status i st t d)) j = assessment_of d j"
  by (simp add: with_result_def Let_def assessment_of_other)
    (simp add: assessment_of_other [unfolded assessment_of_def] assessment_of_def add_items_def)

section \<open>The version in force\<close>

lemma versions_in_force_unique:
  assumes "rules_inv d" and "t < end_of_time"
    and a: "a \<in> set (versions_in_force d p t)" and b: "b \<in> set (versions_in_force d p t)"
  shows "a = b"
proof (rule ccontr)
  assume "a \<noteq> b"
  moreover have "distinct (map pv_id (rd_versions d))" using assms(1) by (simp add: rules_inv_def rules_ok_defs)
  ultimately have "pv_id a \<noteq> pv_id b"
    using a b by (auto simp: versions_in_force_def distinct_map inj_on_def)
  moreover have "t < version_end v" if "v \<in> set (versions_in_force d p t)" for v
    using that assms(2) by (auto simp: versions_in_force_def version_end_def split: option.splits)
  ultimately have "overlaps a b"
    using a b by (fastforce simp: versions_in_force_def overlaps_def)
  with assms(1) a b show False by (auto simp: rules_inv_def no_overlap_iff versions_in_force_def)
qed


section \<open>Concrete inputs\<close>

text \<open>A version with the engine's sample group, and a pending assessment of user 7.\<close>

definition flow_rules :: rules_db where
  "flow_rules = billing_db.extend sample_billing \<lparr>
     rd_countries = [\<lparr>co_id = 50, co_code = ''PT'', co_name = ''Portugal'', co_priority_rank = None,
        co_diaspora_population_estimate = None, co_prioritization_source_url = None, co_is_active = True\<rparr>],
     rd_programs = [\<lparr>pg_id = 2, pg_country_id = 50, pg_code = ''D7'', pg_name = ''D7'', pg_description = None,
        pg_is_active = True\<rparr>],
     rd_versions = [demo_version 11 active_version 0 None],
     rd_groups = [\<lparr>gr_id = 1, gr_created_at = 0, gr_program_version_id = 11, gr_code = ''G'', gr_name = ''G'',
        gr_description = None, gr_priority = 1, gr_match_operator = match_all, gr_is_active = True\<rparr>],
     rd_conditions = [\<lparr>cr_id = 1, cr_created_at = 0, cr_rule_group_id = 1, cr_field_key = ''idiomas_nivel.en'',
        cr_operator = op_gte, cr_value_json = JInt 4, cr_condition_order = 1, cr_is_required = True\<rparr>],
     rd_outcomes = [\<lparr>ot_id = 1, ot_rule_group_id = 1, ot_score_delta = Dec 2000 (-2), ot_is_blocking = False,
        ot_explanation_message = ''m'', ot_outcome_code = None\<rparr>]\<rparr>"

definition flow_assessment :: assessment where
  "flow_assessment = \<lparr>am_id = 61, am_user_id = 7, am_program_id = 2, am_profile_snapshot_id = 60,
     am_idempotency_key = ''k'', am_status = as_pending, am_requested_at = 5, am_completed_at = None\<rparr>"

definition flow_app :: app_db where
  "flow_app = rules_db.extend flow_rules \<lparr>
     ad_snapshots = [\<lparr>sn_id = 60, sn_user_id = 7, sn_snapshot_version = 1, sn_profile_json = sample_profile,
        sn_profile_hash = ''h''\<rparr>],
     ad_assessments = [flow_assessment], ad_results = [], ad_items = [], ad_roadmaps = [], ad_steps = [],
     ad_jobs = [new_job 62 5 score_job (''assessment:'' @ uuid_str 61) (Some 61) None None]\<rparr>\<lparr>bd_next := 70\<rparr>"

lemmas flow_defs = flow_app_def flow_rules_def rules_db.extend_def billing_db.extend_def sample_billing_def
  empty_billing_def flow_assessment_def demo_version_def new_job_def

lemma flow_ok: "app_ok flow_app" "app_fresh flow_app"
  by (simp_all add: app_ok_defs app_fresh_def flow_defs fk_def)

lemma flow_rules_inv: "rules_inv flow_app"
  by (simp add: rules_inv_def rules_ok_defs no_overlap_def overlaps_def flow_defs)

lemma flow_version: "v \<in> set (rd_versions flow_app) \<Longrightarrow> pv_id v = 11"
  by (simp add: flow_defs)

lemma flow_lookups:
  "assessment_of flow_app 61 = Some flow_assessment" "result_of flow_app 61 = None"
  "assessment_by_key flow_app 7 ''k'' = Some flow_assessment"
  by (simp_all add: assessment_of_def result_of_def assessment_by_key_def flow_defs)

definition flow_group :: rule_group where
  "flow_group = sample_group 1 (sample_condition 1 ''idiomas_nivel.en'' ''gte'' (JInt 4)) 2000 False"

lemma flow_group_runs: "is_ok (evaluate alg sample_profile pv [flow_group])"
proof -
  have g: "list_all cents_group [flow_group]" "outcome_count [flow_group] \<le> 10 ^ 12"
    using sample_cents by (simp_all add: sample_groups_def flow_group_def outcome_count_def sample_group_def)
  have "list_all (group_ok sample_normal) [flow_group]"
    using sample_groups_ok(1) by (simp add: sample_groups_def flow_group_def)
  with evaluate_ok [OF g sample_normalized] show ?thesis by simp
qed

lemma flow_computed: "\<exists>v c. computed cfg flow_app flow_assessment = Inr (v, c)"
proof -
  have r: "rule_inputs flow_app 11 = [flow_group]"
    by (simp add: rule_inputs_def group_input_def condition_input_def outcome_input_def flow_defs flow_group_def
        sample_group_def sample_condition_def)
  have v: "version_in_force flow_app (am_program_id flow_assessment) (am_requested_at flow_assessment)
      = Some (demo_version 11 active_version 0 None)"
    by (simp add: version_in_force_def versions_in_force_def flow_defs)
  have s: "snapshot_of flow_app (am_profile_snapshot_id flow_assessment) = Some \<lparr>sn_id = 60, sn_user_id = 7,
      sn_snapshot_version = 1, sn_profile_json = sample_profile, sn_profile_hash = ''h''\<rparr>"
    by (simp add: snapshot_of_def flow_defs)
  obtain c where "evaluate (score_algorithm_version cfg) sample_profile
      (program_version_input (demo_version 11 active_version 0 None)) [flow_group] = Inr c"
    using flow_group_runs by (auto simp: is_ok_iff)
  then show ?thesis using r v s by (auto simp: computed_def demo_version_def)
qed

section \<open>Properties\<close>

text \<open>
  C3. A pending assessment is computed once and for all: if the lookups and the engine give a score, the task's work
  commits the assessment as completed at that time, one result with exactly that score, verdict, rule hash, algorithm
  and version, and one stored item for each entry of the engine's breakdown, in its order, with the entry's group,
  condition, outcome, verdict, message, delta (to the cent, within the column's range) and audit payload; every later
  run of the work, whatever the settings, changes nothing. If they raise, the same error is raised, the assessment is
  failed, and nothing else changes.
\<close>

theorem computation_recorded:
  assumes "app_ok d" and "app_fresh d" and "assessment_of d i = Some a" and "result_of d i = None"
  shows "(\<forall>e. computed cfg d a = Inl e \<longrightarrow>
        request (process_assessment cfg now i) d = (Inl e, d\<lparr>ad_assessments := map (\<lambda>x. if am_id x = i
          then x\<lparr>am_status := as_failed, am_completed_at := None\<rparr> else x) (ad_assessments d)\<rparr>))
    \<and> (\<forall>v c. computed cfg d a = Inr (v, c) \<longrightarrow>
        (\<exists>d' r. request (process_assessment cfg now i) d = (Inr (), d')
          \<and> assessment_of d' i = Some (a\<lparr>am_status := as_completed, am_completed_at := Some now\<rparr>)
          \<and> (\<forall>j. j \<noteq> i \<longrightarrow> assessment_of d' j = assessment_of d j)
          \<and> result_of d' i = Some r \<and> ad_results d' = ad_results d @ [r] \<and> rs_computed_at r = now
          \<and> rs_total_score r = sr_score_final c \<and> rs_is_eligible r = sr_is_eligible c
          \<and> rs_rules_version_hash r = sr_rules_version_hash c \<and> rs_algorithm_version r = score_algorithm_version cfg
          \<and> rs_program_version_id r = pv_id v
          \<and> ad_items d' = ad_items d @ items_of d' r
          \<and> list_all2 (\<lambda>b y. ri_rule_group_id y = Some (bi_rule_group_id b) \<and> ri_rule_condition_id y = bi_rule_condition_id b
              \<and> ri_rule_outcome_id y = Some (bi_rule_outcome_id b) \<and> ri_applied y = bi_applied b
              \<and> (\<bar>bi_score_delta b\<bar> < 10 ^ 6 \<longrightarrow> ri_score_delta y = bi_score_delta b)
              \<and> ri_explanation_message y = bi_explanation_message b \<and> ri_created_at y = now
              \<and> ri_audit_payload_json y = [(''condition_checks'', JList (bi_condition_checks b)),
                  (''is_blocking'', JBool (bi_is_blocking b)), (''rule_group_code'', JStr (bi_rule_group_code b))])
            (sr_breakdown c) (items_of d' r)
          \<and> (\<forall>cfg' later. request (process_assessment cfg' later i) d' = (Inr (), d'))))"
proof (intro conjI allI impI)
  fix e assume "computed cfg d a = Inl e"
  then show "request (process_assessment cfg now i) d = (Inl e, d\<lparr>ad_assessments := map (\<lambda>x. if am_id x = i
      then x\<lparr>am_status := as_failed, am_completed_at := None\<rparr> else x) (ad_assessments d)\<rparr>)"
    by (simp add: process_assessment_eq [OF assms] put_status_def upd_where_def)
next
  fix v c assume c: "computed cfg d a = Inr (v, c)"
  obtain p where ev: "evaluate (score_algorithm_version cfg) p (program_version_input v) (rule_inputs d (pv_id v)) = Inr c"
    by (rule computed_evaluate [OF c])
  let ?d = "put_status i as_running None d"
  let ?d' = "with_result now i v c ?d"
  let ?r = "new_result (bd_next d) now i (pv_id v) c"
  have r: "result_of ?d' i = Some ?r" using result_of_with_result [of ?d i now v c] assms(4) by (simp add: result_of_def)
  have a: "assessment_of ?d' i = Some (a\<lparr>am_status := as_completed, am_completed_at := Some now\<rparr>)"
    by (rule assessment_of_with_result [OF assms(3)])
  have others: "\<forall>j. j \<noteq> i \<longrightarrow> assessment_of ?d' j = assessment_of d j" using with_result_other by blast
  have items: "items_of ?d' ?r = new_items now (bd_next d) c" by (rule items_of_new [OF assms(1,2)])
  have again: "request (process_assessment cfg' later i) ?d' = (Inr (), ?d')" for cfg' later
    by (rule process_completed [OF a]) (simp_all add: r)
  have fields: "rs_computed_at ?r = now" "rs_total_score ?r = sr_score_final c" "rs_is_eligible ?r = sr_is_eligible c"
    "rs_rules_version_hash ?r = sr_rules_version_hash c" "rs_algorithm_version ?r = score_algorithm_version cfg"
    "rs_program_version_id ?r = pv_id v"
    using stored_score [OF ev] engine_version [OF ev] by (simp_all add: new_result_def)
  have run: "request (process_assessment cfg now i) d = (Inr (), ?d')" by (simp add: process_assessment_eq [OF assms] c)
  have tables: "ad_results ?d' = ad_results d @ [?r]" "ad_items ?d' = ad_items d @ items_of ?d' ?r"
    by (simp_all add: with_result_tables items)
  show "\<exists>d' r. request (process_assessment cfg now i) d = (Inr (), d')
      \<and> assessment_of d' i = Some (a\<lparr>am_status := as_completed, am_completed_at := Some now\<rparr>)
      \<and> (\<forall>j. j \<noteq> i \<longrightarrow> assessment_of d' j = assessment_of d j)
      \<and> result_of d' i = Some r \<and> ad_results d' = ad_results d @ [r] \<and> rs_computed_at r = now
      \<and> rs_total_score r = sr_score_final c \<and> rs_is_eligible r = sr_is_eligible c
      \<and> rs_rules_version_hash r = sr_rules_version_hash c \<and> rs_algorithm_version r = score_algorithm_version cfg
      \<and> rs_program_version_id r = pv_id v
      \<and> ad_items d' = ad_items d @ items_of d' r
      \<and> list_all2 (\<lambda>b y. ri_rule_group_id y = Some (bi_rule_group_id b) \<and> ri_rule_condition_id y = bi_rule_condition_id b
          \<and> ri_rule_outcome_id y = Some (bi_rule_outcome_id b) \<and> ri_applied y = bi_applied b
          \<and> (\<bar>bi_score_delta b\<bar> < 10 ^ 6 \<longrightarrow> ri_score_delta y = bi_score_delta b)
          \<and> ri_explanation_message y = bi_explanation_message b \<and> ri_created_at y = now
          \<and> ri_audit_payload_json y = [(''condition_checks'', JList (bi_condition_checks b)),
              (''is_blocking'', JBool (bi_is_blocking b)), (''rule_group_code'', JStr (bi_rule_group_code b))])
        (sr_breakdown c) (items_of d' r)
      \<and> (\<forall>cfg' later. request (process_assessment cfg' later i) d' = (Inr (), d'))"
    by (rule exI [of _ ?d'], rule exI [of _ ?r])
      (intro conjI run a others r tables fields new_items_entries [OF ev, of now "bd_next d", folded items] allI again)
qed


theorem computation_recorded_witness:
  "\<exists>d' r. request (process_assessment base_defaults 9 61) flow_app = (Inr (), d')
     \<and> result_of d' 61 = Some r \<and> rs_program_version_id r = 11"
proof -
  obtain v c where c: "computed base_defaults flow_app flow_assessment = Inr (v, c)" using flow_computed by blast
  from computed_evaluate [OF c] have v: "pv_id v = 11" using flow_version by metis
  from computation_recorded [OF flow_ok flow_lookups(1,2), of base_defaults 9, THEN conjunct2, rule_format, OF c]
  obtain d' r where "request (process_assessment base_defaults 9 61) flow_app = (Inr (), d')"
    and "result_of d' 61 = Some r" and "rs_program_version_id r = pv_id v" by blast
  then show ?thesis using v by (intro exI conjI) simp_all
qed

text \<open>
  C12. The owner, and only the owner, reads the engine's score: after the computation the breakdown
  shows to the owner the score of the engine unchanged (stored as a float, read back from a decimal
  column), its band, its rule hash and the version used; any other user gets 404.
\<close>

theorem breakdown_shows_score:
  assumes "app_ok d" and "app_fresh d" and "rules_ok d" and "assessment_of d i = Some a" and "result_of d i = None"
    and "computed cfg d a = Inr (v, c)" and "request (process_assessment cfg now i) d = (Inr (), d')"
  shows "\<exists>b. request (get_assessment_breakdown i (am_user_id a)) d' = (Inr b, d')
      \<and> ab_score_final b = sr_score_final c \<and> ab_faixa b = sr_faixa c
      \<and> ab_rules_version_hash b = sr_rules_version_hash c \<and> vi_id (ab_program_version_used b) = pv_id v
      \<and> (\<forall>u. u \<noteq> am_user_id a \<longrightarrow>
           request (get_assessment_breakdown i u) d' = (Inl (HTTPException 404 ''Assessment not found''), d'))"
proof -
  let ?r = "new_result (bd_next d) now i (pv_id v) c"
  have d': "d' = with_result now i v c (put_status i as_running None d)"
    using assms(7) by (simp add: process_assessment_eq [OF assms(1,2,4,5)] assms(6))
  obtain p where ev: "evaluate (score_algorithm_version cfg) p (program_version_input v) (rule_inputs d (pv_id v)) = Inr c"
    and v: "v \<in> set (rd_versions d)" by (rule computed_evaluate [OF assms(6)])
  have "result_of (put_status i as_running None d) i = None" using assms(5) by (simp add: result_of_def)
  from result_of_with_result [OF this, of now v c] have r: "result_of d' i = Some ?r" by (simp add: d')
  have total: "rs_total_score ?r = sr_score_final c" using stored_score [OF ev] by (simp add: new_result_def)
  obtain k where k: "rs_total_score ?r = of_int k / 100" "0 \<le> k" "k \<le> 10000" using score_cents [OF ev] total by auto
  have ver: "version_of d' (rs_program_version_id ?r) = Some v"
    using version_of_mem [OF assms(1,3) v] by (simp add: version_of_def d' with_result_tables new_result_def)
  have a: "assessment_of d' i = Some (a\<lparr>am_status := as_completed, am_completed_at := Some now\<rparr>)"
    unfolding d' by (rule assessment_of_with_result [OF assms(4)])
  show ?thesis
    using breakdown_of_result [OF a r ver k] total result_faixa [OF ev]
    by (simp add: new_result_def program_version_input_def)
qed

theorem breakdown_shows_score_witness:
  "\<exists>d' b. request (get_assessment_breakdown 61 7) d' = (Inr b, d') \<and> vi_id (ab_program_version_used b) = 11
     \<and> request (get_assessment_breakdown 61 8) d' = (Inl (HTTPException 404 ''Assessment not found''), d')
     \<and> (d' :: app_db) \<noteq> flow_app"
proof -
  obtain v c where c: "computed base_defaults flow_app flow_assessment = Inr (v, c)" using flow_computed by blast
  from computed_evaluate [OF c] have v: "pv_id v = 11" using flow_version by metis
  have rules: "rules_ok flow_app" using flow_rules_inv by (simp add: rules_inv_def)
  obtain d' where d': "request (process_assessment base_defaults 9 61) flow_app = (Inr (), d')"
    using process_assessment_eq [OF flow_ok flow_lookups(1,2), of base_defaults 9] c by simp
  have "d' = with_result 9 61 v c (put_status 61 as_running None flow_app)"
    using d' process_assessment_eq [OF flow_ok flow_lookups(1,2), of base_defaults 9] c by simp
  then have "ad_results d' \<noteq> ad_results flow_app" by (simp add: with_result_tables)
  then have new: "d' \<noteq> flow_app" by auto
  have user: "am_user_id flow_assessment = 7" by (simp add: flow_assessment_def)
  from breakdown_shows_score [OF flow_ok rules flow_lookups(1,2) c d', unfolded user]
  obtain b where "request (get_assessment_breakdown 61 7) d' = (Inr b, d')"
    and "vi_id (ab_program_version_used b) = pv_id v"
    and other: "\<And>u. u \<noteq> 7 \<Longrightarrow>
      request (get_assessment_breakdown 61 u) d' = (Inl (HTTPException 404 ''Assessment not found''), d')" by blast
  then show ?thesis using v new other [of 8] by (intro exI conjI) simp_all
qed

text \<open>
  C8. Creation is idempotent: when a request is answered and then repeated with the same key, by the
  same user and with the same trace, whatever its body and whenever it comes, the repetition names the
  same assessment and the same job, consumes no quota, and leaves every table beyond billing as it was.
\<close>

theorem assessment_replay:
  assumes "request (create_assessment cfg now u p tr) d = (Inr q, d1)"
    and "ac_idempotency_key p' = ac_idempotency_key p"
    and "request (create_assessment cfg later u p' tr) d1 = (Inr q', d2)"
  shows "aq_assessment_id q' = aq_assessment_id q \<and> aq_job_id q' = aq_job_id q
    \<and> bd_counters d2 = bd_counters d1 \<and> billing_db.more d2 = billing_db.more d1"
proof -
  from create_assessment_post [OF assms(1)] obtain a j
    where reg: "registered u (ac_idempotency_key p) a j d1" and q: "aq_assessment_id q = am_id a" "aq_job_id q = jb_id j"
      and tr: "opt_truthy tr \<longrightarrow> opt_truthy (jb_trace_id j)" by blast
  from create_assessment_again [OF _ tr assms(3), of a] reg assms(2) q show ?thesis by simp
qed

definition flow_request :: "json dict \<Rightarrow> assessment_create" where
  "flow_request p = \<lparr>ac_program_id = 2, ac_profile_json = p, ac_idempotency_key = ''k''\<rparr>"

lemma flow_baseline: "ensure_user_access_baseline base_defaults 0 7 (begin_txn flow_app) = (Inr (), begin_txn flow_app)"
proof (rule baseline_noop)
  show "in_service base_defaults flow_app"
    by (simp add: in_service_def has_default_def schema_defs flow_app_def flow_rules_def rules_db.extend_def
        billing_db.extend_def sample_billing_defs)
  show "active_entitlements flow_app 7 0 \<noteq> []"
    by (simp add: active_entitlements_def in_force_def flow_defs sample_entitlement_def)
qed

lemma flow_job:
  "job_by_key flow_app score_job (''assessment:'' @ uuid_str 61)
   = Some (new_job 62 5 score_job (''assessment:'' @ uuid_str 61) (Some 61) None None)"
  by (simp add: job_by_key_def flow_app_def rules_db.extend_def new_job_def)

lemma flow_create:
  "\<exists>q. request (create_assessment base_defaults 0 7 (flow_request p) None) flow_app = (Inr q, flow_app)
     \<and> aq_assessment_id q = 61"
proof -
  define pr where "pr = (active_entitlement flow_app 7 (processing_priority_feature_key base_defaults) 0 \<noteq> None)"
  have h: "has_priority_processing base_defaults 0 7 (begin_txn flow_app) = (Inr pr, begin_txn flow_app)"
    using flow_baseline by (simp add: has_priority_processing_def get_active_entitlement_def bindO_Inr pr_def)
  have c: "create_or_find_assessment base_defaults 0 7 (flow_request p) (begin_txn flow_app)
      = (Inr (flow_assessment, pr), begin_txn flow_app)"
    using flow_lookups(3) h by (simp add: create_or_find_assessment_def get_assessment_by_user_idempotency_def
        flow_request_def bindO_Inr)
  have id: "am_id flow_assessment = 61" by (simp add: flow_assessment_def)
  have g: "get_or_create_job 0 score_job (''assessment:'' @ uuid_str (am_id flow_assessment))
      (Some (am_id flow_assessment)) None None (begin_txn flow_app)
      = (Inr (new_job 62 5 score_job (''assessment:'' @ uuid_str 61) (Some 61) None None), begin_txn flow_app)"
    unfolding id by (rule get_or_create_job_again) (simp_all only: txn_simps flow_job opt_truthy_def option.case simp_thms not_False_eq_True)
  show ?thesis using c g by (simp add: request_def create_assessment_def bindO_def id)
qed

theorem assessment_replay_witness:
  "\<exists>q. request (create_assessment base_defaults 0 7 (flow_request [(''idade'', JInt 9)]) None) flow_app = (Inr q, flow_app)
     \<and> aq_assessment_id q = 61"
proof -
  obtain q q' where "request (create_assessment base_defaults 0 7 (flow_request []) None) flow_app = (Inr q, flow_app)"
      "aq_assessment_id q = 61"
    and q': "request (create_assessment base_defaults 0 7 (flow_request [(''idade'', JInt 9)]) None) flow_app = (Inr q', flow_app)"
    using flow_create by meson
  with assessment_replay [OF this(1) _ q'] show ?thesis by (simp add: flow_request_def)
qed

end
