(* ===== verification/Assessments_Delivery.thy ===== *)
theory Assessments_Delivery
  imports Assessments_Flow
begin

text \<open>
  Assessments and the components around them: the queue message of a created assessment and its
  redelivery until the job is settled, the version in force after any use of the rules service, and
  the quota that a failed creation has already consumed.
\<close>

section \<open>The queue message\<close>

lemma create_assessment_message:
  assumes "request (create_assessment cfg now u p tr) d = (Inr q, d')" and "aq_message q = Some m"
  shows "tm_target_id m = uuid_str (aq_assessment_id q) \<and> tm_job_id m = uuid_str (aq_job_id q) \<and> tm_trace_id m = tr"
  using assms by (auto simp: request_def create_assessment_def bindO_eq_Inr split: prod.splits if_splits)

section \<open>Quota and creation\<close>

lemma consume_commits:
  assumes "consume_assessment_quota cfg now u t = (Inr pr, t')"
  shows "\<not> aborted t' \<and> working t' = committed t'"
  using assms by (auto simp: consume_assessment_quota_def txn_success split: option.splits)

lemma create_after_quota_fails:
  assumes "\<not> aborted t" and "ac_program_id p \<notin> set (map pg_id (rd_programs (working t)))"
  shows "\<exists>t'. create_after_quota now u p pr t = (Inl (IntegrityError ''constraint violated''), t')
    \<and> committed t' = committed t"
  using assms
  by (auto simp: create_after_quota_def get_latest_snapshot_version_def create_profile_snapshot_def
      create_assessment_row_def bindO_def flush_def app_ok_def assessments_ok_def split: prod.splits sum.splits)

lemma programs_more:
  fixes d d' :: "'z app_db_scheme"
  shows "billing_db.more d' = billing_db.more d \<Longrightarrow> rd_programs d' = rd_programs d"
  by (cases d; cases d'; simp)

lemma length_at_most_one:
  assumes "distinct xs" and "\<And>a b. a \<in> set xs \<Longrightarrow> b \<in> set xs \<Longrightarrow> a = b"
  shows "length xs \<le> 1"
proof (rule ccontr)
  assume "\<not> length xs \<le> 1"
  then have "0 < length xs" "1 < length xs" by auto
  then have "xs ! 0 \<in> set xs" "xs ! 1 \<in> set xs" "xs ! 0 \<noteq> xs ! 1"
    using assms(1) by (simp_all add: nth_eq_iff_index_eq)
  with assms(2) show False by blast
qed

section \<open>Properties\<close>

text \<open>
  C5. A score task always ends: whichever sessions of its deliveries break, with whatever error and at whatever
  statement, and even when the broker refuses a retry or the hard time limit kills the worker, as long as what is
  left behind keeps the constraints of the tables and the row of the job, after at most one delivery more than the
  configured retries no further delivery is asked for; and if no delivery was killed and none lost the record of its
  failure or its retry message, the job is then completed or dead-lettered.
\<close>

theorem score_task_settles:
  assumes "app_ok d" and "job_of d i \<noteq> None"
    and "\<forall>n. breaks_keep (\<lambda>d. app_ok d \<and> job_of d i \<noteq> None) (flt n)"
  shows "case redeliver (score_attempt cfg flt now ms a i tr) (Suc (nat (score_task_max_retries cfg))) 0 d of
    (done, d') \<Rightarrow> done \<and> app_ok d' \<and> ((\<forall>n \<le> nat (score_task_max_retries cfg).
        fl_killed (flt n) = None \<and> fl_record (flt n) = None \<and> fl_requeue (flt n) = None) \<longrightarrow>
      (\<exists>j. job_of d' i = Some j \<and> jb_status j \<in> {job_completed, job_dead_letter}))"
proof -
  have inv: "(\<lambda>d. app_ok d \<and> job_of d i \<noteq> None) = job_inv i" by (rule ext) (simp add: job_inv_def)
  have "keeping (job_inv i) flt = flt" using assms(3) unfolding inv by (blast intro: keeping_id)
  with score_task.finishes [of i d 0 cfg flt now ms a tr] assms(1,2) show ?thesis
    by (auto simp: job_inv_def job_settled_def recordable_def case_prod_beta)
qed

lemma flow_job_of: "job_of flow_app 62 \<noteq> None"
  by (simp add: job_of_def flow_app_def rules_db.extend_def new_job_def)

text \<open>Deliveries whose work times out and whose mark of completion breaks.\<close>

definition flow_faults :: "app_db faults" where
  "flow_faults = no_faults\<lparr>fl_work := Some (TimeoutError ''t'', \<lambda>d. d), fl_finish := Some (OperationalError ''o'', \<lambda>d. d)\<rparr>"

theorem score_task_settles_witness:
  "case redeliver (score_attempt base_defaults (\<lambda>n. flow_faults) (\<lambda>n. 9) (\<lambda>n. 1) 61 62 None)
     (Suc (nat (score_task_max_retries base_defaults))) 0 flow_app of
    (done, d') \<Rightarrow> done \<and> (\<exists>j. job_of d' 62 = Some j \<and> jb_status j \<in> {job_completed, job_dead_letter})"
proof -
  have "\<forall>n::nat. breaks_keep (\<lambda>d. app_ok d \<and> job_of d 62 \<noteq> None) flow_faults"
    by (simp add: breaks_keep_def flow_faults_def no_faults_def)
  from score_task_settles [OF flow_ok(1) flow_job_of this, of base_defaults "\<lambda>n. 9" "\<lambda>n. 1" 61 None]
  show ?thesis by (auto simp: flow_faults_def no_faults_def)
qed

text \<open>The queue message reaches its job: a delivery of the message that a creation answered with,
  whose identifiers travel as text, is a delivery of that assessment, that job and that trace.
\<close>

theorem queued_message_delivered:
  assumes "request (create_assessment cfg now u p tr) d = (Inr q, d')" and "aq_message q = Some m"
    and "aq_assessment_id q < 2 ^ 128" and "aq_job_id q < 2 ^ 128"
  shows "process_assessment_task cfg flt later ms m n
    = score_delivery cfg flt later ms (aq_job_id q) tr
        (run_assessment_job cfg later (aq_assessment_id q) (aq_job_id q) tr) n"
  using create_assessment_message [OF assms(1,2)] uuid_parse_str assms(3,4)
  by (simp add: process_assessment_task_def)

lemma flow_create_message:
  "\<exists>q m. request (create_assessment base_defaults 0 7 (flow_request []) None) flow_app = (Inr q, flow_app)
     \<and> aq_assessment_id q = 61 \<and> aq_job_id q = 62 \<and> aq_message q = Some m"
proof -
  obtain q where q: "request (create_assessment base_defaults 0 7 (flow_request []) None) flow_app = (Inr q, flow_app)"
      "aq_assessment_id q = 61"
    using flow_create by blast
  from create_assessment_post [OF q(1)] obtain a j where
    reg: "registered 7 ''k'' a j flow_app" "aq_job_id q = jb_id j"
    by (auto simp: flow_request_def)
  then have a: "a = flow_assessment" using flow_lookups(3) by (simp add: registered_def)
  then have "j = new_job 62 5 score_job (''assessment:'' @ uuid_str 61) (Some 61) None None"
    using reg(1) flow_job by (simp add: registered_def flow_assessment_def)
  then have "aq_job_id q = 62" using reg(2) by (simp add: new_job_def)
  moreover have "aq_message q \<noteq> None"
  proof -
    obtain b pr t1 where c: "create_or_find_assessment base_defaults 0 7 (flow_request []) (begin_txn flow_app)
        = (Inr (b, pr), t1)" and m: "am_status b = as_pending \<longrightarrow> aq_message q \<noteq> None"
      using q(1) by (auto simp: request_def create_assessment_def bindO_eq_Inr split: prod.splits)
    then have "b = flow_assessment" using flow_lookups(3)
      by (auto simp: create_or_find_assessment_def get_assessment_by_user_idempotency_def bindO_eq_Inr flow_request_def)
    with m show ?thesis by (simp add: flow_assessment_def)
  qed
  ultimately show ?thesis using q by auto
qed

theorem queued_message_delivered_witness:
  "\<exists>m. (process_assessment_task base_defaults no_faults 9 1 m 0 :: (app_db, delivery) op)
     = score_delivery base_defaults no_faults 9 1 62 None (run_assessment_job base_defaults 9 61 62 None) 0"
proof -
  obtain q m where q: "request (create_assessment base_defaults 0 7 (flow_request []) None) flow_app = (Inr q, flow_app)"
      "aq_assessment_id q = 61" "aq_job_id q = 62" "aq_message q = Some m"
    using flow_create_message by blast
  have "aq_assessment_id q < 2 ^ 128" "aq_job_id q < 2 ^ 128" by (simp_all add: q)
  from queued_message_delivered [OF q(1,4) this, of no_faults 9 1 0] show ?thesis unfolding q(2,3) by blast
qed

text \<open>At most one version of a program is in force at an instant: after any sequence of requests to
  the rules service the query that picks the version of an assessment has at most one candidate, so
  its result does not depend on the order of the rows.
\<close>

theorem one_version_in_force:
  assumes "rules_inv d" and "t < end_of_time"
  shows "length (versions_in_force (fold rules_step requests d) p t) \<le> 1"
proof -
  have inv: "rules_inv (fold rules_step requests d)" by (rule rules.run_inv [OF assms(1)])
  then have "distinct (rd_versions (fold rules_step requests d))"
    by (auto simp: rules_inv_def rules_ok_def versions_ok_def distinct_map)
  then show ?thesis
    by (intro length_at_most_one versions_in_force_unique [OF inv assms(2)]) (simp_all add: versions_in_force_def)
qed

theorem one_version_in_force_witness:
  "length (versions_in_force (fold rules_step [(0, Activate_Version 12 True)] two_versions) 2 7) \<le> 1"
  using one_version_in_force [OF two_versions_inv, of 7 "[(0, Activate_Version 12 True)]" 2]
  by (simp add: end_of_time_def)

text \<open>A failed creation has already used the quota: the quota is committed before the assessment is
  inserted, so a request for a program that does not exist fails with a broken constraint, records no
  assessment, and still raises the month's counter by one.
\<close>

theorem quota_lost_on_failure:
  assumes "ready cfg d" and "u \<in> set (bd_users d)"
    and "active_entitlement d u (assessment_feature_key cfg) now = Some e" and "en_limit_value e = Some cap"
    and "usage cfg d u now < cap" and "assessment_by_key d u (ac_idempotency_key p) = None"
    and "ac_program_id p \<notin> set (map pg_id (rd_programs d))"
  shows "\<exists>d'. request (create_assessment cfg now u p tr) d = (Inl (IntegrityError ''constraint violated''), d')
    \<and> usage cfg d' u now = usage cfg d u now + 1 \<and> ad_assessments d' = ad_assessments d"
proof -
  obtain pr d' where c: "request (consume_assessment_quota cfg now u) d = (Inr pr, d')"
    and us: "usage cfg d' u now = usage cfg d u now + 1"
    using consume_ready [OF assms(1-4)] assms(5) by auto
  then obtain t where t: "consume_assessment_quota cfg now u (begin_txn d) = (Inr pr, t)" "committed t = d'"
    by (auto simp: request_def split: prod.splits)
  have w: "\<not> aborted t" "working t = d'" using consume_commits [OF t(1)] t(2) by simp_all
  have m: "billing_db.more d' = billing_db.more d"
    using keepsD [OF more_same_consume _ t(1), of "billing_db.more d"] t(2) by (simp add: both_def more_same_def)
  have "ac_program_id p \<notin> set (map pg_id (rd_programs (working t)))"
    using assms(7) programs_more [OF m] w by simp
  from create_after_quota_fails [OF w(1) this, of now u pr] obtain t'
    where "create_after_quota now u p pr t = (Inl (IntegrityError ''constraint violated''), t')"
      and t': "committed t' = d'"
    using t(2) by auto
  then have "create_or_find_assessment cfg now u p (begin_txn d) = (Inl (IntegrityError ''constraint violated''), t')"
    using t(1) assms(6) by (simp add: create_or_find_new_eq bindO_def)
  then have "request (create_assessment cfg now u p tr) d = (Inl (IntegrityError ''constraint violated''), d')"
    using t' by (simp add: request_def create_assessment_def bindO_def)
  with us more_tables [OF m] show ?thesis by blast
qed

lemma flow_ready:
  "ready base_defaults flow_app" "7 \<in> set (bd_users flow_app)"
  "active_entitlement flow_app 7 (assessment_feature_key base_defaults) 0 = Some sample_entitlement"
  by (simp_all add: ready_def in_service_def fresh_ok_def has_default_def schema_defs active_entitlement_def in_force_def
      flow_app_def flow_rules_def rules_db.extend_def billing_db.extend_def sample_billing_defs)

lemma flow_usage: "usage base_defaults flow_app 7 0 = 0"
  by (simp add: usage_def) (simp add: flow_defs)

theorem quota_lost_on_failure_witness:
  "\<exists>d'. request (create_assessment base_defaults 0 7
       \<lparr>ac_program_id = 99, ac_profile_json = [], ac_idempotency_key = ''new''\<rparr> None) flow_app
     = (Inl (IntegrityError ''constraint violated''), d') \<and> usage base_defaults d' 7 0 = 1"
proof -
  let ?p = "\<lparr>ac_program_id = 99, ac_profile_json = [], ac_idempotency_key = ''new''\<rparr>"
  have h: "en_limit_value sample_entitlement = Some 3" "usage base_defaults flow_app 7 0 < 3"
    "assessment_by_key flow_app 7 (ac_idempotency_key ?p) = None"
    "ac_program_id ?p \<notin> set (map pg_id (rd_programs flow_app))"
    by (simp_all add: sample_entitlement_def flow_usage assessment_by_key_def) (simp_all add: flow_defs)
  from quota_lost_on_failure [OF flow_ready(1-3) h, of None] show ?thesis by (auto simp: flow_usage)
qed

end
