(* ===== verification/Llm.thy ===== *)
theory Llm
  imports Settings Py_Json Py_Time
begin

text \<open>
  The roadmap generators, \<open>src/apps/roadmaps/llm.py\<close>, and the contract they answer with,
  \<open>src/apps/roadmaps/schemas.py\<close>: validation of the contract, the OpenAI provider over its API, the
  local stub, and the circuit breaker that switches between them. The OpenAI client and the JSON
  reader of pydantic are parameters.
\<close>

section \<open>The contract\<close>

record step_contract =
  sc_step_order :: int
  sc_titulo :: string
  sc_descricao :: string
  sc_prazo_estimado_semanas :: int
  sc_dependencias :: "int list"
  sc_risco :: string
  sc_criterio_conclusao :: string
  sc_gap_relacionado :: "string option"
  sc_is_required :: bool

record roadmap_contract =
  ct_roadmap_schema_version :: string
  ct_objetivo :: string
  ct_manual_review_required :: bool
  ct_passos_priorizados :: "step_contract list"

text \<open>\<open>pydantic.ValidationError\<close>, a \<open>ValueError\<close>; its text is pydantic's.\<close>

definition invalid :: "string \<Rightarrow> exn" where
  "invalid loc = ValueError (''validation error: '' @ loc)"

definition validate_dependencias :: "int list \<Rightarrow> int list" where
  "validate_dependencias value = sorted_list_of_set (set (filter (\<lambda>item. 1 \<le> item) value))"

text \<open>The constructors, on arguments of the declared types.\<close>

definition make_step :: "step_contract \<Rightarrow> step_contract result" where
  "make_step s =
     (if sc_step_order s < 1 then Inl (invalid ''step_order'')
      else if length (sc_titulo s) < 3 \<or> 180 < length (sc_titulo s) then Inl (invalid ''titulo'')
      else if length (sc_descricao s) < 10 then Inl (invalid ''descricao'')
      else if sc_prazo_estimado_semanas s < 1 then Inl (invalid ''prazo_estimado_semanas'')
      else if sc_risco s \<notin> {''baixo'', ''medio'', ''alto''} then Inl (invalid ''risco'')
      else if length (sc_criterio_conclusao s) < 10 then Inl (invalid ''criterio_conclusao'')
      else Inr (s\<lparr>sc_dependencias := validate_dependencias (sc_dependencias s)\<rparr>))"

definition make_contract :: "roadmap_contract \<Rightarrow> roadmap_contract result" where
  "make_contract c =
     (if length (ct_roadmap_schema_version c) < 1 \<or> 16 < length (ct_roadmap_schema_version c) then
        Inl (invalid ''roadmap_schema_version'')
      else if length (ct_objetivo c) < 10 then Inl (invalid ''objetivo'')
      else if ct_passos_priorizados c = [] then Inl (invalid ''passos_priorizados'')
      else Inr c)"

text \<open>
  \<open>model_validate_json\<close> in strict mode, on the parsed text: no coercion, no other key, and the
  declared default for an absent optional field.
\<close>

fun strict_int :: "string \<Rightarrow> json option \<Rightarrow> int result" where
  "strict_int k (Some (JInt n)) = Inr n"
| "strict_int k _ = Inl (invalid k)"

fun strict_str :: "string \<Rightarrow> json option \<Rightarrow> string result" where
  "strict_str k (Some (JStr s)) = Inr s"
| "strict_str k _ = Inl (invalid k)"

fun strict_bool :: "string \<Rightarrow> bool \<Rightarrow> json option \<Rightarrow> bool result" where
  "strict_bool k dflt None = Inr dflt"
| "strict_bool k dflt (Some (JBool b)) = Inr b"
| "strict_bool k dflt _ = Inl (invalid k)"

fun strict_opt_str :: "string \<Rightarrow> json option \<Rightarrow> string option result" where
  "strict_opt_str k None = Inr None"
| "strict_opt_str k (Some JNull) = Inr None"
| "strict_opt_str k (Some (JStr s)) = Inr (Some s)"
| "strict_opt_str k _ = Inl (invalid k)"

fun strict_ints :: "string \<Rightarrow> json option \<Rightarrow> int list result" where
  "strict_ints k None = Inr []"
| "strict_ints k (Some (JList xs)) = mapR (\<lambda>x. strict_int k (Some x)) xs"
| "strict_ints k _ = Inl (invalid k)"

definition only_keys :: "string list \<Rightarrow> json dict \<Rightarrow> unit result" where
  "only_keys ks d = (if list_all (\<lambda>(k, v). k \<in> set ks) d then Inr () else Inl (invalid ''extra_forbidden''))"

fun step_of_json :: "json \<Rightarrow> step_contract result" where
  "step_of_json (JObj d) =
     bindR (only_keys [''step_order'', ''titulo'', ''descricao'', ''prazo_estimado_semanas'', ''dependencias'',
       ''risco'', ''criterio_conclusao'', ''gap_relacionado'', ''is_required''] d) (\<lambda>_.
     bindR (strict_int ''step_order'' (dict_get d ''step_order'')) (\<lambda>order.
     bindR (strict_str ''titulo'' (dict_get d ''titulo'')) (\<lambda>titulo.
     bindR (strict_str ''descricao'' (dict_get d ''descricao'')) (\<lambda>descricao.
     bindR (strict_int ''prazo_estimado_semanas'' (dict_get d ''prazo_estimado_semanas'')) (\<lambda>prazo.
     bindR (strict_ints ''dependencias'' (dict_get d ''dependencias'')) (\<lambda>dependencias.
     bindR (strict_str ''risco'' (dict_get d ''risco'')) (\<lambda>risco.
     bindR (strict_str ''criterio_conclusao'' (dict_get d ''criterio_conclusao'')) (\<lambda>criterio.
     bindR (strict_opt_str ''gap_relacionado'' (dict_get d ''gap_relacionado'')) (\<lambda>gap.
     bindR (strict_bool ''is_required'' True (dict_get d ''is_required'')) (\<lambda>is_required.
     make_step \<lparr>sc_step_order = order, sc_titulo = titulo, sc_descricao = descricao,
       sc_prazo_estimado_semanas = prazo, sc_dependencias = dependencias, sc_risco = risco,
       sc_criterio_conclusao = criterio, sc_gap_relacionado = gap, sc_is_required = is_required\<rparr>))))))))))"
| "step_of_json _ = Inl (invalid ''passos_priorizados'')"

fun steps_of_json :: "json option \<Rightarrow> step_contract list result" where
  "steps_of_json (Some (JList xs)) = mapR step_of_json xs"
| "steps_of_json _ = Inl (invalid ''passos_priorizados'')"

fun contract_of_json :: "json \<Rightarrow> roadmap_contract result" where
  "contract_of_json (JObj d) =
     bindR (only_keys [''roadmap_schema_version'', ''objetivo'', ''manual_review_required'',
       ''passos_priorizados''] d) (\<lambda>_.
     bindR (strict_str ''roadmap_schema_version'' (dict_get d ''roadmap_schema_version'')) (\<lambda>version.
     bindR (strict_str ''objetivo'' (dict_get d ''objetivo'')) (\<lambda>objetivo.
     bindR (strict_bool ''manual_review_required'' False (dict_get d ''manual_review_required'')) (\<lambda>review.
     bindR (steps_of_json (dict_get d ''passos_priorizados'')) (\<lambda>steps.
     make_contract \<lparr>ct_roadmap_schema_version = version, ct_objetivo = objetivo,
       ct_manual_review_required = review, ct_passos_priorizados = steps\<rparr>)))))"
| "contract_of_json _ = Inl (invalid ''model_type'')"

section \<open>The circuit breaker\<close>

record circuit_breaker =
  cb_consecutive_failures :: int
  cb_opened_until :: "time option"

definition closed_breaker :: circuit_breaker where
  "closed_breaker = \<lparr>cb_consecutive_failures = 0, cb_opened_until = None\<rparr>"

definition is_open :: "time \<Rightarrow> circuit_breaker \<Rightarrow> bool" where
  "is_open now s = (case cb_opened_until s of None \<Rightarrow> False | Some t \<Rightarrow> now < t)"

definition record_failure :: "int \<Rightarrow> int \<Rightarrow> time \<Rightarrow> circuit_breaker \<Rightarrow> circuit_breaker" where
  "record_failure threshold recovery_seconds now s =
     (let n = cb_consecutive_failures s + 1
      in s\<lparr>cb_consecutive_failures := n,
           cb_opened_until := (if threshold \<le> n then Some (now + seconds recovery_seconds) else cb_opened_until s)\<rparr>)"

definition record_success :: "circuit_breaker \<Rightarrow> circuit_breaker" where
  "record_success s = s\<lparr>cb_consecutive_failures := 0, cb_opened_until := None\<rparr>"

section \<open>The providers\<close>

text \<open>A provider: its names, and what a call answers for a payload.\<close>

record provider =
  lp_provider_name :: string
  lp_model_name :: string
  lp_generate :: "json dict \<Rightarrow> roadmap_contract result"

text \<open>
  The OpenAI package: whether it can be imported, the answer of its chat endpoint to a system and a
  user message, and pydantic's JSON reader.
\<close>

datatype completion = Content "string option" | No_Choices | Timed_Out | Request_Failed string

record openai_api =
  installed :: bool
  chat :: "settings \<Rightarrow> string \<Rightarrow> string \<Rightarrow> completion"
  read_json :: "string \<Rightarrow> json option"

definition system_prompt :: string where
  "system_prompt = ''Voce gera roadmaps de imigracao apenas com base no score e gaps informados. ''
     @ ''Nao invente exigencias legais. Se informacao for insuficiente, retorne ''
     @ ''manual_review_required=true. Responda somente JSON valido.''"

text \<open>\<open>json.dumps(payload, ensure_ascii=True, sort_keys=True)\<close>\<close>

definition user_prompt :: "json dict \<Rightarrow> string" where
  "user_prompt input_payload = dumps True '', '' '': '' (JObj input_payload)"

definition model_validate_json :: "openai_api \<Rightarrow> string \<Rightarrow> roadmap_contract result" where
  "model_validate_json api content =
     (case read_json api content of None \<Rightarrow> Inl (invalid ''json_invalid'') | Some v \<Rightarrow> contract_of_json v)"

definition openai_generate :: "settings \<Rightarrow> openai_api \<Rightarrow> json dict \<Rightarrow> roadmap_contract result" where
  "openai_generate cfg api input_payload =
     (case chat api cfg system_prompt (user_prompt input_payload) of
        Timed_Out \<Rightarrow> Inl (LLMProviderTimeoutError ''OpenAI request timed out'')
      | Request_Failed e \<Rightarrow> Inl (LLMProviderError (''OpenAI request failed: '' @ e))
      | No_Choices \<Rightarrow> Inl (IndexError ''list index out of range'')
      | Content content \<Rightarrow>
          (case model_validate_json api (if opt_truthy content then the content else ''{}'') of
             Inr c \<Rightarrow> Inr c
           | Inl e \<Rightarrow> Inl (LLMProviderResponseError (''OpenAI returned invalid roadmap schema: '' @ exn_text e))))"

definition openai_provider :: "settings \<Rightarrow> openai_api \<Rightarrow> provider result" where
  "openai_provider cfg api =
     (if \<not> opt_truthy (openai_api_key cfg) then
        Inl (LLMProviderError ''OPENAI_API_KEY is required when llm_provider=openai'')
      else if \<not> installed api then Inl (LLMProviderError ''openai package is required for OpenAILLMProvider'')
      else Inr \<lparr>lp_provider_name = ''openai'', lp_model_name = openai_model cfg,
        lp_generate = openai_generate cfg api\<rparr>)"

text \<open>
  The stub turns each gap into a step. A gap that is no string, and a version that is none, fail the
  validation of the contract; the payload of the service has a list of gaps.
\<close>

definition gap_step :: "nat \<Rightarrow> string \<Rightarrow> step_contract" where
  "gap_step idx gap =
     \<lparr>sc_step_order = int idx, sc_titulo = ''Mitigar gap '' @ nat_str idx,
      sc_descricao = ''Atacar gap identificado: '' @ gap, sc_prazo_estimado_semanas = 6,
      sc_dependencias = (if 1 < idx then [int idx - 1] else []), sc_risco = ''medio'',
      sc_criterio_conclusao = ''Gap '' @ [CHR 0x27] @ gap @ [CHR 0x27] @ '' nao aparece no reprocessamento.'',
      sc_gap_relacionado = Some gap, sc_is_required = True\<rparr>"

definition default_step :: step_contract where
  "default_step =
     \<lparr>sc_step_order = 1, sc_titulo = ''Consolidar elegibilidade'',
      sc_descricao = ''Manter perfil atual e organizar evidencias para aplicacao.'',
      sc_prazo_estimado_semanas = 4, sc_dependencias = [], sc_risco = ''baixo'',
      sc_criterio_conclusao = ''Checklist documental completo.'', sc_gap_relacionado = None,
      sc_is_required = True\<rparr>"

definition step_of_gap :: "nat \<times> json \<Rightarrow> step_contract result" where
  "step_of_gap p =
     (case p of (idx, JStr gap) \<Rightarrow> make_step (gap_step idx gap) | _ \<Rightarrow> Inl (invalid ''gap_relacionado''))"

definition payload_gaps :: "json dict \<Rightarrow> json list" where
  "payload_gaps input_payload =
     (case dict_get input_payload ''gaps_criticos'' of Some (JList xs) \<Rightarrow> xs | _ \<Rightarrow> [])"

definition stub_version :: "json dict \<Rightarrow> string" where
  "stub_version input_payload =
     (case dict_get input_payload ''roadmap_schema_version'' of Some (JStr v) \<Rightarrow> v | _ \<Rightarrow> [])"

definition stub_generate :: "json dict \<Rightarrow> roadmap_contract result" where
  "stub_generate input_payload =
     (let gaps = payload_gaps input_payload
      in bindR (if gaps \<noteq> [] then mapR step_of_gap (enumerate 1 gaps)
                else mapR make_step [default_step]) (\<lambda>steps.
         make_contract
           \<lparr>ct_roadmap_schema_version = stub_version input_payload,
            ct_objetivo = ''Fechar gaps criticos e maximizar score para o programa alvo sem violar requisitos.'',
            ct_manual_review_required = True, ct_passos_priorizados = steps\<rparr>))"

definition claude_stub :: "string \<Rightarrow> provider" where
  "claude_stub model_name =
     \<lparr>lp_provider_name = ''claude_stub'', lp_model_name = model_name, lp_generate = stub_generate\<rparr>"

text \<open>The resilient provider: primary, fallback, and the breaker in between.\<close>

record resilient =
  re_primary :: provider
  re_fallback :: provider
  re_failure_threshold :: int
  re_recovery_seconds :: int
  re_state :: circuit_breaker
  re_provider_name :: string
  re_model_name :: string

definition new_resilient :: "provider \<Rightarrow> provider \<Rightarrow> int \<Rightarrow> int \<Rightarrow> resilient" where
  "new_resilient primary fallback failure_threshold recovery_seconds =
     \<lparr>re_primary = primary, re_fallback = fallback, re_failure_threshold = max 1 failure_threshold,
      re_recovery_seconds = max 1 recovery_seconds, re_state = closed_breaker,
      re_provider_name = ''resilient'', re_model_name = lp_model_name primary\<rparr>"

fun is_llm_error :: "exn \<Rightarrow> bool" where
  "is_llm_error (LLMProviderError _) = True"
| "is_llm_error (LLMProviderTimeoutError _) = True"
| "is_llm_error (LLMProviderResponseError _) = True"
| "is_llm_error _ = False"

definition generate_with_fallback :: "json dict \<Rightarrow> (resilient, roadmap_contract) op" where
  "generate_with_fallback input_payload r =
     (case lp_generate (re_fallback r) input_payload of
        Inl e \<Rightarrow> (Inl e, r)
      | Inr c \<Rightarrow> (Inr c, r\<lparr>re_provider_name := lp_provider_name (re_fallback r),
                           re_model_name := lp_model_name (re_fallback r)\<rparr>))"

definition resilient_generate :: "time \<Rightarrow> json dict \<Rightarrow> (resilient, roadmap_contract) op" where
  "resilient_generate now input_payload r =
     (if is_open now (re_state r) then generate_with_fallback input_payload r
      else case lp_generate (re_primary r) input_payload of
        Inr c \<Rightarrow> (Inr c, r\<lparr>re_state := record_success (re_state r),
                          re_provider_name := lp_provider_name (re_primary r),
                          re_model_name := lp_model_name (re_primary r)\<rparr>)
      | Inl e \<Rightarrow>
          if is_llm_error e then
            generate_with_fallback input_payload
              (r\<lparr>re_state := record_failure (re_failure_threshold r) (re_recovery_seconds r) now (re_state r)\<rparr>)
          else (Inl e, r))"

datatype llm = Plain provider | Breaker resilient

definition build_llm_provider :: "settings \<Rightarrow> openai_api \<Rightarrow> llm result" where
  "build_llm_provider cfg api =
     (let fallback = claude_stub (anthropic_model cfg)
      in if llm_provider cfg = ''claude'' then Inr (Plain fallback)
         else bindR (openai_provider cfg api) (\<lambda>primary.
           Inr (Breaker (new_resilient primary fallback (llm_circuit_breaker_failure_threshold cfg)
             (llm_circuit_breaker_recovery_seconds cfg)))))"

text \<open>A call of either kind of provider: the contract, and the names that are recorded with it.\<close>

fun llm_generate :: "time \<Rightarrow> json dict \<Rightarrow> (llm, roadmap_contract) op" where
  "llm_generate now input_payload (Plain p) = (lp_generate p input_payload, Plain p)"
| "llm_generate now input_payload (Breaker r) =
     (case resilient_generate now input_payload r of (res, r') \<Rightarrow> (res, Breaker r'))"

fun llm_names :: "llm \<Rightarrow> string \<times> string" where
  "llm_names (Plain p) = (lp_provider_name p, lp_model_name p)"
| "llm_names (Breaker r) = (re_provider_name r, re_model_name r)"

end
