(* ===== verification/Roadmaps.thy ===== *)
theory Roadmaps
  imports Llm Assessments
begin

text \<open>
  Roadmaps, \<open>src/apps/roadmaps\<close>: the repository, the service (creation for a completed assessment,
  generation with a provider, status and detail) and the background task. The tables are in \<open>Jobs\<close>.
\<close>

section \<open>Repository\<close>

definition roadmap_of :: "'z app_db_scheme \<Rightarrow> uuid \<Rightarrow> roadmap option" where
  "roadmap_of d i = find (\<lambda>r. rm_id r = i) (ad_roadmaps d)"

definition steps_of :: "'z app_db_scheme \<Rightarrow> uuid \<Rightarrow> roadmap_step list" where
  "steps_of d i = filter (\<lambda>s. st_roadmap_id s = i) (ad_steps d)"

definition get_assessment_for_roadmap :: "uuid \<Rightarrow> uuid \<Rightarrow> ('z, loaded_assessment option) app_op" where
  "get_assessment_for_roadmap i u = query (\<lambda>d. map_option (load_assessment d)
     (find (\<lambda>a. am_id a = i \<and> am_user_id a = u) (ad_assessments d)))"

definition get_roadmap :: "uuid \<Rightarrow> ('z, roadmap option) app_op" where
  "get_roadmap i = query (\<lambda>d. roadmap_of d i)"

definition get_roadmap_detail_row :: "uuid \<Rightarrow> ('z, (roadmap \<times> roadmap_step list) option) app_op" where
  "get_roadmap_detail_row i = query (\<lambda>d. map_option (\<lambda>r. (r, steps_of d i)) (roadmap_of d i))"

text \<open>A roadmap with the relations that the generation loads.\<close>

record loaded_roadmap =
  lr_roadmap :: roadmap
  lr_steps :: "roadmap_step list"
  lr_result :: "assessment_result option"
  lr_items :: "result_item list"
  lr_version :: "program_version option"
  lr_assessment :: "assessment option"
  lr_snapshot :: "snapshot option"
  lr_program :: "program option"

definition load_roadmap :: "'z app_db_scheme \<Rightarrow> roadmap \<Rightarrow> loaded_roadmap" where
  "load_roadmap d r =
     (let res = find (\<lambda>x. rs_id x = rm_assessment_result_id r) (ad_results d);
          asm = Option.bind res (\<lambda>x. assessment_of d (rs_assessment_id x))
      in \<lparr>lr_roadmap = r, lr_steps = steps_of d (rm_id r), lr_result = res,
          lr_items = (case res of None \<Rightarrow> [] | Some x \<Rightarrow> items_of d x),
          lr_version = Option.bind res (\<lambda>x. version_of d (rs_program_version_id x)),
          lr_assessment = asm,
          lr_snapshot = Option.bind asm (\<lambda>a. snapshot_of d (am_profile_snapshot_id a)),
          lr_program = Option.bind asm (\<lambda>a. find (\<lambda>p. pg_id p = am_program_id a) (rd_programs d))\<rparr>)"

definition get_roadmap_for_generation :: "uuid \<Rightarrow> ('z, loaded_roadmap option) app_op" where
  "get_roadmap_for_generation i = query (\<lambda>d. map_option (load_roadmap d) (roadmap_of d i))"

definition create_roadmap_row ::
    "time \<Rightarrow> uuid \<Rightarrow> uuid \<Rightarrow> string \<Rightarrow> string option \<Rightarrow> ('z, roadmap) app_op" where
  "create_roadmap_row now u result_id schema_version trace_id =
     bindO (query (\<lambda>d. \<lparr>rm_id = bd_next d, rm_created_at = now, rm_user_id = u, rm_assessment_result_id = result_id,
        rm_roadmap_schema_version = schema_version, rm_status = rm_pending,
        rm_summary = ''Roadmap generation pending'', rm_manual_review_required = False, rm_llm_provider = None,
        rm_llm_model = None, rm_generation_error = None, rm_trace_id = trace_id, rm_completed_at = None\<rparr>)) (\<lambda>r.
     bindO (aflush (\<lambda>d. d\<lparr>ad_roadmaps := ad_roadmaps d @ [r], bd_next := Suc (bd_next d)\<rparr>)) (\<lambda>_.
     bindO commit (\<lambda>_. ret r)))"

definition set_roadmap :: "uuid \<Rightarrow> (roadmap \<Rightarrow> roadmap) \<Rightarrow> 'z app_db_scheme \<Rightarrow> 'z app_db_scheme" where
  "set_roadmap i f d = d\<lparr>ad_roadmaps := upd_where (\<lambda>r. rm_id r = i) f (ad_roadmaps d)\<rparr>"

definition restarted :: "roadmap \<Rightarrow> roadmap" where
  "restarted r = r\<lparr>rm_status := rm_pending, rm_generation_error := None, rm_completed_at := None\<rparr>"

definition mark_roadmap_running :: "uuid \<Rightarrow> ('z, unit) app_op" where
  "mark_roadmap_running i = bindO (aflush (set_roadmap i restarted)) (\<lambda>_. commit)"

definition failed_roadmap :: "time \<Rightarrow> string \<Rightarrow> roadmap \<Rightarrow> roadmap" where
  "failed_roadmap now error_message r =
     r\<lparr>rm_status := rm_failed, rm_generation_error := Some error_message, rm_completed_at := Some now\<rparr>"

definition mark_roadmap_row_failed :: "time \<Rightarrow> uuid \<Rightarrow> string \<Rightarrow> ('z, unit) app_op" where
  "mark_roadmap_row_failed now i error_message =
     bindO (aflush (set_roadmap i (failed_roadmap now error_message))) (\<lambda>_. commit)"

definition generated_roadmap :: "time \<Rightarrow> roadmap_contract \<Rightarrow> string \<times> string \<Rightarrow> roadmap \<Rightarrow> roadmap" where
  "generated_roadmap now c names r =
     r\<lparr>rm_status := rm_completed, rm_summary := ct_objetivo c,
       rm_manual_review_required := ct_manual_review_required c, rm_generation_error := None,
       rm_llm_provider := Some (fst names), rm_llm_model := Some (snd names), rm_completed_at := Some now\<rparr>"

definition new_roadmap_step :: "uuid \<Rightarrow> uuid \<times> step_contract \<Rightarrow> roadmap_step" where
  "new_roadmap_step roadmap_id p = (case p of (i, s) \<Rightarrow>
     \<lparr>st_id = i, st_roadmap_id = roadmap_id, st_step_order = sc_step_order s, st_title = sc_titulo s,
      st_description = sc_descricao s,
      st_related_gap_json = (if opt_truthy (sc_gap_relacionado s)
        then [(''gap'', JStr (the (sc_gap_relacionado s)))] else []),
      st_is_required = sc_is_required s, st_eta_weeks = Some (sc_prazo_estimado_semanas s),
      st_dependencies_json = sc_dependencias s, st_risk_level = sc_risco s,
      st_completion_criteria = sc_criterio_conclusao s\<rparr>)"

definition new_roadmap_steps :: "uuid \<Rightarrow> uuid \<Rightarrow> step_contract list \<Rightarrow> roadmap_step list" where
  "new_roadmap_steps next_id i ss = map (new_roadmap_step i) (zip [next_id..<next_id + length ss] ss)"

definition add_steps :: "uuid \<Rightarrow> step_contract list \<Rightarrow> 'z app_db_scheme \<Rightarrow> 'z app_db_scheme" where
  "add_steps i ss d = d\<lparr>ad_steps := ad_steps d @ new_roadmap_steps (bd_next d) i ss,
     bd_next := bd_next d + length ss\<rparr>"

definition remove_steps :: "roadmap_step list \<Rightarrow> 'z app_db_scheme \<Rightarrow> 'z app_db_scheme" where
  "remove_steps xs d = d\<lparr>ad_steps := filter (\<lambda>s. st_id s \<notin> st_id ` set xs) (ad_steps d)\<rparr>"

text \<open>
  What the columns of the generated rows hold: \<open>llm_provider\<close> is \<open>String(32)\<close>, \<open>llm_model\<close>
  \<open>String(64)\<close>, \<open>step_order\<close> and \<open>eta_weeks\<close> are 32-bit integers. The widths of the other
  columns are bounds of the contract itself. The rows reach the database at the commit.
\<close>

definition contract_fits :: "roadmap_contract \<Rightarrow> string \<times> string \<Rightarrow> bool" where
  "contract_fits c names \<longleftrightarrow> length (fst names) \<le> 32 \<and> length (snd names) \<le> 64
     \<and> list_all (\<lambda>s. int32 (sc_step_order s) \<and> int32 (sc_prazo_estimado_semanas s)) (ct_passos_priorizados c)"

definition apply_generated_contract ::
    "time \<Rightarrow> loaded_roadmap \<Rightarrow> roadmap_contract \<Rightarrow> string \<times> string \<Rightarrow> ('z, unit) app_op" where
  "apply_generated_contract now r c names =
     bindO (aflush (remove_steps (lr_steps r))) (\<lambda>_.
     bindO (fits_columns (contract_fits c names)) (\<lambda>_.
     bindO (aflush (\<lambda>d. add_steps (rm_id (lr_roadmap r)) (ct_passos_priorizados c)
       (set_roadmap (rm_id (lr_roadmap r)) (generated_roadmap now c names) d))) (\<lambda>_.
     commit)))"

section \<open>Service\<close>

record roadmap_create =
  rq_assessment_id :: uuid
  rq_idempotency_key :: "string option"

text \<open>The validation of the request body; a violation is a 422 answer.\<close>

definition validate_roadmap_create :: "roadmap_create \<Rightarrow> unit result" where
  "validate_roadmap_create p =
     (case rq_idempotency_key p of
        None \<Rightarrow> Inr ()
      | Some k \<Rightarrow> if 1 \<le> length k \<and> length k \<le> 128 then Inr () else Inl (ValueError ''idempotency_key length''))"

record roadmap_queued =
  rw_roadmap_id :: uuid
  rw_status :: roadmap_status
  rw_roadmap_schema_version :: string
  rw_job_id :: uuid
  rw_message :: "task_message option"

definition roadmap_not_found :: string where
  "roadmap_not_found = ''Roadmap not found''"

text \<open>The answer to a key that is already used, if its job has a roadmap.\<close>

definition existing_roadmap :: "uuid \<Rightarrow> string option \<Rightarrow> ('z, roadmap_queued option) app_op" where
  "existing_roadmap u key =
     (if opt_truthy key then
        bindO (get_job_by_key roadmap_job (the key)) (\<lambda>job.
        case job of
          None \<Rightarrow> ret None
        | Some j \<Rightarrow>
            (case jb_roadmap_id j of
               None \<Rightarrow> ret None
             | Some i \<Rightarrow>
                 bindO (get_roadmap i) (\<lambda>row.
                 case row of
                   None \<Rightarrow> ret None
                 | Some r \<Rightarrow>
                     if rm_user_id r \<noteq> u then
                       raise (HTTPException 409 ''Idempotency key already used by another user'')
                     else ret (Some \<lparr>rw_roadmap_id = rm_id r, rw_status = rm_status r,
                       rw_roadmap_schema_version = rm_roadmap_schema_version r, rw_job_id = jb_id j,
                       rw_message = None\<rparr>))))
      else ret None)"

definition create_new_roadmap ::
    "settings \<Rightarrow> time \<Rightarrow> uuid \<Rightarrow> roadmap_create \<Rightarrow> string option \<Rightarrow> ('z, roadmap_queued) app_op" where
  "create_new_roadmap cfg now u p trace_id =
     bindO (get_assessment_for_roadmap (rq_assessment_id p) u) (\<lambda>row.
     case row of
       None \<Rightarrow> raise (HTTPException 404 ''Assessment not found'')
     | Some a \<Rightarrow>
         (case la_result a of
            Some res \<Rightarrow>
              if am_status (la_assessment a) = as_completed then
                bindO (require_entitlement cfg now u (pro_roadmap_feature_key cfg)) (\<lambda>_.
                bindO (create_roadmap_row now u (rs_id res) (roadmap_schema_version cfg) trace_id) (\<lambda>r.
                bindO (get_or_create_job now roadmap_job
                    (if opt_truthy (rq_idempotency_key p) then the (rq_idempotency_key p)
                     else ''roadmap:'' @ uuid_str (rm_id r)) None (Some (rm_id r)) trace_id) (\<lambda>j.
                ret \<lparr>rw_roadmap_id = rm_id r, rw_status = rm_status r,
                  rw_roadmap_schema_version = rm_roadmap_schema_version r, rw_job_id = jb_id j,
                  rw_message = Some \<lparr>tm_target_id = uuid_str (rm_id r), tm_job_id = uuid_str (jb_id j),
                    tm_trace_id = trace_id, tm_priority = 0\<rparr>\<rparr>)))
              else raise (HTTPException 409 (''Assessment must be completed before roadmap generation (current=''
                @ assessment_status_value (am_status (la_assessment a)) @ '')''))
          | None \<Rightarrow> raise (HTTPException 409 (''Assessment must be completed before roadmap generation (current=''
              @ assessment_status_value (am_status (la_assessment a)) @ '')''))))"

definition create_roadmap ::
    "settings \<Rightarrow> time \<Rightarrow> uuid \<Rightarrow> roadmap_create \<Rightarrow> string option \<Rightarrow> ('z, roadmap_queued) app_op" where
  "create_roadmap cfg now u p trace_id =
     bindO (existing_roadmap u (rq_idempotency_key p)) (\<lambda>existing.
     case existing of Some q \<Rightarrow> ret q | None \<Rightarrow> create_new_roadmap cfg now u p trace_id)"

text \<open>The payload of the provider. Decimals of two places print as \<open>cents_str\<close>.\<close>

definition cents_str :: "rat \<Rightarrow> string" where
  "cents_str x = dec_str (Dec (rhu (x * 100)) (-2))"

definition serialize_breakdown_item :: "result_item \<Rightarrow> json" where
  "serialize_breakdown_item i = JObj
     [(''rule_group_id'', opt_json (\<lambda>x. JStr (uuid_str x)) (ri_rule_group_id i)),
      (''rule_outcome_id'', opt_json (\<lambda>x. JStr (uuid_str x)) (ri_rule_outcome_id i)),
      (''applied'', JBool (ri_applied i)),
      (''score_delta'', JStr (cents_str (ri_score_delta i))),
      (''message'', JStr (ri_explanation_message i)),
      (''is_blocking'', JBool (item_blocking i)),
      (''condition_checks'', get_or (ri_audit_payload_json i) ''condition_checks'' (JList []))]"

text \<open>The loop's two lists: critical gaps and positive factors.\<close>

definition append_assessment_signals :: "result_item \<Rightarrow> string list \<times> string list \<Rightarrow> string list \<times> string list" where
  "append_assessment_signals i acc =
     (case acc of (gaps, factors) \<Rightarrow>
        if \<not> ri_applied i then (gaps, factors)
        else (if item_blocking i \<or> ri_score_delta i < 0 then gaps @ [ri_explanation_message i] else gaps,
              if 0 < ri_score_delta i then factors @ [ri_explanation_message i] else factors))"

definition score_band :: "rat \<Rightarrow> string" where
  "score_band score_final = (if 70 \<le> score_final then ''alto'' else if 40 \<le> score_final then ''medio'' else ''baixo'')"

definition build_provider_payload :: "settings \<Rightarrow> loaded_roadmap \<Rightarrow> json dict result" where
  "build_provider_payload cfg r =
     (case (lr_result r, lr_assessment r, lr_snapshot r) of
        (Some res, Some a, Some snap) \<Rightarrow>
          let items = sort_key item_order (lr_items r);
              (gaps, factors) = fold append_assessment_signals items ([], [])
          in bindR (quantize2 (rs_total_score res)) (\<lambda>score_final.
             Inr [(''roadmap_schema_version'', JStr (roadmap_schema_version cfg)),
               (''programa_alvo'', JObj
                 [(''program_id'', JStr (uuid_str (am_program_id a))),
                  (''program_name'', opt_json (\<lambda>p. JStr (pg_name p)) (lr_program r)),
                  (''program_version_id'', JStr (uuid_str (rs_program_version_id res))),
                  (''program_version'', opt_json (\<lambda>v. JStr (pv_version v)) (lr_version r))]),
               (''perfil'', JObj (sn_profile_json snap)),
               (''score'', JObj
                 [(''score_final'', JStr (cents_str score_final)), (''faixa'', JStr (score_band score_final)),
                  (''algorithm_version'', JStr (rs_algorithm_version res)),
                  (''rules_version_hash'', JStr (rs_rules_version_hash res))]),
               (''fatores_positivos'', JList (map JStr factors)),
               (''gaps_criticos'', JList (map JStr gaps)),
               (''breakdown'', JList (map serialize_breakdown_item items))])
      | (None, _, _) \<Rightarrow> Inl (AttributeError ''NoneType object has no attribute assessment'')
      | _ \<Rightarrow> Inl (ValueError ''Roadmap is missing assessment snapshot context''))"

fun check_step_orders :: "int list \<Rightarrow> step_contract list \<Rightarrow> unit result" where
  "check_step_orders seen [] = Inr ()"
| "check_step_orders seen (s # ss) =
     (if sc_step_order s \<in> set seen then
        Inl (ValueError (''Duplicate roadmap step_order='' @ int_str (sc_step_order s)))
      else check_step_orders (sc_step_order s # seen) ss)"

definition validate_contract :: "settings \<Rightarrow> roadmap_contract \<Rightarrow> unit result" where
  "validate_contract cfg c =
     (if ct_roadmap_schema_version c \<noteq> roadmap_schema_version cfg then
        Inl (ValueError (''Roadmap schema version mismatch: expected='' @ roadmap_schema_version cfg
          @ '' got='' @ ct_roadmap_schema_version c))
      else check_step_orders [] (ct_passos_priorizados c))"

definition generate_contract ::
    "settings \<Rightarrow> openai_api \<Rightarrow> time \<Rightarrow> loaded_roadmap \<Rightarrow> (roadmap_contract \<times> string \<times> string) result" where
  "generate_contract cfg api now r =
     bindR (build_llm_provider cfg api) (\<lambda>p.
     bindR (build_provider_payload cfg r) (\<lambda>payload.
     case llm_generate now payload p of (res, p') \<Rightarrow>
       bindR res (\<lambda>c. bindR (validate_contract cfg c) (\<lambda>_. Inr (c, llm_names p')))))"

definition process_roadmap :: "settings \<Rightarrow> openai_api \<Rightarrow> time \<Rightarrow> uuid \<Rightarrow> ('z, unit) app_op" where
  "process_roadmap cfg api now i =
     bindO (get_roadmap_for_generation i) (\<lambda>row.
     case row of
       None \<Rightarrow> raise (ValueError roadmap_not_found)
     | Some r \<Rightarrow>
         if rm_status (lr_roadmap r) = rm_completed \<and> lr_steps r \<noteq> [] then ret ()
         else
           bindO (mark_roadmap_running i) (\<lambda>_.
           bindO (lift (generate_contract cfg api now r)) (\<lambda>(c, names).
           apply_generated_contract now r c names)))"

definition mark_roadmap_failed :: "time \<Rightarrow> uuid \<Rightarrow> string \<Rightarrow> ('z, unit) app_op" where
  "mark_roadmap_failed now i error_message =
     bindO (get_roadmap i) (\<lambda>row.
     case row of None \<Rightarrow> ret () | Some r \<Rightarrow> mark_roadmap_row_failed now i error_message)"

record roadmap_status_read =
  ru_roadmap_id :: uuid
  ru_status :: roadmap_status
  ru_completed_at :: "time option"
  ru_error :: "string option"
  ru_job_id :: "uuid option"

definition get_roadmap_status :: "uuid \<Rightarrow> uuid \<Rightarrow> ('z, roadmap_status_read) app_op" where
  "get_roadmap_status i u =
     bindO (get_roadmap i) (\<lambda>row.
     case row of
       None \<Rightarrow> raise (HTTPException 404 roadmap_not_found)
     | Some r \<Rightarrow>
         if rm_user_id r \<noteq> u then raise (HTTPException 404 roadmap_not_found)
         else bindO (get_latest_job_for_roadmap i) (\<lambda>j.
           ret \<lparr>ru_roadmap_id = rm_id r, ru_status = rm_status r, ru_completed_at = rm_completed_at r,
                ru_error = rm_generation_error r, ru_job_id = map_option jb_id j\<rparr>))"

definition get_roadmap_detail :: "uuid \<Rightarrow> uuid \<Rightarrow> ('z, roadmap \<times> roadmap_step list) app_op" where
  "get_roadmap_detail i u =
     bindO (get_roadmap_detail_row i) (\<lambda>row.
     case row of
       None \<Rightarrow> raise (HTTPException 404 roadmap_not_found)
     | Some (r, steps) \<Rightarrow>
         if rm_user_id r \<noteq> u then raise (HTTPException 404 roadmap_not_found) else ret (r, steps))"

section \<open>The background task\<close>

definition roadmap_dead_letter :: "uuid \<Rightarrow> string option \<Rightarrow> exn \<Rightarrow> dead_letter" where
  "roadmap_dead_letter job_id trace_id e =
     \<lparr>dl_source = ''roadmap_job'', dl_job_id = uuid_str job_id, dl_trace_id = trace_id,
      dl_event = (if is_soft_timeout e then ''roadmap_job_timeout'' else ''roadmap_job_failed''),
      dl_error = exn_text e\<rparr>"

definition mark_failure_state ::
    "time \<Rightarrow> uuid \<Rightarrow> uuid \<Rightarrow> string \<Rightarrow> int \<Rightarrow> bool \<Rightarrow> ('z, unit) app_op" where
  "mark_failure_state now roadmap_id job_id error_message duration_ms dead_letter =
     (if dead_letter then
        bindO (mark_failed now job_id error_message duration_ms True) (\<lambda>_.
        mark_roadmap_failed now roadmap_id error_message)
      else bindO (mark_pending_retry job_id error_message) (\<lambda>_. ret ()))"

definition handle_roadmap_failure ::
    "settings \<Rightarrow> 'z app_db_scheme faults \<Rightarrow> time \<Rightarrow> int \<Rightarrow> nat \<Rightarrow> uuid \<Rightarrow> uuid \<Rightarrow> string option \<Rightarrow> exn
     \<Rightarrow> ('z app_db_scheme, delivery) op" where
  "handle_roadmap_failure cfg flt now duration_ms retries roadmap_id job_id trace_id e =
     (let dead_letter = is_definitive_error e \<or> \<not> (is_transient_error e \<or> is_soft_timeout e)
          \<or> roadmap_task_max_retries cfg \<le> int retries
      in bindO (session (fl_record flt) (mark_failure_state now roadmap_id job_id (exn_text e) duration_ms dead_letter)) (\<lambda>_.
         if dead_letter then ret (Raised e (Some (roadmap_dead_letter job_id trace_id e)))
         else retry_task flt e (retry_countdown retries)))"

definition run_roadmap_job ::
    "settings \<Rightarrow> openai_api \<Rightarrow> time \<Rightarrow> uuid \<Rightarrow> uuid \<Rightarrow> string option \<Rightarrow> ('z, unit) app_op" where
  "run_roadmap_job cfg api now roadmap_id job_id trace_id =
     bindO (mark_running now job_id trace_id) (\<lambda>_. process_roadmap cfg api now roadmap_id)"

text \<open>One delivery, with \<open>run\<close> the session that does the work, as for the score task.\<close>

definition roadmap_delivery ::
    "settings \<Rightarrow> 'z app_db_scheme faults \<Rightarrow> time \<Rightarrow> int \<Rightarrow> uuid \<Rightarrow> uuid \<Rightarrow> string option \<Rightarrow> ('z, unit) app_op \<Rightarrow> nat
     \<Rightarrow> ('z app_db_scheme, delivery) op" where
  "roadmap_delivery cfg flt now duration_ms roadmap_id job_id trace_id run retries =
     killable flt time_limit_exceeded
       (catch
         (catch
           (bindO (session (fl_work flt) run) (\<lambda>_.
            bindO (session (fl_finish flt) (mark_completed now job_id duration_ms)) (\<lambda>_. ret Returned)))
           (handle_roadmap_failure cfg flt now duration_ms retries roadmap_id job_id trace_id))
         (\<lambda>e. ret (Raised e None)))"

definition generate_roadmap_task ::
    "settings \<Rightarrow> openai_api \<Rightarrow> 'z app_db_scheme faults \<Rightarrow> time \<Rightarrow> int \<Rightarrow> task_message \<Rightarrow> nat
     \<Rightarrow> ('z app_db_scheme, delivery) op" where
  "generate_roadmap_task cfg api flt now duration_ms msg retries =
     (case (uuid_parse (tm_target_id msg), uuid_parse (tm_job_id msg)) of
        (Inr roadmap_id, Inr job_id) \<Rightarrow>
          roadmap_delivery cfg flt now duration_ms roadmap_id job_id (tm_trace_id msg)
            (run_roadmap_job cfg api now roadmap_id job_id (tm_trace_id msg)) retries
      | (Inl e, _) \<Rightarrow> ret (Raised e None)
      | (_, Inl e) \<Rightarrow> ret (Raised e None))"

end
