(* ===== verification/Roadmaps_Generation.thy ===== *)
theory Roadmaps_Generation
  imports Roadmaps Rules_Versions
begin

text \<open>
  What the roadmap generators guarantee: the local stub answers with a valid contract for every
  payload of the service, an outage of OpenAI gives exactly the stub's roadmap, the circuit breaker
  refines the history of its calls, and the generator reads the same gaps as the owner of the
  assessment does.
\<close>

section \<open>The contract\<close>

text \<open>What validation guarantees of a step and of a contract.\<close>

definition step_valid :: "step_contract \<Rightarrow> bool" where
  "step_valid s \<longleftrightarrow> 1 \<le> sc_step_order s \<and> 3 \<le> length (sc_titulo s) \<and> length (sc_titulo s) \<le> 180
     \<and> 10 \<le> length (sc_descricao s) \<and> 1 \<le> sc_prazo_estimado_semanas s
     \<and> sc_risco s \<in> {''baixo'', ''medio'', ''alto''} \<and> 10 \<le> length (sc_criterio_conclusao s)
     \<and> sorted (sc_dependencias s) \<and> distinct (sc_dependencias s) \<and> list_all (\<lambda>k. 1 \<le> k) (sc_dependencias s)"

definition contract_valid :: "roadmap_contract \<Rightarrow> bool" where
  "contract_valid c \<longleftrightarrow> 1 \<le> length (ct_roadmap_schema_version c) \<and> length (ct_roadmap_schema_version c) \<le> 16
     \<and> 10 \<le> length (ct_objetivo c) \<and> ct_passos_priorizados c \<noteq> [] \<and> list_all step_valid (ct_passos_priorizados c)"

lemma dependencias_normal [simp]:
  "sorted (validate_dependencias xs)" "distinct (validate_dependencias xs)"
  "set (validate_dependencias xs) = {k \<in> set xs. 1 \<le> k}"
  by (auto simp: validate_dependencias_def)

lemma make_step_valid: "make_step s = Inr s' \<Longrightarrow> step_valid s'"
  by (simp add: make_step_def split: if_splits) (auto simp: step_valid_def list_all_iff)

lemma step_of_json_valid: "step_of_json v = Inr s \<Longrightarrow> step_valid s"
  by (cases v) (auto simp: bindR_eq_Inr dest: make_step_valid)

lemma steps_of_json_valid: "steps_of_json v = Inr ss \<Longrightarrow> list_all step_valid ss"
  by (induction v rule: steps_of_json.induct)
    (auto simp: list_all_iff dest: mapR_Inr_mem step_of_json_valid)

lemma contract_of_json_valid: "contract_of_json v = Inr c \<Longrightarrow> contract_valid c"
  by (cases v) (auto simp: bindR_eq_Inr make_contract_def contract_valid_def Suc_le_eq
      split: if_splits dest!: steps_of_json_valid)

section \<open>The stub\<close>

lemma length_nat_str: "n < 10 ^ k \<Longrightarrow> length (nat_str n) \<le> max 1 k"
proof (induction k arbitrary: n)
  case 0
  then show ?case by (subst nat_str.simps) simp
next
  case (Suc k)
  show ?case
  proof (cases "n < 10")
    case True
    then show ?thesis by (subst nat_str.simps) simp
  next
    case False
    have "n div 10 < 10 ^ k" using Suc.prems by simp
    moreover have "0 < k" using False Suc.prems by (cases k) simp_all
    ultimately show ?thesis using Suc.IH [of "n div 10"] False by (subst nat_str.simps) simp
  qed
qed

lemma gap_step_ok:
  assumes "1 \<le> i" and "i < 10 ^ 100"
  shows "make_step (gap_step i gap) = Inr (gap_step i gap)"
proof -
  have "validate_dependencias (sc_dependencias (gap_step i gap)) = sc_dependencias (gap_step i gap)"
    using assms by (simp add: validate_dependencias_def gap_step_def)
  moreover have "length (nat_str i) \<le> 100" using length_nat_str [OF assms(2)] by simp
  ultimately show ?thesis using assms
    by (simp add: make_step_def gap_step_def)
qed

definition stub_steps :: "string list \<Rightarrow> step_contract list" where
  "stub_steps gaps = (if gaps = [] then [default_step] else map (\<lambda>(i, gap). gap_step i gap) (enumerate 1 gaps))"

definition stub_contract :: "string \<Rightarrow> string list \<Rightarrow> roadmap_contract" where
  "stub_contract version gaps = \<lparr>ct_roadmap_schema_version = version,
     ct_objetivo = ''Fechar gaps criticos e maximizar score para o programa alvo sem violar requisitos.'',
     ct_manual_review_required = True, ct_passos_priorizados = stub_steps gaps\<rparr>"

lemma mapR_gaps:
  assumes "1 \<le> n" and "n + length gaps < 10 ^ 100"
  shows "mapR step_of_gap (enumerate n (map JStr gaps)) = Inr (map (\<lambda>(i, gap). gap_step i gap) (enumerate n gaps))"
  using assms
proof (induction gaps arbitrary: n)
  case (Cons g gs)
  then show ?case by (simp add: step_of_gap_def gap_step_ok)
qed simp

lemma default_step_ok: "make_step default_step = Inr default_step"
  by (simp add: make_step_def default_step_def validate_dependencias_def)

lemma stub_generate_eq:
  assumes "payload_gaps p = map JStr gaps" and "stub_version p = v"
    and "1 \<le> length v" and "length v \<le> 16" and "Suc (length gaps) < 10 ^ 100"
  shows "stub_generate p = Inr (stub_contract v gaps)"
proof -
  have "v \<noteq> []" using assms(3) by auto
  moreover have "enumerate (Suc 0) gaps \<noteq> []" if "gaps \<noteq> []" using that by (cases gaps) simp_all
  ultimately show ?thesis
    using assms mapR_gaps [of 1 gaps] default_step_ok
    by (simp add: stub_generate_def stub_steps_def stub_contract_def make_contract_def Let_def)
qed

lemma stub_orders: "map sc_step_order (stub_steps gaps) = [1..int (max 1 (length gaps))]"
proof (cases gaps)
  case (Cons g gs)
  have "map sc_step_order (map (\<lambda>(i, gap). gap_step i gap) (enumerate n xs)) = [int n..int (n + length xs) - 1]" for n xs
  proof (induction xs arbitrary: n)
    case (Cons x xs)
    have "[int n..int (n + length (x # xs)) - 1] = int n # [int n + 1..int (n + length (x # xs)) - 1]"
      by (rule upto_rec1) simp
    with Cons [of "Suc n"] show ?case by (simp add: gap_step_def add.commute)
  qed simp
  from this [of 1 gaps] Cons show ?thesis by (simp add: stub_steps_def)
qed (simp add: stub_steps_def default_step_def)

lemma length_stub_steps: "length (stub_steps gaps) = max 1 (length gaps)"
  by (cases gaps) (simp_all add: stub_steps_def)

lemma stub_dependencies:
  "s \<in> set (stub_steps gaps) \<Longrightarrow> k \<in> set (sc_dependencias s) \<Longrightarrow> 1 \<le> k \<and> k < sc_step_order s"
  by (auto simp: stub_steps_def default_step_def gap_step_def split: if_splits)

lemma stub_gaps: "gaps \<noteq> [] \<Longrightarrow> map sc_gap_relacionado (stub_steps gaps) = map Some gaps"
proof -
  have "map sc_gap_relacionado (map (\<lambda>(i, gap). gap_step i gap) (enumerate n xs)) = map Some xs" for n xs
    by (induction xs arbitrary: n) (simp_all add: gap_step_def)
  then show "gaps \<noteq> [] \<Longrightarrow> map sc_gap_relacionado (stub_steps gaps) = map Some gaps"
    by (simp add: stub_steps_def)
qed

section \<open>The payload\<close>

lemma signals_fold:
  "fold append_assessment_signals items (g, f) = (g @ critical_gaps items, f @ positive_factors items)"
  by (induction items arbitrary: g f)
    (auto simp: append_assessment_signals_def critical_gaps_def positive_factors_def)

lemma payload_eq:
  assumes "lr_result r = Some res" and "lr_assessment r = Some a" and "lr_snapshot r = Some s"
    and "\<bar>rs_total_score res\<bar> < 10 ^ 6"
  shows "\<exists>p. build_provider_payload cfg r = Inr p
    \<and> dict_get p ''roadmap_schema_version'' = Some (JStr (roadmap_schema_version cfg))
    \<and> dict_get p ''gaps_criticos'' = Some (JList (map JStr (critical_gaps (sort_key item_order (lr_items r)))))
    \<and> dict_get p ''fatores_positivos'' = Some (JList (map JStr (positive_factors (sort_key item_order (lr_items r)))))"
proof -
  have "quantize2 (rs_total_score res) = Inr (q2 (rs_total_score res))"
    using assms(4) by (intro quantize2_small) simp
  then show ?thesis using assms
    by (simp add: build_provider_payload_def signals_fold Let_def)
qed

lemma check_step_orders_iff:
  "check_step_orders seen ss = Inr () \<longleftrightarrow>
   distinct (map sc_step_order ss) \<and> set seen \<inter> sc_step_order ` set ss = {}"
  by (induction ss arbitrary: seen) auto

lemma validate_contract_iff:
  "validate_contract cfg c = Inr () \<longleftrightarrow>
   ct_roadmap_schema_version c = roadmap_schema_version cfg \<and> distinct (map sc_step_order (ct_passos_priorizados c))"
  by (simp add: validate_contract_def check_step_orders_iff)

lemma stub_validates: "validate_contract cfg (stub_contract (roadmap_schema_version cfg) gaps) = Inr ()"
  by (simp add: validate_contract_iff stub_contract_def stub_orders)

lemma stub_generates:
  assumes "llm_provider cfg = ''claude''"
    and "1 \<le> length (roadmap_schema_version cfg)" and "length (roadmap_schema_version cfg) \<le> 16"
    and "lr_result r = Some res" and "lr_assessment r = Some a" and "lr_snapshot r = Some s"
    and "\<bar>rs_total_score res\<bar> < 10 ^ 6" and "Suc (length (lr_items r)) < 10 ^ 100"
  shows "generate_contract cfg api now r = Inr (stub_contract (roadmap_schema_version cfg)
    (critical_gaps (sort_key item_order (lr_items r))), ''claude_stub'', anthropic_model cfg)"
proof -
  let ?gaps = "critical_gaps (sort_key item_order (lr_items r))"
  obtain p where p: "build_provider_payload cfg r = Inr p"
    and v: "stub_version p = roadmap_schema_version cfg" and g: "payload_gaps p = map JStr ?gaps"
    using payload_eq [OF assms(4-7), of cfg] by (auto simp: stub_version_def payload_gaps_def)
  have "length ?gaps \<le> length (lr_items r)"
    unfolding critical_gaps_def length_map by (rule order_trans [OF length_filter_le]) simp
  with assms(8) have len: "Suc (length ?gaps) < 10 ^ 100" by linarith
  have "stub_generate p = Inr (stub_contract (roadmap_schema_version cfg) ?gaps)"
    by (rule stub_generate_eq [OF g v assms(2,3) len])
  with assms(1) p show ?thesis
    by (simp add: generate_contract_def build_llm_provider_def claude_stub_def stub_validates)
qed

section \<open>The circuit breaker against its history\<close>

text \<open>
  The history of the calls that reached the primary, latest first: the instant and how the call ended. It answers, or it
  fails with an \<open>LLMProviderError\<close>, or it crashes with any other exception, which escapes the \<open>except\<close> clause
  (\<open>completion.choices[0]\<close> of an answer without choices is an \<open>IndexError\<close>). Calls that crash are not
  counted: the circuit is open while the last \<open>th\<close> calls that are counted failed and the recovery time since the latest
  of them has not passed.
\<close>

datatype call_end = Answered | Failed | Crashed

definition end_of :: "roadmap_contract result \<Rightarrow> call_end" where
  "end_of res = (case res of Inr c \<Rightarrow> Answered | Inl e \<Rightarrow> if is_llm_error e then Failed else Crashed)"

definition counted :: "(time \<times> call_end) list \<Rightarrow> (time \<times> bool) list" where
  "counted h = map (\<lambda>(t, e). (t, e = Answered)) (filter (\<lambda>(t, e). e \<noteq> Crashed) h)"

definition trailing_failures :: "(time \<times> bool) list \<Rightarrow> nat" where
  "trailing_failures h = length (takeWhile (\<lambda>(t, ok). \<not> ok) h)"

definition history_open :: "int \<Rightarrow> int \<Rightarrow> time \<Rightarrow> (time \<times> bool) list \<Rightarrow> bool" where
  "history_open th rc now h \<longleftrightarrow> th \<le> int (trailing_failures h) \<and> h \<noteq> [] \<and> now < fst (hd h) + seconds rc"

definition counted_attempt :: "(json dict \<Rightarrow> roadmap_contract result) \<Rightarrow> int \<Rightarrow> int \<Rightarrow> time \<times> json dict
    \<Rightarrow> (time \<times> bool) list \<Rightarrow> (time \<times> bool) list" where
  "counted_attempt gen th rc call h =
     (case call of (now, p) \<Rightarrow>
        if history_open th rc now h then h
        else case gen p of Inr c \<Rightarrow> (now, True) # h
          | Inl e \<Rightarrow> if is_llm_error e then (now, False) # h else h)"

text \<open>The whole history: a call while the circuit is open does not reach the primary, every other call does.\<close>

definition attempt :: "(json dict \<Rightarrow> roadmap_contract result) \<Rightarrow> int \<Rightarrow> int \<Rightarrow> time \<times> json dict
    \<Rightarrow> (time \<times> call_end) list \<Rightarrow> (time \<times> call_end) list" where
  "attempt gen th rc call h =
     (case call of (now, p) \<Rightarrow> if history_open th rc now (counted h) then h else (now, end_of (gen p)) # h)"

lemma counted_step: "counted (attempt gen th rc call h) = counted_attempt gen th rc call (counted h)"
  by (cases call) (auto simp: attempt_def counted_attempt_def end_of_def counted_def split: sum.splits)

lemma counted_run: "counted (fold (attempt gen th rc) calls h) = fold (counted_attempt gen th rc) calls (counted h)"
  by (induction calls arbitrary: h) (simp_all add: counted_step)

lemma counted_failures:
  "trailing_failures (counted h) = length (takeWhile (\<lambda>(t, e). e = Failed) (filter (\<lambda>(t, e). e \<noteq> Crashed) h))"
proof -
  have "takeWhile (\<lambda>(t, ok). \<not> ok) (map (\<lambda>(t, e). (t, e = Answered)) xs)
      = map (\<lambda>(t, e). (t, e = Answered)) (takeWhile (\<lambda>(t, e). e = Failed) xs)"
    if "list_all (\<lambda>(t, e). e \<noteq> Crashed) xs" for xs :: "(time \<times> call_end) list"
    using that by (induction xs) (auto intro: call_end.exhaust)
  then show ?thesis by (simp add: trailing_failures_def counted_def list_all_iff)
qed

lemma counted_hd: "counted h \<noteq> [] \<Longrightarrow> fst (hd (counted h)) = fst (hd (filter (\<lambda>(t, e). e \<noteq> Crashed) h))"
  by (cases "filter (\<lambda>(t, e). e \<noteq> Crashed) h") (auto simp: counted_def split: prod.splits)

definition resilient_step :: "time \<times> json dict \<Rightarrow> resilient \<Rightarrow> resilient" where
  "resilient_step call r = snd (resilient_generate (fst call) (snd call) r)"

text \<open>The state that a history gives.\<close>

definition breaker_of :: "int \<Rightarrow> int \<Rightarrow> (time \<times> bool) list \<Rightarrow> circuit_breaker" where
  "breaker_of th rc h =
     \<lparr>cb_consecutive_failures = int (trailing_failures h),
      cb_opened_until = (if th \<le> int (trailing_failures h) \<and> h \<noteq> [] then Some (fst (hd h) + seconds rc) else None)\<rparr>"

lemma breaker_of_open: "is_open now (breaker_of th rc h) = history_open th rc now h"
  by (simp add: is_open_def breaker_of_def history_open_def)

lemma breaker_of_success: "1 \<le> th \<Longrightarrow> record_success (breaker_of th rc h) = breaker_of th rc ((now, True) # h)"
  by (simp add: record_success_def breaker_of_def trailing_failures_def)

lemma breaker_of_failure:
  "1 \<le> th \<Longrightarrow> record_failure th rc now (breaker_of th rc h) = breaker_of th rc ((now, False) # h)"
  by (auto simp: record_failure_def breaker_of_def trailing_failures_def Let_def)

definition same_provider :: "provider \<Rightarrow> int \<Rightarrow> int \<Rightarrow> resilient \<Rightarrow> bool" where
  "same_provider p th rc r \<longleftrightarrow> re_primary r = p \<and> re_failure_threshold r = th \<and> re_recovery_seconds r = rc"

lemma fallback_keeps [simp]:
  "re_state (snd (generate_with_fallback pl r)) = re_state r"
  "same_provider p th rc (snd (generate_with_fallback pl r)) = same_provider p th rc r"
  by (auto simp: generate_with_fallback_def same_provider_def split: sum.splits)

lemma same_provider_step: "same_provider p th rc r \<Longrightarrow> same_provider p th rc (resilient_step call r)"
proof -
  have g: "re_state (r\<lparr>re_state := s\<rparr>) = s" "same_provider p th rc (r\<lparr>re_state := s\<rparr>) = same_provider p th rc r" for s
    by (simp_all add: same_provider_def)
  show "same_provider p th rc r \<Longrightarrow> same_provider p th rc (resilient_step call r)"
    by (auto simp: resilient_step_def resilient_generate_def g split: sum.splits)
      (simp add: same_provider_def)
qed

lemma resilient_step_refines:
  assumes "same_provider p th rc r" and "1 \<le> th" and "re_state r = breaker_of th rc h"
  shows "re_state (resilient_step call r) = breaker_of th rc (counted_attempt (lp_generate p) th rc call h)"
proof -
  obtain now pl where call: "call = (now, pl)" by (cases call)
  have p: "re_primary r = p" "re_failure_threshold r = th" "re_recovery_seconds r = rc"
    using assms(1) by (simp_all add: same_provider_def)
  show ?thesis
  proof (cases "history_open th rc now h")
    case True
    then show ?thesis using assms(3)
      by (simp add: resilient_step_def resilient_generate_def counted_attempt_def call breaker_of_open)
  next
    case False
    then show ?thesis using assms(2,3) p
      by (cases "lp_generate p pl")
        (simp_all add: resilient_step_def resilient_generate_def counted_attempt_def call breaker_of_open
          breaker_of_success [of th rc h now] breaker_of_failure)
  qed
qed

text \<open>The provider together with the history of its calls, as a machine.\<close>

definition call_step :: "time \<times> json dict \<Rightarrow> resilient \<times> (time \<times> bool) list \<Rightarrow> resilient \<times> (time \<times> bool) list" where
  "call_step call s = (resilient_step call (fst s),
     counted_attempt (lp_generate (re_primary (fst s))) (re_failure_threshold (fst s)) (re_recovery_seconds (fst s)) call (snd s))"

definition tracked :: "resilient \<times> (time \<times> bool) list \<Rightarrow> bool" where
  "tracked s \<longleftrightarrow> 1 \<le> re_failure_threshold (fst s)
     \<and> re_state (fst s) = breaker_of (re_failure_threshold (fst s)) (re_recovery_seconds (fst s)) (snd s)"

definition fresh :: "resilient \<times> (time \<times> bool) list \<Rightarrow> bool" where
  "fresh s \<longleftrightarrow> (\<exists>p q th rc. s = (new_resilient p q th rc, []))"

interpretation breaker: state_machine call_step fresh tracked
proof
  show "tracked s" if "fresh s" for s
    using that by (auto simp: fresh_def tracked_def new_resilient_def closed_breaker_def breaker_of_def trailing_failures_def)
  show "tracked (call_step call s)" if "tracked s" for call s
  proof -
    let ?r = "fst s"
    have same: "same_provider (re_primary ?r) (re_failure_threshold ?r) (re_recovery_seconds ?r) ?r"
      by (simp add: same_provider_def)
    from same_provider_step [OF this, of call]
    have "re_failure_threshold (resilient_step call ?r) = re_failure_threshold ?r"
      "re_recovery_seconds (resilient_step call ?r) = re_recovery_seconds ?r"
      by (simp_all add: same_provider_def)
    with that resilient_step_refines [OF same, of "snd s" call] show ?thesis
      by (simp add: tracked_def call_step_def)
  qed
qed

lemma run_parts:
  assumes "same_provider p th rc r"
  shows "fold call_step calls (r, h) = (fold resilient_step calls r, fold (counted_attempt (lp_generate p) th rc) calls h)"
  using assms
proof (induction calls arbitrary: r h)
  case (Cons c cs)
  have "call_step c (r, h) = (resilient_step c r, counted_attempt (lp_generate p) th rc c h)"
    using Cons.prems by (simp add: call_step_def same_provider_def)
  then show ?case using Cons.IH [OF same_provider_step [OF Cons.prems]] by simp
qed simp

lemma fallback_step_keeps: "re_fallback (fold resilient_step calls r) = re_fallback r"
proof -
  have "re_fallback (resilient_step c r) = re_fallback r" for c r
    by (simp add: resilient_step_def resilient_generate_def generate_with_fallback_def split: sum.splits)
  then show ?thesis by (induction calls arbitrary: r) simp_all
qed

lemma fallback_when_open:
  "is_open now (re_state r) \<Longrightarrow> fst (resilient_generate now pl r) = lp_generate (re_fallback r) pl"
  by (simp add: resilient_generate_def generate_with_fallback_def split: sum.splits)

section \<open>Outages\<close>

text \<open>No call of the chat endpoint brings a valid contract.\<close>

definition outage :: "settings \<Rightarrow> openai_api \<Rightarrow> bool" where
  "outage cfg api \<longleftrightarrow> (\<forall>sys usr. case chat api cfg sys usr of
     Timed_Out \<Rightarrow> True | Request_Failed e \<Rightarrow> True | No_Choices \<Rightarrow> False
   | Content c \<Rightarrow> \<not> is_ok (model_validate_json api (if opt_truthy c then the c else ''{}'')))"

lemma outage_error: "outage cfg api \<Longrightarrow> \<exists>e. openai_generate cfg api p = Inl e \<and> is_llm_error e"
  unfolding outage_def openai_generate_def
  by (drule spec [of _ system_prompt], drule spec [of _ "user_prompt p"])
    (auto split: completion.splits sum.splits if_splits simp: is_ok_iff)

section \<open>Concrete inputs\<close>

definition offline_api :: openai_api where
  "offline_api = \<lparr>installed = True, chat = (\<lambda>_ _ _. Timed_Out), read_json = (\<lambda>_. None)\<rparr>"

definition gen_item :: result_item where
  "gen_item = \<lparr>ri_id = 65, ri_created_at = 9, ri_assessment_result_id = 64, ri_rule_group_id = None,
     ri_rule_condition_id = None, ri_rule_outcome_id = None, ri_applied = True, ri_score_delta = -5,
     ri_explanation_message = ''low income'', ri_audit_payload_json = []\<rparr>"

definition gen_roadmap :: loaded_roadmap where
  "gen_roadmap = \<lparr>lr_roadmap = \<lparr>rm_id = 66, rm_created_at = 9, rm_user_id = 7, rm_assessment_result_id = 64,
       rm_roadmap_schema_version = ''roadmap.v1'', rm_status = rm_pending, rm_summary = ''pending'',
       rm_manual_review_required = False, rm_llm_provider = None, rm_llm_model = None, rm_generation_error = None,
       rm_trace_id = None, rm_completed_at = None\<rparr>,
     lr_steps = [], lr_result = Some \<lparr>rs_id = 64, rs_assessment_id = 61, rs_program_version_id = 11,
       rs_rules_version_hash = ''h'', rs_algorithm_version = ''v1'', rs_total_score = 45, rs_is_eligible = True,
       rs_computed_at = 9\<rparr>,
     lr_items = [gen_item], lr_version = None,
     lr_assessment = Some \<lparr>am_id = 61, am_user_id = 7, am_program_id = 2, am_profile_snapshot_id = 60,
       am_idempotency_key = ''k'', am_status = as_completed, am_requested_at = 5, am_completed_at = Some 9\<rparr>,
     lr_snapshot = Some \<lparr>sn_id = 60, sn_user_id = 7, sn_snapshot_version = 1, sn_profile_json = [],
       sn_profile_hash = ''h''\<rparr>, lr_program = None\<rparr>"

definition claude_settings :: settings where
  "claude_settings = base_defaults\<lparr>llm_provider := ''claude''\<rparr>"

definition openai_settings :: settings where
  "openai_settings = base_defaults\<lparr>openai_api_key := Some ''k''\<rparr>"

lemma gen_gaps: "critical_gaps (sort_key item_order (lr_items gen_roadmap)) = [''low income'']"
  by (simp add: gen_roadmap_def gen_item_def critical_gaps_def)

section \<open>Properties\<close>

text \<open>
  C32. The circuit is open exactly when it should be: after any calls of a new provider, a call is answered without the
  primary if and only if, of the calls that reached the primary and did not crash, the last
  \<open>max 1 failure_threshold\<close> failed with a provider error and the recovery time since the latest of them has not
  passed. A call that crashes with another exception (an answer without choices) reaches the primary too, but neither
  counts as a failure nor ends a row of failures, and the caller gets the exception, not the fallback's contract.
\<close>

theorem circuit_open_iff:
  "(is_open now (re_state (fold resilient_step calls (new_resilient p q threshold recovery)))
   \<longleftrightarrow> (let h = filter (\<lambda>(t, e). e \<noteq> Crashed) (fold (attempt (lp_generate p) (max 1 threshold) (max 1 recovery)) calls [])
       in max 1 threshold \<le> int (length (takeWhile (\<lambda>(t, e). e = Failed) h))
          \<and> now < fst (hd h) + seconds (max 1 recovery)))
   \<and> fst (resilient_generate now pl (fold resilient_step calls (new_resilient p q threshold recovery)))
     = (if is_open now (re_state (fold resilient_step calls (new_resilient p q threshold recovery))) then lp_generate q pl
        else case lp_generate p pl of Inr c \<Rightarrow> Inr c | Inl e \<Rightarrow> if is_llm_error e then lp_generate q pl else Inl e)"
proof -
  let ?th = "max 1 threshold" and ?rc = "max 1 recovery"
  let ?r = "new_resilient p q threshold recovery"
  let ?h = "fold (attempt (lp_generate p) ?th ?rc) calls []"
  let ?c = "counted ?h" and ?k = "filter (\<lambda>(t, e). e \<noteq> Crashed) ?h"
  let ?r' = "fold resilient_step calls ?r"
  have same: "same_provider p ?th ?rc ?r" by (simp add: same_provider_def new_resilient_def)
  have "tracked (fold call_step calls (?r, []))" by (rule breaker.reachable_inv) (auto simp: fresh_def)
  then have t: "tracked (?r', ?c)" by (simp add: run_parts [OF same] counted_run) (simp add: counted_def)
  have "same_provider p ?th ?rc (fold resilient_step cs r)" if "same_provider p ?th ?rc r" for cs r
    using that by (induction cs arbitrary: r) (simp_all add: same_provider_step)
  from this [OF same, of calls] t have state: "re_state ?r' = breaker_of ?th ?rc ?c" and p: "re_primary ?r' = p"
    by (simp_all add: tracked_def same_provider_def)
  have "?th \<le> int (trailing_failures ?c) \<Longrightarrow> ?c \<noteq> []" by (auto simp: trailing_failures_def)
  then have 1: "is_open now (re_state ?r') \<longleftrightarrow> (?th \<le> int (length (takeWhile (\<lambda>(t, e). e = Failed) ?k))
      \<and> now < fst (hd ?k) + seconds ?rc)"
    using counted_hd [of ?h] by (auto simp: state breaker_of_open history_open_def counted_failures)
  have q: "re_fallback ?r' = q"
    using fallback_step_keeps [of calls ?r] by (simp add: new_resilient_def)
  have "fst (resilient_generate now pl ?r') = (if is_open now (re_state ?r') then lp_generate q pl
      else case lp_generate p pl of Inr c \<Rightarrow> Inr c | Inl e \<Rightarrow> if is_llm_error e then lp_generate q pl else Inl e)"
    by (auto simp: resilient_generate_def generate_with_fallback_def p q split: sum.splits)
  with 1 show ?thesis by (simp only: Let_def)
qed

text \<open>The generator is told what the owner sees: the gaps and factors in its payload are the critical
  gaps and positive factors of the assessment's breakdown, in the same order.
\<close>

theorem payload_matches_breakdown:
  assumes "lr_result r = Some res" and "lr_assessment r = Some a" and "lr_snapshot r = Some s"
    and "\<bar>rs_total_score res\<bar> < 10 ^ 6"
    and "to_breakdown_response \<lparr>la_assessment = a, la_snapshot = Some s, la_result = Some res,
      la_items = lr_items r, la_version = Some v\<rparr> = Inr b"
  shows "\<exists>p. build_provider_payload cfg r = Inr p
    \<and> dict_get p ''gaps_criticos'' = Some (JList (map JStr (ab_gaps_criticos b)))
    \<and> dict_get p ''fatores_positivos'' = Some (JList (map JStr (ab_fatores_positivos b)))
    \<and> score_band (ab_score_final b) = ab_faixa b"
proof -
  have "ab_gaps_criticos b = critical_gaps (sort_key item_order (lr_items r))"
    "ab_fatores_positivos b = positive_factors (sort_key item_order (lr_items r))"
    "ab_faixa b = faixa (ab_score_final b)"
    using assms(5) by (auto simp: to_breakdown_response_def bindR_eq_Inr Let_def)
  with payload_eq [OF assms(1-4), of cfg] show ?thesis by (auto simp: score_band_def faixa_def)
qed

theorem payload_matches_breakdown_witness:
  "\<exists>p (b :: assessment_breakdown). build_provider_payload base_defaults gen_roadmap = Inr p \<and> ab_gaps_criticos b = [''low income'']
     \<and> dict_get p ''gaps_criticos'' = Some (JList (map JStr (ab_gaps_criticos b)))"
proof -
  obtain res a s where h: "lr_result gen_roadmap = Some res" "lr_assessment gen_roadmap = Some a"
    "lr_snapshot gen_roadmap = Some s" "\<bar>rs_total_score res\<bar> < 10 ^ 6"
    by (simp add: gen_roadmap_def)
  have "quantize2 (rs_total_score res) = Inr (q2 (rs_total_score res))" using h(4) by (intro quantize2_small) simp
  then obtain b where b: "to_breakdown_response \<lparr>la_assessment = a, la_snapshot = Some s, la_result = Some res,
      la_items = lr_items gen_roadmap, la_version = Some (demo_version 11 active_version 0 None)\<rparr> = Inr b"
    and g: "ab_gaps_criticos b = [''low income'']"
    by (simp add: to_breakdown_response_def gen_gaps Let_def)
  from payload_matches_breakdown [OF h b, of base_defaults] obtain p
    where "build_provider_payload base_defaults gen_roadmap = Inr p"
      and "dict_get p ''gaps_criticos'' = Some (JList (map JStr (ab_gaps_criticos b)))" by blast
  then show ?thesis using g by blast
qed

end
