(* ===== verification/Roadmaps_Contract.thy ===== *)
theory Roadmaps_Contract
  imports Roadmaps_Generation Task_Retry
begin

text \<open>
  What the roadmap service guarantees: a roadmap is created for the owner of a completed assessment
  with the paid feature, once per key; the generation stores exactly the contract; the background
  task meets the contract of a retried task and leaves no failed job with a roadmap that looks alive.
\<close>

section \<open>Frames\<close>

lemma set_roadmap_tables [simp]:
  "ad_snapshots (set_roadmap i f d) = ad_snapshots d" "ad_assessments (set_roadmap i f d) = ad_assessments d"
  "ad_results (set_roadmap i f d) = ad_results d" "ad_items (set_roadmap i f d) = ad_items d"
  "ad_steps (set_roadmap i f d) = ad_steps d" "ad_jobs (set_roadmap i f d) = ad_jobs d"
  "bd_users (set_roadmap i f d) = bd_users d" "rd_programs (set_roadmap i f d) = rd_programs d"
  "rd_versions (set_roadmap i f d) = rd_versions d" "bd_next (set_roadmap i f d) = bd_next d"
  by (simp_all add: set_roadmap_def)

definition keeps_refs :: "(roadmap \<Rightarrow> roadmap) \<Rightarrow> bool" where
  "keeps_refs f \<longleftrightarrow> (\<forall>r. rm_id (f r) = rm_id r \<and> rm_user_id (f r) = rm_user_id r
     \<and> rm_assessment_result_id (f r) = rm_assessment_result_id r)"

lemma keeps_refs_transitions [simp]:
  "keeps_refs restarted" "keeps_refs (failed_roadmap now e)" "keeps_refs (generated_roadmap now c names)"
  by (simp_all add: keeps_refs_def restarted_def failed_roadmap_def generated_roadmap_def)

lemma roadmap_ids: "keeps_refs f \<Longrightarrow> map rm_id (ad_roadmaps (set_roadmap i f d)) = map rm_id (ad_roadmaps d)"
  by (simp add: set_roadmap_def upd_where_map keeps_refs_def)

lemma app_ok_set_roadmap:
  assumes f: "keeps_refs f"
  shows "app_ok (set_roadmap i f d) = app_ok d"
proof -
  have ids: "map rm_id (ad_roadmaps (set_roadmap i f d)) = map rm_id (ad_roadmaps d)"
    by (rule roadmap_ids [OF f])
  have refs: "list_all (\<lambda>r. rm_user_id r \<in> U \<and> rm_assessment_result_id r \<in> S) (ad_roadmaps (set_roadmap i f d))
      = list_all (\<lambda>r. rm_user_id r \<in> U \<and> rm_assessment_result_id r \<in> S) (ad_roadmaps d)" for U S
    unfolding set_roadmap_def using f by (simp add: list_all_upd_same keeps_refs_def)
  show ?thesis
    unfolding app_ok_def snapshots_ok_def assessments_ok_def results_ok_def items_ok_def roadmaps_ok_def
      steps_ok_def jobs_ok_def set_roadmap_tables ids refs by (rule refl)
qed

lemma roadmap_of_set:
  assumes "keeps_refs f"
  shows "roadmap_of (set_roadmap i f d) k = (if k = i then map_option f (roadmap_of d i) else roadmap_of d k)"
proof -
  have "find (\<lambda>r. rm_id r = k) (upd_where (\<lambda>r. rm_id r = i) f rs)
      = (if k = i then map_option f (find (\<lambda>r. rm_id r = i) rs) else find (\<lambda>r. rm_id r = k) rs)" for rs
    using assms by (induction rs) (auto simp: upd_where_def keeps_refs_def)
  then show ?thesis by (simp add: roadmap_of_def set_roadmap_def)
qed

lemma roadmap_of_id: "roadmap_of d i = Some r \<Longrightarrow> rm_id r = i \<and> r \<in> set (ad_roadmaps d)"
  unfolding roadmap_of_def using find_mem by fastforce

lemma roadmap_of_mem: "app_ok d \<Longrightarrow> r \<in> set (ad_roadmaps d) \<Longrightarrow> roadmap_of d (rm_id r) = Some r"
  using find_unique [of rm_id "ad_roadmaps d" r] by (simp add: roadmap_of_def app_ok_def roadmaps_ok_def)

section \<open>The generation\<close>

text \<open>Step ids are below the next fresh id.\<close>

definition steps_fresh :: "'z app_db_scheme \<Rightarrow> bool" where
  "steps_fresh d \<longleftrightarrow> list_all (\<lambda>s. st_id s < bd_next d) (ad_steps d)"

lemma new_steps_simps [simp]:
  "map st_id (new_roadmap_steps n i ss) = [n..<n + length ss]"
  "map st_step_order (new_roadmap_steps n i ss) = map sc_step_order ss"
  "length (new_roadmap_steps n i ss) = length ss"
proof -
  have "st_id \<circ> new_roadmap_step i = fst" "st_step_order \<circ> new_roadmap_step i = sc_step_order \<circ> snd"
    by (auto simp: new_roadmap_step_def)
  then show "map st_id (new_roadmap_steps n i ss) = [n..<n + length ss]"
    "map st_step_order (new_roadmap_steps n i ss) = map sc_step_order ss"
    unfolding new_roadmap_steps_def map_map
    by (simp_all only: map_fst_zip length_upt add_diff_cancel_left' map_map [symmetric] map_snd_zip)
qed (simp add: new_roadmap_steps_def)

lemma new_steps_roadmap: "x \<in> set (new_roadmap_steps n i ss) \<Longrightarrow> st_roadmap_id x = i \<and> n \<le> st_id x"
  by (auto simp: new_roadmap_steps_def new_roadmap_step_def dest!: set_zip_leftD)

lemma filter_app_ok:
  assumes "app_ok d" shows "app_ok (d\<lparr>ad_steps := filter P (ad_steps d)\<rparr>)"
proof -
  have "steps_ok (d\<lparr>ad_steps := filter P (ad_steps d)\<rparr>)"
    using assms by (auto simp: app_ok_def steps_ok_def distinct_map_filter list_all_iff)
  with assms show ?thesis
    by (simp add: app_ok_def results_ok_def roadmaps_ok_def snapshots_ok_def assessments_ok_def items_ok_def jobs_ok_def)
qed

lemma app_ok_remove_steps: "app_ok d \<Longrightarrow> app_ok (remove_steps xs d)"
  unfolding remove_steps_def by (rule filter_app_ok)

lemma remove_own_steps:
  assumes "app_ok d"
  shows "ad_steps (remove_steps (steps_of d i) d) = filter (\<lambda>s. st_roadmap_id s \<noteq> i) (ad_steps d)"
proof -
  have "st_id s \<in> st_id ` set (steps_of d i) \<longleftrightarrow> st_roadmap_id s = i" if "s \<in> set (ad_steps d)" for s
  proof -
    have "inj_on st_id (set (ad_steps d))" using assms by (simp add: app_ok_def steps_ok_def distinct_map)
    then show ?thesis using that by (auto simp: steps_of_def inj_on_def)
  qed
  then show ?thesis by (auto simp: remove_steps_def intro!: filter_cong)
qed

lemma app_ok_add_steps:
  assumes ok: "app_ok d" and fresh: "steps_fresh d" and i: "i \<in> set (map rm_id (ad_roadmaps d))"
    and none: "\<forall>s\<in>set (ad_steps d). st_roadmap_id s \<noteq> i" and dist: "distinct (map sc_step_order ss)"
  shows "app_ok (add_steps i ss d)"
proof -
  let ?new = "new_roadmap_steps (bd_next d) i ss"
  have 1: "distinct (map st_id (ad_steps d @ ?new))"
    using ok fresh by (auto simp: app_ok_def steps_ok_def steps_fresh_def list_all_iff)
  have "map (\<lambda>s. (st_roadmap_id s, st_step_order s)) ?new = map (Pair i) (map sc_step_order ss)"
    unfolding new_steps_simps(2) [of "bd_next d" i ss, symmetric] map_map
    by (rule map_cong [OF refl]) (simp add: new_steps_roadmap)
  then have new: "distinct (map (\<lambda>s. (st_roadmap_id s, st_step_order s)) ?new)"
    using dist by (simp add: distinct_map inj_on_def)
  have 2: "distinct (map (\<lambda>s. (st_roadmap_id s, st_step_order s)) (ad_steps d @ ?new))"
    using ok none new by (auto simp: app_ok_def steps_ok_def dest!: new_steps_roadmap)
  have 3: "list_all (\<lambda>s. st_roadmap_id s \<in> set (map rm_id (ad_roadmaps d))) (ad_steps d @ ?new)"
    using ok i by (auto simp: app_ok_def steps_ok_def list_all_iff dest!: new_steps_roadmap)
  have "steps_ok (add_steps i ss d)" using 1 2 3 by (simp add: steps_ok_def add_steps_def)
  with ok show ?thesis
    by (simp add: add_steps_def app_ok_def results_ok_def roadmaps_ok_def snapshots_ok_def assessments_ok_def
        items_ok_def jobs_ok_def)
qed

text \<open>The database after a generation.\<close>

definition with_roadmap ::
    "time \<Rightarrow> uuid \<Rightarrow> roadmap_contract \<Rightarrow> string \<times> string \<Rightarrow> 'z app_db_scheme \<Rightarrow> 'z app_db_scheme" where
  "with_roadmap now i c names d =
     add_steps i (ct_passos_priorizados c)
       (set_roadmap i (generated_roadmap now c names) (remove_steps (steps_of d i) d))"

lemma set_restarted_steps [simp]: "steps_of (set_roadmap i f d) k = steps_of d k"
  by (simp add: steps_of_def)

lemma generate_contract_distinct:
  "generate_contract cfg api now r = Inr (c, names) \<Longrightarrow> distinct (map sc_step_order (ct_passos_priorizados c))"
  by (auto simp: generate_contract_def bindR_eq_Inr validate_contract_iff case_prod_beta)

lemma process_roadmap_eq:
  assumes ok: "app_ok d" and fresh: "steps_fresh d" and r: "roadmap_of d i = Some r"
    and todo: "\<not> (rm_status r = rm_completed \<and> steps_of d i \<noteq> [])"
  shows "request (process_roadmap cfg api now i) d = (case generate_contract cfg api now (load_roadmap d r) of
      Inl e \<Rightarrow> (Inl e, set_roadmap i restarted d)
    | Inr (c, names) \<Rightarrow> if contract_fits c names then (Inr (), with_roadmap now i c names (set_roadmap i restarted d))
        else (Inl (DBAPIError ''value out of range''), set_roadmap i restarted d))"
proof -
  have id: "rm_id r = i" "r \<in> set (ad_roadmaps d)" using roadmap_of_id [OF r] by auto
  let ?l = "load_roadmap d r" and ?d = "set_roadmap i restarted d"
  have l: "lr_roadmap ?l = r" "lr_steps ?l = steps_of d i" by (simp_all add: load_roadmap_def Let_def id)
  have ok1: "app_ok ?d" using ok by (simp add: app_ok_set_roadmap)
  let ?t = "\<lparr>committed = ?d, working = ?d, aborted = False\<rparr>"
  have start: "process_roadmap cfg api now i (begin_txn d)
      = bindO (lift (generate_contract cfg api now ?l)) (\<lambda>(c, names). apply_generated_contract now ?l c names) ?t"
    using todo ok1 r
    by (cases "rm_status r = rm_completed") (simp_all add: process_roadmap_def get_roadmap_for_generation_def mark_roadmap_running_def l begin_txn_def
        query_def bindO_def flush_def commit_def)
  show ?thesis
  proof (cases "generate_contract cfg api now ?l")
    case (Inl e)
    then show ?thesis by (simp add: request_def start)
  next
    case (Inr cn)
    obtain c names where cn: "cn = (c, names)" by (cases cn)
    let ?d1 = "remove_steps (steps_of ?d i) ?d"
    let ?d2 = "set_roadmap i (generated_roadmap now c names) ?d1"
    have 1: "app_ok ?d1" by (rule app_ok_remove_steps [OF ok1])
    have "app_ok (add_steps i (ct_passos_priorizados c) ?d2)"
    proof (rule app_ok_add_steps)
      show "app_ok ?d2" using 1 by (simp add: app_ok_set_roadmap)
      show "steps_fresh ?d2" using fresh by (auto simp: steps_fresh_def remove_steps_def list_all_iff)
      have "map rm_id (ad_roadmaps ?d2) = map rm_id (ad_roadmaps (remove_steps (steps_of ?d i) ?d))"
        by (rule roadmap_ids) simp
      also have "\<dots> = map rm_id (ad_roadmaps ?d)" by (simp add: remove_steps_def)
      also have "\<dots> = map rm_id (ad_roadmaps d)" by (rule roadmap_ids) simp
      finally show "i \<in> set (map rm_id (ad_roadmaps ?d2))" using id by auto
      show "\<forall>s\<in>set (ad_steps ?d2). st_roadmap_id s \<noteq> i"
        using remove_own_steps [OF ok1, of i] by simp
      show "distinct (map sc_step_order (ct_passos_priorizados c))"
        using generate_contract_distinct Inr cn by blast
    qed
    with 1 have "contract_fits c names \<Longrightarrow> apply_generated_contract now ?l c names ?t
        = (Inr (), ?t\<lparr>working := with_roadmap now i c names ?d, committed := with_roadmap now i c names ?d\<rparr>)"
      "\<not> contract_fits c names \<Longrightarrow> apply_generated_contract now ?l c names ?t
        = (Inl (DBAPIError ''value out of range''), ?t\<lparr>aborted := True\<rparr>)"
      by (simp_all add: apply_generated_contract_def with_roadmap_def l id)
    then show ?thesis using Inr cn by (simp add: request_def start)
  qed
qed

lemma roadmap_of_steps [simp]:
  "roadmap_of (add_steps i ss d) k = roadmap_of d k" "roadmap_of (remove_steps xs d) k = roadmap_of d k"
  by (simp_all add: roadmap_of_def add_steps_def remove_steps_def)

lemma with_roadmap_row:
  assumes "roadmap_of d i = Some r"
  shows "roadmap_of (with_roadmap now i c names (set_roadmap i restarted d)) i = Some (generated_roadmap now c names r)"
  using assms by (simp add: with_roadmap_def roadmap_of_set) (simp add: generated_roadmap_def restarted_def)

lemma with_roadmap_steps:
  assumes "app_ok d"
  shows "steps_of (with_roadmap now i c names d) k = (if k = i
    then new_roadmap_steps (bd_next d) i (ct_passos_priorizados c) else steps_of d k)"
proof -
  let ?new = "new_roadmap_steps (bd_next d) i (ct_passos_priorizados c)"
  have steps: "ad_steps (with_roadmap now i c names d) = filter (\<lambda>s. st_roadmap_id s \<noteq> i) (ad_steps d) @ ?new"
    using remove_own_steps [OF assms, of i] by (simp add: with_roadmap_def add_steps_def) (simp add: remove_steps_def)
  have "filter (\<lambda>s. st_roadmap_id s = k) ?new = (if k = i then ?new else [])"
    by (auto simp: filter_id_conv filter_empty_conv dest!: new_steps_roadmap)
  then show ?thesis by (auto simp: steps_of_def steps intro!: filter_cong)
qed

section \<open>Creation\<close>

lemma more_same_require: "keeps (both (more_same m)) (require_entitlement cfg now u k)"
  unfolding require_entitlement_def get_active_entitlement_def by (intro inv_intros)

lemma require_live: "require_entitlement cfg now u k t = (Inr e, t') \<Longrightarrow> \<not> aborted t'"
  by (auto simp: require_entitlement_def get_active_entitlement_def txn_success split: option.splits)

lemma existing_roadmap_reads:
  "existing_roadmap u key (begin_txn d) = (case (if opt_truthy key then job_by_key d roadmap_job (the key) else None) of
     None \<Rightarrow> (Inr None, begin_txn d)
   | Some j \<Rightarrow> (case Option.bind (jb_roadmap_id j) (roadmap_of d) of
       None \<Rightarrow> (Inr None, begin_txn d)
     | Some r \<Rightarrow> if rm_user_id r \<noteq> u
         then (Inl (HTTPException 409 ''Idempotency key already used by another user''), begin_txn d)
         else (Inr (Some \<lparr>rw_roadmap_id = rm_id r, rw_status = rm_status r,
           rw_roadmap_schema_version = rm_roadmap_schema_version r, rw_job_id = jb_id j, rw_message = None\<rparr>),
           begin_txn d)))"
  by (simp add: existing_roadmap_def get_job_by_key_def get_roadmap_def split: option.splits)

text \<open>A new roadmap: what was checked, and what is committed.\<close>

lemma create_new_roadmap_post:
  assumes run: "create_new_roadmap cfg now u p tr (begin_txn d) = (Inr q, t)"
  shows "\<exists>a res r j. a \<in> set (ad_assessments d) \<and> am_id a = rq_assessment_id p \<and> am_user_id a = u
    \<and> am_status a = as_completed \<and> result_of d (am_id a) = Some res
    \<and> roadmap_of (committed t) (rw_roadmap_id q) = Some r \<and> rm_user_id r = u \<and> rm_assessment_result_id r = rs_id res
    \<and> (opt_truthy (rq_idempotency_key p) \<and> job_by_key d roadmap_job (the (rq_idempotency_key p)) = None \<longrightarrow>
         job_by_key (committed t) roadmap_job (the (rq_idempotency_key p)) = Some j \<and> jb_id j = rw_job_id q
         \<and> jb_roadmap_id j = Some (rw_roadmap_id q))"
proof -
  obtain a where a: "find (\<lambda>a. am_id a = rq_assessment_id p \<and> am_user_id a = u) (ad_assessments d) = Some a"
    using run by (cases "find (\<lambda>a. am_id a = rq_assessment_id p \<and> am_user_id a = u) (ad_assessments d)")
      (simp_all add: create_new_roadmap_def get_assessment_for_roadmap_def)
  have mem: "a \<in> set (ad_assessments d)" "am_id a = rq_assessment_id p" "am_user_id a = u"
    using find_mem [OF a] by simp_all
  obtain res where res: "result_of d (am_id a) = Some res" and st: "am_status a = as_completed"
    using run a by (auto simp: create_new_roadmap_def get_assessment_for_roadmap_def load_assessment_def
        split: option.splits if_splits)
  define key where "key = (\<lambda>r :: roadmap. if opt_truthy (rq_idempotency_key p) then the (rq_idempotency_key p)
    else ''roadmap:'' @ uuid_str (rm_id r))"
  from run a res st obtain e t1 r t2 j
    where req: "require_entitlement cfg now u (pro_roadmap_feature_key cfg) (begin_txn d) = (Inr e, t1)"
      and row: "create_roadmap_row now u (rs_id res) (roadmap_schema_version cfg) tr t1 = (Inr r, t2)"
      and job: "get_or_create_job now roadmap_job (key r) None (Some (rm_id r)) tr t2 = (Inr j, t)"
      and q: "rw_roadmap_id q = rm_id r" "rw_job_id q = jb_id j"
    by (auto simp: create_new_roadmap_def get_assessment_for_roadmap_def load_assessment_def bindO_eq_Inr key_def)
  have "billing_db.more (working t1) = billing_db.more d"
    using keepsD [OF more_same_require _ req, of "billing_db.more d"] by (simp add: both_def more_same_def)
  then have jobs: "ad_jobs (working t1) = ad_jobs d" using more_tables by blast
  have w2: "working t2 = (working t1)\<lparr>ad_roadmaps := ad_roadmaps (working t1) @ [r], bd_next := Suc (bd_next (working t1))\<rparr>"
    "committed t2 = working t2" "\<not> aborted t2" "app_ok (working t2)" "rm_user_id r = u"
    "rm_assessment_result_id r = rs_id res"
    using row by (auto simp: create_roadmap_row_def txn_success)
  then have r: "roadmap_of (working t2) (rm_id r) = Some r" by (intro roadmap_of_mem) simp_all
  have rm: "ad_roadmaps (committed t) = ad_roadmaps (working t2)"
  proof (cases "job_by_key (working t2) roadmap_job (key r)")
    case None
    with job w2 show ?thesis by (auto simp: get_or_create_job_def get_job_by_key_def txn_success)
  next
    case (Some x)
    with job w2 show ?thesis by (auto simp: get_or_create_job_def get_job_by_key_def txn_success set_job_def split: if_splits)
  qed
  have j: "job_by_key (committed t) roadmap_job (the (rq_idempotency_key p)) = Some j \<and> jb_roadmap_id j = Some (rm_id r)"
    if k: "opt_truthy (rq_idempotency_key p)" and nojob: "job_by_key d roadmap_job (the (rq_idempotency_key p)) = None"
  proof -
    have none: "job_by_key (working t2) roadmap_job (key r) = None"
      using nojob k w2 jobs by (simp add: job_by_key_def key_def)
    let ?j = "new_job (bd_next (working t2)) now roadmap_job (key r) None (Some (rm_id r)) tr"
    have "jb_job_type ?j = roadmap_job" "jb_idempotency_key ?j = key r" "jb_roadmap_id ?j = Some (rm_id r)"
      by (simp_all add: new_job_def)
    moreover have "j = ?j \<and> committed t = (working t2)\<lparr>ad_jobs := ad_jobs (working t2) @ [?j],
        bd_next := Suc (bd_next (working t2))\<rparr>"
      using job none w2(3) by (auto simp: get_or_create_job_def get_job_by_key_def txn_success)
    ultimately show ?thesis using job_by_key_append [of "working t2" ?j] none k by (simp add: key_def)
  qed
  show ?thesis
    using mem st res r w2 q j rm by (intro exI [of _ a] exI [of _ res] exI [of _ r] exI [of _ j]) (simp add: roadmap_of_def)
qed

section \<open>The roadmap task\<close>

definition roadmap_attempt ::
    "settings \<Rightarrow> openai_api \<Rightarrow> (nat \<Rightarrow> 'z app_db_scheme faults) \<Rightarrow> (nat \<Rightarrow> time) \<Rightarrow> (nat \<Rightarrow> int) \<Rightarrow> uuid \<Rightarrow> uuid
     \<Rightarrow> string option \<Rightarrow> nat \<Rightarrow> ('z app_db_scheme, delivery) op" where
  "roadmap_attempt cfg api flt now ms roadmap_id job_id tr n =
     roadmap_delivery cfg (flt n) (now n) (ms n) roadmap_id job_id tr
       (run_roadmap_job cfg api (now n) roadmap_id job_id tr) n"

definition roadmap_settled :: "uuid \<Rightarrow> uuid \<Rightarrow> 'z app_db_scheme \<Rightarrow> bool" where
  "roadmap_settled rid i d \<longleftrightarrow> (\<exists>j. job_of d i = Some j \<and> (jb_status j = job_completed
     \<or> jb_status j = job_dead_letter \<and> (\<forall>r. roadmap_of d rid = Some r \<longrightarrow> rm_status r = rm_failed)))"

lemma keeps_process_roadmap [job_keeps]: "keeps (both (job_inv i)) (process_roadmap cfg api now rid)"
  unfolding process_roadmap_def get_roadmap_for_generation_def mark_roadmap_running_def
    apply_generated_contract_def case_prod_beta
  by (intro inv_intros job_inv_flush job_of_tables)
    (simp_all add: remove_steps_def add_steps_def)

lemma keeps_run_roadmap [job_keeps]: "keeps (both (job_inv i)) (run_roadmap_job cfg api now rid k tr)"
  unfolding run_roadmap_job_def mark_running_def
  by (intro inv_intros job_keeps keeps_change_job) simp

lemma dead_letter_state:
  assumes I: "job_inv i d"
  shows "\<exists>d'. request (mark_failure_state now rid i msg ms True) d = (Inr (), d')
    \<and> job_inv i d' \<and> roadmap_settled rid i d'"
proof -
  let ?dead = "finished_job now job_dead_letter (Some msg) ms"
  let ?d1 = "set_job i ?dead d"
  obtain j where j: "job_of d i = Some j" and ok: "app_ok d" using I by (auto simp: job_inv_def)
  have ok1: "app_ok ?d1" using ok by (simp add: app_ok_set_job)
  have j1: "job_of ?d1 i = Some (?dead j)" using j by (simp add: job_of_set_job)
  let ?t = "\<lparr>committed = ?d1, working = ?d1, aborted = False\<rparr>"
  have t: "mark_failed now i msg ms True (begin_txn d) = (Inr (?dead j), ?t)"
    using ok j by (simp add: mark_failed_def change_job_eq begin_txn_def)
  show ?thesis
  proof (cases "roadmap_of ?d1 rid")
    case None
    have "request (mark_failure_state now rid i msg ms True) d = (Inr (), ?d1)"
      by (simp add: mark_failure_state_def request_def bindO_def t mark_roadmap_failed_def get_roadmap_def None)
    then show ?thesis using None ok1 j1 by (auto simp: job_inv_def roadmap_settled_def finished_job_def)
  next
    case (Some r)
    let ?d2 = "set_roadmap rid (failed_roadmap now msg) ?d1"
    have ok2: "app_ok ?d2" using ok1 by (simp add: app_ok_set_roadmap)
    have "request (mark_failure_state now rid i msg ms True) d = (Inr (), ?d2)"
      using ok2 by (simp add: mark_failure_state_def request_def bindO_def t mark_roadmap_failed_def get_roadmap_def Some
          mark_roadmap_row_failed_def)
    moreover have "job_of ?d2 i = Some (?dead j)" using j1 by (simp add: job_of_def)
    moreover have "roadmap_of ?d2 rid = Some (failed_roadmap now msg r)" using Some by (simp add: roadmap_of_set)
    ultimately show ?thesis using ok2
      by (auto simp: job_inv_def roadmap_settled_def finished_job_def failed_roadmap_def)
  qed
qed

lemma retry_state:
  assumes "job_inv i d"
  shows "\<exists>d'. request (mark_failure_state now rid i msg ms False) d = (Inr (), d') \<and> job_inv i d'"
proof -
  obtain k where "request (change_job i (retried_job msg)) d = (Inr k, set_job i (retried_job msg) d)"
    "job_inv i (set_job i (retried_job msg) d)"
    using job_transition_request [OF assms, of "retried_job msg"] by auto
  then show ?thesis
    by (auto simp: mark_failure_state_def mark_pending_retry_def request_def bindO_def split: prod.splits)
qed

lemma roadmap_failure_cases:
  assumes I: "job_inv i d" and b: "breaks_keep (job_inv i) flt"
  shows "\<exists>r d'. handle_roadmap_failure cfg flt now ms n rid i tr e d = (r, d') \<and> job_inv i d'
    \<and> ((\<exists>e c. r = Inr (Retried e c)) \<longrightarrow> int n < roadmap_task_max_retries cfg)
    \<and> (recordable flt \<and> (\<forall>e c. r \<noteq> Inr (Retried e c)) \<longrightarrow> roadmap_settled rid i d' \<and> (\<exists>x. r = Inr x))"
proof -
  let ?dead = "is_definitive_error e \<or> \<not> (is_transient_error e \<or> is_soft_timeout e)
    \<or> roadmap_task_max_retries cfg \<le> int n"
  show ?thesis
  proof (cases "fl_record flt")
    case (Some p)
    obtain e' left where p: "p = (e', left)" by (cases p)
    have "job_inv i (left d)" using breaks_keepD(3) [OF b I] Some p by blast
    then show ?thesis using Some p
      by (auto simp: handle_roadmap_failure_def Let_def session_def bindO_def recordable_def)
  next
    case None
    show ?thesis
    proof (cases ?dead)
      case True
      from dead_letter_state [OF I, of now rid "exn_text e" ms] True None show ?thesis
        by (auto simp: handle_roadmap_failure_def Let_def bindO_def)
    next
      case False
      from retry_state [OF I, of now rid "exn_text e" ms] False None show ?thesis
        by (auto simp: handle_roadmap_failure_def Let_def bindO_def recordable_def retry_task_def split: option.splits)
    qed
  qed
qed

lemma roadmap_delivery_cases:
  assumes I: "job_inv i d" and b: "breaks_keep (job_inv i) flt" and k: "keeps (both (job_inv i)) run"
  shows "\<exists>r d'. roadmap_delivery cfg flt now ms rid i tr run n d = (Inr r, d') \<and> job_inv i d'
    \<and> ((\<exists>e c. r = Retried e c) \<longrightarrow> int n < roadmap_task_max_retries cfg)
    \<and> (recordable flt \<and> (\<forall>e c. r \<noteq> Retried e c) \<longrightarrow> roadmap_settled rid i d')"
proof (cases "fl_killed flt")
  case (Some left)
  then show ?thesis using breaks_keepD(4) [OF b I Some]
    by (auto simp: roadmap_delivery_def killable_def time_limit_exceeded_def recordable_def)
next
  case None
  obtain r1 d1 where run: "session (fl_work flt) run d = (r1, d1)" by (cases "session (fl_work flt) run d")
  have I1: "job_inv i d1" using session_keeps [OF k I, of "fl_work flt"] breaks_keepD(1) [OF b I] run by (metis snd_conv)
  have failed: ?thesis if h: "job_inv i d2" "roadmap_delivery cfg flt now ms rid i tr run n d
      = catch (handle_roadmap_failure cfg flt now ms n rid i tr e) (\<lambda>e. ret (Raised e None)) d2" for e d2
    using roadmap_failure_cases [OF h(1) b, of cfg now ms n rid tr e] h(2) by (auto simp: catch_def split: sum.splits)
  show ?thesis
  proof (cases r1)
    case (Inl e)
    then show ?thesis by (intro failed [OF I1]) (simp add: roadmap_delivery_def killable_def None catch_def bindO_def run)
  next
    case (Inr u)
    let ?done = "finished_job now job_completed None ms"
    have keys: "keeps_keys ?done" by simp
    have "\<forall>e left. fl_finish flt = Some (e, left) \<longrightarrow> job_inv i (left d1)" using breaks_keepD(2) [OF b I1] by blast
    from change_job_session [OF I1 keys this] show ?thesis
    proof (elim disjE exE conjE)
      fix j assume "session (fl_finish flt) (change_job i ?done) d1 = (Inr (?done j), set_job i ?done d1)"
        "job_inv i (set_job i ?done d1)" "job_of (set_job i ?done d1) i = Some (?done j)"
      then show ?thesis
        by (auto simp: roadmap_delivery_def killable_def None catch_def bindO_def run Inr mark_completed_def
            roadmap_settled_def finished_job_def)
    next
      fix e left assume "session (fl_finish flt) (change_job i ?done) d1 = (Inl e, left d1)" "job_inv i (left d1)"
      then show ?thesis
        by (intro failed [of "left d1" e])
          (simp_all add: roadmap_delivery_def killable_def None catch_def bindO_def run Inr mark_completed_def)
    qed
  qed
qed

interpretation roadmap_task: retried_task "roadmap_attempt cfg api (keeping (job_inv i) flt) now ms rid i tr" "job_inv i"
    "roadmap_settled rid i" "nat (roadmap_task_max_retries cfg)" "\<lambda>n. recordable (keeping (job_inv i) flt n)"
  for cfg api and flt :: "nat \<Rightarrow> 'z app_db_scheme faults" and now ms rid i tr
proof
  fix d :: "'z app_db_scheme" and n assume I: "job_inv i d"
  have cases: "\<exists>r d'. roadmap_attempt cfg api (keeping (job_inv i) flt) now ms rid i tr n d = (Inr r, d') \<and> job_inv i d'
    \<and> ((\<exists>e c. r = Retried e c) \<longrightarrow> int n < roadmap_task_max_retries cfg)
    \<and> (recordable (keeping (job_inv i) flt n) \<and> (\<forall>e c. r \<noteq> Retried e c) \<longrightarrow> roadmap_settled rid i d')"
    unfolding roadmap_attempt_def by (rule roadmap_delivery_cases [OF I keeping_keep keeps_run_roadmap])
  show "job_inv i (snd (roadmap_attempt cfg api (keeping (job_inv i) flt) now ms rid i tr n d))" using cases by auto
  show "n < nat (roadmap_task_max_retries cfg)"
    if "roadmap_attempt cfg api (keeping (job_inv i) flt) now ms rid i tr n d = (Inr (Retried e c), d')" for e c d'
    using cases that by auto
  show "roadmap_settled rid i d'"
    if "roadmap_attempt cfg api (keeping (job_inv i) flt) now ms rid i tr n d = (r, d')"
      and "\<And>e c. r \<noteq> Inr (Retried e c)" and "recordable (keeping (job_inv i) flt n)" for r d'
    using cases that by auto
qed

end
