(* ===== verification/Roadmaps_Flow.thy ===== *)
theory Roadmaps_Flow
  imports Roadmaps_Contract Assessments_Flow
begin

text \<open>
  The life of a roadmap: who may create one, what a repeated request does, what the generation
  stores, and how the background task ends.
\<close>

section \<open>Keys and jobs\<close>

text \<open>Every roadmap job names a roadmap that exists, as the service creates them.\<close>

definition roadmap_jobs_ok :: "'z app_db_scheme \<Rightarrow> bool" where
  "roadmap_jobs_ok d \<longleftrightarrow> list_all (\<lambda>j. jb_job_type j = roadmap_job \<longrightarrow>
     Option.bind (jb_roadmap_id j) (roadmap_of d) \<noteq> None) (ad_jobs d)"

lemma job_by_key_roadmap:
  assumes "roadmap_jobs_ok d" and "job_by_key d roadmap_job k = Some j"
  shows "\<exists>r. Option.bind (jb_roadmap_id j) (roadmap_of d) = Some r"
  using assms find_mem [of _ "ad_jobs d" j] by (auto simp: roadmap_jobs_ok_def job_by_key_def list_all_iff)

lemma create_roadmap_cases:
  assumes "request (create_roadmap cfg now u p tr) d = (Inr q, d')"
  shows "(\<exists>j r. opt_truthy (rq_idempotency_key p) \<and> job_by_key d roadmap_job (the (rq_idempotency_key p)) = Some j
        \<and> Option.bind (jb_roadmap_id j) (roadmap_of d) = Some r \<and> rm_user_id r = u \<and> d' = d
        \<and> rw_roadmap_id q = rm_id r \<and> rw_job_id q = jb_id j \<and> rw_message q = None)
    \<or> (\<exists>t. create_new_roadmap cfg now u p tr (begin_txn d) = (Inr q, t) \<and> d' = committed t
        \<and> (\<forall>j. opt_truthy (rq_idempotency_key p) \<longrightarrow> job_by_key d roadmap_job (the (rq_idempotency_key p)) = Some j
             \<longrightarrow> Option.bind (jb_roadmap_id j) (roadmap_of d) = None))"
  using assms unfolding request_def create_roadmap_def bindO_def existing_roadmap_reads
  by (auto split: option.splits if_splits prod.splits)

section \<open>Concrete inputs\<close>

definition pro_entitlement :: entitlement where
  "pro_entitlement = sample_entitlement\<lparr>en_id := 4, en_feature_key := ''roadmap.pro'', en_limit_value := None,
     en_usage_window := lifetime\<rparr>"

definition road_result :: assessment_result where
  "road_result = \<lparr>rs_id = 64, rs_assessment_id = 61, rs_program_version_id = 11, rs_rules_version_hash = ''h'',
     rs_algorithm_version = ''v1'', rs_total_score = 45, rs_is_eligible = True, rs_computed_at = 9\<rparr>"

definition road_row :: roadmap where
  "road_row = \<lparr>rm_id = 66, rm_created_at = 9, rm_user_id = 7, rm_assessment_result_id = 64,
     rm_roadmap_schema_version = ''roadmap.v1'', rm_status = rm_pending, rm_summary = ''pending'',
     rm_manual_review_required = False, rm_llm_provider = None, rm_llm_model = None, rm_generation_error = None,
     rm_trace_id = None, rm_completed_at = None\<rparr>"

definition road_app :: app_db where
  "road_app = flow_app\<lparr>
     ad_assessments := [flow_assessment\<lparr>am_status := as_completed, am_completed_at := Some 9\<rparr>],
     ad_results := [road_result], ad_items := [gen_item], ad_roadmaps := [road_row],
     ad_jobs := [new_job 67 9 roadmap_job ''r'' None (Some 66) None]\<rparr>"

lemmas road_defs = road_app_def flow_defs road_result_def road_row_def gen_item_def

lemma road_ok: "app_ok road_app" "steps_fresh road_app" "roadmap_jobs_ok road_app"
  by (simp_all add: app_ok_defs steps_fresh_def roadmap_jobs_ok_def roadmap_of_def road_defs fk_def)

lemma road_lookup: "roadmap_of road_app 66 = Some road_row" "steps_of road_app 66 = []"
    "job_of road_app 67 \<noteq> None"
  by (simp_all add: roadmap_of_def steps_of_def job_of_def road_defs)

lemma road_generates:
  "\<exists>c. generate_contract claude_settings offline_api 9 (load_roadmap road_app road_row)
     = Inr (c, ''claude_stub'', ''claude-3-5-sonnet-latest'')
     \<and> list_all (\<lambda>s. int32 (sc_step_order s) \<and> int32 (sc_prazo_estimado_semanas s)) (ct_passos_priorizados c)"
proof -
  let ?l = "load_roadmap road_app road_row"
  have l: "lr_result ?l = Some road_result" "lr_items ?l = [gen_item]"
    "\<exists>a s. lr_assessment ?l = Some a \<and> lr_snapshot ?l = Some s"
    by (simp_all add: load_roadmap_def Let_def road_defs assessment_of_def snapshot_of_def items_of_def)
  then obtain a s where as: "lr_assessment ?l = Some a" "lr_snapshot ?l = Some s" by blast
  have "llm_provider claude_settings = ''claude''" "1 \<le> length (roadmap_schema_version claude_settings)"
    "length (roadmap_schema_version claude_settings) \<le> 16" "\<bar>rs_total_score road_result\<bar> < 10 ^ 6"
    "Suc (length (lr_items ?l)) < 10 ^ 100"
    by (simp_all add: claude_settings_def base_defaults_def road_result_def l)
  note g = stub_generates [OF this(1-3) l(1) as this(4,5), of offline_api 9]
  let ?c = "stub_contract (roadmap_schema_version claude_settings) (critical_gaps (sort_key item_order (lr_items ?l)))"
  have "list_all (\<lambda>s. int32 (sc_step_order s) \<and> int32 (sc_prazo_estimado_semanas s)) (ct_passos_priorizados ?c)"
    by (simp add: l stub_contract_def stub_steps_def gap_step_def critical_gaps_def gen_item_def int32_def)
  with g show ?thesis by (intro exI [of _ ?c]) (simp add: claude_settings_def base_defaults_def)
qed

text \<open>The new rows carry the contract's steps.\<close>

lemma new_steps_entries:
  "list_all2 (\<lambda>s y. st_roadmap_id y = i \<and> st_step_order y = sc_step_order s \<and> st_title y = sc_titulo s
      \<and> st_description y = sc_descricao s \<and> st_is_required y = sc_is_required s
      \<and> st_eta_weeks y = Some (sc_prazo_estimado_semanas s) \<and> st_dependencies_json y = sc_dependencias s
      \<and> st_risk_level y = sc_risco s \<and> st_completion_criteria y = sc_criterio_conclusao s
      \<and> st_related_gap_json y = (case sc_gap_relacionado s of
          Some g \<Rightarrow> if g = [] then [] else [(''gap'', JStr g)] | None \<Rightarrow> []))
    ss (new_roadmap_steps n i ss)"
  unfolding list_all2_conv_all_nth
  by (auto simp: new_roadmap_steps_def new_roadmap_step_def opt_truthy_def simp del: upt_Suc split: option.splits)

lemma with_roadmap_others:
  "k \<noteq> i \<Longrightarrow> roadmap_of (with_roadmap now i c names (set_roadmap i restarted d)) k = roadmap_of d k"
  by (simp add: with_roadmap_def roadmap_of_set)

section \<open>Properties\<close>

text \<open>
  C26. The generation stores exactly the contract: for a roadmap that is not yet generated, either an error is raised and
  the roadmap is only set back to pending, or the contract does not fit the columns (names of at most 32 and 64
  characters, 32-bit orders and weeks), the database refuses it and the same holds; or the roadmap is completed at that
  time with the contract's objective and review flag, the provider's and the model's name and no error, its steps carry
  every field of the contract's steps, in their order, and the rows and steps of every other roadmap stay as they were.
\<close>

theorem roadmap_generated:
  assumes "app_ok d" and "steps_fresh d" and "roadmap_of d i = Some r"
    and "\<not> (rm_status r = rm_completed \<and> steps_of d i \<noteq> [])"
    and "waiting = d\<lparr>ad_roadmaps := map (\<lambda>x. if rm_id x = i then x\<lparr>rm_status := rm_pending, rm_generation_error := None,
        rm_completed_at := None\<rparr> else x) (ad_roadmaps d)\<rparr>"
  shows "(\<forall>e. generate_contract cfg api now (load_roadmap d r) = Inl e \<longrightarrow>
        request (process_roadmap cfg api now i) d = (Inl e, waiting))
    \<and> (\<forall>c provider model. generate_contract cfg api now (load_roadmap d r) = Inr (c, provider, model) \<longrightarrow>
        (if length provider \<le> 32 \<and> length model \<le> 64 \<and> (\<forall>s \<in> set (ct_passos_priorizados c).
            sc_step_order s \<in> {- (2 ^ 31)..<2 ^ 31} \<and> sc_prazo_estimado_semanas s \<in> {- (2 ^ 31)..<2 ^ 31})
         then \<exists>d'. request (process_roadmap cfg api now i) d = (Inr (), d')
          \<and> roadmap_of d' i = Some (r\<lparr>rm_status := rm_completed, rm_summary := ct_objetivo c,
              rm_manual_review_required := ct_manual_review_required c, rm_llm_provider := Some provider,
              rm_llm_model := Some model, rm_generation_error := None, rm_completed_at := Some now\<rparr>)
          \<and> list_all2 (\<lambda>s y. st_roadmap_id y = i \<and> st_step_order y = sc_step_order s \<and> st_title y = sc_titulo s
              \<and> st_description y = sc_descricao s \<and> st_is_required y = sc_is_required s
              \<and> st_eta_weeks y = Some (sc_prazo_estimado_semanas s) \<and> st_dependencies_json y = sc_dependencias s
              \<and> st_risk_level y = sc_risco s \<and> st_completion_criteria y = sc_criterio_conclusao s
              \<and> st_related_gap_json y = (case sc_gap_relacionado s of
                  Some g \<Rightarrow> if g = [] then [] else [(''gap'', JStr g)] | None \<Rightarrow> []))
            (ct_passos_priorizados c) (steps_of d' i)
          \<and> (\<forall>k. k \<noteq> i \<longrightarrow> roadmap_of d' k = roadmap_of d k \<and> steps_of d' k = steps_of d k)
         else request (process_roadmap cfg api now i) d = (Inl (DBAPIError ''value out of range''), waiting)))"
proof -
  have p: "waiting = set_roadmap i restarted d"
    by (simp add: assms(5) set_roadmap_def upd_where_def restarted_def)
  have ok: "app_ok (set_roadmap i restarted d)" using assms(1) by (simp add: app_ok_set_roadmap)
  note eq = process_roadmap_eq [OF assms(1-4), of cfg api now, folded p]
  have fits: "contract_fits c (provider, model) \<longleftrightarrow> length provider \<le> 32 \<and> length model \<le> 64
      \<and> (\<forall>s \<in> set (ct_passos_priorizados c).
          sc_step_order s \<in> {- (2 ^ 31)..<2 ^ 31} \<and> sc_prazo_estimado_semanas s \<in> {- (2 ^ 31)..<2 ^ 31})"
    for c provider model
    unfolding contract_fits_def int32_def list_all_iff atLeastLessThan_iff by simp
  have steps: "steps_of (with_roadmap now i c names waiting) i = new_roadmap_steps (bd_next waiting) i (ct_passos_priorizados c)"
    "k \<noteq> i \<Longrightarrow> steps_of (with_roadmap now i c names waiting) k = steps_of d k"
    "k \<noteq> i \<Longrightarrow> roadmap_of (with_roadmap now i c names waiting) k = roadmap_of d k" for c names k
    using with_roadmap_steps [OF ok, of now i c names] with_roadmap_others [of k i now c names d] by (simp_all add: p)
  have row: "roadmap_of (with_roadmap now i c (provider, model) waiting) i = Some (r\<lparr>rm_status := rm_completed,
      rm_summary := ct_objetivo c, rm_manual_review_required := ct_manual_review_required c,
      rm_llm_provider := Some provider, rm_llm_model := Some model, rm_generation_error := None,
      rm_completed_at := Some now\<rparr>)" for c provider model
    using with_roadmap_row [OF assms(3), of now c "(provider, model)"] by (simp add: p generated_roadmap_def)
  show ?thesis
    unfolding fits [symmetric]
    by (auto simp: eq steps row new_steps_entries)
qed

theorem roadmap_generated_witness:
  "\<exists>d' r. request (process_roadmap claude_settings offline_api 9 66) road_app = (Inr (), d')
     \<and> roadmap_of d' 66 = Some r \<and> rm_status r = rm_completed \<and> rm_llm_provider r = Some ''claude_stub''"
proof -
  have "\<not> (rm_status road_row = rm_completed \<and> steps_of road_app 66 \<noteq> [])" by (simp add: road_row_def)
  note gen = roadmap_generated [OF road_ok(1,2) road_lookup(1) this refl, of claude_settings offline_api 9,
      THEN conjunct2, rule_format]
  obtain c where c: "generate_contract claude_settings offline_api 9 (load_roadmap road_app road_row)
      = Inr (c, ''claude_stub'', ''claude-3-5-sonnet-latest'')"
    and f: "list_all (\<lambda>s. int32 (sc_step_order s) \<and> int32 (sc_prazo_estimado_semanas s)) (ct_passos_priorizados c)"
    using road_generates by blast
  have "\<forall>s \<in> set (ct_passos_priorizados c).
      sc_step_order s \<in> {- (2 ^ 31)..<2 ^ 31} \<and> sc_prazo_estimado_semanas s \<in> {- (2 ^ 31)..<2 ^ 31}"
    using f unfolding list_all_iff int32_def atLeastLessThan_iff by blast
  with gen [OF c] obtain d' where "request (process_roadmap claude_settings offline_api 9 66) road_app = (Inr (), d')"
    and "roadmap_of d' 66 = Some (road_row\<lparr>rm_status := rm_completed, rm_summary := ct_objetivo c,
      rm_manual_review_required := ct_manual_review_required c, rm_llm_provider := Some ''claude_stub'',
      rm_llm_model := Some ''claude-3-5-sonnet-latest'', rm_generation_error := None, rm_completed_at := Some 9\<rparr>)"
    by auto
  then show ?thesis by (intro exI conjI) auto
qed

text \<open>
  C29. A roadmap is created only for the owner of a completed assessment: when a request is answered
  with a queued generation, the assessment is the requester's, it is completed and has a result, and
  the new roadmap is the requester's and of that result.
\<close>

theorem roadmap_creation_checked:
  assumes "request (create_roadmap cfg now u p tr) d = (Inr q, d')" and "rw_message q \<noteq> None"
  shows "\<exists>a res r. a \<in> set (ad_assessments d) \<and> am_id a = rq_assessment_id p \<and> am_user_id a = u
    \<and> am_status a = as_completed \<and> result_of d (am_id a) = Some res
    \<and> roadmap_of d' (rw_roadmap_id q) = Some r \<and> rm_user_id r = u \<and> rm_assessment_result_id r = rs_id res"
  using create_roadmap_cases [OF assms(1)] assms(2) create_new_roadmap_post [of cfg now u p tr d q] by blast

definition road_request :: roadmap_create where
  "road_request = \<lparr>rq_assessment_id = 61, rq_idempotency_key = Some ''r2''\<rparr>"

definition pro_app :: app_db where
  "pro_app = road_app\<lparr>bd_entitlements := [sample_entitlement, pro_entitlement]\<rparr>"

lemma pro_baseline: "ensure_user_access_baseline base_defaults 0 7 (begin_txn pro_app) = (Inr (), begin_txn pro_app)"
proof (rule baseline_noop)
  show "in_service base_defaults pro_app"
    by (simp add: in_service_def has_default_def schema_defs pro_app_def road_app_def flow_app_def flow_rules_def
        rules_db.extend_def billing_db.extend_def pro_entitlement_def entitlement_key_def sample_billing_defs)
  show "active_entitlements pro_app 7 0 \<noteq> []"
    by (simp add: active_entitlements_def in_force_def pro_app_def sample_entitlement_def)
qed

lemma pro_require:
  "require_entitlement base_defaults 0 7 ''roadmap.pro'' (begin_txn pro_app) = (Inr pro_entitlement, begin_txn pro_app)"
proof -
  have "active_entitlement pro_app 7 ''roadmap.pro'' 0 = Some pro_entitlement"
    by (simp add: active_entitlement_def in_force_def pro_app_def pro_entitlement_def sample_entitlement_def)
  then show ?thesis using pro_baseline by (simp add: require_entitlement_def get_active_entitlement_def bindO_def)
qed

lemma pro_ok: "app_ok pro_app" "roadmap_jobs_ok pro_app"
  using road_ok unfolding app_ok_defs roadmap_jobs_ok_def roadmap_of_def by (simp_all add: pro_app_def)

lemma road_create:
  "\<exists>q d'. request (create_roadmap base_defaults 0 7 road_request None) pro_app = (Inr q, d') \<and> rw_message q \<noteq> None"
proof -
  have pro: "pro_roadmap_feature_key base_defaults = ''roadmap.pro''" by (simp add: base_defaults_def)
  have k: "job_by_key pro_app roadmap_job ''r2'' = None"
    by (simp add: job_by_key_def pro_app_def road_defs)
  then have e: "existing_roadmap 7 (rq_idempotency_key road_request) (begin_txn pro_app) = (Inr None, begin_txn pro_app)"
    by (simp add: existing_roadmap_reads road_request_def opt_truthy_def)
  let ?a = "flow_assessment\<lparr>am_status := as_completed, am_completed_at := Some 9\<rparr>"
  have a: "find (\<lambda>a. am_id a = 61 \<and> am_user_id a = 7) (ad_assessments pro_app) = Some ?a"
    and res: "result_of pro_app 61 = Some road_result"
    by (simp_all add: pro_app_def road_defs result_of_def)
  let ?r = "\<lparr>rm_id = 70, rm_created_at = 0, rm_user_id = 7, rm_assessment_result_id = 64,
     rm_roadmap_schema_version = ''roadmap.v1'', rm_status = rm_pending, rm_summary = ''Roadmap generation pending'',
     rm_manual_review_required = False, rm_llm_provider = None, rm_llm_model = None, rm_generation_error = None,
     rm_trace_id = None, rm_completed_at = None\<rparr>"
  let ?d1 = "pro_app\<lparr>ad_roadmaps := ad_roadmaps pro_app @ [?r], bd_next := 71\<rparr>"
  let ?d2 = "?d1\<lparr>ad_jobs := ad_jobs ?d1 @ [new_job 71 0 roadmap_job ''r2'' None (Some 70) None], bd_next := 72\<rparr>"
  have n: "bd_next pro_app = 70" by (simp add: pro_app_def road_app_def flow_app_def)
  have v: "roadmap_schema_version base_defaults = ''roadmap.v1''" by (simp add: base_defaults_def)
  have ok1: "app_ok ?d1" and ok2: "app_ok ?d2"
    by (simp_all add: app_ok_defs pro_app_def road_defs fk_def)
  have row: "create_roadmap_row 0 7 64 ''roadmap.v1'' None (begin_txn pro_app)
      = (Inr ?r, \<lparr>committed = ?d1, working = ?d1, aborted = False\<rparr>)"
    using ok1 by (simp add: create_roadmap_row_def n begin_txn_def query_def bindO_def flush_def commit_def)
  have job: "get_or_create_job 0 roadmap_job ''r2'' None (Some 70) None \<lparr>committed = ?d1, working = ?d1, aborted = False\<rparr>
      = (Inr (new_job 71 0 roadmap_job ''r2'' None (Some 70) None), \<lparr>committed = ?d2, working = ?d2, aborted = False\<rparr>)"
    using ok2 k by (simp add: get_or_create_job_def get_job_by_key_def job_by_key_def)
  have id: "rq_assessment_id road_request = 61" "rq_idempotency_key road_request = Some ''r2''"
    "am_id ?a = 61" "am_status ?a = as_completed" "rs_id road_result = 64" "opt_truthy (Some ''r2'')"
    by (simp_all add: road_request_def flow_assessment_def road_result_def opt_truthy_def)
  show ?thesis
    using e a res pro_require row job
    by (simp add: request_def create_roadmap_def create_new_roadmap_def get_assessment_for_roadmap_def
        load_assessment_def id bindO_def pro v)
qed

theorem roadmap_creation_checked_witness:
  "\<exists>q d' r. request (create_roadmap base_defaults 0 7 road_request None) pro_app = (Inr q, d')
     \<and> roadmap_of (d' :: app_db) (rw_roadmap_id q) = Some r \<and> rm_user_id r = 7"
proof -
  obtain q d' where c: "request (create_roadmap base_defaults 0 7 road_request None) pro_app = (Inr q, d')"
    "rw_message q \<noteq> None" using road_create by blast
  from roadmap_creation_checked [OF c] c show ?thesis by blast
qed

text \<open>A key names one roadmap: once a request with a key has been answered, every later request with
  that key, whatever its body, is answered with the same roadmap and job if it comes from the same
  user and with 409 otherwise, and it changes nothing and queues nothing.
\<close>

theorem roadmap_replay:
  assumes "app_ok d" and "roadmap_jobs_ok d" and "request (create_roadmap cfg now u p tr) d = (Inr q, d1)"
    and "rq_idempotency_key p = Some k" and "k \<noteq> []" and "rq_idempotency_key p' = Some k"
  shows "if u' = u
    then \<exists>q'. request (create_roadmap cfg later u' p' tr') d1 = (Inr q', d1) \<and> rw_roadmap_id q' = rw_roadmap_id q
           \<and> rw_job_id q' = rw_job_id q \<and> rw_message q' = None
    else request (create_roadmap cfg later u' p' tr') d1
           = (Inl (HTTPException 409 ''Idempotency key already used by another user''), d1)"
proof -
  have k: "opt_truthy (rq_idempotency_key p)" "the (rq_idempotency_key p) = k"
    "opt_truthy (rq_idempotency_key p')" "the (rq_idempotency_key p') = k"
    using assms(4-6) by (simp_all add: opt_truthy_def)
  obtain j r where j: "job_by_key d1 roadmap_job k = Some j" and r: "Option.bind (jb_roadmap_id j) (roadmap_of d1) = Some r"
    and q: "rw_roadmap_id q = rm_id r" "rw_job_id q = jb_id j" "rm_user_id r = u"
    using create_roadmap_cases [OF assms(3)]
  proof (elim disjE exE conjE)
    fix t assume new: "create_new_roadmap cfg now u p tr (begin_txn d) = (Inr q, t)" and d1: "d1 = committed t"
      and no: "\<forall>j. opt_truthy (rq_idempotency_key p) \<longrightarrow> job_by_key d roadmap_job (the (rq_idempotency_key p)) = Some j
             \<longrightarrow> Option.bind (jb_roadmap_id j) (roadmap_of d) = None"
    have "job_by_key d roadmap_job k = None"
      using no k job_by_key_roadmap [OF assms(2), of k] by (cases "job_by_key d roadmap_job k") auto
    with create_new_roadmap_post [OF new] k obtain r j where x: "roadmap_of d1 (rw_roadmap_id q) = Some r"
      "rm_user_id r = u" "job_by_key d1 roadmap_job k = Some j" "jb_id j = rw_job_id q"
      "jb_roadmap_id j = Some (rw_roadmap_id q)"
      unfolding d1 by blast
    have "Option.bind (jb_roadmap_id j) (roadmap_of d1) = Some r" by (simp add: x(5) x(1))
    moreover have "rw_roadmap_id q = rm_id r" using roadmap_of_id [OF x(1)] by (rule conjE) (rule sym)
    ultimately show thesis by (rule that [OF x(3) _ _ x(4) [symmetric] x(2)])
  qed (use that k in simp)
  have "existing_roadmap u' (rq_idempotency_key p') (begin_txn d1) =
      (if u \<noteq> u' then (Inl (HTTPException 409 ''Idempotency key already used by another user''), begin_txn d1)
       else (Inr (Some \<lparr>rw_roadmap_id = rm_id r, rw_status = rm_status r,
           rw_roadmap_schema_version = rm_roadmap_schema_version r, rw_job_id = jb_id j, rw_message = None\<rparr>),
           begin_txn d1))"
    using j r q(3) k by (simp add: existing_roadmap_reads)
  with q show ?thesis by (auto simp: create_roadmap_def request_def bindO_def)
qed

theorem roadmap_replay_witness:
  "\<exists>q d1. request (create_roadmap base_defaults 0 7 road_request None) pro_app = (Inr q, d1)
     \<and> request (create_roadmap base_defaults 5 8 road_request None) d1
       = (Inl (HTTPException 409 ''Idempotency key already used by another user''), d1)"
proof -
  obtain q d1 where c: "request (create_roadmap base_defaults 0 7 road_request None) pro_app = (Inr q, d1)"
    using road_create by blast
  have k: "rq_idempotency_key road_request = Some ''r2''" by (simp add: road_request_def)
  from roadmap_replay [OF pro_ok c k _ k, of 8 5 None] c show ?thesis by auto
qed

text \<open>Roadmaps are a paid feature: a user whose entitlements in force do not hold the roadmap feature
  is refused with 403, even for a completed assessment of their own, and nothing changes.
\<close>

theorem roadmap_needs_entitlement:
  assumes "in_service cfg d" and "active_entitlements d u now \<noteq> []"
    and "active_entitlement d u (pro_roadmap_feature_key cfg) now = None"
    and "rq_idempotency_key p = None"
    and "find (\<lambda>a. am_id a = rq_assessment_id p \<and> am_user_id a = u) (ad_assessments d) = Some a"
    and "am_status a = as_completed" and "result_of d (am_id a) = Some res"
  shows "request (create_roadmap cfg now u p tr) d = (Inl (HTTPException 403 (''Feature '' @ [CHR 0x27]
    @ pro_roadmap_feature_key cfg @ [CHR 0x27] @ '' requires active entitlement'')), d)"
proof -
  have base: "ensure_user_access_baseline cfg now u (begin_txn d) = (Inr (), begin_txn d)"
    by (rule baseline_noop [OF assms(1,2)])
  have req: "require_entitlement cfg now u (pro_roadmap_feature_key cfg) (begin_txn d)
      = (Inl (HTTPException 403 (''Feature '' @ [CHR 0x27] @ pro_roadmap_feature_key cfg @ [CHR 0x27]
          @ '' requires active entitlement'')), begin_txn d)"
    using base assms(3) by (simp add: require_entitlement_def get_active_entitlement_def bindO_def)
  have "existing_roadmap u (rq_idempotency_key p) (begin_txn d) = (Inr None, begin_txn d)"
    using assms(4) by (simp add: existing_roadmap_reads opt_truthy_def)
  then show ?thesis
    using assms(5-7) req
    by (simp add: request_def create_roadmap_def create_new_roadmap_def get_assessment_for_roadmap_def
        load_assessment_def bindO_def)
qed

theorem roadmap_needs_entitlement_witness:
  "\<exists>e. request (create_roadmap base_defaults 0 7 \<lparr>rq_assessment_id = 61, rq_idempotency_key = None\<rparr> None) road_app
     = (Inl (HTTPException 403 e), road_app)"
proof -
  have h: "in_service base_defaults road_app"
    by (simp add: in_service_def has_default_def schema_defs road_app_def flow_app_def flow_rules_def
        rules_db.extend_def billing_db.extend_def sample_billing_defs)
  have e: "active_entitlements road_app 7 0 \<noteq> []"
    "active_entitlement road_app 7 (pro_roadmap_feature_key base_defaults) 0 = None"
    by (simp_all add: active_entitlements_def active_entitlement_def in_force_def road_app_def flow_app_def flow_rules_def
        rules_db.extend_def billing_db.extend_def sample_billing_defs)
  have a: "find (\<lambda>a. am_id a = rq_assessment_id \<lparr>rq_assessment_id = 61, rq_idempotency_key = None\<rparr> \<and> am_user_id a = 7)
      (ad_assessments road_app) = Some (flow_assessment\<lparr>am_status := as_completed, am_completed_at := Some 9\<rparr>)"
    "am_status (flow_assessment\<lparr>am_status := as_completed, am_completed_at := Some 9\<rparr>) = as_completed"
    "result_of road_app (am_id (flow_assessment\<lparr>am_status := as_completed, am_completed_at := Some 9\<rparr>)) = Some road_result"
    by (simp_all add: road_defs result_of_def)
  show ?thesis by (rule exI, rule roadmap_needs_entitlement [OF h e _ a]) simp
qed

text \<open>
  A roadmap task always ends: whichever sessions of its deliveries break, and even when a retry is refused or a worker
  killed, after at most one delivery more than the configured retries no further delivery is asked for; and if no
  delivery was killed and none lost the record of its failure or its retry message, the job is completed, or dead-lettered
  with its roadmap marked failed.
\<close>

theorem roadmap_task_settles:
  assumes "app_ok d" and "job_of d i \<noteq> None"
    and "\<forall>n. breaks_keep (\<lambda>d. app_ok d \<and> job_of d i \<noteq> None) (flt n)"
  shows "case redeliver (roadmap_attempt cfg api flt now ms rid i tr) (Suc (nat (roadmap_task_max_retries cfg))) 0 d of
    (done, d') \<Rightarrow> done \<and> app_ok d' \<and> ((\<forall>n \<le> nat (roadmap_task_max_retries cfg).
        fl_killed (flt n) = None \<and> fl_record (flt n) = None \<and> fl_requeue (flt n) = None) \<longrightarrow>
      (\<exists>j. job_of d' i = Some j \<and> (jb_status j = job_completed
        \<or> jb_status j = job_dead_letter \<and> (\<forall>r. roadmap_of d' rid = Some r \<longrightarrow> rm_status r = rm_failed))))"
proof -
  have inv: "(\<lambda>d. app_ok d \<and> job_of d i \<noteq> None) = job_inv i" by (rule ext) (simp add: job_inv_def)
  have "keeping (job_inv i) flt = flt" using assms(3) unfolding inv by (blast intro: keeping_id)
  with roadmap_task.finishes [of i d 0 cfg api flt now ms rid tr] assms(1,2) show ?thesis
    by (auto simp: job_inv_def roadmap_settled_def recordable_def case_prod_beta)
qed

theorem roadmap_task_settles_witness:
  "fst (redeliver (roadmap_attempt base_defaults offline_api (\<lambda>n. no_faults) (\<lambda>n. 9) (\<lambda>n. 1) 66 67 None)
     (Suc (nat (roadmap_task_max_retries base_defaults))) 0 road_app)"
proof -
  have "\<forall>n::nat. breaks_keep (\<lambda>d. app_ok d \<and> job_of d 67 \<noteq> None) ((\<lambda>n. no_faults) n)"
    by (simp add: breaks_keep_def no_faults_def)
  from roadmap_task_settles [where flt = "\<lambda>n. no_faults" and cfg = base_defaults and api = offline_api and now = "\<lambda>n. 9"
      and ms = "\<lambda>n. 1" and rid = 66 and tr = None, OF road_ok(1) road_lookup(3) this]
  show ?thesis by (simp add: case_prod_beta)
qed

end
