(* ===== verification/Profile_Match.thy ===== *)
theory Profile_Match
  imports Jobs
begin

text \<open>
  Profile match, \<open>src/apps/profile_match\<close>: the ranking of countries for a visitor's profile in
  double-precision arithmetic, its storage as a submission of a guest or a user, and the claim of a
  guest's submission after login. Floats are the rationals they denote; a literal is rounded by \<open>lit\<close>.
\<close>

section \<open>Tables\<close>

record submission =
  pm_id :: uuid
  pm_created_at :: time
  pm_user_id :: "uuid option"
  pm_guest_session_id :: string
  pm_algorithm_version :: string
  pm_profile_json :: "json dict"
  pm_result_json :: "json list"
  pm_claimed_at :: "time option"

record match_db = app_db +
  md_submissions :: "submission list"

definition submissions_ok :: "'z match_db_scheme \<Rightarrow> bool" where
  "submissions_ok d \<longleftrightarrow> distinct (map pm_id (md_submissions d))
     \<and> list_all (\<lambda>s. fk (pm_user_id s) (bd_users d)) (md_submissions d)"

type_synonym ('z, 'a) match_op = "('z match_db_scheme txn, 'a) op"

definition submission_of :: "'z match_db_scheme \<Rightarrow> uuid \<Rightarrow> submission option" where
  "submission_of d i = find (\<lambda>s. pm_id s = i) (md_submissions d)"

section \<open>Repository\<close>

definition create_submission ::
    "time \<Rightarrow> uuid option \<Rightarrow> string \<Rightarrow> string \<Rightarrow> json dict \<Rightarrow> json list \<Rightarrow> ('z, submission) match_op" where
  "create_submission now user_id guest_session_id version profile_json result_json =
     bindO (query (\<lambda>d. \<lparr>pm_id = bd_next d, pm_created_at = now, pm_user_id = user_id,
        pm_guest_session_id = guest_session_id, pm_algorithm_version = version, pm_profile_json = profile_json,
        pm_result_json = result_json, pm_claimed_at = None\<rparr>)) (\<lambda>s.
     bindO (flush submissions_ok (\<lambda>d. d\<lparr>md_submissions := md_submissions d @ [s], bd_next := Suc (bd_next d)\<rparr>))
       (\<lambda>_. ret s))"

definition get_submission :: "uuid \<Rightarrow> ('z, submission option) match_op" where
  "get_submission i = query (\<lambda>d. submission_of d i)"

definition claimed_by :: "time \<Rightarrow> uuid \<Rightarrow> submission \<Rightarrow> submission" where
  "claimed_by now u s = s\<lparr>pm_user_id := Some u, pm_claimed_at := Some now\<rparr>"

definition claim_row :: "time \<Rightarrow> submission \<Rightarrow> uuid \<Rightarrow> ('z, unit) match_op" where
  "claim_row now s u = flush submissions_ok (\<lambda>d. d\<lparr>md_submissions :=
     upd_where (\<lambda>x. pm_id x = pm_id s) (claimed_by now u) (md_submissions d)\<rparr>)"

section \<open>The request\<close>

record match_request =
  mr_age :: int
  mr_education_level :: string
  mr_experience_years :: int
  mr_english_level :: string
  mr_french_level :: string
  mr_savings_brl :: rat
  mr_monthly_income_brl :: rat
  mr_profession_area :: string
  mr_has_job_offer :: bool
  mr_has_family_abroad :: bool
  mr_willing_to_learn_language :: bool
  mr_wants_fast_citizenship :: bool
  mr_preferred_region :: string
  mr_guest_session_id :: string

definition cefr_levels :: "string list" where
  "cefr_levels = [''A1'', ''A2'', ''B1'', ''B2'', ''C1'', ''C2'']"

definition education_levels :: "string list" where
  "education_levels = [''ensino_medio'', ''tecnico'', ''graduacao'', ''mestrado'', ''doutorado'']"

definition profession_areas :: "string list" where
  "profession_areas = [''tecnologia'', ''engenharia'', ''saude'', ''negocios'', ''educacao'', ''servicos'', ''outros'']"

definition preferred_regions :: "string list" where
  "preferred_regions = [''americas'', ''europa'', ''asia'', ''indiferente'']"

text \<open>The validation of the body; a violation is a 422 answer. The amounts are floats.\<close>

definition validate_match_request :: "match_request \<Rightarrow> bool" where
  "validate_match_request p \<longleftrightarrow>
     18 \<le> mr_age p \<and> mr_age p \<le> 70 \<and> mr_education_level p \<in> set education_levels
     \<and> 0 \<le> mr_experience_years p \<and> mr_experience_years p \<le> 45
     \<and> mr_english_level p \<in> set cefr_levels \<and> mr_french_level p \<in> set cefr_levels
     \<and> 0 \<le> mr_savings_brl p \<and> mr_savings_brl p \<le> 10000000 \<and> fl (mr_savings_brl p) = mr_savings_brl p
     \<and> 0 \<le> mr_monthly_income_brl p \<and> mr_monthly_income_brl p \<le> 1000000
     \<and> fl (mr_monthly_income_brl p) = mr_monthly_income_brl p
     \<and> mr_profession_area p \<in> set profession_areas \<and> mr_preferred_region p \<in> set preferred_regions
     \<and> 8 \<le> length (mr_guest_session_id p) \<and> length (mr_guest_session_id p) \<le> 64"

text \<open>\<open>model_dump(mode="json", exclude={"guest_session_id"})\<close>\<close>

definition profile_snapshot :: "match_request \<Rightarrow> json dict" where
  "profile_snapshot p =
     [(''age'', JInt (mr_age p)), (''education_level'', JStr (mr_education_level p)),
      (''experience_years'', JInt (mr_experience_years p)), (''english_level'', JStr (mr_english_level p)),
      (''french_level'', JStr (mr_french_level p)), (''savings_brl'', JFloat (PFin (mr_savings_brl p))),
      (''monthly_income_brl'', JFloat (PFin (mr_monthly_income_brl p))),
      (''profession_area'', JStr (mr_profession_area p)), (''has_job_offer'', JBool (mr_has_job_offer p)),
      (''has_family_abroad'', JBool (mr_has_family_abroad p)),
      (''willing_to_learn_language'', JBool (mr_willing_to_learn_language p)),
      (''wants_fast_citizenship'', JBool (mr_wants_fast_citizenship p)),
      (''preferred_region'', JStr (mr_preferred_region p))]"

section \<open>The ranking\<close>

text \<open>The float literal \<open>n / d\<close>, for example \<open>0.11\<close> is \<open>lit 11 100\<close>.\<close>

definition lit :: "int \<Rightarrow> int \<Rightarrow> rat" where
  "lit n d = fl (of_int n / of_int d)"

record country_rule =
  cy_code :: string
  cy_name :: string
  cy_region :: string
  cy_language_mode :: string
  cy_min_funds_brl :: rat
  cy_preferred_professions :: "string list"
  cy_job_offer_factor :: rat
  cy_family_factor :: rat
  cy_citizenship_speed :: string
  cy_base_boost :: rat

definition cefr_scores :: "(string \<times> rat) list" where
  "cefr_scores = [(''A1'', lit 20 100), (''A2'', lit 35 100), (''B1'', lit 55 100), (''B2'', lit 70 100),
     (''C1'', lit 85 100), (''C2'', 1)]"

definition education_scores :: "(string \<times> rat) list" where
  "education_scores = [(''ensino_medio'', lit 45 100), (''tecnico'', lit 58 100), (''graduacao'', lit 72 100),
     (''mestrado'', lit 86 100), (''doutorado'', 1)]"

definition country_rules_1 :: "country_rule list" where
  "country_rules_1 = [
    \<lparr>cy_code = ''US'', cy_name = ''Estados Unidos'', cy_region = ''americas'', cy_language_mode = ''english'',
      cy_min_funds_brl = 130000, cy_preferred_professions = [''tecnologia'', ''engenharia'', ''saude'', ''negocios''],
      cy_job_offer_factor = lit 130 100, cy_family_factor = lit 110 100, cy_citizenship_speed = ''regular'',
      cy_base_boost = lit 1 100\<rparr>,
    \<lparr>cy_code = ''CA'', cy_name = ''Canada'', cy_region = ''americas'', cy_language_mode = ''hybrid'',
      cy_min_funds_brl = 90000, cy_preferred_professions = [''tecnologia'', ''engenharia'', ''saude'', ''educacao''],
      cy_job_offer_factor = lit 120 100, cy_family_factor = lit 115 100, cy_citizenship_speed = ''regular'',
      cy_base_boost = lit 3 100\<rparr>,
    \<lparr>cy_code = ''GB'', cy_name = ''Reino Unido'', cy_region = ''europa'', cy_language_mode = ''english'',
      cy_min_funds_brl = 95000, cy_preferred_professions = [''tecnologia'', ''engenharia'', ''saude'', ''negocios''],
      cy_job_offer_factor = lit 120 100, cy_family_factor = lit 105 100, cy_citizenship_speed = ''regular'',
      cy_base_boost = lit 0 100\<rparr>,
    \<lparr>cy_code = ''IE'', cy_name = ''Irlanda'', cy_region = ''europa'', cy_language_mode = ''english'',
      cy_min_funds_brl = 80000, cy_preferred_professions = [''tecnologia'', ''engenharia'', ''saude'', ''educacao''],
      cy_job_offer_factor = lit 115 100, cy_family_factor = lit 100 100, cy_citizenship_speed = ''regular'',
      cy_base_boost = lit 1 100\<rparr>,
    \<lparr>cy_code = ''PT'', cy_name = ''Portugal'', cy_region = ''europa'', cy_language_mode = ''local'',
      cy_min_funds_brl = 55000, cy_preferred_professions = [''tecnologia'', ''engenharia'', ''servicos'', ''negocios''],
      cy_job_offer_factor = lit 105 100, cy_family_factor = lit 115 100, cy_citizenship_speed = ''fast'',
      cy_base_boost = lit 5 100\<rparr>,
    \<lparr>cy_code = ''DE'', cy_name = ''Alemanha'', cy_region = ''europa'', cy_language_mode = ''local'',
      cy_min_funds_brl = 85000, cy_preferred_professions = [''engenharia'', ''tecnologia'', ''saude'', ''educacao''],
      cy_job_offer_factor = lit 120 100, cy_family_factor = lit 100 100, cy_citizenship_speed = ''regular'',
      cy_base_boost = lit 1 100\<rparr>,
    \<lparr>cy_code = ''FR'', cy_name = ''Franca'', cy_region = ''europa'', cy_language_mode = ''french'',
      cy_min_funds_brl = 75000, cy_preferred_professions = [''engenharia'', ''saude'', ''negocios'', ''educacao''],
      cy_job_offer_factor = lit 110 100, cy_family_factor = lit 105 100, cy_citizenship_speed = ''regular'',
      cy_base_boost = lit 0 100\<rparr>,
    \<lparr>cy_code = ''ES'', cy_name = ''Espanha'', cy_region = ''europa'', cy_language_mode = ''local'',
      cy_min_funds_brl = 60000, cy_preferred_professions = [''servicos'', ''negocios'', ''tecnologia'', ''engenharia''],
      cy_job_offer_factor = lit 105 100, cy_family_factor = lit 110 100, cy_citizenship_speed = ''regular'',
      cy_base_boost = lit 2 100\<rparr>]"

definition country_rules_2 :: "country_rule list" where
  "country_rules_2 = [
    \<lparr>cy_code = ''IT'', cy_name = ''Italia'', cy_region = ''europa'', cy_language_mode = ''local'',
      cy_min_funds_brl = 62000, cy_preferred_professions = [''servicos'', ''negocios'', ''engenharia'', ''educacao''],
      cy_job_offer_factor = lit 100 100, cy_family_factor = lit 105 100, cy_citizenship_speed = ''regular'',
      cy_base_boost = lit 0 100\<rparr>,
    \<lparr>cy_code = ''NL'', cy_name = ''Paises Baixos'', cy_region = ''europa'', cy_language_mode = ''english'',
      cy_min_funds_brl = 88000, cy_preferred_professions = [''tecnologia'', ''engenharia'', ''negocios'', ''educacao''],
      cy_job_offer_factor = lit 115 100, cy_family_factor = lit 100 100, cy_citizenship_speed = ''regular'',
      cy_base_boost = lit 1 100\<rparr>,
    \<lparr>cy_code = ''CH'', cy_name = ''Suica'', cy_region = ''europa'', cy_language_mode = ''hybrid'',
      cy_min_funds_brl = 120000, cy_preferred_professions = [''engenharia'', ''saude'', ''tecnologia'', ''negocios''],
      cy_job_offer_factor = lit 125 100, cy_family_factor = lit 100 100, cy_citizenship_speed = ''regular'',
      cy_base_boost = lit (-1) 100\<rparr>,
    \<lparr>cy_code = ''BE'', cy_name = ''Belgica'', cy_region = ''europa'', cy_language_mode = ''hybrid'',
      cy_min_funds_brl = 78000, cy_preferred_professions = [''engenharia'', ''tecnologia'', ''saude'', ''negocios''],
      cy_job_offer_factor = lit 110 100, cy_family_factor = lit 105 100, cy_citizenship_speed = ''regular'',
      cy_base_boost = lit 0 100\<rparr>,
    \<lparr>cy_code = ''JP'', cy_name = ''Japao'', cy_region = ''asia'', cy_language_mode = ''local'',
      cy_min_funds_brl = 100000, cy_preferred_professions = [''tecnologia'', ''engenharia'', ''educacao'', ''negocios''],
      cy_job_offer_factor = lit 115 100, cy_family_factor = lit 95 100, cy_citizenship_speed = ''regular'',
      cy_base_boost = lit (-1) 100\<rparr>,
    \<lparr>cy_code = ''AR'', cy_name = ''Argentina'', cy_region = ''americas'', cy_language_mode = ''local'',
      cy_min_funds_brl = 45000, cy_preferred_professions = [''negocios'', ''servicos'', ''educacao'', ''tecnologia''],
      cy_job_offer_factor = lit 95 100, cy_family_factor = lit 110 100, cy_citizenship_speed = ''fast'',
      cy_base_boost = lit 3 100\<rparr>,
    \<lparr>cy_code = ''PY'', cy_name = ''Paraguai'', cy_region = ''americas'', cy_language_mode = ''local'',
      cy_min_funds_brl = 40000, cy_preferred_professions = [''negocios'', ''servicos'', ''engenharia'', ''educacao''],
      cy_job_offer_factor = lit 95 100, cy_family_factor = lit 110 100, cy_citizenship_speed = ''fast'',
      cy_base_boost = lit 4 100\<rparr>]"

definition country_rules :: "country_rule list" where
  "country_rules = country_rules_1 @ country_rules_2"

text \<open>\<open>_clamp\<close>, with the bounds 0 and 1 by default.\<close>

definition clamp :: "rat \<Rightarrow> rat \<Rightarrow> rat \<Rightarrow> rat" where
  "clamp lo hi value = max lo (min hi value)"

definition age_score :: "int \<Rightarrow> rat" where
  "age_score age = (if 22 \<le> age \<and> age \<le> 34 then 1 else if 18 \<le> age \<and> age \<le> 40 then lit 82 100
     else if 41 \<le> age \<and> age \<le> 50 then lit 62 100 else lit 45 100)"

definition language_score :: "country_rule \<Rightarrow> rat \<Rightarrow> rat \<Rightarrow> bool \<Rightarrow> rat" where
  "language_score rule english_feature french_feature willing =
     (if cy_language_mode rule = ''english'' then english_feature
      else if cy_language_mode rule = ''french'' then
        clamp 0 1 (max french_feature (fmul english_feature (lit 45 100)))
      else if cy_language_mode rule = ''hybrid'' then
        clamp 0 1 (max (fmul english_feature (lit 80 100)) (fmul french_feature (lit 80 100)))
      else
        let l0 = fadd (lit 25 100) (fmul english_feature (lit 35 100));
            l1 = (if willing then fadd l0 (lit 25 100) else l0);
            l2 = (if cy_code rule \<in> {''CH'', ''BE''} \<and> lit 70 100 \<le> french_feature then fadd l1 (lit 10 100) else l1)
        in clamp 0 1 l2)"

definition profession_score :: "country_rule \<Rightarrow> string \<Rightarrow> rat" where
  "profession_score rule area =
     (if area \<in> set (cy_preferred_professions rule) then 1
      else if area \<in> {''tecnologia'', ''engenharia'', ''saude''} then lit 70 100 else lit 52 100)"

definition citizenship_score :: "bool \<Rightarrow> string \<Rightarrow> rat" where
  "citizenship_score wants_fast country_speed =
     (if wants_fast then (if country_speed = ''fast'' then 1 else lit 55 100)
      else if country_speed = ''fast'' then lit 80 100 else lit 75 100)"

definition build_highlights :: "country_rule \<Rightarrow> rat \<Rightarrow> rat \<Rightarrow> rat \<Rightarrow> bool \<Rightarrow> bool \<Rightarrow> string list" where
  "build_highlights rule language_feature funds_feature profession_feature has_job_offer has_family_abroad =
     (let h1 = (if lit 75 100 \<le> language_feature then
                  [''Seu idioma atual ja atende boa parte das trilhas desse pais.'']
                else if cy_language_mode rule = ''local'' then
                  [''Com plano de idioma local, seu perfil ganha tracao nesse destino.''] else []);
          h2 = (if lit 95 100 \<le> profession_feature then
                  [''Sua area profissional esta entre as mais demandadas nesse mercado.''] else []);
          h3 = (if lit 80 100 \<le> funds_feature then
                  [''Sua reserva financeira esta proxima do patamar esperado para entrada.'']
                else [''Aumentar reserva financeira melhora muito a elegibilidade nesse pais.'']);
          h4 = (if has_job_offer \<and> lit 110 100 \<le> cy_job_offer_factor rule then
                  [''Oferta de trabalho tem impacto relevante para acelerar o processo.'']
                else if has_family_abroad \<and> lit 105 100 \<le> cy_family_factor rule then
                  [''Rede familiar pode facilitar caminhos de adaptacao e comprovacao.''] else []);
          highlights = h1 @ h2 @ h3 @ h4
      in take 3 (highlights @ replicate (3 - length highlights)
           ''Seu score depende de consistencia documental e estrategia de aplicacao.''))"

record country_match =
  mt_country_code :: string
  mt_country_name :: string
  mt_match_score :: rat
  mt_highlights :: "string list"

text \<open>The features of a profile that do not depend on the country.\<close>

record features =
  ft_age :: rat
  ft_education :: rat
  ft_experience :: rat
  ft_english :: rat
  ft_french :: rat
  ft_funds_pool :: rat

definition features_of :: "match_request \<Rightarrow> features result" where
  "features_of p =
     (case (map_of education_scores (mr_education_level p), map_of cefr_scores (mr_english_level p),
            map_of cefr_scores (mr_french_level p)) of
        (Some education, Some english, Some french) \<Rightarrow>
          Inr \<lparr>ft_age = age_score (mr_age p), ft_education = education,
            ft_experience = clamp 0 1 (fdiv (of_int (mr_experience_years p)) 10), ft_english = english,
            ft_french = french, ft_funds_pool = fadd (mr_savings_brl p) (fmul (mr_monthly_income_brl p) 8)\<rparr>
      | (None, _, _) \<Rightarrow> Inl (KeyError (mr_education_level p))
      | (_, None, _) \<Rightarrow> Inl (KeyError (mr_english_level p))
      | _ \<Rightarrow> Inl (KeyError (mr_french_level p)))"

text \<open>The weighted sum, added from left to right.\<close>

definition weighted_score :: "match_request \<Rightarrow> features \<Rightarrow> country_rule \<Rightarrow> rat" where
  "weighted_score p f rule =
     (let language_feature = language_score rule (ft_english f) (ft_french f) (mr_willing_to_learn_language p);
          funds_feature = clamp 0 1 (fdiv (ft_funds_pool f) (cy_min_funds_brl rule));
          profession_feature = profession_score rule (mr_profession_area p);
          region_feature = (if mr_preferred_region p \<in> {''indiferente'', cy_region rule} then 1 else lit 40 100);
          citizenship_feature = citizenship_score (mr_wants_fast_citizenship p) (cy_citizenship_speed rule);
          job_offer_feature = (if mr_has_job_offer p then 1 else lit 20 100);
          family_feature = (if mr_has_family_abroad p then 1 else lit 35 100)
      in foldl fadd (fmul (ft_age f) (lit 11 100))
           [fmul (ft_education f) (lit 11 100), fmul (ft_experience f) (lit 15 100),
            fmul language_feature (lit 19 100), fmul funds_feature (lit 15 100),
            fmul profession_feature (lit 12 100), fmul region_feature (lit 6 100),
            fmul citizenship_feature (lit 6 100),
            fmul (fmul job_offer_feature (lit 3 100)) (cy_job_offer_factor rule),
            fmul (fmul family_feature (lit 2 100)) (cy_family_factor rule), cy_base_boost rule])"

definition match_score :: "rat \<Rightarrow> rat" where
  "match_score weighted = py_round 2 (fmul (clamp 0 (lit 995 1000) weighted) 100)"

definition match_country :: "match_request \<Rightarrow> features \<Rightarrow> country_rule \<Rightarrow> country_match" where
  "match_country p f rule =
     \<lparr>mt_country_code = cy_code rule, mt_country_name = cy_name rule,
      mt_match_score = match_score (weighted_score p f rule),
      mt_highlights = build_highlights rule
        (language_score rule (ft_english f) (ft_french f) (mr_willing_to_learn_language p))
        (clamp 0 1 (fdiv (ft_funds_pool f) (cy_min_funds_brl rule)))
        (profession_score rule (mr_profession_area p)) (mr_has_job_offer p) (mr_has_family_abroad p)\<rparr>"

text \<open>\<open>sort(key=..., reverse=True)\<close> keeps the order of equal scores.\<close>

definition rank_profile :: "match_request \<Rightarrow> country_match list result" where
  "rank_profile p = bindR (features_of p) (\<lambda>f.
     Inr (sort_key (\<lambda>m. - mt_match_score m) (map (match_country p f) country_rules)))"

section \<open>Service\<close>

definition algorithm_version :: string where
  "algorithm_version = ''country-fit-v1''"

text \<open>The stored form of a match, and its reading; the rows are those that the service wrote.\<close>

definition dump_match :: "country_match \<Rightarrow> json" where
  "dump_match m = JObj [(''country_code'', JStr (mt_country_code m)), (''country_name'', JStr (mt_country_name m)),
     (''match_score'', JFloat (PFin (mt_match_score m))), (''highlights'', JList (map JStr (mt_highlights m)))]"

fun str_item :: "json \<Rightarrow> string result" where
  "str_item (JStr s) = Inr s"
| "str_item _ = Inl (ValueError ''validation error: str'')"

fun str_field :: "json option \<Rightarrow> string result" where
  "str_field (Some v) = str_item v"
| "str_field None = Inl (ValueError ''validation error: missing'')"

fun read_match :: "json \<Rightarrow> country_match result" where
  "read_match (JObj d) =
     bindR (str_field (dict_get d ''country_code'')) (\<lambda>code.
     bindR (str_field (dict_get d ''country_name'')) (\<lambda>name.
     bindR (case dict_get d ''match_score'' of Some (JFloat (PFin x)) \<Rightarrow> Inr x | Some (JInt n) \<Rightarrow> Inr (fl (of_int n))
            | _ \<Rightarrow> Inl (ValueError ''validation error: match_score'')) (\<lambda>score.
     bindR (case dict_get d ''highlights'' of Some (JList xs) \<Rightarrow> mapR str_item xs
            | _ \<Rightarrow> Inl (ValueError ''validation error: highlights'')) (\<lambda>highlights.
     Inr \<lparr>mt_country_code = code, mt_country_name = name, mt_match_score = score, mt_highlights = highlights\<rparr>))))"
| "read_match _ = Inl (ValueError ''validation error: model_type'')"

record match_result =
  mx_submission_id :: uuid
  mx_algorithm_version :: string
  mx_created_at :: time
  mx_profile_snapshot :: "json dict"
  mx_matches :: "country_match list"

definition to_result_read :: "submission \<Rightarrow> match_result result" where
  "to_result_read s = bindR (mapR read_match (pm_result_json s)) (\<lambda>matches.
     Inr \<lparr>mx_submission_id = pm_id s, mx_algorithm_version = pm_algorithm_version s,
       mx_created_at = pm_created_at s, mx_profile_snapshot = pm_profile_json s, mx_matches = matches\<rparr>)"

record match_submitted =
  ms_submission_id :: uuid
  ms_requires_login :: bool
  ms_result :: "match_result option"

definition submission_not_found :: string where
  "submission_not_found = ''Submission not found''"

definition submit_profile :: "time \<Rightarrow> match_request \<Rightarrow> uuid option \<Rightarrow> ('z, match_submitted) match_op" where
  "submit_profile now p user =
     bindO (lift (rank_profile p)) (\<lambda>matches.
     bindO (create_submission now user (mr_guest_session_id p) algorithm_version (profile_snapshot p)
       (map dump_match matches)) (\<lambda>s.
     bindO commit (\<lambda>_.
     bindO (lift (to_result_read s)) (\<lambda>full_result.
     ret \<lparr>ms_submission_id = pm_id s, ms_requires_login = (user = None),
          ms_result = (if user = None then None else Some full_result)\<rparr>))))"

definition claim_submission :: "time \<Rightarrow> uuid \<Rightarrow> string \<Rightarrow> uuid \<Rightarrow> ('z, match_result) match_op" where
  "claim_submission now i guest_session_id u =
     bindO (get_submission i) (\<lambda>row.
     case row of
       None \<Rightarrow> raise (HTTPException 404 submission_not_found)
     | Some s \<Rightarrow>
         (case pm_user_id s of
            None \<Rightarrow>
              if pm_guest_session_id s \<noteq> guest_session_id then
                raise (HTTPException 403 ''Submission does not belong to this browser session'')
              else
                bindO (claim_row now s u) (\<lambda>_.
                bindO commit (\<lambda>_. lift (to_result_read (claimed_by now u s))))
          | Some owner \<Rightarrow>
              if owner \<noteq> u then raise (HTTPException 404 submission_not_found)
              else lift (to_result_read s)))"

definition get_results :: "uuid \<Rightarrow> uuid \<Rightarrow> ('z, match_result) match_op" where
  "get_results i u =
     bindO (get_submission i) (\<lambda>row.
     case row of
       None \<Rightarrow> raise (HTTPException 404 submission_not_found)
     | Some s \<Rightarrow>
         if pm_user_id s \<noteq> Some u then raise (HTTPException 404 submission_not_found)
         else lift (to_result_read s))"

end
