(* ===== verification/Profile_Match_Contract.thy ===== *)
theory Profile_Match_Contract
  imports Profile_Match Jobs_Contract
begin

text \<open>
  What the profile match guarantees: the ranking is sorted and bounded, a better profile never scores
  worse in any country (rounding included, since every operation of the sum is monotone), and a
  guest's submission is read back unchanged by the one user that claims it.
\<close>

section \<open>Monotone arithmetic\<close>

named_theorems mono_intros \<open>monotonicity of the floating-point operations\<close>

lemma fadd_mono [mono_intros]: "a \<le> b \<Longrightarrow> x \<le> y \<Longrightarrow> fadd a x \<le> fadd b y"
  by (simp add: fadd_def binary64.rnd_mono)

lemma fmul_mono [mono_intros]: "a \<le> b \<Longrightarrow> 0 \<le> c \<Longrightarrow> fmul a c \<le> fmul b c"
  by (simp add: fmul_def binary64.rnd_mono mult_right_mono)

lemma fdiv_mono [mono_intros]: "a \<le> b \<Longrightarrow> 0 \<le> c \<Longrightarrow> fdiv a c \<le> fdiv b c"
  by (simp add: fdiv_def binary64.rnd_mono divide_right_mono)

lemma clamp_mono [mono_intros]: "x \<le> y \<Longrightarrow> clamp lo hi x \<le> clamp lo hi y"
  by (auto simp: clamp_def)

lemma max_mono' [mono_intros]: "a \<le> b \<Longrightarrow> x \<le> y \<Longrightarrow> max a x \<le> max b (y :: rat)"
  by (rule max.mono)

lemma fl_nonneg: "0 \<le> x \<Longrightarrow> 0 \<le> fl x"
  using binary64.rnd_mono [of 0 x] by simp

lemma lit_nonneg [simp]: "0 \<le> n \<Longrightarrow> 0 \<le> d \<Longrightarrow> 0 \<le> lit n d"
  by (simp add: lit_def fl_nonneg)

lemma lit_le: "a \<le> b \<Longrightarrow> 0 \<le> d \<Longrightarrow> lit a d \<le> lit b d"
  by (simp add: lit_def binary64.rnd_mono divide_right_mono)

lemma lit_le_one: "a \<le> d \<Longrightarrow> 0 < d \<Longrightarrow> lit a d \<le> 1"
  using binary64.rnd_mono [of "of_int a / of_int d" 1] by (simp add: lit_def)

lemma fmul_nonneg: "0 \<le> a \<Longrightarrow> 0 \<le> b \<Longrightarrow> 0 \<le> fmul a b"
  by (simp add: fmul_def fl_nonneg)

lemma foldl_fadd_mono: "list_all2 (\<le>) xs ys \<Longrightarrow> a \<le> b \<Longrightarrow> foldl fadd a xs \<le> foldl fadd b ys"
  by (induction arbitrary: a b rule: list_all2_induct) (simp_all add: fadd_mono)

section \<open>The bounds of a score\<close>

lemma fl_dyadic: "\<bar>k\<bar> \<le> 2 ^ 53 \<Longrightarrow> n \<le> 1074 \<Longrightarrow> fl (of_int k / 2 ^ n) = of_int k / 2 ^ n"
  using fl_scaled [of k "- int n"] by (simp add: power_int_minus divide_inverse)

lemma top_score: "py_round 2 (fmul (lit 995 1000) 100) \<le> 199 / 2"
proof -
  have q: "lit 995 1000 \<le> 1043334 / 1048576"
  proof -
    have "fl (995 / 1000) \<le> fl (1043334 / 1048576)" by (rule binary64.rnd_mono) simp
    also have "fl (1043334 / 1048576) = 1043334 / 1048576"
      using fl_dyadic [of 1043334 20] by simp
    finally show ?thesis by (simp add: lit_def)
  qed
  have "fmul (lit 995 1000) 100 \<le> fl (104333400 / 1048576)"
    unfolding fmul_def using q by (intro binary64.rnd_mono) simp
  also have "\<dots> = 104333400 / 1048576"
    using fl_dyadic [of 104333400 20] by simp
  finally have "py_round 2 (fmul (lit 995 1000) 100) \<le> py_round 2 (104333400 / 1048576)"
    by (rule pyround.rnd_mono)
  also have "\<lfloor>326041875 / 32768 :: rat\<rfloor> = 9950" by (rule floor_unique) simp_all
  then have "rhe (104333400 / 1048576 * 100) = 9950"
    by (simp add: rhe_def Let_def)
  then have "py_round 2 (104333400 / 1048576) = fl (199 / 2)"
    by (simp add: py_round_def grid_def)
  also have "fl (199 / 2) = 199 / 2"
    using fl_dyadic [of 199 1] by simp
  finally show ?thesis .
qed

lemma match_score_bounds: "0 \<le> match_score w \<and> match_score w \<le> 199 / 2"
proof -
  have c: "0 \<le> clamp 0 (lit 995 1000) w" "clamp 0 (lit 995 1000) w \<le> lit 995 1000"
    by (auto simp: clamp_def)
  have "py_round 2 0 \<le> match_score w"
    unfolding match_score_def by (intro pyround.rnd_mono fmul_nonneg c) simp
  moreover have "match_score w \<le> py_round 2 (fmul (lit 995 1000) 100)"
    unfolding match_score_def by (intro pyround.rnd_mono fmul_mono c) simp
  ultimately show ?thesis using top_score by (simp add: py_round_def grid_def)
qed

lemma length_padded: "length (take n (xs @ replicate (n - length xs) x)) = n"
  by simp

lemma length_highlights: "length (build_highlights rule l f p j a) = 3"
  unfolding build_highlights_def Let_def by (rule length_padded)

section \<open>The countries\<close>

lemmas rules_defs = country_rules_def country_rules_1_def country_rules_2_def

lemma country_codes: "distinct (map cy_code country_rules)" "length country_rules = 15"
  by (simp_all add: rules_defs)

lemma rule_facts:
  "list_all (\<lambda>r. 0 < cy_min_funds_brl r \<and> 0 \<le> cy_job_offer_factor r \<and> 0 \<le> cy_family_factor r) country_rules"
  "list_all (\<lambda>r. cy_code r \<in> {''CH'', ''BE''} \<longrightarrow> cy_language_mode r = ''hybrid'') country_rules"
  by (simp_all add: rules_defs)

lemma language_score_mono:
  assumes "cy_code r \<in> {''CH'', ''BE''} \<longrightarrow> cy_language_mode r = ''hybrid''" and "e \<le> e'" and "f \<le> f'"
  shows "language_score r e f w \<le> language_score r e' f' w"
proof (cases "cy_code r \<in> {''CH'', ''BE''}")
  case True
  then show ?thesis using assms
    by (auto simp: language_score_def Let_def intro!: clamp_mono max_mono' fmul_mono)
next
  case False
  then show ?thesis using assms
    by (auto simp: language_score_def Let_def intro!: clamp_mono max_mono' fmul_mono fadd_mono)
qed

section \<open>Better profiles\<close>

text \<open>\<open>b\<close> is \<open>a\<close> or comes after it in the list of levels.\<close>

definition at_least :: "string list \<Rightarrow> string \<Rightarrow> string \<Rightarrow> bool" where
  "at_least levels a b \<longleftrightarrow> b \<in> set (dropWhile (\<lambda>x. x \<noteq> a) levels)"

definition improves :: "match_request \<Rightarrow> match_request \<Rightarrow> bool" where
  "improves p p' \<longleftrightarrow> mr_age p' = mr_age p \<and> mr_profession_area p' = mr_profession_area p
     \<and> mr_willing_to_learn_language p' = mr_willing_to_learn_language p
     \<and> mr_wants_fast_citizenship p' = mr_wants_fast_citizenship p
     \<and> mr_preferred_region p' = mr_preferred_region p
     \<and> at_least education_levels (mr_education_level p) (mr_education_level p')
     \<and> at_least cefr_levels (mr_english_level p) (mr_english_level p')
     \<and> at_least cefr_levels (mr_french_level p) (mr_french_level p')
     \<and> mr_experience_years p \<le> mr_experience_years p' \<and> mr_savings_brl p \<le> mr_savings_brl p'
     \<and> mr_monthly_income_brl p \<le> mr_monthly_income_brl p'
     \<and> (mr_has_job_offer p \<longrightarrow> mr_has_job_offer p') \<and> (mr_has_family_abroad p \<longrightarrow> mr_has_family_abroad p')"

lemma cefr_mono: "at_least cefr_levels a b \<Longrightarrow> a \<in> set cefr_levels \<Longrightarrow>
    \<exists>x y. map_of cefr_scores a = Some x \<and> map_of cefr_scores b = Some y \<and> x \<le> y"
  by (auto simp: at_least_def cefr_levels_def cefr_scores_def lit_le lit_le_one split: if_splits)

lemma education_mono: "at_least education_levels a b \<Longrightarrow> a \<in> set education_levels \<Longrightarrow>
    \<exists>x y. map_of education_scores a = Some x \<and> map_of education_scores b = Some y \<and> x \<le> y"
  by (auto simp: at_least_def education_levels_def education_scores_def lit_le lit_le_one split: if_splits)

definition features_le :: "features \<Rightarrow> features \<Rightarrow> bool" where
  "features_le f g \<longleftrightarrow> ft_age f \<le> ft_age g \<and> ft_education f \<le> ft_education g \<and> ft_experience f \<le> ft_experience g
     \<and> ft_english f \<le> ft_english g \<and> ft_french f \<le> ft_french g \<and> ft_funds_pool f \<le> ft_funds_pool g"

lemma features_improve:
  assumes v: "validate_match_request p" and i: "improves p p'"
  shows "\<exists>f f'. features_of p = Inr f \<and> features_of p' = Inr f' \<and> features_le f f'"
proof -
  obtain e e' where e: "map_of education_scores (mr_education_level p) = Some e"
    "map_of education_scores (mr_education_level p') = Some e'" "e \<le> e'"
    using education_mono v i by (fastforce simp: improves_def validate_match_request_def)
  obtain g g' where g: "map_of cefr_scores (mr_english_level p) = Some g"
    "map_of cefr_scores (mr_english_level p') = Some g'" "g \<le> g'"
    using cefr_mono v i by (fastforce simp: improves_def validate_match_request_def)
  obtain h h' where h: "map_of cefr_scores (mr_french_level p) = Some h"
    "map_of cefr_scores (mr_french_level p') = Some h'" "h \<le> h'"
    using cefr_mono v i by (fastforce simp: improves_def validate_match_request_def)
  have "fdiv (of_int (mr_experience_years p)) 10 \<le> fdiv (of_int (mr_experience_years p')) 10"
    using i by (intro fdiv_mono) (simp_all add: improves_def)
  moreover have "fadd (mr_savings_brl p) (fmul (mr_monthly_income_brl p) 8)
      \<le> fadd (mr_savings_brl p') (fmul (mr_monthly_income_brl p') 8)"
    using i by (intro fadd_mono fmul_mono) (simp_all add: improves_def)
  ultimately show ?thesis
    using e g h i by (simp add: features_of_def features_le_def improves_def clamp_mono)
qed

lemma weighted_score_mono:
  assumes r: "r \<in> set country_rules" and f: "features_le f f'" and i: "improves p p'"
  shows "weighted_score p f r \<le> weighted_score p' f' r"
proof -
  have pos: "0 \<le> cy_min_funds_brl r" "0 \<le> cy_job_offer_factor r" "0 \<le> cy_family_factor r"
    using rule_facts(1) r by (auto simp: list_all_iff)
  have lang: "language_score r (ft_english f) (ft_french f) w \<le> language_score r (ft_english f') (ft_french f') w" for w
    using rule_facts(2) r f by (intro language_score_mono) (auto simp: list_all_iff features_le_def)
  have b: "(if mr_has_job_offer p then 1 else lit 20 100) \<le> (if mr_has_job_offer p' then 1 else lit 20 100)"
    "(if mr_has_family_abroad p then 1 else lit 35 100) \<le> (if mr_has_family_abroad p' then 1 else lit 35 100)"
    using i by (simp_all add: improves_def lit_le_one)
  have same: "mr_profession_area p' = mr_profession_area p" "mr_preferred_region p' = mr_preferred_region p"
    "mr_wants_fast_citizenship p' = mr_wants_fast_citizenship p"
    "mr_willing_to_learn_language p' = mr_willing_to_learn_language p"
    using i by (simp_all add: improves_def)
  show ?thesis
    unfolding weighted_score_def Let_def same
    by (intro foldl_fadd_mono list_all2_Cons [THEN iffD2] conjI list.rel_intros mono_intros lang b pos lit_nonneg)
      (use f in \<open>simp_all add: features_le_def\<close>)
qed

lemma match_score_mono: "a \<le> b \<Longrightarrow> match_score a \<le> match_score b"
  unfolding match_score_def by (intro pyround.rnd_mono mono_intros) simp_all

lemma rank_profile_set:
  "rank_profile p = Inr ms \<Longrightarrow> features_of p = Inr f \<Longrightarrow> m \<in> set ms \<Longrightarrow>
   \<exists>r\<in>set country_rules. m = match_country p f r"
  by (auto simp: rank_profile_def)

section \<open>Storage\<close>

lemma read_dump: "read_match (dump_match m) = Inr m"
proof -
  have "mapR str_item (map JStr xs) = Inr xs" for xs by (induction xs) simp_all
  then show ?thesis by (simp add: dump_match_def)
qed

lemma read_dumps: "mapR read_match (map dump_match ms) = Inr ms"
  by (induction ms) (simp_all add: read_dump)

definition result_of_submission :: "submission \<Rightarrow> country_match list \<Rightarrow> match_result" where
  "result_of_submission s ms = \<lparr>mx_submission_id = pm_id s, mx_algorithm_version = pm_algorithm_version s,
     mx_created_at = pm_created_at s, mx_profile_snapshot = pm_profile_json s, mx_matches = ms\<rparr>"

lemma to_result_read_eq: "pm_result_json s = map dump_match ms \<Longrightarrow> to_result_read s = Inr (result_of_submission s ms)"
  by (simp add: to_result_read_def read_dumps result_of_submission_def)

lemma get_results_eq:
  assumes "submission_of d i = Some s"
  shows "request (get_results i u) d = (if pm_user_id s = Some u then to_result_read s
    else Inl (HTTPException 404 submission_not_found), d)"
  using assms by (simp add: request_def get_results_def get_submission_def)

lemma claim_foreign:
  assumes "submission_of d i = Some s" and "pm_user_id s = Some v" and "v \<noteq> u"
  shows "request (claim_submission t i g u) d = (Inl (HTTPException 404 submission_not_found), d)"
  using assms by (simp add: request_def claim_submission_def get_submission_def)

lemma claim_wrong_session:
  assumes "submission_of d i = Some s" and "pm_user_id s = None" and "g \<noteq> pm_guest_session_id s"
  shows "request (claim_submission t i g u) d
    = (Inl (HTTPException 403 ''Submission does not belong to this browser session''), d)"
  using assms by (simp add: request_def claim_submission_def get_submission_def)

definition with_claim :: "time \<Rightarrow> uuid \<Rightarrow> uuid \<Rightarrow> 'z match_db_scheme \<Rightarrow> 'z match_db_scheme" where
  "with_claim t u i d = d\<lparr>md_submissions := upd_where (\<lambda>x. pm_id x = i) (claimed_by t u) (md_submissions d)\<rparr>"

lemma with_claim_ok:
  assumes "submissions_ok d" and "u \<in> set (bd_users d)"
  shows "submissions_ok (with_claim t u i d)"
proof -
  have "map pm_id (upd_where (\<lambda>x. pm_id x = i) (claimed_by t u) (md_submissions d)) = map pm_id (md_submissions d)"
    by (simp add: upd_where_map claimed_by_def)
  then show ?thesis using assms
    by (simp add: submissions_ok_def with_claim_def list_all_upd_where) (simp add: list_all_iff claimed_by_def fk_def)
qed

lemma claim_success:
  assumes ok: "submissions_ok d" and s: "submission_of d i = Some s" and u: "u \<in> set (bd_users d)"
    and free: "pm_user_id s = None"
  shows "request (claim_submission t i (pm_guest_session_id s) u) d = (to_result_read (claimed_by t u s), with_claim t u i d)
    \<and> submission_of (with_claim t u i d) i = Some (claimed_by t u s)"
proof -
  have id: "pm_id s = i" using s unfolding submission_of_def by (rule find_mem [THEN conjunct2])
  have "submission_of (with_claim t u i d) i = Some (claimed_by t u s)"
    unfolding submission_of_def with_claim_def using ok s id
    by (simp add: submission_of_def submissions_ok_def find_upd_unique [where k = pm_id] claimed_by_def)
  moreover have "request (claim_submission t i (pm_guest_session_id s) u) d
      = (to_result_read (claimed_by t u s), with_claim t u i d)"
    using s free with_claim_ok [OF ok u, of t i]
    by (simp add: request_def claim_submission_def get_submission_def claim_row_def id with_claim_def)
  ultimately show ?thesis by blast
qed

definition guest_submission :: "time \<Rightarrow> match_request \<Rightarrow> country_match list \<Rightarrow> uuid \<Rightarrow> submission" where
  "guest_submission now p ms i = \<lparr>pm_id = i, pm_created_at = now, pm_user_id = None,
     pm_guest_session_id = mr_guest_session_id p, pm_algorithm_version = algorithm_version,
     pm_profile_json = profile_snapshot p, pm_result_json = map dump_match ms, pm_claimed_at = None\<rparr>"

definition with_submission :: "submission \<Rightarrow> 'z match_db_scheme \<Rightarrow> 'z match_db_scheme" where
  "with_submission s d = d\<lparr>md_submissions := md_submissions d @ [s], bd_next := Suc (bd_next d)\<rparr>"

lemma submit_guest:
  assumes ok: "submissions_ok d" and fresh: "bd_next d \<notin> set (map pm_id (md_submissions d))"
    and r: "rank_profile p = Inr ms" and s_def: "s = guest_submission now p ms (bd_next d)"
  shows "request (submit_profile now p None) d
      = (Inr \<lparr>ms_submission_id = bd_next d, ms_requires_login = True, ms_result = None\<rparr>, with_submission s d)
    \<and> submissions_ok (with_submission s d) \<and> submission_of (with_submission s d) (bd_next d) = Some s"
proof -
  have s: "pm_id s = bd_next d" "pm_user_id s = None" "pm_result_json s = map dump_match ms"
    by (simp_all add: s_def guest_submission_def)
  have ok': "submissions_ok (with_submission s d)"
    using ok fresh s by (auto simp: submissions_ok_def with_submission_def fk_def)
  have "create_submission now None (mr_guest_session_id p) algorithm_version (profile_snapshot p) (map dump_match ms)
      (begin_txn d) = (Inr s, (begin_txn d)\<lparr>working := with_submission s d\<rparr>)"
    using ok' unfolding create_submission_def
    by (simp add: s_def guest_submission_def with_submission_def ret_def)
  note create = bindO_Inr [where m = "create_submission now None (mr_guest_session_id p) algorithm_version
      (profile_snapshot p) (map dump_match ms)" and s = "begin_txn d", OF this]
  have "request (submit_profile now p None) d
      = (Inr \<lparr>ms_submission_id = bd_next d, ms_requires_login = True, ms_result = None\<rparr>, with_submission s d)"
    unfolding request_def submit_profile_def r bindO_lift create
    by (simp add: to_result_read_eq [OF s(3)] s(1) ret_def)
  moreover have "find (\<lambda>x. pm_id x = bd_next d) (md_submissions d) = None"
    using fresh by (auto simp: find_None_iff image_iff)
  then have "submission_of (with_submission s d) (bd_next d) = Some s"
    by (simp add: submission_of_def with_submission_def find_append s(1))
  ultimately show ?thesis using ok' by blast
qed

section \<open>Properties\<close>

lemma rank_profile_eq:
  "features_of p = Inr f \<Longrightarrow>
   rank_profile p = Inr (sort_key (\<lambda>m. - mt_match_score m) (map (match_country p f) country_rules))"
  by (simp add: rank_profile_def)

lemma at_least_refl: "a \<in> set xs \<Longrightarrow> at_least xs a a"
  by (induction xs) (auto simp: at_least_def)

lemma improves_refl: "validate_match_request p \<Longrightarrow> improves p p"
  by (simp add: improves_def validate_match_request_def at_least_refl)

lemma rank_profile_total: "validate_match_request p \<Longrightarrow> \<exists>f. features_of p = Inr f"
  using features_improve [OF _ improves_refl] by blast

text \<open>C39. For every profile that the request validation admits, the ranking lists each of the fifteen
  countries once, from the best score to the worst, with scores between 0 and 99.5 and three highlights each.\<close>

theorem ranking_well_formed:
  assumes v: "validate_match_request p"
  shows "\<exists>ms. rank_profile p = Inr ms
    \<and> mset (map mt_country_code ms) = mset (map cy_code country_rules)
    \<and> length ms = 15 \<and> distinct (map mt_country_code ms)
    \<and> sorted_wrt (\<lambda>a b. mt_match_score b \<le> mt_match_score a) ms
    \<and> list_all (\<lambda>m. 0 \<le> mt_match_score m \<and> mt_match_score m \<le> 199 / 2 \<and> length (mt_highlights m) = 3) ms"
proof -
  obtain f where f: "features_of p = Inr f" using rank_profile_total [OF v] by blast
  define ms where "ms = sort_key (\<lambda>m. - mt_match_score m) (map (match_country p f) country_rules)"
  have codes: "mset (map mt_country_code ms) = mset (map cy_code country_rules)"
    by (simp add: ms_def match_country_def image_mset.compositionality comp_def)
  have "sorted (map (\<lambda>m. - mt_match_score m) ms)" unfolding ms_def by (rule sorted_sort_key)
  then have "sorted_wrt (\<lambda>a b. mt_match_score b \<le> mt_match_score a) ms" by (simp add: sorted_map)
  moreover have "distinct (map mt_country_code ms)"
    using country_codes(1) codes by (metis mset_eq_imp_distinct_iff)
  moreover have "length ms = 15" by (simp add: ms_def country_codes(2))
  moreover have "list_all (\<lambda>m. 0 \<le> mt_match_score m \<and> mt_match_score m \<le> 199 / 2 \<and> length (mt_highlights m) = 3) ms"
    using match_score_bounds by (auto simp: ms_def list_all_iff match_country_def length_highlights)
  ultimately show ?thesis using rank_profile_eq [OF f] codes unfolding ms_def by blast
qed

definition match_sample_profile :: match_request where
  "match_sample_profile = \<lparr>mr_age = 31, mr_education_level = ''graduacao'', mr_experience_years = 6,
     mr_english_level = ''B2'', mr_french_level = ''A1'', mr_savings_brl = 90000, mr_monthly_income_brl = 12000,
     mr_profession_area = ''tecnologia'', mr_has_job_offer = False, mr_has_family_abroad = False,
     mr_willing_to_learn_language = True, mr_wants_fast_citizenship = False, mr_preferred_region = ''europa'',
     mr_guest_session_id = ''guest-session-1''\<rparr>"

lemma match_sample_profile_valid: "validate_match_request match_sample_profile"
  by (simp add: match_sample_profile_def validate_match_request_def education_levels_def cefr_levels_def
      profession_areas_def preferred_regions_def)

theorem ranking_well_formed_witness:
  "\<exists>ms. rank_profile match_sample_profile = Inr ms
    \<and> mset (map mt_country_code ms) = mset (map cy_code country_rules)
    \<and> length ms = 15 \<and> distinct (map mt_country_code ms)
    \<and> sorted_wrt (\<lambda>a b. mt_match_score b \<le> mt_match_score a) ms
    \<and> list_all (\<lambda>m. 0 \<le> mt_match_score m \<and> mt_match_score m \<le> 199 / 2 \<and> length (mt_highlights m) = 3) ms"
  by (rule ranking_well_formed [OF match_sample_profile_valid])

text \<open>A profile that is at least as good in every graded answer (education, languages, experience, savings,
  income, job offer, family abroad) and equal in the others scores at least as high in every country.\<close>

theorem better_profile_scores:
  assumes v: "validate_match_request p" and i: "improves p p'"
  shows "\<exists>ms ms'. rank_profile p = Inr ms \<and> rank_profile p' = Inr ms'
    \<and> (\<forall>m\<in>set ms. \<forall>m'\<in>set ms'. mt_country_code m = mt_country_code m' \<longrightarrow> mt_match_score m \<le> mt_match_score m')"
proof -
  obtain f f' where f: "features_of p = Inr f" "features_of p' = Inr f'" "features_le f f'"
    using features_improve [OF v i] by blast
  have le: "mt_match_score (match_country p f r) \<le> mt_match_score (match_country p' f' r)"
    if "r \<in> set country_rules" for r
    using weighted_score_mono [OF that f(3) i] by (simp add: match_country_def match_score_mono)
  have inj: "r = r'" if "r \<in> set country_rules" "r' \<in> set country_rules" "cy_code r = cy_code r'" for r r'
    using country_codes(1) that by (auto simp: distinct_map dest: inj_onD)
  show ?thesis
    unfolding rank_profile_eq [OF f(1)] rank_profile_eq [OF f(2)]
    using le inj by (auto simp: match_country_def)
qed

theorem better_profile_scores_witness:
  "\<exists>ms ms'. rank_profile match_sample_profile = Inr ms
    \<and> rank_profile (match_sample_profile\<lparr>mr_english_level := ''C1'', mr_savings_brl := 120000, mr_has_job_offer := True\<rparr>) = Inr ms'
    \<and> (\<forall>m\<in>set ms. \<forall>m'\<in>set ms'. mt_country_code m = mt_country_code m' \<longrightarrow> mt_match_score m \<le> mt_match_score m')"
proof (rule better_profile_scores [OF match_sample_profile_valid])
  show "improves match_sample_profile
      (match_sample_profile\<lparr>mr_english_level := ''C1'', mr_savings_brl := 120000, mr_has_job_offer := True\<rparr>)"
    by (simp add: improves_def match_sample_profile_def at_least_def education_levels_def cefr_levels_def)
qed

text \<open>C33. A guest's submission shows nothing until it is claimed from the same browser session by a user; from
  then on exactly that user reads the stored ranking, any other session or user being refused.\<close>

theorem guest_claim_flow:
  assumes ok: "submissions_ok d" and fresh: "bd_next d \<notin> set (map pm_id (md_submissions d))"
    and v: "validate_match_request p" and u: "u \<in> set (bd_users d)"
  shows "\<exists>ms r d1 d2. rank_profile p = Inr ms \<and> mx_matches r = ms \<and> mx_profile_snapshot r = profile_snapshot p
    \<and> request (submit_profile t p None) d
        = (Inr \<lparr>ms_submission_id = bd_next d, ms_requires_login = True, ms_result = None\<rparr>, d1)
    \<and> (\<forall>w. request (get_results (bd_next d) w) d1 = (Inl (HTTPException 404 submission_not_found), d1))
    \<and> (\<forall>g w. g \<noteq> mr_guest_session_id p \<longrightarrow> request (claim_submission t' (bd_next d) g w) d1
        = (Inl (HTTPException 403 ''Submission does not belong to this browser session''), d1))
    \<and> request (claim_submission t' (bd_next d) (mr_guest_session_id p) u) d1 = (Inr r, d2)
    \<and> request (get_results (bd_next d) u) d2 = (Inr r, d2)
    \<and> (\<forall>g w. w \<noteq> u \<longrightarrow> request (get_results (bd_next d) w) d2 = (Inl (HTTPException 404 submission_not_found), d2)
        \<and> request (claim_submission t' (bd_next d) g w) d2 = (Inl (HTTPException 404 submission_not_found), d2))"
proof -
  obtain f where f: "features_of p = Inr f" using rank_profile_total [OF v] by blast
  define ms where "ms = sort_key (\<lambda>m. - mt_match_score m) (map (match_country p f) country_rules)"
  have r: "rank_profile p = Inr ms" using rank_profile_eq [OF f] by (simp add: ms_def)
  define s where "s = guest_submission t p ms (bd_next d)"
  define d1 where "d1 = with_submission s d"
  define d2 where "d2 = with_claim t' u (bd_next d) d1"
  let ?c = "claimed_by t' u s" and ?r = "result_of_submission (claimed_by t' u s) ms"
  have s: "pm_user_id s = None" "pm_guest_session_id s = mr_guest_session_id p" "pm_result_json s = map dump_match ms"
    "pm_profile_json s = profile_snapshot p"
    by (simp_all add: s_def guest_submission_def)
  have c: "to_result_read ?c = Inr ?r" "pm_user_id ?c = Some u"
    by (simp_all add: to_result_read_eq s(3) claimed_by_def)
  note sub = submit_guest [OF ok fresh r s_def, folded d1_def]
  have sub_ok: "submissions_ok d1" and found: "submission_of d1 (bd_next d) = Some s" using sub by simp_all
  have "u \<in> set (bd_users d1)" using u by (simp add: d1_def with_submission_def)
  note cl = claim_success [OF sub_ok found this s(1), of t', unfolded s(2) c, folded d2_def]
  have found2: "submission_of d2 (bd_next d) = Some ?c" using cl by simp
  have "mx_matches ?r = ms" "mx_profile_snapshot ?r = profile_snapshot p"
    by (simp_all add: result_of_submission_def claimed_by_def s(4))
  moreover have "request (get_results (bd_next d) w) d1 = (Inl (HTTPException 404 submission_not_found), d1)" for w
    by (simp add: get_results_eq [OF found] s(1))
  moreover have "request (claim_submission t' (bd_next d) g w) d1
      = (Inl (HTTPException 403 ''Submission does not belong to this browser session''), d1)"
    if "g \<noteq> mr_guest_session_id p" for g w
    using claim_wrong_session [OF found s(1)] that s(2) by simp
  moreover have "request (get_results (bd_next d) u) d2 = (Inr ?r, d2)"
    by (simp add: get_results_eq [OF found2] c)
  moreover have "request (get_results (bd_next d) w) d2 = (Inl (HTTPException 404 submission_not_found), d2)"
    if "w \<noteq> u" for w using that by (simp add: get_results_eq [OF found2] c(2))
  moreover have "request (claim_submission t' (bd_next d) g w) d2 = (Inl (HTTPException 404 submission_not_found), d2)"
    if "w \<noteq> u" for g w using claim_foreign [OF found2 c(2)] that by simp
  ultimately show ?thesis using r sub cl by blast
qed

definition match_sample_db :: match_db where
  "match_sample_db = \<lparr>bd_plans = [], bd_subscriptions = [], bd_entitlements = [], bd_counters = [], bd_events = [],
     bd_users = [1, 2], bd_next = 10, bd_conversions = 0, rd_countries = [], rd_programs = [], rd_versions = [],
     rd_groups = [], rd_conditions = [], rd_outcomes = [], ad_snapshots = [], ad_assessments = [], ad_results = [],
     ad_items = [], ad_roadmaps = [], ad_steps = [], ad_jobs = [], md_submissions = []\<rparr>"

theorem guest_claim_flow_witness:
  "\<exists>ms r d1 d2. rank_profile match_sample_profile = Inr ms \<and> mx_matches r = ms
    \<and> mx_profile_snapshot r = profile_snapshot match_sample_profile
    \<and> request (submit_profile 5 match_sample_profile None) match_sample_db
        = (Inr \<lparr>ms_submission_id = 10, ms_requires_login = True, ms_result = None\<rparr>, d1)
    \<and> (\<forall>w. request (get_results 10 w) d1 = (Inl (HTTPException 404 submission_not_found), d1))
    \<and> (\<forall>g w. g \<noteq> mr_guest_session_id match_sample_profile \<longrightarrow> request (claim_submission 9 10 g w) d1
        = (Inl (HTTPException 403 ''Submission does not belong to this browser session''), d1))
    \<and> request (claim_submission 9 10 (mr_guest_session_id match_sample_profile) 2) d1 = (Inr r, d2)
    \<and> request (get_results 10 2) d2 = (Inr r, d2)
    \<and> (\<forall>g w. w \<noteq> 2 \<longrightarrow> request (get_results 10 w) d2 = (Inl (HTTPException 404 submission_not_found), d2)
        \<and> request (claim_submission 9 10 g w) d2 = (Inl (HTTPException 404 submission_not_found), d2))"
proof -
  have n: "bd_next match_sample_db = 10" by (simp add: match_sample_db_def)
  show ?thesis
    using guest_claim_flow [of match_sample_db, OF _ _ match_sample_profile_valid, of 2 5 9, unfolded n]
    by (simp add: match_sample_db_def submissions_ok_def)
qed

end
