(* ===== verification/Accounts.thy ===== *)
theory Accounts
  imports Jobs Uuid_Text
begin

text \<open>
  Users and authentication: \<open>src/apps/accounts\<close> (model, repository, \<open>AuthService\<close>),
  \<open>src/app/core/security.py\<close> (tokens and the dependencies that read the current user),
  \<open>src/app/core/permissions.py\<close> and the routes of \<open>src/app/api/v1/auth.py\<close>. The token library
  (python-jose) and the password hasher (pwdlib) are parameters: records of functions, whose
  documented laws are the predicates \<open>jwt_laws\<close> and \<open>password_laws\<close>.
\<close>

section \<open>Tables\<close>

datatype user_role = Member | Admin

record user =
  us_id :: uuid
  us_email :: string
  us_password_hash :: string
  us_role :: user_role
  us_is_active :: bool
  us_created_at :: time
  us_updated_at :: time

text \<open>\<open>bd_users\<close>, which the foreign keys of the other tables refer to, holds the keys of this table.\<close>

record accounts_db = app_db +
  us_users :: "user list"

definition users_ok :: "'z accounts_db_scheme \<Rightarrow> bool" where
  "users_ok d \<longleftrightarrow> distinct (map us_id (us_users d)) \<and> distinct (map us_email (us_users d))
     \<and> bd_users d = map us_id (us_users d)"

type_synonym ('z, 'a) accounts_op = "('z accounts_db_scheme txn, 'a) op"

section \<open>Repository\<close>

definition user_by_email :: "'z accounts_db_scheme \<Rightarrow> string \<Rightarrow> user option" where
  "user_by_email d e = find (\<lambda>u. us_email u = e) (us_users d)"

definition user_by_id :: "'z accounts_db_scheme \<Rightarrow> uuid \<Rightarrow> user option" where
  "user_by_id d i = find (\<lambda>u. us_id u = i) (us_users d)"

definition get_by_email :: "string \<Rightarrow> ('z, user option) accounts_op" where
  "get_by_email e = query (\<lambda>d. user_by_email d e)"

definition get_by_id :: "uuid \<Rightarrow> ('z, user option) accounts_op" where
  "get_by_id i = query (\<lambda>d. user_by_id d i)"

definition create_user :: "time \<Rightarrow> string \<Rightarrow> string \<Rightarrow> user_role \<Rightarrow> ('z, user) accounts_op" where
  "create_user now email password_hash role =
     bindO (query (\<lambda>d. \<lparr>us_id = bd_next d, us_email = email, us_password_hash = password_hash, us_role = role,
        us_is_active = True, us_created_at = now, us_updated_at = now\<rparr>)) (\<lambda>u.
     bindO (flush users_ok (\<lambda>d. d\<lparr>us_users := us_users d @ [u], bd_users := bd_users d @ [us_id u],
        bd_next := Suc (bd_next d)\<rparr>)) (\<lambda>_.
     bindO commit (\<lambda>_. ret u)))"

section \<open>Tokens and passwords\<close>

text \<open>\<open>jwt_decode\<close> at a time answers \<open>None\<close> for every \<open>JWTError\<close>: a bad signature, an algorithm that is
  not allowed, claims that do not hold, an expired token.\<close>

record jwt_api =
  jwt_encode :: "json dict \<Rightarrow> string \<Rightarrow> string \<Rightarrow> string"
  jwt_decode :: "time \<Rightarrow> string \<Rightarrow> string \<Rightarrow> string list \<Rightarrow> json dict option"

text \<open>\<open>pw_hash\<close> takes the salt that the hasher draws.\<close>

record password_api =
  pw_hash :: "string \<Rightarrow> string \<Rightarrow> string"
  pw_verify :: "string \<Rightarrow> string \<Rightarrow> bool"

definition token_error :: "string \<Rightarrow> exn" where
  "token_error detail = HTTPException 401 detail"

definition unix_seconds :: "time \<Rightarrow> int" where
  "unix_seconds t = t div 1000000"

text \<open>The subject is a text wherever the code makes a token of its own; \<open>refresh\<close> passes on the claim it read.\<close>

definition token_claims :: "time \<Rightarrow> json \<Rightarrow> string \<Rightarrow> int \<Rightarrow> json dict" where
  "token_claims now subject token_type expires_delta =
     [(''sub'', subject), (''type'', JStr token_type), (''iat'', JInt (unix_seconds now)),
      (''exp'', JInt (unix_seconds (now + expires_delta)))]"

definition create_token :: "jwt_api \<Rightarrow> settings \<Rightarrow> time \<Rightarrow> json \<Rightarrow> string \<Rightarrow> int \<Rightarrow> string" where
  "create_token J cfg now subject token_type expires_delta =
     jwt_encode J (token_claims now subject token_type expires_delta) (jwt_secret_key cfg) (jwt_algorithm cfg)"

definition create_access_token :: "jwt_api \<Rightarrow> settings \<Rightarrow> time \<Rightarrow> json \<Rightarrow> string" where
  "create_access_token J cfg now subject =
     create_token J cfg now subject ''access'' (minutes (jwt_access_token_expire_minutes cfg))"

definition create_refresh_token :: "jwt_api \<Rightarrow> settings \<Rightarrow> time \<Rightarrow> json \<Rightarrow> string" where
  "create_refresh_token J cfg now subject =
     create_token J cfg now subject ''refresh'' (minutes (jwt_refresh_token_expire_minutes cfg))"

definition decode_token :: "jwt_api \<Rightarrow> settings \<Rightarrow> time \<Rightarrow> string \<Rightarrow> string \<Rightarrow> json dict result" where
  "decode_token J cfg now tok expected_type =
     (case jwt_decode J now tok (jwt_secret_key cfg) [jwt_algorithm cfg] of
        None \<Rightarrow> Inl (token_error ''Could not validate credentials'')
      | Some claims \<Rightarrow>
          if dict_get claims ''type'' \<noteq> Some (JStr expected_type) then Inl (token_error ''Invalid token type'')
          else if \<not> truthy (get_or claims ''sub'' JNull) then Inl (token_error ''Token subject is missing'')
          else Inr claims)"

text \<open>\<open>UUID(payload["sub"])\<close>; a subject that is not a string has no \<open>replace\<close>.\<close>

fun subject_uuid :: "json option \<Rightarrow> uuid result" where
  "subject_uuid (Some (JStr s)) = uuid_parse s"
| "subject_uuid (Some _) = Inl (AttributeError ''object has no attribute replace'')"
| "subject_uuid None = Inl (KeyError ''sub'')"

section \<open>The current user\<close>

text \<open>The credentials of the \<open>Authorization: Bearer\<close> header, if any. The RLS context and the log context
  that the functions set do not change what they return.\<close>

definition get_current_user ::
    "jwt_api \<Rightarrow> settings \<Rightarrow> time \<Rightarrow> string option \<Rightarrow> ('z, user) accounts_op" where
  "get_current_user J cfg now credentials =
     (case credentials of
        None \<Rightarrow> raise (token_error ''Authentication required'')
      | Some tok \<Rightarrow>
          bindO (lift (decode_token J cfg now tok ''access'')) (\<lambda>claims.
          bindO (lift (subject_uuid (dict_get claims ''sub''))) (\<lambda>i.
          bindO (query (\<lambda>d. user_by_id d i)) (\<lambda>found.
          case found of
            None \<Rightarrow> raise (token_error ''User not found'')
          | Some u \<Rightarrow>
              if \<not> us_is_active u then raise (HTTPException 403 ''User is inactive'') else ret u))))"

definition get_optional_current_user ::
    "jwt_api \<Rightarrow> settings \<Rightarrow> time \<Rightarrow> string option \<Rightarrow> ('z, user option) accounts_op" where
  "get_optional_current_user J cfg now credentials =
     (case credentials of
        None \<Rightarrow> ret None
      | Some tok \<Rightarrow>
          (case decode_token J cfg now tok ''access'' of
             Inl _ \<Rightarrow> ret None
           | Inr claims \<Rightarrow>
               bindO (lift (subject_uuid (dict_get claims ''sub''))) (\<lambda>i.
               query (\<lambda>d. user_by_id d i))))"

definition require_internal_token :: "settings \<Rightarrow> string option \<Rightarrow> unit result" where
  "require_internal_token cfg tok =
     (if \<not> opt_truthy (ingestion_internal_token cfg) then
        Inl (HTTPException 503 ''Internal ingestion token is not configured'')
      else if tok \<noteq> ingestion_internal_token cfg then Inl (HTTPException 401 ''Invalid internal token'')
      else Inr ())"

text \<open>Permissions: a role among the allowed ones, an entitlement.\<close>

definition require_role ::
    "user_role list \<Rightarrow> jwt_api \<Rightarrow> settings \<Rightarrow> time \<Rightarrow> string option \<Rightarrow> ('z, user) accounts_op" where
  "require_role allowed_roles J cfg now credentials =
     bindO (get_current_user J cfg now credentials) (\<lambda>u.
     if us_role u \<notin> set allowed_roles then raise (HTTPException 403 ''User role is not allowed for this resource'')
     else ret u)"

definition require_feature ::
    "string \<Rightarrow> jwt_api \<Rightarrow> settings \<Rightarrow> time \<Rightarrow> string option \<Rightarrow> ('z, uuid) accounts_op" where
  "require_feature feature J cfg now credentials =
     bindO (get_current_user J cfg now credentials) (\<lambda>u.
     bindO (require_entitlement cfg now (us_id u) feature) (\<lambda>_. ret (us_id u)))"

definition is_admin :: "user \<Rightarrow> bool" where
  "is_admin u \<longleftrightarrow> us_role u = Admin"

section \<open>Service\<close>

record token_pair =
  tp_access_token :: string
  tp_refresh_token :: string

definition issue_tokens :: "jwt_api \<Rightarrow> settings \<Rightarrow> time \<Rightarrow> string \<Rightarrow> token_pair" where
  "issue_tokens J cfg now subject =
     \<lparr>tp_access_token = create_access_token J cfg now (JStr subject),
      tp_refresh_token = create_refresh_token J cfg now (JStr subject)\<rparr>"

definition role_of_email :: "settings \<Rightarrow> string \<Rightarrow> user_role" where
  "role_of_email cfg email = (if lower email \<in> lower ` set (admin_emails cfg) then Admin else Member)"

definition register_user ::
    "jwt_api \<Rightarrow> password_api \<Rightarrow> settings \<Rightarrow> time \<Rightarrow> string \<Rightarrow> string \<Rightarrow> string \<Rightarrow> ('z, user \<times> token_pair) accounts_op" where
  "register_user J H cfg now salt email password =
     bindO (get_by_email email) (\<lambda>existing.
     if existing \<noteq> None then raise (HTTPException 409 ''Email already registered'')
     else
       bindO (create_user now email (pw_hash H salt password) (role_of_email cfg email)) (\<lambda>u.
       ret (u, issue_tokens J cfg now (uuid_str (us_id u)))))"

definition login :: "jwt_api \<Rightarrow> password_api \<Rightarrow> settings \<Rightarrow> time \<Rightarrow> string \<Rightarrow> string \<Rightarrow> ('z, token_pair) accounts_op" where
  "login J H cfg now email password =
     bindO (get_by_email email) (\<lambda>found.
     case found of
       Some u \<Rightarrow>
         if \<not> pw_verify H password (us_password_hash u) then raise (HTTPException 401 ''Invalid credentials'')
         else ret (issue_tokens J cfg now (uuid_str (us_id u)))
     | None \<Rightarrow> raise (HTTPException 401 ''Invalid credentials''))"

section \<open>Routes\<close>

definition register_route ::
    "jwt_api \<Rightarrow> password_api \<Rightarrow> settings \<Rightarrow> time \<Rightarrow> string \<Rightarrow> string \<Rightarrow> string \<Rightarrow> ('z, token_pair) accounts_op" where
  "register_route J H cfg now salt email password =
     bindO (register_user J H cfg now salt email password) (\<lambda>(_, tokens). ret tokens)"

text \<open>\<open>refresh\<close> reads no table.\<close>

definition refresh_route :: "jwt_api \<Rightarrow> settings \<Rightarrow> time \<Rightarrow> string \<Rightarrow> token_pair result" where
  "refresh_route J cfg now refresh_token =
     bindR (decode_token J cfg now refresh_token ''refresh'') (\<lambda>claims.
     case dict_get claims ''sub'' of
       Some subject \<Rightarrow>
         Inr \<lparr>tp_access_token = create_access_token J cfg now subject,
           tp_refresh_token = create_refresh_token J cfg now subject\<rparr>
     | None \<Rightarrow> Inl (KeyError ''sub''))"

text \<open>The address that a checkout passes on, \<open>get_user_email\<close> of the billing service.\<close>

definition get_user_email :: "uuid \<Rightarrow> ('z, string) accounts_op" where
  "get_user_email i =
     bindO (query (\<lambda>d. map_option us_email (user_by_id d i))) (\<lambda>email.
     if \<not> opt_truthy email then raise (HTTPException 404 ''User not found'') else ret (the email))"

end
