(* ===== verification/Accounts_Contract.thy ===== *)
theory Accounts_Contract
  imports Accounts
begin

text \<open>
  What authentication guarantees: the tokens of a login identify that user until they expire and only
  in their own role (access or refresh), registration keeps the addresses unique, and a registered
  user logs in with the password given and with no other that the hasher refuses.
\<close>

section \<open>The libraries\<close>

definition hmac_algorithms :: "string list" where
  "hmac_algorithms = [''HS256'', ''HS384'', ''HS512'']"

text \<open>What python-jose documents of \<open>decode(encode(...))\<close>, for the claims that the code makes: the
  claims come back until the second of \<open>exp\<close> has passed.\<close>

definition jwt_laws :: "jwt_api \<Rightarrow> bool" where
  "jwt_laws J \<longleftrightarrow> (\<forall>now now' subject ty delta key. \<forall>alg\<in>set hmac_algorithms. ty \<in> {''access'', ''refresh''} \<longrightarrow>
     jwt_decode J now' (jwt_encode J (token_claims now (JStr subject) ty delta) key alg) key [alg]
     = (if unix_seconds (now + delta) < unix_seconds now' then None
        else Some (token_claims now (JStr subject) ty delta)))"

definition password_laws :: "password_api \<Rightarrow> bool" where
  "password_laws H \<longleftrightarrow> (\<forall>salt p. pw_verify H p (pw_hash H salt p))"

section \<open>Tokens\<close>

lemma claims_get:
  "dict_get (token_claims now s ty delta) ''type'' = Some (JStr ty)"
  "dict_get (token_claims now s ty delta) ''sub'' = Some s"
  by (simp_all add: token_claims_def)

lemma decode_issued:
  assumes "jwt_laws J" and "jwt_algorithm cfg \<in> set hmac_algorithms" and "ty \<in> {''access'', ''refresh''}" and "subject \<noteq> []"
  shows "decode_token J cfg now' (create_token J cfg now (JStr subject) ty delta) ty' =
    (if unix_seconds (now + delta) < unix_seconds now' then Inl (token_error ''Could not validate credentials'')
     else if ty \<noteq> ty' then Inl (token_error ''Invalid token type'') else Inr (token_claims now (JStr subject) ty delta))"
proof -
  have "jwt_decode J now' (jwt_encode J (token_claims now (JStr subject) ty delta) (jwt_secret_key cfg) (jwt_algorithm cfg))
      (jwt_secret_key cfg) [jwt_algorithm cfg]
    = (if unix_seconds (now + delta) < unix_seconds now' then None else Some (token_claims now (JStr subject) ty delta))"
    using assms(1-3) unfolding jwt_laws_def by blast
  with assms(4) show ?thesis
    by (simp add: decode_token_def create_token_def claims_get get_or_def truthy_def)
qed

lemma uuid_str_ne: "uuid_str u \<noteq> []"
  by (simp add: uuid_str_def)

lemma user_by_id_mem: "user_by_id d i = Some u \<Longrightarrow> u \<in> set (us_users d) \<and> us_id u = i"
  unfolding user_by_id_def by (rule find_mem)

text \<open>C30. The pair of tokens issued for a user: until its expiry the access token yields exactly that user, if the
  account still exists and is active, and neither token is accepted in the place of the other; the refresh
  token yields a new pair for the same user.\<close>

theorem token_session:
  assumes J: "jwt_laws J" and alg: "jwt_algorithm cfg \<in> set hmac_algorithms" and i: "i < 2 ^ 128"
    and tok: "tok = issue_tokens J cfg now (uuid_str i)"
  shows "request (get_current_user J cfg now' (Some (tp_access_token tok))) d =
      ((if unix_seconds (now + minutes (jwt_access_token_expire_minutes cfg)) < unix_seconds now'
        then Inl (HTTPException 401 ''Could not validate credentials'')
        else (case user_by_id d i of
            None \<Rightarrow> Inl (HTTPException 401 ''User not found'')
          | Some u \<Rightarrow> if us_is_active u then Inr u else Inl (HTTPException 403 ''User is inactive''))), d)
    \<and> (\<exists>e. request (get_current_user J cfg now' (Some (tp_refresh_token tok))) d = (Inl (HTTPException 401 e), d))
    \<and> (\<exists>e. refresh_route J cfg now' (tp_access_token tok) = Inl (HTTPException 401 e))
    \<and> refresh_route J cfg now' (tp_refresh_token tok) =
      (if unix_seconds (now + minutes (jwt_refresh_token_expire_minutes cfg)) < unix_seconds now'
       then Inl (HTTPException 401 ''Could not validate credentials'')
       else Inr (issue_tokens J cfg now' (uuid_str i)))"
proof -
  note dec = decode_issued [OF J alg _ uuid_str_ne]
  have a: "tp_access_token tok = create_token J cfg now (JStr (uuid_str i)) ''access''
      (minutes (jwt_access_token_expire_minutes cfg))"
    and r: "tp_refresh_token tok = create_token J cfg now (JStr (uuid_str i)) ''refresh''
      (minutes (jwt_refresh_token_expire_minutes cfg))"
    by (simp_all add: tok issue_tokens_def create_access_token_def create_refresh_token_def)
  have 1: "request (get_current_user J cfg now' (Some (tp_access_token tok))) d =
      ((if unix_seconds (now + minutes (jwt_access_token_expire_minutes cfg)) < unix_seconds now'
        then Inl (HTTPException 401 ''Could not validate credentials'')
        else (case user_by_id d i of
            None \<Rightarrow> Inl (HTTPException 401 ''User not found'')
          | Some u \<Rightarrow> if us_is_active u then Inr u else Inl (HTTPException 403 ''User is inactive''))), d)"
    by (simp add: get_current_user_def a dec claims_get uuid_parse_str [OF i] request_def token_error_def
        raise_def ret_def split: option.split)
  have 2: "\<exists>e. request (get_current_user J cfg now' (Some (tp_refresh_token tok))) d = (Inl (HTTPException 401 e), d)"
    by (simp add: get_current_user_def r dec request_def token_error_def)
  have 3: "\<exists>e. refresh_route J cfg now' (tp_access_token tok) = Inl (HTTPException 401 e)"
    by (simp add: refresh_route_def a dec token_error_def)
  have 4: "refresh_route J cfg now' (tp_refresh_token tok) =
      (if unix_seconds (now + minutes (jwt_refresh_token_expire_minutes cfg)) < unix_seconds now'
       then Inl (HTTPException 401 ''Could not validate credentials'')
       else Inr (issue_tokens J cfg now' (uuid_str i)))"
    by (simp add: refresh_route_def r dec token_error_def claims_get issue_tokens_def)
  from 1 2 3 4 show ?thesis by blast
qed

section \<open>A token library\<close>

text \<open>An instance of the laws: a token is the algorithm, the key, the type, the times and the subject.\<close>

definition sample_encode :: "json dict \<Rightarrow> string \<Rightarrow> string \<Rightarrow> string" where
  "sample_encode claims key alg =
     (case claims of
        [(_, JStr subject), (_, JStr ty), (_, JInt issued), (_, JInt expiry)] \<Rightarrow>
          alg @ key @ take 1 ty @ int_str issued @ '' '' @ int_str expiry @ '' '' @ subject
      | _ \<Rightarrow> [])"

definition read_int :: "string \<Rightarrow> int" where
  "read_int s = (if take 1 s = ''-'' then - int (digits_val (tl s)) else int (digits_val s))"

definition sample_decode :: "time \<Rightarrow> string \<Rightarrow> string \<Rightarrow> string list \<Rightarrow> json dict option" where
  "sample_decode now tok key algs =
     (let rest = drop (5 + length key) tok; ty = (if take 1 rest = ''a'' then ''access'' else ''refresh'');
          issued = takeWhile (\<lambda>c. c \<noteq> CHR '' '') (tl rest); more = tl (dropWhile (\<lambda>c. c \<noteq> CHR '' '') (tl rest));
          expiry = takeWhile (\<lambda>c. c \<noteq> CHR '' '') more; subject = tl (dropWhile (\<lambda>c. c \<noteq> CHR '' '') more)
      in if take 5 tok \<in> set algs \<and> take (length key) (drop 5 tok) = key \<and> unix_seconds now \<le> read_int expiry
         then Some [(''sub'', JStr subject), (''type'', JStr ty), (''iat'', JInt (read_int issued)), (''exp'', JInt (read_int expiry))]
         else None)"

definition sample_jwt :: jwt_api where
  "sample_jwt = \<lparr>jwt_encode = sample_encode, jwt_decode = sample_decode\<rparr>"

lemma nat_str_chars: "c \<in> set (nat_str n) \<Longrightarrow> c \<noteq> CHR '' '' \<and> c \<noteq> CHR ''-'' \<and> c \<noteq> CHR '':''"
  using nat_str_digits [of c n] by (auto simp: is_digit_def code_def)

lemma read_int_str: "read_int (int_str i) = i"
proof -
  have "take 1 (nat_str n) \<noteq> ''-''" for n
    using nat_str_chars [of "hd (nat_str n)" n] by (cases "nat_str n") auto
  then show ?thesis by (simp add: read_int_def int_str_def digits_val_nat_str)
qed

lemma int_str_chars: "c \<in> set (int_str i) \<Longrightarrow> c \<noteq> CHR '' ''"
  using nat_str_chars by (auto simp: int_str_def split: if_splits)

lemma int_str_field:
  "takeWhile (\<lambda>c. c \<noteq> CHR '' '') (int_str i @ CHR '' '' # s) = int_str i"
  "dropWhile (\<lambda>c. c \<noteq> CHR '' '') (int_str i @ CHR '' '' # s) = CHR '' '' # s"
  using int_str_chars [of _ i] by (simp_all add: takeWhile_append2 dropWhile_append2)

lemma sample_jwt_laws: "jwt_laws sample_jwt"
  unfolding jwt_laws_def
proof (intro allI ballI impI)
  fix now now' subject ty delta key alg
  assume "alg \<in> set hmac_algorithms" and ty: "ty \<in> {''access'', ''refresh''}"
  then have "length alg = 5" by (auto simp: hmac_algorithms_def)
  then show "jwt_decode sample_jwt now' (jwt_encode sample_jwt (token_claims now (JStr subject) ty delta) key alg) key [alg]
      = (if unix_seconds (now + delta) < unix_seconds now' then None else Some (token_claims now (JStr subject) ty delta))"
    using ty by (auto simp: sample_jwt_def sample_encode_def sample_decode_def token_claims_def int_str_field read_int_str)
qed

definition accounts_sample_db :: accounts_db where
  "accounts_sample_db = \<lparr>bd_plans = [], bd_subscriptions = [], bd_entitlements = [], bd_counters = [], bd_events = [],
     bd_users = [7], bd_next = 10, bd_conversions = 0, rd_countries = [], rd_programs = [], rd_versions = [],
     rd_groups = [], rd_conditions = [], rd_outcomes = [], ad_snapshots = [], ad_assessments = [], ad_results = [],
     ad_items = [], ad_roadmaps = [], ad_steps = [], ad_jobs = [],
     us_users = [\<lparr>us_id = 7, us_email = ''ana@example.com'', us_password_hash = ''s:secret-1'', us_role = Member,
       us_is_active = True, us_created_at = 0, us_updated_at = 0\<rparr>]\<rparr>"

theorem token_session_witness:
  "request (get_current_user sample_jwt base_defaults 1000000
      (Some (tp_access_token (issue_tokens sample_jwt base_defaults 0 (uuid_str 7))))) accounts_sample_db
    = (Inr (hd (us_users accounts_sample_db)), accounts_sample_db)
  \<and> refresh_route sample_jwt base_defaults 1000000
      (tp_refresh_token (issue_tokens sample_jwt base_defaults 0 (uuid_str 7)))
    = Inr (issue_tokens sample_jwt base_defaults 1000000 (uuid_str 7))"
proof -
  have d: "jwt_algorithm base_defaults \<in> set hmac_algorithms" "jwt_access_token_expire_minutes base_defaults = 30"
    "jwt_refresh_token_expire_minutes base_defaults = 10080"
    by (simp_all add: base_defaults_def hmac_algorithms_def)
  have "user_by_id accounts_sample_db 7 = Some (hd (us_users accounts_sample_db))"
    "us_is_active (hd (us_users accounts_sample_db))"
    by (simp_all add: user_by_id_def accounts_sample_db_def)
  then show ?thesis
    using token_session [OF sample_jwt_laws d(1), of 7, OF _ refl, of 1000000 0 accounts_sample_db]
    by (simp add: d unix_seconds_def minutes_def)
qed

section \<open>Registration\<close>

definition new_user :: "password_api \<Rightarrow> settings \<Rightarrow> time \<Rightarrow> string \<Rightarrow> string \<Rightarrow> string \<Rightarrow> uuid \<Rightarrow> user" where
  "new_user H cfg now salt email password i =
     \<lparr>us_id = i, us_email = email, us_password_hash = pw_hash H salt password, us_role = role_of_email cfg email,
      us_is_active = True, us_created_at = now, us_updated_at = now\<rparr>"

definition with_user :: "user \<Rightarrow> 'z accounts_db_scheme \<Rightarrow> 'z accounts_db_scheme" where
  "with_user u d = d\<lparr>us_users := us_users d @ [u], bd_users := bd_users d @ [us_id u], bd_next := Suc (bd_next d)\<rparr>"

lemma with_user_ok:
  assumes "users_ok d" and "us_id u \<notin> set (bd_users d)" and "user_by_email d (us_email u) = None"
  shows "users_ok (with_user u d)"
  using assms by (auto simp: users_ok_def with_user_def user_by_email_def find_None_iff)

lemma user_by_email_with_user:
  "user_by_email (with_user u d) e = (case user_by_email d e of Some v \<Rightarrow> Some v | None \<Rightarrow> if us_email u = e then Some u else None)"
  by (simp add: user_by_email_def with_user_def find_append split: option.split)

lemma user_by_id_with_user:
  "users_ok d \<Longrightarrow> us_id u \<notin> set (bd_users d) \<Longrightarrow> user_by_id (with_user u d) (us_id u) = Some u"
  by (auto simp: user_by_id_def with_user_def find_append users_ok_def find_None_iff image_iff split: option.split dest!: find_mem)

lemma register_taken:
  "user_by_email d email = Some v \<Longrightarrow>
   request (register_user J H cfg now salt email password) d = (Inl (HTTPException 409 ''Email already registered''), d)"
  by (simp add: register_user_def get_by_email_def request_def)

lemma register_free:
  assumes "user_by_email d email = None" and "users_ok (with_user (new_user H cfg now salt email password (bd_next d)) d)"
  shows "request (register_user J H cfg now salt email password) d
    = (Inr (new_user H cfg now salt email password (bd_next d), issue_tokens J cfg now (uuid_str (bd_next d))),
       with_user (new_user H cfg now salt email password (bd_next d)) d)"
  using assms
  by (simp add: register_user_def get_by_email_def request_def create_user_def bindO_def new_user_def with_user_def ret_def)

lemma login_known:
  "user_by_email d email = Some u \<Longrightarrow>
   request (login J H cfg now email password) d =
     (if pw_verify H password (us_password_hash u) then Inr (issue_tokens J cfg now (uuid_str (us_id u)))
      else Inl (HTTPException 401 ''Invalid credentials''), d)"
  by (simp add: login_def get_by_email_def request_def ret_def raise_def)

text \<open>Registering a new address creates one active account for it, an administrator exactly when the address is
  one of the configured ones up to case, and leaves the other accounts alone; a second registration of the address
  is refused, and the account logs in with the password given and with no password that the hasher refuses.\<close>

theorem register_then_login:
  assumes ok: "users_ok d" and fresh: "bd_next d \<notin> set (bd_users d)" and free: "user_by_email d email = None"
    and H: "password_laws H"
  shows "\<exists>u d1. request (register_user J H cfg now salt email password) d
        = (Inr (u, issue_tokens J cfg now (uuid_str (us_id u))), d1)
    \<and> users_ok d1 \<and> user_by_email d1 email = Some u \<and> user_by_id d1 (us_id u) = Some u \<and> us_is_active u
    \<and> (us_role u = Admin \<longleftrightarrow> lower email \<in> lower ` set (admin_emails cfg))
    \<and> (\<forall>e. e \<noteq> email \<longrightarrow> user_by_email d1 e = user_by_email d e)
    \<and> request (register_user J H cfg now' salt' email password') d1
        = (Inl (HTTPException 409 ''Email already registered''), d1)
    \<and> request (login J H cfg now' email password) d1 = (Inr (issue_tokens J cfg now' (uuid_str (us_id u))), d1)
    \<and> (\<not> pw_verify H password' (pw_hash H salt password) \<longrightarrow>
        request (login J H cfg now' email password') d1 = (Inl (HTTPException 401 ''Invalid credentials''), d1))"
proof -
  let ?u = "new_user H cfg now salt email password (bd_next d)"
  have u: "us_id ?u = bd_next d" "us_email ?u = email" "us_password_hash ?u = pw_hash H salt password"
    "us_is_active ?u" "us_role ?u = role_of_email cfg email"
    by (simp_all add: new_user_def)
  have ok1: "users_ok (with_user ?u d)" using ok fresh free by (intro with_user_ok) (simp_all add: u)
  have e1: "user_by_email (with_user ?u d) email = Some ?u" by (simp add: user_by_email_with_user free u)
  have i1: "user_by_id (with_user ?u d) (us_id ?u) = Some ?u"
    using ok fresh by (intro user_by_id_with_user) (simp_all add: u)
  have "user_by_email (with_user ?u d) e = user_by_email d e" if "e \<noteq> email" for e
    using that by (simp add: user_by_email_with_user u split: option.split)
  moreover have "us_role ?u = Admin \<longleftrightarrow> lower email \<in> lower ` set (admin_emails cfg)"
    by (simp add: u role_of_email_def)
  moreover have "pw_verify H password (us_password_hash ?u)" using H by (simp add: password_laws_def u)
  ultimately show ?thesis
    using register_free [OF free ok1, of J] ok1 e1 i1 register_taken [OF e1] login_known [OF e1] u
    by (intro exI [of _ ?u] exI [of _ "with_user ?u d"]) simp
qed

definition sample_hasher :: password_api where
  "sample_hasher = \<lparr>pw_hash = (\<lambda>salt p. nat_str (length salt) @ '':'' @ salt @ p),
     pw_verify = (\<lambda>p h. let n = takeWhile (\<lambda>c. c \<noteq> CHR '':'') h in drop (length n + 1 + digits_val n) h = p)\<rparr>"

lemma nat_str_field: "takeWhile (\<lambda>c. c \<noteq> CHR '':'') (nat_str n @ CHR '':'' # s) = nat_str n"
  using nat_str_chars [of _ n] by (simp add: takeWhile_append2)

lemma sample_hasher_laws: "password_laws sample_hasher"
  by (simp add: password_laws_def sample_hasher_def nat_str_field digits_val_nat_str)

theorem register_then_login_witness:
  "\<exists>u d1. request (register_user sample_jwt sample_hasher (base_defaults\<lparr>admin_emails := [''Root@example.com'']\<rparr>)
        5 ''s'' ''root@example.com'' ''secret-2'') accounts_sample_db
      = (Inr (u, issue_tokens sample_jwt (base_defaults\<lparr>admin_emails := [''Root@example.com'']\<rparr>) 5 (uuid_str (us_id u))), d1)
    \<and> us_role u = Admin
    \<and> request (login sample_jwt sample_hasher (base_defaults\<lparr>admin_emails := [''Root@example.com'']\<rparr>) 6
        ''root@example.com'' ''guess-22'') d1 = (Inl (HTTPException 401 ''Invalid credentials''), d1)"
proof -
  let ?cfg = "base_defaults\<lparr>admin_emails := [''Root@example.com'']\<rparr>"
  have 1: "users_ok accounts_sample_db" "bd_next accounts_sample_db \<notin> set (bd_users accounts_sample_db)"
    "user_by_email accounts_sample_db ''root@example.com'' = None"
    by (simp_all add: users_ok_def accounts_sample_db_def user_by_email_def)
  have 2: "lower ''root@example.com'' \<in> lower ` set (admin_emails ?cfg)"
    by code_simp
  have 3: "\<not> pw_verify sample_hasher ''guess-22'' (pw_hash sample_hasher ''s'' ''secret-2'')"
    by (simp add: sample_hasher_def nat_str.simps digit_char_def code_def digits_val_def)
  show ?thesis
    using register_then_login [OF 1 sample_hasher_laws, of sample_jwt ?cfg 5 "''s''" "''secret-2''" 6 "''t''" "''guess-22''"] 2 3
    by blast
qed

end
