(* ===== verification/Rate_Limit.thy ===== *)
theory Rate_Limit
  imports Py_Time Py_Json Settings
begin

text \<open>
  The rate limiter, \<open>src/app/core/rate_limit.py\<close>, and the counter store it uses,
  \<open>src/app/core/redis.py\<close>: \<open>InMemoryRedis\<close>, and the fallback that counts in a table of the module
  when the store raises. The clock is read once per request; its readings are exact instants.
\<close>

record limiter =
  lm_store :: "(int \<times> time option) dict"
  lm_fallback :: "(int \<times> time) dict"

definition empty_limiter :: limiter where
  "empty_limiter = \<lparr>lm_store = [], lm_fallback = []\<rparr>"

section \<open>The store\<close>

definition dict_pop :: "string \<Rightarrow> 'v dict \<Rightarrow> 'v dict" where
  "dict_pop k d = filter (\<lambda>(k', _). k' \<noteq> k) d"

definition delete_if_expired :: "time \<Rightarrow> string \<Rightarrow> (limiter, unit) op" where
  "delete_if_expired now key = modify (\<lambda>s.
     case dict_get (lm_store s) key of
       Some (_, Some expires_at) \<Rightarrow> if expires_at \<le> now then s\<lparr>lm_store := dict_pop key (lm_store s)\<rparr> else s
     | _ \<Rightarrow> s)"

definition memory_incr :: "time \<Rightarrow> string \<Rightarrow> (limiter, int) op" where
  "memory_incr now key =
     bindO (delete_if_expired now key) (\<lambda>_.
     bindO (read (\<lambda>s. case dict_get (lm_store s) key of None \<Rightarrow> (0, None) | Some item \<Rightarrow> item)) (\<lambda>(value, expires_at).
     bindO (modify (\<lambda>s. s\<lparr>lm_store := dict_set key (value + 1, expires_at) (lm_store s)\<rparr>)) (\<lambda>_.
     ret (value + 1))))"

definition memory_expire :: "time \<Rightarrow> string \<Rightarrow> int \<Rightarrow> (limiter, bool) op" where
  "memory_expire now key window_seconds =
     bindO (delete_if_expired now key) (\<lambda>_.
     bindO (read (\<lambda>s. dict_get (lm_store s) key)) (\<lambda>item.
     case item of
       None \<Rightarrow> ret False
     | Some (value, _) \<Rightarrow>
         bindO (modify (\<lambda>s. s\<lparr>lm_store := dict_set key (value, Some (now + seconds window_seconds)) (lm_store s)\<rparr>))
           (\<lambda>_. ret True)))"

text \<open>What the limiter uses of a client; \<open>get_redis_client\<close> returns the one in memory.\<close>

record redis_client =
  rc_incr :: "time \<Rightarrow> string \<Rightarrow> (limiter, int) op"
  rc_expire :: "time \<Rightarrow> string \<Rightarrow> int \<Rightarrow> (limiter, bool) op"

definition get_redis_client :: redis_client where
  "get_redis_client = \<lparr>rc_incr = memory_incr, rc_expire = memory_expire\<rparr>"

section \<open>The limiter\<close>

definition route_key :: "string option \<Rightarrow> string \<Rightarrow> string" where
  "route_key route_path url_path = (case route_path of Some p \<Rightarrow> p | None \<Rightarrow> url_path)"

definition identity_key :: "string option \<Rightarrow> uuid option \<Rightarrow> string" where
  "identity_key client_host user =
     (case user of
        Some u \<Rightarrow> ''user:'' @ uuid_str u
      | None \<Rightarrow> ''ip:'' @ (case client_host of Some h \<Rightarrow> h | None \<Rightarrow> ''unknown''))"

definition allow_fallback :: "time \<Rightarrow> string \<Rightarrow> int \<Rightarrow> int \<Rightarrow> (limiter, bool) op" where
  "allow_fallback now key limit window_seconds =
     bindO (read (\<lambda>s. case dict_get (lm_fallback s) key of None \<Rightarrow> (0, now + seconds window_seconds) | Some item \<Rightarrow> item))
       (\<lambda>(count0, expires0).
     let (count, expires_at) = (if expires0 \<le> now then (0, now + seconds window_seconds) else (count0, expires0))
     in bindO (modify (\<lambda>s. s\<lparr>lm_fallback := dict_set key (count + 1, expires_at) (lm_fallback s)\<rparr>)) (\<lambda>_.
        ret (count + 1 \<le> limit)))"

definition allow_request ::
    "redis_client \<Rightarrow> settings \<Rightarrow> time \<Rightarrow> string \<Rightarrow> int \<Rightarrow> int \<Rightarrow> (limiter, bool) op" where
  "allow_request R cfg now key limit window_seconds =
     catch
       (bindO (rc_incr R now key) (\<lambda>counter.
        bindO (if counter = 1 then bindO (rc_expire R now key window_seconds) (\<lambda>_. ret ()) else ret ()) (\<lambda>_.
        ret (counter \<le> limit))))
       (\<lambda>_. if rate_limit_fail_open cfg then allow_fallback now key limit window_seconds
            else raise (HTTPException 503 ''Rate limiter backend unavailable''))"

text \<open>What a request carries: the matched route, the path, the client's address, the current user.\<close>

record visit =
  vi_time :: time
  vi_route_path :: "string option"
  vi_url_path :: string
  vi_client_host :: "string option"
  vi_user :: "uuid option"

definition redis_key :: "string \<Rightarrow> string \<Rightarrow> visit \<Rightarrow> string" where
  "redis_key scope identity v =
     ''rate_limit:'' @ scope @ '':'' @ route_key (vi_route_path v) (vi_url_path v) @ '':''
       @ identity_key (vi_client_host v) (if identity = ''user_or_ip'' then vi_user v else None)"

definition rate_limit ::
    "redis_client \<Rightarrow> settings \<Rightarrow> string \<Rightarrow> int \<Rightarrow> int \<Rightarrow> string \<Rightarrow> visit \<Rightarrow> (limiter, unit) op" where
  "rate_limit R cfg scope limit window_seconds identity v =
     (if limit \<le> 0 \<or> window_seconds \<le> 0 then ret ()
      else
        bindO (allow_request R cfg (vi_time v) (redis_key scope identity v) limit window_seconds) (\<lambda>allowed.
        if allowed then ret ()
        else raise (HTTPException 429 (''Rate limit exceeded for scope='' @ [CHR 0x27] @ scope @ [CHR 0x27] @ ''. Try again later.''))))"

end
