(* ===== verification/Rate_Limit_Contract.thy ===== *)
theory Rate_Limit_Contract
  imports Rate_Limit
begin

text \<open>
  The limiter as a fixed-window counter: the abstract window of a key, the locale of the counters
  that implement it, its two instances (the store in memory and the fallback table), and the bound on
  the requests that pass within one window length.
\<close>

section \<open>The abstract counter\<close>

type_synonym window = "int \<times> time"

definition window_step :: "int \<Rightarrow> time \<Rightarrow> window option \<Rightarrow> window" where
  "window_step W now w =
     (case w of Some (c, e) \<Rightarrow> if e \<le> now then (1, now + seconds W) else (c + 1, e) | None \<Rightarrow> (1, now + seconds W))"

text \<open>The counts that a sequence of timed keys sees.\<close>

fun window_counts :: "int \<Rightarrow> (time \<times> string) list \<Rightarrow> (string \<Rightarrow> window option) \<Rightarrow> int list" where
  "window_counts W [] w = []"
| "window_counts W ((t, k) # hs) w =
     (let n = window_step W t (w k) in fst n # window_counts W hs (w(k \<mapsto> n)))"

section \<open>Counters\<close>

locale window_counter =
  fixes hit :: "int \<Rightarrow> time \<Rightarrow> string \<Rightarrow> 's \<Rightarrow> int \<times> 's"
    and view :: "'s \<Rightarrow> string \<Rightarrow> window option"
    and ok :: "'s \<Rightarrow> bool"
  assumes hit_count: "0 < W \<Longrightarrow> ok s \<Longrightarrow> fst (hit W t k s) = fst (window_step W t (view s k))"
    and hit_view: "0 < W \<Longrightarrow> ok s \<Longrightarrow> view (snd (hit W t k s)) = (view s)(k \<mapsto> window_step W t (view s k))"
    and hit_ok: "0 < W \<Longrightarrow> ok s \<Longrightarrow> ok (snd (hit W t k s))"
begin

fun hits :: "int \<Rightarrow> (time \<times> string) list \<Rightarrow> 's \<Rightarrow> int list \<times> 's" where
  "hits W [] s = ([], s)"
| "hits W ((t, k) # hs) s =
     (case hit W t k s of (c, s1) \<Rightarrow> (case hits W hs s1 of (cs, s2) \<Rightarrow> (c # cs, s2)))"

lemma hits_counts: "0 < W \<Longrightarrow> ok s \<Longrightarrow> fst (hits W hs s) = window_counts W hs (view s)"
proof (induction hs arbitrary: s)
  case (Cons h hs)
  obtain t k where h: "h = (t, k)" by fastforce
  obtain c s1 where c: "hit W t k s = (c, s1)" by fastforce
  have 1: "c = fst (window_step W t (view s k))" "view s1 = (view s)(k \<mapsto> window_step W t (view s k))" "ok s1"
    using hit_count [OF Cons.prems, of t k] hit_view [OF Cons.prems, of t k] hit_ok [OF Cons.prems, of t k] c by simp_all
  show ?case using Cons.IH [OF Cons.prems(1) 1(3)] 1(1) unfolding 1(2) by (simp add: h c Let_def case_prod_beta fun_upd_def)
qed simp

end

section \<open>The bound\<close>

text \<open>The visits of one key, and how many of them stay within the limit.\<close>

fun within_limit :: "int \<Rightarrow> int \<Rightarrow> time list \<Rightarrow> window option \<Rightarrow> nat" where
  "within_limit W n [] w = 0"
| "within_limit W n (t # ts) w =
     (let x = window_step W t w in (if fst x \<le> n then 1 else 0) + within_limit W n ts (Some x))"

lemma within_limit_same_window:
  "\<forall>t\<in>set ts. t < e \<Longrightarrow> int (within_limit W n ts (Some (c, e))) \<le> max 0 (n - c)"
proof (induction ts arbitrary: c)
  case (Cons t ts)
  then have "int (within_limit W n ts (Some (c + 1, e))) \<le> max 0 (n - (c + 1))" by simp
  with Cons.prems show ?case by (auto simp: Let_def window_step_def max_def split: if_splits)
qed simp

lemma within_limit_fresh:
  assumes "\<forall>t\<in>set ts. t < t0 + seconds W" and "0 \<le> n"
  shows "int (within_limit W n ts (Some (1, t0 + seconds W))) + (if 1 \<le> n then 1 else 0) \<le> n"
  using within_limit_same_window [of ts "t0 + seconds W" W n 1] assms by auto

lemma within_limit_twice:
  assumes "sorted ts" and "\<forall>t\<in>set ts. a \<le> t \<and> t < a + seconds W" and "0 \<le> n" and "0 \<le> c"
  shows "int (within_limit W n ts (Some (c, e))) \<le> max 0 (n - c) + n"
  using assms
proof (induction ts arbitrary: c)
  case (Cons t ts)
  show ?case
  proof (cases "e \<le> t")
    case True
    have "\<forall>x\<in>set ts. x < t + seconds W" using Cons.prems by fastforce
    from within_limit_fresh [OF this Cons.prems(3)] True show ?thesis
      by (auto simp: Let_def window_step_def split: if_splits)
  next
    case False
    have "int (within_limit W n ts (Some (c + 1, e))) \<le> max 0 (n - (c + 1)) + n"
      using Cons.prems by (intro Cons.IH) simp_all
    with False show ?thesis by (auto simp: Let_def window_step_def max_def split: if_splits)
  qed
qed simp

lemma within_limit_bound:
  assumes "sorted ts" and "\<forall>t\<in>set ts. a \<le> t \<and> t < a + seconds W" and "0 \<le> n"
    and "\<forall>c e. w = Some (c, e) \<longrightarrow> 0 \<le> c"
  shows "int (within_limit W n ts w) \<le> 2 * n"
proof (cases w)
  case None
  show ?thesis
  proof (cases ts)
    case (Cons t us)
    have "\<forall>x\<in>set us. x < t + seconds W" using assms Cons by fastforce
    from within_limit_fresh [OF this assms(3)] Cons None show ?thesis
      using assms(3) by (auto simp: Let_def window_step_def split: if_splits)
  qed (simp add: assms)
next
  case (Some x)
  obtain c e where x: "x = (c, e)" by fastforce
  have "int (within_limit W n ts (Some (c, e))) \<le> max 0 (n - c) + n"
    using assms Some x by (intro within_limit_twice) auto
  with assms Some x show ?thesis by auto
qed

lemma counts_within_limit:
  "length (filter (\<lambda>((t, k), c). k = key \<and> c \<le> n) (zip hs (window_counts W hs w)))
   = within_limit W n (map fst (filter (\<lambda>(t, k). k = key) hs)) (w key)"
  by (induction hs arbitrary: w) (auto simp: Let_def split: prod.splits)

section \<open>The two counters of the code\<close>

definition memory_hit :: "int \<Rightarrow> time \<Rightarrow> string \<Rightarrow> limiter \<Rightarrow> int \<times> limiter" where
  "memory_hit W now k s =
     (case memory_incr now k s of
        (Inr c, s1) \<Rightarrow> (c, if c = 1 then snd (memory_expire now k W s1) else s1)
      | (Inl _, s1) \<Rightarrow> (0, s1))"

definition memory_view :: "limiter \<Rightarrow> string \<Rightarrow> window option" where
  "memory_view s k = (case dict_get (lm_store s) k of Some (c, Some e) \<Rightarrow> Some (c, e) | _ \<Rightarrow> None)"

text \<open>Every counter has its expiry and counts at least one request.\<close>

definition memory_ok :: "limiter \<Rightarrow> bool" where
  "memory_ok s \<longleftrightarrow> (\<forall>k c x. dict_get (lm_store s) k = Some (c, x) \<longrightarrow> x \<noteq> None \<and> 1 \<le> c)"

lemma dict_get_pop [simp]: "dict_get (dict_pop k d) k' = (if k' = k then None else dict_get d k')"
  by (induction d) (auto simp: dict_pop_def)

lemma memory_hit_new:
  assumes "dict_get (lm_store s) k = None \<or> (\<exists>c e. dict_get (lm_store s) k = Some (c, Some e) \<and> e \<le> t)"
  shows "\<exists>d. memory_hit W t k s = (1, s\<lparr>lm_store := d\<rparr>)
    \<and> dict_get d = (dict_get (lm_store s))(k \<mapsto> (1, Some (t + seconds W)))"
  using assms
  by (auto simp: memory_hit_def memory_incr_def memory_expire_def delete_if_expired_def fun_eq_iff)

lemma memory_hit_old:
  assumes "dict_get (lm_store s) k = Some (c, Some e)" and "\<not> e \<le> t" and "1 \<le> c"
  shows "memory_hit W t k s = (c + 1, s\<lparr>lm_store := dict_set k (c + 1, Some e) (lm_store s)\<rparr>)"
  using assms by (simp add: memory_hit_def memory_incr_def delete_if_expired_def)

lemma memory_hit_cases:
  assumes "memory_ok s"
  shows "\<exists>d. memory_hit W t k s = (fst (window_step W t (memory_view s k)), s\<lparr>lm_store := d\<rparr>)
    \<and> dict_get d = (dict_get (lm_store s))(k \<mapsto> map_prod id Some (window_step W t (memory_view s k)))
    \<and> 1 \<le> fst (window_step W t (memory_view s k))"
proof (cases "dict_get (lm_store s) k")
  case None
  with memory_hit_new [of s k t W] show ?thesis by (auto simp: memory_view_def window_step_def)
next
  case (Some x)
  obtain c e where x: "x = (c, Some e)" and c: "1 \<le> c"
    using assms Some unfolding memory_ok_def by (cases x) blast
  show ?thesis
  proof (cases "e \<le> t")
    case True
    with memory_hit_new [of s k t W] Some x show ?thesis by (auto simp: memory_view_def window_step_def)
  next
    case False
    with memory_hit_old [of s k c e t W] Some x c show ?thesis
      by (auto simp: memory_view_def window_step_def fun_eq_iff)
  qed
qed

interpretation ml: window_counter memory_hit memory_view memory_ok
proof
  fix W :: int and s t k
  assume "memory_ok s"
  from memory_hit_cases [OF this, of W t k] obtain d where
    d: "memory_hit W t k s = (fst (window_step W t (memory_view s k)), s\<lparr>lm_store := d\<rparr>)"
    "dict_get d = (dict_get (lm_store s))(k \<mapsto> map_prod id Some (window_step W t (memory_view s k)))"
    "1 \<le> fst (window_step W t (memory_view s k))" by blast
  show "fst (memory_hit W t k s) = fst (window_step W t (memory_view s k))" by (simp add: d)
  show "memory_view (snd (memory_hit W t k s)) = (memory_view s)(k \<mapsto> window_step W t (memory_view s k))"
    by (cases "window_step W t (memory_view s k)")
      (simp add: d fun_eq_iff memory_view_def [of "s\<lparr>lm_store := d\<rparr>"], simp add: memory_view_def)
  show "memory_ok (snd (memory_hit W t k s))"
    using d(3) \<open>memory_ok s\<close> by (cases "window_step W t (memory_view s k)") (auto simp: d(1,2) memory_ok_def split: if_splits)
qed

definition fallback_hit :: "int \<Rightarrow> time \<Rightarrow> string \<Rightarrow> limiter \<Rightarrow> int \<times> limiter" where
  "fallback_hit W now k s =
     (let n = window_step W now (dict_get (lm_fallback s) k) in (fst n, s\<lparr>lm_fallback := dict_set k n (lm_fallback s)\<rparr>))"

interpretation fb: window_counter fallback_hit "\<lambda>s. dict_get (lm_fallback s)" "\<lambda>_. True"
  by unfold_locales (auto simp: fallback_hit_def Let_def fun_eq_iff)

lemma allow_memory:
  "allow_request get_redis_client cfg t k n W s = (case memory_hit W t k s of (c, s1) \<Rightarrow> (Inr (c \<le> n), s1))"
  by (simp add: allow_request_def get_redis_client_def memory_hit_def catch_def bindO_def memory_incr_def
      memory_expire_def delete_if_expired_def split: prod.splits option.splits)

text \<open>A client whose store does not answer.\<close>

definition down :: "redis_client \<Rightarrow> bool" where
  "down R \<longleftrightarrow> (\<forall>t k s. \<exists>e. rc_incr R t k s = (Inl e, s))"

lemma allow_down:
  assumes "down R" and "rate_limit_fail_open cfg" and "0 < W"
  shows "allow_request R cfg t k n W s = (case fallback_hit W t k s of (c, s1) \<Rightarrow> (Inr (c \<le> n), s1))"
proof -
  obtain e where "rc_incr R t k s = (Inl e, s)" using assms(1) unfolding down_def by blast
  with assms(2,3) show ?thesis
    by (simp add: allow_request_def catch_def bindO_def allow_fallback_def fallback_hit_def window_step_def
        seconds_def Let_def split: option.splits prod.splits)
qed

section \<open>Sequences of visits\<close>

fun serve_visits :: "(visit \<Rightarrow> (limiter, unit) op) \<Rightarrow> visit list \<Rightarrow> limiter \<Rightarrow> unit result list" where
  "serve_visits m [] s = []"
| "serve_visits m (v # vs) s = (case m v s of (r, s1) \<Rightarrow> r # serve_visits m vs s1)"

definition limit_answer :: "string \<Rightarrow> int \<Rightarrow> int \<Rightarrow> unit result" where
  "limit_answer scope n c = (if c \<le> n then Inr () else Inl (HTTPException 429
     (''Rate limit exceeded for scope='' @ [CHR 0x27] @ scope @ [CHR 0x27] @ ''. Try again later.'')))"

definition keyed :: "string \<Rightarrow> string \<Rightarrow> visit list \<Rightarrow> (time \<times> string) list" where
  "keyed scope identity vs = map (\<lambda>v. (vi_time v, redis_key scope identity v)) vs"

lemma serve_counter:
  assumes "0 < n" and "0 < W"
    and "\<And>t k s. allow_request R cfg t k n W s = (case hit W t k s of (c, s1) \<Rightarrow> (Inr (c \<le> n), s1))"
    and "window_counter hit view ok" and "ok s"
  shows "serve_visits (rate_limit R cfg scope n W identity) vs s
    = map (limit_answer scope n) (window_counts W (keyed scope identity vs) (view s))"
  using assms(5)
proof (induction vs arbitrary: s)
  case (Cons v vs)
  let ?t = "vi_time v" and ?k = "redis_key scope identity v"
  obtain c s1 where c: "hit W ?t ?k s = (c, s1)" by fastforce
  have "c = fst (window_step W ?t (view s ?k))" "view s1 = (view s)(?k \<mapsto> window_step W ?t (view s ?k))" "ok s1"
    using window_counter.hit_count [OF assms(4,2) Cons.prems, of ?t ?k]
      window_counter.hit_view [OF assms(4,2) Cons.prems, of ?t ?k]
      window_counter.hit_ok [OF assms(4,2) Cons.prems, of ?t ?k] c by simp_all
  moreover have "rate_limit R cfg scope n W identity v s = (limit_answer scope n c, s1)"
    using assms(1,2) by (simp add: rate_limit_def bindO_def assms(3) c limit_answer_def)
  ultimately show ?case
    using Cons.IH [of s1] by (simp add: keyed_def Let_def fun_upd_def)
qed (simp add: keyed_def)

lemma serve_memory:
  assumes "0 < n" and "0 < W" and "memory_ok s"
  shows "serve_visits (rate_limit get_redis_client cfg scope n W identity) vs s
    = map (limit_answer scope n) (window_counts W (keyed scope identity vs) (memory_view s))"
  by (rule serve_counter [OF assms(1,2) allow_memory ml.window_counter_axioms assms(3)])

lemma serve_down:
  assumes "0 < n" and "0 < W" and "down R" and "rate_limit_fail_open cfg"
  shows "serve_visits (rate_limit R cfg scope n W identity) vs s
    = map (limit_answer scope n) (window_counts W (keyed scope identity vs) (dict_get (lm_fallback s)))"
  by (rule serve_counter [OF assms(1,2) allow_down [OF assms(3,4,2)] fb.window_counter_axioms]) simp

section \<open>Properties\<close>

text \<open>C37. For every sequence of visits, in whatever order of times and keys, the limiter answers as the abstract
  fixed-window counter per key does, and so does the fallback when the store of counters fails and the
  configuration lets requests pass: both implementations agree.\<close>

theorem rate_limit_fixed_window:
  assumes n: "0 < n" and W: "0 < W" and R: "down R" and "rate_limit_fail_open cfg"
  shows "serve_visits (rate_limit get_redis_client cfg scope n W identity) vs empty_limiter
      = map (limit_answer scope n) (window_counts W (keyed scope identity vs) (\<lambda>_. None))
    \<and> serve_visits (rate_limit R cfg scope n W identity) vs empty_limiter
      = map (limit_answer scope n) (window_counts W (keyed scope identity vs) (\<lambda>_. None))"
proof -
  have e: "memory_ok empty_limiter" "memory_view empty_limiter = (\<lambda>_. None)"
    "dict_get (lm_fallback empty_limiter) = (\<lambda>_. None)"
    by (simp_all add: empty_limiter_def memory_ok_def memory_view_def fun_eq_iff)
  show ?thesis
    using serve_memory [OF n W e(1), of cfg] serve_down [OF n W R assms(4), of scope identity vs empty_limiter]
    by (simp add: e)
qed

definition sample_visit :: "time \<Rightarrow> string \<Rightarrow> visit" where
  "sample_visit t host = \<lparr>vi_time = t, vi_route_path = Some ''/api/v1/auth/login'',
     vi_url_path = ''/api/v1/auth/login'', vi_client_host = Some host, vi_user = None\<rparr>"

definition broken_client :: redis_client where
  "broken_client = \<lparr>rc_incr = (\<lambda>_ _ s. (Inl (ConnectionError ''refused''), s)),
     rc_expire = (\<lambda>_ _ _ s. (Inl (ConnectionError ''refused''), s))\<rparr>"

theorem rate_limit_fixed_window_witness:
  "map isl (serve_visits (rate_limit broken_client base_defaults ''auth'' 2 60 ''user_or_ip'')
      [sample_visit 0 ''a'', sample_visit 1 ''a'', sample_visit 2 ''b'', sample_visit 3 ''a'', sample_visit 60000000 ''a'']
      empty_limiter) = [False, False, False, True, False]"
proof -
  have R: "down broken_client" "rate_limit_fail_open base_defaults"
    by (simp_all add: down_def broken_client_def base_defaults_def)
  have k: "redis_key ''auth'' ''user_or_ip'' (sample_visit t h) = ''rate_limit:auth:/api/v1/auth/login:ip:'' @ h" for t h
    by (simp add: redis_key_def sample_visit_def route_key_def identity_key_def)
  have t: "vi_time (sample_visit t h) = t" for t h by (simp add: sample_visit_def)
  show ?thesis
    using rate_limit_fixed_window [OF _ _ R, of 2 60 "''auth''" "''user_or_ip''"
        "[sample_visit 0 ''a'', sample_visit 1 ''a'', sample_visit 2 ''b'', sample_visit 3 ''a'', sample_visit 60000000 ''a'']"]
    by (simp add: keyed_def k t window_step_def seconds_def limit_answer_def Let_def)
qed

text \<open>Among visits in the order of time, from any state the limiter reaches, at most twice the limit of one key
  pass within an interval shorter than the window, whatever the visits of the other keys.\<close>

theorem rate_limit_bound:
  assumes n: "0 < n" and W: "0 < W" and ok: "memory_ok s" and "sorted (map vi_time vs)"
    and "\<forall>v\<in>set vs. redis_key scope identity v = key \<longrightarrow> a \<le> vi_time v \<and> vi_time v < a + seconds W"
  shows "int (length (filter (\<lambda>(v, r). redis_key scope identity v = key \<and> r = Inr ())
      (zip vs (serve_visits (rate_limit get_redis_client cfg scope n W identity) vs s)))) \<le> 2 * n"
proof -
  let ?hs = "keyed scope identity vs" and ?w = "memory_view s"
  let ?ts = "map fst (filter (\<lambda>(t, k). k = key) ?hs)"
  have ts: "?ts = map vi_time (filter (\<lambda>v. redis_key scope identity v = key) vs)"
    by (induction vs) (simp_all add: keyed_def)
  have "sorted ?ts" unfolding ts using assms(4) by (rule sorted_filter)
  moreover have "\<forall>t\<in>set ?ts. a \<le> t \<and> t < a + seconds W" unfolding ts using assms(5) by auto
  moreover have "\<forall>c e. ?w key = Some (c, e) \<longrightarrow> 0 \<le> c"
    using ok by (fastforce simp: memory_view_def memory_ok_def split: option.splits)
  ultimately have "int (within_limit W n ?ts (?w key)) \<le> 2 * n" using n by (intro within_limit_bound) simp_all
  moreover have "length (filter (\<lambda>(v, r). redis_key scope identity v = key \<and> r = Inr ())
      (zip vs (map (limit_answer scope n) cs)))
    = length (filter (\<lambda>((t, k), c). k = key \<and> c \<le> n) (zip ?hs cs))" for cs
    by (simp add: keyed_def zip_map1 zip_map2 filter_map comp_def case_prod_beta limit_answer_def)
      (metis (no_types, lifting))
  ultimately show ?thesis
    unfolding serve_memory [OF n W ok] by (simp add: counts_within_limit)
qed

theorem rate_limit_bound_witness:
  "int (length (filter (\<lambda>(v, r). redis_key ''auth'' ''user_or_ip'' v = redis_key ''auth'' ''user_or_ip'' (sample_visit 0 ''a'') \<and> r = Inr ())
      (zip (map (\<lambda>t. sample_visit t ''a'') [0, 10, 20])
        (serve_visits (rate_limit get_redis_client base_defaults ''auth'' 1 60 ''user_or_ip'')
          (map (\<lambda>t. sample_visit t ''a'') [0, 10, 20]) empty_limiter)))) \<le> 2 * 1"
proof (rule rate_limit_bound)
  show "memory_ok empty_limiter" by (simp add: memory_ok_def empty_limiter_def)
  show "\<forall>v\<in>set (map (\<lambda>t. sample_visit t ''a'') [0, 10, 20]).
      redis_key ''auth'' ''user_or_ip'' v = redis_key ''auth'' ''user_or_ip'' (sample_visit 0 ''a'')
      \<longrightarrow> 0 \<le> vi_time v \<and> vi_time v < 0 + seconds 60"
    by (simp add: sample_visit_def seconds_def)
qed (simp_all add: sample_visit_def)

end
