(* ===== verification/Ingestion.thy ===== *)
theory Ingestion
  imports Rules Engine
begin

text \<open>
  The tables of the ingestion pipeline, \<open>src/apps/ingestion/models.py\<close>, with the constraints of the
  schema; the repository, \<open>repositories.py\<close>; and the gateway with its retries and the quarantine of
  failing sources, \<open>gateway.py\<close>. The rows of a query without a total order come in the order of
  insertion.
\<close>

section \<open>Tables\<close>

datatype source_type = src_html | src_pdf | src_api

datatype run_trigger = scheduled | manual | reprocess

datatype run_status = run_pending | run_running | run_completed | run_failed | run_quarantined

datatype item_status =
  item_pending | item_running | item_skipped | item_completed | item_failed | item_manual_review | item_quarantined

datatype parser_mode = deterministic | llm_fallback

fun source_type_value :: "source_type \<Rightarrow> string" where
  "source_type_value src_html = ''html''"
| "source_type_value src_pdf = ''pdf''"
| "source_type_value src_api = ''api''"

fun item_status_value :: "item_status \<Rightarrow> string" where
  "item_status_value item_pending = ''pending''"
| "item_status_value item_running = ''running''"
| "item_status_value item_skipped = ''skipped''"
| "item_status_value item_completed = ''completed''"
| "item_status_value item_failed = ''failed''"
| "item_status_value item_manual_review = ''manual_review''"
| "item_status_value item_quarantined = ''quarantined''"

fun parser_mode_value :: "parser_mode \<Rightarrow> string" where
  "parser_mode_value deterministic = ''deterministic''"
| "parser_mode_value llm_fallback = ''llm_fallback''"

record source_row =
  sr_id :: uuid
  sr_created_at :: time
  sr_source_key :: string
  sr_country_code :: string
  sr_country_name :: string
  sr_program_code :: string
  sr_program_name :: string
  sr_source_type :: source_type
  sr_source_url :: string
  sr_robots_url :: "string option"
  sr_terms_url :: "string option"
  sr_schedule_cron :: "string option"
  sr_parser_name :: string
  sr_parser_version :: string
  sr_confidence_threshold :: rat
  sr_is_active :: bool
  sr_quarantine_until :: "time option"
  sr_quarantine_reason :: "string option"
  sr_consecutive_failures :: int
  sr_metadata_json :: "json dict"

record ingestion_run =
  ir_id :: uuid
  ir_created_at :: time
  ir_trigger_type :: run_trigger
  ir_status :: run_status
  ir_requested_by :: "string option"
  ir_trace_id :: "string option"
  ir_started_at :: "time option"
  ir_completed_at :: "time option"
  ir_total_items :: int
  ir_processed_items :: int
  ir_success_items :: int
  ir_failed_items :: int
  ir_notes :: "string option"
  ir_metadata_json :: "json dict"

record run_item =
  im_id :: uuid
  im_created_at :: time
  im_ingestion_run_id :: uuid
  im_source_id :: uuid
  im_status :: item_status
  im_attempt_number :: int
  im_started_at :: "time option"
  im_completed_at :: "time option"
  im_collected_at :: "time option"
  im_fetch_etag :: "string option"
  im_fetch_last_modified :: "string option"
  im_raw_hash_sha256 :: "string option"
  im_semantic_hash_sha256 :: "string option"
  im_parser_used :: "string option"
  im_parser_mode :: parser_mode
  im_confidence_score :: "rat option"
  im_manual_review_required :: bool
  im_error_message :: "string option"
  im_diff_summary_json :: "json dict"
  im_metadata_json :: "json dict"

record bronze_document =
  bz_id :: uuid
  bz_created_at :: time
  bz_source_id :: uuid
  bz_ingestion_run_item_id :: uuid
  bz_source_url :: string
  bz_content_type :: "string option"
  bz_content_length :: "int option"
  bz_storage_bucket :: string
  bz_storage_path :: string
  bz_storage_uri :: string
  bz_checksum_sha256 :: string
  bz_metadata_json :: "json dict"

record silver_section =
  sv_id :: uuid
  sv_created_at :: time
  sv_ingestion_run_item_id :: uuid
  sv_section_key :: string
  sv_heading :: "string option"
  sv_section_order :: int
  sv_text_content :: string
  sv_semantic_hash_sha256 :: string
  sv_metadata_json :: "json dict"

record source_document =
  sd_id :: uuid
  sd_created_at :: time
  sd_source_id :: "uuid option"
  sd_ingestion_run_item_id :: "uuid option"
  sd_program_version_id :: "uuid option"
  sd_title :: string
  sd_source_url :: string
  sd_checksum_sha256 :: "string option"
  sd_raw_storage_uri :: "string option"
  sd_published_at :: "time option"
  sd_metadata_json :: "json dict"

record source_extraction =
  se_id :: uuid
  se_created_at :: time
  se_source_document_id :: uuid
  se_extraction_version :: string
  se_extracted_text :: "string option"
  se_structured_data_json :: json
  se_confidence_score :: "rat option"
  se_parser_used :: "string option"
  se_parser_mode :: parser_mode
  se_manual_review_required :: bool
  se_semantic_hash_sha256 :: "string option"
  se_extraction_metadata_json :: "json dict"

record ingest_db = rules_db +
  gd_sources :: "source_row list"
  gd_runs :: "ingestion_run list"
  gd_items :: "run_item list"
  gd_bronze :: "bronze_document list"
  gd_sections :: "silver_section list"
  gd_documents :: "source_document list"
  gd_extractions :: "source_extraction list"

section \<open>Constraints\<close>

definition sources_ok :: "'z ingest_db_scheme \<Rightarrow> bool" where
  "sources_ok d \<longleftrightarrow> distinct (map sr_id (gd_sources d)) \<and> distinct (map sr_source_key (gd_sources d))"

definition runs_ok :: "'z ingest_db_scheme \<Rightarrow> bool" where
  "runs_ok d \<longleftrightarrow> distinct (map ir_id (gd_runs d))"

definition run_items_ok :: "'z ingest_db_scheme \<Rightarrow> bool" where
  "run_items_ok d \<longleftrightarrow> distinct (map im_id (gd_items d))
     \<and> distinct (map (\<lambda>i. (im_ingestion_run_id i, im_source_id i)) (gd_items d))
     \<and> list_all (\<lambda>i. im_ingestion_run_id i \<in> set (map ir_id (gd_runs d))
          \<and> im_source_id i \<in> set (map sr_id (gd_sources d))) (gd_items d)"

definition bronze_ok :: "'z ingest_db_scheme \<Rightarrow> bool" where
  "bronze_ok d \<longleftrightarrow> distinct (map bz_id (gd_bronze d)) \<and> distinct (map bz_ingestion_run_item_id (gd_bronze d))
     \<and> list_all (\<lambda>b. bz_ingestion_run_item_id b \<in> set (map im_id (gd_items d))
          \<and> bz_source_id b \<in> set (map sr_id (gd_sources d))) (gd_bronze d)"

definition sections_ok :: "'z ingest_db_scheme \<Rightarrow> bool" where
  "sections_ok d \<longleftrightarrow> distinct (map sv_id (gd_sections d))
     \<and> distinct (map (\<lambda>s. (sv_ingestion_run_item_id s, sv_section_key s)) (gd_sections d))
     \<and> list_all (\<lambda>s. sv_ingestion_run_item_id s \<in> set (map im_id (gd_items d))) (gd_sections d)"

text \<open>The unique key of a document is its version and address; rows without a version never collide.\<close>

definition document_keys :: "'z ingest_db_scheme \<Rightarrow> (uuid \<times> string) list" where
  "document_keys d = map (\<lambda>s. (the (sd_program_version_id s), sd_source_url s))
     (filter (\<lambda>s. sd_program_version_id s \<noteq> None) (gd_documents d))"

definition documents_ok :: "'z ingest_db_scheme \<Rightarrow> bool" where
  "documents_ok d \<longleftrightarrow> distinct (map sd_id (gd_documents d)) \<and> distinct (document_keys d)
     \<and> list_all (\<lambda>s. fk (sd_source_id s) (map sr_id (gd_sources d))
          \<and> fk (sd_ingestion_run_item_id s) (map im_id (gd_items d))
          \<and> fk (sd_program_version_id s) (map pv_id (rd_versions d))) (gd_documents d)"

definition extractions_ok :: "'z ingest_db_scheme \<Rightarrow> bool" where
  "extractions_ok d \<longleftrightarrow> distinct (map se_id (gd_extractions d))
     \<and> distinct (map (\<lambda>e. (se_source_document_id e, se_extraction_version e)) (gd_extractions d))
     \<and> list_all (\<lambda>e. se_source_document_id e \<in> set (map sd_id (gd_documents d))) (gd_extractions d)"

definition ingest_ok :: "'z ingest_db_scheme \<Rightarrow> bool" where
  "ingest_ok d \<longleftrightarrow> rules_ok d \<and> sources_ok d \<and> runs_ok d \<and> run_items_ok d \<and> bronze_ok d \<and> sections_ok d
     \<and> documents_ok d \<and> extractions_ok d"

lemmas ingest_ok_defs = ingest_ok_def sources_ok_def runs_ok_def run_items_ok_def bronze_ok_def sections_ok_def
  documents_ok_def extractions_ok_def document_keys_def

type_synonym ('z, 'a) ingest_op = "('z ingest_db_scheme txn, 'a) op"

text \<open>\<open>db.add(row)\<close> and \<open>flush\<close>: a fresh key, the row appended by \<open>add\<close>.\<close>

definition insert_row ::
    "(uuid \<Rightarrow> 'r) \<Rightarrow> ('r \<Rightarrow> 'z ingest_db_scheme \<Rightarrow> 'z ingest_db_scheme) \<Rightarrow> ('z, 'r) ingest_op" where
  "insert_row row_at add =
     bindO (query (\<lambda>d. row_at (bd_next d))) (\<lambda>r.
     bindO (flush ingest_ok (\<lambda>d. (add r d)\<lparr>bd_next := Suc (bd_next d)\<rparr>)) (\<lambda>_. ret r))"

text \<open>The first row of \<open>ORDER BY created_at DESC LIMIT 1\<close>.\<close>

definition latest :: "('r \<Rightarrow> time) \<Rightarrow> 'r list \<Rightarrow> 'r option" where
  "latest created rs = first (sort_key (\<lambda>r. - created r) rs)"

section \<open>Sources\<close>

definition source_by_key :: "'z ingest_db_scheme \<Rightarrow> string \<Rightarrow> source_row option" where
  "source_by_key d k = find (\<lambda>s. sr_source_key s = k) (gd_sources d)"

definition get_source_by_key :: "string \<Rightarrow> ('z, source_row option) ingest_op" where
  "get_source_by_key k = query (\<lambda>d. source_by_key d k)"

definition list_active_sources :: "string option \<Rightarrow> ('z, source_row list) ingest_op" where
  "list_active_sources country_code =
     query (\<lambda>d. sort_key (\<lambda>s. (sr_country_code s, sr_source_key s))
       (filter (\<lambda>s. sr_is_active s \<and> (opt_truthy country_code \<longrightarrow> sr_country_code s = upper (the country_code)))
          (gd_sources d)))"

definition list_sources_for_scheduler :: "time \<Rightarrow> ('z, source_row list) ingest_op" where
  "list_sources_for_scheduler now =
     query (\<lambda>d. filter (\<lambda>s. sr_is_active s \<and> (case sr_quarantine_until s of None \<Rightarrow> True | Some t \<Rightarrow> t \<le> now))
       (gd_sources d))"

record source_seed =
  sx_source_key :: string
  sx_country_code :: string
  sx_country_name :: string
  sx_program_code :: string
  sx_program_name :: string
  sx_source_type :: source_type
  sx_source_url :: string
  sx_robots_url :: "string option"
  sx_terms_url :: "string option"
  sx_schedule_cron :: "string option"
  sx_parser_name :: string
  sx_parser_version :: string
  sx_confidence_threshold :: rat
  sx_metadata_json :: "json dict"

definition seeded_source :: "uuid \<Rightarrow> time \<Rightarrow> source_seed \<Rightarrow> source_row" where
  "seeded_source i now x =
     \<lparr>sr_id = i, sr_created_at = now, sr_source_key = sx_source_key x, sr_country_code = sx_country_code x,
      sr_country_name = sx_country_name x, sr_program_code = sx_program_code x,
      sr_program_name = sx_program_name x, sr_source_type = sx_source_type x, sr_source_url = sx_source_url x,
      sr_robots_url = sx_robots_url x, sr_terms_url = sx_terms_url x, sr_schedule_cron = sx_schedule_cron x,
      sr_parser_name = sx_parser_name x, sr_parser_version = sx_parser_version x,
      sr_confidence_threshold = sx_confidence_threshold x, sr_is_active = True, sr_quarantine_until = None,
      sr_quarantine_reason = None, sr_consecutive_failures = 0, sr_metadata_json = sx_metadata_json x\<rparr>"

text \<open>The columns of the seed overwrite those of the row; the health of the source stays.\<close>

definition reseeded :: "source_row \<Rightarrow> source_seed \<Rightarrow> source_row" where
  "reseeded s x =
     (seeded_source (sr_id s) (sr_created_at s) x)\<lparr>sr_quarantine_until := sr_quarantine_until s,
        sr_quarantine_reason := sr_quarantine_reason s, sr_consecutive_failures := sr_consecutive_failures s\<rparr>"

definition set_source :: "source_row \<Rightarrow> 'z ingest_db_scheme \<Rightarrow> 'z ingest_db_scheme" where
  "set_source s d = d\<lparr>gd_sources := upd_where (\<lambda>x. sr_id x = sr_id s) (\<lambda>_. s) (gd_sources d)\<rparr>"

definition upsert_source_seed :: "time \<Rightarrow> source_seed \<Rightarrow> ('z, source_row) ingest_op" where
  "upsert_source_seed now x =
     bindO (get_source_by_key (sx_source_key x)) (\<lambda>existing.
     case existing of
       None \<Rightarrow> insert_row (\<lambda>i. seeded_source i now x) (\<lambda>r d. d\<lparr>gd_sources := gd_sources d @ [r]\<rparr>)
     | Some s \<Rightarrow> bindO (flush ingest_ok (set_source (reseeded s x))) (\<lambda>_. ret (reseeded s x)))"

definition failed_source :: "string \<Rightarrow> time option \<Rightarrow> source_row \<Rightarrow> source_row" where
  "failed_source reason until s =
     s\<lparr>sr_consecutive_failures := sr_consecutive_failures s + 1, sr_quarantine_reason := Some reason,
       sr_quarantine_until := until\<rparr>"

definition increase_source_failure ::
    "source_row \<Rightarrow> string \<Rightarrow> time option \<Rightarrow> ('z, source_row) ingest_op" where
  "increase_source_failure s reason until =
     bindO (flush ingest_ok (set_source (failed_source reason until s))) (\<lambda>_. ret (failed_source reason until s))"

definition healthy_source :: "source_row \<Rightarrow> source_row" where
  "healthy_source s = s\<lparr>sr_consecutive_failures := 0, sr_quarantine_until := None, sr_quarantine_reason := None\<rparr>"

definition reset_source_health :: "source_row \<Rightarrow> ('z, source_row) ingest_op" where
  "reset_source_health s = bindO (flush ingest_ok (set_source (healthy_source s))) (\<lambda>_. ret (healthy_source s))"

text \<open>\<open>db.get(SourceRegistry, id)\<close>\<close>

definition source_by_id :: "'z ingest_db_scheme \<Rightarrow> uuid \<Rightarrow> source_row option" where
  "source_by_id d i = find (\<lambda>s. sr_id s = i) (gd_sources d)"

section \<open>Runs and items\<close>

definition create_ingestion_run ::
    "time \<Rightarrow> run_trigger \<Rightarrow> string option \<Rightarrow> string option \<Rightarrow> int \<Rightarrow> json dict \<Rightarrow> ('z, ingestion_run) ingest_op" where
  "create_ingestion_run now trigger requested_by trace_id source_count metadata =
     insert_row (\<lambda>i. \<lparr>ir_id = i, ir_created_at = now, ir_trigger_type = trigger, ir_status = run_pending,
        ir_requested_by = requested_by, ir_trace_id = trace_id, ir_started_at = None, ir_completed_at = None,
        ir_total_items = source_count, ir_processed_items = 0, ir_success_items = 0, ir_failed_items = 0,
        ir_notes = None, ir_metadata_json = metadata\<rparr>) (\<lambda>r d. d\<lparr>gd_runs := gd_runs d @ [r]\<rparr>)"

definition run_of :: "'z ingest_db_scheme \<Rightarrow> uuid \<Rightarrow> ingestion_run option" where
  "run_of d i = find (\<lambda>r. ir_id r = i) (gd_runs d)"

definition get_run :: "uuid \<Rightarrow> ('z, ingestion_run option) ingest_op" where
  "get_run i = query (\<lambda>d. run_of d i)"

definition set_run :: "ingestion_run \<Rightarrow> 'z ingest_db_scheme \<Rightarrow> 'z ingest_db_scheme" where
  "set_run r d = d\<lparr>gd_runs := upd_where (\<lambda>x. ir_id x = ir_id r) (\<lambda>_. r) (gd_runs d)\<rparr>"

definition mark_run_running :: "time \<Rightarrow> ingestion_run \<Rightarrow> ('z, unit) ingest_op" where
  "mark_run_running now r = flush ingest_ok (set_run (r\<lparr>ir_status := run_running, ir_started_at := Some now\<rparr>))"

definition completed_run :: "time \<Rightarrow> int \<Rightarrow> int \<Rightarrow> string option \<Rightarrow> ingestion_run \<Rightarrow> ingestion_run" where
  "completed_run now success_items failed_items notes r =
     r\<lparr>ir_processed_items := success_items + failed_items, ir_success_items := success_items,
       ir_failed_items := failed_items, ir_status := (if failed_items = 0 then run_completed else run_failed),
       ir_completed_at := Some now, ir_notes := notes\<rparr>"

definition mark_run_completed ::
    "time \<Rightarrow> ingestion_run \<Rightarrow> int \<Rightarrow> int \<Rightarrow> string option \<Rightarrow> ('z, ingestion_run) ingest_op" where
  "mark_run_completed now r success_items failed_items notes =
     (let r' = completed_run now success_items failed_items notes r
      in bindO (flush ingest_ok (set_run r')) (\<lambda>_. ret r'))"

definition pending_item :: "time \<Rightarrow> uuid \<Rightarrow> uuid \<Rightarrow> uuid \<Rightarrow> run_item" where
  "pending_item now run_id source_id i =
     \<lparr>im_id = i, im_created_at = now, im_ingestion_run_id = run_id, im_source_id = source_id,
      im_status = item_pending, im_attempt_number = 0, im_started_at = None, im_completed_at = None,
      im_collected_at = None, im_fetch_etag = None, im_fetch_last_modified = None, im_raw_hash_sha256 = None, im_semantic_hash_sha256 = None, im_parser_used = None,
      im_parser_mode = deterministic, im_confidence_score = None, im_manual_review_required = False,
      im_error_message = None, im_diff_summary_json = [], im_metadata_json = []\<rparr>"

definition create_run_item :: "time \<Rightarrow> uuid \<Rightarrow> uuid \<Rightarrow> ('z, run_item) ingest_op" where
  "create_run_item now run_id source_id =
     insert_row (pending_item now run_id source_id) (\<lambda>r d. d\<lparr>gd_items := gd_items d @ [r]\<rparr>)"

definition item_of :: "'z ingest_db_scheme \<Rightarrow> uuid \<Rightarrow> run_item option" where
  "item_of d i = find (\<lambda>x. im_id x = i) (gd_items d)"

text \<open>An item with the source and the run that the query joins.\<close>

definition get_run_item ::
    "uuid \<Rightarrow> ('z, (run_item \<times> source_row option \<times> ingestion_run option) option) ingest_op" where
  "get_run_item i =
     query (\<lambda>d. map_option (\<lambda>x. (x, source_by_id d (im_source_id x), run_of d (im_ingestion_run_id x))) (item_of d i))"

definition get_run_item_by_run_and_source :: "uuid \<Rightarrow> uuid \<Rightarrow> ('z, run_item option) ingest_op" where
  "get_run_item_by_run_and_source run_id source_id =
     query (\<lambda>d. find (\<lambda>x. im_ingestion_run_id x = run_id \<and> im_source_id x = source_id) (gd_items d))"

definition items_of_run :: "'z ingest_db_scheme \<Rightarrow> uuid \<Rightarrow> run_item list" where
  "items_of_run d run_id = sort_key im_created_at (filter (\<lambda>x. im_ingestion_run_id x = run_id) (gd_items d))"

definition list_run_items :: "uuid \<Rightarrow> ('z, run_item list) ingest_op" where
  "list_run_items run_id = query (\<lambda>d. items_of_run d run_id)"

definition set_item :: "run_item \<Rightarrow> 'z ingest_db_scheme \<Rightarrow> 'z ingest_db_scheme" where
  "set_item x d = d\<lparr>gd_items := upd_where (\<lambda>y. im_id y = im_id x) (\<lambda>_. x) (gd_items d)\<rparr>"

definition put_item :: "run_item \<Rightarrow> ('z, run_item) ingest_op" where
  "put_item x = bindO (flush ingest_ok (set_item x)) (\<lambda>_. ret x)"

definition mark_run_item_running :: "time \<Rightarrow> run_item \<Rightarrow> int \<Rightarrow> ('z, run_item) ingest_op" where
  "mark_run_item_running now x attempt_number =
     put_item (x\<lparr>im_status := item_running, im_started_at := Some now, im_attempt_number := attempt_number\<rparr>)"

record item_outcome =
  io_status :: item_status
  io_raw_hash_sha256 :: "string option"
  io_semantic_hash_sha256 :: "string option"
  io_parser_used :: "string option"
  io_parser_mode :: parser_mode
  io_confidence_score :: "rat option"
  io_manual_review_required :: bool
  io_diff_summary_json :: "json dict"
  io_metadata_json :: "json dict"

definition finished_item :: "time \<Rightarrow> item_outcome \<Rightarrow> run_item \<Rightarrow> run_item" where
  "finished_item now c x =
     x\<lparr>im_status := io_status c, im_completed_at := Some now, im_collected_at := Some now,
       im_raw_hash_sha256 := io_raw_hash_sha256 c, im_semantic_hash_sha256 := io_semantic_hash_sha256 c,
       im_parser_used := io_parser_used c, im_parser_mode := io_parser_mode c,
       im_confidence_score := io_confidence_score c, im_manual_review_required := io_manual_review_required c,
       im_diff_summary_json := io_diff_summary_json c, im_metadata_json := io_metadata_json c,
       im_error_message := None\<rparr>"

definition mark_run_item_completed :: "time \<Rightarrow> run_item \<Rightarrow> item_outcome \<Rightarrow> ('z, run_item) ingest_op" where
  "mark_run_item_completed now x c = put_item (finished_item now c x)"

definition mark_run_item_failed :: "time \<Rightarrow> run_item \<Rightarrow> string \<Rightarrow> ('z, run_item) ingest_op" where
  "mark_run_item_failed now x message =
     put_item (x\<lparr>im_status := item_failed, im_completed_at := Some now, im_error_message := Some message\<rparr>)"

definition mark_run_item_quarantined :: "time \<Rightarrow> run_item \<Rightarrow> string \<Rightarrow> ('z, run_item) ingest_op" where
  "mark_run_item_quarantined now x message =
     put_item (x\<lparr>im_status := item_quarantined, im_completed_at := Some now, im_error_message := Some message\<rparr>)"

definition last_completed_item :: "'z ingest_db_scheme \<Rightarrow> uuid \<Rightarrow> run_item option" where
  "last_completed_item d source_id =
     latest im_created_at (filter (\<lambda>x. im_source_id x = source_id
        \<and> im_status x \<in> {item_completed, item_manual_review, item_skipped}) (gd_items d))"

definition get_last_completed_item_for_source :: "uuid \<Rightarrow> ('z, run_item option) ingest_op" where
  "get_last_completed_item_for_source source_id = query (\<lambda>d. last_completed_item d source_id)"

end
