(* ===== verification/Ingestion_Gateway.thy ===== *)
theory Ingestion_Gateway
  imports Ingestion
begin

text \<open>
  The rest of the ingestion repository (documents, extractions and the rows of the published rules) and
  the gateway, \<open>gateway.py\<close>: the retry loop with its growing delays, the transaction around an
  operation, and the counting of failures that puts a source into quarantine.
\<close>

section \<open>Documents\<close>

definition latest_bronze :: "'z ingest_db_scheme \<Rightarrow> uuid \<Rightarrow> bronze_document option" where
  "latest_bronze d source_id = latest bz_created_at (filter (\<lambda>b. bz_source_id b = source_id) (gd_bronze d))"

definition get_latest_bronze_document_by_source :: "uuid \<Rightarrow> ('z, bronze_document option) ingest_op" where
  "get_latest_bronze_document_by_source source_id = query (\<lambda>d. latest_bronze d source_id)"

text \<open>The payloads of the creating operations are functions of the key of the new row.\<close>

definition create_bronze_document :: "(uuid \<Rightarrow> bronze_document) \<Rightarrow> ('z, bronze_document) ingest_op" where
  "create_bronze_document payload = insert_row payload (\<lambda>r d. d\<lparr>gd_bronze := gd_bronze d @ [r]\<rparr>)"

definition new_sections :: "time \<Rightarrow> uuid \<Rightarrow> (uuid \<Rightarrow> time \<Rightarrow> uuid \<Rightarrow> silver_section) list \<Rightarrow> uuid \<Rightarrow> silver_section list" where
  "new_sections now run_item_id payloads i =
     map (\<lambda>(k, p). p k now run_item_id) (zip [i..<i + length payloads] payloads)"

text \<open>The deletes and the inserts reach the database in one flush, the inserts first: the unit of work of
  SQLAlchemy runs them before the deletes, so a section with a key of an old row is a duplicate.\<close>

definition insert_sections :: "silver_section list \<Rightarrow> 'z ingest_db_scheme \<Rightarrow> 'z ingest_db_scheme" where
  "insert_sections rows d = d\<lparr>gd_sections := gd_sections d @ rows, bd_next := bd_next d + length rows\<rparr>"

definition delete_sections :: "silver_section list \<Rightarrow> 'z ingest_db_scheme \<Rightarrow> 'z ingest_db_scheme" where
  "delete_sections old d = d\<lparr>gd_sections := filter (\<lambda>s. sv_id s \<notin> set (map sv_id old)) (gd_sections d)\<rparr>"

definition replace_silver_sections ::
    "time \<Rightarrow> uuid \<Rightarrow> (uuid \<Rightarrow> time \<Rightarrow> uuid \<Rightarrow> silver_section) list \<Rightarrow> ('z, unit) ingest_op" where
  "replace_silver_sections now run_item_id payloads =
     bindO (query (\<lambda>d. filter (\<lambda>s. sv_ingestion_run_item_id s = run_item_id) (gd_sections d))) (\<lambda>old.
     bindO (query (\<lambda>d. new_sections now run_item_id payloads (bd_next d))) (\<lambda>rows.
     bindO (flush ingest_ok (insert_sections rows)) (\<lambda>_.
     flush ingest_ok (delete_sections old))))"

definition create_source_document :: "(uuid \<Rightarrow> source_document) \<Rightarrow> ('z, source_document) ingest_op" where
  "create_source_document payload = insert_row payload (\<lambda>r d. d\<lparr>gd_documents := gd_documents d @ [r]\<rparr>)"

definition create_source_extraction :: "(uuid \<Rightarrow> source_extraction) \<Rightarrow> ('z, source_extraction) ingest_op" where
  "create_source_extraction payload = insert_row payload (\<lambda>r d. d\<lparr>gd_extractions := gd_extractions d @ [r]\<rparr>)"

section \<open>Rules\<close>

definition country_by_code :: "'z rules_db_scheme \<Rightarrow> string \<Rightarrow> country option" where
  "country_by_code d code_text = find (\<lambda>c. co_code c = upper code_text) (rd_countries d)"

definition ingest_get_country_by_code :: "string \<Rightarrow> ('z, country option) ingest_op" where
  "ingest_get_country_by_code code_text = query (\<lambda>d. country_by_code d code_text)"

definition ingest_create_country :: "string \<Rightarrow> string \<Rightarrow> ('z, country) ingest_op" where
  "ingest_create_country code_text name =
     insert_row (\<lambda>i. \<lparr>co_id = i, co_code = code_text, co_name = name, co_priority_rank = None,
        co_diaspora_population_estimate = None, co_prioritization_source_url = None, co_is_active = True\<rparr>)
       (\<lambda>r d. d\<lparr>rd_countries := rd_countries d @ [r]\<rparr>)"

definition program_by_code :: "'z rules_db_scheme \<Rightarrow> uuid \<Rightarrow> string \<Rightarrow> program option" where
  "program_by_code d country_id code_text = find (\<lambda>p. pg_country_id p = country_id \<and> pg_code p = code_text) (rd_programs d)"

definition get_program_by_country_and_code :: "uuid \<Rightarrow> string \<Rightarrow> ('z, program option) ingest_op" where
  "get_program_by_country_and_code country_id code_text = query (\<lambda>d. program_by_code d country_id code_text)"

definition ingest_create_program :: "(uuid \<Rightarrow> program) \<Rightarrow> ('z, program) ingest_op" where
  "ingest_create_program payload = insert_row payload (\<lambda>r d. d\<lparr>rd_programs := rd_programs d @ [r]\<rparr>)"

definition active_versions_of :: "'z rules_db_scheme \<Rightarrow> uuid \<Rightarrow> program_version list" where
  "active_versions_of d program_id =
     filter (\<lambda>v. pv_program_id v = program_id \<and> pv_status v = active_version) (rd_versions d)"

definition list_active_program_versions :: "uuid \<Rightarrow> ('z, program_version list) ingest_op" where
  "list_active_program_versions program_id = query (\<lambda>d. active_versions_of d program_id)"

definition latest_version_of :: "'z rules_db_scheme \<Rightarrow> uuid \<Rightarrow> program_version option" where
  "latest_version_of d program_id =
     latest pv_created_at (filter (\<lambda>v. pv_program_id v = program_id) (rd_versions d))"

definition get_latest_program_version :: "uuid \<Rightarrow> ('z, program_version option) ingest_op" where
  "get_latest_program_version program_id = query (\<lambda>d. latest_version_of d program_id)"

text \<open>
  A version with its groups and their conditions (the outcomes are loaded and not read). Neither the relationships nor
  their \<open>selectinload\<close> queries state an order, so the rows come in whatever order the database chooses:
  a parameter, of which only that it permutes the rows may be assumed.
\<close>

record row_order =
  ro_groups :: "group_row list \<Rightarrow> group_row list"
  ro_conditions :: "condition_row list \<Rightarrow> condition_row list"

definition permutes_rows :: "row_order \<Rightarrow> bool" where
  "permutes_rows ord \<longleftrightarrow> (\<forall>rows. mset (ro_groups ord rows) = mset rows) \<and> (\<forall>rows. mset (ro_conditions ord rows) = mset rows)"

definition groups_of_version ::
    "row_order \<Rightarrow> 'z rules_db_scheme \<Rightarrow> uuid \<Rightarrow> (group_row \<times> condition_row list) list" where
  "groups_of_version ord d version_id =
     map (\<lambda>g. (g, ro_conditions ord (filter (\<lambda>c. cr_rule_group_id c = gr_id g) (rd_conditions d))))
       (ro_groups ord (filter (\<lambda>g. gr_program_version_id g = version_id) (rd_groups d)))"

definition get_latest_program_version_with_rules ::
    "row_order \<Rightarrow> uuid \<Rightarrow> ('z, (group_row \<times> condition_row list) list option) ingest_op" where
  "get_latest_program_version_with_rules ord program_id =
     query (\<lambda>d. map_option (\<lambda>v. groups_of_version ord d (pv_id v)) (latest_version_of d program_id))"

definition ingest_create_program_version :: "(uuid \<Rightarrow> program_version) \<Rightarrow> ('z, program_version) ingest_op" where
  "ingest_create_program_version payload = insert_row payload (\<lambda>r d. d\<lparr>rd_versions := rd_versions d @ [r]\<rparr>)"

definition archive_at :: "time \<Rightarrow> uuid list \<Rightarrow> 'z ingest_db_scheme \<Rightarrow> 'z ingest_db_scheme" where
  "archive_at t ids d = d\<lparr>rd_versions := upd_where (\<lambda>v. pv_id v \<in> set ids)
     (\<lambda>v. v\<lparr>pv_status := archived, pv_effective_to := Some t\<rparr>) (rd_versions d)\<rparr>"

definition archive_program_versions :: "program_version list \<Rightarrow> time \<Rightarrow> ('z, unit) ingest_op" where
  "archive_program_versions versions t = flush ingest_ok (archive_at t (map pv_id versions))"

definition ingest_create_rule_group :: "(uuid \<Rightarrow> group_row) \<Rightarrow> ('z, group_row) ingest_op" where
  "ingest_create_rule_group payload = insert_row payload (\<lambda>r d. d\<lparr>rd_groups := rd_groups d @ [r]\<rparr>)"

definition ingest_create_rule_condition :: "(uuid \<Rightarrow> condition_row) \<Rightarrow> ('z, condition_row) ingest_op" where
  "ingest_create_rule_condition payload = insert_row payload (\<lambda>r d. d\<lparr>rd_conditions := rd_conditions d @ [r]\<rparr>)"

definition ingest_create_rule_outcome :: "(uuid \<Rightarrow> outcome_row) \<Rightarrow> ('z, outcome_row) ingest_op" where
  "ingest_create_rule_outcome payload = insert_row payload (\<lambda>r d. d\<lparr>rd_outcomes := rd_outcomes d @ [r]\<rparr>)"

section \<open>The gateway\<close>

record gateway =
  gw_max_retries :: int
  gw_base_backoff_seconds :: rat
  gw_quarantine_hours :: int
  gw_quarantine_after_failures :: int

definition gateway_of :: "settings \<Rightarrow> gateway" where
  "gateway_of cfg =
     \<lparr>gw_max_retries = ingestion_gateway_max_retries cfg,
      gw_base_backoff_seconds = ingestion_gateway_base_backoff_seconds cfg,
      gw_quarantine_hours = ingestion_quarantine_hours cfg,
      gw_quarantine_after_failures = ingestion_quarantine_after_failures cfg\<rparr>"

text \<open>\<open>except DBAPIError\<close>\<close>

fun is_dbapi_error :: "exn \<Rightarrow> bool" where
  "is_dbapi_error (IntegrityError s) = True"
| "is_dbapi_error (OperationalError s) = True"
| "is_dbapi_error (DBAPIError s) = True"
| "is_dbapi_error e = False"

text \<open>The loop from an attempt on: the result, the state, and the delays that it slept.\<close>

function retry_from ::
    "gateway \<Rightarrow> string \<Rightarrow> ('s, 'a) op \<Rightarrow> int \<Rightarrow> 's \<Rightarrow> ('a result \<times> 's) \<times> rat list" where
  "retry_from gw name operation attempt s =
     (if gw_max_retries gw < attempt
      then ((Inl (RuntimeError (''operation '' @ name @ '' exceeded retry guard'')), s), [])
      else
        (case operation s of
           (Inr x, s1) \<Rightarrow> ((Inr x, s1), [])
         | (Inl e, s1) \<Rightarrow>
             if \<not> is_dbapi_error e \<or> gw_max_retries gw \<le> attempt then ((Inl e, s1), [])
             else
               (case retry_from gw name operation (attempt + 1) s1 of
                  (r, ds) \<Rightarrow> (r, fmul (gw_base_backoff_seconds gw) (2 ^ nat attempt) # ds))))"
  by pat_completeness auto
termination
  by (relation "measure (\<lambda>(gw, name, operation, attempt, s). nat (gw_max_retries gw + 1 - attempt))") auto

declare retry_from.simps [simp del]

definition with_retry :: "gateway \<Rightarrow> string \<Rightarrow> ('s, 'a) op \<Rightarrow> ('s, 'a) op" where
  "with_retry gw name operation s = fst (retry_from gw name operation 0 s)"

definition transaction :: "('z, 'a) ingest_op \<Rightarrow> ('z, 'a) ingest_op" where
  "transaction body =
     catch (bindO body (\<lambda>x. bindO commit (\<lambda>_. ret x))) (\<lambda>e. bindO rollback (\<lambda>_. raise e))"

definition seed_sources :: "gateway \<Rightarrow> time \<Rightarrow> source_seed list \<Rightarrow> ('z, nat) ingest_op" where
  "seed_sources gw now seeds =
     with_retry gw ''seed_sources''
       (bindO (transaction (forO (\<lambda>x. bindO (upsert_source_seed now x) (\<lambda>_. ret ())) seeds)) (\<lambda>_.
        ret (length seeds)))"

definition create_run_with_items ::
    "gateway \<Rightarrow> time \<Rightarrow> run_trigger \<Rightarrow> uuid list \<Rightarrow> string option \<Rightarrow> string option \<Rightarrow> json dict
     \<Rightarrow> ('z, uuid \<times> uuid list) ingest_op" where
  "create_run_with_items gw now trigger source_ids requested_by trace_id metadata =
     with_retry gw ''create_run_with_items''
       (transaction
          (bindO (create_ingestion_run now trigger requested_by trace_id (int (length source_ids)) metadata) (\<lambda>run.
           bindO (mapO (\<lambda>source_id. bindO (create_run_item now (ir_id run) source_id) (\<lambda>x. ret (im_id x))) source_ids)
             (\<lambda>item_ids. ret (ir_id run, item_ids)))))"

definition gateway_reset_source_health :: "gateway \<Rightarrow> uuid \<Rightarrow> ('z, unit) ingest_op" where
  "gateway_reset_source_health gw source_id =
     with_retry gw ''reset_source_health''
       (transaction
          (bindO (query (\<lambda>d. source_by_id d source_id)) (\<lambda>found.
           case found of
             None \<Rightarrow> ret ()
           | Some s \<Rightarrow> bindO (reset_source_health s) (\<lambda>_. ret ()))))"

definition mark_source_failure :: "gateway \<Rightarrow> time \<Rightarrow> uuid \<Rightarrow> string \<Rightarrow> ('z, int \<times> bool) ingest_op" where
  "mark_source_failure gw now source_id reason =
     with_retry gw ''mark_source_failure''
       (transaction
          (bindO (query (\<lambda>d. source_by_id d source_id)) (\<lambda>found.
           case found of
             None \<Rightarrow> ret (0, False)
           | Some s \<Rightarrow>
               let new_total = sr_consecutive_failures s + 1;
                   should_quarantine = gw_quarantine_after_failures gw \<le> new_total;
                   until_time = (if should_quarantine then Some (now + hours (gw_quarantine_hours gw)) else None)
               in bindO (increase_source_failure s reason until_time) (\<lambda>s'.
                  ret (sr_consecutive_failures s', should_quarantine)))))"

end
