(* ===== verification/Diff_Engine.thy ===== *)
theory Diff_Engine
  imports Ingestion_Gateway
begin

text \<open>
  The normalised payload of an extraction, \<open>src/apps/ingestion/schemas.py\<close>, and the comparison of a
  payload with the published rules, \<open>diff_engine.py\<close>. Text and content are strings of characters below
  256; the encoding of text above ASCII is not modelled.
\<close>

section \<open>Payloads\<close>

record norm_condition =
  nc_field_key :: string
  nc_operator :: rule_operator
  nc_value_json :: json
  nc_condition_order :: int
  nc_is_required :: bool

record norm_outcome =
  nu_score_delta :: dec
  nu_is_blocking :: bool
  nu_explanation_message :: string
  nu_outcome_code :: "string option"

record norm_group =
  ng_code :: string
  ng_name :: string
  ng_description :: "string option"
  ng_priority :: int
  ng_match_operator :: match_operator
  ng_conditions :: "norm_condition list"
  ng_outcomes :: "norm_outcome list"

record norm_payload =
  np_country_code :: string
  np_country_name :: string
  np_program_code :: string
  np_program_name :: string
  np_source_url :: string
  np_source_title :: string
  np_extracted_at :: time
  np_parser_used :: string
  np_parser_mode :: parser_mode
  np_confidence_score :: dec
  np_manual_review_required :: bool
  np_summary_text :: "string option"
  np_metadata_json :: "json dict"
  np_sections :: "json dict list"
  np_rule_groups :: "norm_group list"

text \<open>The bounds of the fields; the message of a violation is reduced to the name of the field.\<close>

definition invalid_field :: "string \<Rightarrow> 'a result" where
  "invalid_field f = Inl (ValueError (''validation error: '' @ f))"

definition len_within :: "nat \<Rightarrow> nat \<Rightarrow> string \<Rightarrow> bool" where
  "len_within lo hi s \<longleftrightarrow> lo \<le> length s \<and> length s \<le> hi"

definition condition_valid :: "norm_condition \<Rightarrow> bool" where
  "condition_valid c \<longleftrightarrow> len_within 1 120 (nc_field_key c)"

definition outcome_valid :: "norm_outcome \<Rightarrow> bool" where
  "outcome_valid u \<longleftrightarrow> 3 \<le> length (nu_explanation_message u)
     \<and> (case nu_outcome_code u of None \<Rightarrow> True | Some s \<Rightarrow> length s \<le> 64)"

definition group_valid :: "norm_group \<Rightarrow> bool" where
  "group_valid g \<longleftrightarrow> len_within 1 64 (ng_code g) \<and> len_within 2 160 (ng_name g)
     \<and> ng_conditions g \<noteq> [] \<and> list_all condition_valid (ng_conditions g)
     \<and> ng_outcomes g \<noteq> [] \<and> list_all outcome_valid (ng_outcomes g)"

text \<open>\<open>NormalizedProgramPayload(...)\<close>: the codes are normalised, the fields checked.\<close>

definition make_payload :: "norm_payload \<Rightarrow> norm_payload result" where
  "make_payload p =
     (if \<not> len_within 2 2 (np_country_code p) then invalid_field ''country_code''
      else if \<not> len_within 2 120 (np_country_name p) then invalid_field ''country_name''
      else if \<not> len_within 2 64 (np_program_code p) then invalid_field ''program_code''
      else if \<not> len_within 2 160 (np_program_name p) then invalid_field ''program_name''
      else if \<not> len_within 1 255 (np_source_title p) then invalid_field ''source_title''
      else if \<not> len_within 1 64 (np_parser_used p) then invalid_field ''parser_used''
      else if np_rule_groups p = [] \<or> \<not> list_all group_valid (np_rule_groups p) then invalid_field ''rule_groups''
      else Inr (p\<lparr>np_country_code := upper (np_country_code p),
             np_program_code := replace_str ''-'' ''_'' (upper (np_program_code p))\<rparr>))"

section \<open>Serialisation\<close>

definition dump_condition :: "norm_condition \<Rightarrow> json" where
  "dump_condition c = JObj [(''field_key'', JStr (nc_field_key c)), (''operator'', JStr (operator_value (nc_operator c))),
     (''value_json'', nc_value_json c), (''condition_order'', JInt (nc_condition_order c)),
     (''is_required'', JBool (nc_is_required c))]"

definition dump_outcome :: "norm_outcome \<Rightarrow> json" where
  "dump_outcome u = JObj [(''score_delta'', JStr (dec_str (nu_score_delta u))), (''is_blocking'', JBool (nu_is_blocking u)),
     (''explanation_message'', JStr (nu_explanation_message u)), (''outcome_code'', opt_json JStr (nu_outcome_code u))]"

definition dump_group :: "norm_group \<Rightarrow> json" where
  "dump_group g = JObj [(''code'', JStr (ng_code g)), (''name'', JStr (ng_name g)),
     (''description'', opt_json JStr (ng_description g)), (''priority'', JInt (ng_priority g)),
     (''match_operator'', JStr (match_value (ng_match_operator g))),
     (''conditions'', JList (map dump_condition (ng_conditions g))),
     (''outcomes'', JList (map dump_outcome (ng_outcomes g)))]"

text \<open>\<open>model_dump(mode="json")\<close>: the time becomes a text, a decimal its digits.\<close>

definition dump_payload :: "norm_payload \<Rightarrow> json dict" where
  "dump_payload p =
     [(''country_code'', JStr (np_country_code p)), (''country_name'', JStr (np_country_name p)),
      (''program_code'', JStr (np_program_code p)), (''program_name'', JStr (np_program_name p)),
      (''source_url'', JStr (np_source_url p)), (''source_title'', JStr (np_source_title p)),
      (''extracted_at'', JStr (isoformat (np_extracted_at p))), (''parser_used'', JStr (np_parser_used p)),
      (''parser_mode'', JStr (parser_mode_value (np_parser_mode p))),
      (''confidence_score'', JStr (dec_str (np_confidence_score p))),
      (''manual_review_required'', JBool (np_manual_review_required p)),
      (''summary_text'', opt_json JStr (np_summary_text p)), (''metadata_json'', JObj (np_metadata_json p)),
      (''sections'', JList (map JObj (np_sections p))), (''rule_groups'', JList (map dump_group (np_rule_groups p)))]"

text \<open>
  \<open>ensure_timezone\<close> runs before the conversion of the field: it reads \<open>tzinfo\<close> of whatever the input
  holds. No value of a dump in the mode \<open>json\<close> has that attribute (the time is a text there), and an exception
  of a validator that is neither \<open>ValueError\<close> nor \<open>AssertionError\<close> leaves \<open>model_validate\<close> as it is.
\<close>

fun json_type :: "json \<Rightarrow> string" where
  "json_type JNull = ''NoneType''"
| "json_type (JBool b) = ''bool''"
| "json_type (JInt n) = ''int''"
| "json_type (JFloat f) = ''float''"
| "json_type (JStr s) = ''str''"
| "json_type (JList xs) = ''list''"
| "json_type (JObj d) = ''dict''"

definition ensure_timezone :: "json \<Rightarrow> json result" where
  "ensure_timezone v = Inl (AttributeError ([CHR 0x27] @ json_type v @ [CHR 0x27] @ '' object has no attribute ''
     @ [CHR 0x27] @ ''tzinfo'' @ [CHR 0x27]))"

text \<open>\<open>model_validate(payload.model_dump(mode="json"))\<close>\<close>

definition revalidate :: "norm_payload \<Rightarrow> norm_payload result" where
  "revalidate p =
     (case dict_get (dump_payload p) ''extracted_at'' of
        None \<Rightarrow> invalid_field ''extracted_at''
      | Some v \<Rightarrow> bindR (ensure_timezone v) (\<lambda>_. make_payload p))"

section \<open>The comparison\<close>

record diff_summary =
  ds_changed :: bool
  ds_previous_hash :: "string option"
  ds_current_hash :: string
  ds_semantic_similarity :: rat
  ds_added_rule_groups :: int
  ds_removed_rule_groups :: int
  ds_added_conditions :: int
  ds_removed_conditions :: int
  ds_notes :: "string option"

definition dump_diff :: "diff_summary \<Rightarrow> json dict" where
  "dump_diff s =
     [(''changed'', JBool (ds_changed s)), (''previous_hash'', opt_json JStr (ds_previous_hash s)),
      (''current_hash'', JStr (ds_current_hash s)), (''semantic_similarity'', JFloat (PFin (ds_semantic_similarity s))),
      (''added_rule_groups'', JInt (ds_added_rule_groups s)), (''removed_rule_groups'', JInt (ds_removed_rule_groups s)),
      (''added_conditions'', JInt (ds_added_conditions s)), (''removed_conditions'', JInt (ds_removed_conditions s)),
      (''notes'', opt_json JStr (ds_notes s))]"

definition compute_semantic_hash :: "norm_payload \<Rightarrow> string" where
  "compute_semantic_hash p =
     sha256_hex (canonical (JObj (filter (\<lambda>(k, _). k \<noteq> ''extracted_at'') (dump_payload p))))"

definition signature_of :: "string \<Rightarrow> string \<Rightarrow> string \<Rightarrow> json \<Rightarrow> string" where
  "signature_of group_code field_key operator_text value_json =
     sha256_hex (dumps True '', '' '': '' (JList [JStr group_code, JStr field_key, JStr operator_text, value_json]))"

definition signatures_from_payload :: "norm_payload \<Rightarrow> string set" where
  "signatures_from_payload p =
     set (concat (map (\<lambda>g. map (\<lambda>c. signature_of (ng_code g) (nc_field_key c) (operator_value (nc_operator c))
       (nc_value_json c)) (ng_conditions g)) (np_rule_groups p)))"

definition signatures_from_version :: "(group_row \<times> condition_row list) list \<Rightarrow> string set" where
  "signatures_from_version v =
     set (concat (map (\<lambda>(g, cs). map (\<lambda>c. signature_of (gr_code g) (cr_field_key c) (operator_value (cr_operator c))
       (cr_value_json c)) cs) v))"

definition compare_payload ::
    "norm_payload \<Rightarrow> string \<Rightarrow> string option \<Rightarrow> (group_row \<times> condition_row list) list option \<Rightarrow> diff_summary" where
  "compare_payload payload current_hash previous_hash previous_version =
     (if opt_truthy previous_hash \<and> previous_hash = Some current_hash then
        \<lparr>ds_changed = False, ds_previous_hash = previous_hash, ds_current_hash = current_hash,
         ds_semantic_similarity = 1, ds_added_rule_groups = 0, ds_removed_rule_groups = 0, ds_added_conditions = 0,
         ds_removed_conditions = 0, ds_notes = Some ''No change detected by semantic hash.''\<rparr>
      else
        let current_groups = set (map ng_code (np_rule_groups payload));
            current_conditions = signatures_from_payload payload;
            previous_groups = (case previous_version of None \<Rightarrow> {} | Some v \<Rightarrow> set (map (\<lambda>(g, _). gr_code g) v));
            previous_conditions = (case previous_version of None \<Rightarrow> {} | Some v \<Rightarrow> signatures_from_version v);
            similarity = (if current_groups \<union> previous_groups = {} then 0
              else fdiv (of_nat (card (current_groups \<inter> previous_groups)))
                     (of_nat (card (current_groups \<union> previous_groups))))
        in \<lparr>ds_changed = True, ds_previous_hash = previous_hash, ds_current_hash = current_hash,
            ds_semantic_similarity = py_round 4 similarity,
            ds_added_rule_groups = int (card (current_groups - previous_groups)),
            ds_removed_rule_groups = int (card (previous_groups - current_groups)),
            ds_added_conditions = int (card (current_conditions - previous_conditions)),
            ds_removed_conditions = int (card (previous_conditions - current_conditions)),
            ds_notes = (case previous_version of None \<Rightarrow> Some ''First published version for this program.''
                        | Some _ \<Rightarrow> None)\<rparr>)"

end
