(* ===== verification/Extractors.thy ===== *)
theory Extractors
  imports Diff_Engine
begin

text \<open>
  The extractors, \<open>src/apps/ingestion/extractors.py\<close>: text from the fetched content, its sections, the
  rules that regular expressions find in it, and the fallback on a language model. The HTML tokenizer, the JSON
  reader, pypdf, the OpenAI client and the conversion of the model's answer by pydantic are parameters.
\<close>

section \<open>Text\<close>

datatype html_event = Start_tag string | End_tag string | Html_data string

record readers =
  rd_html_events :: "string \<Rightarrow> html_event list"
  rd_json_loads :: "string \<Rightarrow> json option"
  rd_pdf_pages :: "(string \<Rightarrow> string list result) option"
  rd_llm_answer :: "json dict \<Rightarrow> json option"
  rd_convert_payload :: "json dict \<Rightarrow> norm_payload option"

text \<open>\<open>re.sub(r"\s+", " ", s).strip()\<close>\<close>

fun squeeze :: "string \<Rightarrow> string" where
  "squeeze [] = []"
| "squeeze (c # cs) =
     (if is_space c then (case cs of [] \<Rightarrow> '' '' | x # _ \<Rightarrow> if is_space x then squeeze cs else CHR '' '' # squeeze cs)
      else c # squeeze cs)"

definition normalize_whitespace :: "string \<Rightarrow> string" where
  "normalize_whitespace s = strip (squeeze s)"

text \<open>The handler of the tokens: the texts collected and the depth of ignored tags.\<close>

fun html_text :: "string list \<Rightarrow> nat \<Rightarrow> html_event list \<Rightarrow> string list" where
  "html_text parts depth [] = parts"
| "html_text parts depth (Start_tag t # es) = html_text parts (if t \<in> {''script'', ''style''} then depth + 1 else depth) es"
| "html_text parts depth (End_tag t # es) =
     html_text parts (if t \<in> {''script'', ''style''} \<and> 0 < depth then depth - 1 else depth) es"
| "html_text parts depth (Html_data s # es) =
     (if 0 < depth then html_text parts depth es
      else if normalize_whitespace s = [] then html_text parts depth es
      else html_text (parts @ [normalize_whitespace s]) depth es)"

definition newline :: string where
  "newline = [char_of (10 :: nat)]"

definition extract_html_text :: "readers \<Rightarrow> string \<Rightarrow> string" where
  "extract_html_text R content = take 100000 (join newline (html_text [] 0 (rd_html_events R content)))"

text \<open>\<open>json.dumps(v, ensure_ascii=True, sort_keys=True, indent=2)\<close> at a depth.\<close>

definition indent_at :: "nat \<Rightarrow> string" where
  "indent_at n = newline @ replicate (2 * n) (CHR '' '')"

fun dumps_pretty :: "nat \<Rightarrow> json \<Rightarrow> string" where
  "dumps_pretty n JNull = ''null''"
| "dumps_pretty n (JBool b) = (if b then ''true'' else ''false'')"
| "dumps_pretty n (JInt i) = int_str i"
| "dumps_pretty n (JFloat f) = json_float f"
| "dumps_pretty n (JStr s) = json_string s"
| "dumps_pretty n (JList xs) =
     (if xs = [] then ''[]''
      else ''['' @ indent_at (n + 1) @ join ('','' @ indent_at (n + 1)) (map (dumps_pretty (n + 1)) xs)
        @ indent_at n @ '']'')"
| "dumps_pretty n (JObj d) =
     (if d = [] then ''{}''
      else
        let ms = map (\<lambda>(k, v). (k, json_string k @ '': '' @ dumps_pretty (n + 1) v)) d
        in ''{'' @ indent_at (n + 1) @ join ('','' @ indent_at (n + 1)) (map snd (sort_key fst ms)) @ indent_at n @ ''}'')"

definition extract_json_text :: "readers \<Rightarrow> string \<Rightarrow> string" where
  "extract_json_text R content =
     take 100000 (case rd_json_loads R content of None \<Rightarrow> content | Some v \<Rightarrow> dumps_pretty 0 v)"

definition extract_pdf_text :: "readers \<Rightarrow> string \<Rightarrow> string result" where
  "extract_pdf_text R content =
     (case rd_pdf_pages R of
        None \<Rightarrow> Inr (take 100000 content)
      | Some pages \<Rightarrow> bindR (pages content) (\<lambda>texts. Inr (take 100000 (join newline texts))))"

definition content_has :: "string \<Rightarrow> string option \<Rightarrow> bool" where
  "content_has word content_type = is_infix word (lower (case content_type of None \<Rightarrow> [] | Some t \<Rightarrow> t))"

definition to_text :: "readers \<Rightarrow> source_type \<Rightarrow> string \<Rightarrow> string option \<Rightarrow> string result" where
  "to_text R kind content content_type =
     (if kind = src_api \<or> content_has ''json'' content_type then Inr (extract_json_text R content)
      else if kind = src_pdf \<or> content_has ''pdf'' content_type then extract_pdf_text R content
      else Inr (extract_html_text R content))"

section \<open>Sections\<close>

text \<open>\<open>re.split(r"\n{2,}", text)\<close>; \<open>acc\<close> is the part read, reversed.\<close>

function paragraphs :: "string \<Rightarrow> string \<Rightarrow> string list" where
  "paragraphs acc [] = [rev acc]"
| "paragraphs acc (c # cs) =
     (if code c = 10 \<and> cs \<noteq> [] \<and> code (hd cs) = 10 then rev acc # paragraphs [] (dropWhile (\<lambda>x. code x = 10) cs)
      else paragraphs (c # acc) cs)"
  by pat_completeness auto
termination
  by (relation "measure (\<lambda>(acc, s). length s)") (auto simp: le_imp_less_Suc length_dropWhile_le)

definition chunks_of :: "string \<Rightarrow> string list" where
  "chunks_of txt =
     (let cs = filter (\<lambda>c. c \<noteq> []) (map strip (paragraphs [] txt))
      in if cs = [] then (if strip txt \<noteq> [] then [strip txt] else []) else cs)"

definition section_of :: "nat \<times> string \<Rightarrow> json dict" where
  "section_of ic =
     (case ic of (idx, chunk) \<Rightarrow>
        let heading = take 120 (takeWhile (\<lambda>x. code x \<noteq> 10) chunk)
        in [(''section_key'', JStr (''sec_'' @ pad0 3 (int idx))),
            (''heading'', if heading = [] then JNull else JStr heading), (''section_order'', JInt (int idx)),
            (''text_content'', JStr (take 8000 chunk)), (''metadata_json'', JObj [])])"

definition to_sections :: "nat \<Rightarrow> string \<Rightarrow> json dict list" where
  "to_sections max_sections txt =
     (let cs = take max_sections (chunks_of txt) in map section_of (zip [1..<length cs + 1] cs))"

section \<open>Rules\<close>

text \<open>The leftmost place where a pattern matches.\<close>

fun search :: "(string \<Rightarrow> 'a option) \<Rightarrow> string \<Rightarrow> 'a option" where
  "search f [] = f []"
| "search f (c # cs) = (case f (c # cs) of Some x \<Rightarrow> Some x | None \<Rightarrow> search f cs)"

text \<open>After one of the words, at most twenty characters that are no digits: what follows them. (The digit that
  must come next fixes the length of the gap, and a later alternative fails where an earlier one does.)\<close>

definition after_gap :: "string list \<Rightarrow> string \<Rightarrow> string option" where
  "after_gap ws s =
     (case find (\<lambda>w. take (length w) (lower s) = w) ws of
        None \<Rightarrow> None
      | Some w \<Rightarrow>
          let r = drop (length w) s
          in if length (takeWhile (\<lambda>c. \<not> is_digit c) r) \<le> 20 then Some (dropWhile (\<lambda>c. \<not> is_digit c) r) else None)"

definition age_at :: "string \<Rightarrow> string option" where
  "age_at s =
     (case after_gap [''age'', ''idade'', ''edad'', ''years'', ''anos''] s of
        Some (a # b # r) \<Rightarrow> if a \<noteq> CHR ''0'' \<and> is_digit b then Some [a, b] else None
      | _ \<Rightarrow> None)"

definition income_at :: "string \<Rightarrow> string option" where
  "income_at s =
     (case after_gap [''minimum'', ''minimo'', ''minima'', ''minim'', ''at least'', ''>=''] s of
        Some (a # r) \<Rightarrow>
          let ds = takeWhile (\<lambda>c. is_digit c \<or> c \<in> set ''.,'') r
          in if 2 \<le> length ds then Some (a # ds) else None
      | _ \<Rightarrow> None)"

definition extractor_levels :: "string list" where
  "extractor_levels = [''A1'', ''A2'', ''B1'', ''B2'', ''C1'', ''C2'']"

definition extract_language_level :: "string \<Rightarrow> string option" where
  "extract_language_level txt = find (\<lambda>l. is_infix (lower l) txt) (rev extractor_levels)"

definition cefr_to_rank :: "string \<Rightarrow> int" where
  "cefr_to_rank level = int (length (takeWhile (\<lambda>l. l \<noteq> level) extractor_levels)) + 1"

definition rule_condition_norm :: "string \<Rightarrow> rule_operator \<Rightarrow> int \<Rightarrow> bool \<Rightarrow> norm_condition" where
  "rule_condition_norm field_key op value required =
     \<lparr>nc_field_key = field_key, nc_operator = op, nc_value_json = JInt value, nc_condition_order = 1, nc_is_required = required\<rparr>"

definition rule_outcome_norm :: "int \<Rightarrow> string \<Rightarrow> string \<Rightarrow> norm_outcome" where
  "rule_outcome_norm delta message outcome_code =
     \<lparr>nu_score_delta = Dec delta 0, nu_is_blocking = False, nu_explanation_message = message,
      nu_outcome_code = Some outcome_code\<rparr>"

definition age_group :: "int \<Rightarrow> norm_group" where
  "age_group age =
     \<lparr>ng_code = ''age_requirement'', ng_name = ''Age Requirement'',
      ng_description = Some ''Extracted age-related threshold from official source.'', ng_priority = 20,
      ng_match_operator = match_all, ng_conditions = [rule_condition_norm ''idade'' op_lte age True],
      ng_outcomes =
        [rule_outcome_norm 15 (''Age requirement up to '' @ int_str age @ '' years matched.'') ''AGE_OK'',
         rule_outcome_norm (-20) (''Age above '' @ int_str age @ '' years may reduce eligibility.'') ''AGE_RISK'']\<rparr>"

definition income_group :: "int \<Rightarrow> norm_group" where
  "income_group minimum_income =
     \<lparr>ng_code = ''income_requirement'', ng_name = ''Minimum Income Requirement'',
      ng_description = Some ''Detected minimum income threshold in source text.'', ng_priority = 30,
      ng_match_operator = match_all, ng_conditions = [rule_condition_norm ''renda_atual'' op_gte minimum_income True],
      ng_outcomes =
        [rule_outcome_norm 20 (''Income meets detected threshold ('' @ int_str minimum_income @ '').'') ''INCOME_OK'']\<rparr>"

definition language_group :: "string \<Rightarrow> norm_group" where
  "language_group level =
     \<lparr>ng_code = ''language_requirement'', ng_name = ''Language Requirement'',
      ng_description = Some ''Detected language level requirement in source.'', ng_priority = 40,
      ng_match_operator = match_all,
      ng_conditions = [rule_condition_norm ''idiomas_nivel.en'' op_gte (cefr_to_rank level) False],
      ng_outcomes = [rule_outcome_norm 15 (''English level >= '' @ level @ '' aligned with source.'') ''LANG_OK'']\<rparr>"

definition baseline_group :: "string \<Rightarrow> norm_group" where
  "baseline_group country_code =
     \<lparr>ng_code = ''baseline_publication_guard'', ng_name = ''Baseline guard for '' @ country_code,
      ng_description = Some ''Safety baseline while parser confidence is evolving.'', ng_priority = 100,
      ng_match_operator = match_all, ng_conditions = [rule_condition_norm ''escolaridade_rank'' op_gte 0 True],
      ng_outcomes = [rule_outcome_norm 5 ''Baseline rule extracted deterministically.'' ''BASELINE'']\<rparr>"

definition build_rule_groups :: "string \<Rightarrow> string \<Rightarrow> norm_group list \<times> int" where
  "build_rule_groups country_code txt =
     (let lowered = lower txt;
          ages = (case search age_at lowered of None \<Rightarrow> [] | Some s \<Rightarrow> [age_group (int (digits_val s))]);
          incomes = (case search income_at txt of None \<Rightarrow> []
            | Some s \<Rightarrow> [income_group (max (int (digits_val (filter is_digit s))) 1)]);
          languages = (case extract_language_level lowered of None \<Rightarrow> [] | Some l \<Rightarrow> [language_group l])
      in (ages @ incomes @ languages @ [baseline_group country_code],
          int (length ages + length incomes + length languages)))"

section \<open>The deterministic extractor\<close>

text \<open>\<open>Decimal(str(x))\<close> of a positive float.\<close>

definition decimal_of_float :: "rat \<Rightarrow> dec" where
  "decimal_of_float x = (case shortest 17 1 x of (d, e) \<Rightarrow> Dec d e)"

definition confidence_of :: "int \<Rightarrow> dec" where
  "confidence_of signals =
     decimal_of_float (min (fl (95 / 100)) (fadd (fl (55 / 100)) (fmul (fl (1 / 10)) (of_int signals))))"

definition deterministic_extract ::
    "readers \<Rightarrow> time \<Rightarrow> source_row \<Rightarrow> string \<Rightarrow> string option \<Rightarrow> string \<Rightarrow> (norm_payload \<times> string) result" where
  "deterministic_extract R now source content content_type title =
     bindR (to_text R (sr_source_type source) content content_type) (\<lambda>txt.
     let sections = to_sections 20 txt;
         (groups, signals) = build_rule_groups (sr_country_code source) txt;
         confidence = confidence_of signals
     in bindR (make_payload
          \<lparr>np_country_code = sr_country_code source, np_country_name = sr_country_name source,
           np_program_code = sr_program_code source, np_program_name = sr_program_name source,
           np_source_url = sr_source_url source, np_source_title = title, np_extracted_at = now,
           np_parser_used = sr_parser_name source, np_parser_mode = deterministic, np_confidence_score = confidence,
           np_manual_review_required = (dec_val confidence < sr_confidence_threshold source),
           np_summary_text = Some (case chunks_of txt of c # _ \<Rightarrow> take 500 (take 8000 c) | [] \<Rightarrow> take 500 txt),
           np_metadata_json = [(''signals_detected'', JInt signals), (''source_key'', JStr (sr_source_key source))],
           np_sections = sections, np_rule_groups = groups\<rparr>) (\<lambda>p. Inr (p, txt)))"

section \<open>The fallback\<close>

definition local_stub :: "time \<Rightarrow> source_row \<Rightarrow> string \<Rightarrow> string \<Rightarrow> norm_payload result" where
  "local_stub now source text_content title =
     make_payload
       \<lparr>np_country_code = sr_country_code source, np_country_name = sr_country_name source,
        np_program_code = sr_program_code source, np_program_name = sr_program_name source,
        np_source_url = sr_source_url source, np_source_title = title, np_extracted_at = now,
        np_parser_used = ''llm-fallback-stub'', np_parser_mode = llm_fallback, np_confidence_score = Dec 55 (-2),
        np_manual_review_required = True, np_summary_text = Some (take 500 text_content),
        np_metadata_json = [(''reason'', JStr ''deterministic confidence below threshold'')], np_sections = [],
        np_rule_groups =
          [\<lparr>ng_code = ''manual_review_gate'', ng_name = ''Manual Review Gate'',
            ng_description = Some ''LLM fallback could not safely infer deterministic rule set.'', ng_priority = 999,
            ng_match_operator = match_all, ng_conditions = [rule_condition_norm ''escolaridade_rank'' op_gte 0 True],
            ng_outcomes = [rule_outcome_norm 0 ''Manual review required before publication.'' ''MANUAL_REVIEW'']\<rparr>]\<rparr>"

definition set_default :: "string \<Rightarrow> json \<Rightarrow> json dict \<Rightarrow> json dict" where
  "set_default k v d = (if dict_get d k = None then d @ [(k, v)] else d)"

definition user_payload :: "source_row \<Rightarrow> string \<Rightarrow> json dict" where
  "user_payload source text_content =
     [(''country_code'', JStr (sr_country_code source)), (''country_name'', JStr (sr_country_name source)),
      (''program_code'', JStr (sr_program_code source)), (''program_name'', JStr (sr_program_name source)),
      (''source_url'', JStr (sr_source_url source)), (''text'', JStr (take 20000 text_content))]"

definition with_defaults :: "source_row \<Rightarrow> string \<Rightarrow> json dict \<Rightarrow> json dict" where
  "with_defaults source title loaded =
     set_default ''manual_review_required'' (JBool True)
       (set_default ''confidence_score'' (JStr ''0.60'')
         (set_default ''parser_mode'' (JStr ''llm_fallback'')
           (set_default ''parser_used'' (JStr ''openai-fallback'')
             (set_default ''metadata_json'' (JObj [(''llm_provider'', JStr ''openai'')])
               (set_default ''sections'' (JList [])
                 (set_default ''source_title'' (JStr title)
                   (set_default ''source_url'' (JStr (sr_source_url source))
                     (set_default ''program_name'' (JStr (sr_program_name source))
                       (set_default ''program_code'' (JStr (sr_program_code source))
                         (set_default ''country_name'' (JStr (sr_country_name source))
                           (set_default ''country_code'' (JStr (sr_country_code source)) loaded)))))))))))"

text \<open>Any exception of the provider's branch, that of \<open>ensure_timezone\<close> for an answer with its own
  \<open>extracted_at\<close> included, gives the stub. Without that key the default, a \<open>datetime\<close>, passes.\<close>

definition extract_with_provider :: "readers \<Rightarrow> settings \<Rightarrow> time \<Rightarrow> source_row \<Rightarrow> string \<Rightarrow> string \<Rightarrow> norm_payload result" where
  "extract_with_provider R cfg now source text_content fallback_title =
     (let stub = local_stub now source text_content fallback_title
      in if \<not> opt_truthy (openai_api_key cfg) then stub
         else
           (case rd_llm_answer R (user_payload source text_content) of
              Some (JObj loaded) \<Rightarrow>
                if dict_get loaded ''extracted_at'' \<noteq> None then stub
                else
                  (case rd_convert_payload R (with_defaults source fallback_title loaded) of
                     None \<Rightarrow> stub
                   | Some p \<Rightarrow> (case make_payload (p\<lparr>np_extracted_at := now\<rparr>) of Inl _ \<Rightarrow> stub | Inr q \<Rightarrow> Inr q))
            | _ \<Rightarrow> stub))"

definition llm_extract :: "readers \<Rightarrow> settings \<Rightarrow> time \<Rightarrow> source_row \<Rightarrow> string \<Rightarrow> string \<Rightarrow> norm_payload result" where
  "llm_extract R cfg now source text_content fallback_title =
     bindR (extract_with_provider R cfg now source text_content fallback_title) (\<lambda>p.
     Inr (p\<lparr>np_parser_mode := llm_fallback, np_manual_review_required := True, np_confidence_score := Dec 60 (-2)\<rparr>))"

end
