(* ===== verification/Fetchers.thy ===== *)
theory Fetchers
  imports Extractors
begin

text \<open>
  Fetching a source, \<open>src/apps/ingestion/fetchers.py\<close>, and storing what was fetched, \<open>storage.py\<close>. The
  network (urllib and its reader of robots.txt), the splitting of an address and the file system are parameters.
\<close>

section \<open>The outside\<close>

record http_response =
  hr_body :: string
  hr_headers :: "string \<Rightarrow> string option"
  hr_url :: string

datatype fetch_error = Http_error int | Url_error string | Other_error exn

record outside =
  os_readers :: readers
  os_robots :: "string \<Rightarrow> string + (string \<Rightarrow> string \<Rightarrow> bool)"
  os_open :: "string \<Rightarrow> string \<Rightarrow> fetch_error + http_response"
  os_split_url :: "string \<Rightarrow> string \<times> string"
  os_write_file :: "string \<Rightarrow> string \<Rightarrow> unit result"
  os_rows :: row_order

section \<open>Fetching\<close>

record fetch_result =
  fr_source_url :: string
  fr_final_url :: string
  fr_content :: string
  fr_content_type :: "string option"
  fr_content_length :: int
  fr_title :: string
  fr_etag :: "string option"
  fr_last_modified :: "string option"
  fr_metadata_json :: "json dict"

definition build_default_robots_url :: "outside \<Rightarrow> string \<Rightarrow> string" where
  "build_default_robots_url W source_url =
     (case os_split_url W source_url of (scheme, netloc) \<Rightarrow> scheme @ ''://'' @ netloc @ ''/robots.txt'')"

definition validate_robots :: "outside \<Rightarrow> settings \<Rightarrow> source_row \<Rightarrow> unit result" where
  "validate_robots W cfg source =
     (if \<not> ingestion_enforce_robots cfg then Inr ()
      else
        let robots_url = (if opt_truthy (sr_robots_url source) then the (sr_robots_url source)
                          else build_default_robots_url W (sr_source_url source))
        in (case os_robots W robots_url of
              Inl e \<Rightarrow> Inl (RobotsPolicyError (''could not read robots.txt ('' @ robots_url @ ''): '' @ e))
            | Inr can_fetch \<Rightarrow>
                if \<not> can_fetch (ingestion_user_agent cfg) (sr_source_url source)
                then Inl (RobotsPolicyError (''robots policy disallows fetch: '' @ sr_source_url source))
                else Inr ()))"

definition header_value :: "(string \<Rightarrow> string option) \<Rightarrow> string \<Rightarrow> string option" where
  "header_value headers key = (if opt_truthy (headers key) then Some (strip (the (headers key))) else None)"

definition parse_content_length :: "string option \<Rightarrow> int option" where
  "parse_content_length v =
     (if \<not> opt_truthy v then None else (case int_of_str (the v) of Inl _ \<Rightarrow> None | Inr n \<Rightarrow> Some n))"

definition normalize_api_payload :: "outside \<Rightarrow> string \<Rightarrow> string option \<Rightarrow> (string \<times> string option) result" where
  "normalize_api_payload W body content_type =
     (case rd_json_loads (os_readers W) body of
        None \<Rightarrow> Inl (RuntimeError ''api source returned invalid JSON'')
      | Some v \<Rightarrow> Inr (dumps_pretty 0 v, Some (if opt_truthy content_type then the content_type else ''application/json'')))"

text \<open>The text between the first \<open><title>\<close> that is closed and its \<open></title>\<close>, in any case.\<close>

fun upto_close :: "string \<Rightarrow> string option" where
  "upto_close [] = None"
| "upto_close (c # cs) =
     (if lower (take 8 (c # cs)) = ''</title>'' then Some [] else map_option (\<lambda>s. c # s) (upto_close cs))"

definition title_at :: "string \<Rightarrow> string option" where
  "title_at s = (if lower (take 7 s) = ''<title>'' then upto_close (drop 7 s) else None)"

definition resolve_title :: "string \<Rightarrow> string option \<Rightarrow> string \<Rightarrow> string" where
  "resolve_title body content_type fallback =
     (case (if content_has ''text/html'' content_type then search title_at body else None) of
        Some t \<Rightarrow> take 255 (normalize_whitespace t)
      | None \<Rightarrow>
          if content_has ''application/json'' content_type then fallback @ '' json payload''
          else if content_has ''application/pdf'' content_type then fallback @ '' pdf document''
          else fallback)"

definition fetch_source :: "outside \<Rightarrow> settings \<Rightarrow> source_row \<Rightarrow> fetch_result result" where
  "fetch_source W cfg source =
     bindR (validate_robots W cfg source) (\<lambda>_.
     case os_open W (ingestion_user_agent cfg) (sr_source_url source) of
       Inl (Http_error c) \<Rightarrow> Inl (RuntimeError (''source fetch failed with HTTP '' @ int_str c))
     | Inl (Url_error reason) \<Rightarrow> Inl (RuntimeError (''source fetch failed: '' @ reason))
     | Inl (Other_error e) \<Rightarrow> Inl e
     | Inr response \<Rightarrow>
         let content_type = header_value (hr_headers response) ''Content-Type'';
             content_length = parse_content_length (header_value (hr_headers response) ''Content-Length'')
         in bindR (if sr_source_type source = src_api then normalize_api_payload W (hr_body response) content_type
                   else Inr (hr_body response, content_type)) (\<lambda>(body, content_type').
            Inr \<lparr>fr_source_url = sr_source_url source, fr_final_url = hr_url response, fr_content = body,
              fr_content_type = content_type',
              fr_content_length = (case content_length of Some n \<Rightarrow> n | None \<Rightarrow> int (length body)),
              fr_title = resolve_title body content_type' (sr_source_key source),
              fr_etag = header_value (hr_headers response) ''ETag'',
              fr_last_modified = header_value (hr_headers response) ''Last-Modified'',
              fr_metadata_json = [(''fetcher'', JStr ''urllib''),
                (''source_type'', JStr (source_type_value (sr_source_type source)))]\<rparr>))"

section \<open>Storing\<close>

record stored_object =
  so_bucket :: string
  so_path :: string
  so_uri :: string
  so_metadata_json :: "json dict"

definition guess_extension :: "string option \<Rightarrow> string" where
  "guess_extension content_type =
     (if content_has ''pdf'' content_type then ''.pdf'' else if content_has ''json'' content_type then ''.json''
      else if content_has ''html'' content_type then ''.html'' else ''.bin'')"

definition store_local :: "outside \<Rightarrow> settings \<Rightarrow> string \<Rightarrow> string \<Rightarrow> string result" where
  "store_local W cfg object_path payload =
     (let file_path = ingestion_local_fallback_dir cfg @ ''/'' @ ingestion_bronze_bucket cfg @ ''/'' @ object_path
      in bindR (os_write_file W file_path payload) (\<lambda>_. Inr file_path))"

definition store_object ::
    "outside \<Rightarrow> settings \<Rightarrow> time \<Rightarrow> string \<Rightarrow> uuid \<Rightarrow> string \<Rightarrow> string option \<Rightarrow> stored_object result" where
  "store_object W cfg now source_key run_item_id payload content_type =
     (let object_path = pad0 4 (year now) @ ''/'' @ pad0 2 (month now) @ ''/'' @ pad0 2 (day now) @ ''/''
            @ source_key @ ''/'' @ uuid_str run_item_id @ guess_extension content_type
      in bindR (store_local W cfg object_path payload) (\<lambda>uri.
         Inr \<lparr>so_bucket = ingestion_bronze_bucket cfg, so_path = object_path, so_uri = uri,
           so_metadata_json = [(''storage_backend'', JStr ''local'')]\<rparr>))"

end
