(* ===== verification/Publisher.thy ===== *)
theory Publisher
  imports Fetchers
begin

text \<open>
  Publication, \<open>src/apps/ingestion/publisher.py\<close>: the country and the program of a payload are found or
  created, a changed payload that may be published replaces the active version of the program, and the source
  document and its extraction are recorded. The clock is read once.
\<close>

text \<open>A column \<open>Numeric(5, 4)\<close>\<close>

definition numeric_4 :: "rat \<Rightarrow> rat" where
  "numeric_4 x = grid rhu (1 / 10000) x"

definition build_version_label :: "time \<Rightarrow> string \<Rightarrow> string" where
  "build_version_label now semantic_hash =
     (let s = time_of_day now div 1000000
      in take 32 (pad0 4 (year now) @ pad0 2 (month now) @ pad0 2 (day now) @ pad0 2 (s div 3600)
           @ pad0 2 (s div 60 mod 60) @ pad0 2 (s mod 60) @ ''-'' @ take 8 semantic_hash))"

definition group_row_of :: "time \<Rightarrow> uuid \<Rightarrow> norm_group \<Rightarrow> uuid \<Rightarrow> group_row" where
  "group_row_of now version_id g i =
     \<lparr>gr_id = i, gr_created_at = now, gr_program_version_id = version_id, gr_code = ng_code g, gr_name = ng_name g,
      gr_description = ng_description g, gr_priority = ng_priority g, gr_match_operator = ng_match_operator g,
      gr_is_active = True\<rparr>"

definition condition_row_of :: "time \<Rightarrow> uuid \<Rightarrow> norm_condition \<Rightarrow> uuid \<Rightarrow> condition_row" where
  "condition_row_of now group_id c i =
     \<lparr>cr_id = i, cr_created_at = now, cr_rule_group_id = group_id, cr_field_key = nc_field_key c,
      cr_operator = nc_operator c, cr_value_json = nc_value_json c, cr_condition_order = nc_condition_order c,
      cr_is_required = nc_is_required c\<rparr>"

definition outcome_row_of :: "uuid \<Rightarrow> norm_outcome \<Rightarrow> uuid \<Rightarrow> outcome_row" where
  "outcome_row_of group_id u i =
     \<lparr>ot_id = i, ot_rule_group_id = group_id, ot_score_delta = nu_score_delta u, ot_is_blocking = nu_is_blocking u,
      ot_explanation_message = nu_explanation_message u, ot_outcome_code = nu_outcome_code u\<rparr>"

definition publish_group :: "time \<Rightarrow> uuid \<Rightarrow> norm_group \<Rightarrow> ('z, unit) ingest_op" where
  "publish_group now version_id g =
     bindO (ingest_create_rule_group (group_row_of now version_id g)) (\<lambda>row.
     bindO (forO (\<lambda>c. bindO (ingest_create_rule_condition (condition_row_of now (gr_id row) c)) (\<lambda>_. ret ())) (ng_conditions g))
       (\<lambda>_. forO (\<lambda>u. bindO (ingest_create_rule_outcome (outcome_row_of (gr_id row) u)) (\<lambda>_. ret ())) (ng_outcomes g)))"

definition new_version :: "time \<Rightarrow> uuid \<Rightarrow> string \<Rightarrow> uuid \<Rightarrow> program_version" where
  "new_version now program_id semantic_hash i =
     \<lparr>pv_id = i, pv_created_at = now, pv_program_id = program_id, pv_version = build_version_label now semantic_hash,
      pv_status = active_version, pv_effective_from = now, pv_effective_to = None\<rparr>"

definition publish_version :: "time \<Rightarrow> program \<Rightarrow> norm_payload \<Rightarrow> string \<Rightarrow> ('z, uuid) ingest_op" where
  "publish_version now prog payload semantic_hash =
     bindO (list_active_program_versions (pg_id prog)) (\<lambda>active.
     bindO (if active \<noteq> [] then archive_program_versions active now else ret ()) (\<lambda>_.
     bindO (ingest_create_program_version (new_version now (pg_id prog) semantic_hash)) (\<lambda>v.
     bindO (forO (publish_group now (pv_id v)) (np_rule_groups payload)) (\<lambda>_.
     ret (pv_id v)))))"

definition find_or_create_country :: "norm_payload \<Rightarrow> ('z, country) ingest_op" where
  "find_or_create_country payload =
     bindO (ingest_get_country_by_code (np_country_code payload)) (\<lambda>found.
     case found of Some c \<Rightarrow> ret c | None \<Rightarrow> ingest_create_country (np_country_code payload) (np_country_name payload))"

definition find_or_create_program :: "source_row \<Rightarrow> norm_payload \<Rightarrow> country \<Rightarrow> ('z, program) ingest_op" where
  "find_or_create_program source payload c =
     bindO (get_program_by_country_and_code (co_id c) (np_program_code payload)) (\<lambda>found.
     case found of
       Some p \<Rightarrow> ret p
     | None \<Rightarrow> ingest_create_program (\<lambda>i. \<lparr>pg_id = i, pg_country_id = co_id c, pg_code = np_program_code payload,
         pg_name = np_program_name payload,
         pg_description = Some (''Auto-created from source registry ('' @ sr_source_key source @ '')''),
         pg_is_active = True\<rparr>))"

definition document_of ::
    "time \<Rightarrow> source_row \<Rightarrow> run_item \<Rightarrow> norm_payload \<Rightarrow> diff_summary \<Rightarrow> string \<Rightarrow> string \<Rightarrow> string \<Rightarrow> uuid option
     \<Rightarrow> uuid \<Rightarrow> source_document" where
  "document_of now source x payload diff semantic_hash raw_hash uri version_id i =
     \<lparr>sd_id = i, sd_created_at = now, sd_source_id = Some (sr_id source), sd_ingestion_run_item_id = Some (im_id x),
      sd_program_version_id = version_id, sd_title = np_source_title payload, sd_source_url = np_source_url payload,
      sd_checksum_sha256 = Some raw_hash, sd_raw_storage_uri = Some uri, sd_published_at = Some now,
      sd_metadata_json =
        [(''parser_used'', JStr (np_parser_used payload)),
         (''parser_mode'', JStr (parser_mode_value (np_parser_mode payload))),
         (''manual_review_required'', JBool (np_manual_review_required payload)),
         (''semantic_hash_sha256'', JStr semantic_hash), (''diff'', JObj (dump_diff diff))]\<rparr>"

definition extraction_of ::
    "time \<Rightarrow> source_row \<Rightarrow> norm_payload \<Rightarrow> diff_summary \<Rightarrow> string \<Rightarrow> bool \<Rightarrow> uuid \<Rightarrow> uuid \<Rightarrow> source_extraction" where
  "extraction_of now source payload diff semantic_hash published document_id i =
     \<lparr>se_id = i, se_created_at = now, se_source_document_id = document_id,
      se_extraction_version = sr_parser_version source, se_extracted_text = np_summary_text payload,
      se_structured_data_json = JObj (dump_payload payload),
      se_confidence_score = Some (numeric_4 (dec_val (np_confidence_score payload))),
      se_parser_used = Some (np_parser_used payload), se_parser_mode = np_parser_mode payload,
      se_manual_review_required = np_manual_review_required payload, se_semantic_hash_sha256 = Some semantic_hash,
      se_extraction_metadata_json = [(''published'', JBool published), (''diff_summary'', JObj (dump_diff diff))]\<rparr>"

text \<open>The version that the document is attached to: the new one, or the latest that exists.\<close>

definition published_version ::
    "time \<Rightarrow> program \<Rightarrow> norm_payload \<Rightarrow> diff_summary \<Rightarrow> string \<Rightarrow> bool \<Rightarrow> ('z, uuid option \<times> bool) ingest_op" where
  "published_version now prog payload diff semantic_hash allow_publish =
     bindO (get_latest_program_version (pg_id prog)) (\<lambda>newest.
     if allow_publish \<and> ds_changed diff
     then bindO (publish_version now prog payload semantic_hash) (\<lambda>v. ret (Some v, True))
     else ret (map_option pv_id newest, False))"

definition publish ::
    "time \<Rightarrow> source_row \<Rightarrow> run_item \<Rightarrow> norm_payload \<Rightarrow> diff_summary \<Rightarrow> string \<Rightarrow> string \<Rightarrow> string \<Rightarrow> bool
     \<Rightarrow> ('z, json dict) ingest_op" where
  "publish now source x payload diff semantic_hash raw_hash uri allow_publish =
     bindO (find_or_create_country payload) (\<lambda>c.
     bindO (find_or_create_program source payload c) (\<lambda>prog.
     bindO (published_version now prog payload diff semantic_hash allow_publish) (\<lambda>(version_id, published).
     bindO (create_source_document (document_of now source x payload diff semantic_hash raw_hash uri version_id)) (\<lambda>doc.
     bindO (create_source_extraction (extraction_of now source payload diff semantic_hash published (sd_id doc)))
       (\<lambda>extraction.
     ret [(''published'', JBool published),
          (''program_version_id'', opt_json (\<lambda>v. JStr (uuid_str v)) version_id),
          (''source_document_id'', JStr (uuid_str (sd_id doc))),
          (''source_extraction_id'', JStr (uuid_str (se_id extraction)))])))))"

end
