(* ===== verification/Ingestion_Pipeline.thy ===== *)
theory Ingestion_Pipeline
  imports Publisher Jobs
begin

text \<open>
  The ingestion pipeline: \<open>src/apps/ingestion/services.py\<close> (creation of runs, processing of an item, the
  handling of its errors, the closing of a run), \<open>tasks.py\<close> (the background tasks) and the routes of
  \<open>src/app/api/v1/ingestion.py\<close>. The clock is read once per operation.

  A rollback that ends a transaction expires every row object of the session, whatever
  \<open>expire_on_commit\<close> says; reading a column of such an object outside an awaited call fails in an
  \<open>AsyncSession\<close>. A rollback of a session without an open transaction does nothing. The handler of errors reads
  \<open>source.id\<close> right after its rollback, so its parameter \<open>begun\<close> says whether a statement was sent since the
  last commit.
\<close>

section \<open>Runs\<close>

definition seed_default_sources :: "settings \<Rightarrow> time \<Rightarrow> source_seed list \<Rightarrow> ('z, nat) ingest_op" where
  "seed_default_sources cfg now default_source_seeds = seed_sources (gateway_of cfg) now default_source_seeds"

definition create_run ::
    "settings \<Rightarrow> time \<Rightarrow> run_trigger \<Rightarrow> string option \<Rightarrow> string option \<Rightarrow> string option \<Rightarrow> string option
     \<Rightarrow> json dict \<Rightarrow> ('z, uuid \<times> uuid list) ingest_op" where
  "create_run cfg now trigger requested_by trace_id source_key country_code metadata =
     bindO
       (if opt_truthy source_key then
          bindO (get_source_by_key (the source_key)) (\<lambda>found.
          case found of
            None \<Rightarrow> raise (ValueError (''source_key not found: '' @ the source_key))
          | Some s \<Rightarrow> ret [sr_id s])
        else
          bindO (list_active_sources country_code) (\<lambda>sources.
          if sources = [] then raise (ValueError ''no active sources available for ingestion run'')
          else ret (map sr_id sources)))
       (\<lambda>source_ids. create_run_with_items (gateway_of cfg) now trigger source_ids requested_by trace_id metadata)"

section \<open>Processing an item\<close>

definition handle_processing_error ::
    "gateway \<Rightarrow> time \<Rightarrow> bool \<Rightarrow> exn \<Rightarrow> uuid \<Rightarrow> source_row \<Rightarrow> ('z, unit) ingest_op" where
  "handle_processing_error gw now begun e item_id source =
     bindO rollback (\<lambda>_.
     if begun then raise greenlet_error
     else
       bindO (mark_source_failure gw now (sr_id source) (exn_text e)) (\<lambda>(_, quarantined).
       bindO (get_run_item item_id) (\<lambda>found.
       case found of
         None \<Rightarrow> ret ()
       | Some (x, _, _) \<Rightarrow>
           bindO (if quarantined then mark_run_item_quarantined now x (exn_text e)
                  else mark_run_item_failed now x (exn_text e)) (\<lambda>_. commit))))"

text \<open>The first transaction of the processing; \<open>None\<close> when the source is in quarantine.\<close>

definition start_processing ::
    "time \<Rightarrow> run_item \<Rightarrow> source_row \<Rightarrow> ingestion_run \<Rightarrow> int \<Rightarrow> ('z, run_item option) ingest_op" where
  "start_processing now x source run attempt_number =
     bindO (if ir_status run = run_pending then mark_run_running now run else ret ()) (\<lambda>_.
     bindO (mark_run_item_running now x attempt_number) (\<lambda>x'.
     bindO commit (\<lambda>_.
     case sr_quarantine_until source of
       None \<Rightarrow> ret (Some x')
     | Some t \<Rightarrow>
         if now < t then
           bindO (mark_run_item_quarantined now x' (''source quarantined until '' @ isoformat t)) (\<lambda>_.
           bindO commit (\<lambda>_. ret None))
         else ret (Some x'))))"

definition skipped_outcome :: "run_item \<Rightarrow> string \<Rightarrow> fetch_result \<Rightarrow> item_outcome" where
  "skipped_outcome x raw_hash fr =
     \<lparr>io_status = item_skipped, io_raw_hash_sha256 = Some raw_hash,
      io_semantic_hash_sha256 = im_semantic_hash_sha256 x, io_parser_used = im_parser_used x,
      io_parser_mode = im_parser_mode x,
      io_confidence_score = (case im_confidence_score x of None \<Rightarrow> None | Some c \<Rightarrow> if c = 0 then None else Some (fl c)),
      io_manual_review_required = im_manual_review_required x,
      io_diff_summary_json = [(''changed'', JBool False), (''reason'', JStr ''raw hash unchanged'')],
      io_metadata_json = [(''fetch_metadata'', JObj (fr_metadata_json fr))]\<rparr>"

definition bronze_of ::
    "time \<Rightarrow> source_row \<Rightarrow> run_item \<Rightarrow> fetch_result \<Rightarrow> stored_object \<Rightarrow> string \<Rightarrow> uuid \<Rightarrow> bronze_document" where
  "bronze_of now source x fr stored raw_hash i =
     \<lparr>bz_id = i, bz_created_at = now, bz_source_id = sr_id source, bz_ingestion_run_item_id = im_id x,
      bz_source_url = fr_final_url fr, bz_content_type = fr_content_type fr,
      bz_content_length = Some (fr_content_length fr), bz_storage_bucket = so_bucket stored,
      bz_storage_path = so_path stored, bz_storage_uri = so_uri stored, bz_checksum_sha256 = raw_hash,
      bz_metadata_json = fr_metadata_json fr @ so_metadata_json stored\<rparr>"

text \<open>The deterministic payload, or that of the fallback when its confidence is below the threshold.\<close>

definition extract_payload ::
    "outside \<Rightarrow> settings \<Rightarrow> time \<Rightarrow> source_row \<Rightarrow> fetch_result \<Rightarrow> norm_payload result" where
  "extract_payload W cfg now source fr =
     bindR (deterministic_extract (os_readers W) now source (fr_content fr) (fr_content_type fr) (fr_title fr))
       (\<lambda>(payload, txt).
     if dec_val (np_confidence_score payload) < sr_confidence_threshold source
     then llm_extract (os_readers W) cfg now source txt (fr_title fr)
     else Inr payload)"

definition str_of_json :: "json option \<Rightarrow> string" where
  "str_of_json v = (case v of Some (JStr s) \<Rightarrow> s | _ \<Rightarrow> [])"

text \<open>A section that the extractor made as a row; the keys are those of \<open>section_of\<close>.\<close>

definition section_row :: "json dict \<Rightarrow> uuid \<Rightarrow> time \<Rightarrow> uuid \<Rightarrow> silver_section" where
  "section_row s i now item_id =
     \<lparr>sv_id = i, sv_created_at = now, sv_ingestion_run_item_id = item_id,
      sv_section_key = str_of_json (dict_get s ''section_key''),
      sv_heading = (case dict_get s ''heading'' of Some (JStr h) \<Rightarrow> Some h | _ \<Rightarrow> None),
      sv_section_order = (case dict_get s ''section_order'' of Some (JInt n) \<Rightarrow> n | _ \<Rightarrow> 1),
      sv_text_content = str_of_json (dict_get s ''text_content''),
      sv_semantic_hash_sha256 = sha256_hex (str_of_json (dict_get s ''text_content'')), sv_metadata_json = []\<rparr>"

definition can_auto_publish :: "source_row \<Rightarrow> norm_payload \<Rightarrow> bool" where
  "can_auto_publish source p \<longleftrightarrow> \<not> np_manual_review_required p
     \<and> sr_confidence_threshold source \<le> dec_val (np_confidence_score p)"

text \<open>The newest version of the program that a payload names, with its rules.\<close>

definition previous_version_of ::
    "row_order \<Rightarrow> norm_payload \<Rightarrow> ('z, (group_row \<times> condition_row list) list option) ingest_op" where
  "previous_version_of ord p =
     bindO (ingest_get_country_by_code (np_country_code p)) (\<lambda>found.
     case found of
       None \<Rightarrow> ret None
     | Some c \<Rightarrow>
         bindO (get_program_by_country_and_code (co_id c) (np_program_code p)) (\<lambda>prog.
         case prog of None \<Rightarrow> ret None | Some g \<Rightarrow> get_latest_program_version_with_rules ord (pg_id g)))"

definition completed_outcome ::
    "item_status \<Rightarrow> string \<Rightarrow> string \<Rightarrow> norm_payload \<Rightarrow> diff_summary \<Rightarrow> fetch_result \<Rightarrow> json dict \<Rightarrow> item_outcome" where
  "completed_outcome status raw_hash semantic_hash p diff fr publish_result =
     \<lparr>io_status = status, io_raw_hash_sha256 = Some raw_hash, io_semantic_hash_sha256 = Some semantic_hash,
      io_parser_used = Some (np_parser_used p), io_parser_mode = np_parser_mode p,
      io_confidence_score = Some (numeric_4 (fl (dec_val (np_confidence_score p)))),
      io_manual_review_required = np_manual_review_required p, io_diff_summary_json = dump_diff diff,
      io_metadata_json =
        [(''fetch_etag'', opt_json JStr (fr_etag fr)), (''fetch_last_modified'', opt_json JStr (fr_last_modified fr)),
         (''publish'', JObj publish_result)]\<rparr>"

text \<open>From the validated payload to the end of the second transaction.\<close>

definition record_payload ::
    "row_order \<Rightarrow> time \<Rightarrow> run_item \<Rightarrow> source_row \<Rightarrow> fetch_result \<Rightarrow> string \<Rightarrow> string \<Rightarrow> norm_payload
     \<Rightarrow> ('z, item_status) ingest_op" where
  "record_payload ord now x source fr raw_hash uri p =
     (let semantic_hash = compute_semantic_hash p
      in bindO (get_last_completed_item_for_source (sr_id source)) (\<lambda>previous_item.
         let previous_hash = (case previous_item of None \<Rightarrow> None | Some y \<Rightarrow> im_semantic_hash_sha256 y)
         in bindO (previous_version_of ord p) (\<lambda>previous_version.
            let diff = compare_payload p semantic_hash previous_hash previous_version;
                publishable = can_auto_publish source p;
                status = (if \<not> publishable then item_manual_review
                          else if \<not> ds_changed diff then item_skipped else item_completed)
            in bindO (replace_silver_sections now (im_id x) (map section_row (np_sections p))) (\<lambda>_.
               bindO (publish now source x p diff semantic_hash raw_hash uri publishable) (\<lambda>publish_result.
               bindO (mark_run_item_completed now x
                 (completed_outcome status raw_hash semantic_hash p diff fr publish_result)) (\<lambda>_.
               bindO (reset_source_health source) (\<lambda>_.
               bindO commit (\<lambda>_. ret status))))))))"

text \<open>What follows the fetch: the comparison of the raw hash, the stored document, the extraction and its
  validation, then \<open>record_payload\<close>.\<close>

definition process_fetched ::
    "outside \<Rightarrow> settings \<Rightarrow> time \<Rightarrow> run_item \<Rightarrow> source_row \<Rightarrow> fetch_result \<Rightarrow> ('z, item_status) ingest_op" where
  "process_fetched W cfg now x source fr =
     (let raw_hash = sha256_hex (fr_content fr)
      in bindO (get_latest_bronze_document_by_source (sr_id source)) (\<lambda>newest.
         if map_option bz_checksum_sha256 newest = Some raw_hash then
           bindO (mark_run_item_completed now x (skipped_outcome x raw_hash fr)) (\<lambda>_.
           bindO commit (\<lambda>_. ret item_skipped))
         else
           bindO (lift (store_object W cfg now (sr_source_key source) (im_id x) (fr_content fr) (fr_content_type fr)))
             (\<lambda>stored.
           bindO (create_bronze_document (bronze_of now source x fr stored raw_hash)) (\<lambda>_.
           bindO (lift (extract_payload W cfg now source fr)) (\<lambda>payload.
           bindO (lift (revalidate payload)) (\<lambda>p.
           record_payload (os_rows W) now x source fr raw_hash (so_uri stored) p))))))"

text \<open>\<open>try: ... except Exception as exc: await handle(...); raise\<close>\<close>

definition guarded ::
    "gateway \<Rightarrow> time \<Rightarrow> bool \<Rightarrow> uuid \<Rightarrow> source_row \<Rightarrow> ('z, 'a) ingest_op \<Rightarrow> ('z, 'a) ingest_op" where
  "guarded gw now begun item_id source body =
     catch body (\<lambda>e. bindO (handle_processing_error gw now begun e item_id source) (\<lambda>_. raise e))"

definition execute_processing ::
    "outside \<Rightarrow> settings \<Rightarrow> time \<Rightarrow> uuid \<Rightarrow> run_item \<Rightarrow> source_row \<Rightarrow> ingestion_run \<Rightarrow> int \<Rightarrow> ('z, item_status) ingest_op" where
  "execute_processing W cfg now item_id x source run attempt_number =
     (let gw = gateway_of cfg
      in bindO (guarded gw now True item_id source (start_processing now x source run attempt_number)) (\<lambda>started.
         case started of
           None \<Rightarrow> ret item_quarantined
         | Some x' \<Rightarrow>
             bindO (guarded gw now False item_id source (lift (fetch_source W cfg source))) (\<lambda>fr.
             guarded gw now True item_id source (process_fetched W cfg now x' source fr))))"

definition process_run_item ::
    "outside \<Rightarrow> settings \<Rightarrow> time \<Rightarrow> uuid \<Rightarrow> int \<Rightarrow> ('z, item_status) ingest_op" where
  "process_run_item W cfg now item_id attempt_number =
     bindO (get_run_item item_id) (\<lambda>found.
     case found of
       None \<Rightarrow> raise (ValueError ''ingestion run item not found'')
     | Some (x, None, _) \<Rightarrow> raise (ValueError ''ingestion run item has no source'')
     | Some (x, Some source, None) \<Rightarrow> raise (ValueError ''ingestion run item has no run'')
     | Some (x, Some source, Some run) \<Rightarrow> execute_processing W cfg now item_id x source run attempt_number)"

section \<open>Closing a run\<close>

definition count_items :: "item_status set \<Rightarrow> run_item list \<Rightarrow> int" where
  "count_items statuses xs = int (length (filter (\<lambda>x. im_status x \<in> statuses) xs))"

definition finalize_run :: "time \<Rightarrow> uuid \<Rightarrow> ('z, ingestion_run) ingest_op" where
  "finalize_run now run_id =
     bindO (get_run run_id) (\<lambda>found.
     case found of
       None \<Rightarrow> raise (ValueError ''ingestion run not found'')
     | Some run \<Rightarrow>
         bindO (list_run_items run_id) (\<lambda>xs.
         let success_items = count_items {item_completed, item_skipped, item_manual_review} xs;
             failed_items = count_items {item_failed, item_quarantined} xs;
             pending_items = count_items {item_pending, item_running} xs
         in if 0 < pending_items then
              let run' = run\<lparr>ir_processed_items := success_items + failed_items, ir_success_items := success_items,
                    ir_failed_items := failed_items, ir_status := run_running\<rparr>
              in bindO (flush ingest_ok (set_run run')) (\<lambda>_. bindO commit (\<lambda>_. ret run'))
            else
              let notes = (if failed_items \<noteq> 0 then Some ''Run completed with failures and/or quarantined sources.''
                           else None)
              in bindO (mark_run_completed now run success_items failed_items notes) (\<lambda>run'.
                 bindO commit (\<lambda>_. ret run'))))"

section \<open>Tasks\<close>

record ingest_dead_letter =
  il_source :: string
  il_payload :: "json dict"

datatype ingest_delivery =
    Item_done item_status
  | Item_raised exn "ingest_dead_letter option"
  | Item_retried exn int

definition ingest_countdown :: "settings \<Rightarrow> nat \<Rightarrow> int" where
  "ingest_countdown cfg retries = max 1 (ingestion_retry_backoff_base_seconds cfg * 2 ^ retries)"

definition emit_dead_letter :: "string \<Rightarrow> string \<Rightarrow> string option \<Rightarrow> exn \<Rightarrow> ingest_dead_letter" where
  "emit_dead_letter run_id run_item_id trace_id e =
     \<lparr>il_source = ''ingestion_item'',
      il_payload = [(''run_id'', JStr run_id), (''run_item_id'', JStr run_item_id),
        (''trace_id'', opt_json JStr trace_id), (''error'', JStr (exn_text e))]\<rparr>"

text \<open>One delivery: each \<open>asyncio.run\<close> opens a session of its own. An exception of the handler escapes.\<close>

definition ingest_source_task ::
    "outside \<Rightarrow> settings \<Rightarrow> time \<Rightarrow> string \<Rightarrow> string \<Rightarrow> string option \<Rightarrow> nat
     \<Rightarrow> ('z ingest_db_scheme, ingest_delivery) op" where
  "ingest_source_task W cfg now run_id run_item_id trace_id retries =
     (case (uuid_parse run_id, uuid_parse run_item_id) of
        (Inr run_uuid, Inr item_uuid) \<Rightarrow>
          catch
            (catch
              (bindO (request (process_run_item W cfg now item_uuid (int retries + 1))) (\<lambda>status.
               bindO (request (finalize_run now run_uuid)) (\<lambda>_. ret (Item_done status))))
              (\<lambda>e. if is_definitive_error e \<or> \<not> is_transient_error e \<or> ingestion_task_max_retries cfg \<le> int retries
                   then bindO (request (finalize_run now run_uuid)) (\<lambda>_.
                        ret (Item_raised e (Some (emit_dead_letter run_id run_item_id trace_id e))))
                   else ret (Item_retried e (ingest_countdown cfg retries))))
            (\<lambda>e. ret (Item_raised e None))
      | (Inl e, _) \<Rightarrow> ret (Item_raised e None)
      | (_, Inl e) \<Rightarrow> ret (Item_raised e None))"

record item_message =
  ig_run_id :: string
  ig_run_item_id :: string
  ig_trace_id :: "string option"

definition task_create_run ::
    "settings \<Rightarrow> time \<Rightarrow> run_trigger \<Rightarrow> string option \<Rightarrow> string option \<Rightarrow> string \<Rightarrow> bool
     \<Rightarrow> ('z, uuid \<times> uuid list) ingest_op" where
  "task_create_run cfg now trigger country_code trace_id requested_by scheduler_filtered =
     (if scheduler_filtered then
        bindO (list_sources_for_scheduler now) (\<lambda>sources.
        if sources = [] then raise (RuntimeError ''no eligible source for scheduled ingestion'')
        else create_run_with_items (gateway_of cfg) now trigger (map sr_id sources) (Some requested_by) trace_id
               [(''scheduler_filtered'', JBool True)])
      else create_run cfg now trigger (Some requested_by) trace_id None country_code [])"

definition item_messages :: "uuid \<Rightarrow> uuid list \<Rightarrow> string option \<Rightarrow> item_message list" where
  "item_messages run_id item_ids trace_id =
     map (\<lambda>i. \<lparr>ig_run_id = uuid_str run_id, ig_run_item_id = uuid_str i, ig_trace_id = trace_id\<rparr>) item_ids"

definition dispatch_country_ingestion_task ::
    "settings \<Rightarrow> time \<Rightarrow> string \<Rightarrow> string option \<Rightarrow> ('z ingest_db_scheme, item_message list) op" where
  "dispatch_country_ingestion_task cfg now country_code trace_id =
     bindO (request (task_create_run cfg now scheduled (Some (upper country_code)) trace_id
       ''celery-country-dispatcher'' False)) (\<lambda>(run_id, item_ids).
     ret (item_messages run_id item_ids trace_id))"

definition dispatch_scheduled_ingestion ::
    "settings \<Rightarrow> time \<Rightarrow> ('z ingest_db_scheme, item_message list) op" where
  "dispatch_scheduled_ingestion cfg now =
     catch
       (bindO (request (task_create_run cfg now scheduled None None ''celery-beat'' True)) (\<lambda>(run_id, item_ids).
        ret (item_messages run_id item_ids None)))
       (\<lambda>e. case e of RuntimeError _ \<Rightarrow> ret [] | _ \<Rightarrow> raise e)"

section \<open>Routes\<close>

definition seed_source_registry :: "settings \<Rightarrow> time \<Rightarrow> source_seed list \<Rightarrow> ('z, nat) ingest_op" where
  "seed_source_registry cfg now default_source_seeds = seed_default_sources cfg now default_source_seeds"

definition list_source_registry :: "string option \<Rightarrow> ('z, source_row list) ingest_op" where
  "list_source_registry country_code = list_active_sources country_code"

record dispatch_response =
  dr_run_id :: uuid
  dr_run_item_id :: uuid
  dr_status :: item_status
  dr_message :: "item_message option"

definition reprocess_source ::
    "outside \<Rightarrow> settings \<Rightarrow> time \<Rightarrow> string \<Rightarrow> bool \<Rightarrow> string option \<Rightarrow> ('z, dispatch_response) ingest_op" where
  "reprocess_source W cfg now source_key sync trace_id =
     bindO (create_run cfg now reprocess (Some ''internal-api'') trace_id (Some source_key) None
       [(''requested_via'', JStr ''internal_endpoint'')]) (\<lambda>(run_id, item_ids).
     case item_ids of
       [] \<Rightarrow> raise (HTTPException 500 ''run has no items'')
     | i # _ \<Rightarrow>
         if sync then
           bindO (process_run_item W cfg now i 1) (\<lambda>status.
           bindO (finalize_run now run_id) (\<lambda>_.
           ret \<lparr>dr_run_id = run_id, dr_run_item_id = i, dr_status = status, dr_message = None\<rparr>))
         else
           ret \<lparr>dr_run_id = run_id, dr_run_item_id = i, dr_status = item_pending,
             dr_message = Some \<lparr>ig_run_id = uuid_str run_id, ig_run_item_id = uuid_str i, ig_trace_id = trace_id\<rparr>\<rparr>)"

definition get_ingestion_run :: "uuid \<Rightarrow> ('z, ingestion_run) ingest_op" where
  "get_ingestion_run run_id =
     bindO (get_run run_id) (\<lambda>found.
     case found of None \<Rightarrow> raise (HTTPException 404 ''ingestion run not found'') | Some r \<Rightarrow> ret r)"

end
