(* ===== verification/Ingestion_Contract.thy ===== *)
theory Ingestion_Contract
  imports Ingestion_Pipeline
begin

text \<open>
  What the ingestion pipeline does: the retry loop of the gateway ends, a failing fetch counts against its source
  until the quarantine, and the processing of a fetched document never gets past its validation, so that nothing is
  ever published and the item stays in the state running.
\<close>

section \<open>The retry loop\<close>

text \<open>An operation that also counts its calls.\<close>

definition counted :: "('s, 'a) op \<Rightarrow> ('s \<times> nat, 'a) op" where
  "counted operation sn = (case sn of (s, n) \<Rightarrow> case operation s of (r, s') \<Rightarrow> (r, (s', Suc n)))"

lemma retry_from_counted:
  assumes "attempt \<le> gw_max_retries gw" and "0 \<le> attempt"
  shows "\<exists>r s' k. retry_from gw name (counted operation) attempt (s, n)
      = ((r, (s', n + Suc k)), map (\<lambda>i. fmul (gw_base_backoff_seconds gw) (2 ^ i)) [nat attempt..<nat attempt + k])
    \<and> fst (retry_from gw name operation attempt s) = (r, s')
    \<and> attempt + int k \<le> gw_max_retries gw \<and> (\<exists>s0. operation s0 = (r, s'))
    \<and> ((\<exists>e. r = Inl e \<and> is_dbapi_error e) \<longrightarrow> attempt + int k = gw_max_retries gw)"
  using assms
proof (induction "nat (gw_max_retries gw - attempt)" arbitrary: attempt s n)
  case 0
  then have a: "attempt = gw_max_retries gw" by simp
  obtain r s' where r: "operation s = (r, s')" by fastforce
  show ?case using 0 r
    by (intro exI [of _ r] exI [of _ s'] exI [of _ 0])
      (auto simp: a counted_def retry_from.simps [of gw name _ "gw_max_retries gw"] split: sum.split)
next
  case (Suc m)
  obtain r s' where r: "operation s = (r, s')" by fastforce
  show ?case
  proof (cases "\<exists>e. r = Inl e \<and> is_dbapi_error e")
    case False
    with r Suc.prems show ?thesis
      by (intro exI [of _ r] exI [of _ s'] exI [of _ 0])
        (auto simp: counted_def retry_from.simps [of gw name _ attempt] split: sum.split)
  next
    case True
    then obtain e where e: "r = Inl e" "is_dbapi_error e" by blast
    have "m = nat (gw_max_retries gw - (attempt + 1))" "attempt + 1 \<le> gw_max_retries gw" "0 \<le> attempt + 1"
      using Suc by auto
    from Suc.hyps(1) [OF this, of s' "Suc n"] obtain r2 s2 k where
      k: "retry_from gw name (counted operation) (attempt + 1) (s', Suc n)
        = ((r2, (s2, Suc n + Suc k)), map (\<lambda>i. fmul (gw_base_backoff_seconds gw) (2 ^ i)) [nat (attempt + 1)..<nat (attempt + 1) + k])"
      "fst (retry_from gw name operation (attempt + 1) s') = (r2, s2)"
      "attempt + 1 + int k \<le> gw_max_retries gw" "\<exists>s0. operation s0 = (r2, s2)"
      "(\<exists>e. r2 = Inl e \<and> is_dbapi_error e) \<longrightarrow> attempt + 1 + int k = gw_max_retries gw" by blast
    have na: "nat (attempt + 1) = Suc (nat attempt)" using Suc.prems by simp
    have up: "[nat attempt..<Suc (nat attempt + k)] = nat attempt # [Suc (nat attempt)..<Suc (nat attempt + k)]"
      by (simp add: upt_conv_Cons del: upt_Suc)
    show ?thesis
      using k r e Suc.hyps(2) Suc.prems
      by (intro exI [of _ r2] exI [of _ s2] exI [of _ "Suc k"])
        (simp add: counted_def retry_from.simps [of gw name _ attempt] na up case_prod_beta add.assoc del: upt_Suc)
  qed
qed

text \<open>C31. The retry loop of the gateway ends for every operation: it calls it at least once and at most
  max_retries + 1 times, sleeps the base delay times 1, 2, 4, ... between the calls, and answers with the result and
  the state of the last call; a database error comes out of it only when all the calls are used up.\<close>

theorem with_retry_terminates:
  assumes "0 \<le> gw_max_retries gw"
  shows "\<exists>r s' calls. retry_from gw name (counted operation) 0 (s, 0)
      = ((r, (s', calls)), map (\<lambda>i. fmul (gw_base_backoff_seconds gw) (2 ^ i)) [0..<calls - 1])
    \<and> with_retry gw name operation s = (r, s')
    \<and> 1 \<le> calls \<and> int calls \<le> gw_max_retries gw + 1 \<and> (\<exists>s0. operation s0 = (r, s'))
    \<and> ((\<exists>e. r = Inl e \<and> is_dbapi_error e) \<longrightarrow> int calls = gw_max_retries gw + 1)"
proof -
  obtain r s' k where k: "retry_from gw name (counted operation) 0 (s, 0)
      = ((r, (s', 0 + Suc k)), map (\<lambda>i. fmul (gw_base_backoff_seconds gw) (2 ^ i)) [nat 0..<nat 0 + k])"
    "fst (retry_from gw name operation 0 s) = (r, s')" "0 + int k \<le> gw_max_retries gw" "\<exists>s0. operation s0 = (r, s')"
    "(\<exists>e. r = Inl e \<and> is_dbapi_error e) \<longrightarrow> 0 + int k = gw_max_retries gw"
    using retry_from_counted [OF assms order_refl, of name operation s 0] by blast
  then show ?thesis
    by (intro exI [of _ r] exI [of _ s'] exI [of _ "Suc k"]) (simp add: with_retry_def)
qed

definition flaky :: "(nat, nat) op" where
  "flaky s = (if s < 2 then (Inl (OperationalError ''connection lost''), Suc s) else (Inr s, s))"

theorem with_retry_terminates_witness:
  "\<exists>r s' calls. retry_from (gateway_of base_defaults) ''op'' (counted flaky) 0 (0, 0)
      = ((r, (s', calls)), map (\<lambda>i. fmul (gw_base_backoff_seconds (gateway_of base_defaults)) (2 ^ i)) [0..<calls - 1])
    \<and> with_retry (gateway_of base_defaults) ''op'' flaky 0 = (r, s')
    \<and> 1 \<le> calls \<and> int calls \<le> gw_max_retries (gateway_of base_defaults) + 1 \<and> (\<exists>s0. flaky s0 = (r, s'))
    \<and> ((\<exists>e. r = Inl e \<and> is_dbapi_error e) \<longrightarrow> int calls = gw_max_retries (gateway_of base_defaults) + 1)"
  by (rule with_retry_terminates) (simp add: gateway_of_def base_defaults_def)

section \<open>Nothing is published\<close>

text \<open>What readers of the rules and of the documents see.\<close>

definition published_state ::
    "'z ingest_db_scheme \<Rightarrow> (country list \<times> program list \<times> program_version list \<times> group_row list \<times> condition_row list
      \<times> outcome_row list) \<times> bronze_document list \<times> silver_section list \<times> source_document list \<times> source_extraction list" where
  "published_state d =
     ((rd_countries d, rd_programs d, rd_versions d, rd_groups d, rd_conditions d, rd_outcomes d), gd_bronze d,
      gd_sections d, gd_documents d, gd_extractions d)"

lemma published_set [simp]:
  "published_state (set_source s d) = published_state d" "published_state (set_run r d) = published_state d"
  "published_state (set_item x d) = published_state d"
  by (simp_all add: published_state_def set_source_def set_run_def set_item_def)

definition unpublished :: "'z ingest_db_scheme \<Rightarrow> 'z ingest_db_scheme \<Rightarrow> bool" where
  "unpublished d0 d \<longleftrightarrow> published_state d = published_state d0"

lemma keeps_put_item [inv_intros]: "keeps (both (unpublished d0)) (put_item x)"
  unfolding put_item_def by (intro inv_intros keeps_flush) (simp add: unpublished_def)

lemma keeps_marks [inv_intros]:
  "keeps (both (unpublished d0)) (mark_run_running now r)"
  "keeps (both (unpublished d0)) (mark_run_item_running now x n)"
  "keeps (both (unpublished d0)) (mark_run_item_completed now x c)"
  "keeps (both (unpublished d0)) (mark_run_item_failed now x e)"
  "keeps (both (unpublished d0)) (mark_run_item_quarantined now x e)"
  "keeps (both (unpublished d0)) (increase_source_failure s reason t)"
  unfolding mark_run_running_def mark_run_item_running_def mark_run_item_completed_def mark_run_item_failed_def
    mark_run_item_quarantined_def increase_source_failure_def
  by (intro inv_intros keeps_flush; simp add: unpublished_def)+

lemma keeps_retry_from: "keeps P m \<Longrightarrow> P s \<Longrightarrow> P (snd (fst (retry_from gw name m a s)))"
proof (induction gw name m a s rule: retry_from.induct)
  case (1 gw name m a s)
  have m: "P (snd (m s))" using 1(2,3) by (simp add: keeps_def)
  show ?case
  proof (cases "gw_max_retries gw < a")
    case False
    obtain r s1 where r: "m s = (r, s1)" by fastforce
    show ?thesis
    proof (cases "\<exists>e. r = Inl e \<and> is_dbapi_error e \<and> a < gw_max_retries gw")
      case True
      then obtain e where e: "r = Inl e" "is_dbapi_error e" "a < gw_max_retries gw" by blast
      have "P (snd (fst (retry_from gw name m (a + 1) s1)))"
        using 1(1) [OF False r [unfolded e(1), symmetric] refl] e 1(2) m r by simp
      with False r e show ?thesis by (simp add: retry_from.simps [of gw name m a] case_prod_beta)
    next
      case F: False
      with False r m show ?thesis
        by (auto simp: retry_from.simps [of gw name m a] split: sum.split)
    qed
  qed (simp add: retry_from.simps [of gw name m a] 1(3))
qed

lemma keeps_with_retry [inv_intros]: "keeps P m \<Longrightarrow> keeps P (with_retry gw name m)"
  using keeps_retry_from [of P m] by (simp add: keeps_def [of P "with_retry gw name m"] with_retry_def)

lemma keeps_transaction [inv_intros]: "keeps (both I) m \<Longrightarrow> keeps (both I) (transaction m)"
  unfolding transaction_def by (intro inv_intros)

lemma keeps_mark_source_failure [inv_intros]: "keeps (both (unpublished d0)) (mark_source_failure gw now i reason)"
  unfolding mark_source_failure_def Let_def by (intro inv_intros)

lemma keeps_get_run_item [inv_intros]: "keeps (both I) (get_run_item i)"
  unfolding get_run_item_def by (intro inv_intros)

lemma keeps_case_prod [inv_intros]: "(\<And>a b. keeps P (f a b)) \<Longrightarrow> keeps P (case x of (a, b) \<Rightarrow> f a b)"
  by (cases x) simp

lemma keeps_handle_error [inv_intros]:
  "keeps (both (unpublished d0)) (handle_processing_error gw now begun e i source)"
  unfolding handle_processing_error_def by (intro inv_intros)

lemma keeps_start [inv_intros]: "keeps (both (unpublished d0)) (start_processing now x source run n)"
  unfolding start_processing_def by (intro inv_intros)

lemma keeps_guarded [inv_intros]:
  "keeps (both (unpublished d0)) m \<Longrightarrow> keeps (both (unpublished d0)) (guarded gw now begun i source m)"
  unfolding guarded_def by (intro inv_intros)

lemma revalidate_fails: "revalidate p = Inl (AttributeError ([CHR 0x27] @ ''str'' @ [CHR 0x27] @ '' object has no attribute ''
     @ [CHR 0x27] @ ''tzinfo'' @ [CHR 0x27]))"
  by (simp add: revalidate_def dump_payload_def ensure_timezone_def)

lemma committed_insert_row: "committed (snd (insert_row row_at add t)) = committed t"
  by (cases "aborted t") (auto simp: insert_row_def bindO_def query_def flush_def ret_def)

lemma ends_with_value: "fst (bindO m (\<lambda>_. bindO n (\<lambda>_. ret v)) t) \<in> range Inl \<union> {Inr v}"
  by (cases "m t"; cases "fst (m t)"; cases "n (snd (m t))"; cases "fst (n (snd (m t)))")
    (auto simp: bindO_def)

text \<open>A document that is not the newest of its source.\<close>

definition fresh_document :: "'z ingest_db_scheme txn \<Rightarrow> source_row \<Rightarrow> fetch_result \<Rightarrow> bool" where
  "fresh_document t source fr \<longleftrightarrow> \<not> aborted t
     \<and> map_option bz_checksum_sha256 (latest_bronze (working t) (sr_id source)) \<noteq> Some (sha256_hex (fr_content fr))"

lemma process_fetched_fresh:
  assumes "fresh_document t source fr"
  shows "process_fetched W cfg now x source fr t =
    (case store_object W cfg now (sr_source_key source) (im_id x) (fr_content fr) (fr_content_type fr) of
       Inl e \<Rightarrow> (Inl e, t)
     | Inr stored \<Rightarrow>
         (case create_bronze_document (bronze_of now source x fr stored (sha256_hex (fr_content fr))) t of
            (Inl e, t') \<Rightarrow> (Inl e, t')
          | (Inr _, t') \<Rightarrow>
              (case extract_payload W cfg now source fr of Inl e \<Rightarrow> (Inl e, t')
               | Inr p \<Rightarrow> (Inl (AttributeError ([CHR 0x27] @ ''str'' @ [CHR 0x27] @ '' object has no attribute ''
                    @ [CHR 0x27] @ ''tzinfo'' @ [CHR 0x27])), t'))))"
  using assms
  by (simp add: fresh_document_def process_fetched_def get_latest_bronze_document_by_source_def Let_def revalidate_fails
      bindO_def [of "create_bronze_document _"] del: map_option_eq_Some split: sum.split prod.split)

lemma process_fetched_stops:
  assumes "both (unpublished d0) t" and "process_fetched W cfg now x source fr t = (r, t')"
  shows "unpublished d0 (committed t') \<and> (r = Inr item_skipped \<and> both (unpublished d0) t' \<or> (\<exists>e. r = Inl e))"
proof (cases "fresh_document t source fr")
  case False
  let ?skip = "bindO (mark_run_item_completed now x (skipped_outcome x (sha256_hex (fr_content fr)) fr)) (\<lambda>_.
      bindO commit (\<lambda>_. ret item_skipped))"
  show ?thesis
  proof (cases "aborted t")
    case True
    then have "process_fetched W cfg now x source fr t = (Inl pending, t)"
      by (simp add: process_fetched_def get_latest_bronze_document_by_source_def Let_def
          bindO_def [of "query _"] query_def)
    with assms show ?thesis by (auto simp: both_def)
  next
    case F: False
    have k: "keeps (both (unpublished d0)) ?skip" by (intro inv_intros)
    have skip: "?skip t = (r, t')"
      using assms(2) False F by (simp add: fresh_document_def process_fetched_def get_latest_bronze_document_by_source_def Let_def)
    have "both (unpublished d0) t'" by (rule keepsD [OF k assms(1) skip])
    moreover have "fst (?skip t) \<in> range Inl \<union> {Inr item_skipped}" by (rule ends_with_value)
    then have "(\<exists>e. r = Inl e) \<or> r = Inr item_skipped" unfolding skip by auto
    ultimately show ?thesis by (auto simp: both_def)
  qed
next
  case True
  have "committed (snd (create_bronze_document b t)) = committed t" for b
    unfolding create_bronze_document_def by (rule committed_insert_row)
  then show ?thesis
    using assms(2) assms(1) [unfolded both_def] process_fetched_fresh [OF True, of W cfg now x]
    by (auto split: sum.splits prod.splits) (metis snd_conv)+
qed

lemma guarded_fetched:
  assumes "both (unpublished d0) t"
    and "guarded gw now True i source (process_fetched W cfg now x source fr) t = (r, t')"
  shows "both (unpublished d0) t' \<and> (r = Inr item_skipped \<or> (\<exists>e. r = Inl e))"
proof -
  obtain q t1 where q: "process_fetched W cfg now x source fr t = (q, t1)" by fastforce
  show ?thesis
    using process_fetched_stops [OF assms(1) q] assms(2) q
    by (auto simp: guarded_def catch_def handle_processing_error_def bindO_def rollback_def raise_def both_def)
qed

lemma execute_never_publishes:
  assumes "both (unpublished d0) t"
    and "execute_processing W cfg now i x source run n t = (r, t')"
  shows "both (unpublished d0) t' \<and> r \<in> range Inl \<union> {Inr item_skipped, Inr item_quarantined}"
proof -
  let ?gw = "gateway_of cfg"
  obtain q t1 where q: "guarded ?gw now True i source (start_processing now x source run n) t = (q, t1)" by fastforce
  have t1: "both (unpublished d0) t1"
    using keepsD [OF keeps_guarded [OF keeps_start] assms(1) q] .
  show ?thesis
  proof (cases q)
    case (Inl e)
    with q t1 assms(2) show ?thesis by (auto simp: execute_processing_def bindO_def Let_def)
  next
    case (Inr started)
    show ?thesis
    proof (cases started)
      case None
      with Inr q t1 assms(2) show ?thesis by (auto simp: execute_processing_def bindO_def Let_def ret_def)
    next
      case (Some x')
      obtain f t2 where f: "guarded ?gw now False i source (lift (fetch_source W cfg source)) t1 = (f, t2)" by fastforce
      have t2: "both (unpublished d0) t2"
        using keepsD [OF keeps_guarded [OF keeps_lift] t1 f] .
      show ?thesis
      proof (cases f)
        case (Inl e)
        with Some Inr q f t2 assms(2) show ?thesis by (auto simp: execute_processing_def bindO_def Let_def)
      next
        case F: (Inr fr)
        have "guarded ?gw now True i source (process_fetched W cfg now x' source fr) t2 = (r, t')"
          using Some Inr q f F assms(2) by (simp add: execute_processing_def bindO_def Let_def)
        from guarded_fetched [OF t2 this] show ?thesis by auto
      qed
    qed
  qed
qed

text \<open>C14. Whatever the source serves, the extractors find and the rows hold, processing an item never publishes anything:
  no country, program, version, rule, stored document, section, source document or extraction is ever written, and
  the item ends skipped, quarantined or in an exception.\<close>

theorem ingestion_never_publishes:
  "published_state (snd (request (process_run_item W cfg now i n) d)) = published_state d
   \<and> fst (request (process_run_item W cfg now i n) d) \<in> range Inl \<union> {Inr item_skipped, Inr item_quarantined}"
proof -
  obtain r t where r: "process_run_item W cfg now i n (begin_txn d) = (r, t)" by fastforce
  have b: "both (unpublished d) (begin_txn d)" by (simp add: both_def unpublished_def)
  have "both (unpublished d) t \<and> r \<in> range Inl \<union> {Inr item_skipped, Inr item_quarantined}"
  proof (cases "item_of d i")
    case None
    with r b show ?thesis by (auto simp: process_run_item_def get_run_item_def)
  next
    case (Some x)
    show ?thesis
    proof (cases "source_by_id d (im_source_id x)")
      case None
      with Some r b show ?thesis by (auto simp: process_run_item_def get_run_item_def)
    next
      case S: (Some source)
      show ?thesis
      proof (cases "run_of d (im_ingestion_run_id x)")
        case None
        with Some S r b show ?thesis by (auto simp: process_run_item_def get_run_item_def)
      next
        case R: (Some run)
        with Some S r have "execute_processing W cfg now i x source run n (begin_txn d) = (r, t)"
          by (simp add: process_run_item_def get_run_item_def)
        from execute_never_publishes [OF b this] show ?thesis .
      qed
    qed
  qed
  with r show ?thesis by (simp add: request_def both_def unpublished_def)
qed

end
