(* ===== verification/Ingestion_Items.thy ===== *)
theory Ingestion_Items
  imports Ingestion_Contract
begin

text \<open>
  What happens to the item of a run: an item whose fetch fails is marked and counts against its source, an
  item that fetched a new document stays in the state running for ever, and a run is closed exactly when
  none of its items is open.
\<close>

section \<open>Rows that replace rows\<close>

lemma map_upd_same:
  assumes "distinct (map key xs)" "find (\<lambda>y. key y = i) xs = Some y" "key x = i" "k x = k y"
  shows "map k (upd_where (\<lambda>y. key y = i) (\<lambda>_. x) xs) = map k xs"
proof -
  have "y \<in> set xs \<and> key y = i" using find_mem [OF assms(2)] .
  then have "z = y" if "z \<in> set xs" "key z = i" for z
    using that assms(1) by (auto simp: distinct_map dest: inj_onD)
  then show ?thesis using assms(4) by (auto simp: upd_where_def)
qed

lemma list_all_by_key: "list_all P xs \<Longrightarrow> (\<And>z. P z \<longleftrightarrow> Q (k z)) \<Longrightarrow> map k ys = map k xs \<Longrightarrow> list_all P ys"
  by (metis (mono_tags, lifting) list.pred_map list_all_cong comp_apply)

lemma find_upd_same: "find (\<lambda>y. key y = i) xs = Some y \<Longrightarrow> key x = i
    \<Longrightarrow> find (\<lambda>y. key y = i) (upd_where (\<lambda>y. key y = i) (\<lambda>_. x) xs) = Some x"
  by (induction xs) (auto simp: upd_where_def split: if_splits)

lemma rules_ok_sets [simp]:
  "rules_ok (set_item x d) = rules_ok d" "rules_ok (set_run r d) = rules_ok d" "rules_ok (set_source s d) = rules_ok d"
  by (simp_all add: rules_ok_defs set_item_def set_run_def set_source_def)

lemma ingest_ok_set_item:
  assumes ok: "ingest_ok d" and y: "item_of d (im_id x) = Some y"
    and same: "im_ingestion_run_id x = im_ingestion_run_id y" "im_source_id x = im_source_id y"
  shows "ingest_ok (set_item x d)"
proof -
  let ?new = "upd_where (\<lambda>y. im_id y = im_id x) (\<lambda>_. x) (gd_items d)"
  have dist: "distinct (map im_id (gd_items d))" using ok by (simp add: ingest_ok_def run_items_ok_def)
  note m = map_upd_same [OF dist y [unfolded item_of_def] refl]
  have ids: "map im_id ?new = map im_id (gd_items d)"
    by (rule m) (use find_mem [OF y [unfolded item_of_def]] in simp)
  have keys: "map (\<lambda>i. (im_ingestion_run_id i, im_source_id i)) ?new
      = map (\<lambda>i. (im_ingestion_run_id i, im_source_id i)) (gd_items d)"
    by (rule m) (simp add: same)
  have "list_all (\<lambda>i. im_ingestion_run_id i \<in> set (map ir_id (gd_runs d))
          \<and> im_source_id i \<in> set (map sr_id (gd_sources d))) ?new"
    by (rule list_all_by_key [where k = "\<lambda>i. (im_ingestion_run_id i, im_source_id i)"
          and Q = "\<lambda>(a, b). a \<in> set (map ir_id (gd_runs d)) \<and> b \<in> set (map sr_id (gd_sources d))", OF _ _ keys])
      (use ok in \<open>simp_all add: ingest_ok_def run_items_ok_def\<close>)
  with ids keys ok dist have "run_items_ok (set_item x d)"
    by (simp add: ingest_ok_def run_items_ok_def set_item_def)
  moreover have "set (map im_id ?new) = set (map im_id (gd_items d))" by (simp only: ids)
  ultimately show ?thesis
    using ok by (simp add: ingest_ok_def)
      (simp add: set_item_def sources_ok_def runs_ok_def bronze_ok_def sections_ok_def documents_ok_def
        document_keys_def extractions_ok_def ids)
qed

lemma ingest_ok_set_run:
  assumes ok: "ingest_ok d" and r0: "run_of d (ir_id r) = Some r0"
  shows "ingest_ok (set_run r d)"
proof -
  let ?new = "upd_where (\<lambda>y. ir_id y = ir_id r) (\<lambda>_. r) (gd_runs d)"
  have ids: "map ir_id ?new = map ir_id (gd_runs d)"
    by (rule map_upd_same [OF _ r0 [unfolded run_of_def] refl])
      (use ok find_mem [OF r0 [unfolded run_of_def]] in \<open>simp_all add: ingest_ok_def runs_ok_def\<close>)
  then have "set (map ir_id ?new) = set (map ir_id (gd_runs d))" by (simp only:)
  with ids ok show ?thesis
    by (simp add: ingest_ok_def)
      (simp add: set_run_def sources_ok_def runs_ok_def run_items_ok_def bronze_ok_def sections_ok_def documents_ok_def
        document_keys_def extractions_ok_def)
qed

lemma ingest_ok_set_source:
  assumes ok: "ingest_ok d" and s0: "source_by_id d (sr_id s) = Some s0" and key: "sr_source_key s = sr_source_key s0"
  shows "ingest_ok (set_source s d)"
proof -
  let ?new = "upd_where (\<lambda>y. sr_id y = sr_id s) (\<lambda>_. s) (gd_sources d)"
  have dist: "distinct (map sr_id (gd_sources d))" using ok by (simp add: ingest_ok_def sources_ok_def)
  note m = map_upd_same [OF dist s0 [unfolded source_by_id_def] refl]
  have ids: "map sr_id ?new = map sr_id (gd_sources d)"
    by (rule m) (use find_mem [OF s0 [unfolded source_by_id_def]] in simp)
  have keys: "map sr_source_key ?new = map sr_source_key (gd_sources d)"
    by (rule m) (rule key)
  have "set (map sr_id ?new) = set (map sr_id (gd_sources d))" by (simp only: ids)
  with ids keys ok show ?thesis
    by (simp add: ingest_ok_def)
      (simp add: set_source_def sources_ok_def runs_ok_def run_items_ok_def bronze_ok_def sections_ok_def documents_ok_def
        document_keys_def extractions_ok_def)
qed

lemma lookups_of_sets [simp]:
  "item_of (set_run r d) i = item_of d i" "item_of (set_source s d) i = item_of d i"
  "run_of (set_item x d) i = run_of d i" "run_of (set_source s d) i = run_of d i"
  "source_by_id (set_item x d) i = source_by_id d i" "source_by_id (set_run r d) i = source_by_id d i"
  "latest_bronze (set_item x d) i = latest_bronze d i" "latest_bronze (set_run r d) i = latest_bronze d i"
  "gd_sources (set_item x d) = gd_sources d" "gd_sources (set_run r d) = gd_sources d"
  by (simp_all add: item_of_def run_of_def source_by_id_def latest_bronze_def set_item_def set_run_def set_source_def)

lemma lookups_of_set_same [simp]:
  "item_of d (im_id x) = Some y \<Longrightarrow> item_of (set_item x d) (im_id x) = Some x"
  "run_of d (ir_id r) = Some r0 \<Longrightarrow> run_of (set_run r d) (ir_id r) = Some r"
  "source_by_id d (sr_id s) = Some s0 \<Longrightarrow> source_by_id (set_source s d) (sr_id s) = Some s"
  by (simp_all add: item_of_def run_of_def source_by_id_def set_item_def set_run_def set_source_def find_upd_same)

section \<open>Starting an item\<close>

text \<open>An item with its source and its run, and one whose source is not in quarantine.\<close>

definition placed_item :: "'z ingest_db_scheme \<Rightarrow> run_item \<Rightarrow> source_row \<Rightarrow> ingestion_run \<Rightarrow> bool" where
  "placed_item d x source run \<longleftrightarrow> item_of d (im_id x) = Some x \<and> source_by_id d (im_source_id x) = Some source
     \<and> run_of d (im_ingestion_run_id x) = Some run"

definition ready_item ::
    "'z ingest_db_scheme \<Rightarrow> time \<Rightarrow> run_item \<Rightarrow> source_row \<Rightarrow> ingestion_run \<Rightarrow> bool" where
  "ready_item d now x source run \<longleftrightarrow> placed_item d x source run
     \<and> (case sr_quarantine_until source of None \<Rightarrow> True | Some t \<Rightarrow> t \<le> now)"

definition running_item :: "time \<Rightarrow> int \<Rightarrow> run_item \<Rightarrow> run_item" where
  "running_item now n x = x\<lparr>im_status := item_running, im_started_at := Some now, im_attempt_number := n\<rparr>"

definition running_run :: "time \<Rightarrow> ingestion_run \<Rightarrow> ingestion_run" where
  "running_run now run =
     (if ir_status run = run_pending then run\<lparr>ir_status := run_running, ir_started_at := Some now\<rparr> else run)"

text \<open>The rows after the first transaction: the item and, when it was pending, its run are running.\<close>

definition started_db ::
    "time \<Rightarrow> int \<Rightarrow> run_item \<Rightarrow> ingestion_run \<Rightarrow> 'z ingest_db_scheme \<Rightarrow> 'z ingest_db_scheme" where
  "started_db now n x run d =
     set_item (running_item now n x) (if ir_status run = run_pending then set_run (running_run now run) d else d)"

lemma ready_placed: "ready_item d now x source run \<Longrightarrow> placed_item d x source run"
  by (simp add: ready_item_def)

lemma key_of_found:
  "item_of d i = Some x \<Longrightarrow> im_id x = i" "run_of d i = Some r \<Longrightarrow> ir_id r = i"
  "source_by_id d i = Some s \<Longrightarrow> sr_id s = i"
  by (auto simp: item_of_def run_of_def source_by_id_def dest: find_mem)

lemma running_keys [simp]:
  "im_id (running_item now n x) = im_id x" "im_source_id (running_item now n x) = im_source_id x"
  "im_ingestion_run_id (running_item now n x) = im_ingestion_run_id x" "ir_id (running_run now run) = ir_id run"
  by (simp_all add: running_item_def running_run_def)

lemma started_ok:
  assumes "ingest_ok d" "placed_item d x source run"
  shows "ingest_ok (if ir_status run = run_pending then set_run (running_run now run) d else d)"
    and "ingest_ok (started_db now n x run d)"
    and "item_of (started_db now n x run d) (im_id x) = Some (running_item now n x)"
    and "source_by_id (started_db now n x run d) = source_by_id d"
    and "run_of (started_db now n x run d) (im_ingestion_run_id x) = Some (running_run now run)"
    and "latest_bronze (started_db now n x run d) = latest_bronze d"
proof -
  let ?d = "if ir_status run = run_pending then set_run (running_run now run) d else d"
  have run: "run_of d (im_ingestion_run_id x) = Some run" and i: "item_of d (im_id x) = Some x"
    using assms(2) by (auto simp: placed_item_def)
  have ri: "im_ingestion_run_id x = ir_id run" using key_of_found(2) [OF run] by simp
  have r: "run_of d (ir_id run) = Some run" using run ri by simp
  show ok: "ingest_ok ?d" using assms(1) ingest_ok_set_run [of d "running_run now run" run] r by simp
  have item: "item_of ?d (im_id (running_item now n x)) = Some x" using i by simp
  show "ingest_ok (started_db now n x run d)"
    unfolding started_db_def by (rule ingest_ok_set_item [OF ok item]) simp_all
  show "item_of (started_db now n x run d) (im_id x) = Some (running_item now n x)"
    unfolding started_db_def using lookups_of_set_same(1) [OF item] by simp
  show "source_by_id (started_db now n x run d) = source_by_id d"
    by (rule ext) (simp add: started_db_def)
  show "latest_bronze (started_db now n x run d) = latest_bronze d"
    by (rule ext) (simp add: started_db_def)
  show "run_of (started_db now n x run d) (im_ingestion_run_id x) = Some (running_run now run)"
    using r ri lookups_of_set_same(2) [of d "running_run now run" run]
    by (simp add: started_db_def) (simp add: running_run_def)
qed

text \<open>A session whose working state is committed.\<close>

definition clean :: "'db \<Rightarrow> 'db txn" where
  "clean d = \<lparr>committed = d, working = d, aborted = False\<rparr>"

lemma clean_simps [simp]:
  "committed (clean d) = d" "working (clean d) = d" "\<not> aborted (clean d)" "begin_txn d = clean d"
  "request m d = (fst (m (clean d)), committed (snd (m (clean d))))"
  by (simp_all add: clean_def begin_txn_def request_def split: prod.split)

lemma bindO_put_item [simp]:
  "\<not> aborted t \<Longrightarrow> ingest_ok (set_item x (working t))
    \<Longrightarrow> bindO (put_item x) k t = k x (t\<lparr>working := set_item x (working t)\<rparr>)"
  by (simp add: put_item_def bindO_def)

lemma start_processing_placed:
  fixes d :: "'z ingest_db_scheme"
  assumes ok: "ingest_ok d" and placed: "placed_item d x source run"
  shows "start_processing now x source run n (clean d) =
     (case sr_quarantine_until source of
       None \<Rightarrow> ret (Some (running_item now n x))
     | Some t \<Rightarrow>
         if now < t then
           bindO (mark_run_item_quarantined now (running_item now n x) (''source quarantined until '' @ isoformat t)) (\<lambda>_.
           bindO commit (\<lambda>_. ret None))
         else ret (Some (running_item now n x))) (clean (started_db now n x run d))"
proof -
  note s = started_ok [OF ok placed]
  let ?d = "if ir_status run = run_pending then set_run (running_run now run) d else d"
  have run: "bindO (if ir_status run = run_pending then mark_run_running now run else ret ()) k (clean d)
      = k () ((clean d)\<lparr>working := ?d\<rparr>)" for k :: "unit \<Rightarrow> ('z, 'b) ingest_op"
    using s(1) [of now] by (simp add: mark_run_running_def running_run_def clean_def split: if_splits)
  have "ingest_ok (set_item (running_item now n x) ?d)" using s(2) by (simp only: started_db_def)
  then show ?thesis
    unfolding start_processing_def run
    by (simp add: mark_run_item_running_def running_item_def [symmetric] started_db_def clean_def)
qed

lemma start_processing_ready:
  assumes ok: "ingest_ok d" and ready: "ready_item d now x source run"
  shows "start_processing now x source run n (clean d) = (Inr (Some (running_item now n x)), clean (started_db now n x run d))"
  using ready start_processing_placed [OF ok, of x source run now n]
  by (auto simp: ready_item_def split: option.splits)

lemma process_ready_item:
  fixes d :: "'z ingest_db_scheme"
  assumes ok: "ingest_ok d" and ready: "ready_item d now x source run"
  shows "process_run_item W cfg now (im_id x) n (clean d) =
    bindO (guarded (gateway_of cfg) now False (im_id x) source (lift (fetch_source W cfg source)))
      (\<lambda>fr. guarded (gateway_of cfg) now True (im_id x) source (process_fetched W cfg now (running_item now n x) source fr))
      (clean (started_db now n x run d))"
proof -
  have "process_run_item W cfg now (im_id x) n (clean d)
      = execute_processing W cfg now (im_id x) x source run n (clean d)"
    using ready by (simp add: process_run_item_def get_run_item_def ready_item_def placed_item_def)
  also have "guarded (gateway_of cfg) now True (im_id x) source (start_processing now x source run n) (clean d)
      = (Inr (Some (running_item now n x)), clean (started_db now n x run d))"
    by (simp add: guarded_def catch_def start_processing_ready [OF ok ready])
  then have "execute_processing W cfg now (im_id x) x source run n (clean d) =
    bindO (guarded (gateway_of cfg) now False (im_id x) source (lift (fetch_source W cfg source)))
      (\<lambda>fr. guarded (gateway_of cfg) now True (im_id x) source (process_fetched W cfg now (running_item now n x) source fr))
      (clean (started_db now n x run d))"
    unfolding execute_processing_def Let_def by (simp add: bindO_Inr)
  finally show ?thesis .
qed

section \<open>Closing a run\<close>

definition open_item :: "run_item \<Rightarrow> bool" where
  "open_item x \<longleftrightarrow> im_status x \<in> {item_pending, item_running}"

definition bad_item :: "run_item \<Rightarrow> bool" where
  "bad_item x \<longleftrightarrow> im_status x \<in> {item_failed, item_quarantined}"

lemma count_items_simps [simp]: "count_items S [] = 0"
  "count_items S (x # xs) = (if im_status x \<in> S then 1 else 0) + count_items S xs"
  by (simp_all add: count_items_def)

lemma count_items_pos: "0 < count_items S xs \<longleftrightarrow> (\<exists>x\<in>set xs. im_status x \<in> S)"
  by (auto simp: count_items_def filter_empty_conv)

lemma count_items_total:
  "count_items {item_completed, item_skipped, item_manual_review} xs + count_items {item_failed, item_quarantined} xs
    + count_items {item_pending, item_running} xs = int (length xs)"
proof (induction xs)
  case (Cons x xs)
  then show ?case by (cases "im_status x") simp_all
qed simp

text \<open>The row that closing a run writes.\<close>

definition closed_run :: "time \<Rightarrow> run_item list \<Rightarrow> ingestion_run \<Rightarrow> ingestion_run" where
  "closed_run now xs run =
     (let good = count_items {item_completed, item_skipped, item_manual_review} xs;
          bad = count_items {item_failed, item_quarantined} xs
      in if 0 < count_items {item_pending, item_running} xs
         then run\<lparr>ir_processed_items := good + bad, ir_success_items := good, ir_failed_items := bad,
                ir_status := run_running\<rparr>
         else completed_run now good bad
                (if bad \<noteq> 0 then Some ''Run completed with failures and/or quarantined sources.'' else None) run)"

lemma finalize_run_result:
  assumes ok: "ingest_ok d" and run: "run_of d i = Some run"
  shows "request (finalize_run now i) d
    = (Inr (closed_run now (items_of_run d i) run), set_run (closed_run now (items_of_run d i) run) d)"
proof -
  let ?r = "closed_run now (items_of_run d i) run"
  have "ir_id ?r = ir_id run" by (simp add: closed_run_def completed_run_def Let_def)
  then have "run_of d (ir_id ?r) = Some run" using run key_of_found(2) [OF run] by simp
  then have ok': "ingest_ok (set_run ?r d)" using ok by (rule ingest_ok_set_run [rotated])
  show ?thesis
  proof (cases "0 < count_items {item_pending, item_running} (items_of_run d i)")
    case True
    with ok' run show ?thesis
      by (simp add: finalize_run_def get_run_def list_run_items_def Let_def closed_run_def clean_def)
  next
    case False
    with ok' run show ?thesis
      by (simp add: finalize_run_def get_run_def list_run_items_def Let_def closed_run_def mark_run_completed_def bindO_def)
  qed
qed

lemma closed_run_status:
  "ir_status (closed_run now xs run)
    = (if \<exists>x\<in>set xs. open_item x then run_running else if \<exists>x\<in>set xs. bad_item x then run_failed else run_completed)"
proof -
  have "0 \<le> count_items {item_failed, item_quarantined} xs" by (simp add: count_items_def)
  then have "count_items {item_failed, item_quarantined} xs = 0 \<longleftrightarrow> \<not> (\<exists>x\<in>set xs. bad_item x)"
    using count_items_pos [of "{item_failed, item_quarantined}" xs] unfolding bad_item_def by linarith
  then show ?thesis
    using count_items_pos [of "{item_pending, item_running}" xs]
    by (simp add: closed_run_def Let_def completed_run_def open_item_def)
qed

text \<open>Closing a run writes what its items say: the run stays running exactly while an item is pending or running; once
  none is, it is failed when an item failed or was quarantined and completed otherwise, the time is written, and the
  processed items, always the successful and the failed ones together, are all items of the run.\<close>

theorem finalize_run_closes:
  assumes "ingest_ok d" and "run_of d i = Some run"
  shows "\<exists>r. request (finalize_run now i) d = (Inr r, set_run r d)
    \<and> ir_status r = (if \<exists>x\<in>set (items_of_run d i). open_item x then run_running
                     else if \<exists>x\<in>set (items_of_run d i). bad_item x then run_failed else run_completed)
    \<and> ir_processed_items r = ir_success_items r + ir_failed_items r
    \<and> (ir_status r \<noteq> run_running \<longrightarrow> ir_processed_items r = int (length (items_of_run d i)) \<and> ir_completed_at r = Some now)"
proof (intro exI conjI)
  let ?xs = "items_of_run d i"
  show "request (finalize_run now i) d = (Inr (closed_run now ?xs run), set_run (closed_run now ?xs run) d)"
    using assms by (rule finalize_run_result)
  show "ir_status (closed_run now ?xs run) = (if \<exists>x\<in>set ?xs. open_item x then run_running
      else if \<exists>x\<in>set ?xs. bad_item x then run_failed else run_completed)"
    by (rule closed_run_status)
  show "ir_processed_items (closed_run now ?xs run)
      = ir_success_items (closed_run now ?xs run) + ir_failed_items (closed_run now ?xs run)"
    by (simp add: closed_run_def completed_run_def Let_def)
  have "0 \<le> count_items {item_pending, item_running} ?xs" by (simp add: count_items_def)
  then show "ir_status (closed_run now ?xs run) \<noteq> run_running \<longrightarrow>
      ir_processed_items (closed_run now ?xs run) = int (length ?xs) \<and> ir_completed_at (closed_run now ?xs run) = Some now"
    using count_items_total [of ?xs] by (simp add: closed_run_def completed_run_def Let_def)
qed

section \<open>A document that was fetched\<close>

lemma guarded_begun_error:
  assumes "m (clean d) = (Inl e, t)" "committed t = d"
  shows "guarded gw now True i source m (clean d) = (Inl greenlet_error, clean d)"
  using assms by (cases t) (simp add: guarded_def catch_def handle_processing_error_def bindO_def rollback_def raise_def clean_def)

lemma process_fetched_error:
  assumes "fresh_document t source fr"
  obtains e t' where "process_fetched W cfg now x source fr t = (Inl e, t')" "committed t' = committed t"
proof (cases "store_object W cfg now (sr_source_key source) (im_id x) (fr_content fr) (fr_content_type fr)")
  case (Inl e)
  then show thesis using that process_fetched_fresh [OF assms, of W cfg now x] by simp
next
  case (Inr stored)
  obtain b t' where b: "create_bronze_document (bronze_of now source x fr stored (sha256_hex (fr_content fr))) t = (b, t')"
    by fastforce
  then have "committed t' = committed t"
    using committed_insert_row [of "bronze_of now source x fr stored (sha256_hex (fr_content fr))"
        "\<lambda>r d. d\<lparr>gd_bronze := gd_bronze d @ [r]\<rparr>" t]
    unfolding create_bronze_document_def by simp
  then show thesis
    using Inr b that process_fetched_fresh [OF assms, of W cfg now x]
    by (cases b; cases "extract_payload W cfg now source fr") simp_all
qed

text \<open>C22. An item whose source answers with a document that is not the one stored last never leaves the state running: the
  processing ends in the error of reading an expired row, whatever the file system, the extractors and the model
  answer; the item and its run are left running, the health of the source is not touched, no error is written, closing
  the run leaves it running, and the next attempt ends the same way.\<close>

theorem fetched_item_stuck:
  fixes d :: "'z ingest_db_scheme"
  assumes ok: "ingest_ok d" and ready: "ready_item d now x source run"
    and fetched: "fetch_source W cfg source = Inr fr"
    and new: "map_option bz_checksum_sha256 (latest_bronze d (sr_id source)) \<noteq> Some (sha256_hex (fr_content fr))"
  shows "request (process_run_item W cfg now (im_id x) n) d = (Inl greenlet_error, started_db now n x run d)
    \<and> item_of (started_db now n x run d) (im_id x)
        = Some (x\<lparr>im_status := item_running, im_started_at := Some now, im_attempt_number := n\<rparr>)
    \<and> gd_sources (started_db now n x run d) = gd_sources d
    \<and> (\<exists>r. request (finalize_run now (im_ingestion_run_id x)) (started_db now n x run d)
          = (Inr r, set_run r (started_db now n x run d)) \<and> ir_status r = run_running)
    \<and> ready_item (started_db now n x run d) now (running_item now n x) source (running_run now run)
    \<and> request (process_run_item W cfg now (im_id x) (n + 1)) (started_db now n x run d)
        = (Inl greenlet_error, started_db now (n + 1) (running_item now n x) (running_run now run) (started_db now n x run d))"
proof -
  have stuck: "process_run_item W cfg now (im_id y) m (clean d') = (Inl greenlet_error, clean (started_db now m y r d'))"
    if ok': "ingest_ok d'" and ready': "ready_item d' now y source r" and same: "latest_bronze d' = latest_bronze d"
    for d' :: "'z ingest_db_scheme" and y r m
  proof -
    let ?d = "started_db now m y r d'"
    have fresh: "fresh_document (clean ?d) source fr"
      using new same started_ok(6) [OF ok' ready_placed [OF ready'], of now m] by (simp add: fresh_document_def del: map_option_eq_Some)
    obtain e t where "process_fetched W cfg now (running_item now m y) source fr (clean ?d) = (Inl e, t)" "committed t = ?d"
      by (rule process_fetched_error [OF fresh, of W cfg now "running_item now m y"]) simp
    then have "guarded (gateway_of cfg) now True (im_id y) source (process_fetched W cfg now (running_item now m y) source fr)
        (clean ?d) = (Inl greenlet_error, clean ?d)"
      by (rule guarded_begun_error)
    then show ?thesis
      unfolding process_ready_item [OF ok' ready'] fetched by (simp add: bindO_def guarded_def catch_def lift_def)
  qed
  note s = started_ok(2-6) [OF ok ready_placed [OF ready], of now n]
  have ready2: "ready_item (started_db now n x run d) now (running_item now n x) source (running_run now run)"
    using ready s(2-4) by (simp add: ready_item_def placed_item_def)
  have sources: "gd_sources (started_db now n x run d) = gd_sources d" by (simp add: started_db_def)
  have first: "request (process_run_item W cfg now (im_id x) n) d = (Inl greenlet_error, started_db now n x run d)"
    unfolding clean_simps(5) stuck [OF ok ready refl] by simp
  have "request (process_run_item W cfg now (im_id x) (n + 1)) (started_db now n x run d)
      = (Inl greenlet_error, started_db now (n + 1) (running_item now n x) (running_run now run) (started_db now n x run d))"
    using stuck [OF s(1) ready2 s(5), of "n + 1"] unfolding clean_simps(5) running_keys by (simp only: fst_conv snd_conv clean_simps)
  moreover have "\<exists>r. request (finalize_run now (im_ingestion_run_id x)) (started_db now n x run d)
      = (Inr r, set_run r (started_db now n x run d)) \<and> ir_status r = run_running"
  proof (intro exI conjI)
    let ?xs = "items_of_run (started_db now n x run d) (im_ingestion_run_id x)"
    show "request (finalize_run now (im_ingestion_run_id x)) (started_db now n x run d)
        = (Inr (closed_run now ?xs (running_run now run)), set_run (closed_run now ?xs (running_run now run)) (started_db now n x run d))"
      by (rule finalize_run_result [OF s(1) s(4)])
    have "running_item now n x \<in> set (gd_items (started_db now n x run d))"
      using find_mem [OF s(2) [unfolded item_of_def]] by simp
    then have "\<exists>y\<in>set ?xs. open_item y"
      by (intro bexI [of _ "running_item now n x"]) (simp_all add: items_of_run_def open_item_def running_item_def)
    then show "ir_status (closed_run now ?xs (running_run now run)) = run_running"
      by (simp add: closed_run_status)
  qed
  ultimately show ?thesis using sources first ready2 s(2) by (intro conjI) (simp_all only: running_item_def)
qed

section \<open>A fetch that fails\<close>

lemma with_retry_success: "0 \<le> gw_max_retries gw \<Longrightarrow> m s = (Inr v, s') \<Longrightarrow> with_retry gw name m s = (Inr v, s')"
  by (simp add: with_retry_def retry_from.simps)

lemma transaction_success: "m t = (Inr v, t') \<Longrightarrow> \<not> aborted t' \<Longrightarrow> transaction m t = (Inr v, t'\<lparr>committed := working t'\<rparr>)"
  by (simp add: transaction_def catch_def bindO_Inr)

definition failure_until :: "gateway \<Rightarrow> time \<Rightarrow> source_row \<Rightarrow> time option" where
  "failure_until gw now s =
     (if gw_quarantine_after_failures gw \<le> sr_consecutive_failures s + 1 then Some (now + hours (gw_quarantine_hours gw))
      else None)"

lemma mark_source_failure_counts:
  assumes "ingest_ok d" "source_by_id d i = Some s" "0 \<le> gw_max_retries gw"
  shows "mark_source_failure gw now i reason (clean d)
    = (Inr (sr_consecutive_failures s + 1, gw_quarantine_after_failures gw \<le> sr_consecutive_failures s + 1),
       clean (set_source (failed_source reason (failure_until gw now s) s) d))"
proof -
  let ?s = "failed_source reason (failure_until gw now s) s"
  have "source_by_id d (sr_id ?s) = Some s"
    using assms(2) key_of_found(3) [OF assms(2)] by (simp add: failed_source_def)
  then have ok: "ingest_ok (set_source ?s d)"
    using assms(1) by (intro ingest_ok_set_source) (simp_all add: failed_source_def)
  show ?thesis
    unfolding mark_source_failure_def
  proof (rule with_retry_success [OF assms(3)], subst transaction_success)
    show "bindO (query (\<lambda>d. source_by_id d i)) (\<lambda>found. case found of None \<Rightarrow> ret (0, False)
           | Some s \<Rightarrow>
               let new_total = sr_consecutive_failures s + 1;
                   should_quarantine = gw_quarantine_after_failures gw \<le> new_total;
                   until_time = (if should_quarantine then Some (now + hours (gw_quarantine_hours gw)) else None)
               in bindO (increase_source_failure s reason until_time) (\<lambda>s'.
                  ret (sr_consecutive_failures s', should_quarantine))) (clean d)
        = (Inr (sr_consecutive_failures s + 1, gw_quarantine_after_failures gw \<le> sr_consecutive_failures s + 1),
           (clean d)\<lparr>working := set_source ?s d\<rparr>)"
      using assms(2) ok by (simp add: increase_source_failure_def bindO_def failure_until_def [symmetric] Let_def)
        (simp add: failed_source_def)
  qed (simp_all add: clean_def)
qed

definition ended_item :: "time \<Rightarrow> item_status \<Rightarrow> string \<Rightarrow> run_item \<Rightarrow> run_item" where
  "ended_item now status message x =
     x\<lparr>im_status := status, im_completed_at := Some now, im_error_message := Some message\<rparr>"

text \<open>A fetch that fails counts against its source: the exception comes out, the failures of the source grow by one, and
  the source goes into quarantine for the configured hours exactly when they reach the threshold; the item then ends
  quarantined, and failed otherwise, with the text of the exception. Nothing else changes.\<close>

theorem failing_fetch_counts:
  fixes d :: "'z ingest_db_scheme"
  assumes ok: "ingest_ok d" and ready: "ready_item d now x source run"
    and failed: "fetch_source W cfg source = Inl e" and retries: "0 \<le> ingestion_gateway_max_retries cfg"
  defines "quarantined \<equiv> ingestion_quarantine_after_failures cfg \<le> sr_consecutive_failures source + 1"
  shows "request (process_run_item W cfg now (im_id x) n) d
    = (Inl e,
       set_item (ended_item now (if quarantined then item_quarantined else item_failed) (exn_text e) (running_item now n x))
         (set_source (source\<lparr>sr_consecutive_failures := sr_consecutive_failures source + 1,
              sr_quarantine_reason := Some (exn_text e),
              sr_quarantine_until := (if quarantined then Some (now + hours (ingestion_quarantine_hours cfg)) else None)\<rparr>)
            (started_db now n x run d)))"
proof -
  let ?d = "started_db now n x run d"
  let ?s = "failed_source (exn_text e) (failure_until (gateway_of cfg) now source) source"
  let ?x = "ended_item now (if quarantined then item_quarantined else item_failed) (exn_text e) (running_item now n x)"
  note s = started_ok(2-6) [OF ok ready_placed [OF ready], of now n]
  have source: "source_by_id d (im_source_id x) = Some source" and id: "im_source_id x = sr_id source"
    using ready key_of_found(3) [of d "im_source_id x" source] by (auto simp: ready_item_def placed_item_def)
  then have found: "source_by_id ?d (sr_id source) = Some source" using s(3) by simp
  have mark: "mark_source_failure (gateway_of cfg) now (sr_id source) (exn_text e) (clean ?d)
      = (Inr (sr_consecutive_failures source + 1, quarantined), clean (set_source ?s ?d))"
    using mark_source_failure_counts [OF s(1) found, of "gateway_of cfg" now "exn_text e"] retries
    by (simp add: gateway_of_def quarantined_def)
  have src_ok: "ingest_ok (set_source ?s ?d)"
    by (rule ingest_ok_set_source [OF s(1), of _ source]) (use found in \<open>simp_all add: failed_source_def\<close>)
  have item_ok: "ingest_ok (set_item ?x (set_source ?s ?d))"
    by (rule ingest_ok_set_item [OF src_ok, of _ "running_item now n x"]) (use s(2) in \<open>simp_all add: ended_item_def\<close>)
  have "handle_processing_error (gateway_of cfg) now False e (im_id x) source (clean ?d)
      = (Inr (), clean (set_item ?x (set_source ?s ?d)))"
  proof -
    have "bindO rollback k (clean ?d) = k () (clean ?d)" for k :: "unit \<Rightarrow> ('z, unit) ingest_op"
      by (simp add: bindO_def clean_def)
    moreover have "mark_run_item_quarantined now (running_item now n x) (exn_text e) = (put_item ?x :: ('z, run_item) ingest_op)" if quarantined
      using that by (simp add: mark_run_item_quarantined_def ended_item_def)
    moreover have "mark_run_item_failed now (running_item now n x) (exn_text e) = (put_item ?x :: ('z, run_item) ingest_op)" if "\<not> quarantined"
      using that by (simp add: mark_run_item_failed_def ended_item_def)
    moreover have "bindO (put_item ?x) (\<lambda>_. commit) (clean (set_source ?s ?d)) = (Inr (), clean (set_item ?x (set_source ?s ?d)))"
      using item_ok by (simp add: clean_def)
    ultimately show ?thesis
      using s(2)
      by (cases quarantined) (simp_all add: handle_processing_error_def get_run_item_def
          bindO_Inr [where m = "mark_source_failure (gateway_of cfg) now (sr_id source) (exn_text e)", OF mark])
  qed
  then have "process_run_item W cfg now (im_id x) n (clean d) = (Inl e, clean (set_item ?x (set_source ?s ?d)))"
    unfolding process_ready_item [OF ok ready] failed by (simp add: bindO_def guarded_def catch_def lift_def raise_def)
  then show ?thesis
    by (simp add: failed_source_def failure_until_def quarantined_def gateway_of_def)
qed

section \<open>A source in quarantine\<close>

text \<open>While its source is in quarantine, an item is marked quarantined without fetching anything: the outcome and the
  rows are the same whatever the outside does.\<close>

theorem quarantine_stops_fetching:
  fixes d :: "'z ingest_db_scheme"
  assumes ok: "ingest_ok d" and placed: "placed_item d x source run"
    and quarantined: "sr_quarantine_until source = Some t" "now < t"
  shows "request (process_run_item W cfg now (im_id x) n) d
    = (Inr item_quarantined,
       set_item (ended_item now item_quarantined (''source quarantined until '' @ isoformat t) (running_item now n x))
         (started_db now n x run d))"
proof -
  let ?d = "started_db now n x run d"
  let ?x = "ended_item now item_quarantined (''source quarantined until '' @ isoformat t) (running_item now n x)"
  note s = started_ok(2-6) [OF ok placed, of now n]
  have "ingest_ok (set_item ?x ?d)"
    by (rule ingest_ok_set_item [OF s(1), of _ "running_item now n x"]) (use s(2) in \<open>simp_all add: ended_item_def\<close>)
  then have start: "start_processing now x source run n (clean d) = (Inr None, clean (set_item ?x ?d))"
    unfolding start_processing_placed [OF ok placed]
    using quarantined by (simp add: mark_run_item_quarantined_def ended_item_def [symmetric] clean_def)
  have "process_run_item W cfg now (im_id x) n (clean d)
      = execute_processing W cfg now (im_id x) x source run n (clean d)"
    using placed by (simp add: process_run_item_def get_run_item_def placed_item_def)
  also have "\<dots> = (Inr item_quarantined, clean (set_item ?x ?d))"
    by (simp only: execute_processing_def Let_def guarded_def catch_def bindO_def start prod.case sum.case option.case ret_def)
  finally show ?thesis by simp
qed

section \<open>Concrete inputs\<close>

definition sample_source :: source_row where
  "sample_source =
     \<lparr>sr_id = 1, sr_created_at = 0, sr_source_key = ''ca-express-entry'', sr_country_code = ''CA'', sr_country_name = ''Canada'',
      sr_program_code = ''EXPRESS_ENTRY'', sr_program_name = ''Express Entry'', sr_source_type = src_html,
      sr_source_url = ''https://canada.example'', sr_robots_url = None, sr_terms_url = None, sr_schedule_cron = None,
      sr_parser_name = ''generic_html_parser'', sr_parser_version = ''v1'', sr_confidence_threshold = 8 / 10, sr_is_active = True,
      sr_quarantine_until = None, sr_quarantine_reason = None, sr_consecutive_failures = 2, sr_metadata_json = []\<rparr>"

definition sample_run :: ingestion_run where
  "sample_run =
     \<lparr>ir_id = 2, ir_created_at = 0, ir_trigger_type = scheduled, ir_status = run_pending, ir_requested_by = None,
      ir_trace_id = None, ir_started_at = None, ir_completed_at = None, ir_total_items = 1, ir_processed_items = 0,
      ir_success_items = 0, ir_failed_items = 0, ir_notes = None, ir_metadata_json = []\<rparr>"

definition ingest_sample_db :: "source_row \<Rightarrow> ingest_db" where
  "ingest_sample_db s = \<lparr>bd_plans = [], bd_subscriptions = [], bd_entitlements = [], bd_counters = [], bd_events = [],
     bd_users = [], bd_next = 10, bd_conversions = 0, rd_countries = [], rd_programs = [], rd_versions = [],
     rd_groups = [], rd_conditions = [], rd_outcomes = [], gd_sources = [s], gd_runs = [sample_run],
     gd_items = [pending_item 0 2 1 3], gd_bronze = [], gd_sections = [], gd_documents = [], gd_extractions = []\<rparr>"

definition sample_outside :: "(fetch_error + http_response) \<Rightarrow> outside" where
  "sample_outside answer =
     \<lparr>os_readers = \<lparr>rd_html_events = (\<lambda>_. []), rd_json_loads = (\<lambda>_. None), rd_pdf_pages = None, rd_llm_answer = (\<lambda>_. None),
        rd_convert_payload = (\<lambda>_. None)\<rparr>,
      os_robots = (\<lambda>_. Inr (\<lambda>_ _. True)), os_open = (\<lambda>_ _. answer), os_split_url = (\<lambda>u. (''https'', u)),
      os_write_file = (\<lambda>_ _. Inr ()), os_rows = \<lparr>ro_groups = rev, ro_conditions = rev\<rparr>\<rparr>"

definition sample_fetched :: fetch_result where
  "sample_fetched =
     \<lparr>fr_source_url = ''https://canada.example'', fr_final_url = ''https://canada.example'', fr_content = ''age 18 to 45'',
      fr_content_type = None, fr_content_length = 12, fr_title = ''ca-express-entry'', fr_etag = None,
      fr_last_modified = None, fr_metadata_json = [(''fetcher'', JStr ''urllib''), (''source_type'', JStr ''html'')]\<rparr>"

definition sample_answer :: http_response where
  "sample_answer = \<lparr>hr_body = ''age 18 to 45'', hr_headers = (\<lambda>_. None), hr_url = ''https://canada.example''\<rparr>"

lemma ingest_sample_ok:
  assumes "sr_id s = 1"
  shows "ingest_ok (ingest_sample_db s)"
  using assms by (simp add: ingest_sample_db_def ingest_ok_defs rules_ok_defs sample_run_def pending_item_def)

lemma ingest_sample_placed:
  "sr_id s = 1 \<Longrightarrow> placed_item (ingest_sample_db s) (pending_item 0 2 1 3) s sample_run"
  by (simp add: placed_item_def ingest_sample_db_def item_of_def source_by_id_def run_of_def pending_item_def
      sample_run_def)

lemma ingest_sample_ready: "ready_item (ingest_sample_db sample_source) 5 (pending_item 0 2 1 3) sample_source sample_run"
  using ingest_sample_placed [of sample_source] by (simp add: ready_item_def sample_source_def)

lemma no_type: "\<not> content_has ''text/html'' None" "\<not> content_has ''application/json'' None"
  "\<not> content_has ''application/pdf'' None"
  by code_simp+

theorem fetched_item_stuck_witness:
  "request (process_run_item (sample_outside (Inr sample_answer)) base_defaults 5 3 1) (ingest_sample_db sample_source)
    = (Inl greenlet_error, started_db 5 1 (pending_item 0 2 1 3) sample_run (ingest_sample_db sample_source))"
proof -
  have f: "fetch_source (sample_outside (Inr sample_answer)) base_defaults sample_source = Inr sample_fetched"
    by (simp add: fetch_source_def validate_robots_def sample_outside_def sample_answer_def sample_fetched_def
        sample_source_def resolve_title_def no_type header_value_def parse_content_length_def Let_def bindR_def
        opt_truthy_def)
  have "latest_bronze (ingest_sample_db sample_source) i = None" for i
    by (simp add: latest_bronze_def ingest_sample_db_def latest_def)
  then have "map_option bz_checksum_sha256 (latest_bronze (ingest_sample_db sample_source) (sr_id sample_source))
      \<noteq> Some (sha256_hex (fr_content sample_fetched))" by simp
  from conjunct1 [OF fetched_item_stuck [OF ingest_sample_ok ingest_sample_ready f this, of 1]]
  show ?thesis by (simp add: sample_source_def pending_item_def del: clean_simps)
qed

theorem failing_fetch_counts_witness:
  "fst (request (process_run_item (sample_outside (Inl (Http_error 503))) base_defaults 5 3 1) (ingest_sample_db sample_source))
    = Inl (RuntimeError (''source fetch failed with HTTP '' @ int_str 503))"
proof -
  have f: "fetch_source (sample_outside (Inl (Http_error 503))) base_defaults sample_source
      = Inl (RuntimeError (''source fetch failed with HTTP '' @ int_str 503))"
    by (simp add: fetch_source_def validate_robots_def sample_outside_def sample_source_def Let_def opt_truthy_def)
  have "0 \<le> ingestion_gateway_max_retries base_defaults" by (simp add: base_defaults_def)
  from failing_fetch_counts [OF ingest_sample_ok ingest_sample_ready f this, of 1]
  show ?thesis by (simp add: sample_source_def pending_item_def del: clean_simps)
qed

theorem quarantine_stops_fetching_witness:
  "fst (request (process_run_item (sample_outside (Inr sample_answer)) base_defaults 5 3 1)
      (ingest_sample_db (sample_source\<lparr>sr_quarantine_until := Some 100\<rparr>))) = Inr item_quarantined"
  using quarantine_stops_fetching [OF ingest_sample_ok ingest_sample_placed, of "sample_source\<lparr>sr_quarantine_until := Some 100\<rparr>"
      100 5 "sample_outside (Inr sample_answer)" base_defaults 1]
  by (simp add: sample_source_def pending_item_def del: clean_simps)

theorem finalize_run_closes_witness:
  "\<exists>r. request (finalize_run 5 2) (ingest_sample_db sample_source) = (Inr r, set_run r (ingest_sample_db sample_source))
    \<and> ir_status r = run_running"
proof -
  have "run_of (ingest_sample_db sample_source) 2 = Some sample_run"
    by (simp add: run_of_def ingest_sample_db_def sample_run_def)
  from finalize_run_closes [OF ingest_sample_ok this, of 5] show ?thesis
    by (auto simp: items_of_run_def ingest_sample_db_def pending_item_def open_item_def sample_source_def
        simp del: clean_simps)
qed

end
