(* ===== verification/Publisher_Contract.thy ===== *)
theory Publisher_Contract
  imports Publisher
begin

text \<open>
  What publication does to the rows: the published version is the only active one of its program, its rules read back
  are those of the payload, so that a comparison with it finds no difference, and a source whose document is not
  published twice collides with its own document.
\<close>

section \<open>Inserted rows\<close>

lemma insert_row_success:
  "insert_row row_at add t = (Inr r, t') \<longleftrightarrow> \<not> aborted t \<and> r = row_at (bd_next (working t))
     \<and> t' = t\<lparr>working := (add r (working t))\<lparr>bd_next := Suc (bd_next (working t))\<rparr>\<rparr> \<and> ingest_ok (working t')"
  by (auto simp: insert_row_def txn_success ret_def)

lemma ret_success: "ret x s = (Inr y, s') \<longleftrightarrow> y = x \<and> s' = s"
  by (auto simp: ret_def)

text \<open>A rule row and a condition of a payload, by what the engine compares.\<close>

definition condition_view :: "condition_row \<Rightarrow> string \<times> rule_operator \<times> json" where
  "condition_view c = (cr_field_key c, cr_operator c, cr_value_json c)"

definition norm_view :: "norm_condition \<Rightarrow> string \<times> rule_operator \<times> json" where
  "norm_view c = (nc_field_key c, nc_operator c, nc_value_json c)"

definition rule_tables :: "'z rules_db_scheme \<Rightarrow> program_version list \<times> group_row list" where
  "rule_tables d = (rd_versions d, rd_groups d)"

lemma conditions_inserted:
  assumes "forO (\<lambda>c. bindO (ingest_create_rule_condition (condition_row_of now gid c)) (\<lambda>_. ret ())) cs t = (Inr u, t')"
  shows "rule_tables (working t') = rule_tables (working t)
    \<and> (\<exists>rows. rd_conditions (working t') = rd_conditions (working t) @ rows
        \<and> map condition_view rows = map norm_view cs \<and> (\<forall>r\<in>set rows. cr_rule_group_id r = gid))
    \<and> (ingest_ok (working t) \<longrightarrow> ingest_ok (working t'))"
  using assms
proof (induction cs arbitrary: t)
  case (Cons c cs)
  from Cons.prems obtain r s where r: "ingest_create_rule_condition (condition_row_of now gid c) t = (Inr r, s)"
    and s: "forO (\<lambda>c. bindO (ingest_create_rule_condition (condition_row_of now gid c)) (\<lambda>_. ret ())) cs s = (Inr u, t')"
    unfolding forO.simps bindO_eq_Inr ret_success by blast
  from Cons.IH [OF s] obtain rows where rows: "rd_conditions (working t') = rd_conditions (working s) @ rows"
    "map condition_view rows = map norm_view cs" "\<forall>r\<in>set rows. cr_rule_group_id r = gid"
    "rule_tables (working t') = rule_tables (working s)" "ingest_ok (working s) \<longrightarrow> ingest_ok (working t')" by blast
  have "rd_conditions (working s) = rd_conditions (working t) @ [r]" "rule_tables (working s) = rule_tables (working t)"
    "condition_view r = norm_view c" "cr_rule_group_id r = gid" "ingest_ok (working s)"
    using r by (auto simp: ingest_create_rule_condition_def insert_row_success rule_tables_def condition_view_def
        norm_view_def condition_row_of_def)
  with rows show ?case by (intro conjI exI [of _ "r # rows"]) simp_all
qed (simp add: ret_def)

lemma outcomes_inserted:
  assumes "forO (\<lambda>c. bindO (ingest_create_rule_outcome (outcome_row_of gid c)) (\<lambda>_. ret ())) us t = (Inr u, t')"
  shows "rule_tables (working t') = rule_tables (working t) \<and> rd_conditions (working t') = rd_conditions (working t)
    \<and> (ingest_ok (working t) \<longrightarrow> ingest_ok (working t'))"
  using assms
proof (induction us arbitrary: t)
  case (Cons c us)
  from Cons.prems obtain r s where r: "ingest_create_rule_outcome (outcome_row_of gid c) t = (Inr r, s)"
    and s: "forO (\<lambda>c. bindO (ingest_create_rule_outcome (outcome_row_of gid c)) (\<lambda>_. ret ())) us s = (Inr u, t')"
    unfolding forO.simps bindO_eq_Inr ret_success by blast
  with Cons.IH [OF s] show ?case
    by (auto simp: ingest_create_rule_outcome_def insert_row_success rule_tables_def)
qed (simp add: ret_def)

section \<open>Rules read back\<close>

definition version_rules ::
    "(group_row \<times> condition_row list) list \<Rightarrow> (string \<times> (string \<times> rule_operator \<times> json) list) list" where
  "version_rules v = map (\<lambda>(g, cs). (gr_code g, map condition_view cs)) v"

definition group_rules :: "norm_group \<Rightarrow> string \<times> (string \<times> rule_operator \<times> json) list" where
  "group_rules g = (ng_code g, map norm_view (ng_conditions g))"

lemma ingest_rule_keys:
  assumes "ingest_ok d"
  shows "distinct (map pv_id (rd_versions d))" "distinct (map gr_id (rd_groups d))"
    "g \<in> set (rd_groups d) \<Longrightarrow> gr_program_version_id g \<in> set (map pv_id (rd_versions d))"
    "c \<in> set (rd_conditions d) \<Longrightarrow> cr_rule_group_id c \<in> set (map gr_id (rd_groups d))"
  using assms by (simp_all add: ingest_ok_def rules_ok_defs list_all_iff)

text \<open>The order of insertion; what another order reads has the same rows.\<close>

definition as_inserted :: row_order where
  "as_inserted = \<lparr>ro_groups = (\<lambda>rows. rows), ro_conditions = (\<lambda>rows. rows)\<rparr>"

definition rules_of :: "(group_row \<times> condition_row list) list
    \<Rightarrow> (string \<times> (string \<times> rule_operator \<times> json) multiset) multiset" where
  "rules_of v = mset (map (\<lambda>(g, cs). (gr_code g, mset (map condition_view cs))) v)"

lemma rules_any_order:
  assumes "permutes_rows ord"
  shows "rules_of (groups_of_version ord d v) = rules_of (groups_of_version as_inserted d v)"
proof -
  have c: "mset (map condition_view (ro_conditions ord cs)) = mset (map condition_view cs)" for cs
    using assms by (simp add: permutes_rows_def)
  have g: "mset (map f (ro_groups ord gs)) = mset (map f gs)" for f :: "group_row \<Rightarrow> 'b" and gs
    using assms by (simp add: permutes_rows_def)
  show ?thesis
    unfolding rules_of_def groups_of_version_def map_map comp_def prod.case g
    by (simp only: c as_inserted_def row_order.simps map_map comp_def prod.case)
qed

lemma rules_of_version: "rules_of v = image_mset (\<lambda>(c, cs). (c, mset cs)) (mset (version_rules v))"
  unfolding rules_of_def version_rules_def mset_map [symmetric] map_map
  by (rule arg_cong [where f = mset], rule map_cong) auto

lemma group_published:
  assumes "publish_group now v g t = (Inr u, t')" and ok: "ingest_ok (working t)"
  shows "rd_versions (working t') = rd_versions (working t) \<and> ingest_ok (working t')
    \<and> version_rules (groups_of_version as_inserted (working t') v) = version_rules (groups_of_version as_inserted (working t) v) @ [group_rules g]"
proof -
  obtain row t1 t2 where row: "ingest_create_rule_group (group_row_of now v g) t = (Inr row, t1)"
    and cs: "forO (\<lambda>c. bindO (ingest_create_rule_condition (condition_row_of now (gr_id row) c)) (\<lambda>_. ret ()))
      (ng_conditions g) t1 = (Inr (), t2)"
    and us: "forO (\<lambda>u. bindO (ingest_create_rule_outcome (outcome_row_of (gr_id row) u)) (\<lambda>_. ret ()))
      (ng_outcomes g) t2 = (Inr u, t')"
    using assms(1) by (auto simp: publish_group_def bindO_eq_Inr)
  have t1: "rd_groups (working t1) = rd_groups (working t) @ [row]" "rd_versions (working t1) = rd_versions (working t)"
    "rd_conditions (working t1) = rd_conditions (working t)" "gr_code row = ng_code g" "gr_program_version_id row = v"
    "ingest_ok (working t1)"
    using row by (auto simp: ingest_create_rule_group_def insert_row_success group_row_of_def)
  obtain rows where rows: "rd_conditions (working t2) = rd_conditions (working t1) @ rows"
    "map condition_view rows = map norm_view (ng_conditions g)" "\<forall>r\<in>set rows. cr_rule_group_id r = gr_id row"
    "rule_tables (working t2) = rule_tables (working t1)" "ingest_ok (working t2)"
    using conditions_inserted [OF cs] t1(6) by blast
  have t': "rule_tables (working t') = rule_tables (working t1)" "rd_conditions (working t') = rd_conditions (working t) @ rows"
    "ingest_ok (working t')"
    using outcomes_inserted [OF us] rows t1(3) by simp_all
  have new: "gr_id row \<notin> gr_id ` set (rd_groups (working t))"
    using ingest_rule_keys(2) [OF t1(6)] t1(1) by simp
  have "filter (\<lambda>c. cr_rule_group_id c = gr_id x) (rd_conditions (working t) @ rows)
      = filter (\<lambda>c. cr_rule_group_id c = gr_id x) (rd_conditions (working t))" if "x \<in> set (rd_groups (working t))" for x
    using that new rows(3) by (auto simp: filter_empty_conv)
  moreover have "filter (\<lambda>c. cr_rule_group_id c = gr_id row) (rd_conditions (working t) @ rows) = rows"
  proof -
    have "cr_rule_group_id c \<noteq> gr_id row" if "c \<in> set (rd_conditions (working t))" for c
      using ingest_rule_keys(4) [OF ok that] new by auto
    then show ?thesis using rows(3) by (auto simp: filter_empty_conv filter_id_conv)
  qed
  ultimately show ?thesis
    using t' t1 rows(2) by (simp add: rule_tables_def groups_of_version_def as_inserted_def version_rules_def group_rules_def)
qed

lemma groups_published:
  assumes "forO (publish_group now v) gs t = (Inr u, t')" and "ingest_ok (working t)"
  shows "rd_versions (working t') = rd_versions (working t) \<and> ingest_ok (working t')
    \<and> version_rules (groups_of_version as_inserted (working t') v) = version_rules (groups_of_version as_inserted (working t) v) @ map group_rules gs"
  using assms
proof (induction gs arbitrary: t)
  case (Cons g gs)
  then obtain s where s: "publish_group now v g t = (Inr (), s)" "forO (publish_group now v) gs s = (Inr u, t')"
    by (auto simp: bindO_eq_Inr)
  from group_published [OF s(1) Cons.prems(2)] Cons.IH [OF s(2)] show ?case by simp
qed (simp add: ret_def)

section \<open>The published version\<close>

definition retired :: "time \<Rightarrow> uuid \<Rightarrow> program_version \<Rightarrow> program_version" where
  "retired now program_id w =
     (if pv_program_id w = program_id \<and> pv_status w = active_version
      then w\<lparr>pv_status := archived, pv_effective_to := Some now\<rparr> else w)"

lemma archive_active:
  assumes "distinct (map pv_id (rd_versions d))"
  shows "rd_versions (archive_at now (map pv_id (active_versions_of d i)) d) = map (retired now i) (rd_versions d)"
proof -
  have "pv_id w \<in> set (map pv_id (active_versions_of d i)) \<longleftrightarrow> pv_program_id w = i \<and> pv_status w = active_version"
    if "w \<in> set (rd_versions d)" for w
    using that assms by (auto simp: active_versions_of_def distinct_map dest: inj_onD)
  then show ?thesis by (simp add: archive_at_def upd_where_def retired_def)
qed

lemma retired_none: "active_versions_of d i = [] \<Longrightarrow> map (retired now i) (rd_versions d) = rd_versions d"
  by (auto simp: active_versions_of_def filter_empty_conv retired_def intro!: map_idI)

lemma publish_version_rows:
  assumes "publish_version now prog p h t = (Inr v, t')" and ok: "ingest_ok (working t)"
  shows "rd_versions (working t') = map (retired now (pg_id prog)) (rd_versions (working t)) @ [new_version now (pg_id prog) h v]
    \<and> ingest_ok (working t')
    \<and> version_rules (groups_of_version as_inserted (working t') v) = map group_rules (np_rule_groups p)"
proof -
  let ?active = "active_versions_of (working t) (pg_id prog)"
  obtain t1 row t2 where t1: "(if ?active \<noteq> [] then archive_program_versions ?active now else ret ()) t = (Inr (), t1)"
    and row: "ingest_create_program_version (new_version now (pg_id prog) h) t1 = (Inr row, t2)"
    and gs: "forO (publish_group now (pv_id row)) (np_rule_groups p) t2 = (Inr (), t')" and v: "v = pv_id row"
    using assms(1) unfolding publish_version_def list_active_program_versions_def bindO_eq_Inr query_success ret_success
    by auto
  have t1': "rd_versions (working t1) = map (retired now (pg_id prog)) (rd_versions (working t)) \<and> ingest_ok (working t1)"
  proof (cases "?active = []")
    case True
    with t1 ok show ?thesis by (simp add: ret_success retired_none)
  next
    case False
    with t1 show ?thesis
      by (auto simp: archive_program_versions_def flush_success archive_active [OF ingest_rule_keys(1) [OF ok]])
  qed
  have t2: "rd_versions (working t2) = rd_versions (working t1) @ [row]" "rd_groups (working t2) = rd_groups (working t1)"
    "row = new_version now (pg_id prog) h v" "ingest_ok (working t2)"
    using row v by (auto simp: ingest_create_program_version_def insert_row_success new_version_def)
  have "v \<notin> pv_id ` set (rd_versions (working t1))"
    using ingest_rule_keys(1) [OF t2(4)] t2(1) v by simp
  then have "gr_program_version_id g \<noteq> v" if "g \<in> set (rd_groups (working t2))" for g
    using that t2(2) ingest_rule_keys(3) [of "working t1" g] t1' by auto
  then have "groups_of_version as_inserted (working t2) v = []" by (simp add: groups_of_version_def as_inserted_def filter_empty_conv)
  then show ?thesis
    using groups_published [OF gs t2(4), folded v] t1' t2(1) t2(3) by (simp add: version_rules_def)
qed

text \<open>C18. Publishing a version leaves the program with exactly one active version, the new one, without an end: the versions
  that were active are archived with the time of the publication as their end, and every other version, those of
  other programs included, is left as it was.\<close>

theorem publish_leaves_one_active:
  assumes "publish_version now prog p h t = (Inr v, t')" and "ingest_ok (working t)"
  shows "active_versions_of (working t') (pg_id prog) = [new_version now (pg_id prog) h v]
    \<and> rd_versions (working t') =
        map (\<lambda>w. if pv_program_id w = pg_id prog \<and> pv_status w = active_version
                 then w\<lparr>pv_status := archived, pv_effective_to := Some now\<rparr> else w) (rd_versions (working t))
        @ [new_version now (pg_id prog) h v]
    \<and> ingest_ok (working t')"
proof -
  have "filter (\<lambda>w. pv_program_id w = i \<and> pv_status w = active_version) (map (retired now i) ws) = []" for i ws
    by (induction ws) (auto simp: retired_def)
  moreover have "pv_program_id (new_version now i h v) = i" "pv_status (new_version now i h v) = active_version" for i
    by (simp_all add: new_version_def)
  moreover note rows = publish_version_rows [OF assms]
  ultimately have "active_versions_of (working t') (pg_id prog) = [new_version now (pg_id prog) h v]"
    by (simp add: active_versions_of_def)
  with rows show ?thesis by (simp only: retired_def [abs_def] simp_thms)
qed

lemma signatures_of_rules:
  "signatures_from_version v =
     (\<Union>(g, cs) \<in> set_mset (rules_of v). (\<lambda>(f, op, x). signature_of g f (operator_value op) x) ` set_mset cs)"
  by (simp add: signatures_from_version_def rules_of_def condition_view_def case_prod_beta image_image)

lemma signatures_of_payload:
  "signatures_from_payload p =
     (\<Union>(g, cs) \<in> set (map (\<lambda>g. (ng_code g, mset (map norm_view (ng_conditions g)))) (np_rule_groups p)).
       (\<lambda>(f, op, x). signature_of g f (operator_value op) x) ` set_mset cs)"
  by (simp add: signatures_from_payload_def norm_view_def case_prod_beta image_image)

text \<open>C19. Publishing and comparing are inverse: whatever the order in which the database gives the rows of the new version
  back, they are those of the payload (the same groups, each with the same conditions, as often as the payload has
  them), and the comparison of the same payload with that version counts no group and no condition added or removed,
  whatever the hashes are, with a similarity of one.\<close>

theorem publish_then_compare:
  assumes published: "publish_version now prog p h t = (Inr v, t')" and "ingest_ok (working t)"
    and groups: "np_rule_groups p \<noteq> []"
    and order: "\<forall>rows. mset (ro_groups ord rows) = mset rows" "\<forall>rows. mset (ro_conditions ord rows) = mset rows"
  shows "mset (map (\<lambda>(g, cs). (gr_code g, mset (map (\<lambda>c. (cr_field_key c, cr_operator c, cr_value_json c)) cs)))
           (groups_of_version ord (working t') v))
      = mset (map (\<lambda>g. (ng_code g, mset (map (\<lambda>c. (nc_field_key c, nc_operator c, nc_value_json c)) (ng_conditions g))))
           (np_rule_groups p))
    \<and> (let s = compare_payload p current previous (Some (groups_of_version ord (working t') v))
       in ds_added_rule_groups s = 0 \<and> ds_removed_rule_groups s = 0 \<and> ds_added_conditions s = 0
          \<and> ds_removed_conditions s = 0 \<and> ds_semantic_similarity s = 1
          \<and> (ds_changed s \<longleftrightarrow> \<not> (opt_truthy previous \<and> previous = Some current)))"
proof -
  let ?v = "groups_of_version ord (working t') v"
  let ?p = "map (\<lambda>g. (ng_code g, mset (map norm_view (ng_conditions g)))) (np_rule_groups p)"
  have "permutes_rows ord" using order by (simp add: permutes_rows_def)
  then have "rules_of ?v = rules_of (groups_of_version as_inserted (working t') v)" by (rule rules_any_order)
  also have "\<dots> = image_mset (\<lambda>(c, cs). (c, mset cs)) (mset (map group_rules (np_rule_groups p)))"
    using publish_version_rows [OF assms(1,2)] by (simp only: rules_of_version)
  also have "\<dots> = mset ?p" by (simp add: group_rules_def image_mset.compositionality comp_def)
  finally have rules: "rules_of ?v = mset ?p" .
  have codes: "(\<lambda>(g, _). gr_code g) ` set ?v = ng_code ` set (np_rule_groups p)"
  proof -
    have "fst ` set_mset (rules_of ?v) = (\<lambda>(g, _). gr_code g) ` set ?v" by (force simp: rules_of_def)
    moreover have "fst ` set_mset (mset ?p) = ng_code ` set (np_rule_groups p)" by force
    ultimately show ?thesis using rules by simp
  qed
  have sigs: "signatures_from_version ?v = signatures_from_payload p"
    by (simp only: signatures_of_rules signatures_of_payload rules set_mset_mset)
  let ?n = "card (ng_code ` set (np_rule_groups p))"
  have "?n \<noteq> 0" using groups by simp
  then have "fdiv (of_nat ?n) (of_nat ?n) = 1" by (simp add: fdiv_def)
  moreover have "py_round 4 1 = 1" by (simp add: py_round_def grid_def)
  ultimately have "let s = compare_payload p current previous (Some ?v)
       in ds_added_rule_groups s = 0 \<and> ds_removed_rule_groups s = 0 \<and> ds_added_conditions s = 0
          \<and> ds_removed_conditions s = 0 \<and> ds_semantic_similarity s = 1
          \<and> (ds_changed s \<longleftrightarrow> \<not> (opt_truthy previous \<and> previous = Some current))"
    using groups
    by (cases "opt_truthy previous \<and> previous = Some current") (auto simp: compare_payload_def Let_def codes sigs)
  moreover note rules [unfolded rules_of_def condition_view_def [abs_def] norm_view_def [abs_def]]
  ultimately show ?thesis by blast
qed

section \<open>A document that is not published\<close>

lemma insert_row_rejected:
  "\<not> aborted t \<Longrightarrow> \<not> ingest_ok ((add (row_at (bd_next (working t))) (working t))\<lparr>bd_next := Suc (bd_next (working t))\<rparr>)
    \<Longrightarrow> insert_row row_at add t = (Inl (IntegrityError ''constraint violated''), t\<lparr>working := committed t, aborted := True\<rparr>)"
  by (simp add: insert_row_def bindO_def [of "flush _ _"] flush_def)

text \<open>A payload that is not published although its program has a version, because nothing changed or the confidence is
  too low, is attached to the newest version; when that version already has a document of the same address, which is
  how the source itself published it, the insert breaks the unique key and the transaction is lost.\<close>

theorem unpublished_document_collides:
  fixes t :: "'z ingest_db_scheme txn"
  assumes live: "\<not> aborted t"
    and c: "country_by_code (working t) (np_country_code p) = Some c"
    and prog: "program_by_code (working t) (co_id c) (np_program_code p) = Some prog"
    and w: "latest_version_of (working t) (pg_id prog) = Some w"
    and doc: "doc \<in> set (gd_documents (working t))" "sd_program_version_id doc = Some (pv_id w)"
      "sd_source_url doc = np_source_url p"
    and unpublished: "\<not> (allow_publish \<and> ds_changed diff)"
  shows "publish now source x p diff h raw_hash uri allow_publish t
    = (Inl (IntegrityError ''constraint violated''), t\<lparr>working := committed t, aborted := True\<rparr>)"
proof -
  let ?row = "document_of now source x p diff h raw_hash uri (Some (pv_id w))"
  have "\<not> distinct (document_keys (d\<lparr>gd_documents := gd_documents (working t) @ [?row i]\<rparr>\<lparr>bd_next := n\<rparr>))" for i n and d :: "'z ingest_db_scheme"
    using doc by (force simp: document_keys_def document_of_def)
  then have "create_source_document ?row t
      = (Inl (IntegrityError ''constraint violated''), t\<lparr>working := committed t, aborted := True\<rparr>)"
    unfolding create_source_document_def
    by (intro insert_row_rejected [OF live]) (simp add: ingest_ok_def documents_ok_def)
  moreover have "published_version now prog p diff h allow_publish t = (Inr (Some (pv_id w), False), t)"
    using live unpublished w by (auto simp: published_version_def get_latest_program_version_def)
  moreover have "find_or_create_country p t = (Inr c, t)"
    using live c by (simp add: find_or_create_country_def ingest_get_country_by_code_def)
  moreover have "find_or_create_program source p c t = (Inr prog, t)"
    using live prog by (simp add: find_or_create_program_def get_program_by_country_and_code_def)
  ultimately show ?thesis
    by (simp add: publish_def bindO_Inr [where m = "find_or_create_country p"]
        bindO_Inr [where m = "find_or_create_program source p c"]
        bindO_Inr [where m = "published_version now prog p diff h allow_publish"]
        bindO_Inl [where m = "create_source_document ?row"])
qed

section \<open>Concrete inputs\<close>

definition publish_sample_program :: program where
  "publish_sample_program = \<lparr>pg_id = 2, pg_country_id = 1, pg_code = ''EE'', pg_name = ''Express Entry'', pg_description = None,
     pg_is_active = True\<rparr>"

definition publish_sample_version :: program_version where
  "publish_sample_version = \<lparr>pv_id = 3, pv_created_at = 1, pv_program_id = 2, pv_version = ''2026.01'', pv_status = active_version,
     pv_effective_from = 1, pv_effective_to = None\<rparr>"

definition publish_sample_document :: source_document where
  "publish_sample_document = \<lparr>sd_id = 4, sd_created_at = 1, sd_source_id = None, sd_ingestion_run_item_id = None,
     sd_program_version_id = Some 3, sd_title = ''Express Entry'', sd_source_url = ''https://canada.example'',
     sd_checksum_sha256 = None, sd_raw_storage_uri = None, sd_published_at = None, sd_metadata_json = []\<rparr>"

definition publish_sample_db :: ingest_db where
  "publish_sample_db = \<lparr>bd_plans = [], bd_subscriptions = [], bd_entitlements = [], bd_counters = [], bd_events = [],
     bd_users = [], bd_next = 10, bd_conversions = 0,
     rd_countries = [\<lparr>co_id = 1, co_code = ''CA'', co_name = ''Canada'', co_priority_rank = None,
        co_diaspora_population_estimate = None, co_prioritization_source_url = None, co_is_active = True\<rparr>],
     rd_programs = [publish_sample_program], rd_versions = [publish_sample_version], rd_groups = [], rd_conditions = [],
     rd_outcomes = [], gd_sources = [], gd_runs = [], gd_items = [], gd_bronze = [], gd_sections = [],
     gd_documents = [publish_sample_document], gd_extractions = []\<rparr>"

definition publish_sample_payload :: norm_payload where
  "publish_sample_payload =
     \<lparr>np_country_code = ''CA'', np_country_name = ''Canada'', np_program_code = ''EE'', np_program_name = ''Express Entry'',
      np_source_url = ''https://canada.example'', np_source_title = ''Express Entry'', np_extracted_at = 5,
      np_parser_used = ''p'', np_parser_mode = deterministic, np_confidence_score = Dec 95 (-2),
      np_manual_review_required = False, np_summary_text = None, np_metadata_json = [], np_sections = [],
      np_rule_groups = [age_group 45]\<rparr>"

lemma publish_sample_ok: "ingest_ok publish_sample_db" "ingest_ok (working (begin_txn publish_sample_db))"
  by code_simp+

lemma publish_sample_done:
  "\<exists>t'. publish_version 9 publish_sample_program publish_sample_payload ''abc'' (begin_txn publish_sample_db) = (Inr 10, t')"
proof -
  have "fst (publish_version 9 publish_sample_program publish_sample_payload ''abc'' (begin_txn publish_sample_db)) = Inr 10"
    by code_simp
  then show ?thesis by (metis prod.collapse)
qed

theorem publish_leaves_one_active_witness:
  "\<exists>t'. publish_version 9 publish_sample_program publish_sample_payload ''abc'' (begin_txn publish_sample_db) = (Inr 10, t')
    \<and> active_versions_of (working t') 2 = [new_version 9 2 ''abc'' 10]"
proof -
  obtain t' where t': "publish_version 9 publish_sample_program publish_sample_payload ''abc'' (begin_txn publish_sample_db)
      = (Inr 10, t')" using publish_sample_done by blast
  have "pg_id publish_sample_program = 2" by (simp add: publish_sample_program_def)
  with t' publish_leaves_one_active [OF t' publish_sample_ok(2)] show ?thesis by metis
qed

theorem publish_then_compare_witness:
  "\<exists>t'. publish_version 9 publish_sample_program publish_sample_payload ''abc'' (begin_txn publish_sample_db) = (Inr 10, t')
    \<and> ds_removed_conditions (compare_payload publish_sample_payload ''abc'' None
        (Some (groups_of_version \<lparr>ro_groups = rev, ro_conditions = rev\<rparr> (working t') 10))) = 0"
proof -
  obtain t' where t': "publish_version 9 publish_sample_program publish_sample_payload ''abc'' (begin_txn publish_sample_db)
      = (Inr 10, t')" using publish_sample_done by blast
  let ?ord = "\<lparr>ro_groups = rev, ro_conditions = rev\<rparr>"
  have g: "np_rule_groups publish_sample_payload \<noteq> []" by (simp add: publish_sample_payload_def)
  have o: "\<forall>rows. mset (ro_groups ?ord rows) = mset rows" "\<forall>rows. mset (ro_conditions ?ord rows) = mset rows" by simp_all
  have "ds_removed_conditions (compare_payload publish_sample_payload ''abc'' None
      (Some (groups_of_version ?ord (working t') 10))) = 0"
    using publish_then_compare [OF t' publish_sample_ok(2) g o, of "''abc''" None] unfolding Let_def by (elim conjE)
  with t' show ?thesis by (intro exI conjI)
qed

theorem unpublished_document_collides_witness:
  "\<forall>source x diff. publish 9 source x publish_sample_payload diff ''abc'' ''raw'' ''uri'' False (begin_txn publish_sample_db)
    = (Inl (IntegrityError ''constraint violated''), \<lparr>committed = publish_sample_db, working = publish_sample_db, aborted = True\<rparr>)"
proof (intro allI)
  fix source x diff
  let ?t = "begin_txn publish_sample_db"
  let ?c = "\<lparr>co_id = 1, co_code = ''CA'', co_name = ''Canada'', co_priority_rank = None,
        co_diaspora_population_estimate = None, co_prioritization_source_url = None, co_is_active = True\<rparr>"
  have c: "country_by_code (working ?t) (np_country_code publish_sample_payload) = Some ?c" by code_simp
  have p: "program_by_code (working ?t) (co_id ?c) (np_program_code publish_sample_payload) = Some publish_sample_program"
    by code_simp
  have w: "latest_version_of (working ?t) (pg_id publish_sample_program) = Some publish_sample_version" by code_simp
  have d: "publish_sample_document \<in> set (gd_documents (working ?t))"
    "sd_program_version_id publish_sample_document = Some (pv_id publish_sample_version)"
    "sd_source_url publish_sample_document = np_source_url publish_sample_payload"
    by (simp_all add: publish_sample_db_def publish_sample_document_def publish_sample_version_def publish_sample_payload_def)
  show "publish 9 source x publish_sample_payload diff ''abc'' ''raw'' ''uri'' False ?t
    = (Inl (IntegrityError ''constraint violated''), \<lparr>committed = publish_sample_db, working = publish_sample_db, aborted = True\<rparr>)"
    using unpublished_document_collides [OF _ c p w d, of False diff] by (simp add: begin_txn_def)
qed

end
