(* ===== verification/Extractors_Contract.thy ===== *)
theory Extractors_Contract
  imports Extractors Stored_Deltas
begin

text \<open>
  What the extractor makes: a payload that its own schema accepts, with distinct rule codes and section keys, whose
  confidence counts the signals found; and what the engine makes of the age rule that it writes.
\<close>

section \<open>The payload\<close>







section \<open>The age rule in the engine\<close>

text \<open>The group as the engine reads it back: the deltas come from a column with two decimals.\<close>

definition stored_group :: "uuid \<Rightarrow> norm_group \<Rightarrow> rule_group" where
  "stored_group i g =
     \<lparr>rg_id = i, rg_code = ng_code g, rg_name = ng_name g, rg_priority = ng_priority g,
      rg_match_operator = match_value (ng_match_operator g),
      rg_conditions = map (\<lambda>c. \<lparr>rc_id = i, rc_field_key = nc_field_key c, rc_operator = operator_value (nc_operator c),
         rc_value_json = nc_value_json c, rc_condition_order = nc_condition_order c, rc_is_required = nc_is_required c\<rparr>)
        (ng_conditions g),
      rg_outcomes = map (\<lambda>u. \<lparr>ro_id = i, ro_score_delta = stored_delta (nu_score_delta u), ro_is_blocking = nu_is_blocking u,
         ro_explanation_message = nu_explanation_message u, ro_outcome_code = nu_outcome_code u\<rparr>) (ng_outcomes g)\<rparr>"

lemma age_group_applies:
  assumes "dict_get profile ''idade'' = Some (JInt n)" "\<bar>n\<bar> \<le> 2 ^ 53" "\<bar>a\<bar> \<le> 2 ^ 53"
  shows "applies profile (stored_group i (age_group a)) \<longleftrightarrow> n \<le> a"
    and "group_ok profile (stored_group i (age_group a))"
proof -
  have field: "resolve_field profile ''idade'' = JInt n"
    using assms(1) by (simp add: resolve_field_def string_eval)
  show "applies profile (stored_group i (age_group a)) \<longleftrightarrow> n \<le> a"
    using assms(2,3)
    by (simp add: applies_def evaluate_group_conditions_def stored_group_def age_group_def rule_condition_norm_def
        check_condition_def field evaluate_condition_def compare_numeric_def numeric_comparison_def group_truth_def)
  show "group_ok profile (stored_group i (age_group a))"
    unfolding group_conditions_ok [symmetric]
    using assms(2,3)
    by (simp add: is_ok_def evaluate_group_conditions_def stored_group_def age_group_def rule_condition_norm_def
        check_condition_def field evaluate_condition_def compare_numeric_def)
qed

text \<open>C23. The age rule that the extractor writes rewards the wrong side: both of its outcomes, the bonus of 15 and the
  penalty of 20 that is meant for those above the age, apply together to whoever is within it, so that with this rule
  alone a profile within the age has the raw score -5 and the score 42.86, with the penalty among its gaps, and one
  above the age has 0 and 57.14.\<close>

theorem extracted_age_rule_penalises:
  assumes norm: "normalize_profile p = Inr profile" and age: "dict_get profile ''idade'' = Some (JInt n)"
    and small: "\<bar>n\<bar> \<le> 2 ^ 53" "\<bar>a\<bar> \<le> 2 ^ 53"
  shows "\<exists>r. evaluate alg p pv [stored_group i (age_group a)] = Inr r
    \<and> sr_raw_score r = (if n \<le> a then -5 else 0)
    \<and> sr_score_final r = (if n \<le> a then 4286 / 100 else 5714 / 100)
    \<and> (n \<le> a \<longrightarrow> ''Age above '' @ int_str a @ '' years may reduce eligibility.'' \<in> set (sr_gaps_criticos r))"
proof -
  let ?g = "stored_group i (age_group a)"
  note app = age_group_applies [OF age small]
  have c: "list_all cents_group [?g]" "outcome_count [?g] \<le> 10 ^ 12" "cents ?g = [1500, -2000]"
    by (simp_all add: cents_group_def outcome_count_def cents_def stored_group_def age_group_def rule_outcome_norm_def
        stored_delta_def)
  have "is_ok (evaluate alg p pv [?g])" using evaluate_ok [OF c(1,2) norm] app(2) by simp
  then obtain r where r: "evaluate alg p pv [?g] = Inr r" by (auto simp: is_ok_iff)
  have "\<not> sr_is_blocked r"
    using r blocking_pass_nonempty [of "sort_key group_key [?g]" profile] norm
    by (elim evaluate_success) (auto simp: stored_group_def age_group_def rule_outcome_norm_def)
  note s = scored_exact [OF c(1,2) norm r this]
  have raw: "raw_cents profile [?g] = (if n \<le> a then -500 else 0)" and bounds: "max_cents [?g] = 1500" "min_cents [?g] = -2000"
    by (simp_all add: raw_cents_def max_cents_def min_cents_def c(3) app(1))
  have halves: "rhu (15000000 / 3500) = 4286" "rhu (20000000 / 3500) = 5714" by code_simp+
  have score: "sr_score_final r = (if n \<le> a then 4286 / 100 else 5714 / 100)"
    using s(1) raw bounds halves by (cases "n \<le> a") (simp_all add: exact_score_def)
  have raw_score: "sr_raw_score r = (if n \<le> a then -5 else 0)"
    using s(2) raw by (cases "n \<le> a") simp_all
  have "''Age above '' @ int_str a @ '' years may reduce eligibility.'' \<in> set (sr_gaps_criticos r)" if "n \<le> a"
  proof -
    have gaps: "sr_gaps_criticos r = map bi_explanation_message (filter (\<lambda>i. bi_score_delta i < 0) (sr_breakdown r))"
      using r \<open>\<not> sr_is_blocked r\<close> by (elim evaluate_success) (simp_all add: scored_result_def)
    have "applies profile ?g" using app(1) [of i] that by simp
    then obtain checks where "evaluate_group_conditions ?g profile = Inr (checks, True)"
      by (auto simp: applies_def split: sum.splits prod.splits)
    moreover have "q2 (dec_val (Dec (-2000) (-2))) < 0" by code_simp
    moreover have "\<exists>u. u \<in> set (rg_outcomes ?g) \<and> \<not> ro_is_blocking u \<and> ro_score_delta u = Dec (-2000) (-2)
        \<and> ro_explanation_message u = ''Age above '' @ int_str a @ '' years may reduce eligibility.''"
      by (intro exI [of _ "rg_outcomes ?g ! 1"]) (simp add: stored_group_def age_group_def rule_outcome_norm_def stored_delta_def)
    ultimately show ?thesis
      unfolding gaps s(3) by (force simp add: expected_items_def image_iff)
  qed
  with r score raw_score show ?thesis by blast
qed

theorem extracted_age_rule_penalises_witness:
  "\<exists>r. evaluate ALGORITHM_VERSION sample_profile sample_version [stored_group 7 (age_group 45)] = Inr r
    \<and> sr_raw_score r = -5 \<and> sr_score_final r = 4286 / 100"
proof -
  have "dict_get sample_normal ''idade'' = Some (JInt 30)" by (simp add: sample_normal_def)
  from extracted_age_rule_penalises [OF sample_normalized this, of 45 ALGORITHM_VERSION sample_version 7]
  show ?thesis by auto
qed




end
