(* ===== verification/Mvp_Catalog.thy ===== *)
theory Mvp_Catalog
  imports Ingestion
begin

text \<open>
  The country catalog, \<open>src/apps/immigration_rules/fixtures/mvp_country_catalog.py\<close>, as data, with the
  functions on it, and the sources that the ingestion seeds from it, \<open>src/apps/ingestion/source_seeds.py\<close>.
\<close>

section \<open>Data\<close>

record catalog_source =
  cs_source_key :: string
  cs_source_type :: source_type
  cs_source_url :: string
  cs_robots_url :: "string option"
  cs_terms_url :: "string option"
  cs_schedule_cron :: "string option"
  cs_document_title :: string

record catalog_program =
  cp_code :: string
  cp_name :: string
  cp_description :: string
  cp_version :: string
  cp_sources :: "catalog_source list"

record catalog_country =
  cx_code :: string
  cx_name :: string
  cx_priority_rank :: int
  cx_diaspora_population_estimate :: int
  cx_prioritization_source_url :: string
  cx_programs :: "catalog_program list"

definition MVP_PROGRAM_VERSION :: string where
  "MVP_PROGRAM_VERSION = ''2026.01''"

text \<open>The time that \<open>MVP_PROGRAM_EFFECTIVE_FROM\<close> denotes.\<close>

definition catalog_effective_from :: time where
  "catalog_effective_from = midnight 2026 1 1"

definition BRASILEIROS_EXTERIOR_URL :: string where
  "BRASILEIROS_EXTERIOR_URL = ''https://www.gov.br/mre/pt-br/assuntos/portal-consular/BrasileirosnoExterior2023.pdf''"

definition catalog_us :: catalog_country where
  "catalog_us =
     \<lparr>cx_code = ''US'', cx_name = ''Estados Unidos'', cx_priority_rank = 1,
      cx_diaspora_population_estimate = 2085000, cx_prioritization_source_url = BRASILEIROS_EXTERIOR_URL,
      cx_programs =
        [\<lparr>cp_code = ''US_GENERAL_IMMIGRATION'', cp_name = ''USCIS Immigration Pathways'',
         cp_description = ''Regras oficiais de residencia, trabalho e ajuste de status.'',
         cp_version = MVP_PROGRAM_VERSION,
         cp_sources =
           [\<lparr>cs_source_key = ''us_uscis_main'', cs_source_type = src_html,
             cs_source_url = ''https://www.uscis.gov/'',
             cs_robots_url = Some ''https://www.uscis.gov/robots.txt'',
             cs_terms_url = Some ''https://www.uscis.gov/about-us/website-policies'',
             cs_schedule_cron = Some ''0 */12 * * *'',
             cs_document_title = ''USCIS - Official Immigration Portal''\<rparr>]\<rparr>,
         \<lparr>cp_code = ''US_VISAS'', cp_name = ''US Department of State Visas'',
         cp_description = ''Regras oficiais de vistos de nao-imigrante e imigrante.'',
         cp_version = MVP_PROGRAM_VERSION,
         cp_sources =
           [\<lparr>cs_source_key = ''us_travel_state_visas'', cs_source_type = src_html,
             cs_source_url = ''https://travel.state.gov/content/travel/en/us-visas.html'',
             cs_robots_url = Some ''https://travel.state.gov/robots.txt'', cs_terms_url = None,
             cs_schedule_cron = Some ''15 */12 * * *'',
             cs_document_title = ''US Travel State - Visa Information''\<rparr>]\<rparr>]\<rparr>"

definition catalog_pt :: catalog_country where
  "catalog_pt =
     \<lparr>cx_code = ''PT'', cx_name = ''Portugal'', cx_priority_rank = 2, cx_diaspora_population_estimate = 513000,
      cx_prioritization_source_url = BRASILEIROS_EXTERIOR_URL,
      cx_programs =
        [\<lparr>cp_code = ''PT_AIMA_VISAS'', cp_name = ''AIMA Residence and Visa Rules'',
         cp_description = ''Informacoes oficiais de residencia e vistos em Portugal.'',
         cp_version = MVP_PROGRAM_VERSION,
         cp_sources =
           [\<lparr>cs_source_key = ''pt_aima'', cs_source_type = src_html, cs_source_url = ''https://aima.gov.pt/'',
             cs_robots_url = Some ''https://aima.gov.pt/robots.txt'', cs_terms_url = None,
             cs_schedule_cron = Some ''0 2 * * *'', cs_document_title = ''AIMA - Portal Oficial''\<rparr>]\<rparr>]\<rparr>"

definition catalog_py :: catalog_country where
  "catalog_py =
     \<lparr>cx_code = ''PY'', cx_name = ''Paraguai'', cx_priority_rank = 3, cx_diaspora_population_estimate = 263200,
      cx_prioritization_source_url = BRASILEIROS_EXTERIOR_URL,
      cx_programs =
        [\<lparr>cp_code = ''PY_MIGRACIONES'', cp_name = ''Direccion Nacional de Migraciones'',
         cp_description = ''Normas oficiais de residencia e migracao no Paraguai.'',
         cp_version = MVP_PROGRAM_VERSION,
         cp_sources =
           [\<lparr>cs_source_key = ''py_migraciones'', cs_source_type = src_html,
             cs_source_url = ''https://www.migraciones.gov.py/'',
             cs_robots_url = Some ''https://www.migraciones.gov.py/robots.txt'', cs_terms_url = None,
             cs_schedule_cron = Some ''20 2 * * *'',
             cs_document_title = ''Migraciones Paraguay - Portal Oficial''\<rparr>]\<rparr>]\<rparr>"

definition catalog_gb :: catalog_country where
  "catalog_gb =
     \<lparr>cx_code = ''GB'', cx_name = ''Reino Unido'', cx_priority_rank = 4,
      cx_diaspora_population_estimate = 230000, cx_prioritization_source_url = BRASILEIROS_EXTERIOR_URL,
      cx_programs =
        [\<lparr>cp_code = ''UK_VISAS_IMMIGRATION'', cp_name = ''UK Visas and Immigration'',
         cp_description = ''Regras oficiais de vistos e residencia no Reino Unido.'',
         cp_version = MVP_PROGRAM_VERSION,
         cp_sources =
           [\<lparr>cs_source_key = ''uk_gov_immigration'', cs_source_type = src_html,
             cs_source_url = ''https://www.gov.uk/browse/visas-immigration'',
             cs_robots_url = Some ''https://www.gov.uk/robots.txt'',
             cs_terms_url = Some ''https://www.gov.uk/help/terms-conditions'',
             cs_schedule_cron = Some ''35 2 * * *'', cs_document_title = ''GOV.UK - Visas and Immigration''\<rparr>]\<rparr>]\<rparr>"

definition catalog_jp :: catalog_country where
  "catalog_jp =
     \<lparr>cx_code = ''JP'', cx_name = ''Japao'', cx_priority_rank = 5, cx_diaspora_population_estimate = 210471,
      cx_prioritization_source_url = BRASILEIROS_EXTERIOR_URL,
      cx_programs =
        [\<lparr>cp_code = ''JP_VISA_RULES'', cp_name = ''MOFA Visa Information'',
         cp_description = ''Portal oficial do Ministerio de Relacoes Exteriores do Japao para vistos.'',
         cp_version = MVP_PROGRAM_VERSION,
         cp_sources =
           [\<lparr>cs_source_key = ''jp_mofa_visa'', cs_source_type = src_html,
             cs_source_url = ''https://www.mofa.go.jp/j_info/visit/visa/index.html'',
             cs_robots_url = Some ''https://www.mofa.go.jp/robots.txt'', cs_terms_url = None,
             cs_schedule_cron = Some ''50 2 * * *'', cs_document_title = ''MOFA Japan - Visa''\<rparr>]\<rparr>,
         \<lparr>cp_code = ''JP_IMMIGRATION_ISA'', cp_name = ''Immigration Services Agency'',
         cp_description = ''Orientacoes oficiais da Immigration Services Agency.'',
         cp_version = MVP_PROGRAM_VERSION,
         cp_sources =
           [\<lparr>cs_source_key = ''jp_isa_reference'', cs_source_type = src_html,
             cs_source_url = ''https://www.isa.go.jp/en/'',
             cs_robots_url = Some ''https://www.isa.go.jp/robots.txt'', cs_terms_url = None,
             cs_schedule_cron = Some ''10 3 * * *'',
             cs_document_title = ''Immigration Services Agency - Official Site''\<rparr>]\<rparr>]\<rparr>"

definition catalog_de :: catalog_country where
  "catalog_de =
     \<lparr>cx_code = ''DE'', cx_name = ''Alemanha'', cx_priority_rank = 6, cx_diaspora_population_estimate = 170400,
      cx_prioritization_source_url = BRASILEIROS_EXTERIOR_URL,
      cx_programs =
        [\<lparr>cp_code = ''DE_WORK_IMMIGRATION'', cp_name = ''Make it in Germany'',
         cp_description = ''Portal oficial para migracao de trabalho qualificado na Alemanha.'',
         cp_version = MVP_PROGRAM_VERSION,
         cp_sources =
           [\<lparr>cs_source_key = ''de_make_it_in_germany'', cs_source_type = src_html,
             cs_source_url = ''https://www.make-it-in-germany.com/en/'',
             cs_robots_url = Some ''https://www.make-it-in-germany.com/robots.txt'', cs_terms_url = None,
             cs_schedule_cron = Some ''25 3 * * *'',
             cs_document_title = ''Make it in Germany - Official Portal''\<rparr>]\<rparr>,
         \<lparr>cp_code = ''DE_BAMF_IMMIGRATION'', cp_name = ''BAMF Immigration Rules'',
         cp_description = ''Normas e orientacoes oficiais do BAMF.'', cp_version = MVP_PROGRAM_VERSION,
         cp_sources =
           [\<lparr>cs_source_key = ''de_bamf'', cs_source_type = src_html,
             cs_source_url = ''https://www.bamf.de/EN/'',
             cs_robots_url = Some ''https://www.bamf.de/robots.txt'', cs_terms_url = None,
             cs_schedule_cron = Some ''40 3 * * *'',
             cs_document_title = ''BAMF - Official Immigration Information''\<rparr>]\<rparr>]\<rparr>"

definition catalog_es :: catalog_country where
  "catalog_es =
     \<lparr>cx_code = ''ES'', cx_name = ''Espanha'', cx_priority_rank = 7, cx_diaspora_population_estimate = 161944,
      cx_prioritization_source_url = BRASILEIROS_EXTERIOR_URL,
      cx_programs =
        [\<lparr>cp_code = ''ES_MIGRACIONES'', cp_name = ''Ministerio de Inclusion y Migraciones'',
         cp_description = ''Regras oficiais de autorizacao de residencia e migracao.'',
         cp_version = MVP_PROGRAM_VERSION,
         cp_sources =
           [\<lparr>cs_source_key = ''es_inclusion_migraciones'', cs_source_type = src_html,
             cs_source_url = ''https://www.inclusion.gob.es/en/'',
             cs_robots_url = Some ''https://www.inclusion.gob.es/robots.txt'', cs_terms_url = None,
             cs_schedule_cron = Some ''55 3 * * *'',
             cs_document_title = ''Ministerio de Inclusion y Migraciones''\<rparr>]\<rparr>]\<rparr>"

definition catalog_it :: catalog_country where
  "catalog_it =
     \<lparr>cx_code = ''IT'', cx_name = ''Italia'', cx_priority_rank = 8, cx_diaspora_population_estimate = 159000,
      cx_prioritization_source_url = BRASILEIROS_EXTERIOR_URL,
      cx_programs =
        [\<lparr>cp_code = ''IT_VISTI_INGRESSO'', cp_name = ''Esteri Visti e Ingresso'',
         cp_description = ''Regras oficiais para ingresso e vistos na Italia.'',
         cp_version = MVP_PROGRAM_VERSION,
         cp_sources =
           [\<lparr>cs_source_key = ''it_esteri_visti'', cs_source_type = src_html,
             cs_source_url = ''https://www.esteri.it/en/servizi-consolari-e-visti/ingressosoggiornoinitalia/'',
             cs_robots_url = Some ''https://www.esteri.it/robots.txt'', cs_terms_url = None,
             cs_schedule_cron = Some ''10 4 * * *'',
             cs_document_title = ''Ministero degli Affari Esteri - Visti''\<rparr>]\<rparr>]\<rparr>"

definition catalog_ca :: catalog_country where
  "catalog_ca =
     \<lparr>cx_code = ''CA'', cx_name = ''Canada'', cx_priority_rank = 9, cx_diaspora_population_estimate = 143500,
      cx_prioritization_source_url = BRASILEIROS_EXTERIOR_URL,
      cx_programs =
        [\<lparr>cp_code = ''CA_IRCC_IMMIGRATION'', cp_name = ''IRCC Immigration Programs'',
         cp_description = ''Regras oficiais de imigracao e cidadania do Canada.'',
         cp_version = MVP_PROGRAM_VERSION,
         cp_sources =
           [\<lparr>cs_source_key = ''ca_ircc'', cs_source_type = src_html,
             cs_source_url = ''https://www.canada.ca/en/services/immigration-citizenship.html'',
             cs_robots_url = Some ''https://www.canada.ca/robots.txt'', cs_terms_url = None,
             cs_schedule_cron = Some ''25 4 * * *'', cs_document_title = ''IRCC - Immigration and Citizenship''\<rparr>]\<rparr>]\<rparr>"

definition catalog_ar :: catalog_country where
  "catalog_ar =
     \<lparr>cx_code = ''AR'', cx_name = ''Argentina'', cx_priority_rank = 10,
      cx_diaspora_population_estimate = 101502, cx_prioritization_source_url = BRASILEIROS_EXTERIOR_URL,
      cx_programs =
        [\<lparr>cp_code = ''AR_MIGRACIONES'', cp_name = ''Direccion Nacional de Migraciones'',
         cp_description = ''Normativa oficial de residencia e migracao na Argentina.'',
         cp_version = MVP_PROGRAM_VERSION,
         cp_sources =
           [\<lparr>cs_source_key = ''ar_migraciones'', cs_source_type = src_html,
             cs_source_url = ''https://www.argentina.gob.ar/interior/migraciones'',
             cs_robots_url = Some ''https://www.argentina.gob.ar/robots.txt'', cs_terms_url = None,
             cs_schedule_cron = Some ''40 4 * * *'',
             cs_document_title = ''Migraciones Argentina - Portal Oficial''\<rparr>]\<rparr>]\<rparr>"

definition catalog_fr :: catalog_country where
  "catalog_fr =
     \<lparr>cx_code = ''FR'', cx_name = ''Franca'', cx_priority_rank = 11, cx_diaspora_population_estimate = 95000,
      cx_prioritization_source_url = BRASILEIROS_EXTERIOR_URL,
      cx_programs =
        [\<lparr>cp_code = ''FR_FRANCE_VISAS'', cp_name = ''France-Visas'',
         cp_description = ''Portal oficial para solicitacao e regras de vistos na Franca.'',
         cp_version = MVP_PROGRAM_VERSION,
         cp_sources =
           [\<lparr>cs_source_key = ''fr_france_visas'', cs_source_type = src_html,
             cs_source_url = ''https://france-visas.gouv.fr/'',
             cs_robots_url = Some ''https://france-visas.gouv.fr/robots.txt'', cs_terms_url = None,
             cs_schedule_cron = Some ''55 4 * * *'', cs_document_title = ''France-Visas - Official Portal''\<rparr>]\<rparr>]\<rparr>"

definition catalog_ie :: catalog_country where
  "catalog_ie =
     \<lparr>cx_code = ''IE'', cx_name = ''Irlanda'', cx_priority_rank = 12, cx_diaspora_population_estimate = 80000,
      cx_prioritization_source_url = BRASILEIROS_EXTERIOR_URL,
      cx_programs =
        [\<lparr>cp_code = ''IE_ISD_IMMIGRATION'', cp_name = ''Immigration Service Delivery'',
         cp_description = ''Informacoes oficiais de residencia e imigracao da Irlanda.'',
         cp_version = MVP_PROGRAM_VERSION,
         cp_sources =
           [\<lparr>cs_source_key = ''ie_immigration_service_delivery'', cs_source_type = src_html,
             cs_source_url = ''https://www.irishimmigration.ie/'',
             cs_robots_url = Some ''https://www.irishimmigration.ie/robots.txt'', cs_terms_url = None,
             cs_schedule_cron = Some ''10 5 * * *'',
             cs_document_title = ''Immigration Service Delivery - Official Site''\<rparr>]\<rparr>]\<rparr>"

definition catalog_nl :: catalog_country where
  "catalog_nl =
     \<lparr>cx_code = ''NL'', cx_name = ''Paises Baixos'', cx_priority_rank = 13,
      cx_diaspora_population_estimate = 80000, cx_prioritization_source_url = BRASILEIROS_EXTERIOR_URL,
      cx_programs =
        [\<lparr>cp_code = ''NL_IND_IMMIGRATION'', cp_name = ''IND Immigration Rules'',
         cp_description = ''Regras oficiais de residencia e migracao nos Paises Baixos.'',
         cp_version = MVP_PROGRAM_VERSION,
         cp_sources =
           [\<lparr>cs_source_key = ''nl_ind'', cs_source_type = src_html, cs_source_url = ''https://ind.nl/en'',
             cs_robots_url = Some ''https://ind.nl/robots.txt'', cs_terms_url = None,
             cs_schedule_cron = Some ''25 5 * * *'', cs_document_title = ''IND - Official Immigration Portal''\<rparr>]\<rparr>]\<rparr>"

definition catalog_ch :: catalog_country where
  "catalog_ch =
     \<lparr>cx_code = ''CH'', cx_name = ''Suica'', cx_priority_rank = 14, cx_diaspora_population_estimate = 64000,
      cx_prioritization_source_url = BRASILEIROS_EXTERIOR_URL,
      cx_programs =
        [\<lparr>cp_code = ''CH_SEM_ENTRY'', cp_name = ''SEM Entry and Residence'',
         cp_description = ''Regras oficiais de entrada e permanencia na Suica.'',
         cp_version = MVP_PROGRAM_VERSION,
         cp_sources =
           [\<lparr>cs_source_key = ''ch_sem'', cs_source_type = src_html,
             cs_source_url = ''https://www.sem.admin.ch/sem/en/home/themen/einreise.html'',
             cs_robots_url = Some ''https://www.sem.admin.ch/robots.txt'', cs_terms_url = None,
             cs_schedule_cron = Some ''40 5 * * *'', cs_document_title = ''SEM - Entry Requirements''\<rparr>]\<rparr>]\<rparr>"

definition catalog_be :: catalog_country where
  "catalog_be =
     \<lparr>cx_code = ''BE'', cx_name = ''Belgica'', cx_priority_rank = 15, cx_diaspora_population_estimate = 50000,
      cx_prioritization_source_url = BRASILEIROS_EXTERIOR_URL,
      cx_programs =
        [\<lparr>cp_code = ''BE_DOFI_IMMIGRATION'', cp_name = ''DOFI Immigration Office'',
         cp_description = ''Informacoes oficiais do Office des Etrangers da Belgica.'',
         cp_version = MVP_PROGRAM_VERSION,
         cp_sources =
           [\<lparr>cs_source_key = ''be_dofi'', cs_source_type = src_html, cs_source_url = ''https://dofi.ibz.be/en'',
             cs_robots_url = Some ''https://dofi.ibz.be/robots.txt'', cs_terms_url = None,
             cs_schedule_cron = Some ''55 5 * * *'', cs_document_title = ''DOFI - Immigration Office''\<rparr>]\<rparr>]\<rparr>"

definition MVP_COUNTRY_CATALOG :: "catalog_country list" where
  "MVP_COUNTRY_CATALOG =
     [catalog_us, catalog_pt, catalog_py, catalog_gb, catalog_jp, catalog_de, catalog_es, catalog_it,
      catalog_ca, catalog_ar, catalog_fr, catalog_ie, catalog_nl, catalog_ch, catalog_be]"

definition MVP_RULE_FIXTURE_COUNTRY_CODES :: "string set" where
  "MVP_RULE_FIXTURE_COUNTRY_CODES = {''US'', ''PT'', ''CA'', ''GB'', ''DE''}"

definition rule_coverage_status :: "string \<Rightarrow> string" where
  "rule_coverage_status country_code =
     (if upper country_code \<in> MVP_RULE_FIXTURE_COUNTRY_CODES then ''seeded_example'' else ''pending'')"

text \<open>The counts are functions of the catalog here, which is always \<open>MVP_COUNTRY_CATALOG\<close>.\<close>

definition expected_country_count :: "catalog_country list \<Rightarrow> nat" where
  "expected_country_count catalog = length catalog"

definition expected_program_count :: "catalog_country list \<Rightarrow> nat" where
  "expected_program_count catalog = sum_list (map (\<lambda>c. length (cx_programs c)) catalog)"

definition expected_source_count :: "catalog_country list \<Rightarrow> nat" where
  "expected_source_count catalog =
     sum_list (map (\<lambda>c. sum_list (map (\<lambda>p. length (cp_sources p)) (cx_programs c))) catalog)"

section \<open>Sources\<close>

definition source_seed_of :: "catalog_country \<Rightarrow> catalog_program \<Rightarrow> catalog_source \<Rightarrow> source_seed" where
  "source_seed_of c p s =
     \<lparr>sx_source_key = cs_source_key s, sx_country_code = cx_code c, sx_country_name = cx_name c,
      sx_program_code = cp_code p, sx_program_name = cp_name p, sx_source_type = cs_source_type s,
      sx_source_url = cs_source_url s, sx_robots_url = cs_robots_url s, sx_terms_url = cs_terms_url s,
      sx_schedule_cron = cs_schedule_cron s, sx_parser_name = ''deterministic-v1'', sx_parser_version = ''1.0.0'',
      sx_confidence_threshold = 80 / 100, sx_metadata_json = []\<rparr>"

definition build_default_source_seeds :: "catalog_country list \<Rightarrow> source_seed list" where
  "build_default_source_seeds catalog =
     concat (map (\<lambda>c. concat (map (\<lambda>p. map (source_seed_of c p) (cp_sources p)) (cx_programs c))) catalog)"

definition DEFAULT_SOURCE_SEEDS :: "source_seed list" where
  "DEFAULT_SOURCE_SEEDS = build_default_source_seeds MVP_COUNTRY_CATALOG"

end
