(* ===== verification/Seeding.thy ===== *)
theory Seeding
  imports Mvp_Rules Mvp_Catalog Ingestion_Gateway Stored_Deltas
begin

text \<open>
  The seeding scripts: \<open>src/scripts/seed_mvp_rules.py\<close> writes the rule fixtures,
  \<open>src/scripts/seed_mvp_catalog.py\<close> the country catalog with its sources and documents,
  \<open>src/scripts/seed_initial_data.py\<close> runs the catalog and then the fixtures, and
  \<open>src/scripts/check_mvp_seed.py\<close> counts what they left. The sessions flush before each query, so that an
  added row reaches the tables before the next lookup.
\<close>

section \<open>Rule fixtures\<close>

text \<open>\<open>RuleGroupMatchOperator(value)\<close> and \<open>RuleOperator(value)\<close>\<close>

definition match_operator_of :: "string \<Rightarrow> match_operator result" where
  "match_operator_of v =
     (case find (\<lambda>x. match_value x = v) [match_all, match_any] of
        Some x \<Rightarrow> Inr x
      | None \<Rightarrow> Inl (ValueError (CHR 0x27 # v @ CHR 0x27 # '' is not a valid RuleGroupMatchOperator'')))"

definition rule_operator_of :: "string \<Rightarrow> rule_operator result" where
  "rule_operator_of v =
     (case find (\<lambda>x. operator_value x = v)
        [op_eq, op_ne, op_gt, op_gte, op_lt, op_lte, op_between, op_in, op_not_in, op_exists] of
        Some x \<Rightarrow> Inr x
      | None \<Rightarrow> Inl (ValueError (CHR 0x27 # v @ CHR 0x27 # '' is not a valid RuleOperator'')))"

definition find_country :: "'z rules_db_scheme \<Rightarrow> string \<Rightarrow> country option" where
  "find_country d code_text = find (\<lambda>c. co_code c = code_text) (rd_countries d)"

definition find_version :: "'z rules_db_scheme \<Rightarrow> uuid \<Rightarrow> string \<Rightarrow> program_version option" where
  "find_version d program_id v = find (\<lambda>x. pv_program_id x = program_id \<and> pv_version x = v) (rd_versions d)"

definition find_group :: "'z rules_db_scheme \<Rightarrow> uuid \<Rightarrow> string \<Rightarrow> group_row option" where
  "find_group d version_id code_text =
     find (\<lambda>g. gr_program_version_id g = version_id \<and> gr_code g = code_text) (rd_groups d)"

definition find_condition :: "'z rules_db_scheme \<Rightarrow> uuid \<Rightarrow> string \<Rightarrow> rule_operator \<Rightarrow> int \<Rightarrow> condition_row option" where
  "find_condition d group_id field_key oper order =
     find (\<lambda>c. cr_rule_group_id c = group_id \<and> cr_field_key c = field_key \<and> cr_operator c = oper
       \<and> cr_condition_order c = order) (rd_conditions d)"

definition find_outcome :: "'z rules_db_scheme \<Rightarrow> uuid \<Rightarrow> string \<Rightarrow> outcome_row option" where
  "find_outcome d group_id code_text =
     find (\<lambda>u. ot_rule_group_id u = group_id \<and> ot_outcome_code u = Some code_text) (rd_outcomes d)"

text \<open>
  \<open>row = await db.scalar(select ...)\<close>, and the row that is added where there is none; \<open>fits\<close> says that its
  values are within the widths of the columns
\<close>

definition get_or_insert ::
    "('z ingest_db_scheme \<Rightarrow> 'r option) \<Rightarrow> bool \<Rightarrow> (uuid \<Rightarrow> 'r) \<Rightarrow> ('r \<Rightarrow> 'z ingest_db_scheme \<Rightarrow> 'z ingest_db_scheme)
     \<Rightarrow> ('z, 'r) ingest_op" where
  "get_or_insert look fits row_at add =
     bindO (query look) (\<lambda>existing.
     case existing of Some r \<Rightarrow> ret r | None \<Rightarrow> bindO (fits_columns fits) (\<lambda>_. insert_row row_at add))"

definition seed_condition :: "time \<Rightarrow> uuid \<Rightarrow> condition_data \<Rightarrow> ('z, unit) ingest_op" where
  "seed_condition now group_id x =
     bindO (lift (rule_operator_of (fc_operator x))) (\<lambda>oper.
     bindO (get_or_insert (\<lambda>d. find_condition d group_id (fc_field_key x) oper (fc_condition_order x))
       (length (fc_field_key x) \<le> 120 \<and> int32 (fc_condition_order x))
       (\<lambda>i. \<lparr>cr_id = i, cr_created_at = now, cr_rule_group_id = group_id, cr_field_key = fc_field_key x,
          cr_operator = oper, cr_value_json = fc_value_json x, cr_condition_order = fc_condition_order x,
          cr_is_required = fc_is_required x\<rparr>)
       (\<lambda>r d. d\<lparr>rd_conditions := rd_conditions d @ [r]\<rparr>)) (\<lambda>_. ret ()))"

text \<open>The driver turns the text of the delta into a number, which the column stores with two decimals.\<close>

definition seed_outcome :: "uuid \<Rightarrow> outcome_data \<Rightarrow> ('z, unit) ingest_op" where
  "seed_outcome group_id x =
     bindO (query (\<lambda>d. find_outcome d group_id (fo_outcome_code x))) (\<lambda>existing.
     case existing of
       Some _ \<Rightarrow> ret ()
     | None \<Rightarrow>
         bindO (lift (decimal_of_str (fo_score_delta x))) (\<lambda>delta.
         bindO (fits_columns (numeric_8_2 delta \<and> length (fo_outcome_code x) \<le> 64)) (\<lambda>_.
         bindO (insert_row
           (\<lambda>i. \<lparr>ot_id = i, ot_rule_group_id = group_id, ot_score_delta = stored_delta delta,
              ot_is_blocking = fo_is_blocking x, ot_explanation_message = fo_explanation_message x,
              ot_outcome_code = Some (fo_outcome_code x)\<rparr>)
           (\<lambda>r d. d\<lparr>rd_outcomes := rd_outcomes d @ [r]\<rparr>)) (\<lambda>_. ret ()))))"

text \<open>The match operator is read only where the group is new.\<close>

definition seed_group_row :: "time \<Rightarrow> uuid \<Rightarrow> group_data \<Rightarrow> ('z, group_row) ingest_op" where
  "seed_group_row now version_id x =
     bindO (query (\<lambda>d. find_group d version_id (fg_code x))) (\<lambda>existing.
     case existing of
       Some g \<Rightarrow> ret g
     | None \<Rightarrow>
         bindO (lift (match_operator_of (fg_match_operator x))) (\<lambda>oper.
         bindO (fits_columns (length (fg_code x) \<le> 64 \<and> length (fg_name x) \<le> 160 \<and> int32 (fg_priority x))) (\<lambda>_.
         insert_row
           (\<lambda>i. \<lparr>gr_id = i, gr_created_at = now, gr_program_version_id = version_id, gr_code = fg_code x,
              gr_name = fg_name x, gr_description = None, gr_priority = fg_priority x, gr_match_operator = oper,
              gr_is_active = True\<rparr>)
           (\<lambda>r d. d\<lparr>rd_groups := rd_groups d @ [r]\<rparr>))))"

definition seed_rule_group :: "time \<Rightarrow> uuid \<Rightarrow> group_data \<Rightarrow> ('z, unit) ingest_op" where
  "seed_rule_group now version_id x =
     bindO (seed_group_row now version_id x) (\<lambda>g.
     bindO (forO (seed_condition now (gr_id g)) (fg_conditions x)) (\<lambda>_.
     forO (seed_outcome (gr_id g)) (fg_outcomes x)))"

definition seed_fixture_country :: "rule_fixture \<Rightarrow> ('z, country) ingest_op" where
  "seed_fixture_country f =
     get_or_insert (\<lambda>d. find_country d (fx_country_code f))
       (length (fx_country_code f) \<le> 2 \<and> length (fx_country_name f) \<le> 120)
       (\<lambda>i. \<lparr>co_id = i, co_code = fx_country_code f, co_name = fx_country_name f, co_priority_rank = None,
          co_diaspora_population_estimate = None, co_prioritization_source_url = None, co_is_active = True\<rparr>)
       (\<lambda>r d. d\<lparr>rd_countries := rd_countries d @ [r]\<rparr>)"

definition seed_fixture_program :: "uuid \<Rightarrow> rule_fixture \<Rightarrow> ('z, program) ingest_op" where
  "seed_fixture_program country_id f =
     get_or_insert (\<lambda>d. program_by_code d country_id (fx_program_code f))
       (length (fx_program_code f) \<le> 64 \<and> length (fx_program_name f) \<le> 160)
       (\<lambda>i. \<lparr>pg_id = i, pg_country_id = country_id, pg_code = fx_program_code f, pg_name = fx_program_name f,
          pg_description = Some (''Seed fixture for '' @ fx_country_code f), pg_is_active = True\<rparr>)
       (\<lambda>r d. d\<lparr>rd_programs := rd_programs d @ [r]\<rparr>)"

definition seed_fixture_version :: "time \<Rightarrow> uuid \<Rightarrow> rule_fixture \<Rightarrow> ('z, program_version) ingest_op" where
  "seed_fixture_version now program_id f =
     get_or_insert (\<lambda>d. find_version d program_id (fx_version f)) (length (fx_version f) \<le> 32)
       (\<lambda>i. \<lparr>pv_id = i, pv_created_at = now, pv_program_id = program_id, pv_version = fx_version f,
          pv_status = active_version, pv_effective_from = fx_effective_from f, pv_effective_to = fx_effective_to f\<rparr>)
       (\<lambda>r d. d\<lparr>rd_versions := rd_versions d @ [r]\<rparr>)"

definition seed_fixture :: "time \<Rightarrow> rule_fixture \<Rightarrow> ('z, unit) ingest_op" where
  "seed_fixture now f =
     bindO (seed_fixture_country f) (\<lambda>c.
     bindO (seed_fixture_program (co_id c) f) (\<lambda>p.
     bindO (seed_fixture_version now (pg_id p) f) (\<lambda>v.
     forO (seed_rule_group now (pv_id v)) (fx_rule_groups f))))"

text \<open>A session of its own; closing it without a commit drops what it wrote.\<close>

definition seed_fixtures :: "time \<Rightarrow> rule_fixture list \<Rightarrow> ('z ingest_db_scheme, unit) op" where
  "seed_fixtures now fs = request (bindO (forO (seed_fixture now) fs) (\<lambda>_. commit))"

definition seed_rules :: "time \<Rightarrow> ('z ingest_db_scheme, unit) op" where
  "seed_rules now = seed_fixtures now (map snd MVP_RULE_FIXTURES)"

definition selected_fixtures :: "string set \<Rightarrow> rule_fixture dict \<Rightarrow> rule_fixture list" where
  "selected_fixtures codes fs = map snd (filter (\<lambda>(c, f). upper c \<in> upper ` codes) fs)"

text \<open>The codes are any iterable; only its elements matter.\<close>

definition seed_for_countries :: "time \<Rightarrow> string set \<Rightarrow> ('z ingest_db_scheme, unit) op" where
  "seed_for_countries now codes =
     (if codes = {} then ret () else seed_fixtures now (selected_fixtures codes MVP_RULE_FIXTURES))"

section \<open>The catalog\<close>

record seed_summary =
  countries_created :: nat
  countries_updated :: nat
  programs_created :: nat
  programs_updated :: nat
  program_versions_created :: nat
  program_versions_updated :: nat
  source_registry_created_or_updated :: nat
  source_documents_created :: nat
  source_documents_updated :: nat

definition no_summary :: seed_summary where
  "no_summary =
     \<lparr>countries_created = 0, countries_updated = 0, programs_created = 0, programs_updated = 0,
      program_versions_created = 0, program_versions_updated = 0, source_registry_created_or_updated = 0,
      source_documents_created = 0, source_documents_updated = 0\<rparr>"

text \<open>A row of the catalog: added where the lookup finds none; otherwise it takes the columns of the catalog, and
  that is an update only when it changes something. The summary counts both.\<close>

definition seed_row ::
    "('z ingest_db_scheme \<Rightarrow> 'r option) \<Rightarrow> (uuid \<Rightarrow> 'r) \<Rightarrow> ('r \<Rightarrow> 'z ingest_db_scheme \<Rightarrow> 'z ingest_db_scheme)
     \<Rightarrow> ('r \<Rightarrow> 'r) \<Rightarrow> ('r \<Rightarrow> 'z ingest_db_scheme \<Rightarrow> 'z ingest_db_scheme) \<Rightarrow> (seed_summary \<Rightarrow> seed_summary)
     \<Rightarrow> (seed_summary \<Rightarrow> seed_summary) \<Rightarrow> seed_summary \<Rightarrow> ('z, 'r \<times> seed_summary) ingest_op" where
  "seed_row look row_at add refresh store created updated summary =
     bindO (query look) (\<lambda>existing.
     case existing of
       None \<Rightarrow> bindO (insert_row row_at add) (\<lambda>r. ret (r, created summary))
     | Some r \<Rightarrow>
         if refresh r = r then ret (r, summary)
         else bindO (flush ingest_ok (store r)) (\<lambda>_. ret (refresh r, updated summary)))"

definition catalog_country_of :: "catalog_country \<Rightarrow> country \<Rightarrow> country" where
  "catalog_country_of x c =
     c\<lparr>co_name := cx_name x, co_priority_rank := Some (cx_priority_rank x),
       co_diaspora_population_estimate := Some (cx_diaspora_population_estimate x),
       co_prioritization_source_url := Some (cx_prioritization_source_url x), co_is_active := True\<rparr>"

definition seed_country :: "catalog_country \<Rightarrow> seed_summary \<Rightarrow> ('z, country \<times> seed_summary) ingest_op" where
  "seed_country x =
     seed_row (\<lambda>d. find_country d (cx_code x))
       (\<lambda>i. \<lparr>co_id = i, co_code = cx_code x, co_name = cx_name x, co_priority_rank = Some (cx_priority_rank x),
          co_diaspora_population_estimate = Some (cx_diaspora_population_estimate x),
          co_prioritization_source_url = Some (cx_prioritization_source_url x), co_is_active = True\<rparr>)
       (\<lambda>r d. d\<lparr>rd_countries := rd_countries d @ [r]\<rparr>)
       (catalog_country_of x)
       (\<lambda>c d. d\<lparr>rd_countries := upd_where (\<lambda>r. co_id r = co_id c) (catalog_country_of x) (rd_countries d)\<rparr>)
       (\<lambda>s. s\<lparr>countries_created := countries_created s + 1\<rparr>)
       (\<lambda>s. s\<lparr>countries_updated := countries_updated s + 1\<rparr>)"

definition catalog_program_of :: "catalog_program \<Rightarrow> program \<Rightarrow> program" where
  "catalog_program_of x p = p\<lparr>pg_name := cp_name x, pg_description := Some (cp_description x), pg_is_active := True\<rparr>"

definition seed_program ::
    "uuid \<Rightarrow> catalog_program \<Rightarrow> seed_summary \<Rightarrow> ('z, program \<times> seed_summary) ingest_op" where
  "seed_program country_id x =
     seed_row (\<lambda>d. program_by_code d country_id (cp_code x))
       (\<lambda>i. \<lparr>pg_id = i, pg_country_id = country_id, pg_code = cp_code x, pg_name = cp_name x,
          pg_description = Some (cp_description x), pg_is_active = True\<rparr>)
       (\<lambda>r d. d\<lparr>rd_programs := rd_programs d @ [r]\<rparr>)
       (catalog_program_of x)
       (\<lambda>p d. d\<lparr>rd_programs := upd_where (\<lambda>r. pg_id r = pg_id p) (catalog_program_of x) (rd_programs d)\<rparr>)
       (\<lambda>s. s\<lparr>programs_created := programs_created s + 1\<rparr>)
       (\<lambda>s. s\<lparr>programs_updated := programs_updated s + 1\<rparr>)"

text \<open>A new version of the catalog is a draft; an existing one keeps its status.\<close>

definition seed_version ::
    "time \<Rightarrow> time \<Rightarrow> uuid \<Rightarrow> catalog_program \<Rightarrow> seed_summary \<Rightarrow> ('z, program_version \<times> seed_summary) ingest_op" where
  "seed_version now effective_from program_id x =
     seed_row (\<lambda>d. find_version d program_id (cp_version x))
       (\<lambda>i. \<lparr>pv_id = i, pv_created_at = now, pv_program_id = program_id, pv_version = cp_version x,
          pv_status = draft, pv_effective_from = effective_from, pv_effective_to = None\<rparr>)
       (\<lambda>r d. d\<lparr>rd_versions := rd_versions d @ [r]\<rparr>)
       (\<lambda>v. v\<lparr>pv_effective_from := effective_from\<rparr>)
       (\<lambda>v d. d\<lparr>rd_versions := upd_where (\<lambda>r. pv_id r = pv_id v) (\<lambda>r. r\<lparr>pv_effective_from := effective_from\<rparr>)
          (rd_versions d)\<rparr>)
       (\<lambda>s. s\<lparr>program_versions_created := program_versions_created s + 1\<rparr>)
       (\<lambda>s. s\<lparr>program_versions_updated := program_versions_updated s + 1\<rparr>)"

text \<open>The registry row of a source carries the country's code and name as those of the program.\<close>

definition registry_seed :: "catalog_country \<Rightarrow> catalog_source \<Rightarrow> source_seed" where
  "registry_seed c s =
     \<lparr>sx_source_key = cs_source_key s, sx_country_code = cx_code c, sx_country_name = cx_name c,
      sx_program_code = cx_code c, sx_program_name = cx_name c, sx_source_type = cs_source_type s,
      sx_source_url = cs_source_url s, sx_robots_url = cs_robots_url s, sx_terms_url = cs_terms_url s,
      sx_schedule_cron = cs_schedule_cron s, sx_parser_name = ''deterministic-v1'', sx_parser_version = ''1.0.0'',
      sx_confidence_threshold = 80 / 100,
      sx_metadata_json = [(''seed'', JStr ''mvp_2026_02''), (''official_source'', JBool True),
        (''priority_rank'', JInt (cx_priority_rank c))]\<rparr>"

definition document_metadata :: "catalog_country \<Rightarrow> catalog_source \<Rightarrow> json dict" where
  "document_metadata c s =
     [(''seed'', JStr ''mvp_2026_02''), (''source_key'', JStr (cs_source_key s)),
      (''country_code'', JStr (cx_code c)), (''program_code'', JStr (cx_code c)), (''official_source'', JBool True)]"

definition find_document :: "'z ingest_db_scheme \<Rightarrow> uuid \<Rightarrow> string \<Rightarrow> source_document option" where
  "find_document d version_id url =
     find (\<lambda>s. sd_program_version_id s = Some version_id \<and> sd_source_url s = url) (gd_documents d)"

definition seed_source ::
    "time \<Rightarrow> catalog_country \<Rightarrow> uuid \<Rightarrow> catalog_source \<Rightarrow> seed_summary \<Rightarrow> ('z, seed_summary) ingest_op" where
  "seed_source now c version_id s summary =
     bindO (upsert_source_seed now (registry_seed c s)) (\<lambda>row.
     let summary = summary\<lparr>source_registry_created_or_updated := source_registry_created_or_updated summary + 1\<rparr> in
     bindO (query (\<lambda>d. find_document d version_id (cs_source_url s))) (\<lambda>existing.
     case existing of
       None \<Rightarrow>
         bindO (create_source_document
           (\<lambda>i. \<lparr>sd_id = i, sd_created_at = now, sd_source_id = Some (sr_id row), sd_ingestion_run_item_id = None,
              sd_program_version_id = Some version_id, sd_title = cs_document_title s, sd_source_url = cs_source_url s,
              sd_checksum_sha256 = None, sd_raw_storage_uri = None, sd_published_at = None,
              sd_metadata_json = document_metadata c s\<rparr>)) (\<lambda>_.
         ret (summary\<lparr>source_documents_created := source_documents_created summary + 1\<rparr>))
     | Some doc \<Rightarrow>
         bindO (flush ingest_ok (\<lambda>d. d\<lparr>gd_documents := upd_where (\<lambda>r. sd_id r = sd_id doc)
           (\<lambda>r. r\<lparr>sd_source_id := Some (sr_id row), sd_title := cs_document_title s,
              sd_metadata_json := document_metadata c s\<rparr>) (gd_documents d)\<rparr>)) (\<lambda>_.
         ret (summary\<lparr>source_documents_updated := source_documents_updated summary + 1\<rparr>))))"

text \<open>A loop that threads the summary.\<close>

fun foldO :: "('a \<Rightarrow> 'b \<Rightarrow> ('s, 'b) op) \<Rightarrow> 'a list \<Rightarrow> 'b \<Rightarrow> ('s, 'b) op" where
  "foldO m [] acc = ret acc"
| "foldO m (x # xs) acc = bindO (m x acc) (foldO m xs)"

definition seed_program_and_sources ::
    "time \<Rightarrow> time \<Rightarrow> catalog_country \<Rightarrow> uuid \<Rightarrow> catalog_program \<Rightarrow> seed_summary \<Rightarrow> ('z, seed_summary) ingest_op" where
  "seed_program_and_sources now effective_from c country_id x summary =
     bindO (seed_program country_id x summary) (\<lambda>(p, summary).
     bindO (seed_version now effective_from (pg_id p) x summary) (\<lambda>(v, summary).
     foldO (seed_source now c (pv_id v)) (cp_sources x) summary))"

definition seed_catalog_country ::
    "time \<Rightarrow> time \<Rightarrow> catalog_country \<Rightarrow> seed_summary \<Rightarrow> ('z, seed_summary) ingest_op" where
  "seed_catalog_country now effective_from c summary =
     bindO (seed_country c summary) (\<lambda>(row, summary).
     foldO (seed_program_and_sources now effective_from c (co_id row)) (cx_programs c) summary)"

definition seed_mvp_catalog :: "time \<Rightarrow> catalog_country list \<Rightarrow> ('z, seed_summary) ingest_op" where
  "seed_mvp_catalog now catalog =
     bindO (foldO (seed_catalog_country now catalog_effective_from) catalog no_summary) (\<lambda>summary.
     bindO commit (\<lambda>_. ret summary))"

definition run_catalog_seed :: "time \<Rightarrow> ('z ingest_db_scheme, seed_summary) op" where
  "run_catalog_seed now = request (seed_mvp_catalog now MVP_COUNTRY_CATALOG)"

text \<open>The summary with the number of countries that have a fixture.\<close>

definition run_initial_seed :: "time \<Rightarrow> ('z ingest_db_scheme, seed_summary \<times> nat) op" where
  "run_initial_seed now =
     bindO (run_catalog_seed now) (\<lambda>summary.
     bindO (seed_for_countries now MVP_RULE_FIXTURE_COUNTRY_CODES) (\<lambda>_.
     ret (summary, card MVP_RULE_FIXTURE_COUNTRY_CODES)))"

section \<open>The check after the seeding\<close>

record seed_check =
  sk_ok :: bool
  sk_countries :: nat
  sk_programs :: nat
  sk_versions :: nat
  sk_sources :: nat
  sk_documents :: nat
  sk_missing :: "string set"
  sk_duplicates :: "(uuid \<times> string \<times> nat) list"

text \<open>The joins of the counting queries, row by row.\<close>

definition joined_programs :: "'z rules_db_scheme \<Rightarrow> string set \<Rightarrow> program list" where
  "joined_programs d codes = [p. p \<leftarrow> rd_programs d, c \<leftarrow> rd_countries d, co_id c = pg_country_id p \<and> co_code c \<in> codes]"

definition joined_versions :: "'z rules_db_scheme \<Rightarrow> string set \<Rightarrow> program_version list" where
  "joined_versions d codes = [v. v \<leftarrow> rd_versions d, p \<leftarrow> joined_programs d codes, pg_id p = pv_program_id v]"

definition joined_documents :: "'z ingest_db_scheme \<Rightarrow> string set \<Rightarrow> source_document list" where
  "joined_documents d codes =
     [s. s \<leftarrow> gd_documents d, v \<leftarrow> joined_versions d codes, Some (pv_id v) = sd_program_version_id s]"

text \<open>\<open>GROUP BY program_version_id, source_url HAVING count(*) > 1\<close>\<close>

definition duplicate_documents :: "'z ingest_db_scheme \<Rightarrow> (uuid \<times> string \<times> nat) list" where
  "duplicate_documents d =
     (let keys = concat (map (\<lambda>s. case sd_program_version_id s of None \<Rightarrow> [] | Some v \<Rightarrow> [(v, sd_source_url s)])
        (gd_documents d))
      in filter (\<lambda>(v, url, n). n > 1) (map (\<lambda>(v, url). (v, url, count_list keys (v, url))) (remdups keys)))"

definition check_seed_of :: "catalog_country list \<Rightarrow> 'z ingest_db_scheme \<Rightarrow> seed_check" where
  "check_seed_of catalog d =
     (let codes = set (map cx_code catalog);
          countries = length (filter (\<lambda>c. co_code c \<in> codes) (rd_countries d));
          programs = length (joined_programs d codes);
          versions = length (joined_versions d codes);
          sources = length (filter (\<lambda>s. sr_country_code s \<in> codes) (gd_sources d));
          documents = length (joined_documents d codes);
          duplicates = duplicate_documents d
      in \<lparr>sk_ok = expected_country_count catalog \<le> countries \<and> expected_program_count catalog \<le> programs
            \<and> expected_program_count catalog \<le> versions \<and> expected_source_count catalog \<le> sources
            \<and> expected_source_count catalog \<le> documents \<and> length duplicates = 0,
          sk_countries = countries, sk_programs = programs, sk_versions = versions, sk_sources = sources,
          sk_documents = documents, sk_missing = codes - set (map co_code (rd_countries d)),
          sk_duplicates = duplicates\<rparr>)"

definition check_seed :: "('z ingest_db_scheme, seed_check) op" where
  "check_seed = request (query (check_seed_of MVP_COUNTRY_CATALOG))"

end
