(* ===== verification/Seeding_Tables.thy ===== *)
theory Seeding_Tables
  imports Seeding
begin

text \<open>
  How the seeding scripts treat the tables. The operations are followed by a total rule per combinator, under a
  relation between the states that only grows, stated once as a locale; the insertions and updates of the scripts
  keep the constraints and every key that a lookup finds.
\<close>

section \<open>Operations that succeed and only add\<close>

definition keys_below :: "'z ingest_db_scheme \<Rightarrow> bool" where
  "keys_below d \<longleftrightarrow>
     list_all (\<lambda>i. i < bd_next d)
       (map co_id (rd_countries d) @ map pg_id (rd_programs d) @ map pv_id (rd_versions d) @ map gr_id (rd_groups d)
        @ map cr_id (rd_conditions d) @ map ot_id (rd_outcomes d) @ map sr_id (gd_sources d) @ map sd_id (gd_documents d))"

definition seedable :: "'z ingest_db_scheme \<Rightarrow> bool" where
  "seedable d \<longleftrightarrow> ingest_ok d \<and> keys_below d"

definition does ::
    "('z ingest_db_scheme \<Rightarrow> 'z ingest_db_scheme \<Rightarrow> bool) \<Rightarrow> ('z ingest_db_scheme \<Rightarrow> bool) \<Rightarrow> ('z, 'a) ingest_op
     \<Rightarrow> ('a \<Rightarrow> 'z ingest_db_scheme \<Rightarrow> bool) \<Rightarrow> bool" where
  "does R P m Q \<longleftrightarrow>
     (\<forall>t. \<not> aborted t \<and> seedable (working t) \<and> P (working t) \<longrightarrow>
       (\<exists>x t'. m t = (Inr x, t') \<and> \<not> aborted t' \<and> committed t' = committed t \<and> seedable (working t')
          \<and> R (working t) (working t') \<and> Q x (working t')))"

lemma doesE:
  assumes "does R P m Q" "\<not> aborted t" "seedable (working t)" "P (working t)"
  obtains x t' where "m t = (Inr x, t')" "\<not> aborted t'" "committed t' = committed t" "seedable (working t')"
    "R (working t) (working t')" "Q x (working t')"
  using assms unfolding does_def by blast

lemma does_conseq:
  assumes "does R P m Q" "\<And>d. P' d \<Longrightarrow> P d" "\<And>x d. Q x d \<Longrightarrow> Q' x d" "\<And>d d'. R d d' \<Longrightarrow> R' d d'"
  shows "does R' P' m Q'"
  unfolding does_def
proof (intro allI impI, elim conjE)
  fix t :: "'a ingest_db_scheme txn" assume t: "\<not> aborted t" "seedable (working t)" "P' (working t)"
  show "\<exists>x t'. m t = (Inr x, t') \<and> \<not> aborted t' \<and> committed t' = committed t \<and> seedable (working t')
          \<and> R' (working t) (working t') \<and> Q' x (working t')"
    by (rule doesE [OF assms(1) t(1,2) assms(2) [OF t(3)]]) (use assms(3,4) in blast)
qed

lemma does_guard: "(\<And>d. P d \<Longrightarrow> does R (\<lambda>d'. d' = d) m Q) \<Longrightarrow> does R P m Q"
  unfolding does_def by blast

lemma does_query: "(\<And>d. P d \<Longrightarrow> does R (\<lambda>d'. d' = d) (k (f d)) Q) \<Longrightarrow> does R P (bindO (query f) k) Q"
  unfolding does_def by (auto simp: bindO_query)

lemma does_fits: "b \<Longrightarrow> does R P (k ()) Q \<Longrightarrow> does R P (bindO (fits_columns b) k) Q"
  by (simp add: does_def)

locale growth =
  fixes R :: "'z ingest_db_scheme \<Rightarrow> 'z ingest_db_scheme \<Rightarrow> bool"
  assumes refl: "R d d" and trans: "R d d' \<Longrightarrow> R d' d'' \<Longrightarrow> R d d''"
begin

definition stable :: "('z ingest_db_scheme \<Rightarrow> bool) \<Rightarrow> bool" where
  "stable S \<longleftrightarrow> (\<forall>d d'. R d d' \<longrightarrow> S d \<longrightarrow> S d')"

lemma does_ret: "(\<And>d. P d \<Longrightarrow> Q x d) \<Longrightarrow> does R P (ret x) Q"
  by (auto simp: does_def ret_def refl)

lemma does_lift: "r = Inr x \<Longrightarrow> does R P (k x) Q \<Longrightarrow> does R P (bindO (lift r) k) Q"
  by (simp add: does_def)

lemma does_flush:
  assumes "\<And>d. P d \<Longrightarrow> seedable d \<Longrightarrow> seedable (f d) \<and> R d (f d) \<and> Q () (f d)"
  shows "does R P (flush ingest_ok f) Q"
  using assms by (simp add: does_def flush_def seedable_def)

lemma does_insert:
  assumes "\<And>d. P d \<Longrightarrow> seedable d \<Longrightarrow> (let r = row_at (bd_next d); d' = (add r d)\<lparr>bd_next := Suc (bd_next d)\<rparr>
      in seedable d' \<and> R d d' \<and> Q r d')"
  shows "does R P (insert_row row_at add) Q"
  using assms by (simp add: does_def insert_row_def seedable_def Let_def)

lemma does_bind:
  assumes "does R P m M" "\<And>x. does R (M x) (k x) Q"
  shows "does R P (bindO m k) Q"
  unfolding does_def
proof (intro allI impI, elim conjE)
  fix t :: "'z ingest_db_scheme txn" assume t: "\<not> aborted t" "seedable (working t)" "P (working t)"
  obtain x t1 where 1: "m t = (Inr x, t1)" "\<not> aborted t1" "committed t1 = committed t" "seedable (working t1)"
    "R (working t) (working t1)" "M x (working t1)" using assms(1) t by (rule doesE)
  obtain y t2 where 2: "k x t1 = (Inr y, t2)" "\<not> aborted t2" "committed t2 = committed t1" "seedable (working t2)"
    "R (working t1) (working t2)" "Q y (working t2)" using assms(2) 1(2,4,6) by (rule doesE)
  show "\<exists>x t'. bindO m k t = (Inr x, t') \<and> \<not> aborted t' \<and> committed t' = committed t \<and> seedable (working t')
      \<and> R (working t) (working t') \<and> Q x (working t')"
    by (intro exI [of _ y] exI [of _ t2]) (use 1 2 trans in \<open>auto simp: bindO_def\<close>)
qed

lemma does_frame: "does R P m Q \<Longrightarrow> stable S \<Longrightarrow> does R (\<lambda>d. P d \<and> S d) m (\<lambda>x d. Q x d \<and> S d)"
  unfolding does_def stable_def by blast

lemma stable_all: "(\<And>x. x \<in> A \<Longrightarrow> stable (G x)) \<Longrightarrow> stable (\<lambda>d. \<forall>x\<in>A. G x d)"
  unfolding stable_def by blast

lemma stable_conj: "stable S \<Longrightarrow> stable T \<Longrightarrow> stable (\<lambda>d. S d \<and> T d)"
  unfolding stable_def by blast

text \<open>A loop establishes for each element what its step establishes, when that stays.\<close>

lemma does_forO:
  assumes "\<And>x. x \<in> set xs \<Longrightarrow> does R P (m x) (\<lambda>_. G x)" "stable P" "\<And>x. x \<in> set xs \<Longrightarrow> stable (G x)"
  shows "does R P (forO m xs) (\<lambda>_ d. P d \<and> (\<forall>x\<in>set xs. G x d))"
  using assms
proof (induction xs)
  case Nil
  show ?case by (simp only: forO.simps foldO.simps) (rule does_ret, simp)
next
  case (Cons x xs)
  have 1: "does R P (m x) (\<lambda>_ d. G x d \<and> P d)"
    by (rule does_conseq [OF does_frame [OF Cons.prems(1) [of x] Cons.prems(2)]]) simp_all
  have 2: "does R (\<lambda>d. P d \<and> G x d) (forO m xs) (\<lambda>_ d. (P d \<and> (\<forall>x\<in>set xs. G x d)) \<and> G x d)"
    using does_frame [OF Cons.IH Cons.prems(3) [of x]] Cons.prems by simp
  show ?case
    by (simp, rule does_bind [OF 1]) (rule does_conseq [OF 2]; simp)
qed

lemma does_foldO:
  assumes "\<And>x acc. x \<in> set xs \<Longrightarrow> does R P (m x acc) (\<lambda>_. G x)" "stable P" "\<And>x. x \<in> set xs \<Longrightarrow> stable (G x)"
  shows "does R P (foldO m xs acc) (\<lambda>_ d. P d \<and> (\<forall>x\<in>set xs. G x d))"
  using assms
proof (induction xs arbitrary: acc)
  case Nil
  show ?case by (simp only: forO.simps foldO.simps) (rule does_ret, simp)
next
  case (Cons x xs)
  have 1: "does R P (m x acc) (\<lambda>_ d. G x d \<and> P d)"
    by (rule does_conseq [OF does_frame [OF Cons.prems(1) [of x acc] Cons.prems(2)]]) simp_all
  have 2: "does R (\<lambda>d. P d \<and> G x d) (foldO m xs a) (\<lambda>_ d. (P d \<and> (\<forall>x\<in>set xs. G x d)) \<and> G x d)" for a
    using does_frame [OF Cons.IH [of a] Cons.prems(3) [of x]] Cons.prems by simp
  show ?case
    by (simp, rule does_bind [OF 1]) (rule does_conseq [OF 2]; simp)
qed

text \<open>A row that is found, or added where there is none.\<close>

lemma does_get_or_insert:
  assumes "\<And>d r. P d \<Longrightarrow> seedable d \<Longrightarrow> look d = Some r \<Longrightarrow> Q r d"
    and "\<And>d. P d \<Longrightarrow> seedable d \<Longrightarrow> look d = None \<Longrightarrow>
      (let r = row_at (bd_next d); d' = (add r d)\<lparr>bd_next := Suc (bd_next d)\<rparr>
       in fits \<and> seedable d' \<and> R d d' \<and> Q r d')"
  shows "does R P (get_or_insert look fits row_at add) Q"
  unfolding does_def
proof (intro allI impI, elim conjE)
  fix t :: "'z ingest_db_scheme txn" assume t: "\<not> aborted t" "seedable (working t)" "P (working t)"
  show "\<exists>x t'. get_or_insert look fits row_at add t = (Inr x, t') \<and> \<not> aborted t' \<and> committed t' = committed t
      \<and> seedable (working t') \<and> R (working t) (working t') \<and> Q x (working t')"
  proof (cases "look (working t)")
    case None
    with assms(2) [OF t(3,2)] t show ?thesis
      by (simp add: get_or_insert_def insert_row_def seedable_def Let_def)
  next
    case (Some r)
    with assms(1) [OF t(3,2)] t show ?thesis by (simp add: get_or_insert_def refl)
  qed
qed

lemma does_seed_row:
  assumes "\<And>d. P d \<Longrightarrow> seedable d \<Longrightarrow> look d = None \<Longrightarrow>
      (let r = row_at (bd_next d); d' = (add r d)\<lparr>bd_next := Suc (bd_next d)\<rparr> in seedable d' \<and> R d d' \<and> Q r d')"
    and "\<And>d r. P d \<Longrightarrow> seedable d \<Longrightarrow> look d = Some r \<Longrightarrow> Q r d"
    and "\<And>d r. P d \<Longrightarrow> seedable d \<Longrightarrow> look d = Some r \<Longrightarrow>
      seedable (store r d) \<and> R d (store r d) \<and> Q (refresh r) (store r d)"
  shows "does R P (seed_row look row_at add refresh store created updated summary) (\<lambda>(r, _). Q r)"
  unfolding does_def
proof (intro allI impI, elim conjE)
  fix t :: "'z ingest_db_scheme txn" assume t: "\<not> aborted t" "seedable (working t)" "P (working t)"
  show "\<exists>x t'. seed_row look row_at add refresh store created updated summary t = (Inr x, t') \<and> \<not> aborted t'
      \<and> committed t' = committed t \<and> seedable (working t') \<and> R (working t) (working t') \<and> (case x of (r, _) \<Rightarrow> Q r) (working t')"
  proof (cases "look (working t)")
    case None
    with assms(1) [OF t(3,2)] t show ?thesis by (simp add: seed_row_def insert_row_def seedable_def Let_def bindO_def)
  next
    case (Some r)
    with assms(2,3) [OF t(3,2)] t refl show ?thesis by (simp add: seed_row_def seedable_def)
  qed
qed

end

section \<open>The keys of the tables\<close>

text \<open>What a lookup by natural key returns, as partial maps; they grow with every operation of the scripts.\<close>

definition country_ids :: "'z rules_db_scheme \<Rightarrow> string \<Rightarrow> uuid option" where
  "country_ids d code_text = map_option co_id (find_country d code_text)"

definition program_ids :: "'z rules_db_scheme \<Rightarrow> uuid \<times> string \<Rightarrow> uuid option" where
  "program_ids d k = map_option pg_id (program_by_code d (fst k) (snd k))"

definition version_ids :: "'z rules_db_scheme \<Rightarrow> uuid \<times> string \<Rightarrow> uuid option" where
  "version_ids d k = map_option pv_id (find_version d (fst k) (snd k))"

definition group_ids :: "'z rules_db_scheme \<Rightarrow> uuid \<times> string \<Rightarrow> uuid option" where
  "group_ids d k = map_option gr_id (find_group d (fst k) (snd k))"

definition condition_ids :: "'z rules_db_scheme \<Rightarrow> uuid \<times> string \<times> rule_operator \<times> int \<Rightarrow> uuid option" where
  "condition_ids d k = map_option cr_id (find_condition d (fst k) (fst (snd k)) (fst (snd (snd k))) (snd (snd (snd k))))"

definition outcome_ids :: "'z rules_db_scheme \<Rightarrow> uuid \<times> string \<Rightarrow> uuid option" where
  "outcome_ids d k = map_option ot_id (find_outcome d (fst k) (snd k))"

definition kept :: "'z ingest_db_scheme \<Rightarrow> 'z ingest_db_scheme \<Rightarrow> bool" where
  "kept d d' \<longleftrightarrow> country_ids d \<subseteq>\<^sub>m country_ids d' \<and> program_ids d \<subseteq>\<^sub>m program_ids d' \<and> version_ids d \<subseteq>\<^sub>m version_ids d'
     \<and> group_ids d \<subseteq>\<^sub>m group_ids d' \<and> condition_ids d \<subseteq>\<^sub>m condition_ids d' \<and> outcome_ids d \<subseteq>\<^sub>m outcome_ids d'"

definition same_versions :: "'z ingest_db_scheme \<Rightarrow> 'z ingest_db_scheme \<Rightarrow> bool" where
  "same_versions d d' \<longleftrightarrow> kept d d' \<and> rd_versions d' = rd_versions d"

definition open_drafts :: "'z rules_db_scheme \<Rightarrow> bool" where
  "open_drafts d \<longleftrightarrow> (\<forall>v\<in>set (rd_versions d). pv_status v = draft \<and> pv_effective_to v = None)"

definition kept_drafts :: "'z ingest_db_scheme \<Rightarrow> 'z ingest_db_scheme \<Rightarrow> bool" where
  "kept_drafts d d' \<longleftrightarrow> kept d d' \<and> (open_drafts d \<longrightarrow> open_drafts d')"

lemma kept_refl: "kept d d"
  by (simp add: kept_def map_le_refl)

lemma kept_trans: "kept d d' \<Longrightarrow> kept d' d'' \<Longrightarrow> kept d d''"
  unfolding kept_def by (meson map_le_trans)

interpretation adds: growth kept
  by unfold_locales (fact kept_refl, fact kept_trans)

interpretation fixes_versions: growth same_versions
  by unfold_locales (auto simp: same_versions_def intro: kept_refl kept_trans)

interpretation drafts: growth kept_drafts
  by unfold_locales (auto simp: kept_drafts_def intro: kept_refl kept_trans)

lemma stable_of_kept: "adds.stable S \<Longrightarrow> fixes_versions.stable S" "adds.stable S \<Longrightarrow> drafts.stable S"
  by (auto simp: adds.stable_def fixes_versions.stable_def drafts.stable_def same_versions_def kept_drafts_def)

lemma ids_append: "(\<lambda>k. map_option f (find (P k) xs)) \<subseteq>\<^sub>m (\<lambda>k. map_option f (find (P k) (xs @ ys)))"
  by (auto simp: map_le_def find_append)

lemmas key_maps = country_ids_def [abs_def] program_ids_def [abs_def] version_ids_def [abs_def] group_ids_def [abs_def]
  condition_ids_def [abs_def] outcome_ids_def [abs_def]
lemmas key_finds = find_country_def program_by_code_def find_version_def find_group_def find_condition_def find_outcome_def

lemma kept_append:
  "kept d (d\<lparr>rd_countries := rd_countries d @ cs, bd_next := n\<rparr>)"
  "kept d (d\<lparr>rd_programs := rd_programs d @ ps, bd_next := n\<rparr>)"
  "kept d (d\<lparr>rd_versions := rd_versions d @ vs, bd_next := n\<rparr>)"
  "kept d (d\<lparr>rd_groups := rd_groups d @ gs, bd_next := n\<rparr>)"
  "kept d (d\<lparr>rd_conditions := rd_conditions d @ xs, bd_next := n\<rparr>)"
  "kept d (d\<lparr>rd_outcomes := rd_outcomes d @ us, bd_next := n\<rparr>)"
  "kept d (d\<lparr>gd_sources := ss, bd_next := n\<rparr>)"
  "kept d (d\<lparr>gd_sources := ss\<rparr>)"
  "kept d (d\<lparr>gd_documents := ds, bd_next := n\<rparr>)"
  "kept d (d\<lparr>gd_documents := ds\<rparr>)"
  by (simp_all add: kept_def key_maps key_finds ids_append map_le_refl)

text \<open>An insertion where the lookup finds nothing keeps the constraints.\<close>

lemma fk_mono: "list_all (\<lambda>x. fk (k x) ids) xs \<Longrightarrow> set ids \<subseteq> set ids' \<Longrightarrow> list_all (\<lambda>x. fk (k x) ids') xs"
  by (auto simp: list_all_iff fk_def split: option.splits)

lemma in_mono: "list_all (\<lambda>x. k x \<in> A) xs \<Longrightarrow> A \<subseteq> A' \<Longrightarrow> list_all (\<lambda>x. k x \<in> A') xs"
  by (auto simp: list_all_iff)

lemma below_mono: "list_all (\<lambda>i. i < (n :: nat)) xs \<Longrightarrow> list_all (\<lambda>i. i < Suc n) xs"
  by (auto simp: list_all_iff)

lemma not_below: "list_all (\<lambda>i. i < (n :: nat)) xs \<Longrightarrow> n \<notin> set xs"
  by (auto simp: list_all_iff)

lemmas table_checks = countries_ok_def programs_ok_def versions_ok_def groups_ok_def conditions_ok_def outcomes_ok_def
  sources_ok_def runs_ok_def run_items_ok_def bronze_ok_def sections_ok_def documents_ok_def document_keys_def
  extractions_ok_def

lemma fk_insert: "fk v ids \<Longrightarrow> fk v (ids @ js)"
  by (auto simp: fk_def split: option.splits)

lemma insert_country:
  assumes "seedable d" "find_country d (co_code c) = None" "co_id c = bd_next d"
  shows "seedable (d\<lparr>rd_countries := rd_countries d @ [c], bd_next := Suc (bd_next d)\<rparr>)" (is "seedable ?d")
proof -
  note ok = assms(1) [unfolded seedable_def ingest_ok_def rules_ok_def keys_below_def list_all_append]
  have "co_code c \<notin> set (map co_code (rd_countries d))" using assms(2) by (auto simp: find_country_def find_None_iff)
  then have "countries_ok ?d" using ok not_below [of "bd_next d" "map co_id (rd_countries d)"] assms(3-)
    by (simp add: countries_ok_def)
  moreover have "programs_ok ?d" using ok by (simp add: programs_ok_def list_all_iff)
  moreover have "versions_ok ?d" "groups_ok ?d" "conditions_ok ?d" "outcomes_ok ?d" "sources_ok ?d" "runs_ok ?d" "run_items_ok ?d" "bronze_ok ?d" "sections_ok ?d" "documents_ok ?d" "extractions_ok ?d"
    using ok by (simp_all add: table_checks)
  moreover have "keys_below ?d" using ok assms(3) by (simp add: keys_below_def below_mono)
  ultimately show ?thesis by (simp add: seedable_def ingest_ok_def rules_ok_def)
qed

lemma insert_program:
  assumes "seedable d" "program_by_code d (pg_country_id p) (pg_code p) = None" "pg_id p = bd_next d"
    "pg_country_id p \<in> set (map co_id (rd_countries d))"
  shows "seedable (d\<lparr>rd_programs := rd_programs d @ [p], bd_next := Suc (bd_next d)\<rparr>)" (is "seedable ?d")
proof -
  note ok = assms(1) [unfolded seedable_def ingest_ok_def rules_ok_def keys_below_def list_all_append]
  have "(pg_country_id p, pg_code p) \<notin> set (map (\<lambda>p. (pg_country_id p, pg_code p)) (rd_programs d))"
    using assms(2) by (auto simp: program_by_code_def find_None_iff)
  then have "programs_ok ?d" using ok not_below [of "bd_next d" "map pg_id (rd_programs d)"] assms(3-)
    by (simp add: programs_ok_def)
  moreover have "versions_ok ?d" using ok by (simp add: versions_ok_def list_all_iff)
  moreover have "countries_ok ?d" "groups_ok ?d" "conditions_ok ?d" "outcomes_ok ?d" "sources_ok ?d" "runs_ok ?d" "run_items_ok ?d" "bronze_ok ?d" "sections_ok ?d" "documents_ok ?d" "extractions_ok ?d"
    using ok by (simp_all add: table_checks)
  moreover have "keys_below ?d" using ok assms(3) by (simp add: keys_below_def below_mono)
  ultimately show ?thesis by (simp add: seedable_def ingest_ok_def rules_ok_def)
qed

lemma insert_version:
  assumes "seedable d" "find_version d (pv_program_id v) (pv_version v) = None" "pv_id v = bd_next d"
    "pv_program_id v \<in> set (map pg_id (rd_programs d))" "range_ok v"
  shows "seedable (d\<lparr>rd_versions := rd_versions d @ [v], bd_next := Suc (bd_next d)\<rparr>)" (is "seedable ?d")
proof -
  note ok = assms(1) [unfolded seedable_def ingest_ok_def rules_ok_def keys_below_def list_all_append]
  have "(pv_program_id v, pv_version v) \<notin> set (map (\<lambda>v. (pv_program_id v, pv_version v)) (rd_versions d))"
    using assms(2) by (auto simp: find_version_def find_None_iff)
  then have "versions_ok ?d" using ok not_below [of "bd_next d" "map pv_id (rd_versions d)"] assms(3-)
    by (simp add: versions_ok_def)
  moreover have "groups_ok ?d" using ok by (simp add: groups_ok_def list_all_iff)
  moreover have "documents_ok ?d" using ok by (simp add: documents_ok_def document_keys_def fk_insert list_all_iff)
  moreover have "countries_ok ?d" "programs_ok ?d" "conditions_ok ?d" "outcomes_ok ?d" "sources_ok ?d" "runs_ok ?d" "run_items_ok ?d" "bronze_ok ?d" "sections_ok ?d" "extractions_ok ?d"
    using ok by (simp_all add: table_checks)
  moreover have "keys_below ?d" using ok assms(3) by (simp add: keys_below_def below_mono)
  ultimately show ?thesis by (simp add: seedable_def ingest_ok_def rules_ok_def)
qed

lemma insert_group:
  assumes "seedable d" "find_group d (gr_program_version_id g) (gr_code g) = None" "gr_id g = bd_next d"
    "gr_program_version_id g \<in> set (map pv_id (rd_versions d))"
  shows "seedable (d\<lparr>rd_groups := rd_groups d @ [g], bd_next := Suc (bd_next d)\<rparr>)" (is "seedable ?d")
proof -
  note ok = assms(1) [unfolded seedable_def ingest_ok_def rules_ok_def keys_below_def list_all_append]
  have "(gr_program_version_id g, gr_code g) \<notin> set (map (\<lambda>g. (gr_program_version_id g, gr_code g)) (rd_groups d))"
    using assms(2) by (auto simp: find_group_def find_None_iff)
  then have "groups_ok ?d" using ok not_below [of "bd_next d" "map gr_id (rd_groups d)"] assms(3-)
    by (simp add: groups_ok_def)
  moreover have "conditions_ok ?d" using ok by (simp add: conditions_ok_def list_all_iff)
  moreover have "outcomes_ok ?d" using ok by (simp add: outcomes_ok_def list_all_iff)
  moreover have "countries_ok ?d" "programs_ok ?d" "versions_ok ?d" "sources_ok ?d" "runs_ok ?d" "run_items_ok ?d" "bronze_ok ?d" "sections_ok ?d" "documents_ok ?d" "extractions_ok ?d"
    using ok by (simp_all add: table_checks)
  moreover have "keys_below ?d" using ok assms(3) by (simp add: keys_below_def below_mono)
  ultimately show ?thesis by (simp add: seedable_def ingest_ok_def rules_ok_def)
qed

lemma insert_condition:
  assumes "seedable d"  "cr_id c = bd_next d"
    "cr_rule_group_id c \<in> set (map gr_id (rd_groups d))"
  shows "seedable (d\<lparr>rd_conditions := rd_conditions d @ [c], bd_next := Suc (bd_next d)\<rparr>)" (is "seedable ?d")
proof -
  note ok = assms(1) [unfolded seedable_def ingest_ok_def rules_ok_def keys_below_def list_all_append]
  have "conditions_ok ?d" using ok not_below [of "bd_next d" "map cr_id (rd_conditions d)"] assms(2-)
    by (simp add: conditions_ok_def)
  moreover have "countries_ok ?d" "programs_ok ?d" "versions_ok ?d" "groups_ok ?d" "outcomes_ok ?d" "sources_ok ?d" "runs_ok ?d" "run_items_ok ?d" "bronze_ok ?d" "sections_ok ?d" "documents_ok ?d" "extractions_ok ?d"
    using ok by (simp_all add: table_checks)
  moreover have "keys_below ?d" using ok assms(2) by (simp add: keys_below_def below_mono)
  ultimately show ?thesis by (simp add: seedable_def ingest_ok_def rules_ok_def)
qed

lemma insert_outcome:
  assumes "seedable d"  "ot_id u = bd_next d"
    "ot_rule_group_id u \<in> set (map gr_id (rd_groups d))"
  shows "seedable (d\<lparr>rd_outcomes := rd_outcomes d @ [u], bd_next := Suc (bd_next d)\<rparr>)" (is "seedable ?d")
proof -
  note ok = assms(1) [unfolded seedable_def ingest_ok_def rules_ok_def keys_below_def list_all_append]
  have "outcomes_ok ?d" using ok not_below [of "bd_next d" "map ot_id (rd_outcomes d)"] assms(2-)
    by (simp add: outcomes_ok_def)
  moreover have "countries_ok ?d" "programs_ok ?d" "versions_ok ?d" "groups_ok ?d" "conditions_ok ?d" "sources_ok ?d" "runs_ok ?d" "run_items_ok ?d" "bronze_ok ?d" "sections_ok ?d" "documents_ok ?d" "extractions_ok ?d"
    using ok by (simp_all add: table_checks)
  moreover have "keys_below ?d" using ok assms(2) by (simp add: keys_below_def below_mono)
  ultimately show ?thesis by (simp add: seedable_def ingest_ok_def rules_ok_def)
qed

lemma insert_source:
  assumes "seedable d" "source_by_key d (sr_source_key s) = None" "sr_id s = bd_next d"
  shows "seedable (d\<lparr>gd_sources := gd_sources d @ [s], bd_next := Suc (bd_next d)\<rparr>)" (is "seedable ?d")
proof -
  note ok = assms(1) [unfolded seedable_def ingest_ok_def rules_ok_def keys_below_def list_all_append]
  have "sr_source_key s \<notin> set (map sr_source_key (gd_sources d))"
    using assms(2) by (auto simp: source_by_key_def find_None_iff)
  then have "sources_ok ?d" using ok not_below [of "bd_next d" "map sr_id (gd_sources d)"] assms(3-)
    by (simp add: sources_ok_def)
  moreover have "run_items_ok ?d" using ok by (simp add: run_items_ok_def list_all_iff)
  moreover have "bronze_ok ?d" using ok by (simp add: bronze_ok_def list_all_iff)
  moreover have "documents_ok ?d" using ok by (simp add: documents_ok_def document_keys_def fk_insert list_all_iff)
  moreover have "countries_ok ?d" "programs_ok ?d" "versions_ok ?d" "groups_ok ?d" "conditions_ok ?d" "outcomes_ok ?d" "runs_ok ?d" "sections_ok ?d" "extractions_ok ?d"
    using ok by (simp_all add: table_checks)
  moreover have "keys_below ?d" using ok assms(3) by (simp add: keys_below_def below_mono)
  ultimately show ?thesis by (simp add: seedable_def ingest_ok_def rules_ok_def)
qed

lemma insert_document:
  assumes "seedable d" "find_document d (the (sd_program_version_id s)) (sd_source_url s) = None" "sd_id s = bd_next d"
    "sd_program_version_id s = Some v" "v \<in> set (map pv_id (rd_versions d))" "sd_ingestion_run_item_id s = None"
    "sd_source_id s = Some i" "i \<in> set (map sr_id (gd_sources d))"
  shows "seedable (d\<lparr>gd_documents := gd_documents d @ [s], bd_next := Suc (bd_next d)\<rparr>)" (is "seedable ?d")
proof -
  note ok = assms(1) [unfolded seedable_def ingest_ok_def rules_ok_def keys_below_def list_all_append]
  have "(the (sd_program_version_id s), sd_source_url s) \<notin> set (document_keys d)"
    using assms(2) assms(4) by (auto simp: find_document_def find_None_iff document_keys_def)
  then have "documents_ok ?d" using ok not_below [of "bd_next d" "map sd_id (gd_documents d)"] assms(3-)
    by (simp add: documents_ok_def document_keys_def fk_def)
  moreover have "extractions_ok ?d" using ok by (simp add: extractions_ok_def list_all_iff)
  moreover have "countries_ok ?d" "programs_ok ?d" "versions_ok ?d" "groups_ok ?d" "conditions_ok ?d" "outcomes_ok ?d" "sources_ok ?d" "runs_ok ?d" "run_items_ok ?d" "bronze_ok ?d" "sections_ok ?d"
    using ok by (simp_all add: table_checks)
  moreover have "keys_below ?d" using ok assms(3) by (simp add: keys_below_def below_mono)
  ultimately show ?thesis by (simp add: seedable_def ingest_ok_def rules_ok_def)
qed

text \<open>The updates of the catalog change no key.\<close>

lemma upd_keys:
  assumes "\<And>r. k (f r) = k r"
  shows "map k (upd_where c f rs) = map k rs"
  using assms by (simp add: upd_where_def)

lemma list_all_upd: "(\<And>r. P (f r) = P r) \<Longrightarrow> list_all P (upd_where c f rs) = list_all P rs"
  by (induction rs) (simp_all add: upd_where_def)

lemma list_all_conj: "list_all (\<lambda>x. P x \<and> Q x) xs \<longleftrightarrow> list_all P xs \<and> list_all Q xs"
  by (auto simp: list_all_iff)

lemma update_country:
  assumes "seedable d" "\<And>c. co_id (f c) = co_id c" "\<And>c. co_code (f c) = co_code c"
  shows "seedable (d\<lparr>rd_countries := upd_where p f (rd_countries d)\<rparr>)" (is "seedable ?d")
proof -
  note ok = assms(1) [unfolded seedable_def ingest_ok_def rules_ok_def keys_below_def list_all_append]
  note k = upd_keys [of co_id f, OF assms(2)] upd_keys [of co_code f, OF assms(3)]
  have "countries_ok ?d" "programs_ok ?d" using ok by (simp_all add: countries_ok_def programs_ok_def k del: set_map)
  moreover have "versions_ok ?d" "groups_ok ?d" "conditions_ok ?d" "outcomes_ok ?d" "sources_ok ?d" "runs_ok ?d"
    "run_items_ok ?d" "bronze_ok ?d" "sections_ok ?d" "documents_ok ?d" "extractions_ok ?d"
    using ok by (simp_all add: table_checks)
  moreover have "keys_below ?d" using ok by (simp add: keys_below_def k)
  ultimately show ?thesis by (simp add: seedable_def ingest_ok_def rules_ok_def)
qed

lemma update_program:
  assumes "seedable d" "\<And>r. pg_id (f r) = pg_id r" "\<And>r. pg_code (f r) = pg_code r"
    "\<And>r. pg_country_id (f r) = pg_country_id r"
  shows "seedable (d\<lparr>rd_programs := upd_where p f (rd_programs d)\<rparr>)" (is "seedable ?d")
proof -
  note ok = assms(1) [unfolded seedable_def ingest_ok_def rules_ok_def keys_below_def list_all_append]
  note k = upd_keys [of pg_id f, OF assms(2)]
  have c: "map (\<lambda>p. (pg_country_id p, pg_code p)) (upd_where p f rs) = map (\<lambda>p. (pg_country_id p, pg_code p)) rs"
    "list_all (\<lambda>p. pg_country_id p \<in> A) (upd_where p f rs) = list_all (\<lambda>p. pg_country_id p \<in> A) rs" for rs A
    using assms by (simp_all add: upd_where_def list_all_upd [unfolded upd_where_def])
  have "programs_ok ?d" "versions_ok ?d" using ok by (simp_all add: programs_ok_def versions_ok_def k c del: set_map)
  moreover have "countries_ok ?d" "groups_ok ?d" "conditions_ok ?d" "outcomes_ok ?d" "sources_ok ?d" "runs_ok ?d"
    "run_items_ok ?d" "bronze_ok ?d" "sections_ok ?d" "documents_ok ?d" "extractions_ok ?d"
    using ok by (simp_all add: table_checks)
  moreover have "keys_below ?d" using ok by (simp add: keys_below_def k)
  ultimately show ?thesis by (simp add: seedable_def ingest_ok_def rules_ok_def)
qed

lemma update_version_start:
  assumes "seedable d" "open_drafts d"
  shows "seedable (d\<lparr>rd_versions := upd_where p (\<lambda>r. r\<lparr>pv_effective_from := t\<rparr>) (rd_versions d)\<rparr>)" (is "seedable ?d")
proof -
  note ok = assms(1) [unfolded seedable_def ingest_ok_def rules_ok_def keys_below_def list_all_append]
  let ?f = "\<lambda>r. r\<lparr>pv_effective_from := t\<rparr> :: program_version"
  note k = upd_keys [of pv_id ?f] upd_keys [of "\<lambda>v. (pv_program_id v, pv_version v)" ?f]
  have c: "list_all (\<lambda>v. pv_program_id v \<in> A) (upd_where p ?f rs) = list_all (\<lambda>v. pv_program_id v \<in> A) rs" for rs A
    by (simp add: list_all_upd)
  have "list_all range_ok (upd_where p ?f (rd_versions d))"
    using assms(2) by (auto simp: open_drafts_def range_ok_def upd_where_def list_all_iff)
  then have "versions_ok ?d" using ok c by (simp add: versions_ok_def k list_all_conj del: set_map)
  moreover have "groups_ok ?d" "documents_ok ?d"
    using ok by (simp_all add: groups_ok_def documents_ok_def document_keys_def k del: set_map)
  moreover have "countries_ok ?d" "programs_ok ?d" "conditions_ok ?d" "outcomes_ok ?d" "sources_ok ?d" "runs_ok ?d"
    "run_items_ok ?d" "bronze_ok ?d" "sections_ok ?d" "extractions_ok ?d"
    using ok by (simp_all add: table_checks)
  moreover have "keys_below ?d" using ok by (simp add: keys_below_def k)
  ultimately show ?thesis by (simp add: seedable_def ingest_ok_def rules_ok_def)
qed

lemma update_source:
  assumes "seedable d" "source_by_key d (sr_source_key s) = Some r" "sr_id s = sr_id r"
  shows "seedable (set_source s d)" (is "seedable ?d")
proof -
  note ok = assms(1) [unfolded seedable_def ingest_ok_def rules_ok_def keys_below_def list_all_append]
  have r: "r \<in> set (gd_sources d)" "sr_source_key r = sr_source_key s"
    using assms(2) by (auto simp: source_by_key_def find_Some_iff)
  have unique: "x = r" if "x \<in> set (gd_sources d)" "sr_id x = sr_id s" for x
    using that r(1) assms(3) ok by (auto simp: sources_ok_def distinct_map inj_on_def)
  have ids: "map sr_id (upd_where (\<lambda>x. sr_id x = sr_id s) (\<lambda>_. s) (gd_sources d)) = map sr_id (gd_sources d)"
    "map sr_source_key (upd_where (\<lambda>x. sr_id x = sr_id s) (\<lambda>_. s) (gd_sources d)) = map sr_source_key (gd_sources d)"
    using unique r(2) by (auto simp: upd_where_def)
  have "sources_ok ?d" "run_items_ok ?d" "bronze_ok ?d" "documents_ok ?d"
    using ok by (simp_all add: set_source_def table_checks ids del: set_map)
  moreover have "countries_ok ?d" "programs_ok ?d" "versions_ok ?d" "groups_ok ?d" "conditions_ok ?d" "outcomes_ok ?d"
    "runs_ok ?d" "sections_ok ?d" "extractions_ok ?d"
    using ok by (simp_all add: set_source_def table_checks)
  moreover have "keys_below ?d" using ok by (simp add: keys_below_def set_source_def ids)
  ultimately show ?thesis by (simp add: seedable_def ingest_ok_def rules_ok_def)
qed

lemma update_document:
  assumes "seedable d" "\<And>r. sd_id (f r) = sd_id r" "\<And>r. sd_program_version_id (f r) = sd_program_version_id r"
    "\<And>r. sd_source_url (f r) = sd_source_url r" "\<And>r. sd_ingestion_run_item_id (f r) = sd_ingestion_run_item_id r"
    "\<And>r. sd_source_id (f r) = Some i" "i \<in> set (map sr_id (gd_sources d))"
  shows "seedable (d\<lparr>gd_documents := upd_where p f (gd_documents d)\<rparr>)" (is "seedable ?d")
proof -
  note ok = assms(1) [unfolded seedable_def ingest_ok_def rules_ok_def keys_below_def list_all_append]
  note k = upd_keys [of sd_id f, OF assms(2)]
  have keys: "document_keys ?d = document_keys d"
    using assms(3,4) by (auto simp: document_keys_def upd_where_def filter_map comp_def intro!: arg_cong2 [of _ _ _ _ map] filter_cong)
  have "list_all (\<lambda>s. fk (sd_source_id s) (map sr_id (gd_sources d))
          \<and> fk (sd_ingestion_run_item_id s) (map im_id (gd_items d))
          \<and> fk (sd_program_version_id s) (map pv_id (rd_versions d))) (upd_where p f (gd_documents d))"
    using ok assms(3,5-7) by (auto simp: documents_ok_def upd_where_def list_all_iff fk_def)
  then have "documents_ok ?d" using ok keys by (simp add: documents_ok_def k)
  moreover have "extractions_ok ?d" using ok by (simp add: extractions_ok_def k del: set_map)
  moreover have "countries_ok ?d" "programs_ok ?d" "versions_ok ?d" "groups_ok ?d" "conditions_ok ?d" "outcomes_ok ?d"
    "sources_ok ?d" "runs_ok ?d" "run_items_ok ?d" "bronze_ok ?d" "sections_ok ?d"
    using ok by (simp_all add: table_checks)
  moreover have "keys_below ?d" using ok by (simp add: keys_below_def k)
  ultimately show ?thesis by (simp add: seedable_def ingest_ok_def rules_ok_def)
qed

lemma upd_where_ids:
  assumes "\<And>r. i (f r) = i r" "\<And>k r. P k (f r) = P k r"
  shows "(\<lambda>k. map_option i (find (P k) (upd_where c f rs))) = (\<lambda>k. map_option i (find (P k) rs))"
proof
  fix k show "map_option i (find (P k) (upd_where c f rs)) = map_option i (find (P k) rs)"
    using assms by (induction rs) (auto simp: upd_where_def)
qed

lemma kept_update:
  "(\<And>c. co_id (f c) = co_id c) \<Longrightarrow> (\<And>c. co_code (f c) = co_code c)
    \<Longrightarrow> kept d (d\<lparr>rd_countries := upd_where p f (rd_countries d)\<rparr>)"
  "(\<And>r. pg_id (g r) = pg_id r) \<Longrightarrow> (\<And>r. pg_code (g r) = pg_code r) \<Longrightarrow> (\<And>r. pg_country_id (g r) = pg_country_id r)
    \<Longrightarrow> kept d (d\<lparr>rd_programs := upd_where q g (rd_programs d)\<rparr>)"
  "kept d (d\<lparr>rd_versions := upd_where c (\<lambda>r. r\<lparr>pv_effective_from := t\<rparr>) (rd_versions d)\<rparr>)"
  by (simp_all add: kept_def key_maps key_finds map_le_refl upd_where_ids)

end
