(* ===== verification/Seeding_Contract.thy ===== *)
theory Seeding_Contract
  imports Seeding_Tables Mvp_Rules_Contract Assessments
begin

text \<open>
  What the seeding leaves in the tables: the rule fixtures are complete after a run and a second run changes nothing;
  after the initial seeding every version is a draft.
\<close>

section \<open>What a fixture leaves\<close>

definition condition_there :: "uuid \<Rightarrow> condition_data \<Rightarrow> 'z rules_db_scheme \<Rightarrow> bool" where
  "condition_there g x d \<longleftrightarrow> (\<exists>oper. rule_operator_of (fc_operator x) = Inr oper
     \<and> condition_ids d (g, fc_field_key x, oper, fc_condition_order x) \<noteq> None)"

definition outcome_there :: "uuid \<Rightarrow> outcome_data \<Rightarrow> 'z rules_db_scheme \<Rightarrow> bool" where
  "outcome_there g x d \<longleftrightarrow> outcome_ids d (g, fo_outcome_code x) \<noteq> None"

definition group_there :: "uuid \<Rightarrow> group_data \<Rightarrow> 'z rules_db_scheme \<Rightarrow> bool" where
  "group_there v x d \<longleftrightarrow> (\<exists>g. group_ids d (v, fg_code x) = Some g
     \<and> (\<forall>c\<in>set (fg_conditions x). condition_there g c d) \<and> (\<forall>u\<in>set (fg_outcomes x). outcome_there g u d))"

definition version_there :: "string \<Rightarrow> string \<Rightarrow> string \<Rightarrow> 'z rules_db_scheme \<Rightarrow> bool" where
  "version_there cc pc vc d \<longleftrightarrow> (\<exists>c p v. country_ids d cc = Some c \<and> program_ids d (c, pc) = Some p
     \<and> version_ids d (p, vc) = Some v)"

definition fixture_there :: "rule_fixture \<Rightarrow> 'z rules_db_scheme \<Rightarrow> bool" where
  "fixture_there f d \<longleftrightarrow> (\<exists>c p v. country_ids d (fx_country_code f) = Some c
     \<and> program_ids d (c, fx_program_code f) = Some p \<and> version_ids d (p, fx_version f) = Some v
     \<and> (\<forall>g\<in>set (fx_rule_groups f). group_there v g d))"

text \<open>A fixture whose texts parse, whose values fit the columns and whose version has no empty period.\<close>

definition fixture_condition_valid :: "condition_data \<Rightarrow> bool" where
  "fixture_condition_valid c \<longleftrightarrow> is_ok (rule_operator_of (fc_operator c)) \<and> length (fc_field_key c) \<le> 120
     \<and> int32 (fc_condition_order c)"

definition fixture_outcome_valid :: "outcome_data \<Rightarrow> bool" where
  "fixture_outcome_valid u \<longleftrightarrow> (case decimal_of_str (fo_score_delta u) of Inl e \<Rightarrow> False
     | Inr x \<Rightarrow> \<bar>q2 (dec_val x)\<bar> < 10 ^ 6 \<and> length (fo_outcome_code u) \<le> 64)"

definition fixture_group_valid :: "group_data \<Rightarrow> bool" where
  "fixture_group_valid g \<longleftrightarrow> is_ok (match_operator_of (fg_match_operator g))
     \<and> length (fg_code g) \<le> 64 \<and> length (fg_name g) \<le> 160 \<and> int32 (fg_priority g)
     \<and> list_all fixture_condition_valid (fg_conditions g) \<and> list_all fixture_outcome_valid (fg_outcomes g)"

definition fixture_valid :: "rule_fixture \<Rightarrow> bool" where
  "fixture_valid f \<longleftrightarrow> list_all fixture_group_valid (fx_rule_groups f)
     \<and> length (fx_country_code f) \<le> 2 \<and> length (fx_country_name f) \<le> 120
     \<and> length (fx_program_code f) \<le> 64 \<and> length (fx_program_name f) \<le> 160 \<and> length (fx_version f) \<le> 32
     \<and> (case fx_effective_to f of None \<Rightarrow> True | Some t \<Rightarrow> fx_effective_from f < t)"

lemma map_le_Some: "m \<subseteq>\<^sub>m m' \<Longrightarrow> m k = Some i \<Longrightarrow> m' k = Some i"
  by (metis domI map_le_def)

lemma stable_ids:
  "adds.stable (\<lambda>d. country_ids d k1 = Some i)" "adds.stable (\<lambda>d. program_ids d k2 = Some i)"
  "adds.stable (\<lambda>d. version_ids d k3 = Some i)" "adds.stable (\<lambda>d. group_ids d k4 = Some i)"
  "adds.stable (\<lambda>d. condition_ids d k5 \<noteq> None)" "adds.stable (\<lambda>d. outcome_ids d k6 \<noteq> None)"
  unfolding adds.stable_def kept_def not_None_eq by (blast intro: map_le_Some)+

lemma stable_ex: "(\<And>x. adds.stable (S x)) \<Longrightarrow> adds.stable (\<lambda>d. \<exists>x. S x d)"
  unfolding adds.stable_def by blast

lemma stable_const: "adds.stable (\<lambda>_. b)"
  by (simp add: adds.stable_def)

lemmas stable_rules = stable_ids stable_const adds.stable_conj adds.stable_all stable_ex

lemma stable_there:
  "adds.stable (condition_there g c)" "adds.stable (outcome_there g u)" "adds.stable (group_there v x)"
  "adds.stable (version_there cc pc vc)" "adds.stable (fixture_there f)"
proof -
  show c: "adds.stable (condition_there g c)" for g c unfolding condition_there_def [abs_def] by (intro stable_rules)
  show o: "adds.stable (outcome_there g u)" for g u unfolding outcome_there_def [abs_def] by (intro stable_rules)
  show g: "adds.stable (group_there v x)" for v x unfolding group_there_def [abs_def] by (intro stable_rules c o)
  show "adds.stable (version_there cc pc vc)" unfolding version_there_def [abs_def] by (intro stable_rules)
  show "adds.stable (fixture_there f)" unfolding fixture_there_def [abs_def] by (intro stable_rules g)
qed

text \<open>A key that a lookup finds is a row.\<close>

lemma ids_rows:
  "country_ids d k1 = Some i \<Longrightarrow> i \<in> set (map co_id (rd_countries d))"
  "program_ids d k2 = Some i \<Longrightarrow> i \<in> set (map pg_id (rd_programs d))"
  "version_ids d k3 = Some i \<Longrightarrow> i \<in> set (map pv_id (rd_versions d))"
  "group_ids d k4 = Some i \<Longrightarrow> i \<in> set (map gr_id (rd_groups d))"
  by (auto simp: key_maps key_finds find_Some_iff)

section \<open>One fixture\<close>

lemma same_versions_append:
  "same_versions d (d\<lparr>rd_countries := rd_countries d @ cs, bd_next := n\<rparr>)"
  "same_versions d (d\<lparr>rd_programs := rd_programs d @ ps, bd_next := n\<rparr>)"
  "same_versions d (d\<lparr>rd_groups := rd_groups d @ gs, bd_next := n\<rparr>)"
  "same_versions d (d\<lparr>rd_conditions := rd_conditions d @ xs, bd_next := n\<rparr>)"
  "same_versions d (d\<lparr>rd_outcomes := rd_outcomes d @ us, bd_next := n\<rparr>)"
  by (simp_all add: same_versions_def kept_append)

lemma does_condition:
  assumes "fixture_condition_valid x"
  shows "does same_versions (\<lambda>d. group_ids d k = Some g) (seed_condition now g x) (\<lambda>_. condition_there g x)"
proof -
  obtain oper where oper: "rule_operator_of (fc_operator x) = Inr oper" and fits: "length (fc_field_key x) \<le> 120"
      "int32 (fc_condition_order x)" using assms by (auto simp: is_ok_iff fixture_condition_valid_def)
  show ?thesis unfolding seed_condition_def
  proof (rule fixes_versions.does_lift [OF oper], rule fixes_versions.does_bind [OF fixes_versions.does_get_or_insert])
    fix d :: "'a ingest_db_scheme" assume g: "group_ids d k = Some g" and d: "seedable d"
      and none: "find_condition d g (fc_field_key x) oper (fc_condition_order x) = None"
    let ?r = "\<lparr>cr_id = bd_next d, cr_created_at = now, cr_rule_group_id = g, cr_field_key = fc_field_key x,
          cr_operator = oper, cr_value_json = fc_value_json x, cr_condition_order = fc_condition_order x,
          cr_is_required = fc_is_required x\<rparr>"
    have "seedable (d\<lparr>rd_conditions := rd_conditions d @ [?r], bd_next := Suc (bd_next d)\<rparr>)"
      by (rule insert_condition [OF d]) (use ids_rows(4) [OF g] in simp_all)
    moreover have "condition_there g x (d\<lparr>rd_conditions := rd_conditions d @ [?r], bd_next := Suc (bd_next d)\<rparr>)"
      by (auto simp: condition_there_def oper condition_ids_def find_condition_def find_append split: option.splits)
    ultimately show "let r = ?r; d' = d\<lparr>rd_conditions := rd_conditions d @ [r]\<rparr>\<lparr>bd_next := Suc (bd_next d)\<rparr>
        in (length (fc_field_key x) \<le> 120 \<and> int32 (fc_condition_order x)) \<and> seedable d' \<and> same_versions d d'
          \<and> condition_there g x d'"
      by (simp add: same_versions_append fits)
  qed (auto simp: condition_there_def oper condition_ids_def intro: fixes_versions.does_ret)
qed

lemma does_outcome:
  assumes "fixture_outcome_valid x"
  shows "does same_versions (\<lambda>d. group_ids d k = Some g) (seed_outcome g x) (\<lambda>_. outcome_there g x)"
proof -
  obtain delta where delta: "decimal_of_str (fo_score_delta x) = Inr delta" and fits: "numeric_8_2 delta"
      "length (fo_outcome_code x) \<le> 64"
    using assms by (auto simp: fixture_outcome_valid_def numeric_8_2_def split: sum.splits)
  show ?thesis unfolding seed_outcome_def
  proof (rule does_query, goal_cases)
    case (1 d)
    note g = 1
    show ?case
    proof (cases "find_outcome d g (fo_outcome_code x)")
      case None
      have "does same_versions (\<lambda>d'. d' = d) (insert_row
           (\<lambda>i. \<lparr>ot_id = i, ot_rule_group_id = g, ot_score_delta = stored_delta delta,
              ot_is_blocking = fo_is_blocking x, ot_explanation_message = fo_explanation_message x,
              ot_outcome_code = Some (fo_outcome_code x)\<rparr>)
           (\<lambda>r d. d\<lparr>rd_outcomes := rd_outcomes d @ [r]\<rparr>)) (\<lambda>_. outcome_there g x)"
        by (rule fixes_versions.does_insert) (use g None ids_rows(4) [OF g] in
            \<open>auto simp: Let_def outcome_there_def outcome_ids_def find_outcome_def find_append
              intro!: insert_outcome same_versions_append split: option.splits\<close>)
      then show ?thesis
        unfolding None option.case delta
        by (intro fixes_versions.does_lift [OF refl] does_fits)
          (simp add: fits, rule fixes_versions.does_bind, assumption, simp add: fixes_versions.does_ret)
    next
      case (Some r)
      show ?thesis
        by (simp add: Some) (rule fixes_versions.does_ret, simp add: Some outcome_there_def outcome_ids_def)
    qed
  qed
qed

lemma does_group_row:
  assumes "fixture_group_valid x"
  shows "does same_versions (\<lambda>d. version_ids d k = Some v) (seed_group_row now v x)
    (\<lambda>g d. group_ids d (v, fg_code x) = Some (gr_id g))"
proof -
  obtain oper where oper: "match_operator_of (fg_match_operator x) = Inr oper" and fits: "length (fg_code x) \<le> 64"
      "length (fg_name x) \<le> 160" "int32 (fg_priority x)" using assms by (auto simp: is_ok_iff fixture_group_valid_def)
  show ?thesis unfolding seed_group_row_def
  proof (rule does_query, goal_cases)
    case (1 d)
    show ?case
    proof (cases "find_group d v (fg_code x)")
      case None
      have "does same_versions (\<lambda>d'. d' = d) (insert_row
           (\<lambda>i. \<lparr>gr_id = i, gr_created_at = now, gr_program_version_id = v, gr_code = fg_code x,
              gr_name = fg_name x, gr_description = None, gr_priority = fg_priority x, gr_match_operator = oper,
              gr_is_active = True\<rparr>)
           (\<lambda>r d. d\<lparr>rd_groups := rd_groups d @ [r]\<rparr>)) (\<lambda>g d. group_ids d (v, fg_code x) = Some (gr_id g))"
        by (rule fixes_versions.does_insert) (use 1 None ids_rows(3) [OF 1] in
            \<open>auto simp: Let_def group_ids_def find_group_def find_append
              intro!: insert_group same_versions_append split: option.splits\<close>)
      then show ?thesis unfolding None option.case oper
        by (intro fixes_versions.does_lift [OF refl] does_fits) (simp_all add: fits)
    next
      case (Some r)
      show ?thesis
        by (simp add: Some) (rule fixes_versions.does_ret, simp add: Some group_ids_def)
    qed
  qed
qed

lemma does_rule_group:
  assumes "fixture_group_valid x"
  shows "does same_versions (\<lambda>d. version_ids d k = Some v) (seed_rule_group now v x) (\<lambda>_. group_there v x)"
  unfolding seed_rule_group_def
proof (rule fixes_versions.does_bind [OF does_group_row])
  show "fixture_group_valid x" by (rule assms)
  fix g :: group_row
  let ?P = "\<lambda>d. group_ids d (v, fg_code x) = Some (gr_id g)"
  let ?C = "\<lambda>d. ?P d \<and> (\<forall>c\<in>set (fg_conditions x). condition_there (gr_id g) c d)"
  have c: "does same_versions ?P (forO (seed_condition now (gr_id g)) (fg_conditions x)) (\<lambda>_. ?C)"
    using assms by (intro fixes_versions.does_forO does_condition stable_of_kept stable_ids stable_there)
      (simp add: fixture_group_valid_def list_all_iff)
  have o: "does same_versions ?P (forO (seed_outcome (gr_id g)) (fg_outcomes x))
      (\<lambda>_ d. ?P d \<and> (\<forall>u\<in>set (fg_outcomes x). outcome_there (gr_id g) u d))"
    using assms by (intro fixes_versions.does_forO does_outcome stable_of_kept stable_ids stable_there)
      (simp add: fixture_group_valid_def list_all_iff)
  have "fixes_versions.stable ?C" by (intro stable_of_kept stable_rules stable_there)
  note both = fixes_versions.does_frame [OF o this]
  show "does same_versions ?P (bindO (forO (seed_condition now (gr_id g)) (fg_conditions x))
      (\<lambda>_. forO (seed_outcome (gr_id g)) (fg_outcomes x))) (\<lambda>_. group_there v x)"
    by (rule fixes_versions.does_bind [OF c], rule does_conseq [OF both]) (auto simp: group_there_def)
qed

lemma does_fixture_country:
  "fixture_valid f \<Longrightarrow> does same_versions (\<lambda>_. True) (seed_fixture_country f) (\<lambda>c d. country_ids d (fx_country_code f) = Some (co_id c))"
  unfolding seed_fixture_country_def
  by (rule fixes_versions.does_get_or_insert)
    (auto simp: Let_def fixture_valid_def country_ids_def find_country_def find_append intro!: insert_country same_versions_append
      split: option.splits)

lemma does_fixture_program:
  "fixture_valid f \<Longrightarrow> does same_versions (\<lambda>d. country_ids d k = Some c) (seed_fixture_program c f)
    (\<lambda>p d. program_ids d (c, fx_program_code f) = Some (pg_id p))"
  unfolding seed_fixture_program_def
  by (rule fixes_versions.does_get_or_insert)
    (auto simp: Let_def fixture_valid_def program_ids_def program_by_code_def find_append simp del: set_map
      intro!: insert_program same_versions_append ids_rows(1) split: option.splits)

lemma does_fixture_version:
  assumes "fixture_valid f"
  shows "does kept (\<lambda>d. program_ids d k = Some p) (seed_fixture_version now p f) (\<lambda>v d. version_ids d (p, fx_version f) = Some (pv_id v))"
  unfolding seed_fixture_version_def
  by (rule adds.does_get_or_insert)
    (use assms in \<open>auto simp: Let_def version_ids_def find_version_def find_append fixture_valid_def range_ok_def
      simp del: set_map intro!: insert_version kept_append ids_rows(2) split: option.splits\<close>)

text \<open>Where the version exists it is used as it is.\<close>

lemma does_fixture_version_found:
  "does same_versions (\<lambda>d. version_ids d (p, fx_version f) = Some i) (seed_fixture_version now p f) (\<lambda>v d. pv_id v = i)"
  unfolding seed_fixture_version_def
  by (rule fixes_versions.does_get_or_insert) (auto simp: version_ids_def)

lemma weaken: "does same_versions P m Q \<Longrightarrow> does kept P m Q"
  by (erule does_conseq) (simp_all add: same_versions_def)

lemma does_groups:
  assumes "fixture_valid f"
  shows "does same_versions (\<lambda>d. version_ids d k = Some v) (forO (seed_rule_group now v) (fx_rule_groups f))
    (\<lambda>_ d. version_ids d k = Some v \<and> (\<forall>g\<in>set (fx_rule_groups f). group_there v g d))"
  using assms
  by (intro fixes_versions.does_forO does_rule_group stable_of_kept stable_ids stable_there)
    (simp add: fixture_valid_def list_all_iff)

lemma does_fixture:
  assumes "fixture_valid f"
  shows "does kept (\<lambda>_. True) (seed_fixture now f) (\<lambda>_. fixture_there f)"
  unfolding seed_fixture_def
proof (rule adds.does_bind [OF weaken [OF does_fixture_country [OF assms]]])
  fix c :: country
  let ?C = "\<lambda>d :: 'a ingest_db_scheme. country_ids d (fx_country_code f) = Some (co_id c)"
  have "does kept ?C (seed_fixture_program (co_id c) f)
      (\<lambda>p d. program_ids d (co_id c, fx_program_code f) = Some (pg_id p) \<and> ?C d)"
    by (rule does_conseq [OF adds.does_frame [OF weaken [OF does_fixture_program [OF assms]] stable_ids(1)]]) auto
  then show "does kept ?C (bindO (seed_fixture_program (co_id c) f) (\<lambda>p. bindO (seed_fixture_version now (pg_id p) f)
      (\<lambda>v. forO (seed_rule_group now (pv_id v)) (fx_rule_groups f)))) (\<lambda>_. fixture_there f)"
  proof (rule adds.does_bind)
    fix p :: program
    let ?P = "\<lambda>d. program_ids d (co_id c, fx_program_code f) = Some (pg_id p) \<and> ?C d"
    have P: "adds.stable ?P" by (intro stable_rules)
    have "does kept ?P (seed_fixture_version now (pg_id p) f)
        (\<lambda>v d. version_ids d (pg_id p, fx_version f) = Some (pv_id v) \<and> ?P d)"
      by (rule does_conseq [OF adds.does_frame [OF does_fixture_version [OF assms] P]]) auto
    then show "does kept ?P (bindO (seed_fixture_version now (pg_id p) f)
      (\<lambda>v. forO (seed_rule_group now (pv_id v)) (fx_rule_groups f))) (\<lambda>_. fixture_there f)"
      by (rule adds.does_bind)
        (rule does_conseq [OF adds.does_frame [OF weaken [OF does_groups [OF assms]] P]]; auto simp: fixture_there_def)
  qed
qed

text \<open>A fixture whose version exists leaves the versions as they are.\<close>

lemma does_fixture_existing:
  assumes "fixture_valid f"
  shows "does same_versions (version_there (fx_country_code f) (fx_program_code f) (fx_version f)) (seed_fixture now f)
    (\<lambda>_ _. True)"
  unfolding seed_fixture_def
proof (rule fixes_versions.does_bind)
  let ?V = "version_there (fx_country_code f) (fx_program_code f) (fx_version f)"
  show "does same_versions ?V (seed_fixture_country f) (\<lambda>c d. country_ids d (fx_country_code f) = Some (co_id c) \<and> ?V d)"
    by (rule does_conseq [OF fixes_versions.does_frame [OF does_fixture_country [OF assms] stable_of_kept(1) [OF stable_there(4)]]]) auto
  fix c :: country
  let ?C = "\<lambda>d :: 'a ingest_db_scheme. country_ids d (fx_country_code f) = Some (co_id c) \<and> ?V d"
  have C: "adds.stable ?C" by (intro stable_rules stable_there)
  have "does same_versions ?C (seed_fixture_program (co_id c) f)
      (\<lambda>p d. program_ids d (co_id c, fx_program_code f) = Some (pg_id p) \<and> ?C d)"
    by (rule does_conseq [OF fixes_versions.does_frame [OF does_fixture_program [OF assms] stable_of_kept(1) [OF C]]]) auto
  then show "does same_versions ?C (bindO (seed_fixture_program (co_id c) f) (\<lambda>p. bindO (seed_fixture_version now (pg_id p) f)
      (\<lambda>v. forO (seed_rule_group now (pv_id v)) (fx_rule_groups f)))) (\<lambda>_ _. True)"
  proof (rule fixes_versions.does_bind)
    fix p :: program
    show "does same_versions (\<lambda>d. program_ids d (co_id c, fx_program_code f) = Some (pg_id p) \<and> ?C d)
      (bindO (seed_fixture_version now (pg_id p) f)
        (\<lambda>v. forO (seed_rule_group now (pv_id v)) (fx_rule_groups f))) (\<lambda>_ _. True)"
    proof (rule does_guard)
      fix d :: "'a ingest_db_scheme"
      assume "program_ids d (co_id c, fx_program_code f) = Some (pg_id p) \<and> ?C d"
      then obtain i where i: "version_ids d (pg_id p, fx_version f) = Some i" by (auto simp: version_there_def)
      let ?I = "\<lambda>d :: 'a ingest_db_scheme. version_ids d (pg_id p, fx_version f) = Some i"
      have "does same_versions ?I (seed_fixture_version now (pg_id p) f) (\<lambda>v d. pv_id v = i \<and> ?I d)"
        by (rule does_conseq [OF fixes_versions.does_frame [OF does_fixture_version_found stable_of_kept(1) [OF stable_ids(3)]]]) auto
      then have "does same_versions ?I (bindO (seed_fixture_version now (pg_id p) f)
          (\<lambda>v. forO (seed_rule_group now (pv_id v)) (fx_rule_groups f))) (\<lambda>_ _. True)"
        by (rule fixes_versions.does_bind) (rule does_conseq [OF does_groups [OF assms]]; auto)
      then show "does same_versions (\<lambda>d'. d' = d) (bindO (seed_fixture_version now (pg_id p) f)
          (\<lambda>v. forO (seed_rule_group now (pv_id v)) (fx_rule_groups f))) (\<lambda>_ _. True)"
        by (rule does_conseq) (use i in auto)
    qed
  qed
qed

section \<open>Seeding twice\<close>

lemma forO_done: "(\<And>x. x \<in> set xs \<Longrightarrow> m x t = (Inr (), t)) \<Longrightarrow> forO m xs t = (Inr (), t)"
  by (induction xs) (auto simp: bindO_def)

lemma seed_condition_done:
  "condition_there g x (working t) \<Longrightarrow> \<not> aborted t \<Longrightarrow> seed_condition now g x t = (Inr (), t)"
  by (auto simp: condition_there_def seed_condition_def get_or_insert_def condition_ids_def bindO_def)

lemma seed_outcome_done: "outcome_there g x (working t) \<Longrightarrow> \<not> aborted t \<Longrightarrow> seed_outcome g x t = (Inr (), t)"
  by (auto simp: outcome_there_def seed_outcome_def outcome_ids_def)

lemma seed_group_done:
  assumes "group_there v x (working t)" "\<not> aborted t"
  shows "seed_rule_group now v x t = (Inr (), t)"
proof -
  obtain r where r: "find_group (working t) v (fg_code x) = Some r" using assms(1) by (auto simp: group_there_def group_ids_def)
  then have g: "seed_group_row now v x t = (Inr r, t)" using assms(2) by (simp add: seed_group_row_def)
  have "forO (seed_condition now (gr_id r)) (fg_conditions x) t = (Inr (), t)"
    "forO (seed_outcome (gr_id r)) (fg_outcomes x) t = (Inr (), t)"
    using assms r by (auto simp: group_there_def group_ids_def intro!: forO_done seed_condition_done seed_outcome_done)
  with g show ?thesis by (simp add: seed_rule_group_def bindO_def)
qed

lemma seed_fixture_done:
  assumes "fixture_there f (working t)" "\<not> aborted t"
  shows "seed_fixture now f t = (Inr (), t)"
proof -
  obtain c p v where r: "find_country (working t) (fx_country_code f) = Some c"
    "program_by_code (working t) (co_id c) (fx_program_code f) = Some p"
    "find_version (working t) (pg_id p) (fx_version f) = Some v" "\<forall>g\<in>set (fx_rule_groups f). group_there (pv_id v) g (working t)"
    using assms(1) by (auto simp: fixture_there_def country_ids_def program_ids_def version_ids_def)
  have "forO (seed_rule_group now (pv_id v)) (fx_rule_groups f) t = (Inr (), t)"
    using r(4) assms(2) by (intro forO_done seed_group_done) auto
  with r(1-3) assms(2) show ?thesis
    by (simp add: seed_fixture_def seed_fixture_country_def seed_fixture_program_def seed_fixture_version_def
        get_or_insert_def bindO_def)
qed

lemma seed_fixtures_run:
  assumes "does R P (forO (seed_fixture now) fs) Q" "seedable d" "P d"
  shows "\<exists>d'. seed_fixtures now fs d = (Inr (), d') \<and> seedable d' \<and> R d d' \<and> Q () d'"
proof -
  obtain x t where "forO (seed_fixture now) fs (begin_txn d) = (Inr x, t)" "\<not> aborted t" "seedable (working t)"
    "R d (working t)" "Q () (working t)"
    using assms by (elim doesE [of R P _ Q "begin_txn d"]) auto
  then show ?thesis by (simp add: seed_fixtures_def request_def bindO_def)
qed

text \<open>C20. Seeding the rule fixtures of a well-formed database succeeds for any fixtures whose texts parse, whose values are
  within the widths of the columns and whose versions end, if at all, after they start; afterwards the
  country, the program, the version, the groups, the conditions and the outcomes of every fixture are found under
  their keys, every key that was found before is still found with its row, and seeding again, at any time, changes
  nothing at all.\<close>

theorem rules_seeded_once:
  assumes "seedable d" "list_all fixture_valid fs"
  shows "\<exists>d'. seed_fixtures now fs d = (Inr (), d') \<and> seedable d' \<and> kept d d' \<and> (\<forall>f\<in>set fs. fixture_there f d')
    \<and> (\<forall>later. seed_fixtures later fs d' = (Inr (), d'))"
proof -
  have "does kept (\<lambda>_. True) (forO (seed_fixture now) fs) (\<lambda>_ d. True \<and> (\<forall>f\<in>set fs. fixture_there f d))"
    using assms(2) by (intro adds.does_forO does_fixture stable_const stable_there) (simp add: list_all_iff)
  then obtain d' where d': "seed_fixtures now fs d = (Inr (), d')" "seedable d'" "kept d d'" "\<forall>f\<in>set fs. fixture_there f d'"
    using seed_fixtures_run [OF _ assms(1)] by blast
  have "forO (seed_fixture later) fs (begin_txn d') = (Inr (), begin_txn d')" for later
    using d'(4) by (intro forO_done seed_fixture_done) auto
  then have "seed_fixtures later fs d' = (Inr (), d')" for later
    by (simp add: seed_fixtures_def request_def bindO_def)
  with d' show ?thesis by blast
qed

definition empty_ingest_db :: ingest_db where
  "empty_ingest_db =
     \<lparr>bd_plans = [], bd_subscriptions = [], bd_entitlements = [], bd_counters = [], bd_events = [], bd_users = [],
      bd_next = 0, bd_conversions = 0, rd_countries = [], rd_programs = [], rd_versions = [], rd_groups = [],
      rd_conditions = [], rd_outcomes = [], gd_sources = [], gd_runs = [], gd_items = [], gd_bronze = [],
      gd_sections = [], gd_documents = [], gd_extractions = []\<rparr>"

lemma empty_seedable: "seedable empty_ingest_db"
  by (simp add: seedable_def keys_below_def ingest_ok_defs rules_ok_defs empty_ingest_db_def)

lemma shipped_groups_valid:
  "list_all fixture_group_valid (fx_rule_groups fixture_ca)" "list_all fixture_group_valid (fx_rule_groups fixture_pt)"
  "list_all fixture_group_valid (fx_rule_groups fixture_us)" "list_all fixture_group_valid (fx_rule_groups fixture_gb)"
  "list_all fixture_group_valid (fx_rule_groups fixture_de)" "list_all fixture_group_valid (fx_rule_groups fixture_au)"
  by code_simp+

lemma shipped_ranges:
  "fx_effective_to fixture_ca = None" "fx_effective_to fixture_pt = None" "fx_effective_to fixture_us = None"
  "fx_effective_to fixture_gb = None" "fx_effective_to fixture_de = None" "fx_effective_to fixture_au = None"
  by (simp_all add: fixture_ca_def fixture_pt_def fixture_us_def fixture_gb_def fixture_de_def fixture_au_def)

lemma shipped_widths:
  "list_all (\<lambda>f. length (fx_country_code f) \<le> 2 \<and> length (fx_country_name f) \<le> 120 \<and> length (fx_program_code f) \<le> 64
     \<and> length (fx_program_name f) \<le> 160 \<and> length (fx_version f) \<le> 32)
   [fixture_ca, fixture_au, fixture_pt, fixture_us, fixture_gb, fixture_de]"
  by code_simp

lemma shipped_valid: "f \<in> {fixture_ca, fixture_au, fixture_pt, fixture_us, fixture_gb, fixture_de} \<Longrightarrow> fixture_valid f"
  using shipped_groups_valid shipped_ranges shipped_widths by (auto simp: fixture_valid_def)

lemma rules_seeded_once_witness:
  "\<exists>d'. seed_rules 5 empty_ingest_db = (Inr (), d') \<and> seedable d' \<and> kept empty_ingest_db d'
    \<and> (\<forall>f\<in>set (map snd MVP_RULE_FIXTURES). fixture_there f d')
    \<and> (\<forall>later. seed_fixtures later (map snd MVP_RULE_FIXTURES) d' = (Inr (), d'))"
  unfolding seed_rules_def
  by (rule rules_seeded_once [OF empty_seedable]) (simp add: MVP_RULE_FIXTURES_def shipped_valid)

section \<open>The catalog\<close>

lemma open_drafts_frames [simp]:
  "open_drafts (d\<lparr>rd_countries := cs\<rparr>) = open_drafts d" "open_drafts (d\<lparr>rd_programs := ps\<rparr>) = open_drafts d"
  "open_drafts (d\<lparr>gd_sources := ss\<rparr>) = open_drafts d" "open_drafts (d\<lparr>gd_documents := ds\<rparr>) = open_drafts d"
  "open_drafts (d\<lparr>bd_next := n\<rparr>) = open_drafts d"
  by (simp_all add: open_drafts_def)

lemma stable_open: "drafts.stable open_drafts"
  by (simp add: drafts.stable_def kept_drafts_def)

lemma stable_drafts: "adds.stable S \<Longrightarrow> drafts.stable (\<lambda>d. open_drafts d \<and> S d)"
  by (intro drafts.stable_conj stable_open stable_of_kept)

lemma catalog_rows [simp]:
  "co_id (catalog_country_of x c) = co_id c" "co_code (catalog_country_of x c) = co_code c"
  "pg_id (catalog_program_of y p) = pg_id p" "pg_code (catalog_program_of y p) = pg_code p"
  "pg_country_id (catalog_program_of y p) = pg_country_id p"
  by (simp_all add: catalog_country_of_def catalog_program_of_def)

lemma kept_row: "kept d d' \<Longrightarrow> country_ids d k1 = Some i \<Longrightarrow> country_ids d' k1 = Some i"
  "kept d d' \<Longrightarrow> program_ids d k2 = Some i \<Longrightarrow> program_ids d' k2 = Some i"
  "kept d d' \<Longrightarrow> version_ids d k3 = Some i \<Longrightarrow> version_ids d' k3 = Some i"
  using stable_ids unfolding adds.stable_def by blast+

lemma does_seed_country:
  "does kept_drafts open_drafts (seed_country x s)
    (\<lambda>(c, _) d. open_drafts d \<and> country_ids d (cx_code x) = Some (co_id c))"
  unfolding seed_country_def
proof (rule drafts.does_seed_row, goal_cases)
  case (1 d)
  then show ?case by (auto simp: Let_def kept_drafts_def country_ids_def find_country_def find_append
        intro!: insert_country kept_append split: option.splits)
next
  case (2 d c)
  then show ?case by (simp add: country_ids_def)
next
  case (3 d c)
  let ?d = "d\<lparr>rd_countries := upd_where (\<lambda>r. co_id r = co_id c) (catalog_country_of x) (rd_countries d)\<rparr>"
  have k: "kept d ?d" by (rule kept_update) simp_all
  from 3 show ?case
    using k kept_row(1) [OF k, of "cx_code x" "co_id c"] update_country [OF 3(2), of "catalog_country_of x"]
    by (simp add: kept_drafts_def country_ids_def)
qed

lemma does_seed_program:
  "does kept_drafts (\<lambda>d. open_drafts d \<and> country_ids d k = Some i) (seed_program i x s)
    (\<lambda>(p, _) d. (open_drafts d \<and> country_ids d k = Some i) \<and> program_ids d (i, cp_code x) = Some (pg_id p))"
  unfolding seed_program_def
proof (rule drafts.does_seed_row, goal_cases)
  case (1 d)
  let ?r = "\<lparr>pg_id = bd_next d, pg_country_id = i, pg_code = cp_code x, pg_name = cp_name x,
          pg_description = Some (cp_description x), pg_is_active = True\<rparr>"
  let ?d = "d\<lparr>rd_programs := rd_programs d @ [?r], bd_next := Suc (bd_next d)\<rparr>"
  have "seedable ?d" by (rule insert_program) (use 1 ids_rows(1) [of d k i] in simp_all)
  moreover have "kept d ?d" by (rule kept_append)
  moreover have "program_ids ?d (i, cp_code x) = Some (bd_next d)"
    using 1 by (simp add: program_ids_def program_by_code_def find_append)
  ultimately show ?case using 1 kept_row(1) [of d ?d k i] by (simp add: Let_def kept_drafts_def)
next
  case (2 d p)
  then show ?case by (simp add: program_ids_def)
next
  case (3 d p)
  let ?d = "d\<lparr>rd_programs := upd_where (\<lambda>r. pg_id r = pg_id p) (catalog_program_of x) (rd_programs d)\<rparr>"
  have k: "kept d ?d" by (rule kept_update) simp_all
  from 3 show ?case
    using k kept_row(1) [OF k, of _ i] kept_row(2) [OF k, of "(i, cp_code x)" "pg_id p"]
      update_program [OF 3(2), of "catalog_program_of x"]
    by (simp add: kept_drafts_def program_ids_def)
qed

lemma does_seed_version:
  "does kept_drafts (\<lambda>d. open_drafts d \<and> program_ids d k = Some i) (seed_version now start i x s)
    (\<lambda>(v, _) d. (open_drafts d \<and> program_ids d k = Some i) \<and> version_ids d (i, cp_version x) = Some (pv_id v))"
  unfolding seed_version_def
proof (rule drafts.does_seed_row, goal_cases)
  case (1 d)
  let ?r = "\<lparr>pv_id = bd_next d, pv_created_at = now, pv_program_id = i, pv_version = cp_version x, pv_status = draft,
          pv_effective_from = start, pv_effective_to = None\<rparr>"
  let ?d = "d\<lparr>rd_versions := rd_versions d @ [?r], bd_next := Suc (bd_next d)\<rparr>"
  have "seedable ?d" by (rule insert_version) (use 1 ids_rows(2) [of d k i] in \<open>simp_all add: range_ok_def\<close>)
  moreover have "kept d ?d" by (rule kept_append)
  moreover have "version_ids ?d (i, cp_version x) = Some (bd_next d)" "open_drafts ?d"
    using 1 by (simp_all add: version_ids_def find_version_def find_append open_drafts_def)
  ultimately show ?case using 1 kept_row(2) [of d ?d k i] by (simp add: Let_def kept_drafts_def)
next
  case (2 d v)
  then show ?case by (simp add: version_ids_def)
next
  case (3 d v)
  let ?d = "d\<lparr>rd_versions := upd_where (\<lambda>r. pv_id r = pv_id v) (\<lambda>r. r\<lparr>pv_effective_from := start\<rparr>) (rd_versions d)\<rparr>"
  have k: "kept d ?d" by (rule kept_update)
  have o: "open_drafts ?d" using 3 by (auto simp: open_drafts_def upd_where_def)
  from 3 show ?case
    using k o kept_row(2) [OF k, of _ i] kept_row(3) [OF k, of "(i, cp_version x)" "pv_id v"]
      update_version_start [OF 3(2)]
    by (simp add: kept_drafts_def version_ids_def)
qed

lemma source_member: "source_by_key d k = Some r \<Longrightarrow> r \<in> set (gd_sources d) \<and> sr_source_key r = k"
  by (auto simp: source_by_key_def find_Some_iff)

lemma does_upsert_source:
  "does kept_drafts (\<lambda>d. open_drafts d \<and> version_ids d k = Some i) (upsert_source_seed now x)
    (\<lambda>r d. (open_drafts d \<and> version_ids d k = Some i) \<and> sr_id r \<in> set (map sr_id (gd_sources d)))"
  unfolding upsert_source_seed_def get_source_by_key_def
proof (rule does_query, goal_cases)
  case (1 d)
  show ?case
  proof (cases "source_by_key d (sx_source_key x)")
    case None
    show ?thesis
      by (simp only: None option.case, rule drafts.does_insert) (use 1 None kept_row(3) [of d _ k i] in
        \<open>auto simp: Let_def kept_drafts_def seeded_source_def intro!: insert_source kept_append\<close>)
  next
    case (Some r)
    have k: "sr_id (reseeded r x) = sr_id r" "sr_source_key (reseeded r x) = sx_source_key x"
      by (simp_all add: reseeded_def seeded_source_def)
    have g: "kept d (set_source (reseeded r x) d)" unfolding set_source_def by (rule kept_append)
    have m: "sr_id r \<in> set (map sr_id (gd_sources (set_source (reseeded r x) d)))"
      using source_member [OF Some] k(1) by (force simp: set_source_def upd_where_def)
    have "does kept_drafts (\<lambda>d'. d' = d) (flush ingest_ok (set_source (reseeded r x)))
        (\<lambda>_ d. (open_drafts d \<and> version_ids d k = Some i) \<and> sr_id r \<in> set (map sr_id (gd_sources d)))"
      by (rule drafts.does_flush) (use 1 g m kept_row(3) [OF g] update_source [of d "reseeded r x" r] k Some in
        \<open>auto simp: kept_drafts_def set_source_def\<close>)
    then show ?thesis by (simp only: Some option.case) (erule drafts.does_bind, rule drafts.does_ret, simp add: k)
  qed
qed

lemma does_seed_source:
  "does kept_drafts (\<lambda>d. open_drafts d \<and> version_ids d k = Some i) (seed_source now c i s summary)
    (\<lambda>_ _. True)"
  unfolding seed_source_def Let_def
proof (rule drafts.does_bind [OF does_upsert_source], rule does_query, goal_cases)
  case (1 r d)
  have v: "i \<in> set (map pv_id (rd_versions d))" using 1 ids_rows(3) by blast
  show ?case
  proof (cases "find_document d i (cs_source_url s)")
    case None
    have "does kept_drafts (\<lambda>d'. d' = d) (create_source_document
           (\<lambda>n. \<lparr>sd_id = n, sd_created_at = now, sd_source_id = Some (sr_id r), sd_ingestion_run_item_id = None,
              sd_program_version_id = Some i, sd_title = cs_document_title s, sd_source_url = cs_source_url s,
              sd_checksum_sha256 = None, sd_raw_storage_uri = None, sd_published_at = None,
              sd_metadata_json = document_metadata c s\<rparr>)) (\<lambda>_ _. True)"
      unfolding create_source_document_def
      by (rule drafts.does_insert) (use 1 None v in
        \<open>auto simp: Let_def kept_drafts_def simp del: set_map intro!: insert_document kept_append\<close>)
    then show ?thesis by (simp only: None option.case) (erule drafts.does_bind, rule drafts.does_ret, simp)
  next
    case (Some doc)
    have "does kept_drafts (\<lambda>d'. d' = d) (flush ingest_ok (\<lambda>d. d\<lparr>gd_documents := upd_where (\<lambda>r. sd_id r = sd_id doc)
           (\<lambda>x. x\<lparr>sd_source_id := Some (sr_id r), sd_title := cs_document_title s,
              sd_metadata_json := document_metadata c s\<rparr>) (gd_documents d)\<rparr>)) (\<lambda>_ _. True)"
      by (rule drafts.does_flush) (use 1 in
        \<open>auto simp: kept_drafts_def simp del: set_map intro!: update_document kept_append\<close>)
    then show ?thesis by (simp only: Some option.case) (erule drafts.does_bind, rule drafts.does_ret, simp)
  qed
qed

lemma does_program_and_sources:
  "does kept_drafts (\<lambda>d. open_drafts d \<and> country_ids d (cx_code c) = Some i)
    (seed_program_and_sources now start c i x s) (\<lambda>_. version_there (cx_code c) (cp_code x) (cp_version x))"
  unfolding seed_program_and_sources_def
proof (rule drafts.does_bind [OF does_seed_program], unfold case_prod_beta, rule drafts.does_bind)
  fix y :: "program \<times> seed_summary"
  let ?C = "\<lambda>d :: 'a ingest_db_scheme. country_ids d (cx_code c) = Some i"
  let ?P = "\<lambda>d :: 'a ingest_db_scheme. program_ids d (i, cp_code x) = Some (pg_id (fst y))"
  let ?V = "\<lambda>v d :: 'a ingest_db_scheme. version_ids d (pg_id (fst y), cp_version x) = Some (pv_id v)"
  have C: "drafts.stable ?C" by (intro stable_of_kept stable_ids)
  show "does kept_drafts (\<lambda>d. (open_drafts d \<and> ?C d) \<and> ?P d) (seed_version now start (pg_id (fst y)) x (snd y))
      (\<lambda>z d. (open_drafts d \<and> ?V (fst z) d) \<and> ?C d \<and> ?P d)"
    by (rule does_conseq [OF drafts.does_frame [OF does_seed_version [of "(i, cp_code x)"] C]]) auto
  fix z :: "program_version \<times> seed_summary"
  have K: "drafts.stable (\<lambda>d. ?C d \<and> ?P d)" by (intro stable_of_kept stable_rules)
  have "drafts.stable (\<lambda>d. open_drafts d \<and> ?V (fst z) d)" by (intro stable_drafts stable_ids)
  then have "does kept_drafts (\<lambda>d. open_drafts d \<and> ?V (fst z) d) (foldO (seed_source now c (pv_id (fst z))) (cp_sources x) (snd z))
      (\<lambda>_ d. (open_drafts d \<and> ?V (fst z) d) \<and> (\<forall>s\<in>set (cp_sources x). True))"
    by (intro drafts.does_foldO does_seed_source) (simp_all add: drafts.stable_def)
  note sources = drafts.does_frame [OF this K]
  show "does kept_drafts (\<lambda>d. (open_drafts d \<and> ?V (fst z) d) \<and> ?C d \<and> ?P d)
      (foldO (seed_source now c (pv_id (fst z))) (cp_sources x) (snd z))
      (\<lambda>_. version_there (cx_code c) (cp_code x) (cp_version x))"
    by (rule does_conseq [OF sources]) (auto simp: version_there_def)
qed

definition catalog_there :: "catalog_country \<Rightarrow> 'z rules_db_scheme \<Rightarrow> bool" where
  "catalog_there c d \<longleftrightarrow> (\<forall>x\<in>set (cx_programs c). version_there (cx_code c) (cp_code x) (cp_version x) d)"

lemma stable_catalog: "adds.stable (catalog_there c)"
  unfolding catalog_there_def [abs_def] by (intro stable_rules stable_there)

lemma does_catalog_country:
  "does kept_drafts open_drafts (seed_catalog_country now start c s) (\<lambda>_. catalog_there c)"
  unfolding seed_catalog_country_def
proof (rule drafts.does_bind [OF does_seed_country], unfold case_prod_beta)
  fix y :: "country \<times> seed_summary"
  have "does kept_drafts (\<lambda>d. open_drafts d \<and> country_ids d (cx_code c) = Some (co_id (fst y)))
      (foldO (seed_program_and_sources now start c (co_id (fst y))) (cx_programs c) (snd y))
      (\<lambda>_ d. (open_drafts d \<and> country_ids d (cx_code c) = Some (co_id (fst y)))
        \<and> (\<forall>x\<in>set (cx_programs c). version_there (cx_code c) (cp_code x) (cp_version x) d))"
    by (intro drafts.does_foldO does_program_and_sources stable_drafts stable_ids stable_of_kept stable_there)
  then show "does kept_drafts (\<lambda>d. open_drafts d \<and> country_ids d (cx_code c) = Some (co_id (fst y)))
      (foldO (seed_program_and_sources now start c (co_id (fst y))) (cx_programs c) (snd y)) (\<lambda>_. catalog_there c)"
    by (rule does_conseq) (simp_all add: catalog_there_def)
qed

lemma does_catalog:
  "does kept_drafts open_drafts (foldO (seed_catalog_country now start) catalog s)
    (\<lambda>_ d. open_drafts d \<and> (\<forall>c\<in>set catalog. catalog_there c d))"
  by (intro drafts.does_foldO does_catalog_country stable_open stable_of_kept stable_catalog)

lemma catalog_run:
  assumes "seedable d" "open_drafts d"
  shows "\<exists>s d'. request (seed_mvp_catalog now catalog) d = (Inr s, d') \<and> seedable d' \<and> kept d d' \<and> open_drafts d'
    \<and> (\<forall>c\<in>set catalog. catalog_there c d')"
proof -
  obtain s t where "foldO (seed_catalog_country now catalog_effective_from) catalog no_summary (begin_txn d) = (Inr s, t)"
    "\<not> aborted t" "seedable (working t)" "kept_drafts d (working t)" "open_drafts (working t)"
    "\<forall>c\<in>set catalog. catalog_there c (working t)"
    by (rule doesE [OF does_catalog, of "begin_txn d"]) (use assms in auto)
  then show ?thesis by (simp add: request_def seed_mvp_catalog_def bindO_def kept_drafts_def)
qed

lemma fixtures_existing:
  assumes "list_all fixture_valid fs" "seedable d"
    and "\<And>f. f \<in> set fs \<Longrightarrow> version_there (fx_country_code f) (fx_program_code f) (fx_version f) d"
  shows "\<exists>d'. seed_fixtures now fs d = (Inr (), d') \<and> seedable d' \<and> same_versions d d'"
proof -
  let ?P = "\<lambda>d. \<forall>f\<in>set fs. version_there (fx_country_code f) (fx_program_code f) (fx_version f) d"
  have P: "fixes_versions.stable ?P" by (intro stable_of_kept stable_rules stable_there)
  have "does same_versions ?P (forO (seed_fixture now) fs) (\<lambda>_ d. ?P d \<and> (\<forall>f\<in>set fs. True))"
    by (rule fixes_versions.does_forO [OF _ P], rule does_conseq [OF does_fixture_existing])
      (use assms(1) in \<open>auto simp: list_all_iff fixes_versions.stable_def\<close>)
  from seed_fixtures_run [OF this assms(2)] assms(3) show ?thesis by auto
qed

text \<open>The shipped fixtures that the initial seeding selects.\<close>

lemma selected: "selected_fixtures MVP_RULE_FIXTURE_COUNTRY_CODES MVP_RULE_FIXTURES
    = [fixture_ca, fixture_pt, fixture_us, fixture_gb, fixture_de]"
  by (simp add: selected_fixtures_def MVP_RULE_FIXTURES_def MVP_RULE_FIXTURE_COUNTRY_CODES_def string_eval)

definition catalog_keys :: "catalog_country list \<Rightarrow> (string \<times> string \<times> string) list" where
  "catalog_keys catalog = [(cx_code c, cp_code x, cp_version x). c \<leftarrow> catalog, x \<leftarrow> cx_programs c]"

lemma shipped_keys:
  "(fx_country_code fixture_ca, fx_program_code fixture_ca, fx_version fixture_ca) \<in> set (catalog_keys MVP_COUNTRY_CATALOG)"
  "(fx_country_code fixture_pt, fx_program_code fixture_pt, fx_version fixture_pt) \<in> set (catalog_keys MVP_COUNTRY_CATALOG)"
  "(fx_country_code fixture_us, fx_program_code fixture_us, fx_version fixture_us) \<in> set (catalog_keys MVP_COUNTRY_CATALOG)"
  "(fx_country_code fixture_gb, fx_program_code fixture_gb, fx_version fixture_gb) \<in> set (catalog_keys MVP_COUNTRY_CATALOG)"
  "(fx_country_code fixture_de, fx_program_code fixture_de, fx_version fixture_de) \<in> set (catalog_keys MVP_COUNTRY_CATALOG)"
  by code_simp+

lemma catalog_there_keys:
  "\<forall>c\<in>set catalog. catalog_there c d \<Longrightarrow> (cc, pc, vc) \<in> set (catalog_keys catalog) \<Longrightarrow> version_there cc pc vc d"
  by (auto simp: catalog_there_def catalog_keys_def)

text \<open>C6. The initial seeding of a well-formed database whose versions are all open-ended drafts (an empty one, say)
  succeeds, and every version is still a draft: the catalog creates the versions of its programs as drafts, and the
  rule fixtures, seeded after it, find these versions and leave their status alone. So no program has a version in force
  at any time, and no assessment can be computed before an administrator activates one.\<close>

theorem initial_seed_leaves_drafts:
  assumes "seedable d" "open_drafts d"
  shows "\<exists>s d'. run_initial_seed now d = (Inr (s, 5), d') \<and> seedable d' \<and> kept d d'
    \<and> (\<forall>v\<in>set (rd_versions d'). pv_status v = draft) \<and> (\<forall>p t. versions_in_force d' p t = [])"
proof -
  obtain s d1 where 1: "run_catalog_seed now d = (Inr s, d1)" "seedable d1" "kept d d1" "open_drafts d1"
    "\<forall>c\<in>set MVP_COUNTRY_CATALOG. catalog_there c d1"
    using catalog_run [OF assms] unfolding run_catalog_seed_def by blast
  let ?fs = "[fixture_ca, fixture_pt, fixture_us, fixture_gb, fixture_de]"
  have "version_there (fx_country_code f) (fx_program_code f) (fx_version f) d1" if "f \<in> set ?fs" for f
    using that shipped_keys [THEN catalog_there_keys [OF 1(5)]] by auto
  then obtain d2 where 2: "seed_fixtures now ?fs d1 = (Inr (), d2)" "seedable d2" "same_versions d1 d2"
    using fixtures_existing [OF _ 1(2), of ?fs] by (auto simp: shipped_valid)
  have drafts: "\<forall>v\<in>set (rd_versions d2). pv_status v = draft" using 1(4) 2(3) by (simp add: same_versions_def open_drafts_def)
  have "MVP_RULE_FIXTURE_COUNTRY_CODES \<noteq> {}" "card MVP_RULE_FIXTURE_COUNTRY_CODES = 5"
    by (simp_all add: MVP_RULE_FIXTURE_COUNTRY_CODES_def)
  then have "run_initial_seed now d = (Inr (s, 5), d2)"
    using 1(1) 2(1) by (simp add: run_initial_seed_def seed_for_countries_def selected bindO_def)
  moreover have "kept d d2" using 1(3) 2(3) kept_trans by (auto simp: same_versions_def)
  moreover have "versions_in_force d2 p t = []" for p t using drafts by (auto simp: versions_in_force_def filter_empty_conv)
  ultimately show ?thesis using 2(2) drafts by blast
qed

lemma initial_seed_leaves_drafts_witness:
  "\<exists>s d'. run_initial_seed 5 empty_ingest_db = (Inr (s, 5), d') \<and> seedable d' \<and> kept empty_ingest_db d'
    \<and> (\<forall>v\<in>set (rd_versions d'). pv_status v = draft) \<and> (\<forall>p t. versions_in_force d' p t = [])"
  by (rule initial_seed_leaves_drafts [OF empty_seedable]) (simp add: open_drafts_def empty_ingest_db_def)

end
