(* ===== verification/Schema.thy ===== *)
theory Schema
  imports Prelude
begin

text \<open>
  A PostgreSQL schema as the migrations see it, and what each of their statements does to it: types, tables with their
  columns, constraints and row policies, indexes, functions and triggers. A statement that the server refuses gives
  \<open>None\<close>. A run of \<open>alembic upgrade\<close> is one transaction (\<open>src/app/db/migrations/env.py\<close>), so that a run
  either applies all of its statements or none.
\<close>

section \<open>Objects\<close>

text \<open>An enumeration of SQLAlchemy carries its name, its values, and whether the creation of a table with a column
  of the type creates the type.\<close>

datatype col_type =
  t_uuid | t_string nat | t_text | t_boolean | t_integer | t_numeric nat nat | t_timestamptz | t_jsonb | t_json
  | t_tstzrange | t_enum string "string list" bool

datatype column =
  Column (cl_name: string) (cl_type: col_type) (cl_nullable: bool) (cl_default: "string option")
    (cl_computed: "string option")

datatype constr =
  primary_key "string list"
| unique_key string "string list"
| foreign_key "string option" "string list" string "string list" string
| check_rule string string
| exclude_rule string "(string \<times> string) list" string

text \<open>The conditions of the row policies, by what they compare: nothing (\<open>true\<close>, \<open>false\<close>), the role alone, or
  the role or the owners of the row, found through the given path.\<close>

datatype policy_rule =
  always | never | admin_only | owner_column | via_assessment | via_result | via_roadmap | via_job

record table =
  tb_name :: string
  tb_columns :: "column list"
  tb_constraints :: "constr list"
  tb_rls :: bool
  tb_forced :: bool
  tb_policies :: "(string \<times> policy_rule) list"

record index =
  ix_name :: string
  ix_table :: string
  ix_columns :: "string list"
  ix_unique :: bool

text \<open>The types that the current transaction created and the values that it added to types are part of the state.\<close>

record schema =
  sc_types :: "(string \<times> string list) list"
  sc_tables :: "table list"
  sc_indexes :: "index list"
  sc_functions :: "string list"
  sc_triggers :: "(string \<times> string \<times> string) list"
  sc_extensions :: "string list"
  sc_new_types :: "string list"
  sc_new_values :: "(string \<times> string) list"

definition empty_schema :: schema where
  "empty_schema =
     \<lparr>sc_types = [], sc_tables = [], sc_indexes = [], sc_functions = [], sc_triggers = [], sc_extensions = [],
      sc_new_types = [], sc_new_values = []\<rparr>"

section \<open>Statements\<close>

datatype ddl =
  create_type string "string list"
| drop_type string
| add_enum_value string string
| create_table string "column list" "constr list"
| drop_table string
| create_index string string "string list" bool
| drop_index string
| add_column string column
| drop_column string string
| set_default string string string
| add_constraint string constr
| drop_constraint string string
| create_function string
| drop_function string
| create_trigger string string string
| drop_trigger string string
| create_extension string
| enable_rls string
| force_rls string
| create_policy string string policy_rule
| ensure_policy string string policy_rule
| drop_policy string string

definition type_values :: "schema \<Rightarrow> string \<Rightarrow> string list option" where
  "type_values s n = map_of (sc_types s) n"

definition table_of :: "schema \<Rightarrow> string \<Rightarrow> table option" where
  "table_of s n = find (\<lambda>t. tb_name t = n) (sc_tables s)"

definition column_names :: "table \<Rightarrow> string list" where
  "column_names t = map cl_name (tb_columns t)"

fun constr_name :: "constr \<Rightarrow> string option" where
  "constr_name (primary_key cs) = None"
| "constr_name (unique_key n cs) = Some n"
| "constr_name (foreign_key n cs t rs d) = n"
| "constr_name (check_rule n e) = Some n"
| "constr_name (exclude_rule n es w) = Some n"

fun constr_columns :: "constr \<Rightarrow> string list" where
  "constr_columns (primary_key cs) = cs"
| "constr_columns (unique_key n cs) = cs"
| "constr_columns (foreign_key n cs t rs d) = cs"
| "constr_columns (check_rule n e) = []"
| "constr_columns (exclude_rule n es w) = map fst es"

text \<open>A constraint can be added to a table with these columns.\<close>

fun constr_fits :: "schema \<Rightarrow> string list \<Rightarrow> constr \<Rightarrow> bool" where
  "constr_fits s cols (foreign_key n cs t rs d) \<longleftrightarrow>
     list_all (\<lambda>c. c \<in> set cols) cs
     \<and> (case table_of s t of None \<Rightarrow> False | Some r \<Rightarrow> list_all (\<lambda>c. c \<in> set (column_names r)) rs)"
| "constr_fits s cols k \<longleftrightarrow> list_all (\<lambda>c. c \<in> set cols) (constr_columns k)"

text \<open>The type of a column exists, and its default is a value of the type that may be used: one that was added in this
  transaction may not, except (in the servers where \<open>lenient\<close> holds) when the type is new as well.\<close>

definition enum_value_usable :: "bool \<Rightarrow> schema \<Rightarrow> string \<Rightarrow> string \<Rightarrow> bool" where
  "enum_value_usable lenient s n v \<longleftrightarrow>
     (case type_values s n of
        None \<Rightarrow> False
      | Some vs \<Rightarrow> v \<in> set vs \<and> ((n, v) \<notin> set (sc_new_values s) \<or> lenient \<and> n \<in> set (sc_new_types s)))"

definition default_usable :: "bool \<Rightarrow> schema \<Rightarrow> col_type \<Rightarrow> string option \<Rightarrow> bool" where
  "default_usable lenient s ty d \<longleftrightarrow>
     (case ty of
        t_enum n vs create \<Rightarrow>
          type_values s n \<noteq> None \<and> (case d of None \<Rightarrow> True | Some v \<Rightarrow> enum_value_usable lenient s n v)
      | _ \<Rightarrow> True)"

definition add_type :: "string \<Rightarrow> string list \<Rightarrow> schema \<Rightarrow> schema" where
  "add_type n vs s = s\<lparr>sc_types := sc_types s @ [(n, vs)], sc_new_types := sc_new_types s @ [n]\<rparr>"

text \<open>The types that a new table brings along; one that exists is an error.\<close>

fun create_column_types :: "column list \<Rightarrow> schema \<Rightarrow> schema option" where
  "create_column_types [] s = Some s"
| "create_column_types (c # cs) s =
     (case cl_type c of
        t_enum n vs True \<Rightarrow>
          if type_values s n \<noteq> None then None else create_column_types cs (add_type n vs s)
      | _ \<Rightarrow> create_column_types cs s)"

definition type_used :: "schema \<Rightarrow> string \<Rightarrow> bool" where
  "type_used s n \<longleftrightarrow>
     list_ex (\<lambda>t. list_ex (\<lambda>c. case cl_type c of t_enum m vs create \<Rightarrow> m = n | _ \<Rightarrow> False) (tb_columns t)) (sc_tables s)"

fun references :: "constr \<Rightarrow> string \<Rightarrow> bool" where
  "references (foreign_key n cs t rs d) r \<longleftrightarrow> t = r"
| "references k r \<longleftrightarrow> False"

fun references_column :: "constr \<Rightarrow> string \<Rightarrow> string \<Rightarrow> bool" where
  "references_column (foreign_key n cs t rs d) r c \<longleftrightarrow> t = r \<and> c \<in> set rs"
| "references_column k r c \<longleftrightarrow> False"

text \<open>The functions that the conditions of the policies call.\<close>

fun rule_functions :: "policy_rule \<Rightarrow> string list" where
  "rule_functions always = []"
| "rule_functions never = []"
| "rule_functions admin_only = [''app_current_user_role'']"
| "rule_functions r = [''app_current_user_role'', ''app_current_user_id'']"

definition function_used :: "schema \<Rightarrow> string \<Rightarrow> bool" where
  "function_used s f \<longleftrightarrow>
     list_ex (\<lambda>(n, t, g). g = f) (sc_triggers s)
     \<or> list_ex (\<lambda>t. list_ex (\<lambda>(n, r). f \<in> set (rule_functions r)) (tb_policies t)) (sc_tables s)"

definition change_table :: "schema \<Rightarrow> string \<Rightarrow> (table \<Rightarrow> table option) \<Rightarrow> schema option" where
  "change_table s n f =
     (case table_of s n of
        None \<Rightarrow> None
      | Some t \<Rightarrow> map_option (\<lambda>t'. s\<lparr>sc_tables := map (\<lambda>x. if tb_name x = n then t' else x) (sc_tables s)\<rparr>) (f t))"

fun apply_ddl :: "bool \<Rightarrow> ddl \<Rightarrow> schema \<Rightarrow> schema option" where
  "apply_ddl l (create_type n vs) s = Some (if type_values s n \<noteq> None then s else add_type n vs s)"
| "apply_ddl l (drop_type n) s =
     (if type_used s n then None
      else Some (s\<lparr>sc_types := filter (\<lambda>(m, vs). m \<noteq> n) (sc_types s), sc_new_types := filter (\<lambda>m. m \<noteq> n) (sc_new_types s),
        sc_new_values := filter (\<lambda>(m, v). m \<noteq> n) (sc_new_values s)\<rparr>))"
| "apply_ddl l (add_enum_value n v) s =
     (case type_values s n of
        None \<Rightarrow> None
      | Some vs \<Rightarrow>
          if v \<in> set vs then Some s
          else Some (s\<lparr>sc_types := map (\<lambda>(m, ws). if m = n then (m, ws @ [v]) else (m, ws)) (sc_types s),
            sc_new_values := sc_new_values s @ [(n, v)]\<rparr>))"
| "apply_ddl l (create_table n cols cs) s =
     (if table_of s n \<noteq> None \<or> \<not> distinct (map cl_name cols) then None
      else case create_column_types cols s of
        None \<Rightarrow> None
      | Some s1 \<Rightarrow>
          let t = \<lparr>tb_name = n, tb_columns = cols, tb_constraints = cs, tb_rls = False, tb_forced = False,
                tb_policies = []\<rparr>;
              s2 = s1\<lparr>sc_tables := sc_tables s1 @ [t]\<rparr>
          in if list_all (\<lambda>c. default_usable l s1 (cl_type c) (cl_default c)) cols
               \<and> list_all (constr_fits s2 (map cl_name cols)) cs then Some s2 else None)"
| "apply_ddl l (drop_table n) s =
     (if table_of s n = None
         \<or> list_ex (\<lambda>t. tb_name t \<noteq> n \<and> list_ex (\<lambda>k. references k n) (tb_constraints t)) (sc_tables s) then None
      else Some (s\<lparr>sc_tables := filter (\<lambda>t. tb_name t \<noteq> n) (sc_tables s),
        sc_indexes := filter (\<lambda>i. ix_table i \<noteq> n) (sc_indexes s),
        sc_triggers := filter (\<lambda>(x, t, f). t \<noteq> n) (sc_triggers s)\<rparr>))"
| "apply_ddl l (create_index n t cols u) s =
     (case table_of s t of
        None \<Rightarrow> None
      | Some r \<Rightarrow>
          if list_ex (\<lambda>i. ix_name i = n) (sc_indexes s) \<or> \<not> list_all (\<lambda>c. c \<in> set (column_names r)) cols then None
          else Some (s\<lparr>sc_indexes := sc_indexes s @ [\<lparr>ix_name = n, ix_table = t, ix_columns = cols, ix_unique = u\<rparr>]\<rparr>))"
| "apply_ddl l (drop_index n) s =
     (if list_ex (\<lambda>i. ix_name i = n) (sc_indexes s)
      then Some (s\<lparr>sc_indexes := filter (\<lambda>i. ix_name i \<noteq> n) (sc_indexes s)\<rparr>) else None)"
| "apply_ddl l (add_column n c) s =
     change_table s n (\<lambda>t.
       if cl_name c \<in> set (column_names t) \<or> \<not> default_usable l s (cl_type c) (cl_default c) then None
       else Some (t\<lparr>tb_columns := tb_columns t @ [c]\<rparr>))"
| "apply_ddl l (drop_column n c) s =
     (if list_ex (\<lambda>t. tb_name t \<noteq> n \<and> list_ex (\<lambda>k. references_column k n c) (tb_constraints t)) (sc_tables s) then None
      else map_option (\<lambda>s. s\<lparr>sc_indexes := filter (\<lambda>i. ix_table i \<noteq> n \<or> c \<notin> set (ix_columns i)) (sc_indexes s)\<rparr>)
        (change_table s n (\<lambda>t.
           if c \<notin> set (column_names t) then None
           else Some (t\<lparr>tb_columns := filter (\<lambda>x. cl_name x \<noteq> c) (tb_columns t),
             tb_constraints := filter (\<lambda>k. c \<notin> set (constr_columns k)) (tb_constraints t)\<rparr>))))"
| "apply_ddl l (set_default n c v) s =
     change_table s n (\<lambda>t.
       if list_ex (\<lambda>x. cl_name x = c \<and> default_usable l s (cl_type x) (Some v)) (tb_columns t)
       then Some (t\<lparr>tb_columns := map (\<lambda>x. if cl_name x = c
         then Column c (cl_type x) (cl_nullable x) (Some v) (cl_computed x) else x) (tb_columns t)\<rparr>)
       else None)"
| "apply_ddl l (add_constraint n k) s =
     change_table s n (\<lambda>t.
       if constr_fits s (column_names t) k \<and> \<not> list_ex (\<lambda>x. constr_name k \<noteq> None \<and> constr_name x = constr_name k) (tb_constraints t)
       then Some (t\<lparr>tb_constraints := tb_constraints t @ [k]\<rparr>) else None)"
| "apply_ddl l (drop_constraint n k) s =
     change_table s n (\<lambda>t.
       if list_ex (\<lambda>x. constr_name x = Some k) (tb_constraints t)
       then Some (t\<lparr>tb_constraints := filter (\<lambda>x. constr_name x \<noteq> Some k) (tb_constraints t)\<rparr>) else None)"
| "apply_ddl l (create_function f) s =
     Some (if f \<in> set (sc_functions s) then s else s\<lparr>sc_functions := sc_functions s @ [f]\<rparr>)"
| "apply_ddl l (drop_function f) s =
     (if f \<notin> set (sc_functions s) then Some s
      else if function_used s f then None
      else Some (s\<lparr>sc_functions := filter (\<lambda>g. g \<noteq> f) (sc_functions s)\<rparr>))"
| "apply_ddl l (create_trigger n t f) s =
     (if table_of s t = None \<or> f \<notin> set (sc_functions s) \<or> list_ex (\<lambda>(m, u, g). m = n \<and> u = t) (sc_triggers s) then None
      else Some (s\<lparr>sc_triggers := sc_triggers s @ [(n, t, f)]\<rparr>))"
| "apply_ddl l (drop_trigger n t) s =
     (if table_of s t = None then None
      else Some (s\<lparr>sc_triggers := filter (\<lambda>(m, u, g). \<not> (m = n \<and> u = t)) (sc_triggers s)\<rparr>))"
| "apply_ddl l (create_extension e) s =
     Some (if e \<in> set (sc_extensions s) then s else s\<lparr>sc_extensions := sc_extensions s @ [e]\<rparr>)"
| "apply_ddl l (enable_rls n) s = change_table s n (\<lambda>t. Some (t\<lparr>tb_rls := True\<rparr>))"
| "apply_ddl l (force_rls n) s = change_table s n (\<lambda>t. Some (t\<lparr>tb_forced := True\<rparr>))"
| "apply_ddl l (create_policy n p r) s =
     (if list_all (\<lambda>f. f \<in> set (sc_functions s)) (rule_functions r)
      then change_table s n (\<lambda>t.
        if list_ex (\<lambda>(q, x). q = p) (tb_policies t) then None else Some (t\<lparr>tb_policies := tb_policies t @ [(p, r)]\<rparr>))
      else None)"
| "apply_ddl l (ensure_policy n p r) s =
     change_table s n (\<lambda>t.
       if list_ex (\<lambda>(q, x). q = p) (tb_policies t) then Some t else Some (t\<lparr>tb_policies := tb_policies t @ [(p, r)]\<rparr>))"
| "apply_ddl l (drop_policy n p) s =
     change_table s n (\<lambda>t. Some (t\<lparr>tb_policies := filter (\<lambda>(q, x). q \<noteq> p) (tb_policies t)\<rparr>))"

fun run_ddl :: "bool \<Rightarrow> ddl list \<Rightarrow> schema \<Rightarrow> schema option" where
  "run_ddl l [] s = Some s"
| "run_ddl l (x # xs) s = Option.bind (apply_ddl l x s) (run_ddl l xs)"

text \<open>A transaction: the new types and values become usable when it ends.\<close>

definition settled :: "schema \<Rightarrow> schema" where
  "settled s = s\<lparr>sc_new_types := [], sc_new_values := []\<rparr>"

definition run_migration :: "bool \<Rightarrow> ddl list \<Rightarrow> schema \<Rightarrow> schema option" where
  "run_migration l xs s = map_option settled (run_ddl l xs s)"

lemma run_ddl_append: "run_ddl l (xs @ ys) s = Option.bind (run_ddl l xs s) (run_ddl l ys)"
  by (induction xs arbitrary: s) (auto split: bind_split)

end
