(* ===== verification/Migrations.thy ===== *)
theory Migrations
  imports Schema
begin

text \<open>
  The migrations, \<open>src/app/db/migrations/versions\<close>: for each revision the statements of its \<open>upgrade\<close> and of
  its \<open>downgrade\<close>, in their order, one definition per table where a revision creates many.
\<close>

section \<open>20260224 0001\<close>

definition upgrade_0001 :: "ddl list" where
  "upgrade_0001 =
     [create_table ''users''
       [Column ''id'' t_uuid False None None,
        Column ''email'' (t_string 320) False None None,
        Column ''password_hash'' (t_string 255) False None None,
        Column ''is_active'' t_boolean False None None,
        Column ''created_at'' t_timestamptz False None None,
        Column ''updated_at'' t_timestamptz False None None]
       [primary_key [''id'']],
      create_index ''ix_users_email'' ''users''
       [''email''] True]"

definition downgrade_0001 :: "ddl list" where
  "downgrade_0001 =
     [drop_index ''ix_users_email'',
      drop_table ''users'']"

section \<open>20260224 0002\<close>

definition program_version_status_type :: col_type where
  "program_version_status_type = t_enum ''program_version_status''
     [''draft'', ''active'', ''archived''] True"

definition rule_group_match_operator_type :: col_type where
  "rule_group_match_operator_type = t_enum ''rule_group_match_operator''
     [''all'', ''any''] True"

definition rule_operator_type :: col_type where
  "rule_operator_type = t_enum ''rule_operator''
     [''eq'', ''ne'', ''gt'', ''gte'', ''lt'', ''lte'', ''between'', ''in'', ''not_in'', ''exists''] True"

definition assessment_status_type :: col_type where
  "assessment_status_type = t_enum ''assessment_status''
     [''pending'', ''running'', ''completed'', ''failed'', ''canceled''] True"

definition roadmap_status_type :: col_type where
  "roadmap_status_type = t_enum ''roadmap_status''
     [''draft'', ''published'', ''archived''] True"

definition plan_interval_type :: col_type where
  "plan_interval_type = t_enum ''plan_interval''
     [''month'', ''year''] True"

definition subscription_status_type :: col_type where
  "subscription_status_type = t_enum ''subscription_status''
     [''trialing'', ''active'', ''past_due'', ''canceled'', ''expired''] True"

definition entitlement_window_type :: col_type where
  "entitlement_window_type = t_enum ''entitlement_window''
     [''daily'', ''monthly'', ''lifetime''] True"

definition upgrade_0002_start :: "ddl list" where
  "upgrade_0002_start =
     [create_extension ''btree_gist'']"

definition upgrade_0002_countries :: "ddl list" where
  "upgrade_0002_countries =
     [create_table ''countries''
       [Column ''id'' t_uuid False None None,
        Column ''code'' (t_string 2) False None None,
        Column ''name'' (t_string 120) False None None,
        Column ''is_active'' t_boolean False (Some ''true'') None,
        Column ''created_at'' t_timestamptz False (Some ''now()'') None]
       [primary_key [''id'']],
      create_index ''ix_countries_code'' ''countries''
       [''code''] True]"

definition upgrade_0002_immigration_programs :: "ddl list" where
  "upgrade_0002_immigration_programs =
     [create_table ''immigration_programs''
       [Column ''id'' t_uuid False None None,
        Column ''country_id'' t_uuid False None None,
        Column ''code'' (t_string 64) False None None,
        Column ''name'' (t_string 160) False None None,
        Column ''description'' t_text True None None,
        Column ''is_active'' t_boolean False (Some ''true'') None,
        Column ''created_at'' t_timestamptz False (Some ''now()'') None]
       [foreign_key None [''country_id''] ''countries'' [''id''] ''RESTRICT'',
        primary_key [''id''],
        unique_key ''uq_immigration_programs_country_code'' [''country_id'', ''code'']],
      create_index ''ix_immigration_programs_country_active'' ''immigration_programs''
       [''country_id'', ''is_active''] False]"

definition upgrade_0002_program_versions :: "ddl list" where
  "upgrade_0002_program_versions =
     [create_table ''program_versions''
       [Column ''id'' t_uuid False None None,
        Column ''program_id'' t_uuid False None None,
        Column ''version'' (t_string 32) False None None,
        Column ''status'' program_version_status_type False (Some ''draft'') None,
        Column ''effective_from'' t_timestamptz False None None,
        Column ''effective_to'' t_timestamptz True None None,
        Column ''effective_period'' t_tstzrange False None (Some (''tstzrange(effective_from, effective_to, '' @
          [CHR 0x27] @ ''[)'' @ [CHR 0x27] @ '')'')),
        Column ''created_at'' t_timestamptz False (Some ''now()'') None]
       [check_rule ''ck_program_versions_effective_range'' ''effective_to IS NULL OR effective_to > effective_from'',
        foreign_key None [''program_id''] ''immigration_programs'' [''id''] ''CASCADE'',
        primary_key [''id''],
        unique_key ''uq_program_versions_program_version'' [''program_id'', ''version'']],
      create_index ''ix_program_versions_program_status_effective_from'' ''program_versions''
       [''program_id'', ''status'', ''effective_from''] False,
      add_constraint ''program_versions''
       (exclude_rule ''ex_program_versions_active_no_overlap'' [(''program_id'', ''=''), (''effective_period'',
         ''&&'')] (''status = '' @ [CHR 0x27] @ ''active'' @ [CHR 0x27]))]"

definition upgrade_0002_rule_groups :: "ddl list" where
  "upgrade_0002_rule_groups =
     [create_table ''rule_groups''
       [Column ''id'' t_uuid False None None,
        Column ''program_version_id'' t_uuid False None None,
        Column ''code'' (t_string 64) False None None,
        Column ''name'' (t_string 160) False None None,
        Column ''description'' t_text True None None,
        Column ''priority'' t_integer False (Some ''100'') None,
        Column ''match_operator'' rule_group_match_operator_type False (Some ''all'') None,
        Column ''is_active'' t_boolean False (Some ''true'') None,
        Column ''created_at'' t_timestamptz False (Some ''now()'') None]
       [foreign_key None [''program_version_id''] ''program_versions'' [''id''] ''CASCADE'',
        primary_key [''id''],
        unique_key ''uq_rule_groups_program_version_code'' [''program_version_id'', ''code'']],
      create_index ''ix_rule_groups_program_version_priority'' ''rule_groups''
       [''program_version_id'', ''priority''] False]"

definition upgrade_0002_rule_conditions :: "ddl list" where
  "upgrade_0002_rule_conditions =
     [create_table ''rule_conditions''
       [Column ''id'' t_uuid False None None,
        Column ''rule_group_id'' t_uuid False None None,
        Column ''field_key'' (t_string 120) False None None,
        Column ''operator'' rule_operator_type False None None,
        Column ''value_json'' t_jsonb False None None,
        Column ''condition_order'' t_integer False (Some ''1'') None,
        Column ''is_required'' t_boolean False (Some ''true'') None,
        Column ''created_at'' t_timestamptz False (Some ''now()'') None]
       [foreign_key None [''rule_group_id''] ''rule_groups'' [''id''] ''CASCADE'',
        primary_key [''id'']],
      create_index ''ix_rule_conditions_group_field_operator'' ''rule_conditions''
       [''rule_group_id'', ''field_key'', ''operator''] False,
      create_index ''ix_rule_conditions_value_json_gin'' ''rule_conditions''
       [''value_json''] False]"

definition upgrade_0002_rule_outcomes :: "ddl list" where
  "upgrade_0002_rule_outcomes =
     [create_table ''rule_outcomes''
       [Column ''id'' t_uuid False None None,
        Column ''rule_group_id'' t_uuid False None None,
        Column ''score_delta'' (t_numeric 8 2) False (Some ''0'') None,
        Column ''is_blocking'' t_boolean False (Some ''false'') None,
        Column ''explanation_message'' t_text False None None,
        Column ''outcome_code'' (t_string 64) True None None,
        Column ''created_at'' t_timestamptz False (Some ''now()'') None]
       [foreign_key None [''rule_group_id''] ''rule_groups'' [''id''] ''CASCADE'',
        primary_key [''id'']],
      create_index ''ix_rule_outcomes_group_blocking'' ''rule_outcomes''
       [''rule_group_id'', ''is_blocking''] False]"

definition upgrade_0002_source_documents :: "ddl list" where
  "upgrade_0002_source_documents =
     [create_table ''source_documents''
       [Column ''id'' t_uuid False None None,
        Column ''program_version_id'' t_uuid True None None,
        Column ''title'' (t_string 255) False None None,
        Column ''source_url'' t_text False None None,
        Column ''checksum_sha256'' (t_string 64) True None None,
        Column ''raw_storage_uri'' t_text True None None,
        Column ''published_at'' t_timestamptz True None None,
        Column ''metadata_json'' t_jsonb False (Some ([CHR 0x27] @ ''{}'' @ [CHR 0x27] @ ''::jsonb'')) None,
        Column ''created_at'' t_timestamptz False (Some ''now()'') None]
       [foreign_key None [''program_version_id''] ''program_versions'' [''id''] ''SET NULL'',
        primary_key [''id'']],
      create_index ''ix_source_documents_program_version_published_at'' ''source_documents''
       [''program_version_id'', ''published_at''] False,
      create_index ''ix_source_documents_checksum_sha256'' ''source_documents''
       [''checksum_sha256''] False]"

definition upgrade_0002_source_extractions :: "ddl list" where
  "upgrade_0002_source_extractions =
     [create_table ''source_extractions''
       [Column ''id'' t_uuid False None None,
        Column ''source_document_id'' t_uuid False None None,
        Column ''extraction_version'' (t_string 32) False None None,
        Column ''extracted_text'' t_text True None None,
        Column ''structured_data_json'' t_jsonb False (Some ([CHR 0x27] @ ''{}'' @ [CHR 0x27] @ ''::jsonb'')) None,
        Column ''confidence_score'' (t_numeric 5 4) True None None,
        Column ''created_at'' t_timestamptz False (Some ''now()'') None]
       [foreign_key None [''source_document_id''] ''source_documents'' [''id''] ''CASCADE'',
        primary_key [''id''],
        unique_key ''uq_source_extractions_document_version'' [''source_document_id'', ''extraction_version'']],
      create_index ''ix_source_extractions_document_created_at'' ''source_extractions''
       [''source_document_id'', ''created_at''] False]"

definition upgrade_0002_user_profile_snapshots :: "ddl list" where
  "upgrade_0002_user_profile_snapshots =
     [create_table ''user_profile_snapshots''
       [Column ''id'' t_uuid False None None,
        Column ''user_id'' t_uuid False None None,
        Column ''snapshot_version'' t_integer False None None,
        Column ''profile_json'' t_jsonb False None None,
        Column ''profile_hash'' (t_string 64) False None None,
        Column ''created_at'' t_timestamptz False (Some ''now()'') None]
       [foreign_key None [''user_id''] ''users'' [''id''] ''CASCADE'',
        primary_key [''id''],
        unique_key ''uq_profile_snapshots_user_version'' [''user_id'', ''snapshot_version'']],
      create_index ''ix_user_profile_snapshots_profile_hash'' ''user_profile_snapshots''
       [''profile_hash''] False,
      create_index ''ix_user_profile_snapshots_user_created_at'' ''user_profile_snapshots''
       [''user_id'', ''created_at''] False,
      create_function ''prevent_user_profile_snapshot_update'',
      create_trigger ''trg_user_profile_snapshots_immutable'' ''user_profile_snapshots''
        ''prevent_user_profile_snapshot_update'']"

definition upgrade_0002_assessments :: "ddl list" where
  "upgrade_0002_assessments =
     [create_table ''assessments''
       [Column ''id'' t_uuid False None None,
        Column ''user_id'' t_uuid False None None,
        Column ''program_id'' t_uuid False None None,
        Column ''profile_snapshot_id'' t_uuid False None None,
        Column ''idempotency_key'' (t_string 128) False None None,
        Column ''status'' assessment_status_type False (Some ''pending'') None,
        Column ''requested_at'' t_timestamptz False None None,
        Column ''completed_at'' t_timestamptz True None None,
        Column ''created_at'' t_timestamptz False (Some ''now()'') None]
       [foreign_key None [''profile_snapshot_id''] ''user_profile_snapshots'' [''id''] ''RESTRICT'',
        foreign_key None [''program_id''] ''immigration_programs'' [''id''] ''RESTRICT'',
        foreign_key None [''user_id''] ''users'' [''id''] ''CASCADE'',
        primary_key [''id''],
        unique_key ''uq_assessments_user_idempotency_key'' [''user_id'', ''idempotency_key'']],
      create_index ''ix_assessments_user_status_requested_at'' ''assessments''
       [''user_id'', ''status'', ''requested_at''] False]"

definition upgrade_0002_assessment_results :: "ddl list" where
  "upgrade_0002_assessment_results =
     [create_table ''assessment_results''
       [Column ''id'' t_uuid False None None,
        Column ''assessment_id'' t_uuid False None None,
        Column ''program_version_id'' t_uuid False None None,
        Column ''rules_version_hash'' (t_string 64) False None None,
        Column ''algorithm_version'' (t_string 32) False None None,
        Column ''total_score'' (t_numeric 8 2) False None None,
        Column ''is_eligible'' t_boolean False None None,
        Column ''computed_at'' t_timestamptz False None None,
        Column ''created_at'' t_timestamptz False (Some ''now()'') None]
       [foreign_key None [''assessment_id''] ''assessments'' [''id''] ''CASCADE'',
        foreign_key None [''program_version_id''] ''program_versions'' [''id''] ''RESTRICT'',
        primary_key [''id''],
        unique_key ''uq_assessment_results_assessment_id'' [''assessment_id'']],
      create_index ''ix_assessment_results_program_version_hash'' ''assessment_results''
       [''program_version_id'', ''rules_version_hash''] False]"

definition upgrade_0002_assessment_result_items :: "ddl list" where
  "upgrade_0002_assessment_result_items =
     [create_table ''assessment_result_items''
       [Column ''id'' t_uuid False None None,
        Column ''assessment_result_id'' t_uuid False None None,
        Column ''rule_group_id'' t_uuid True None None,
        Column ''rule_condition_id'' t_uuid True None None,
        Column ''rule_outcome_id'' t_uuid True None None,
        Column ''applied'' t_boolean False None None,
        Column ''score_delta'' (t_numeric 8 2) False None None,
        Column ''explanation_message'' t_text False None None,
        Column ''audit_payload_json'' t_jsonb False (Some ([CHR 0x27] @ ''{}'' @ [CHR 0x27] @ ''::jsonb'')) None,
        Column ''created_at'' t_timestamptz False (Some ''now()'') None]
       [foreign_key None [''assessment_result_id''] ''assessment_results'' [''id''] ''CASCADE'',
        foreign_key None [''rule_condition_id''] ''rule_conditions'' [''id''] ''SET NULL'',
        foreign_key None [''rule_group_id''] ''rule_groups'' [''id''] ''SET NULL'',
        foreign_key None [''rule_outcome_id''] ''rule_outcomes'' [''id''] ''SET NULL'',
        primary_key [''id'']],
      create_index ''ix_assessment_result_items_result_rule_outcome'' ''assessment_result_items''
       [''assessment_result_id'', ''rule_outcome_id''] False]"

definition upgrade_0002_roadmaps :: "ddl list" where
  "upgrade_0002_roadmaps =
     [create_table ''roadmaps''
       [Column ''id'' t_uuid False None None,
        Column ''user_id'' t_uuid False None None,
        Column ''assessment_result_id'' t_uuid False None None,
        Column ''roadmap_schema_version'' (t_string 16) False None None,
        Column ''status'' roadmap_status_type False (Some ''draft'') None,
        Column ''summary'' t_text False None None,
        Column ''created_at'' t_timestamptz False (Some ''now()'') None]
       [foreign_key None [''assessment_result_id''] ''assessment_results'' [''id''] ''RESTRICT'',
        foreign_key None [''user_id''] ''users'' [''id''] ''CASCADE'',
        primary_key [''id'']],
      create_index ''ix_roadmaps_user_created_at'' ''roadmaps''
       [''user_id'', ''created_at''] False]"

definition upgrade_0002_roadmap_steps :: "ddl list" where
  "upgrade_0002_roadmap_steps =
     [create_table ''roadmap_steps''
       [Column ''id'' t_uuid False None None,
        Column ''roadmap_id'' t_uuid False None None,
        Column ''step_order'' t_integer False None None,
        Column ''title'' (t_string 180) False None None,
        Column ''description'' t_text False None None,
        Column ''related_gap_json'' t_jsonb False (Some ([CHR 0x27] @ ''{}'' @ [CHR 0x27] @ ''::jsonb'')) None,
        Column ''is_required'' t_boolean False (Some ''true'') None,
        Column ''eta_weeks'' t_integer True None None,
        Column ''created_at'' t_timestamptz False (Some ''now()'') None]
       [foreign_key None [''roadmap_id''] ''roadmaps'' [''id''] ''CASCADE'',
        primary_key [''id''],
        unique_key ''uq_roadmap_steps_order'' [''roadmap_id'', ''step_order'']]]"

definition upgrade_0002_plans :: "ddl list" where
  "upgrade_0002_plans =
     [create_table ''plans''
       [Column ''id'' t_uuid False None None,
        Column ''code'' (t_string 32) False None None,
        Column ''name'' (t_string 120) False None None,
        Column ''description'' t_text True None None,
        Column ''price_cents'' t_integer False (Some ''0'') None,
        Column ''currency'' (t_string 3) False (Some ''BRL'') None,
        Column ''billing_interval'' plan_interval_type False (Some ''month'') None,
        Column ''is_active'' t_boolean False (Some ''true'') None,
        Column ''created_at'' t_timestamptz False (Some ''now()'') None]
       [primary_key [''id'']],
      create_index ''ix_plans_code'' ''plans''
       [''code''] True]"

definition upgrade_0002_subscriptions :: "ddl list" where
  "upgrade_0002_subscriptions =
     [create_table ''subscriptions''
       [Column ''id'' t_uuid False None None,
        Column ''user_id'' t_uuid False None None,
        Column ''plan_id'' t_uuid False None None,
        Column ''status'' subscription_status_type False None None,
        Column ''started_at'' t_timestamptz False None None,
        Column ''current_period_start'' t_timestamptz False None None,
        Column ''current_period_end'' t_timestamptz False None None,
        Column ''canceled_at'' t_timestamptz True None None,
        Column ''created_at'' t_timestamptz False (Some ''now()'') None]
       [foreign_key None [''plan_id''] ''plans'' [''id''] ''RESTRICT'',
        foreign_key None [''user_id''] ''users'' [''id''] ''CASCADE'',
        primary_key [''id'']],
      create_index ''ix_subscriptions_user_status'' ''subscriptions''
       [''user_id'', ''status''] False]"

definition upgrade_0002_entitlements :: "ddl list" where
  "upgrade_0002_entitlements =
     [create_table ''entitlements''
       [Column ''id'' t_uuid False None None,
        Column ''user_id'' t_uuid False None None,
        Column ''plan_id'' t_uuid True None None,
        Column ''subscription_id'' t_uuid True None None,
        Column ''feature_key'' (t_string 64) False None None,
        Column ''limit_value'' t_integer True None None,
        Column ''usage_window'' entitlement_window_type False (Some ''monthly'') None,
        Column ''is_enabled'' t_boolean False (Some ''true'') None,
        Column ''valid_from'' t_timestamptz False None None,
        Column ''valid_to'' t_timestamptz True None None,
        Column ''created_at'' t_timestamptz False (Some ''now()'') None]
       [foreign_key None [''plan_id''] ''plans'' [''id''] ''SET NULL'',
        foreign_key None [''subscription_id''] ''subscriptions'' [''id''] ''SET NULL'',
        foreign_key None [''user_id''] ''users'' [''id''] ''CASCADE'',
        primary_key [''id''],
        unique_key ''uq_entitlements_user_feature_window_from'' [''user_id'', ''feature_key'', ''usage_window'',
          ''valid_from'']],
      create_index ''ix_entitlements_user_feature_window'' ''entitlements''
       [''user_id'', ''feature_key'', ''usage_window''] False]"

definition upgrade_0002 :: "ddl list" where
  "upgrade_0002 =
     upgrade_0002_start @ upgrade_0002_countries @ upgrade_0002_immigration_programs @
       upgrade_0002_program_versions @ upgrade_0002_rule_groups @ upgrade_0002_rule_conditions @
         upgrade_0002_rule_outcomes @ upgrade_0002_source_documents @ upgrade_0002_source_extractions @
           upgrade_0002_user_profile_snapshots @ upgrade_0002_assessments @ upgrade_0002_assessment_results @
             upgrade_0002_assessment_result_items @ upgrade_0002_roadmaps @ upgrade_0002_roadmap_steps @
               upgrade_0002_plans @ upgrade_0002_subscriptions @ upgrade_0002_entitlements"

definition downgrade_0002 :: "ddl list" where
  "downgrade_0002 =
     [drop_index ''ix_entitlements_user_feature_window'',
      drop_table ''entitlements'',
      drop_index ''ix_subscriptions_user_status'',
      drop_table ''subscriptions'',
      drop_index ''ix_plans_code'',
      drop_table ''plans'',
      drop_table ''roadmap_steps'',
      drop_index ''ix_roadmaps_user_created_at'',
      drop_table ''roadmaps'',
      drop_index ''ix_assessment_result_items_result_rule_outcome'',
      drop_table ''assessment_result_items'',
      drop_index ''ix_assessment_results_program_version_hash'',
      drop_table ''assessment_results'',
      drop_index ''ix_assessments_user_status_requested_at'',
      drop_table ''assessments'',
      drop_trigger ''trg_user_profile_snapshots_immutable'' ''user_profile_snapshots'',
      drop_function ''prevent_user_profile_snapshot_update'',
      drop_index ''ix_user_profile_snapshots_user_created_at'',
      drop_index ''ix_user_profile_snapshots_profile_hash'',
      drop_table ''user_profile_snapshots'',
      drop_index ''ix_source_extractions_document_created_at'',
      drop_table ''source_extractions'',
      drop_index ''ix_source_documents_checksum_sha256'',
      drop_index ''ix_source_documents_program_version_published_at'',
      drop_table ''source_documents'',
      drop_index ''ix_rule_outcomes_group_blocking'',
      drop_table ''rule_outcomes'',
      drop_index ''ix_rule_conditions_value_json_gin'',
      drop_index ''ix_rule_conditions_group_field_operator'',
      drop_table ''rule_conditions'',
      drop_index ''ix_rule_groups_program_version_priority'',
      drop_table ''rule_groups'',
      drop_constraint ''program_versions'' ''ex_program_versions_active_no_overlap'',
      drop_index ''ix_program_versions_program_status_effective_from'',
      drop_table ''program_versions'',
      drop_index ''ix_immigration_programs_country_active'',
      drop_table ''immigration_programs'',
      drop_index ''ix_countries_code'',
      drop_table ''countries'',
      drop_type ''entitlement_window'',
      drop_type ''subscription_status'',
      drop_type ''plan_interval'',
      drop_type ''roadmap_status'',
      drop_type ''assessment_status'',
      drop_type ''rule_operator'',
      drop_type ''rule_group_match_operator'',
      drop_type ''program_version_status'']"

section \<open>20260225 0003\<close>

definition job_type_type :: col_type where
  "job_type_type = t_enum ''job_type''
     [''score_job'', ''roadmap_job''] True"

definition job_status_type :: col_type where
  "job_status_type = t_enum ''job_status''
     [''pending'', ''running'', ''completed'', ''failed'', ''dead_letter''] True"

definition upgrade_0003_start :: "ddl list" where
  "upgrade_0003_start =
     [add_enum_value ''roadmap_status'' ''pending'',
      add_enum_value ''roadmap_status'' ''completed'',
      add_enum_value ''roadmap_status'' ''failed'',
      set_default ''roadmaps'' ''status'' ''pending'']"

definition upgrade_0003_jobs :: "ddl list" where
  "upgrade_0003_jobs =
     [create_table ''jobs''
       [Column ''id'' t_uuid False None None,
        Column ''job_type'' job_type_type False None None,
        Column ''idempotency_key'' (t_string 128) False None None,
        Column ''status'' job_status_type False (Some ''pending'') None,
        Column ''assessment_id'' t_uuid True None None,
        Column ''roadmap_id'' t_uuid True None None,
        Column ''attempts'' t_integer False (Some ''0'') None,
        Column ''last_error'' t_text True None None,
        Column ''trace_id'' (t_string 64) True None None,
        Column ''duration_ms'' t_integer True None None,
        Column ''queued_at'' t_timestamptz False (Some ''now()'') None,
        Column ''started_at'' t_timestamptz True None None,
        Column ''completed_at'' t_timestamptz True None None,
        Column ''created_at'' t_timestamptz False (Some ''now()'') None]
       [foreign_key None [''assessment_id''] ''assessments'' [''id''] ''SET NULL'',
        foreign_key None [''roadmap_id''] ''roadmaps'' [''id''] ''SET NULL'',
        primary_key [''id''],
        unique_key ''uq_jobs_type_idempotency'' [''job_type'', ''idempotency_key'']],
      create_index ''ix_jobs_job_type'' ''jobs''
       [''job_type''] False,
      create_index ''ix_jobs_status'' ''jobs''
       [''status''] False,
      create_index ''ix_jobs_assessment_id'' ''jobs''
       [''assessment_id''] False,
      create_index ''ix_jobs_roadmap_id'' ''jobs''
       [''roadmap_id''] False,
      create_index ''ix_jobs_trace_id'' ''jobs''
       [''trace_id''] False,
      add_column ''roadmaps''
       (Column ''manual_review_required'' t_boolean False (Some ''false'') None),
      add_column ''roadmaps''
       (Column ''llm_provider'' (t_string 32) True None None),
      add_column ''roadmaps''
       (Column ''llm_model'' (t_string 64) True None None),
      add_column ''roadmaps''
       (Column ''generation_error'' t_text True None None),
      add_column ''roadmaps''
       (Column ''trace_id'' (t_string 64) True None None),
      add_column ''roadmaps''
       (Column ''completed_at'' t_timestamptz True None None),
      create_index ''ix_roadmaps_trace_id'' ''roadmaps''
       [''trace_id''] False,
      add_column ''roadmap_steps''
       (Column ''dependencies_json'' t_jsonb False (Some ([CHR 0x27] @ ''[]'' @ [CHR 0x27] @ ''::jsonb'')) None),
      add_column ''roadmap_steps''
       (Column ''risk_level'' (t_string 16) False (Some ''medio'') None),
      add_column ''roadmap_steps''
       (Column ''completion_criteria'' t_text False (Some '''') None)]"

definition upgrade_0003 :: "ddl list" where
  "upgrade_0003 =
     upgrade_0003_start @ upgrade_0003_jobs"

definition downgrade_0003 :: "ddl list" where
  "downgrade_0003 =
     [set_default ''roadmaps'' ''status'' ''draft'',
      drop_column ''roadmap_steps'' ''completion_criteria'',
      drop_column ''roadmap_steps'' ''risk_level'',
      drop_column ''roadmap_steps'' ''dependencies_json'',
      drop_index ''ix_roadmaps_trace_id'',
      drop_column ''roadmaps'' ''completed_at'',
      drop_column ''roadmaps'' ''trace_id'',
      drop_column ''roadmaps'' ''generation_error'',
      drop_column ''roadmaps'' ''llm_model'',
      drop_column ''roadmaps'' ''llm_provider'',
      drop_column ''roadmaps'' ''manual_review_required'',
      drop_index ''ix_jobs_trace_id'',
      drop_index ''ix_jobs_roadmap_id'',
      drop_index ''ix_jobs_assessment_id'',
      drop_index ''ix_jobs_status'',
      drop_index ''ix_jobs_job_type'',
      drop_table ''jobs'',
      drop_type ''job_status'',
      drop_type ''job_type'']"

section \<open>20260225 0004\<close>

definition billing_provider_type :: col_type where
  "billing_provider_type = t_enum ''billing_provider''
     [''stripe''] False"

definition billing_event_status_type :: col_type where
  "billing_event_status_type = t_enum ''billing_event_status''
     [''received'', ''processed'', ''ignored'', ''failed''] False"

definition upgrade_0004_start :: "ddl list" where
  "upgrade_0004_start =
     [create_type ''billing_provider'' [''stripe''],
      create_type ''billing_event_status'' [''received'', ''processed'', ''ignored'', ''failed''],
      add_column ''plans''
       (Column ''provider'' billing_provider_type False (Some ''stripe'') None),
      add_column ''plans''
       (Column ''stripe_price_id'' (t_string 120) True None None),
      add_column ''plans''
       (Column ''stripe_product_id'' (t_string 120) True None None),
      add_column ''plans''
       (Column ''is_free'' t_boolean False (Some ''false'') None),
      create_index ''ix_plans_stripe_price_id'' ''plans''
       [''stripe_price_id''] True,
      add_column ''subscriptions''
       (Column ''provider'' billing_provider_type False (Some ''stripe'') None),
      add_column ''subscriptions''
       (Column ''provider_customer_id'' (t_string 120) True None None),
      add_column ''subscriptions''
       (Column ''provider_subscription_id'' (t_string 120) True None None),
      add_column ''subscriptions''
       (Column ''cancel_at_period_end'' t_boolean False (Some ''false'') None),
      create_index ''ix_subscriptions_provider_subscription_id'' ''subscriptions''
       [''provider_subscription_id''] True,
      create_index ''ix_subscriptions_provider_customer_id'' ''subscriptions''
       [''provider_customer_id''] False]"

definition upgrade_0004_usage_counters :: "ddl list" where
  "upgrade_0004_usage_counters =
     [create_table ''usage_counters''
       [Column ''id'' t_uuid False None None,
        Column ''user_id'' t_uuid False None None,
        Column ''feature_key'' (t_string 64) False None None,
        Column ''window_start'' t_timestamptz False None None,
        Column ''window_end'' t_timestamptz False None None,
        Column ''used_count'' t_integer False (Some ''0'') None,
        Column ''created_at'' t_timestamptz False (Some ''now()'') None]
       [foreign_key None [''user_id''] ''users'' [''id''] ''CASCADE'',
        primary_key [''id''],
        unique_key ''uq_usage_counters_user_feature_window_start'' [''user_id'', ''feature_key'', ''window_start'']],
      create_index ''ix_usage_counters_user_id'' ''usage_counters''
       [''user_id''] False]"

definition upgrade_0004_billing_events :: "ddl list" where
  "upgrade_0004_billing_events =
     [create_table ''billing_events''
       [Column ''id'' t_uuid False None None,
        Column ''provider'' billing_provider_type False None None,
        Column ''provider_event_id'' (t_string 120) False None None,
        Column ''event_type'' (t_string 120) False None None,
        Column ''status'' billing_event_status_type False (Some ''received'') None,
        Column ''payload_json'' t_jsonb False (Some ([CHR 0x27] @ ''{}'' @ [CHR 0x27] @ ''::jsonb'')) None,
        Column ''processed_at'' t_timestamptz True None None,
        Column ''last_error'' t_text True None None,
        Column ''created_at'' t_timestamptz False (Some ''now()'') None]
       [primary_key [''id''],
        unique_key ''uq_billing_events_provider_event_id'' [''provider'', ''provider_event_id'']],
      create_index ''ix_billing_events_provider'' ''billing_events''
       [''provider''] False,
      create_index ''ix_billing_events_status'' ''billing_events''
       [''status''] False]"

definition upgrade_0004 :: "ddl list" where
  "upgrade_0004 =
     upgrade_0004_start @ upgrade_0004_usage_counters @ upgrade_0004_billing_events"

definition downgrade_0004 :: "ddl list" where
  "downgrade_0004 =
     [drop_index ''ix_billing_events_status'',
      drop_index ''ix_billing_events_provider'',
      drop_table ''billing_events'',
      drop_index ''ix_usage_counters_user_id'',
      drop_table ''usage_counters'',
      drop_index ''ix_subscriptions_provider_customer_id'',
      drop_index ''ix_subscriptions_provider_subscription_id'',
      drop_column ''subscriptions'' ''cancel_at_period_end'',
      drop_column ''subscriptions'' ''provider_subscription_id'',
      drop_column ''subscriptions'' ''provider_customer_id'',
      drop_column ''subscriptions'' ''provider'',
      drop_index ''ix_plans_stripe_price_id'',
      drop_column ''plans'' ''is_free'',
      drop_column ''plans'' ''stripe_product_id'',
      drop_column ''plans'' ''stripe_price_id'',
      drop_column ''plans'' ''provider'',
      drop_type ''billing_event_status'',
      drop_type ''billing_provider'']"

section \<open>20260225 0005\<close>

definition source_type_type :: col_type where
  "source_type_type = t_enum ''source_type''
     [''html'', ''pdf'', ''api''] True"

definition ingestion_run_trigger_type :: col_type where
  "ingestion_run_trigger_type = t_enum ''ingestion_run_trigger''
     [''scheduled'', ''manual'', ''reprocess''] True"

definition ingestion_run_status_type :: col_type where
  "ingestion_run_status_type = t_enum ''ingestion_run_status''
     [''pending'', ''running'', ''completed'', ''failed'', ''quarantined''] True"

definition ingestion_run_item_status_type :: col_type where
  "ingestion_run_item_status_type = t_enum ''ingestion_run_item_status''
     [''pending'', ''running'', ''skipped'', ''completed'', ''failed'', ''manual_review'', ''quarantined''] True"

definition ingestion_parser_mode_type :: col_type where
  "ingestion_parser_mode_type = t_enum ''ingestion_parser_mode''
     [''deterministic'', ''llm_fallback''] True"

definition exposed_tables :: "string list" where
  "exposed_tables =
     [''countries'', ''immigration_programs'', ''program_versions'', ''rule_groups'', ''rule_conditions'',
       ''rule_outcomes'']"

definition internal_tables :: "string list" where
  "internal_tables = [''source_registry'', ''ingestion_run'', ''ingestion_run_item'', ''bronze_document'',
    ''silver_section'']"

definition apply_rls_policies :: "ddl list" where
  "apply_rls_policies =
     concat (map (\<lambda>t. [enable_rls t, ensure_policy t (t @ ''_app_rw'') always]) exposed_tables)
     @ concat (map (\<lambda>t. [enable_rls t, ensure_policy t (t @ ''_internal_block'') never]) internal_tables)"

definition drop_rls_policies :: "ddl list" where
  "drop_rls_policies =
     concat (map (\<lambda>t. [drop_policy t (t @ ''_app_rw''), drop_policy t (t @ ''_internal_block'')])
       (exposed_tables @ internal_tables))"

definition upgrade_0005_source_registry :: "ddl list" where
  "upgrade_0005_source_registry =
     [create_table ''source_registry''
       [Column ''id'' t_uuid False None None,
        Column ''source_key'' (t_string 120) False None None,
        Column ''country_code'' (t_string 2) False None None,
        Column ''country_name'' (t_string 120) False None None,
        Column ''program_code'' (t_string 64) False None None,
        Column ''program_name'' (t_string 160) False None None,
        Column ''source_type'' source_type_type False None None,
        Column ''source_url'' t_text False None None,
        Column ''robots_url'' t_text True None None,
        Column ''terms_url'' t_text True None None,
        Column ''schedule_cron'' (t_string 64) True None None,
        Column ''parser_name'' (t_string 64) False (Some ''deterministic-v1'') None,
        Column ''parser_version'' (t_string 32) False (Some ''1.0.0'') None,
        Column ''confidence_threshold'' (t_numeric 5 4) False (Some ''0.8000'') None,
        Column ''is_active'' t_boolean False (Some ''true'') None,
        Column ''quarantine_until'' t_timestamptz True None None,
        Column ''quarantine_reason'' t_text True None None,
        Column ''consecutive_failures'' t_integer False (Some ''0'') None,
        Column ''metadata_json'' t_jsonb False (Some ([CHR 0x27] @ ''{}'' @ [CHR 0x27] @ ''::jsonb'')) None,
        Column ''created_at'' t_timestamptz False (Some ''now()'') None]
       [primary_key [''id''],
        unique_key ''uq_source_registry_source_key'' [''source_key'']],
      create_index ''ix_source_registry_source_key'' ''source_registry''
       [''source_key''] False,
      create_index ''ix_source_registry_country_code'' ''source_registry''
       [''country_code''] False,
      create_index ''ix_source_registry_program_code'' ''source_registry''
       [''program_code''] False]"

definition upgrade_0005_ingestion_run :: "ddl list" where
  "upgrade_0005_ingestion_run =
     [create_table ''ingestion_run''
       [Column ''id'' t_uuid False None None,
        Column ''trigger_type'' ingestion_run_trigger_type False (Some ''scheduled'') None,
        Column ''status'' ingestion_run_status_type False (Some ''pending'') None,
        Column ''requested_by'' (t_string 120) True None None,
        Column ''trace_id'' (t_string 64) True None None,
        Column ''started_at'' t_timestamptz True None None,
        Column ''completed_at'' t_timestamptz True None None,
        Column ''total_items'' t_integer False (Some ''0'') None,
        Column ''processed_items'' t_integer False (Some ''0'') None,
        Column ''success_items'' t_integer False (Some ''0'') None,
        Column ''failed_items'' t_integer False (Some ''0'') None,
        Column ''notes'' t_text True None None,
        Column ''metadata_json'' t_jsonb False (Some ([CHR 0x27] @ ''{}'' @ [CHR 0x27] @ ''::jsonb'')) None,
        Column ''created_at'' t_timestamptz False (Some ''now()'') None]
       [primary_key [''id'']],
      create_index ''ix_ingestion_run_status'' ''ingestion_run''
       [''status''] False,
      create_index ''ix_ingestion_run_trace_id'' ''ingestion_run''
       [''trace_id''] False]"

definition upgrade_0005_ingestion_run_item :: "ddl list" where
  "upgrade_0005_ingestion_run_item =
     [create_table ''ingestion_run_item''
       [Column ''id'' t_uuid False None None,
        Column ''ingestion_run_id'' t_uuid False None None,
        Column ''source_id'' t_uuid False None None,
        Column ''status'' ingestion_run_item_status_type False (Some ''pending'') None,
        Column ''attempt_number'' t_integer False (Some ''0'') None,
        Column ''started_at'' t_timestamptz True None None,
        Column ''completed_at'' t_timestamptz True None None,
        Column ''collected_at'' t_timestamptz True None None,
        Column ''fetch_etag'' (t_string 120) True None None,
        Column ''fetch_last_modified'' (t_string 120) True None None,
        Column ''raw_hash_sha256'' (t_string 64) True None None,
        Column ''semantic_hash_sha256'' (t_string 64) True None None,
        Column ''parser_used'' (t_string 64) True None None,
        Column ''parser_mode'' ingestion_parser_mode_type False (Some ''deterministic'') None,
        Column ''confidence_score'' (t_numeric 5 4) True None None,
        Column ''manual_review_required'' t_boolean False (Some ''false'') None,
        Column ''error_message'' t_text True None None,
        Column ''diff_summary_json'' t_jsonb False (Some ([CHR 0x27] @ ''{}'' @ [CHR 0x27] @ ''::jsonb'')) None,
        Column ''metadata_json'' t_jsonb False (Some ([CHR 0x27] @ ''{}'' @ [CHR 0x27] @ ''::jsonb'')) None,
        Column ''created_at'' t_timestamptz False (Some ''now()'') None]
       [foreign_key None [''ingestion_run_id''] ''ingestion_run'' [''id''] ''CASCADE'',
        foreign_key None [''source_id''] ''source_registry'' [''id''] ''RESTRICT'',
        primary_key [''id''],
        unique_key ''uq_ingestion_run_item_source_once'' [''ingestion_run_id'', ''source_id'']],
      create_index ''ix_ingestion_run_item_ingestion_run_id'' ''ingestion_run_item''
       [''ingestion_run_id''] False,
      create_index ''ix_ingestion_run_item_source_id'' ''ingestion_run_item''
       [''source_id''] False,
      create_index ''ix_ingestion_run_item_status'' ''ingestion_run_item''
       [''status''] False,
      create_index ''ix_ingestion_run_item_raw_hash_sha256'' ''ingestion_run_item''
       [''raw_hash_sha256''] False,
      create_index ''ix_ingestion_run_item_semantic_hash_sha256'' ''ingestion_run_item''
       [''semantic_hash_sha256''] False]"

definition upgrade_0005_bronze_document :: "ddl list" where
  "upgrade_0005_bronze_document =
     [create_table ''bronze_document''
       [Column ''id'' t_uuid False None None,
        Column ''source_id'' t_uuid False None None,
        Column ''ingestion_run_item_id'' t_uuid False None None,
        Column ''source_url'' t_text False None None,
        Column ''content_type'' (t_string 120) True None None,
        Column ''content_length'' t_integer True None None,
        Column ''storage_bucket'' (t_string 120) False (Some ''immigration-bronze'') None,
        Column ''storage_path'' t_text False None None,
        Column ''storage_uri'' t_text False None None,
        Column ''checksum_sha256'' (t_string 64) False None None,
        Column ''metadata_json'' t_jsonb False (Some ([CHR 0x27] @ ''{}'' @ [CHR 0x27] @ ''::jsonb'')) None,
        Column ''created_at'' t_timestamptz False (Some ''now()'') None]
       [foreign_key None [''ingestion_run_item_id''] ''ingestion_run_item'' [''id''] ''CASCADE'',
        foreign_key None [''source_id''] ''source_registry'' [''id''] ''CASCADE'',
        primary_key [''id''],
        unique_key ''uq_bronze_document_run_item'' [''ingestion_run_item_id'']],
      create_index ''ix_bronze_document_source_id'' ''bronze_document''
       [''source_id''] False,
      create_index ''ix_bronze_document_checksum_sha256'' ''bronze_document''
       [''checksum_sha256''] False]"

definition upgrade_0005_silver_section :: "ddl list" where
  "upgrade_0005_silver_section =
     [create_table ''silver_section''
       [Column ''id'' t_uuid False None None,
        Column ''ingestion_run_item_id'' t_uuid False None None,
        Column ''section_key'' (t_string 64) False None None,
        Column ''heading'' (t_string 255) True None None,
        Column ''section_order'' t_integer False (Some ''1'') None,
        Column ''text_content'' t_text False None None,
        Column ''semantic_hash_sha256'' (t_string 64) False None None,
        Column ''metadata_json'' t_jsonb False (Some ([CHR 0x27] @ ''{}'' @ [CHR 0x27] @ ''::jsonb'')) None,
        Column ''created_at'' t_timestamptz False (Some ''now()'') None]
       [foreign_key None [''ingestion_run_item_id''] ''ingestion_run_item'' [''id''] ''CASCADE'',
        primary_key [''id''],
        unique_key ''uq_silver_section_item_key'' [''ingestion_run_item_id'', ''section_key'']],
      create_index ''ix_silver_section_ingestion_run_item_id'' ''silver_section''
       [''ingestion_run_item_id''] False,
      create_index ''ix_silver_section_semantic_hash_sha256'' ''silver_section''
       [''semantic_hash_sha256''] False,
      add_column ''source_documents''
       (Column ''source_id'' t_uuid True None None),
      add_column ''source_documents''
       (Column ''ingestion_run_item_id'' t_uuid True None None),
      add_constraint ''source_documents''
       (foreign_key (Some ''fk_source_documents_source_id'') [''source_id''] ''source_registry'' [''id'']
         ''SET NULL''),
      add_constraint ''source_documents''
       (foreign_key (Some ''fk_source_documents_ingestion_run_item_id'') [''ingestion_run_item_id'']
         ''ingestion_run_item'' [''id''] ''SET NULL''),
      create_index ''ix_source_documents_source_id'' ''source_documents''
       [''source_id''] False,
      create_index ''ix_source_documents_ingestion_run_item_id'' ''source_documents''
       [''ingestion_run_item_id''] False,
      add_column ''source_extractions''
       (Column ''parser_used'' (t_string 64) True None None),
      add_column ''source_extractions''
       (Column ''parser_mode'' ingestion_parser_mode_type False (Some ''deterministic'') None),
      add_column ''source_extractions''
       (Column ''manual_review_required'' t_boolean False (Some ''false'') None),
      add_column ''source_extractions''
       (Column ''semantic_hash_sha256'' (t_string 64) True None None),
      add_column ''source_extractions''
       (Column ''extraction_metadata_json'' t_jsonb False (Some ([CHR 0x27] @ ''{}'' @ [CHR 0x27] @ ''::jsonb''))
         None),
      create_index ''ix_source_extractions_semantic_hash_sha256'' ''source_extractions''
       [''semantic_hash_sha256''] False]
     @ apply_rls_policies"

definition upgrade_0005 :: "ddl list" where
  "upgrade_0005 =
     upgrade_0005_source_registry @ upgrade_0005_ingestion_run @ upgrade_0005_ingestion_run_item @
       upgrade_0005_bronze_document @ upgrade_0005_silver_section"

definition downgrade_0005 :: "ddl list" where
  "downgrade_0005 =
     drop_rls_policies @
     [drop_index ''ix_source_extractions_semantic_hash_sha256'',
      drop_column ''source_extractions'' ''extraction_metadata_json'',
      drop_column ''source_extractions'' ''semantic_hash_sha256'',
      drop_column ''source_extractions'' ''manual_review_required'',
      drop_column ''source_extractions'' ''parser_mode'',
      drop_column ''source_extractions'' ''parser_used'',
      drop_index ''ix_source_documents_ingestion_run_item_id'',
      drop_index ''ix_source_documents_source_id'',
      drop_constraint ''source_documents'' ''fk_source_documents_ingestion_run_item_id'',
      drop_constraint ''source_documents'' ''fk_source_documents_source_id'',
      drop_column ''source_documents'' ''ingestion_run_item_id'',
      drop_column ''source_documents'' ''source_id'',
      drop_index ''ix_silver_section_semantic_hash_sha256'',
      drop_index ''ix_silver_section_ingestion_run_item_id'',
      drop_table ''silver_section'',
      drop_index ''ix_bronze_document_checksum_sha256'',
      drop_index ''ix_bronze_document_source_id'',
      drop_table ''bronze_document'',
      drop_index ''ix_ingestion_run_item_semantic_hash_sha256'',
      drop_index ''ix_ingestion_run_item_raw_hash_sha256'',
      drop_index ''ix_ingestion_run_item_status'',
      drop_index ''ix_ingestion_run_item_source_id'',
      drop_index ''ix_ingestion_run_item_ingestion_run_id'',
      drop_table ''ingestion_run_item'',
      drop_index ''ix_ingestion_run_trace_id'',
      drop_index ''ix_ingestion_run_status'',
      drop_table ''ingestion_run'',
      drop_index ''ix_source_registry_program_code'',
      drop_index ''ix_source_registry_country_code'',
      drop_index ''ix_source_registry_source_key'',
      drop_table ''source_registry'',
      drop_type ''ingestion_parser_mode'',
      drop_type ''ingestion_run_item_status'',
      drop_type ''ingestion_run_status'',
      drop_type ''ingestion_run_trigger'',
      drop_type ''source_type'']"

section \<open>20260225 0006\<close>

definition user_role_type :: col_type where
  "user_role_type = t_enum ''user_role''
     [''member'', ''admin''] True"

definition direct_owner_tables :: "string list" where
  "direct_owner_tables =
     [''user_profile_snapshots'', ''assessments'', ''roadmaps'', ''subscriptions'', ''entitlements'',
       ''usage_counters'']"

text \<open>\<open>ENABLE\<close> and \<open>FORCE ROW LEVEL SECURITY\<close>, \<open>DROP POLICY IF EXISTS\<close>
  and \<open>CREATE POLICY\<close>: with the same
  condition for \<open>USING\<close> and \<open>WITH CHECK\<close>\<close>

definition isolate :: "string \<Rightarrow> string \<Rightarrow> policy_rule \<Rightarrow> ddl list" where
  "isolate t p r = [enable_rls t, force_rls t, drop_policy t p, create_policy t p r]"

definition enable_multitenant_rls :: "ddl list" where
  "enable_multitenant_rls =
     concat (map (\<lambda>t. isolate t (t @ ''_tenant_isolation'') owner_column) direct_owner_tables)
     @ isolate ''assessment_results'' ''assessment_results_tenant_isolation'' via_assessment
     @ isolate ''assessment_result_items'' ''assessment_result_items_tenant_isolation'' via_result
     @ isolate ''roadmap_steps'' ''roadmap_steps_tenant_isolation'' via_roadmap
     @ isolate ''jobs'' ''jobs_tenant_isolation'' via_job
     @ isolate ''billing_events'' ''billing_events_internal_only'' admin_only"

definition disable_multitenant_rls :: "ddl list" where
  "disable_multitenant_rls =
     map (\<lambda>t. drop_policy t (t @ ''_tenant_isolation''))
       (direct_owner_tables @ [''assessment_results'', ''assessment_result_items'', ''roadmap_steps'', ''jobs''])
     @ [drop_policy ''billing_events'' ''billing_events_internal_only'']"

definition upgrade_0006 :: "ddl list" where
  "upgrade_0006 =
     [create_type ''user_role'' [''member'', ''admin''],
      add_column ''users''
       (Column ''role'' user_role_type False (Some ''member'') None),
      create_function ''app_current_user_id'',
      create_function ''app_current_user_role'']
     @ enable_multitenant_rls"

definition downgrade_0006 :: "ddl list" where
  "downgrade_0006 =
     disable_multitenant_rls @
     [drop_function ''app_current_user_role'',
      drop_function ''app_current_user_id'',
      drop_column ''users'' ''role'',
      drop_type ''user_role'']"

section \<open>20260225 0007\<close>

definition upgrade_0007 :: "ddl list" where
  "upgrade_0007 =
     [add_column ''countries''
       (Column ''priority_rank'' t_integer True None None),
      add_column ''countries''
       (Column ''diaspora_population_estimate'' t_integer True None None),
      add_column ''countries''
       (Column ''prioritization_source_url'' t_text True None None),
      create_index ''ix_countries_priority_rank'' ''countries''
       [''priority_rank''] False,
      add_constraint ''source_documents''
       (unique_key ''uq_source_documents_program_version_source_url'' [''program_version_id'', ''source_url''])]"

definition downgrade_0007 :: "ddl list" where
  "downgrade_0007 =
     [drop_constraint ''source_documents'' ''uq_source_documents_program_version_source_url'',
      drop_index ''ix_countries_priority_rank'',
      drop_column ''countries'' ''prioritization_source_url'',
      drop_column ''countries'' ''diaspora_population_estimate'',
      drop_column ''countries'' ''priority_rank'']"

section \<open>20260225 0008\<close>

definition upgrade_0008 :: "ddl list" where
  "upgrade_0008 =
     [create_table ''profile_match_submissions''
       [Column ''user_id'' t_uuid True None None,
        Column ''guest_session_id'' (t_string 64) False None None,
        Column ''algorithm_version'' (t_string 32) False None None,
        Column ''profile_json'' t_json False None None,
        Column ''result_json'' t_json False None None,
        Column ''claimed_at'' t_timestamptz True None None,
        Column ''id'' t_uuid False None None,
        Column ''created_at'' t_timestamptz False None None]
       [foreign_key None [''user_id''] ''users'' [''id''] ''SET NULL'',
        primary_key [''id'']],
      create_index ''ix_profile_match_submissions_guest_session_id'' ''profile_match_submissions''
       [''guest_session_id''] False,
      create_index ''ix_profile_match_submissions_user_id'' ''profile_match_submissions''
       [''user_id''] False]"

definition downgrade_0008 :: "ddl list" where
  "downgrade_0008 =
     [drop_index ''ix_profile_match_submissions_user_id'',
      drop_index ''ix_profile_match_submissions_guest_session_id'',
      drop_table ''profile_match_submissions'']"

end
