(* ===== verification/Migrations_Contract.thy ===== *)
theory Migrations_Contract
  imports Migrations
begin

text \<open>
  Revision 0003 adds values to an enumeration and uses one of them as a default in the same transaction.
\<close>

lemma table_kept:
  assumes "type_values s n = Some vs" "v \<notin> set vs"
  shows "\<exists>s'. apply_ddl l (add_enum_value n v) s = Some s' \<and> sc_tables s' = sc_tables s \<and> sc_new_types s' = sc_new_types s
    \<and> sc_new_values s' = sc_new_values s @ [(n, v)] \<and> type_values s' n = Some (vs @ [v])"
proof -
  have "map_of xs n = Some ws \<Longrightarrow> map_of (map (\<lambda>(m, ws). if m = n then (m, ws @ [v]) else (m, ws)) xs) n = Some (ws @ [v])"
    for xs :: "(string \<times> string list) list" and ws by (induction xs) (auto split: if_splits)
  with assms show ?thesis by (simp add: type_values_def)
qed

lemma added_or_there:
  assumes "type_values s n = Some vs"
  shows "\<exists>s' ws. apply_ddl l (add_enum_value n v) s = Some s' \<and> sc_tables s' = sc_tables s \<and> sc_new_types s' = sc_new_types s
    \<and> set (sc_new_values s) \<subseteq> set (sc_new_values s') \<and> type_values s' n = Some ws \<and> set vs \<subseteq> set ws"
proof (cases "v \<in> set vs")
  case False
  then show ?thesis using table_kept [OF assms, of v l] by fastforce
qed (use assms in auto)

text \<open>Revision 0003 cannot be applied to a database of revision 0002: it adds the value \<open>pending\<close> to the
  enumeration of the statuses of a roadmap and makes it the default of the column in the same transaction, and a value
  may not be used in the transaction that added it (unless, in the lenient servers, the type is as new). With the
  three values added in a transaction of their own, the same statement succeeds.\<close>

theorem new_status_unusable:
  assumes vals: "type_values s ''roadmap_status'' = Some vs" "''pending'' \<notin> set vs"
    and column: "table_of s ''roadmaps'' = Some t" "\<exists>c\<in>set (tb_columns t). cl_name c = ''status''"
      "\<forall>c\<in>set (tb_columns t). cl_name c = ''status'' \<longrightarrow> cl_type c = roadmap_status_type"
    and "lenient \<longrightarrow> ''roadmap_status'' \<notin> set (sc_new_types s)"
  shows "run_ddl lenient upgrade_0003 s = None
    \<and> (\<exists>s1 s2. run_migration lenient (take 3 upgrade_0003) s = Some s1
        \<and> apply_ddl lenient (set_default ''roadmaps'' ''status'' ''pending'') s1 = Some s2)"
proof -
  let ?n = "''roadmap_status''"
  obtain s1 where 1: "apply_ddl lenient (add_enum_value ?n ''pending'') s = Some s1" "sc_tables s1 = sc_tables s"
    "sc_new_types s1 = sc_new_types s" "(?n, ''pending'') \<in> set (sc_new_values s1)" "type_values s1 ?n = Some (vs @ [''pending''])"
    using table_kept [OF vals, of lenient] by auto
  obtain s2 ws where 2: "apply_ddl lenient (add_enum_value ?n ''completed'') s1 = Some s2" "sc_tables s2 = sc_tables s"
    "sc_new_types s2 = sc_new_types s" "(?n, ''pending'') \<in> set (sc_new_values s2)" "type_values s2 ?n = Some ws" "''pending'' \<in> set ws"
    using added_or_there [OF 1(5), of lenient "''completed''"] 1 by fastforce
  obtain s3 us where 3: "apply_ddl lenient (add_enum_value ?n ''failed'') s2 = Some s3" "sc_tables s3 = sc_tables s"
    "sc_new_types s3 = sc_new_types s" "(?n, ''pending'') \<in> set (sc_new_values s3)" "type_values s3 ?n = Some us" "''pending'' \<in> set us"
    using added_or_there [OF 2(5), of lenient "''failed''"] 2 by fastforce
  obtain xs where start: "upgrade_0003 = add_enum_value ?n ''pending'' # add_enum_value ?n ''completed'' # add_enum_value ?n ''failed''
      # set_default ''roadmaps'' ''status'' ''pending'' # xs"
    by (simp add: upgrade_0003_def upgrade_0003_start_def)
  have unusable: "\<not> default_usable lenient s3 roadmap_status_type (Some ''pending'')"
    using 3 assms(6) by (simp add: default_usable_def roadmap_status_type_def enum_value_usable_def)
  have "table_of s3 ''roadmaps'' = Some t" using column(1) 3(2) by (simp add: table_of_def)
  then have "apply_ddl lenient (set_default ''roadmaps'' ''status'' ''pending'') s3 = None"
    using column(3) unusable by (auto simp: change_table_def list_ex_iff)
  then have "run_ddl lenient upgrade_0003 s = None"
    by (simp only: start run_ddl.simps 1(1) 2(1) 3(1) Option.bind.simps)
  moreover have "run_migration lenient (take 3 upgrade_0003) s = Some (settled s3)"
    by (simp only: start run_migration_def run_ddl.simps 1(1) 2(1) 3(1) Option.bind.simps take_Suc_Cons take_0 numeral_3_eq_3
      option.map)
  moreover have "default_usable lenient (settled s3) roadmap_status_type (Some ''pending'')"
    using 3(5,6) by (simp add: default_usable_def roadmap_status_type_def enum_value_usable_def settled_def type_values_def)
  then have "\<exists>s2. apply_ddl lenient (set_default ''roadmaps'' ''status'' ''pending'') (settled s3) = Some s2"
    using column 3(2) by (auto simp: change_table_def list_ex_iff table_of_def settled_def)
  ultimately show ?thesis by blast
qed

definition roadmap_schema :: schema where
  "roadmap_schema = empty_schema\<lparr>sc_types := [(''roadmap_status'', [''draft'', ''published'', ''archived''])],
     sc_tables := [\<lparr>tb_name = ''roadmaps'', tb_columns = [Column ''status'' roadmap_status_type False (Some ''draft'') None],
       tb_constraints = [], tb_rls = False, tb_forced = False, tb_policies = []\<rparr>]\<rparr>"

lemma new_status_unusable_witness: "run_ddl True upgrade_0003 roadmap_schema = None
    \<and> (\<exists>s1 s2. run_migration True (take 3 upgrade_0003) roadmap_schema = Some s1
        \<and> apply_ddl True (set_default ''roadmaps'' ''status'' ''pending'') s1 = Some s2)"
proof (rule new_status_unusable [where vs = "[''draft'', ''published'', ''archived'']" and t = "hd (sc_tables roadmap_schema)"])
qed (simp_all add: roadmap_schema_def empty_schema_def type_values_def table_of_def)

end
