(* ===== verification/Tenant_Isolation.thy ===== *)
theory Tenant_Isolation
  imports Migrations Jobs
begin

text \<open>
  Row level security: the settings that \<open>apply_rls_context\<close> of \<open>src/app/core/security.py\<close> makes for a transaction,
  the two functions of revision 0006 that read them, and the rows of the application that the policies then show. The
  server reads a text as an identifier with \<open>pg_uuid\<close>, a parameter.
\<close>

section \<open>Settings\<close>

text \<open>The settings of a session and those of its transaction, which hide them. (\<open>set_config(name, value, true)\<close>)\<close>

record pg_session =
  ps_session :: "string \<Rightarrow> string option"
  ps_local :: "string \<Rightarrow> string option"

definition new_session :: pg_session where
  "new_session = \<lparr>ps_session = Map.empty, ps_local = Map.empty\<rparr>"

definition current_setting :: "pg_session \<Rightarrow> string \<Rightarrow> string option" where
  "current_setting s n = (case ps_local s n of Some v \<Rightarrow> Some v | None \<Rightarrow> ps_session s n)"

definition set_config_local :: "string \<Rightarrow> string \<Rightarrow> pg_session \<Rightarrow> pg_session" where
  "set_config_local n v s = s\<lparr>ps_local := (ps_local s)(n \<mapsto> v)\<rparr>"

text \<open>At the end of a transaction its settings are gone; a custom setting that the session does not have reads as the
  empty text from then on.\<close>

definition end_transaction :: "pg_session \<Rightarrow> pg_session" where
  "end_transaction s =
     \<lparr>ps_session = (\<lambda>n. if ps_session s n = None \<and> ps_local s n \<noteq> None then Some [] else ps_session s n),
      ps_local = Map.empty\<rparr>"

text \<open>\<open>supported\<close>: the database has \<open>set_config\<close>; where it has not, the error is swallowed.\<close>

definition apply_rls_context :: "bool \<Rightarrow> uuid \<Rightarrow> string \<Rightarrow> pg_session \<Rightarrow> pg_session" where
  "apply_rls_context supported user_id user_role s =
     (if supported
      then set_config_local ''app.current_user_role'' user_role
        (set_config_local ''app.current_user_id'' (uuid_str user_id) s)
      else s)"

definition nullif_empty :: "string option \<Rightarrow> string option" where
  "nullif_empty v = (if v = Some [] then None else v)"

definition coalesce :: "'a option \<Rightarrow> 'a option \<Rightarrow> 'a option" where
  "coalesce a b = (case a of None \<Rightarrow> b | Some x \<Rightarrow> Some x)"

text \<open>\<open>NULLIF(COALESCE(id, claim), '')::uuid\<close>; a text that is no identifier is an error.\<close>

definition app_current_user_id :: "(string \<Rightarrow> uuid option) \<Rightarrow> pg_session \<Rightarrow> uuid option result" where
  "app_current_user_id pg_uuid s =
     (case nullif_empty (coalesce (current_setting s ''app.current_user_id'') (current_setting s ''request.jwt.claim.sub'')) of
        None \<Rightarrow> Inr None
      | Some v \<Rightarrow>
          (case pg_uuid v of
             None \<Rightarrow> Inl (OperationalError (''invalid input syntax for type uuid: '' @ v))
           | Some i \<Rightarrow> Inr (Some i)))"

definition app_current_user_role :: "pg_session \<Rightarrow> string" where
  "app_current_user_role s =
     (case coalesce (nullif_empty (current_setting s ''app.current_user_role''))
        (nullif_empty (current_setting s ''request.jwt.claim.role'')) of
        None \<Rightarrow> ''member''
      | Some r \<Rightarrow> r)"

section \<open>Policies\<close>

text \<open>The role of the database that a session uses.\<close>

record db_role =
  dr_bypass :: bool
  dr_owner :: bool

text \<open>The condition of a policy for a row whose owners, found by the path of the rule, are given. A comparison with
  \<open>NULL\<close> is not true.\<close>

fun allows :: "string \<Rightarrow> uuid option \<Rightarrow> policy_rule \<Rightarrow> uuid list \<Rightarrow> bool" where
  "allows role uid always owners \<longleftrightarrow> True"
| "allows role uid never owners \<longleftrightarrow> False"
| "allows role uid admin_only owners \<longleftrightarrow> role = ''admin''"
| "allows role uid r owners \<longleftrightarrow> role = ''admin'' \<or> (case uid of None \<Rightarrow> False | Some u \<Rightarrow> u \<in> set owners)"

text \<open>A table shows every row when row security is off for it or for the role, and otherwise the rows that a policy
  admits.\<close>

definition row_shown :: "db_role \<Rightarrow> schema \<Rightarrow> string \<Rightarrow> uuid option \<Rightarrow> string \<Rightarrow> uuid list \<Rightarrow> bool" where
  "row_shown r s role uid n owners \<longleftrightarrow>
     (case table_of s n of
        None \<Rightarrow> False
      | Some t \<Rightarrow> \<not> tb_rls t \<or> dr_bypass r \<or> dr_owner r \<and> \<not> tb_forced t
          \<or> list_ex (\<lambda>(p, rule). allows role uid rule owners) (tb_policies t))"

text \<open>The owners of a row by the subqueries of the policies.\<close>

definition assessment_owners :: "'z app_db_scheme \<Rightarrow> uuid \<Rightarrow> uuid list" where
  "assessment_owners d i = map am_user_id (filter (\<lambda>a. am_id a = i) (ad_assessments d))"

definition result_owners :: "'z app_db_scheme \<Rightarrow> uuid \<Rightarrow> uuid list" where
  "result_owners d i =
     concat (map (\<lambda>r. assessment_owners d (rs_assessment_id r)) (filter (\<lambda>r. rs_id r = i) (ad_results d)))"

definition roadmap_owners :: "'z app_db_scheme \<Rightarrow> uuid \<Rightarrow> uuid list" where
  "roadmap_owners d i = map rm_user_id (filter (\<lambda>r. rm_id r = i) (ad_roadmaps d))"

definition job_owners :: "'z app_db_scheme \<Rightarrow> job \<Rightarrow> uuid list" where
  "job_owners d j =
     (case jb_assessment_id j of None \<Rightarrow> [] | Some i \<Rightarrow> assessment_owners d i)
     @ (case jb_roadmap_id j of None \<Rightarrow> [] | Some i \<Rightarrow> roadmap_owners d i)"

text \<open>What a session sees of the tables of the application.\<close>

definition seen :: "db_role \<Rightarrow> schema \<Rightarrow> string \<Rightarrow> uuid option \<Rightarrow> 'z app_db_scheme \<Rightarrow> 'z app_db_scheme" where
  "seen r s role uid d =
     d\<lparr>ad_snapshots := filter (\<lambda>x. row_shown r s role uid ''user_profile_snapshots'' [sn_user_id x]) (ad_snapshots d),
       ad_assessments := filter (\<lambda>x. row_shown r s role uid ''assessments'' [am_user_id x]) (ad_assessments d),
       ad_roadmaps := filter (\<lambda>x. row_shown r s role uid ''roadmaps'' [rm_user_id x]) (ad_roadmaps d),
       bd_subscriptions := filter (\<lambda>x. row_shown r s role uid ''subscriptions'' [su_user_id x]) (bd_subscriptions d),
       bd_entitlements := filter (\<lambda>x. row_shown r s role uid ''entitlements'' [en_user_id x]) (bd_entitlements d),
       bd_counters := filter (\<lambda>x. row_shown r s role uid ''usage_counters'' [uc_user_id x]) (bd_counters d),
       ad_results := filter (\<lambda>x. row_shown r s role uid ''assessment_results'' (assessment_owners d (rs_assessment_id x)))
         (ad_results d),
       ad_items := filter (\<lambda>x. row_shown r s role uid ''assessment_result_items'' (result_owners d (ri_assessment_result_id x)))
         (ad_items d),
       ad_steps := filter (\<lambda>x. row_shown r s role uid ''roadmap_steps'' (roadmap_owners d (st_roadmap_id x))) (ad_steps d),
       ad_jobs := filter (\<lambda>x. row_shown r s role uid ''jobs'' (job_owners d x)) (ad_jobs d),
       bd_events := filter (\<lambda>x. row_shown r s role uid ''billing_events'' []) (bd_events d)\<rparr>"

definition session_view ::
    "(string \<Rightarrow> uuid option) \<Rightarrow> db_role \<Rightarrow> schema \<Rightarrow> pg_session \<Rightarrow> 'z app_db_scheme \<Rightarrow> 'z app_db_scheme result" where
  "session_view pg_uuid r s p d =
     bindR (app_current_user_id pg_uuid p) (\<lambda>uid. Inr (seen r s (app_current_user_role p) uid d))"

end
