(* ===== verification/Tenant_Contract.thy ===== *)
theory Tenant_Contract
  imports Tenant_Isolation Assessments Jobs_Contract
begin

text \<open>
  What row level security does to the application: within the transaction of the authentication a member sees exactly
  its own rows; after the first commit, and in every worker, nobody sees any row; and the downgrade of the revision
  hides all rows from everyone.
\<close>

section \<open>The statements of revision 0006\<close>

definition tenant_policies :: "(string \<times> string \<times> policy_rule) list" where
  "tenant_policies =
     map (\<lambda>t. (t, t @ ''_tenant_isolation'', owner_column)) direct_owner_tables
     @ [(''assessment_results'', ''assessment_results_tenant_isolation'', via_assessment),
        (''assessment_result_items'', ''assessment_result_items_tenant_isolation'', via_result),
        (''roadmap_steps'', ''roadmap_steps_tenant_isolation'', via_roadmap),
        (''jobs'', ''jobs_tenant_isolation'', via_job),
        (''billing_events'', ''billing_events_internal_only'', admin_only)]"

definition tenant_tables :: "string list" where
  "tenant_tables = map fst tenant_policies"

definition policy_functions :: "string set" where
  "policy_functions = {''app_current_user_role'', ''app_current_user_id''}"

lemma enable_as_list: "enable_multitenant_rls = concat (map (\<lambda>(n, p, r). isolate n p r) tenant_policies)"
  by (simp add: enable_multitenant_rls_def tenant_policies_def direct_owner_tables_def)

lemma disable_as_list: "disable_multitenant_rls = map (\<lambda>(n, p, r). drop_policy n p) tenant_policies"
  by (simp add: disable_multitenant_rls_def tenant_policies_def direct_owner_tables_def)

lemma tenant_tables_distinct: "distinct (map fst tenant_policies)"
  by (simp add: tenant_policies_def direct_owner_tables_def)

lemma rule_functions_known: "set (rule_functions r) \<subseteq> policy_functions"
  by (cases r) (auto simp: policy_functions_def)

text \<open>A change of one table, seen through the lookup.\<close>

lemma find_map_named:
  assumes "\<And>x. P (f x) = P x" "\<And>x. \<not> Q x \<Longrightarrow> P x \<Longrightarrow> False"
  shows "find P (map (\<lambda>x. if Q x then f x else x) xs) = map_option (\<lambda>x. if Q x then f x else x) (find P xs)"
  using assms by (induction xs) auto

lemma table_of_changed:
  assumes "tb_name t' = n"
  shows "table_of (s\<lparr>sc_tables := map (\<lambda>x. if tb_name x = n then t' else x) (sc_tables s)\<rparr>) m
    = (if m = n then map_option (\<lambda>_. t') (table_of s n) else table_of s m)"
proof -
  have "find (\<lambda>t. tb_name t = m) (map (\<lambda>x. if tb_name x = n then t' else x) xs)
      = (if m = n then map_option (\<lambda>_. t') (find (\<lambda>t. tb_name t = n) xs) else find (\<lambda>t. tb_name t = m) xs)" for xs
    using assms by (induction xs) auto
  then show ?thesis by (simp add: table_of_def)
qed

lemma change_table_found:
  assumes "table_of s n = Some t" "f t = Some t'" "tb_name t' = n"
  shows "\<exists>s'. change_table s n f = Some s' \<and> sc_functions s' = sc_functions s \<and> table_of s' = (table_of s)(n \<mapsto> t')"
  using assms table_of_changed [OF assms(3), of s] by (auto simp: change_table_def fun_eq_iff)

lemma table_of_name: "table_of s n = Some t \<Longrightarrow> tb_name t = n"
  by (auto simp: table_of_def find_Some_iff)

definition secured :: "string \<Rightarrow> policy_rule \<Rightarrow> table \<Rightarrow> table" where
  "secured p r t = t\<lparr>tb_rls := True, tb_forced := True,
     tb_policies := filter (\<lambda>(q, x). q \<noteq> p) (tb_policies t) @ [(p, r)]\<rparr>"

lemma run_isolate:
  assumes t: "table_of s n = Some t" and f: "policy_functions \<subseteq> set (sc_functions s)"
  shows "\<exists>s'. run_ddl l (isolate n p r) s = Some s' \<and> sc_functions s' = sc_functions s
    \<and> table_of s' = (table_of s)(n \<mapsto> secured p r t)"
proof -
  note name = table_of_name [OF t]
  let ?t1 = "t\<lparr>tb_rls := True\<rparr>" and ?t2 = "t\<lparr>tb_rls := True, tb_forced := True\<rparr>"
  let ?t3 = "?t2\<lparr>tb_policies := filter (\<lambda>(q, x). q \<noteq> p) (tb_policies t)\<rparr>"
  obtain s1 where 1: "apply_ddl l (enable_rls n) s = Some s1" "sc_functions s1 = sc_functions s"
    "table_of s1 = (table_of s)(n \<mapsto> ?t1)"
    using change_table_found [OF t, of "\<lambda>t. Some (t\<lparr>tb_rls := True\<rparr>)"] name by auto
  obtain s2 where 2: "apply_ddl l (force_rls n) s1 = Some s2" "sc_functions s2 = sc_functions s"
    "table_of s2 = (table_of s)(n \<mapsto> ?t2)"
    using change_table_found [of s1 n ?t1 "\<lambda>t. Some (t\<lparr>tb_forced := True\<rparr>)"] name 1 by auto
  obtain s3 where 3: "apply_ddl l (drop_policy n p) s2 = Some s3" "sc_functions s3 = sc_functions s"
    "table_of s3 = (table_of s)(n \<mapsto> ?t3)"
    using change_table_found [of s2 n ?t2 "\<lambda>t. Some (t\<lparr>tb_policies := filter (\<lambda>(q, x). q \<noteq> p) (tb_policies t)\<rparr>)"] name 2
    by auto
  have g: "list_all (\<lambda>f. f \<in> set (sc_functions s3)) (rule_functions r)"
    using rule_functions_known [of r] f 3(2) by (auto simp: list_all_iff)
  have fresh: "\<not> list_ex (\<lambda>(q, x). q = p) (tb_policies ?t3)" by (auto simp: list_ex_iff)
  obtain s4 where 4: "apply_ddl l (create_policy n p r) s3 = Some s4" "sc_functions s4 = sc_functions s"
    "table_of s4 = (table_of s)(n \<mapsto> secured p r t)"
    using change_table_found [of s3 n ?t3 "\<lambda>t. if list_ex (\<lambda>(q, x). q = p) (tb_policies t) then None
        else Some (t\<lparr>tb_policies := tb_policies t @ [(p, r)]\<rparr>)" "secured p r t"] name 3 g fresh
    by (auto simp: secured_def)
  show ?thesis using 1(1) 2(1) 3(1) 4 by (simp add: isolate_def)
qed

lemma run_isolates:
  assumes "distinct (map fst ps)" "\<forall>x\<in>set ps. table_of s (fst x) \<noteq> None" "policy_functions \<subseteq> set (sc_functions s)"
  shows "\<exists>s'. run_ddl l (concat (map (\<lambda>(n, p, r). isolate n p r) ps)) s = Some s' \<and> sc_functions s' = sc_functions s
    \<and> (\<forall>(n, p, r)\<in>set ps. table_of s' n = map_option (secured p r) (table_of s n))
    \<and> (\<forall>n. n \<notin> fst ` set ps \<longrightarrow> table_of s' n = table_of s n)"
  using assms
proof (induction ps arbitrary: s)
  case (Cons x ps)
  obtain n p r where x: "x = (n, p, r)" by (cases x)
  then obtain t where t: "table_of s n = Some t" using Cons.prems(2) by auto
  obtain s1 where 1: "run_ddl l (isolate n p r) s = Some s1" "sc_functions s1 = sc_functions s"
    "table_of s1 = (table_of s)(n \<mapsto> secured p r t)" using run_isolate [OF t Cons.prems(3)] by blast
  have "\<forall>x\<in>set ps. table_of s1 (fst x) \<noteq> None" using Cons.prems(2) 1(3) by auto
  then obtain s2 where 2: "run_ddl l (concat (map (\<lambda>(n, p, r). isolate n p r) ps)) s1 = Some s2"
    "sc_functions s2 = sc_functions s" "\<forall>(m, p, r)\<in>set ps. table_of s2 m = map_option (secured p r) (table_of s1 m)"
    "\<forall>m. m \<notin> fst ` set ps \<longrightarrow> table_of s2 m = table_of s1 m"
    using Cons.IH [of s1] Cons.prems(1,3) unfolding 1(2) by auto
  have n: "n \<notin> fst ` set ps" using Cons.prems(1) x by auto
  have "\<forall>(m, p, r)\<in>set ps. table_of s2 m = map_option (secured p r) (table_of s m)"
    using 2(3) n 1(3) by (force simp: image_iff)
  with 1 2 n t x show ?case by (auto simp: run_ddl_append)
qed simp

lemma enable_run:
  assumes "\<forall>n\<in>set tenant_tables. table_of s n \<noteq> None" "policy_functions \<subseteq> set (sc_functions s)"
  shows "\<exists>s'. run_ddl l enable_multitenant_rls s = Some s'
    \<and> (\<forall>(n, p, r)\<in>set tenant_policies. table_of s' n = map_option (secured p r) (table_of s n))"
  using run_isolates [OF tenant_tables_distinct _ assms(2)] assms(1)
  unfolding enable_as_list tenant_tables_def by fastforce

section \<open>What a session sees\<close>

text \<open>The rows that belong to a user, and no row at all.\<close>

definition owns_assessment :: "uuid \<Rightarrow> 'z app_db_scheme \<Rightarrow> uuid \<Rightarrow> bool" where
  "owns_assessment u d i \<longleftrightarrow> (\<exists>a\<in>set (ad_assessments d). am_id a = i \<and> am_user_id a = u)"

definition owns_roadmap :: "uuid \<Rightarrow> 'z app_db_scheme \<Rightarrow> uuid \<Rightarrow> bool" where
  "owns_roadmap u d i \<longleftrightarrow> (\<exists>a\<in>set (ad_roadmaps d). rm_id a = i \<and> rm_user_id a = u)"

definition rows_of :: "uuid option \<Rightarrow> 'z app_db_scheme \<Rightarrow> 'z app_db_scheme" where
  "rows_of w d =
     d\<lparr>ad_snapshots := filter (\<lambda>x. w = Some (sn_user_id x)) (ad_snapshots d),
       ad_assessments := filter (\<lambda>x. w = Some (am_user_id x)) (ad_assessments d),
       ad_roadmaps := filter (\<lambda>x. w = Some (rm_user_id x)) (ad_roadmaps d),
       bd_subscriptions := filter (\<lambda>x. w = Some (su_user_id x)) (bd_subscriptions d),
       bd_entitlements := filter (\<lambda>x. w = Some (en_user_id x)) (bd_entitlements d),
       bd_counters := filter (\<lambda>x. w = Some (uc_user_id x)) (bd_counters d),
       ad_results := filter (\<lambda>x. \<exists>u. w = Some u \<and> owns_assessment u d (rs_assessment_id x)) (ad_results d),
       ad_items := filter (\<lambda>x. \<exists>u. w = Some u \<and> (\<exists>r\<in>set (ad_results d). rs_id r = ri_assessment_result_id x
         \<and> owns_assessment u d (rs_assessment_id r))) (ad_items d),
       ad_steps := filter (\<lambda>x. \<exists>u. w = Some u \<and> owns_roadmap u d (st_roadmap_id x)) (ad_steps d),
       ad_jobs := filter (\<lambda>x. \<exists>u. w = Some u \<and> ((\<exists>i. jb_assessment_id x = Some i \<and> owns_assessment u d i)
         \<or> (\<exists>i. jb_roadmap_id x = Some i \<and> owns_roadmap u d i))) (ad_jobs d),
       bd_events := []\<rparr>"

text \<open>A schema whose tables of the tenants have these policies and no others.\<close>

definition isolating :: "schema \<Rightarrow> bool" where
  "isolating s \<longleftrightarrow> (\<forall>(n, p, r)\<in>set tenant_policies. \<exists>t. table_of s n = Some t \<and> tb_rls t \<and> tb_forced t
     \<and> tb_policies t = [(p, r)])"

lemma row_shown_isolating:
  assumes "isolating s" "(n, p, r) \<in> set tenant_policies" "\<not> dr_bypass q"
  shows "row_shown q s role uid n owners \<longleftrightarrow> allows role uid r owners"
  using assms by (fastforce simp: isolating_def row_shown_def)

lemma owners_sets:
  "u \<in> set (assessment_owners d i) \<longleftrightarrow> owns_assessment u d i"
  "u \<in> set (roadmap_owners d i) \<longleftrightarrow> owns_roadmap u d i"
  "u \<in> set (result_owners d i) \<longleftrightarrow> (\<exists>r\<in>set (ad_results d). rs_id r = i \<and> owns_assessment u d (rs_assessment_id r))"
  by (auto simp: assessment_owners_def roadmap_owners_def result_owners_def owns_assessment_def owns_roadmap_def)

lemma job_owners_set:
  "u \<in> set (job_owners d x) \<longleftrightarrow> (\<exists>i. jb_assessment_id x = Some i \<and> owns_assessment u d i)
     \<or> (\<exists>i. jb_roadmap_id x = Some i \<and> owns_roadmap u d i)"
  by (cases "jb_assessment_id x"; cases "jb_roadmap_id x") (simp_all add: job_owners_def owners_sets)

definition owned_tables :: "string list" where
  "owned_tables =
     [''user_profile_snapshots'', ''assessments'', ''roadmaps'', ''subscriptions'', ''entitlements'',
      ''usage_counters'', ''assessment_results'', ''assessment_result_items'', ''roadmap_steps'', ''jobs'']"

lemma owned_rules:
  "list_all (\<lambda>n. list_ex (\<lambda>(m, p, r). m = n \<and> r \<notin> {always, never, admin_only}) tenant_policies) owned_tables"
  by code_simp

lemma allows_owner:
  "r \<notin> {always, never, admin_only} \<Longrightarrow> role \<noteq> ''admin'' \<Longrightarrow>
    allows role w r owners \<longleftrightarrow> (\<exists>u. w = Some u \<and> u \<in> set owners)"
  by (cases r; cases w) simp_all

lemma seen_rows:
  assumes "isolating s" "\<not> dr_bypass q" "role \<noteq> ''admin''"
  shows "seen q s role w d = rows_of w d"
proof -
  have P: "row_shown q s role w n owners \<longleftrightarrow> allows role w r owners" if "(n, p, r) \<in> set tenant_policies" for n p r owners
    using row_shown_isolating [OF assms(1) that assms(2)] .
  have t: "row_shown q s role w n owners \<longleftrightarrow> (\<exists>u. w = Some u \<and> u \<in> set owners)" if n: "n \<in> set owned_tables" for n owners
  proof -
    obtain p r where "(n, p, r) \<in> set tenant_policies" "r \<notin> {always, never, admin_only}"
      using owned_rules n by (fastforce simp: list_all_iff list_ex_iff)
    then show ?thesis using P allows_owner assms(3) by blast
  qed
  have e: "\<not> row_shown q s role w ''billing_events'' owners" for owners
    using P [of "''billing_events''" "''billing_events_internal_only''" admin_only owners] assms(3)
    by (simp add: tenant_policies_def)
  have "rows_of w d = seen q s role w d"
    unfolding seen_def rows_of_def by (simp add: t owned_tables_def e owners_sets job_owners_set)
  then show ?thesis by simp
qed

lemma enable_isolates:
  assumes "\<forall>n\<in>set tenant_tables. \<exists>t. table_of s n = Some t \<and> tb_policies t = []" "policy_functions \<subseteq> set (sc_functions s)"
  shows "\<exists>s'. run_ddl l enable_multitenant_rls s = Some s' \<and> isolating s'"
proof -
  obtain s' where s': "run_ddl l enable_multitenant_rls s = Some s'"
    "\<forall>(n, p, r)\<in>set tenant_policies. table_of s' n = map_option (secured p r) (table_of s n)"
    using enable_run [OF _ assms(2)] assms(1) by fastforce
  have "isolating s'"
    unfolding isolating_def
  proof (intro ballI, clarify)
    fix n p r assume m: "(n, p, r) \<in> set tenant_policies"
    then have "n \<in> set tenant_tables" by (force simp: tenant_tables_def)
    then obtain t where t: "table_of s n = Some t" "tb_policies t = []" using assms(1) by blast
    have "table_of s' n = map_option (secured p r) (table_of s n)" using s'(2) m by blast
    with t show "\<exists>t. table_of s' n = Some t \<and> tb_rls t \<and> tb_forced t \<and> tb_policies t = [(p, r)]"
      by (simp add: secured_def)
  qed
  with s'(1) show ?thesis by blast
qed

lemma uuid_str_nonempty: "uuid_str u \<noteq> []"
  by (simp add: uuid_str_def)

lemma context_identity:
  assumes "pg_uuid (uuid_str u) = Some u" "role \<noteq> []"
  shows "app_current_user_id pg_uuid (apply_rls_context True u role new_session) = Inr (Some u)"
    and "app_current_user_role (apply_rls_context True u role new_session) = role"
  using assms uuid_str_nonempty [of u]
  by (simp_all add: app_current_user_id_def app_current_user_role_def apply_rls_context_def set_config_local_def
      current_setting_def new_session_def nullif_empty_def coalesce_def)

lemma ended_identity:
  "app_current_user_id pg_uuid (end_transaction (apply_rls_context True u role new_session)) = Inr None"
  "app_current_user_role (end_transaction (apply_rls_context True u role new_session)) = ''member''"
  "app_current_user_id pg_uuid new_session = Inr None" "app_current_user_role new_session = ''member''"
  by (simp_all add: app_current_user_id_def app_current_user_role_def apply_rls_context_def set_config_local_def
      current_setting_def new_session_def nullif_empty_def coalesce_def end_transaction_def)

text \<open>C15. Revision 0006 isolates the tenants: on any schema that has the eleven tables without policies, and the two
  functions, its statements succeed; then, with a database role that does not bypass row security (the owner of the
  tables included), the transaction in which a member was authenticated sees exactly the rows that belong to the
  member, through assessments, results and roadmaps where the rows name no user, and no billing event. The settings
  end with the transaction: after the first commit of the request, and in every session that never authenticates
  anybody (the workers'), no row of these tables is visible, whoever owns it.\<close>

theorem tenants_isolated:
  assumes "\<forall>n\<in>set tenant_tables. \<exists>t. table_of s n = Some t \<and> tb_policies t = []" "policy_functions \<subseteq> set (sc_functions s)"
    and "\<not> dr_bypass q" "pg_uuid (uuid_str u) = Some u" "p = apply_rls_context True u ''member'' new_session"
  shows "\<exists>s'. run_ddl l enable_multitenant_rls s = Some s'
    \<and> session_view pg_uuid q s' p d = Inr (rows_of (Some u) d)
    \<and> session_view pg_uuid q s' (end_transaction p) d = Inr (rows_of None d)
    \<and> session_view pg_uuid q s' new_session d = Inr (rows_of None d)"
proof -
  obtain s' where s': "run_ddl l enable_multitenant_rls s = Some s'" "isolating s'"
    using enable_isolates [OF assms(1,2)] by blast
  have v: "seen q s' ''member'' w d = rows_of w d" for w by (rule seen_rows [OF s'(2) assms(3)]) simp
  show ?thesis
    using s'(1) context_identity [of pg_uuid u "''member''", OF assms(4)] ended_identity
    by (simp add: assms(5) session_view_def v)
qed

definition bare_table :: "string \<Rightarrow> table" where
  "bare_table n = \<lparr>tb_name = n, tb_columns = [], tb_constraints = [], tb_rls = False, tb_forced = False, tb_policies = []\<rparr>"

definition bare_schema :: schema where
  "bare_schema = empty_schema\<lparr>sc_tables := map bare_table tenant_tables,
     sc_functions := [''app_current_user_role'', ''app_current_user_id'']\<rparr>"

lemma find_bare: "n \<in> set ns \<Longrightarrow> find (\<lambda>t. tb_name t = n) (map bare_table ns) = Some (bare_table n)"
  by (induction ns) (auto simp: bare_table_def)

lemma bare_schema_ok:
  "\<forall>n\<in>set tenant_tables. \<exists>t. table_of bare_schema n = Some t \<and> tb_policies t = []"
  "policy_functions \<subseteq> set (sc_functions bare_schema)"
  using find_bare [of _ tenant_tables]
  by (auto simp: table_of_def bare_schema_def policy_functions_def) (simp add: bare_table_def)

definition read_7 :: "string \<Rightarrow> uuid option" where
  "read_7 v = (if v = uuid_str 7 then Some 7 else None)"

lemma tenants_isolated_witness:
  "\<exists>s'. run_ddl True enable_multitenant_rls bare_schema = Some s'
    \<and> session_view read_7 \<lparr>dr_bypass = False, dr_owner = True\<rparr> s'
        (apply_rls_context True 7 ''member'' new_session) job_app = Inr (rows_of (Some 7) job_app)
    \<and> session_view read_7 \<lparr>dr_bypass = False, dr_owner = True\<rparr> s'
        (end_transaction (apply_rls_context True 7 ''member'' new_session)) job_app = Inr (rows_of None job_app)
    \<and> session_view read_7 \<lparr>dr_bypass = False, dr_owner = True\<rparr> s' new_session job_app = Inr (rows_of None job_app)"
  by (rule tenants_isolated [OF bare_schema_ok]) (simp_all add: read_7_def)

text \<open>With row security in force a worker computes nothing: on what its sessions see, every delivery of the score
  task ends with an exception out of the error handler itself, no job is marked running or failed, no dead letter is
  emitted, and nothing changes.\<close>

theorem worker_cannot_work:
  assumes "isolating s" "\<not> dr_bypass q" "session_view pg_uuid q s new_session d = Inr v"
  shows "\<exists>e. process_assessment_task cfg no_faults now duration_ms msg retries v = (Inr (Raised e None), v)"
proof -
  have "seen q s ''member'' None d = rows_of None d" by (rule seen_rows [OF assms(1,2)]) simp
  then have v: "v = rows_of None d" using assms(3) by (simp add: session_view_def ended_identity)
  then have jobs: "ad_jobs v = []" by (simp add: rows_of_def)
  define none where "none = NoResultFound ''No row was found when one was required''"
  have change: "change_job i f (begin_txn v) = (Inl none, begin_txn v)" for i f
    by (simp add: change_job_def get_job_def jobs none_def job_of_def)
  then have run: "request (run_assessment_job cfg now a j tr) v = (Inl none, v)" for a j tr
    by (simp add: request_def run_assessment_job_def bindO_def mark_running_def begin_txn_def)
  have marks: "request (mark_failed now j x duration_ms b) v = (Inl none, v)" "request (mark_pending_retry j x) v = (Inl none, v)"
    for j x b using change by (simp_all add: request_def mark_failed_def mark_pending_retry_def begin_txn_def)
  have "handle_score_failure cfg no_faults now duration_ms retries j tr none v = (Inl none, v)" for j tr
    by (simp add: handle_score_failure_def bindO_def session_def no_faults_def marks)
  then have "score_delivery cfg no_faults now duration_ms j tr (run_assessment_job cfg now a j tr) retries v = (Inr (Raised none None), v)"
    for a j tr by (simp add: score_delivery_def killable_def session_def no_faults_def catch_def bindO_def run)
  then show ?thesis by (auto simp: process_assessment_task_def split: sum.splits)
qed

lemma worker_cannot_work_witness:
  "\<exists>s e. run_ddl True enable_multitenant_rls bare_schema = Some s
    \<and> process_assessment_task base_defaults no_faults 5 10 \<lparr>tm_target_id = uuid_str 1, tm_job_id = uuid_str 2, tm_trace_id = None,
        tm_priority = 5\<rparr> 0 (rows_of None job_app) = (Inr (Raised e None), rows_of None job_app)"
proof -
  obtain s where s: "run_ddl True enable_multitenant_rls bare_schema = Some s" "isolating s"
    using enable_isolates [OF bare_schema_ok] by blast
  have "seen \<lparr>dr_bypass = False, dr_owner = True\<rparr> s ''member'' None job_app = rows_of None job_app"
    by (rule seen_rows [OF s(2)]) simp_all
  then have "session_view read_7 \<lparr>dr_bypass = False, dr_owner = True\<rparr> s new_session job_app = Inr (rows_of None job_app)"
    by (simp add: session_view_def ended_identity)
  then show ?thesis
    using worker_cannot_work [OF s(2), of "\<lparr>dr_bypass = False, dr_owner = True\<rparr>" read_7 job_app "rows_of None job_app"] s(1)
    by auto
qed

section \<open>The downgrade\<close>

lemma run_drops:
  assumes "distinct (map fst ps)" "\<forall>x\<in>set ps. table_of s (fst x) \<noteq> None"
  shows "\<exists>s'. run_ddl l (map (\<lambda>(n, p, r). drop_policy n p) ps) s = Some s'
    \<and> (\<forall>(n, p, r)\<in>set ps. table_of s' n
        = map_option (\<lambda>t. t\<lparr>tb_policies := filter (\<lambda>(q, x). q \<noteq> p) (tb_policies t)\<rparr>) (table_of s n))
    \<and> (\<forall>n. n \<notin> fst ` set ps \<longrightarrow> table_of s' n = table_of s n)"
  using assms
proof (induction ps arbitrary: s)
  case (Cons x ps)
  obtain n p r where x: "x = (n, p, r)" by (cases x)
  then obtain t where t: "table_of s n = Some t" using Cons.prems(2) by auto
  let ?t = "t\<lparr>tb_policies := filter (\<lambda>(q, x). q \<noteq> p) (tb_policies t)\<rparr>"
  obtain s1 where 1: "apply_ddl l (drop_policy n p) s = Some s1" "table_of s1 = (table_of s)(n \<mapsto> ?t)"
    using change_table_found [OF t, of "\<lambda>t. Some (t\<lparr>tb_policies := filter (\<lambda>(q, x). q \<noteq> p) (tb_policies t)\<rparr>)" ?t]
      table_of_name [OF t] by auto
  have "\<forall>x\<in>set ps. table_of s1 (fst x) \<noteq> None" using Cons.prems(2) 1(2) by auto
  then obtain s2 where 2: "run_ddl l (map (\<lambda>(n, p, r). drop_policy n p) ps) s1 = Some s2"
    "\<forall>(m, p, r)\<in>set ps. table_of s2 m
        = map_option (\<lambda>t. t\<lparr>tb_policies := filter (\<lambda>(q, x). q \<noteq> p) (tb_policies t)\<rparr>) (table_of s1 m)"
    "\<forall>m. m \<notin> fst ` set ps \<longrightarrow> table_of s2 m = table_of s1 m"
    using Cons.IH [of s1] Cons.prems(1) by auto
  have n: "n \<notin> fst ` set ps" using Cons.prems(1) x by auto
  have "\<forall>(m, p, r)\<in>set ps. table_of s2 m
      = map_option (\<lambda>t. t\<lparr>tb_policies := filter (\<lambda>(q, x). q \<noteq> p) (tb_policies t)\<rparr>) (table_of s m)"
    using 2(2) n 1(2) by (force simp: image_iff)
  with 1 2 n t x show ?case by auto
qed simp

text \<open>The downgrade of revision 0006 does not restore what it found: it drops the policies and leaves row security
  enabled and forced, so that afterwards no row of the eleven tables is visible to any role that does not bypass row
  security, an administrator of the application and the owner of the tables included.\<close>

theorem downgrade_hides_rows:
  assumes "\<forall>n\<in>set tenant_tables. \<exists>t. table_of s n = Some t \<and> tb_policies t = []" "policy_functions \<subseteq> set (sc_functions s)"
  shows "\<exists>s'. run_ddl l (enable_multitenant_rls @ disable_multitenant_rls) s = Some s'
    \<and> (\<forall>q role uid n owners. n \<in> set tenant_tables \<longrightarrow> \<not> dr_bypass q \<longrightarrow> \<not> row_shown q s' role uid n owners)"
proof -
  obtain s1 where 1: "run_ddl l enable_multitenant_rls s = Some s1" "isolating s1"
    using enable_isolates [OF assms] by blast
  have found: "\<forall>x\<in>set tenant_policies. table_of s1 (fst x) \<noteq> None" using 1(2) by (fastforce simp: isolating_def)
  obtain s2 where 2: "run_ddl l disable_multitenant_rls s1 = Some s2"
    "\<forall>(n, p, r)\<in>set tenant_policies. table_of s2 n
        = map_option (\<lambda>t. t\<lparr>tb_policies := filter (\<lambda>(q, x). q \<noteq> p) (tb_policies t)\<rparr>) (table_of s1 n)"
    using run_drops [OF tenant_tables_distinct found] unfolding disable_as_list by blast
  have "\<not> row_shown q s2 role uid n owners" if n: "n \<in> set tenant_tables" and q: "\<not> dr_bypass q" for q role uid n owners
  proof -
    obtain p r where m: "(n, p, r) \<in> set tenant_policies" using n by (force simp: tenant_tables_def)
    then obtain t where t: "table_of s1 n = Some t" "tb_rls t" "tb_forced t" "tb_policies t = [(p, r)]"
      using 1(2) by (fastforce simp: isolating_def)
    have "table_of s2 n = map_option (\<lambda>t. t\<lparr>tb_policies := filter (\<lambda>(q, x). q \<noteq> p) (tb_policies t)\<rparr>) (table_of s1 n)"
      using 2(2) m by blast
    then show ?thesis using t q by (simp add: row_shown_def)
  qed
  with 1(1) 2(1) show ?thesis by (auto simp: run_ddl_append)
qed

lemma downgrade_hides_rows_witness:
  "\<exists>s'. run_ddl False (enable_multitenant_rls @ disable_multitenant_rls) bare_schema = Some s'
    \<and> \<not> row_shown \<lparr>dr_bypass = False, dr_owner = True\<rparr> s' ''admin'' (Some 7) ''assessments'' [7]"
proof -
  have "''assessments'' \<in> set tenant_tables" by (simp add: tenant_tables_def tenant_policies_def direct_owner_tables_def)
  then show ?thesis using downgrade_hides_rows [OF bare_schema_ok, of False] by (metis db_role.select_convs(1))
qed

end
