(* ===== verification/Rules_Api.thy ===== *)
theory Rules_Api
  imports Ingestion Mvp_Catalog
begin

text \<open>
  The routes of the rules, \<open>src/app/api/v1/immigration_rules.py\<close>, and of the public catalog,
  \<open>src/app/api/v1/countries_catalog.py\<close>: the bounds of their payloads and what their responses read. Only the
  responses of conditions can refuse a row; those of the other tables carry the columns of the row (the time of
  creation is left out where the row of the model has none).
\<close>

section \<open>Payloads\<close>

text \<open>A body that its schema refuses is answered with 422 before the route runs.\<close>

definition valid_body :: "bool \<Rightarrow> ('s, unit) op" where
  "valid_body ok = (if ok then ret () else raise (HTTPException 422 ''validation error''))"

definition text_within :: "nat \<Rightarrow> nat \<Rightarrow> string \<Rightarrow> bool" where
  "text_within lo hi s \<longleftrightarrow> lo \<le> length s \<and> length s \<le> hi"

definition field_within :: "nat \<Rightarrow> nat \<Rightarrow> string field \<Rightarrow> bool" where
  "field_within lo hi f \<longleftrightarrow> (case f of Some (Some s) \<Rightarrow> text_within lo hi s | _ \<Rightarrow> True)"

definition valid_country_create :: "country_create \<Rightarrow> bool" where
  "valid_country_create p \<longleftrightarrow> text_within 2 2 (cc_code p) \<and> text_within 2 120 (cc_name p)"

definition valid_country_update :: "country_update \<Rightarrow> bool" where
  "valid_country_update p \<longleftrightarrow> field_within 2 120 (cu_name p)"

definition valid_program_create :: "program_create \<Rightarrow> bool" where
  "valid_program_create p \<longleftrightarrow> text_within 2 64 (pc_code p) \<and> text_within 2 160 (pc_name p)"

definition valid_program_update :: "program_update \<Rightarrow> bool" where
  "valid_program_update p \<longleftrightarrow> field_within 2 160 (pu_name p)"

definition valid_version_create :: "version_create \<Rightarrow> bool" where
  "valid_version_create p \<longleftrightarrow> text_within 1 32 (vc_version p)"

definition valid_version_update :: "version_update \<Rightarrow> bool" where
  "valid_version_update p \<longleftrightarrow> field_within 1 32 (vu_version p)"

definition valid_group_create :: "group_create \<Rightarrow> bool" where
  "valid_group_create p \<longleftrightarrow> text_within 1 64 (gc_code p) \<and> text_within 2 160 (gc_name p)"

definition valid_group_update :: "group_update \<Rightarrow> bool" where
  "valid_group_update p \<longleftrightarrow> field_within 2 160 (gu_name p)"

definition valid_condition_create :: "condition_create \<Rightarrow> bool" where
  "valid_condition_create p \<longleftrightarrow> text_within 1 120 (dc_field_key p)"

definition valid_condition_update :: "condition_update \<Rightarrow> bool" where
  "valid_condition_update p \<longleftrightarrow> field_within 1 120 (du_field_key p)"

section \<open>Routes of the rules\<close>

text \<open>\<open>RuleConditionRead.model_validate\<close>: the value must be an object.\<close>

definition read_condition :: "condition_row \<Rightarrow> condition_row result" where
  "read_condition c =
     (case cr_value_json c of
        JObj _ \<Rightarrow> Inr c
      | _ \<Rightarrow> Inl (ValueError ''validation error: value_json''))"

definition create_country_route :: "country_create \<Rightarrow> ('z, country) rules_op" where
  "create_country_route p = bindO (valid_body (valid_country_create p)) (\<lambda>_. create_country p)"

definition list_countries_route :: "('z, country list) rules_op" where
  "list_countries_route = list_countries"

definition get_country_route :: "uuid \<Rightarrow> ('z, country) rules_op" where
  "get_country_route i = bindO (get_country i) (found ''Country not found'')"

definition update_country_route :: "uuid \<Rightarrow> country_update \<Rightarrow> ('z, country) rules_op" where
  "update_country_route i p = bindO (valid_body (valid_country_update p)) (\<lambda>_. update_country i p)"

definition create_program_route :: "program_create \<Rightarrow> ('z, program) rules_op" where
  "create_program_route p = bindO (valid_body (valid_program_create p)) (\<lambda>_. create_program p)"

definition list_programs_route :: "uuid option \<Rightarrow> ('z, program list) rules_op" where
  "list_programs_route country_id = list_programs country_id"

definition get_program_route :: "uuid \<Rightarrow> ('z, program) rules_op" where
  "get_program_route i = bindO (get_program i) (found ''Program not found'')"

definition update_program_route :: "uuid \<Rightarrow> program_update \<Rightarrow> ('z, program) rules_op" where
  "update_program_route i p = bindO (valid_body (valid_program_update p)) (\<lambda>_. update_program i p)"

definition create_program_version_route :: "time \<Rightarrow> version_create \<Rightarrow> ('z, program_version) rules_op" where
  "create_program_version_route now p =
     bindO (valid_body (valid_version_create p)) (\<lambda>_. create_program_version now p)"

definition list_program_versions_route :: "uuid \<Rightarrow> ('z, program_version list) rules_op" where
  "list_program_versions_route program_id = list_program_versions program_id"

definition get_program_version_route :: "uuid \<Rightarrow> ('z, program_version) rules_op" where
  "get_program_version_route i = bindO (get_program_version i) (found ''Program version not found'')"

definition update_program_version_route :: "uuid \<Rightarrow> version_update \<Rightarrow> ('z, program_version) rules_op" where
  "update_program_version_route i p =
     bindO (valid_body (valid_version_update p)) (\<lambda>_. update_program_version i p)"

definition activate_program_version_route :: "uuid \<Rightarrow> bool \<Rightarrow> ('z, program_version) rules_op" where
  "activate_program_version_route i force = activate_program_version i force"

definition create_rule_group_route :: "time \<Rightarrow> group_create \<Rightarrow> ('z, group_row) rules_op" where
  "create_rule_group_route now p = bindO (valid_body (valid_group_create p)) (\<lambda>_. create_rule_group now p)"

definition list_rule_groups_route :: "uuid \<Rightarrow> ('z, group_row list) rules_op" where
  "list_rule_groups_route program_version_id = list_rule_groups_by_version program_version_id"

definition get_rule_group_route :: "uuid \<Rightarrow> ('z, group_row) rules_op" where
  "get_rule_group_route i = bindO (get_rule_group i) (found ''Rule group not found'')"

definition update_rule_group_route :: "uuid \<Rightarrow> group_update \<Rightarrow> ('z, group_row) rules_op" where
  "update_rule_group_route i p = bindO (valid_body (valid_group_update p)) (\<lambda>_. update_rule_group i p)"

definition delete_rule_group_route :: "uuid \<Rightarrow> ('z, unit) rules_op" where
  "delete_rule_group_route i = delete_rule_group i"

definition create_rule_condition_route :: "time \<Rightarrow> condition_create \<Rightarrow> ('z, condition_row) rules_op" where
  "create_rule_condition_route now p =
     bindO (valid_body (valid_condition_create p)) (\<lambda>_.
     bindO (create_rule_condition now p) (\<lambda>c. lift (read_condition c)))"

definition list_rule_conditions_route :: "uuid \<Rightarrow> ('z, condition_row list) rules_op" where
  "list_rule_conditions_route rule_group_id =
     bindO (list_rule_conditions rule_group_id) (\<lambda>cs. lift (mapR read_condition cs))"

definition get_rule_condition_route :: "uuid \<Rightarrow> ('z, condition_row) rules_op" where
  "get_rule_condition_route i =
     bindO (get_rule_condition i) (\<lambda>row.
     bindO (found ''Rule condition not found'' row) (\<lambda>c. lift (read_condition c)))"

definition update_rule_condition_route :: "uuid \<Rightarrow> condition_update \<Rightarrow> ('z, condition_row) rules_op" where
  "update_rule_condition_route i p =
     bindO (valid_body (valid_condition_update p)) (\<lambda>_.
     bindO (update_rule_condition i p) (\<lambda>c. lift (read_condition c)))"

definition delete_rule_condition_route :: "uuid \<Rightarrow> ('z, unit) rules_op" where
  "delete_rule_condition_route i = delete_rule_condition i"

definition create_rule_outcome_route :: "outcome_create \<Rightarrow> ('z, outcome_row) rules_op" where
  "create_rule_outcome_route p = create_rule_outcome p"

definition list_rule_outcomes_route :: "uuid \<Rightarrow> ('z, outcome_row list) rules_op" where
  "list_rule_outcomes_route rule_group_id = list_rule_outcomes rule_group_id"

definition get_rule_outcome_route :: "uuid \<Rightarrow> ('z, outcome_row) rules_op" where
  "get_rule_outcome_route i = bindO (get_rule_outcome i) (found ''Rule outcome not found'')"

definition update_rule_outcome_route :: "uuid \<Rightarrow> outcome_update \<Rightarrow> ('z, outcome_row) rules_op" where
  "update_rule_outcome_route i p = update_rule_outcome i p"

definition delete_rule_outcome_route :: "uuid \<Rightarrow> ('z, unit) rules_op" where
  "delete_rule_outcome_route i = delete_rule_outcome i"

section \<open>The catalog\<close>

record catalog_entry =
  ce_code :: string
  ce_name :: string
  ce_priority_rank :: "int option"
  ce_diaspora_population_estimate :: "int option"
  ce_program_count :: nat
  ce_rule_coverage_status :: string

record catalog_document =
  cd_source_key :: "string option"
  cd_title :: string
  cd_source_url :: string

record program_entry =
  pe_code :: string
  pe_name :: string
  pe_description :: "string option"
  pe_version :: "string option"
  pe_version_status :: "version_status option"
  pe_source_documents :: "catalog_document list"

record country_programs =
  cn_country_code :: string
  cn_country_name :: string
  cn_programs :: "program_entry list"

definition list_source_documents_by_program_version :: "uuid \<Rightarrow> ('z, source_document list) ingest_op" where
  "list_source_documents_by_program_version i = query (\<lambda>d. sort_key sd_created_at
     (filter (\<lambda>s. sd_program_version_id s = Some i) (gd_documents d)))"

text \<open>The key that the metadata name; the response takes a text or nothing.\<close>

definition source_key_of :: "json dict \<Rightarrow> string option result" where
  "source_key_of metadata =
     (case dict_get metadata ''source_key'' of
        None \<Rightarrow> Inr None
      | Some JNull \<Rightarrow> Inr None
      | Some (JStr s) \<Rightarrow> Inr (Some s)
      | _ \<Rightarrow> Inl (ValueError ''validation error: source_key''))"

definition catalog_document_of :: "source_document \<Rightarrow> catalog_document result" where
  "catalog_document_of s =
     bindR (source_key_of (sd_metadata_json s)) (\<lambda>key.
     Inr \<lparr>cd_source_key = key, cd_title = sd_title s, cd_source_url = sd_source_url s\<rparr>)"

definition build_source_documents :: "program_version option \<Rightarrow> ('z, catalog_document list) ingest_op" where
  "build_source_documents latest_version =
     (case latest_version of
        None \<Rightarrow> ret []
      | Some v \<Rightarrow>
          bindO (list_source_documents_by_program_version (pv_id v)) (\<lambda>rows.
          lift (mapR catalog_document_of rows)))"

definition catalog_entry_of :: "country \<Rightarrow> program list \<Rightarrow> catalog_entry" where
  "catalog_entry_of c programs =
     \<lparr>ce_code = co_code c, ce_name = co_name c, ce_priority_rank = co_priority_rank c,
      ce_diaspora_population_estimate = co_diaspora_population_estimate c,
      ce_program_count = length (filter pg_is_active programs),
      ce_rule_coverage_status = rule_coverage_status (co_code c)\<rparr>"

definition list_country_catalog :: "('z, catalog_entry list) rules_op" where
  "list_country_catalog =
     bindO list_countries_for_catalog (\<lambda>countries.
     mapO (\<lambda>c. bindO (list_programs (Some (co_id c))) (\<lambda>programs. ret (catalog_entry_of c programs))) countries)"

definition program_entry_of :: "program \<Rightarrow> ('z, program_entry) ingest_op" where
  "program_entry_of p =
     bindO (get_latest_program_version_for_program (pg_id p)) (\<lambda>latest_version.
     bindO (build_source_documents latest_version) (\<lambda>documents.
     ret \<lparr>pe_code = pg_code p, pe_name = pg_name p, pe_description = pg_description p,
       pe_version = map_option pv_version latest_version, pe_version_status = map_option pv_status latest_version,
       pe_source_documents = documents\<rparr>))"

definition list_country_programs :: "string \<Rightarrow> ('z, country_programs) ingest_op" where
  "list_country_programs country_code =
     bindO (get_country_by_code country_code) (\<lambda>row.
     case row of
       None \<Rightarrow> raise (HTTPException 404 ''Country not found'')
     | Some c \<Rightarrow>
         if \<not> co_is_active c then raise (HTTPException 404 ''Country not found'')
         else
           bindO (list_programs_by_country_code country_code) (\<lambda>programs.
           bindO (mapO program_entry_of programs) (\<lambda>payload.
           ret \<lparr>cn_country_code = co_code c, cn_country_name = co_name c, cn_programs = payload\<rparr>)))"

end
