(* ===== verification/Rules_Api_Contract.thy ===== *)
theory Rules_Api_Contract
  imports Rules_Api Rules_Versions Mvp_Rules
begin

text \<open>
  What the routes of the catalog and of the conditions answer.
\<close>

section \<open>The catalog\<close>

lemma mapO_query:
  assumes "\<And>x. x \<in> set xs \<Longrightarrow> m x t = (Inr (f x), t)"
  shows "mapO m xs t = (Inr (map f xs), t)"
  using assms
proof (induction xs)
  case (Cons x xs)
  have "mapO m xs t = (Inr (map f xs), t)" by (rule Cons.IH) (rule Cons.prems, simp)
  moreover have "m x t = (Inr (f x), t)" by (rule Cons.prems) simp
  ultimately show ?case by (simp add: bindO_def)
qed simp

lemma find_some:
  assumes "x \<in> set xs" "P x" "\<And>y. y \<in> set xs \<Longrightarrow> P y \<Longrightarrow> y = x"
  shows "find P xs = Some x"
proof (cases "find P xs")
  case None
  with assms(1,2) show ?thesis by (auto simp: find_None_iff)
next
  case (Some y)
  with assms(3) [of y] find_mem [OF Some] show ?thesis by simp
qed

definition entries_of :: "'z rules_db_scheme \<Rightarrow> catalog_entry list" where
  "entries_of d = map (\<lambda>c. catalog_entry_of c
     (sort_key pg_code (filter (\<lambda>p. pg_country_id p = co_id c) (rd_programs d))))
     (sort_key catalog_key (filter co_is_active (rd_countries d)))"

lemma list_country_catalog_eq: "request list_country_catalog d = (Inr (entries_of d), d)"
proof -
  have "mapO (\<lambda>c. bindO (list_programs (Some (co_id c))) (\<lambda>programs. ret (catalog_entry_of c programs)))
      cs (begin_txn d)
    = (Inr (map (\<lambda>c. catalog_entry_of c (sort_key pg_code (filter (\<lambda>p. pg_country_id p = co_id c) (rd_programs d)))) cs),
       begin_txn d)" for cs
    by (rule mapO_query) (simp_all add: list_programs_def bindO_def)
  then show ?thesis
    by (simp add: list_country_catalog_def list_countries_for_catalog_def entries_of_def request_def bindO_def)
qed

definition latest_version :: "'z rules_db_scheme \<Rightarrow> program \<Rightarrow> program_version option" where
  "latest_version d p = first (sort_key (\<lambda>v. (- pv_effective_from v, - pv_created_at v))
     (filter (\<lambda>v. pv_program_id v = pg_id p) (rd_versions d)))"

definition typed_metadata :: "'z ingest_db_scheme \<Rightarrow> bool" where
  "typed_metadata d \<longleftrightarrow> list_all (\<lambda>s. \<exists>k. source_key_of (sd_metadata_json s) = Inr k) (gd_documents d)"

lemma program_entry_total:
  assumes "typed_metadata d"
  shows "\<exists>e. program_entry_of p (begin_txn d) = (Inr e, begin_txn d) \<and> pe_code e = pg_code p
    \<and> pe_version e = map_option pv_version (latest_version d p)
    \<and> pe_version_status e = map_option pv_status (latest_version d p)"
proof (cases "latest_version d p")
  case None
  then show ?thesis
    by (simp add: program_entry_of_def get_latest_program_version_for_program_def build_source_documents_def
        bindO_def latest_version_def)
next
  case (Some v)
  let ?rows = "sort_key sd_created_at (filter (\<lambda>s. sd_program_version_id s = Some (pv_id v)) (gd_documents d))"
  have "\<exists>x. catalog_document_of s = Inr x" if "s \<in> set ?rows" for s
    using that assms by (auto simp: typed_metadata_def list_all_iff catalog_document_of_def)
  then have "mapR catalog_document_of ?rows = Inr (map (\<lambda>s. projr (catalog_document_of s)) ?rows)"
    by (intro mapR_all_Inr) force
  with Some show ?thesis
    by (simp add: program_entry_of_def get_latest_program_version_for_program_def build_source_documents_def
        list_source_documents_by_program_version_def bindO_def latest_version_def)
qed

lemma list_country_programs_eq:
  assumes ok: "rules_ok d" and c: "c \<in> set (rd_countries d)" "co_is_active c" "upper (co_code c) = co_code c"
    and "typed_metadata d"
  shows "\<exists>r. request (list_country_programs (co_code c)) d = (Inr r, d) \<and> cn_country_code r = co_code c
    \<and> cn_country_name r = co_name c
    \<and> map pe_code (cn_programs r)
        = map pg_code (sort_key pg_code (filter (\<lambda>p. pg_is_active p \<and> pg_country_id p = co_id c) (rd_programs d)))"
proof -
  have same: "x = c" if "x \<in> set (rd_countries d)" "co_code x = co_code c \<or> co_id x = co_id c" for x
    using that c(1) ok by (auto simp: rules_ok_defs distinct_map inj_on_def)
  have found: "find (\<lambda>x. co_code x = co_code c) (rd_countries d) = Some c"
    by (rule find_some) (use c(1) same in auto)
  have join: "list_ex (\<lambda>x. co_id x = pg_country_id p \<and> co_code x = co_code c) (rd_countries d) \<longleftrightarrow> pg_country_id p = co_id c"
    for p
    using c(1) same by (fastforce simp: list_ex_iff)
  let ?ps = "sort_key pg_code (filter (\<lambda>p. pg_is_active p \<and> pg_country_id p = co_id c) (rd_programs d))"
  obtain f where f: "\<And>p. program_entry_of p (begin_txn d) = (Inr (f p), begin_txn d) \<and> pe_code (f p) = pg_code p"
    using program_entry_total [OF assms(5)] by metis
  have "mapO program_entry_of ?ps (begin_txn d) = (Inr (map f ?ps), begin_txn d)"
    by (rule mapO_query) (simp_all add: f)
  then show ?thesis
    by (simp add: list_country_programs_def get_country_by_code_def list_programs_by_country_code_def c found join
        request_def bindO_def f)
qed

text \<open>C28. The public catalog is complete, ordered and consistent with the detail route: it lists the active countries,
  each once, by rank (those without one last) and then by code, changes nothing, and the programs that it counts for a
  country are the ones that the route of that country lists, by code. A country that is inactive or unknown has no
  such route.\<close>

theorem catalog_lists_countries:
  assumes "rules_ok d" "\<forall>c\<in>set (rd_countries d). upper (co_code c) = co_code c" "typed_metadata d"
  shows "\<exists>es. request list_country_catalog d = (Inr es, d)
    \<and> distinct (map ce_code es) \<and> set (map ce_code es) = co_code ` {c \<in> set (rd_countries d). co_is_active c}
    \<and> sorted (map (\<lambda>e. (ce_priority_rank e = None, case ce_priority_rank e of None \<Rightarrow> 0 | Some r \<Rightarrow> r, ce_code e)) es)
    \<and> (\<forall>e\<in>set es. \<exists>r. request (list_country_programs (ce_code e)) d = (Inr r, d)
        \<and> cn_country_name r = ce_name e \<and> length (cn_programs r) = ce_program_count e
        \<and> sorted (map pe_code (cn_programs r)))
    \<and> (\<forall>code_text. upper code_text \<notin> set (map ce_code es) \<longrightarrow>
        request (list_country_programs code_text) d = (Inl (HTTPException 404 ''Country not found''), d))"
proof (rule exI [of _ "entries_of d"], intro conjI ballI allI impI)
  show "request list_country_catalog d = (Inr (entries_of d), d)" by (rule list_country_catalog_eq)
  have codes: "map ce_code (entries_of d) = map co_code (sort_key catalog_key (filter co_is_active (rd_countries d)))"
    by (simp add: entries_of_def catalog_entry_of_def)
  have dist: "distinct (map co_code (rd_countries d))" using assms(1) by (simp add: rules_ok_defs)
  show "distinct (map ce_code (entries_of d))"
    unfolding codes using dist by (simp add: distinct_map inj_on_def)
  show set: "set (map ce_code (entries_of d)) = co_code ` {c \<in> set (rd_countries d). co_is_active c}"
    unfolding codes by simp
  have "map (\<lambda>e. (ce_priority_rank e = None, case ce_priority_rank e of None \<Rightarrow> 0 | Some r \<Rightarrow> r, ce_code e)) (entries_of d)
      = map catalog_key (sort_key catalog_key (filter co_is_active (rd_countries d)))"
    by (simp add: entries_of_def catalog_entry_of_def catalog_key_def split: option.split)
  then show "sorted (map (\<lambda>e. (ce_priority_rank e = None, case ce_priority_rank e of None \<Rightarrow> 0 | Some r \<Rightarrow> r, ce_code e))
      (entries_of d))" by simp
  fix e assume "e \<in> set (entries_of d)"
  then obtain c where c: "c \<in> set (rd_countries d)" "co_is_active c" and e: "ce_code e = co_code c" "ce_name e = co_name c"
    "ce_program_count e = length (filter pg_is_active (filter (\<lambda>p. pg_country_id p = co_id c) (rd_programs d)))"
    by (auto simp: entries_of_def catalog_entry_of_def filter_sort)
  obtain r where r: "request (list_country_programs (co_code c)) d = (Inr r, d)" "cn_country_name r = co_name c"
    "map pe_code (cn_programs r)
        = map pg_code (sort_key pg_code (filter (\<lambda>p. pg_is_active p \<and> pg_country_id p = co_id c) (rd_programs d)))"
    using list_country_programs_eq [OF assms(1) c assms(2) [rule_format, OF c(1)] assms(3)] by auto
  from arg_cong [OF r(3), of length]
  have "length (cn_programs r) = ce_program_count e" by (simp add: e(3) conj_commute)
  with r e show "\<exists>r. request (list_country_programs (ce_code e)) d = (Inr r, d)
      \<and> cn_country_name r = ce_name e \<and> length (cn_programs r) = ce_program_count e \<and> sorted (map pe_code (cn_programs r))"
    by simp
next
  fix code_text assume "upper code_text \<notin> set (map ce_code (entries_of d))"
  then have "upper code_text \<notin> co_code ` {c \<in> set (rd_countries d). co_is_active c}"
    by (auto simp: entries_of_def catalog_entry_of_def)
  then have "\<not> co_is_active c" if "find (\<lambda>x. co_code x = upper code_text) (rd_countries d) = Some c" for c
    using find_mem [OF that] by (auto simp: image_iff)
  then show "request (list_country_programs code_text) d = (Inl (HTTPException 404 ''Country not found''), d)"
    by (simp add: list_country_programs_def get_country_by_code_def request_def bindO_def split: option.split)
qed

definition catalog_sample_country :: country where
  "catalog_sample_country = \<lparr>co_id = 1, co_code = ''PT'', co_name = ''Portugal'', co_priority_rank = Some 2,
     co_diaspora_population_estimate = None, co_prioritization_source_url = None, co_is_active = True\<rparr>"

definition catalog_sample_document :: source_document where
  "catalog_sample_document = \<lparr>sd_id = 40, sd_created_at = 0, sd_source_id = None, sd_ingestion_run_item_id = None,
     sd_program_version_id = Some 11, sd_title = ''D7 visa'', sd_source_url = ''https://pt.example'',
     sd_checksum_sha256 = None, sd_raw_storage_uri = None, sd_published_at = None,
     sd_metadata_json = [(''source_key'', JStr ''pt_d7'')]\<rparr>"

definition catalog_sample_db :: ingest_db where
  "catalog_sample_db = \<lparr>bd_plans = [], bd_subscriptions = [], bd_entitlements = [], bd_counters = [], bd_events = [],
     bd_users = [], bd_next = 50, bd_conversions = 0, rd_countries = [catalog_sample_country],
     rd_programs = [\<lparr>pg_id = 2, pg_country_id = 1, pg_code = ''D7'', pg_name = ''D7'', pg_description = None,
        pg_is_active = True\<rparr>],
     rd_versions = [demo_version 11 active_version 0 (Some 10)], rd_groups = [], rd_conditions = [], rd_outcomes = [],
     gd_sources = [], gd_runs = [], gd_items = [], gd_bronze = [], gd_sections = [],
     gd_documents = [catalog_sample_document], gd_extractions = []\<rparr>"

lemma catalog_lists_countries_witness:
  "\<exists>es. request list_country_catalog catalog_sample_db = (Inr es, catalog_sample_db)
    \<and> set (map ce_code es) = {''PT''}
    \<and> (\<forall>e\<in>set es. \<exists>r. request (list_country_programs (ce_code e)) catalog_sample_db = (Inr r, catalog_sample_db)
        \<and> length (cn_programs r) = ce_program_count e)"
proof -
  have 1: "rules_ok catalog_sample_db"
    by (simp add: catalog_sample_db_def catalog_sample_country_def rules_ok_defs demo_version_def)
  have 2: "typed_metadata catalog_sample_db"
    by (simp add: catalog_sample_db_def catalog_sample_document_def typed_metadata_def source_key_of_def)
  have "upper ''PT'' = ''PT''" by code_simp
  then have 3: "\<forall>c\<in>set (rd_countries catalog_sample_db). upper (co_code c) = co_code c"
    by (simp add: catalog_sample_db_def catalog_sample_country_def)
  have 4: "{c \<in> set (rd_countries catalog_sample_db). co_is_active c} = {catalog_sample_country}"
    by (auto simp: catalog_sample_db_def catalog_sample_country_def)
  have 5: "co_code ` {c \<in> set (rd_countries catalog_sample_db). co_is_active c} = {''PT''}"
    by (simp only: 4 image_insert image_empty) (simp add: catalog_sample_country_def)
  obtain es where es: "request list_country_catalog catalog_sample_db = (Inr es, catalog_sample_db)"
    "set (map ce_code es) = co_code ` {c \<in> set (rd_countries catalog_sample_db). co_is_active c}"
    "\<forall>e\<in>set es. \<exists>r. request (list_country_programs (ce_code e)) catalog_sample_db = (Inr r, catalog_sample_db)
        \<and> cn_country_name r = ce_name e \<and> length (cn_programs r) = ce_program_count e
        \<and> sorted (map pe_code (cn_programs r))"
    using catalog_lists_countries [OF 1 3 2] by (elim exE conjE) rule
  show ?thesis
    by (rule exI [of _ es], intro conjI ballI, rule es(1), simp only: es(2) 5, drule es(3) [rule_format], elim exE conjE,
        rule exI, rule conjI)
qed

section \<open>Conditions\<close>

fun is_object :: "json \<Rightarrow> bool" where
  "is_object (JObj d) = True"
| "is_object _ = False"

lemma read_condition_object: "read_condition c =
    (if is_object (cr_value_json c) then Inr c else Inl (ValueError ''validation error: value_json''))"
  by (cases "cr_value_json c") (simp_all add: read_condition_def)

lemma mapR_read_condition: "mapR read_condition cs =
    (if list_all (\<lambda>c. is_object (cr_value_json c)) cs then Inr cs else Inl (ValueError ''validation error: value_json''))"
  by (induction cs) (auto simp: read_condition_object)

lemma update_condition_run:
  assumes "find (\<lambda>x. cr_id x = i) (rd_conditions d) = Some c"
    and "\<not> null (du_field_key p)" "\<not> null (du_operator p)" "\<not> null (du_condition_order p)" "\<not> null (du_is_required p)"
    and "d' = d\<lparr>rd_conditions := upd_where (\<lambda>x. cr_id x = i) (apply_condition_update p) (rd_conditions d)\<rparr>"
    and "rules_ok d'"
  shows "update_rule_condition i p (begin_txn d)
    = (if fits_integer (du_condition_order p)
       then (Inr (apply_condition_update p c), \<lparr>committed = d', working = d', aborted = False\<rparr>)
       else (Inl (DBAPIError ''value out of range''), \<lparr>committed = d, working = d, aborted = True\<rparr>))"
  using assms
  by (simp add: fits_columns_def update_rule_condition_def get_rule_condition_def found_def bindO_def commit_and_refresh_eq begin_txn_def)

text \<open>C24. Only conditions whose value is an object can be read through the routes: the list of a group is refused as
  soon as one of its conditions has another value, although the table allows it, and an update that leaves such a value
  alone is committed and then answered with an error (or refused by the database, when the new order is no 32-bit
  integer). Every condition of the shipped rules has such a value, a number, a
  text, a truth value or a list, so that none of them can be read or written with these routes.\<close>

theorem shipped_conditions_unreadable:
  assumes row: "find (\<lambda>x. cr_id x = i) (rd_conditions d) = Some c" "\<not> is_object (cr_value_json c)"
    and p: "valid_condition_update p" "du_value_json p = None"
      "\<not> null (du_field_key p)" "\<not> null (du_operator p)" "\<not> null (du_condition_order p)" "\<not> null (du_is_required p)"
    and new: "d' = d\<lparr>rd_conditions := upd_where (\<lambda>x. cr_id x = i) (apply_condition_update p) (rd_conditions d)\<rparr>" "rules_ok d'"
  shows "request (get_rule_condition_route i) d = (Inl (ValueError ''validation error: value_json''), d)
    \<and> request (list_rule_conditions_route (cr_rule_group_id c)) d = (Inl (ValueError ''validation error: value_json''), d)
    \<and> request (update_rule_condition_route i p) d =
        (if \<forall>n. du_condition_order p = Some (Some n) \<longrightarrow> - (2 ^ 31) \<le> n \<and> n < 2 ^ 31
         then (Inl (ValueError ''validation error: value_json''), d')
         else (Inl (DBAPIError ''value out of range''), d))
    \<and> (\<forall>g v. g \<in> set (concat (map (fx_rule_groups \<circ> snd) MVP_RULE_FIXTURES)) \<and> v \<in> fc_value_json ` set (fg_conditions g)
         \<longrightarrow> \<not> is_object v)"
proof (intro conjI)
  have c: "c \<in> set (rd_conditions d)" using find_mem [OF row(1)] by simp
  show "request (get_rule_condition_route i) d = (Inl (ValueError ''validation error: value_json''), d)"
    using row by (simp add: get_rule_condition_route_def get_rule_condition_def request_def bindO_def found_def
        read_condition_object)
  have "\<not> list_all (\<lambda>x. is_object (cr_value_json x)) (sort_key (\<lambda>c. (cr_condition_order c, cr_created_at c))
      (filter (\<lambda>x. cr_rule_group_id x = cr_rule_group_id c) (rd_conditions d)))"
    using c row(2) by (auto simp: list_all_iff)
  then show "request (list_rule_conditions_route (cr_rule_group_id c)) d = (Inl (ValueError ''validation error: value_json''), d)"
    by (simp add: list_rule_conditions_route_def list_rule_conditions_def request_def bindO_def mapR_read_condition)
  have "\<not> is_object (cr_value_json (apply_condition_update p c))"
    using row(2) p(2) by (simp add: apply_condition_update_def)
  moreover have "fits_integer (du_condition_order p)
      \<longleftrightarrow> (\<forall>n. du_condition_order p = Some (Some n) \<longrightarrow> - (2 ^ 31) \<le> n \<and> n < 2 ^ 31)"
    by (auto simp: fits_integer_def int32_def split: option.splits)
  ultimately show "request (update_rule_condition_route i p) d =
      (if \<forall>n. du_condition_order p = Some (Some n) \<longrightarrow> - (2 ^ 31) \<le> n \<and> n < 2 ^ 31
       then (Inl (ValueError ''validation error: value_json''), d') else (Inl (DBAPIError ''value out of range''), d))"
    using update_condition_run [OF row(1) p(3-6) new] p(1)
    by (simp add: update_rule_condition_route_def valid_body_def request_def bindO_def read_condition_object)
  have "list_all (\<lambda>g. list_all (\<lambda>x. \<not> is_object (fc_value_json x)) (fg_conditions g))
      (concat (map (fx_rule_groups \<circ> snd) MVP_RULE_FIXTURES))"
    by code_simp
  then show "\<forall>g v. g \<in> set (concat (map (fx_rule_groups \<circ> snd) MVP_RULE_FIXTURES)) \<and> v \<in> fc_value_json ` set (fg_conditions g)
      \<longrightarrow> \<not> is_object v"
    by (auto simp: list_all_iff simp del: set_concat)
qed

definition conditions_sample_db :: rules_db where
  "conditions_sample_db = (sample_rules [demo_version 11 active_version 0 (Some 10)])
     \<lparr>rd_groups := [demo_group], rd_conditions := [demo_condition]\<rparr>"

definition reorder :: condition_update where
  "reorder = \<lparr>du_field_key = None, du_operator = None, du_value_json = None, du_condition_order = Some (Some 2),
     du_is_required = None\<rparr>"

lemma shipped_conditions_unreadable_witness:
  "request (update_rule_condition_route 30 reorder) conditions_sample_db
    = (Inl (ValueError ''validation error: value_json''),
       conditions_sample_db\<lparr>rd_conditions := [demo_condition\<lparr>cr_condition_order := 2\<rparr>]\<rparr>)"
proof -
  have new: "upd_where (\<lambda>x. cr_id x = 30) (apply_condition_update reorder) (rd_conditions conditions_sample_db)
      = [demo_condition\<lparr>cr_condition_order := 2\<rparr>]"
    by (simp add: conditions_sample_db_def upd_where_def demo_condition_def apply_condition_update_def reorder_def put_def)
  have "request (get_rule_condition_route 30) conditions_sample_db
      = (Inl (ValueError ''validation error: value_json''), conditions_sample_db)
    \<and> request (list_rule_conditions_route (cr_rule_group_id demo_condition)) conditions_sample_db
      = (Inl (ValueError ''validation error: value_json''), conditions_sample_db)
    \<and> request (update_rule_condition_route 30 reorder) conditions_sample_db
      = (if \<forall>n. du_condition_order reorder = Some (Some n) \<longrightarrow> - (2 ^ 31) \<le> n \<and> n < 2 ^ 31
         then (Inl (ValueError ''validation error: value_json''),
           conditions_sample_db\<lparr>rd_conditions := [demo_condition\<lparr>cr_condition_order := 2\<rparr>]\<rparr>)
         else (Inl (DBAPIError ''value out of range''), conditions_sample_db))
    \<and> (\<forall>g v. g \<in> set (concat (map (fx_rule_groups \<circ> snd) MVP_RULE_FIXTURES)) \<and> v \<in> fc_value_json ` set (fg_conditions g)
         \<longrightarrow> \<not> is_object v)"
  proof (rule shipped_conditions_unreadable)
    show "find (\<lambda>x. cr_id x = 30) (rd_conditions conditions_sample_db) = Some demo_condition"
      by (simp add: conditions_sample_db_def demo_condition_def)
    show "rules_ok (conditions_sample_db\<lparr>rd_conditions := [demo_condition\<lparr>cr_condition_order := 2\<rparr>]\<rparr>)"
      by (simp add: conditions_sample_db_def rules_ok_defs sample_rules_defs demo_group_def demo_condition_def billing_db.defs)
  qed (simp_all only: new, simp_all add: demo_condition_def valid_condition_update_def field_within_def reorder_def)
  moreover have "\<forall>n. du_condition_order reorder = Some (Some n) \<longrightarrow> - (2 ^ 31) \<le> n \<and> n < 2 ^ 31"
    by (simp add: reorder_def)
  ultimately show ?thesis by simp
qed

end
