(* ===== verification/Operations.thy ===== *)
theory Operations
  imports Jobs
begin

text \<open>
  Operational state: the metrics of a process (\<open>src/app/core/metrics.py\<close>), the queues of the tasks
  (\<open>src/app/core/celery_app.py\<close>), the measurements around each statement (\<open>src/app/db/engine.py\<close>), the tasks of
  \<open>src/apps/common/tasks.py\<close> and the health routes (\<open>src/app/api/health.py\<close>). A counter or gauge with labels is a
  function of them; a histogram keeps what it observed. Each process has a registry of its own.
\<close>

section \<open>Metrics\<close>

type_synonym http_labels = "string \<times> string \<times> string"

record metrics =
  mt_http_requests :: "http_labels \<Rightarrow> nat"
  mt_http_durations :: "http_labels \<Rightarrow> rat list"
  mt_score_durations :: "rat list"
  mt_roadmap_durations :: "rat list"
  mt_llm_requests :: "string \<times> string \<Rightarrow> nat"
  mt_conversions :: nat
  mt_jobs :: "string \<times> string \<Rightarrow> int option"
  mt_service_up :: "string \<Rightarrow> int option"
  mt_heartbeats :: "string \<Rightarrow> rat option"
  mt_connections :: int
  mt_query_durations :: "string \<Rightarrow> rat list"
  mt_slow_queries :: "string \<Rightarrow> nat"
  mt_transaction_errors :: "string \<Rightarrow> nat"

definition no_metrics :: metrics where
  "no_metrics =
     \<lparr>mt_http_requests = (\<lambda>_. 0), mt_http_durations = (\<lambda>_. []), mt_score_durations = [], mt_roadmap_durations = [],
      mt_llm_requests = (\<lambda>_. 0), mt_conversions = 0, mt_jobs = (\<lambda>_. None), mt_service_up = (\<lambda>_. None),
      mt_heartbeats = (\<lambda>_. None), mt_connections = 0, mt_query_durations = (\<lambda>_. []), mt_slow_queries = (\<lambda>_. 0),
      mt_transaction_errors = (\<lambda>_. 0)\<rparr>"

definition inc :: "'l \<Rightarrow> ('l \<Rightarrow> nat) \<Rightarrow> 'l \<Rightarrow> nat" where
  "inc l c = c(l := c l + 1)"

definition observe :: "'l \<Rightarrow> rat \<Rightarrow> ('l \<Rightarrow> rat list) \<Rightarrow> 'l \<Rightarrow> rat list" where
  "observe l x h = h(l := h l @ [x])"

definition mark_service_up :: "string \<Rightarrow> metrics \<Rightarrow> metrics" where
  "mark_service_up service m = m\<lparr>mt_service_up := (mt_service_up m)(service \<mapsto> 1)\<rparr>"

definition mark_service_down :: "string \<Rightarrow> metrics \<Rightarrow> metrics" where
  "mark_service_down service m = m\<lparr>mt_service_up := (mt_service_up m)(service \<mapsto> 0)\<rparr>"

definition update_service_heartbeat :: "string \<Rightarrow> rat \<Rightarrow> metrics \<Rightarrow> metrics" where
  "update_service_heartbeat service stamp m =
     mark_service_up service (m\<lparr>mt_heartbeats := (mt_heartbeats m)(service \<mapsto> stamp)\<rparr>)"

definition observe_http_request :: "string \<Rightarrow> string \<Rightarrow> int \<Rightarrow> rat \<Rightarrow> metrics \<Rightarrow> metrics" where
  "observe_http_request request_method path status_code duration_seconds m =
     (let labels = (upper request_method, path, int_str status_code)
      in m\<lparr>mt_http_requests := inc labels (mt_http_requests m),
           mt_http_durations := observe labels duration_seconds (mt_http_durations m)\<rparr>)"

definition observe_score_duration :: "rat \<Rightarrow> metrics \<Rightarrow> metrics" where
  "observe_score_duration duration_seconds m = m\<lparr>mt_score_durations := mt_score_durations m @ [duration_seconds]\<rparr>"

definition observe_roadmap_duration :: "rat \<Rightarrow> metrics \<Rightarrow> metrics" where
  "observe_roadmap_duration duration_seconds m = m\<lparr>mt_roadmap_durations := mt_roadmap_durations m @ [duration_seconds]\<rparr>"

definition increment_llm_provider :: "string \<Rightarrow> string \<Rightarrow> metrics \<Rightarrow> metrics" where
  "increment_llm_provider provider outcome m = m\<lparr>mt_llm_requests := inc (provider, outcome) (mt_llm_requests m)\<rparr>"

definition increment_free_to_pro_conversion :: "metrics \<Rightarrow> metrics" where
  "increment_free_to_pro_conversion m = m\<lparr>mt_conversions := mt_conversions m + 1\<rparr>"

definition observe_db_query :: "string \<Rightarrow> rat \<Rightarrow> metrics \<Rightarrow> metrics" where
  "observe_db_query operation duration_seconds m =
     m\<lparr>mt_query_durations := observe (upper operation) duration_seconds (mt_query_durations m)\<rparr>"

definition increment_slow_query :: "string \<Rightarrow> metrics \<Rightarrow> metrics" where
  "increment_slow_query operation m = m\<lparr>mt_slow_queries := inc (upper operation) (mt_slow_queries m)\<rparr>"

definition increment_transaction_error :: "string \<Rightarrow> metrics \<Rightarrow> metrics" where
  "increment_transaction_error operation m =
     m\<lparr>mt_transaction_errors := inc (upper operation) (mt_transaction_errors m)\<rparr>"

section \<open>The gauges of the queues\<close>

fun job_type_value :: "job_type \<Rightarrow> string" where
  "job_type_value score_job = ''score_job''"
| "job_type_value roadmap_job = ''roadmap_job''"

fun job_status_value :: "job_status \<Rightarrow> string" where
  "job_status_value job_pending = ''pending''"
| "job_status_value job_running = ''running''"
| "job_status_value job_completed = ''completed''"
| "job_status_value job_failed = ''failed''"
| "job_status_value job_dead_letter = ''dead_letter''"

definition JOB_TYPE_TO_QUEUE :: "string dict" where
  "JOB_TYPE_TO_QUEUE = [(''score_job'', ''score_queue''), (''roadmap_job'', ''roadmap_queue'')]"

definition QUEUE_STATUS_LABELS :: "string list" where
  "QUEUE_STATUS_LABELS = [''pending'', ''running'', ''failed'', ''dead_letter'', ''completed'']"

definition set_job_gauge :: "string \<times> string \<Rightarrow> int \<Rightarrow> metrics \<Rightarrow> metrics" where
  "set_job_gauge labels n m = m\<lparr>mt_jobs := (mt_jobs m)(labels \<mapsto> n)\<rparr>"

text \<open>An enumeration of the database is ordered by the declaration of its values.\<close>

fun job_type_rank :: "job_type \<Rightarrow> nat" where
  "job_type_rank score_job = 0"
| "job_type_rank roadmap_job = 1"

fun job_status_rank :: "job_status \<Rightarrow> nat" where
  "job_status_rank job_pending = 0"
| "job_status_rank job_running = 1"
| "job_status_rank job_completed = 2"
| "job_status_rank job_failed = 3"
| "job_status_rank job_dead_letter = 4"

lemma type_rank_inj: "job_type_rank x = job_type_rank y \<longleftrightarrow> x = y"
  by (cases x; cases y) simp_all

lemma status_rank_inj: "job_status_rank x = job_status_rank y \<longleftrightarrow> x = y"
  by (cases x; cases y) simp_all

instantiation job_type :: linorder
begin

definition less_eq_job_type :: "job_type \<Rightarrow> job_type \<Rightarrow> bool" where
  "x \<le> y \<longleftrightarrow> job_type_rank x \<le> job_type_rank y"

definition less_job_type :: "job_type \<Rightarrow> job_type \<Rightarrow> bool" where
  "x < y \<longleftrightarrow> job_type_rank x < job_type_rank y"

instance
  by standard (auto simp: less_eq_job_type_def less_job_type_def type_rank_inj)

end

instantiation job_status :: linorder
begin

definition less_eq_job_status :: "job_status \<Rightarrow> job_status \<Rightarrow> bool" where
  "x \<le> y \<longleftrightarrow> job_status_rank x \<le> job_status_rank y"

definition less_job_status :: "job_status \<Rightarrow> job_status \<Rightarrow> bool" where
  "x < y \<longleftrightarrow> job_status_rank x < job_status_rank y"

instance
  by standard (auto simp: less_eq_job_status_def less_job_status_def status_rank_inj)

end

text \<open>\<open>SELECT job_type, status, count(id) ... GROUP BY job_type, status ORDER BY job_type, status\<close>\<close>

definition job_counts :: "job list \<Rightarrow> ((job_type \<times> job_status) \<times> nat) list" where
  "job_counts jobs =
     (let keys = map (\<lambda>j. (jb_job_type j, jb_status j)) jobs in map (\<lambda>k. (k, count_list keys k)) (sort (remdups keys)))"

definition queue_of :: "job_type \<Rightarrow> string" where
  "queue_of t = (case dict_get JOB_TYPE_TO_QUEUE (job_type_value t) of None \<Rightarrow> ''default'' | Some q \<Rightarrow> q)"

definition job_label :: "job_type \<times> job_status \<Rightarrow> string \<times> string" where
  "job_label k = (queue_of (fst k), job_status_value (snd k))"

text \<open>\<open>rows\<close>: the jobs that the query reads, or the error of the database.\<close>

definition refresh_job_queue_metrics :: "job list result \<Rightarrow> (metrics, unit) op" where
  "refresh_job_queue_metrics rows =
     bindO (modify (\<lambda>m. fold (\<lambda>labels. set_job_gauge labels 0)
       (List.product (map snd JOB_TYPE_TO_QUEUE) QUEUE_STATUS_LABELS) m)) (\<lambda>_.
     bindO (lift rows) (\<lambda>jobs.
     modify (\<lambda>m. fold (\<lambda>(k, n). set_job_gauge (job_label k) (int n)) (job_counts jobs) m)))"

text \<open>\<open>pg_stat_activity\<close>; without it the gauge is 0.\<close>

definition refresh_postgres_connections :: "int result \<Rightarrow> (metrics, unit) op" where
  "refresh_postgres_connections connections =
     modify (\<lambda>m. m\<lparr>mt_connections := (case connections of Inl _ \<Rightarrow> 0 | Inr n \<Rightarrow> n)\<rparr>)"

definition refresh_operational_metrics :: "job list result \<Rightarrow> int result \<Rightarrow> (metrics, unit) op" where
  "refresh_operational_metrics rows connections =
     bindO (refresh_job_queue_metrics rows) (\<lambda>_. refresh_postgres_connections connections)"

section \<open>Health\<close>

text \<open>The route of the metrics answers with the registry, whatever the refresh met.\<close>

definition metrics_route :: "job list result \<Rightarrow> int result \<Rightarrow> (metrics, metrics) op" where
  "metrics_route rows connections =
     bindO (catch (refresh_operational_metrics rows connections) (\<lambda>_. ret ())) (\<lambda>_. read id)"

text \<open>\<open>select_one\<close>: the statement \<open>SELECT 1\<close>; \<open>pong\<close>: the answer of the store.\<close>

definition health_ready :: "unit result \<Rightarrow> bool \<Rightarrow> string result" where
  "health_ready select_one pong =
     (case select_one of
        Inl e \<Rightarrow> Inl (HTTPException 503 (''dependency check failed: '' @ exn_text e))
      | Inr _ \<Rightarrow> if \<not> pong then Inl (HTTPException 503 ''memory store is unavailable'') else Inr ''ready'')"

definition heartbeat :: "rat \<Rightarrow> metrics \<Rightarrow> metrics" where
  "heartbeat stamp m = update_service_heartbeat ''worker'' stamp m"

section \<open>Statements\<close>

text \<open>\<open>(statement or "").strip().split(" ", 1)[0]\<close>\<close>

definition statement_operation :: "string \<Rightarrow> string" where
  "statement_operation statement =
     (let operation = upper (takeWhile (\<lambda>c. c \<noteq> CHR '' '') (strip statement))
      in if operation = [] then ''UNKNOWN'' else operation)"

text \<open>The readings of the clock before and after the statement; the first is missing when the hook before it did not
  run.\<close>

definition after_cursor_execute :: "rat \<Rightarrow> rat option \<Rightarrow> string \<Rightarrow> rat \<Rightarrow> metrics \<Rightarrow> metrics" where
  "after_cursor_execute threshold_ms started operation ended m =
     (case started of
        None \<Rightarrow> m
      | Some start \<Rightarrow>
          let duration_seconds = max 0 (fl (ended - start));
              duration_ms = py_round 2 (fl (duration_seconds * 1000));
              m1 = observe_db_query operation duration_seconds m
          in if duration_ms \<ge> threshold_ms then increment_slow_query operation m1 else m1)"

definition handle_db_error :: "string \<Rightarrow> metrics \<Rightarrow> metrics" where
  "handle_db_error statement m = increment_transaction_error (statement_operation statement) m"

section \<open>Queues\<close>

definition task_routes :: "string dict" where
  "task_routes =
     [(''apps.assessments.tasks.process_assessment_task'', ''score_queue''),
      (''apps.roadmaps.tasks.generate_roadmap_task'', ''roadmap_queue''),
      (''apps.ingestion.tasks.ingest_source_task'', ''ingestion_queue''),
      (''apps.common.tasks.dead_letter_event'', ''dead_letter_queue'')]"

definition task_queues :: "string list" where
  "task_queues = [''default'', ''score_queue'', ''roadmap_queue'', ''ingestion_queue'', ''dead_letter_queue'']"

definition queue_of_task :: "string \<Rightarrow> string" where
  "queue_of_task task = (case dict_get task_routes task of None \<Rightarrow> ''default'' | Some q \<Rightarrow> q)"

text \<open>The periodic tasks and their periods in seconds.\<close>

definition beat_schedule :: "(string \<times> rat) list" where
  "beat_schedule =
     [(''apps.common.tasks.heartbeat'', 60), (''apps.ingestion.tasks.dispatch_scheduled_ingestion'', 21600)]"

section \<open>What the gauges show\<close>

lemma mt_jobs_set [simp]: "mt_jobs (set_job_gauge l n m) = (mt_jobs m)(l \<mapsto> n)"
  by (simp add: set_job_gauge_def)

lemma fold_zero: "mt_jobs (fold (\<lambda>l. set_job_gauge l 0) ls m) l = (if l \<in> set ls then Some 0 else mt_jobs m l)"
  by (induction ls arbitrary: m) auto

lemma fold_gauges:
  "mt_jobs (fold (\<lambda>x. set_job_gauge (f x) (g x)) xs m) l
    = (if l \<in> f ` set xs then map_of (rev (map (\<lambda>x. (f x, g x)) xs)) l else mt_jobs m l)"
proof (induction xs arbitrary: m l)
  case (Cons x xs)
  have "map_of (rev (map (\<lambda>x. (f x, g x)) xs)) l = None \<longleftrightarrow> l \<notin> f ` set xs"
    by (auto simp: map_of_eq_None_iff image_iff)
  then show ?case
    by (cases "l \<in> f ` set xs"; cases "map_of (rev (map (\<lambda>x. (f x, g x)) xs)) l"; cases "l = f x")
      (simp_all add: Cons.IH map_add_def)
qed simp

lemma map_of_labels: "inj f \<Longrightarrow> x \<in> set xs \<Longrightarrow> map_of (map (\<lambda>x. (f x, g x)) xs) (f x) = Some (g x)"
  by (induction xs) (auto simp: inj_eq)

lemma queue_of_simps [simp]: "queue_of score_job = ''score_queue''" "queue_of roadmap_job = ''roadmap_queue''"
  by code_simp+

lemma queue_of_inject [simp]: "queue_of t = queue_of t' \<longleftrightarrow> t = t'"
  by (cases t; cases t') simp_all

lemma job_status_value_inject [simp]: "job_status_value s = job_status_value s' \<longleftrightarrow> s = s'"
  by (cases s; cases s') simp_all

lemma inj_label: "inj job_label"
  by (rule injI) (simp add: job_label_def prod_eq_iff)

lemma known_labels:
  "set (List.product (map snd JOB_TYPE_TO_QUEUE) QUEUE_STATUS_LABELS) = range job_label"
proof
  show "set (List.product (map snd JOB_TYPE_TO_QUEUE) QUEUE_STATUS_LABELS) \<subseteq> range job_label"
  proof
    fix l assume "l \<in> set (List.product (map snd JOB_TYPE_TO_QUEUE) QUEUE_STATUS_LABELS)"
    then have "l \<in> job_label ` set (List.product [score_job, roadmap_job]
        [job_pending, job_running, job_failed, job_dead_letter, job_completed])"
      by (simp add: JOB_TYPE_TO_QUEUE_def QUEUE_STATUS_LABELS_def job_label_def)
    then show "l \<in> range job_label" by blast
  qed
  show "range job_label \<subseteq> set (List.product (map snd JOB_TYPE_TO_QUEUE) QUEUE_STATUS_LABELS)"
  proof
    fix l assume "l \<in> range job_label"
    then obtain t s where "l = job_label (t, s)" by (metis prod.collapse rangeE)
    then show "l \<in> set (List.product (map snd JOB_TYPE_TO_QUEUE) QUEUE_STATUS_LABELS)"
      by (cases t; cases s) (simp_all add: JOB_TYPE_TO_QUEUE_def QUEUE_STATUS_LABELS_def job_label_def)
  qed
qed

definition zeroed :: "metrics \<Rightarrow> metrics" where
  "zeroed m = fold (\<lambda>labels. set_job_gauge labels 0) (List.product (map snd JOB_TYPE_TO_QUEUE) QUEUE_STATUS_LABELS) m"

lemma mt_jobs_zeroed: "mt_jobs (zeroed m) l = (if l \<in> range job_label then Some 0 else mt_jobs m l)"
  unfolding zeroed_def fold_zero known_labels ..

definition key_of :: "job \<Rightarrow> job_type \<times> job_status" where
  "key_of j = (jb_job_type j, jb_status j)"

lemma count_keys: "count_list (map key_of jobs) k = length (filter (\<lambda>j. key_of j = k) jobs)"
  by (induction jobs) auto

lemma mt_jobs_counted:
  "mt_jobs (fold (\<lambda>(k, n). set_job_gauge (job_label k) (int n)) (job_counts jobs) m) (job_label k)
    = (if k \<in> key_of ` set jobs then Some (int (length (filter (\<lambda>j. key_of j = k) jobs))) else mt_jobs m (job_label k))"
  "l \<notin> range job_label \<Longrightarrow>
    mt_jobs (fold (\<lambda>(k, n). set_job_gauge (job_label k) (int n)) (job_counts jobs) m) l = mt_jobs m l"
proof -
  let ?keys = "map key_of jobs" and ?g = "\<lambda>k. int (count_list (map key_of jobs) k)"
  have eq: "fold (\<lambda>(k, n). set_job_gauge (job_label k) (int n)) (job_counts jobs) m
      = fold (\<lambda>k. set_job_gauge (job_label k) (?g k)) (sort (remdups ?keys)) m"
    by (simp add: job_counts_def Let_def fold_map comp_def case_prod_beta key_of_def [abs_def])
  have mem: "job_label k \<in> job_label ` set (sort (remdups ?keys)) \<longleftrightarrow> k \<in> key_of ` set jobs"
    using inj_image_mem_iff [OF inj_label] by simp
  have "map_of (rev (map (\<lambda>k. (job_label k, ?g k)) (sort (remdups ?keys)))) (job_label k) = Some (?g k)"
    if "k \<in> key_of ` set jobs"
    unfolding rev_map using that by (intro map_of_labels [OF inj_label]) simp
  then show "mt_jobs (fold (\<lambda>(k, n). set_job_gauge (job_label k) (int n)) (job_counts jobs) m) (job_label k)
    = (if k \<in> key_of ` set jobs then Some (int (length (filter (\<lambda>j. key_of j = k) jobs))) else mt_jobs m (job_label k))"
    unfolding eq fold_gauges mem count_keys by simp
  show "mt_jobs (fold (\<lambda>(k, n). set_job_gauge (job_label k) (int n)) (job_counts jobs) m) l = mt_jobs m l"
    if "l \<notin> range job_label"
    using that unfolding eq fold_gauges by auto
qed

text \<open>C34. The gauges of the queues are exact when the database answers: whatever they showed before, the route of the
  metrics shows for each type of job and each status the number of jobs that the table holds, and leaves every label
  that is no such pair alone. When the query fails, the route answers as well, and every gauge shows 0 whatever the
  table holds: a backlog disappears from the metrics just while the database is down. The queue of the label is the one
  the task of the type is sent to.\<close>

theorem job_gauges_exact:
  "\<exists>m'. metrics_route (Inr jobs) connections m = (Inr m', m')
     \<and> (\<forall>t s. mt_jobs m' (job_label (t, s))
          = Some (int (length (filter (\<lambda>j. jb_job_type j = t \<and> jb_status j = s) jobs))))
     \<and> (\<forall>l. l \<notin> range job_label \<longrightarrow> mt_jobs m' l = mt_jobs m l)
     \<and> (\<exists>m0. metrics_route (Inl e) connections m = (Inr m0, m0) \<and> (\<forall>k. mt_jobs m0 (job_label k) = Some 0))
     \<and> queue_of score_job = queue_of_task ''apps.assessments.tasks.process_assessment_task''
     \<and> queue_of roadmap_job = queue_of_task ''apps.roadmaps.tasks.generate_roadmap_task''"
proof -
  define m1 where "m1 = fold (\<lambda>(k, n). set_job_gauge (job_label k) (int n)) (job_counts jobs) (zeroed m)"
  define connected :: "metrics \<Rightarrow> metrics"
    where "connected x = x\<lparr>mt_connections := (case connections of Inl _ \<Rightarrow> 0 | Inr n \<Rightarrow> n)\<rparr>" for x
  have ok: "metrics_route (Inr jobs) connections m = (Inr (connected m1), connected m1)"
    by (simp add: metrics_route_def refresh_operational_metrics_def refresh_job_queue_metrics_def catch_def bindO_def
        refresh_postgres_connections_def zeroed_def m1_def connected_def)
  have failed: "metrics_route (Inl e) connections m = (Inr (zeroed m), zeroed m)"
    by (simp add: metrics_route_def refresh_operational_metrics_def refresh_job_queue_metrics_def catch_def bindO_def
        zeroed_def)
  have zero: "mt_jobs (zeroed m) (job_label k) = Some 0" for k by (simp only: mt_jobs_zeroed rangeI if_True)
  have count: "mt_jobs (connected m1) (job_label (t, s))
      = Some (int (length (filter (\<lambda>j. jb_job_type j = t \<and> jb_status j = s) jobs)))" for t s
  proof (cases "(t, s) \<in> key_of ` set jobs")
    case True
    then show ?thesis by (simp add: connected_def m1_def mt_jobs_counted(1) del: image_iff) (simp add: key_of_def)
  next
    case False
    then have none: "filter (\<lambda>j. jb_job_type j = t \<and> jb_status j = s) jobs = []"
      by (auto simp: filter_empty_conv image_iff key_of_def)
    from False show ?thesis by (simp add: connected_def m1_def mt_jobs_counted zero none)
  qed
  have other: "mt_jobs (connected m1) l = mt_jobs m l" if "l \<notin> range job_label" for l
    using that by (simp add: connected_def m1_def mt_jobs_counted(2) mt_jobs_zeroed)
  have queues: "queue_of score_job = queue_of_task ''apps.assessments.tasks.process_assessment_task''"
    "queue_of roadmap_job = queue_of_task ''apps.roadmaps.tasks.generate_roadmap_task''" by code_simp+
  show ?thesis
    by (rule exI [of _ "connected m1"], intro conjI allI impI ok count other queues exI [of _ "zeroed m"] failed zero)
qed

lemma job_gauges_exact_witness:
  "\<exists>m'. metrics_route (Inr [new_job 40 0 score_job ''a'' None None None]) (Inl pending) no_metrics = (Inr m', m')
     \<and> mt_jobs m' (''score_queue'', ''pending'') = Some 1 \<and> mt_jobs m' (''default'', ''pending'') = None"
proof -
  let ?jobs = "[new_job 40 0 score_job ''a'' None None None]"
  obtain m' where m': "metrics_route (Inr ?jobs) (Inl pending) no_metrics = (Inr m', m')"
    "\<forall>t s. mt_jobs m' (job_label (t, s))
       = Some (int (length (filter (\<lambda>j. jb_job_type j = t \<and> jb_status j = s) ?jobs)))"
    "\<forall>l. l \<notin> range job_label \<longrightarrow> mt_jobs m' l = mt_jobs no_metrics l"
    using job_gauges_exact [of ?jobs "Inl pending" no_metrics pending] by (elim exE conjE) rule
  have "mt_jobs m' (job_label (score_job, job_pending)) = Some 1"
    using m'(2) [rule_format, of score_job job_pending] by (simp add: new_job_def)
  moreover have "job_label (score_job, job_pending) = (''score_queue'', ''pending'')" by (simp add: job_label_def)
  moreover have "mt_jobs m' (''default'', ''pending'') = mt_jobs no_metrics (''default'', ''pending'')"
  proof (rule m'(3) [rule_format], rule notI)
    assume "(''default'', ''pending'') \<in> range job_label"
    then obtain k where "(''default'', ''pending'') = job_label k" by blast
    then show False by (cases "fst k") (simp_all add: job_label_def)
  qed
  ultimately show ?thesis using m'(1) by (simp add: no_metrics_def)
qed

end
