(* ===== verification/Http_Stack.thy ===== *)
theory Http_Stack
  imports Operations
begin

text \<open>
  What surrounds the routes: the log context (\<open>src/app/core/log_context.py\<close>), the middlewares for access logs
  (\<open>src/app/core/observability.py\<close>), security headers and body sizes (\<open>src/app/core/http_security.py\<close>), in the order
  in which \<open>src/app/main.py\<close> stacks them. What lies inside, Starlette's checks of host and scheme, its translation of
  the exceptions of routes, and the router, is a parameter; outside, Starlette turns an exception into a 500, with the
  traceback when \<open>settings.debug\<close> is set (\<open>main.py\<close> passes it on; it is true in \<open>DevConfig\<close>). Names of
  headers are in lower case; \<open>content-length\<close> is not modelled. The CORS middleware, between the access log and the outside, is left out.
\<close>

section \<open>Log context\<close>

type_synonym log_fields = "string option dict"

definition LOG_CONTEXT_KEYS :: "string list" where
  "LOG_CONTEXT_KEYS = [''trace_id'', ''user_id'', ''assessment_id'', ''roadmap_id'']"

definition empty_log_context :: log_fields where
  "empty_log_context = map (\<lambda>k. (k, None)) LOG_CONTEXT_KEYS"

text \<open>The variable is unset at first.\<close>

definition or_empty :: "log_fields option \<Rightarrow> log_fields" where
  "or_empty c = (case c of Some d \<Rightarrow> if d = [] then empty_log_context else d | None \<Rightarrow> empty_log_context)"

definition get_log_context :: "log_fields option \<Rightarrow> log_fields" where
  "get_log_context c = map (\<lambda>k. (k, case dict_get (or_empty c) k of Some v \<Rightarrow> v | None \<Rightarrow> None)) LOG_CONTEXT_KEYS"

definition bind_log_context :: "log_fields \<Rightarrow> log_fields option \<Rightarrow> log_fields option" where
  "bind_log_context kwargs c =
     Some (fold (\<lambda>k d. case dict_get kwargs k of Some v \<Rightarrow> dict_set k v d | None \<Rightarrow> d) LOG_CONTEXT_KEYS (or_empty c))"

definition clear_log_context :: "log_fields option \<Rightarrow> log_fields option" where
  "clear_log_context c = Some empty_log_context"

section \<open>Requests\<close>

record http_req =
  rq_method :: string
  rq_path :: string
  rq_headers :: "string dict"

record http_rsp =
  rp_status :: int
  rp_headers :: "string dict"
  rp_body :: string

record access_entry =
  ae_method :: string
  ae_path :: string
  ae_status_code :: int
  ae_latency_ms :: rat
  ae_context :: log_fields

text \<open>The registry of the process, the context variable, the lines of the access log, and what the router puts in the
  scope of the request once it has matched it: the template of the route and the parameters of the path.\<close>

record edge =
  ed_metrics :: metrics
  ed_context :: "log_fields option"
  ed_log :: "access_entry list"
  ed_route :: "string option"
  ed_params :: "string dict"

type_synonym handler = "http_req \<Rightarrow> (edge, http_rsp) op"

definition set_header :: "string \<Rightarrow> string \<Rightarrow> http_rsp \<Rightarrow> http_rsp" where
  "set_header name value r = r\<lparr>rp_headers := dict_set name value (rp_headers r)\<rparr>"

section \<open>Middlewares\<close>

definition security_headers :: "string \<Rightarrow> string dict" where
  "security_headers env =
     [(''x-content-type-options'', ''nosniff''), (''x-frame-options'', ''DENY''),
      (''referrer-policy'', ''strict-origin-when-cross-origin''),
      (''permissions-policy'', ''geolocation=(), camera=(), microphone=()''),
      (''content-security-policy'', ''default-src '' @ [CHR 0x27] @ ''self'' @ [CHR 0x27] @ ''; frame-ancestors ''
        @ [CHR 0x27] @ ''none'' @ [CHR 0x27])]
     @ (if env \<in> {''staging'', ''prod''}
        then [(''strict-transport-security'', ''max-age=31536000; includeSubDomains'')] else [])"

definition security_headers_dispatch :: "string \<Rightarrow> handler \<Rightarrow> handler" where
  "security_headers_dispatch env call_next rq =
     bindO (call_next rq) (\<lambda>r. ret (fold (\<lambda>(name, value). set_header name value) (security_headers env) r))"

definition body_limit_dispatch :: "int \<Rightarrow> handler \<Rightarrow> handler" where
  "body_limit_dispatch max_body_bytes call_next rq =
     (let limit = max 1 max_body_bytes
      in case dict_get (rq_headers rq) ''content-length'' of
           None \<Rightarrow> call_next rq
         | Some content_length \<Rightarrow>
             if content_length = [] then call_next rq
             else (case int_of_str content_length of
                     Inl _ \<Rightarrow> raise (HTTPException 400 ''Invalid Content-Length header'')
                   | Inr body_size \<Rightarrow>
                       if body_size > limit then raise (HTTPException 413
                         (''Request body exceeds '' @ int_str limit @ '' bytes''))
                       else call_next rq))"

text \<open>The path is read before the request is routed.\<close>

definition resolve_path_template :: "http_req \<Rightarrow> edge \<Rightarrow> string" where
  "resolve_path_template rq s = (case ed_route s of Some p \<Rightarrow> p | None \<Rightarrow> rq_path rq)"

text \<open>\<open>fresh\<close>: the text of \<open>uuid4()\<close>; \<open>latency\<close>: the seconds between the two readings of the clock.\<close>

definition trace_of :: "string \<Rightarrow> http_req \<Rightarrow> string" where
  "trace_of fresh rq = (case dict_get (rq_headers rq) ''x-trace-id'' of
     Some t \<Rightarrow> if t = [] then fresh else t | None \<Rightarrow> fresh)"

definition access_log :: "http_req \<Rightarrow> string \<Rightarrow> int \<Rightarrow> rat \<Rightarrow> edge \<Rightarrow> edge" where
  "access_log rq path status_code latency s =
     (let latency_seconds = max 0 latency;
          latency_ms = py_round 2 (fl (latency_seconds * 1000));
          context = bind_log_context [(''assessment_id'', dict_get (ed_params s) ''assessment_id''),
            (''roadmap_id'', dict_get (ed_params s) ''roadmap_id'')] (ed_context s)
      in s\<lparr>ed_metrics := observe_http_request (rq_method rq) path status_code latency_seconds (ed_metrics s),
           ed_log := ed_log s @ [\<lparr>ae_method = rq_method rq, ae_path = path, ae_status_code = status_code,
             ae_latency_ms = latency_ms, ae_context = get_log_context context\<rparr>],
           ed_context := clear_log_context context\<rparr>)"

text \<open>What lies inside runs in a task of its own with a copy of the context, so that what it binds is not seen here.\<close>

definition request_logging_dispatch :: "string \<Rightarrow> rat \<Rightarrow> handler \<Rightarrow> handler" where
  "request_logging_dispatch fresh latency call_next rq s =
     (let trace_id = trace_of fresh rq;
          s1 = s\<lparr>ed_context := bind_log_context [(''trace_id'', Some trace_id)] (clear_log_context (ed_context s))\<rparr>;
          path = resolve_path_template rq s1
      in case call_next rq s1 of
           (Inl e, s2) \<Rightarrow> (Inl e, access_log rq path 500 latency (s2\<lparr>ed_context := ed_context s1\<rparr>))
         | (Inr r, s2) \<Rightarrow>
             (Inr (set_header ''x-trace-id'' trace_id r),
              access_log rq path (rp_status r) latency (s2\<lparr>ed_context := ed_context s1\<rparr>)))"

section \<open>The application\<close>

text \<open>The last middleware that is added is the outermost one.\<close>

definition middlewares :: "string \<Rightarrow> int \<Rightarrow> string \<Rightarrow> rat \<Rightarrow> handler \<Rightarrow> handler" where
  "middlewares env max_body_bytes fresh latency app =
     request_logging_dispatch fresh latency (security_headers_dispatch env (body_limit_dispatch max_body_bytes app))"

text \<open>
  Starlette's outermost layer. With \<open>debug\<close> the answer is the traceback, as a page for a client that accepts HTML
  and as plain text for any other: \<open>traceback html e\<close> is its text.
\<close>

definition accepts_html :: "http_req \<Rightarrow> bool" where
  "accepts_html rq = (case dict_get (rq_headers rq) ''accept'' of None \<Rightarrow> False
     | Some v \<Rightarrow> list_ex (\<lambda>i. take 9 (drop i v) = ''text/html'') [0..<length v])"

definition server_error :: "bool \<Rightarrow> (bool \<Rightarrow> exn \<Rightarrow> string) \<Rightarrow> http_req \<Rightarrow> exn \<Rightarrow> http_rsp" where
  "server_error debug traceback rq e =
     (if \<not> debug then \<lparr>rp_status = 500, rp_headers = [(''content-type'', ''text/plain; charset=utf-8'')],
        rp_body = ''Internal Server Error''\<rparr>
      else if accepts_html rq then \<lparr>rp_status = 500, rp_headers = [(''content-type'', ''text/html; charset=utf-8'')],
        rp_body = traceback True e\<rparr>
      else \<lparr>rp_status = 500, rp_headers = [(''content-type'', ''text/plain; charset=utf-8'')],
        rp_body = traceback False e\<rparr>)"

text \<open>What the client receives. The scope of a request is new.\<close>

definition serve :: "string \<Rightarrow> bool \<Rightarrow> (bool \<Rightarrow> exn \<Rightarrow> string) \<Rightarrow> int \<Rightarrow> string \<Rightarrow> rat \<Rightarrow> handler \<Rightarrow> http_req \<Rightarrow> edge
    \<Rightarrow> http_rsp \<times> edge" where
  "serve env debug traceback max_body_bytes fresh latency app rq s =
     (case middlewares env max_body_bytes fresh latency app rq (s\<lparr>ed_route := None, ed_params := []\<rparr>) of
        (Inl e, s') \<Rightarrow> (server_error debug traceback rq e, s')
      | (Inr r, s') \<Rightarrow> (r, s'))"

section \<open>What clients, metrics and logs get\<close>

text \<open>The size limit lets the request pass.\<close>

definition size_accepted :: "int \<Rightarrow> http_req \<Rightarrow> bool" where
  "size_accepted max_body_bytes rq \<longleftrightarrow>
     (case dict_get (rq_headers rq) ''content-length'' of
        None \<Rightarrow> True
      | Some v \<Rightarrow> v = [] \<or> (case int_of_str v of Inl _ \<Rightarrow> False | Inr n \<Rightarrow> n \<le> max 1 max_body_bytes))"

lemma body_limit_accepted: "size_accepted m rq \<Longrightarrow> body_limit_dispatch m app rq = app rq"
  by (auto simp: size_accepted_def body_limit_dispatch_def Let_def split: option.splits sum.splits)

lemma body_limit_refused:
  "\<not> size_accepted m rq \<Longrightarrow> \<exists>c why. c \<in> {400, 413} \<and> body_limit_dispatch m app rq s = (Inl (HTTPException c why), s)"
  by (auto simp: size_accepted_def body_limit_dispatch_def Let_def split: option.splits sum.splits)

text \<open>Headers that are set, and what other headers keep.\<close>

lemma fold_headers_other:
  "name \<notin> fst ` set hs \<Longrightarrow> dict_get (rp_headers (fold (\<lambda>(n, v). set_header n v) hs r)) name = dict_get (rp_headers r) name"
  by (induction hs arbitrary: r) (auto simp: set_header_def)

lemma dict_get_headers:
  "distinct (map fst hs) \<Longrightarrow> (name, value) \<in> set hs
    \<Longrightarrow> dict_get (rp_headers (fold (\<lambda>(n, v). set_header n v) hs r)) name = Some value"
proof (induction hs arbitrary: r rule: rev_induct)
  case (snoc x xs)
  obtain n v where x: "x = (n, v)" by (cases x)
  show ?case
  proof (cases "(name, value) \<in> set xs")
    case True
    then have "n \<noteq> name" using snoc.prems(1) by (force simp: x)
    with True snoc show ?thesis by (simp add: x set_header_def)
  next
    case False
    with snoc.prems(2) show ?thesis by (simp add: x set_header_def)
  qed
qed simp

lemma fold_headers_body [simp]:
  "rp_status (fold (\<lambda>(n, v). set_header n v) hs r) = rp_status r"
  "rp_body (fold (\<lambda>(n, v). set_header n v) hs r) = rp_body r"
  by (induction hs arbitrary: r) (auto simp: set_header_def)

lemma security_header_names:
  "distinct (map fst (security_headers env))" "''x-trace-id'' \<notin> fst ` set (security_headers env)"
  by (auto simp: security_headers_def)

definition request_context :: "string \<Rightarrow> log_fields" where
  "request_context trace_id =
     [(''trace_id'', Some trace_id), (''user_id'', None), (''assessment_id'', None), (''roadmap_id'', None)]"

lemma bound_context: "bind_log_context [(''trace_id'', Some t)] (clear_log_context c) = Some (request_context t)"
  by (simp add: bind_log_context_def clear_log_context_def or_empty_def empty_log_context_def LOG_CONTEXT_KEYS_def
      request_context_def)

lemma logged_context:
  "get_log_context (bind_log_context [(''assessment_id'', a), (''roadmap_id'', b)] (Some (request_context t)))
    = [(''trace_id'', Some t), (''user_id'', None), (''assessment_id'', a), (''roadmap_id'', b)]"
  by (simp add: bind_log_context_def get_log_context_def or_empty_def LOG_CONTEXT_KEYS_def request_context_def)

text \<open>The state in which the inner application starts.\<close>

definition inner_state :: "string \<Rightarrow> http_req \<Rightarrow> edge \<Rightarrow> edge" where
  "inner_state fresh rq s = s\<lparr>ed_route := None, ed_params := [], ed_context := Some (request_context (trace_of fresh rq))\<rparr>"

lemma serve_run:
  "serve env debug tb m fresh latency app rq s =
    (case security_headers_dispatch env (body_limit_dispatch m app) rq (inner_state fresh rq s) of
       (Inl e, s') \<Rightarrow> (server_error debug tb rq e, access_log rq (rq_path rq) 500 latency
          (s'\<lparr>ed_context := Some (request_context (trace_of fresh rq))\<rparr>))
     | (Inr r, s') \<Rightarrow> (set_header ''x-trace-id'' (trace_of fresh rq) r, access_log rq (rq_path rq) (rp_status r) latency
          (s'\<lparr>ed_context := Some (request_context (trace_of fresh rq))\<rparr>)))"
proof -
  let ?s = "s\<lparr>ed_route := None, ed_params := []\<rparr>"
  have "?s\<lparr>ed_context := bind_log_context [(''trace_id'', Some (trace_of fresh rq))] (clear_log_context (ed_context ?s))\<rparr>
      = inner_state fresh rq s" by (simp only: bound_context) (simp add: inner_state_def)
  moreover have "resolve_path_template rq (inner_state fresh rq s) = rq_path rq"
    "ed_context (inner_state fresh rq s) = Some (request_context (trace_of fresh rq))"
    by (simp_all add: resolve_path_template_def inner_state_def)
  ultimately show ?thesis
    unfolding serve_def middlewares_def request_logging_dispatch_def Let_def by (simp split: prod.split sum.split)
qed

text \<open>C35. Every answer of the application leaves with the security headers and its trace, and is counted and logged once:
  status and body are those of the application, the five headers have their values, HSTS is added in staging and
  production and left as the application set it anywhere else, as is every other header; the counter of the method, the
  path and the status grows by one and no other does; and one line of the log carries the method, the path, the status,
  the trace and the identifiers of the path. The label of the path is the raw path of the request, not the template of
  the route, and the line never names the user; both were meant to. The context is empty afterwards.\<close>

theorem answers_secured:
  assumes "size_accepted max_body_bytes rq" and app: "app rq (inner_state fresh rq s) = (Inr r, s1)"
    and trace: "trace = (case dict_get (rq_headers rq) ''x-trace-id'' of Some t \<Rightarrow> if t = [] then fresh else t | None \<Rightarrow> fresh)"
    and labels: "labels = (upper (rq_method rq), rq_path rq, int_str (rp_status r))"
  shows "\<exists>r' s' line. serve env debug tb max_body_bytes fresh latency app rq s = (r', s')
    \<and> rp_status r' = rp_status r \<and> rp_body r' = rp_body r
    \<and> dict_get (rp_headers r') ''x-content-type-options'' = Some ''nosniff''
    \<and> dict_get (rp_headers r') ''x-frame-options'' = Some ''DENY''
    \<and> dict_get (rp_headers r') ''referrer-policy'' = Some ''strict-origin-when-cross-origin''
    \<and> dict_get (rp_headers r') ''permissions-policy'' = Some ''geolocation=(), camera=(), microphone=()''
    \<and> dict_get (rp_headers r') ''content-security-policy'' = Some (''default-src '' @ [CHR 0x27] @ ''self'' @ [CHR 0x27]
        @ ''; frame-ancestors '' @ [CHR 0x27] @ ''none'' @ [CHR 0x27])
    \<and> dict_get (rp_headers r') ''strict-transport-security'' = (if env = ''staging'' \<or> env = ''prod''
        then Some ''max-age=31536000; includeSubDomains'' else dict_get (rp_headers r) ''strict-transport-security'')
    \<and> dict_get (rp_headers r') ''x-trace-id'' = Some trace
    \<and> (\<forall>name. name \<notin> {''x-content-type-options'', ''x-frame-options'', ''referrer-policy'', ''permissions-policy'',
          ''content-security-policy'', ''strict-transport-security'', ''x-trace-id''}
        \<longrightarrow> dict_get (rp_headers r') name = dict_get (rp_headers r) name)
    \<and> mt_http_requests (ed_metrics s') = (mt_http_requests (ed_metrics s1))
        (labels := mt_http_requests (ed_metrics s1) labels + 1)
    \<and> mt_http_durations (ed_metrics s') = (mt_http_durations (ed_metrics s1))
        (labels := mt_http_durations (ed_metrics s1) labels @ [max 0 latency])
    \<and> ed_log s' = ed_log s1 @ [line] \<and> ae_method line = rq_method rq \<and> ae_path line = rq_path rq
    \<and> ae_status_code line = rp_status r
    \<and> ae_context line = [(''trace_id'', Some trace), (''user_id'', None),
        (''assessment_id'', dict_get (ed_params s1) ''assessment_id''), (''roadmap_id'', dict_get (ed_params s1) ''roadmap_id'')]
    \<and> get_log_context (ed_context s') = empty_log_context"
proof -
  let ?h = "fold (\<lambda>(name, value). set_header name value) (security_headers env) r"
  let ?r' = "set_header ''x-trace-id'' trace ?h"
  have tr: "trace_of fresh rq = trace" by (simp add: trace_of_def trace)
  have "security_headers_dispatch env (body_limit_dispatch max_body_bytes app) rq (inner_state fresh rq s) = (Inr ?h, s1)"
    using app by (simp add: security_headers_dispatch_def body_limit_accepted [OF assms(1)] bindO_def)
  then have run: "serve env debug tb max_body_bytes fresh latency app rq s
      = (?r', access_log rq (rq_path rq) (rp_status r) latency (s1\<lparr>ed_context := Some (request_context trace)\<rparr>))"
    by (simp add: serve_run tr)
  have secured: "dict_get (rp_headers ?r') name = Some v" if h: "(name, v) \<in> set (security_headers env)" for name v
  proof -
    have "name \<noteq> ''x-trace-id''" using h security_header_names(2) [of env] by force
    then show ?thesis using dict_get_headers [OF security_header_names(1) h, of r] by (simp add: set_header_def)
  qed
  have others: "dict_get (rp_headers ?r') name = dict_get (rp_headers r) name"
    if "name \<notin> fst ` set (security_headers env)" "name \<noteq> ''x-trace-id''" for name
    using fold_headers_other [OF that(1), of r] that(2) by (simp add: set_header_def)
  have five: "dict_get (rp_headers ?r') ''x-content-type-options'' = Some ''nosniff''"
    "dict_get (rp_headers ?r') ''x-frame-options'' = Some ''DENY''"
    "dict_get (rp_headers ?r') ''referrer-policy'' = Some ''strict-origin-when-cross-origin''"
    "dict_get (rp_headers ?r') ''permissions-policy'' = Some ''geolocation=(), camera=(), microphone=()''"
    "dict_get (rp_headers ?r') ''content-security-policy'' = Some (''default-src '' @ [CHR 0x27] @ ''self'' @ [CHR 0x27]
        @ ''; frame-ancestors '' @ [CHR 0x27] @ ''none'' @ [CHR 0x27])"
    by (rule secured, simp add: security_headers_def)+
  have hsts: "dict_get (rp_headers ?r') ''strict-transport-security'' = (if env = ''staging'' \<or> env = ''prod''
      then Some ''max-age=31536000; includeSubDomains'' else dict_get (rp_headers r) ''strict-transport-security'')"
  proof (cases "env = ''staging'' \<or> env = ''prod''")
    case True
    then have "(''strict-transport-security'', ''max-age=31536000; includeSubDomains'') \<in> set (security_headers env)"
      by (simp add: security_headers_def)
    from secured [OF this] True show ?thesis by (simp only: if_True)
  next
    case False
    then have "''strict-transport-security'' \<notin> fst ` set (security_headers env)" by (auto simp: security_headers_def)
    from others [OF this] False show ?thesis by (simp only: if_False) simp
  qed
  have kept: "\<forall>name. name \<notin> {''x-content-type-options'', ''x-frame-options'', ''referrer-policy'', ''permissions-policy'',
        ''content-security-policy'', ''strict-transport-security'', ''x-trace-id''}
      \<longrightarrow> dict_get (rp_headers ?r') name = dict_get (rp_headers r) name"
    by (intro allI impI others) (auto simp: security_headers_def split: if_splits)
  have empty: "get_log_context (clear_log_context c) = empty_log_context" for c
    by (simp add: clear_log_context_def get_log_context_def or_empty_def empty_log_context_def LOG_CONTEXT_KEYS_def)
  let ?s' = "access_log rq (rq_path rq) (rp_status r) latency (s1\<lparr>ed_context := Some (request_context trace)\<rparr>)"
  let ?line = "last (ed_log ?s')"
  have logged: "mt_http_requests (ed_metrics ?s') = (mt_http_requests (ed_metrics s1))
        (labels := mt_http_requests (ed_metrics s1) labels + 1)"
    "mt_http_durations (ed_metrics ?s') = (mt_http_durations (ed_metrics s1))
        (labels := mt_http_durations (ed_metrics s1) labels @ [max 0 latency])"
    "ed_log ?s' = ed_log s1 @ [?line]" "ae_method ?line = rq_method rq" "ae_path ?line = rq_path rq"
    "ae_status_code ?line = rp_status r"
    "ae_context ?line = [(''trace_id'', Some trace), (''user_id'', None),
        (''assessment_id'', dict_get (ed_params s1) ''assessment_id''), (''roadmap_id'', dict_get (ed_params s1) ''roadmap_id'')]"
    "get_log_context (ed_context ?s') = empty_log_context"
    by (simp_all add: access_log_def observe_http_request_def inc_def observe_def labels Let_def logged_context empty)
  have same: "rp_status ?r' = rp_status r" "rp_body ?r' = rp_body r" "dict_get (rp_headers ?r') ''x-trace-id'' = Some trace"
    by (simp_all add: set_header_def)
  show ?thesis
    by (rule exI [of _ ?r'], rule exI [of _ ?s'], rule exI [of _ ?line], intro conjI)
      (rule run same five hsts kept logged)+
qed

text \<open>C36. A body that is too large, or whose length is no number, is refused without reaching the application, but not
  with the 413 or 400 that the middleware raises: the exception is raised outside of the layer that translates the
  exceptions of routes, so that the client receives a 500 (a plain \<open>Internal Server Error\<close>, or with
  \<open>settings.debug\<close> the traceback, as a page if it accepts HTML) without security headers and trace, and the metrics
  count a server error. A request without the header passes, however long its body is.\<close>

theorem refused_body_is_server_error:
  assumes "\<not> size_accepted max_body_bytes rq"
  shows "\<exists>s' c why. c \<in> {400, 413} \<and> serve env debug tb max_body_bytes fresh latency app rq s =
      (\<lparr>rp_status = 500,
        rp_headers = [(''content-type'', if debug \<and> accepts_html rq then ''text/html; charset=utf-8'' else ''text/plain; charset=utf-8'')],
        rp_body = (if debug then tb (accepts_html rq) (HTTPException c why) else ''Internal Server Error'')\<rparr>, s')
    \<and> mt_http_requests (ed_metrics s') = (mt_http_requests (ed_metrics s))
        ((upper (rq_method rq), rq_path rq, ''500'') := mt_http_requests (ed_metrics s) (upper (rq_method rq), rq_path rq, ''500'') + 1)
    \<and> (\<forall>rq'. dict_get (rq_headers rq') ''content-length'' = None \<longrightarrow> size_accepted max_body_bytes rq')"
proof -
  let ?s = "inner_state fresh rq s"
  obtain c why where c: "c \<in> {400, 413}" and "body_limit_dispatch max_body_bytes app rq ?s = (Inl (HTTPException c why), ?s)"
    using body_limit_refused [OF assms] by blast
  then have "security_headers_dispatch env (body_limit_dispatch max_body_bytes app) rq ?s = (Inl (HTTPException c why), ?s)"
    by (simp add: security_headers_dispatch_def bindO_def)
  then have run: "serve env debug tb max_body_bytes fresh latency app rq s = (server_error debug tb rq (HTTPException c why),
      access_log rq (rq_path rq) 500 latency (?s\<lparr>ed_context := Some (request_context (trace_of fresh rq))\<rparr>))"
    by (simp add: serve_run)
  have "int_str 500 = ''500''" by code_simp
  then show ?thesis
    by (intro exI [of _ "access_log rq (rq_path rq) 500 latency (?s\<lparr>ed_context := Some (request_context (trace_of fresh rq))\<rparr>)"]
        exI [of _ c] exI [of _ why])
      (use c in \<open>simp add: run server_error_def access_log_def observe_http_request_def inc_def Let_def inner_state_def size_accepted_def\<close>)
qed

section \<open>Concrete requests\<close>

definition quiet_edge :: edge where
  "quiet_edge = \<lparr>ed_metrics = no_metrics, ed_context = None, ed_log = [], ed_route = None, ed_params = []\<rparr>"

definition sample_get :: http_req where
  "sample_get = \<lparr>rq_method = ''get'', rq_path = ''/api/v1/assessments/7/status'', rq_headers = [(''x-trace-id'', ''t1'')]\<rparr>"

definition sample_post :: http_req where
  "sample_post = \<lparr>rq_method = ''post'', rq_path = ''/api/v1/assessments'', rq_headers = [(''content-length'', ''2000'')]\<rparr>"

text \<open>An application that matches the route and answers 200.\<close>

definition sample_app :: handler where
  "sample_app rq s =
     (Inr \<lparr>rp_status = 200, rp_headers = [], rp_body = ''{}''\<rparr>,
      s\<lparr>ed_route := Some ''/api/v1/assessments/{assessment_id}/status'', ed_params := [(''assessment_id'', ''7'')]\<rparr>)"

lemma answers_secured_witness:
  "\<exists>r' s' line. serve ''prod'' False (\<lambda>_ _. []) 1000 ''f'' (1/2) sample_app sample_get quiet_edge = (r', s')
    \<and> dict_get (rp_headers r') ''x-frame-options'' = Some ''DENY''
    \<and> dict_get (rp_headers r') ''x-trace-id'' = Some ''t1''
    \<and> ed_log s' = [line] \<and> ae_path line = ''/api/v1/assessments/7/status''"
proof -
  have size: "size_accepted 1000 sample_get" by (simp add: size_accepted_def sample_get_def)
  define s1 where "s1 = snd (sample_app sample_get (inner_state ''f'' sample_get quiet_edge))"
  have app: "sample_app sample_get (inner_state ''f'' sample_get quiet_edge)
      = (Inr \<lparr>rp_status = 200, rp_headers = [], rp_body = ''{}''\<rparr>, s1)"
    by (simp add: sample_app_def s1_def)
  have trace: "''t1'' = (case dict_get (rq_headers sample_get) ''x-trace-id'' of Some t \<Rightarrow> if t = [] then ''f'' else t | None \<Rightarrow> ''f'')"
    by (simp add: sample_get_def)
  obtain r' s' line where run: "serve ''prod'' False (\<lambda>_ _. []) 1000 ''f'' (1/2) sample_app sample_get quiet_edge = (r', s')"
    "dict_get (rp_headers r') ''x-frame-options'' = Some ''DENY''" "dict_get (rp_headers r') ''x-trace-id'' = Some ''t1''"
    "ed_log s' = ed_log s1 @ [line]" "ae_path line = rq_path sample_get"
    using answers_secured [where env = "''prod''" and debug = False and tb = "\<lambda>_ _. []" and latency = "1/2"
        and app = sample_app and rq = sample_get and fresh = "''f''" and s = quiet_edge, OF size app trace refl]
    by (elim exE conjE) (rule that; assumption)
  have "ed_log s1 = []" by (simp add: s1_def sample_app_def inner_state_def quiet_edge_def)
  with run show ?thesis by (intro exI conjI) (auto simp: sample_get_def)
qed

lemma refused_body_is_server_error_witness:
  "\<exists>r s'. serve ''prod'' False (\<lambda>_ _. []) 1000 ''f'' (1/2) sample_app sample_post quiet_edge = (r, s')
    \<and> rp_body r = ''Internal Server Error'' \<and> mt_http_requests (ed_metrics s') (''POST'', ''/api/v1/assessments'', ''500'') = 1"
proof -
  have "int_of_str ''2000'' = Inr 2000" by code_simp
  then have "\<not> size_accepted 1000 sample_post" by (simp add: size_accepted_def sample_post_def)
  from refused_body_is_server_error [OF this, of "''prod''" False "\<lambda>_ _. []" "''f''" "1/2" sample_app quiet_edge]
  obtain r s' where s': "serve ''prod'' False (\<lambda>_ _. []) 1000 ''f'' (1/2) sample_app sample_post quiet_edge = (r, s')"
    "rp_body r = ''Internal Server Error''"
    "mt_http_requests (ed_metrics s') = (mt_http_requests (ed_metrics quiet_edge))
      ((upper (rq_method sample_post), rq_path sample_post, ''500'') := mt_http_requests (ed_metrics quiet_edge)
        (upper (rq_method sample_post), rq_path sample_post, ''500'') + 1)" by auto
  have "upper ''post'' = ''POST''" by code_simp
  then have "mt_http_requests (ed_metrics s') (''POST'', ''/api/v1/assessments'', ''500'') = 1"
    by (simp add: s'(3) sample_post_def quiet_edge_def no_metrics_def)
  with s'(1,2) show ?thesis by blast
qed

end
