(* ===== verification/Api_Routes.thy ===== *)
theory Api_Routes
  imports Accounts Rate_Limit Roadmaps Ingestion_Pipeline
begin

text \<open>
  The routes of \<open>src/app/api/v1\<close> that act for a user or for an internal client: \<open>assessments.py\<close>, \<open>roadmaps.py\<close>,
  \<open>billing.py\<close>, \<open>entitlements.py\<close>, \<open>jobs.py\<close>, \<open>auth.py\<close> and \<open>ingestion.py\<close>. FastAPI first resolves the
  dependencies of the route, the rate limiter before the others, on the session of the request; then it checks the body;
  then it calls the handler. The routes of the profile match, whose tables are another extension of the database, are
  left to \<open>Profile_Match\<close>.
\<close>

section \<open>Dependencies\<close>

text \<open>What a request carries. The route is known when its dependencies run.\<close>

record api_request =
  rt_now :: time
  rt_credentials :: "string option"
  rt_client_host :: "string option"
  rt_route_path :: string
  rt_url_path :: string
  rt_trace_header :: "string option"
  rt_state_trace :: "string option"

definition visit_of :: "api_request \<Rightarrow> uuid option \<Rightarrow> visit" where
  "visit_of rq user = \<lparr>vi_time = rt_now rq, vi_route_path = Some (rt_route_path rq), vi_url_path = rt_url_path rq,
     vi_client_host = rt_client_host rq, vi_user = user\<rparr>"

text \<open>\<open>x_trace_id or request.state.trace_id\<close>\<close>

definition trace_id_of :: "api_request \<Rightarrow> string option" where
  "trace_id_of rq = (if opt_truthy (rt_trace_header rq) then rt_trace_header rq else rt_state_trace rq)"

type_synonym ('z, 'a) endpoint = "(limiter \<times> 'z accounts_db_scheme, 'a) op"

text \<open>A route with the limiter as its first dependency: the limiter looks for the user on the session.\<close>

definition limited ::
    "jwt_api \<Rightarrow> redis_client \<Rightarrow> settings \<Rightarrow> api_request \<Rightarrow> string \<Rightarrow> int \<Rightarrow> int \<Rightarrow> ('z, 'a) accounts_op \<Rightarrow> ('z, 'a) endpoint" where
  "limited J R cfg rq scope limit window_seconds m = (\<lambda>(l, d).
     case get_optional_current_user J cfg (rt_now rq) (rt_credentials rq) (begin_txn d) of
       (Inl e, t) \<Rightarrow> (Inl e, (l, committed t))
     | (Inr u, t) \<Rightarrow>
         (case rate_limit R cfg scope limit window_seconds ''user_or_ip'' (visit_of rq (map_option us_id u)) l of
            (Inl e, l') \<Rightarrow> (Inl e, (l', committed t))
          | (Inr _, l') \<Rightarrow> (case m t of (r, t') \<Rightarrow> (r, (l', committed t')))))"

definition unlimited :: "('z, 'a) accounts_op \<Rightarrow> ('z, 'a) endpoint" where
  "unlimited m = (\<lambda>(l, d). case request m d of (r, d') \<Rightarrow> (r, (l, d')))"

definition creation_limited ::
    "jwt_api \<Rightarrow> redis_client \<Rightarrow> settings \<Rightarrow> api_request \<Rightarrow> string \<Rightarrow> ('z, 'a) accounts_op \<Rightarrow> ('z, 'a) endpoint" where
  "creation_limited J R cfg rq scope m =
     limited J R cfg rq scope (creation_rate_limit_requests cfg) (creation_rate_limit_window_seconds cfg) m"

definition auth_limited ::
    "jwt_api \<Rightarrow> redis_client \<Rightarrow> settings \<Rightarrow> api_request \<Rightarrow> ('z, 'a) accounts_op \<Rightarrow> ('z, 'a) endpoint" where
  "auth_limited J R cfg rq m =
     limited J R cfg rq ''auth'' (auth_rate_limit_requests cfg) (auth_rate_limit_window_seconds cfg) m"

definition signed_in ::
    "jwt_api \<Rightarrow> settings \<Rightarrow> api_request \<Rightarrow> (user \<Rightarrow> ('z, 'a) accounts_op) \<Rightarrow> ('z, 'a) accounts_op" where
  "signed_in J cfg rq m = bindO (get_current_user J cfg (rt_now rq) (rt_credentials rq)) m"

definition checked_body :: "unit result \<Rightarrow> ('s, unit) op" where
  "checked_body v = (case v of Inl _ \<Rightarrow> raise (HTTPException 422 ''validation error'') | Inr _ \<Rightarrow> ret ())"

section \<open>Assessments and roadmaps\<close>

definition create_assessment_route ::
    "jwt_api \<Rightarrow> redis_client \<Rightarrow> settings \<Rightarrow> api_request \<Rightarrow> assessment_create \<Rightarrow> ('z, assessment_queued) endpoint" where
  "create_assessment_route J R cfg rq p =
     creation_limited J R cfg rq ''assessment_create'' (signed_in J cfg rq (\<lambda>u.
       bindO (checked_body (validate_assessment_create p)) (\<lambda>_.
       create_assessment cfg (rt_now rq) (us_id u) p (trace_id_of rq))))"

definition assessment_status_route ::
    "jwt_api \<Rightarrow> settings \<Rightarrow> api_request \<Rightarrow> uuid \<Rightarrow> ('z, assessment_status_read) endpoint" where
  "assessment_status_route J cfg rq i = unlimited (signed_in J cfg rq (\<lambda>u. get_assessment_status i (us_id u)))"

definition assessment_breakdown_route ::
    "jwt_api \<Rightarrow> settings \<Rightarrow> api_request \<Rightarrow> uuid \<Rightarrow> ('z, assessment_breakdown) endpoint" where
  "assessment_breakdown_route J cfg rq i = unlimited (signed_in J cfg rq (\<lambda>u. get_assessment_breakdown i (us_id u)))"

text \<open>The feature is a dependency after the user.\<close>

definition create_roadmap_route ::
    "jwt_api \<Rightarrow> redis_client \<Rightarrow> settings \<Rightarrow> api_request \<Rightarrow> roadmap_create \<Rightarrow> ('z, roadmap_queued) endpoint" where
  "create_roadmap_route J R cfg rq p =
     creation_limited J R cfg rq ''roadmap_create'' (signed_in J cfg rq (\<lambda>u.
       bindO (require_entitlement cfg (rt_now rq) (us_id u) (pro_roadmap_feature_key cfg)) (\<lambda>_.
       bindO (checked_body (validate_roadmap_create p)) (\<lambda>_.
       create_roadmap cfg (rt_now rq) (us_id u) p (trace_id_of rq)))))"

definition roadmap_status_route ::
    "jwt_api \<Rightarrow> settings \<Rightarrow> api_request \<Rightarrow> uuid \<Rightarrow> ('z, roadmap_status_read) endpoint" where
  "roadmap_status_route J cfg rq i = unlimited (signed_in J cfg rq (\<lambda>u. get_roadmap_status i (us_id u)))"

definition roadmap_detail_route ::
    "jwt_api \<Rightarrow> settings \<Rightarrow> api_request \<Rightarrow> uuid \<Rightarrow> ('z, roadmap \<times> roadmap_step list) endpoint" where
  "roadmap_detail_route J cfg rq i = unlimited (signed_in J cfg rq (\<lambda>u. get_roadmap_detail i (us_id u)))"

section \<open>Billing, entitlements and jobs\<close>

definition validate_checkout :: "checkout_payload \<Rightarrow> unit result" where
  "validate_checkout p =
     (if 1 \<le> length (cp_plan_code p) \<and> length (cp_plan_code p) \<le> 32
        \<and> 8 \<le> length (cp_success_url p) \<and> length (cp_success_url p) \<le> 2048
        \<and> 8 \<le> length (cp_cancel_url p) \<and> length (cp_cancel_url p) \<le> 2048
      then Inr () else Inl (ValueError ''validation error''))"

definition checkout_route ::
    "jwt_api \<Rightarrow> redis_client \<Rightarrow> stripe_api \<Rightarrow> settings \<Rightarrow> api_request \<Rightarrow> checkout_payload
     \<Rightarrow> ('z, string \<times> string) endpoint" where
  "checkout_route J R S cfg rq p =
     creation_limited J R cfg rq ''checkout_create'' (signed_in J cfg rq (\<lambda>u.
       bindO (checked_body (validate_checkout p)) (\<lambda>_.
       create_checkout_session cfg S (us_id u) (us_email u) p)))"

definition stripe_webhook_route ::
    "stripe_api \<Rightarrow> settings \<Rightarrow> api_request \<Rightarrow> string \<Rightarrow> string option \<Rightarrow> ('z, webhook_ack) endpoint" where
  "stripe_webhook_route S cfg rq payload signature = unlimited (process_stripe_webhook cfg S (rt_now rq) payload signature)"

definition my_entitlements_route ::
    "jwt_api \<Rightarrow> settings \<Rightarrow> api_request \<Rightarrow> ('z, entitlements_me) endpoint" where
  "my_entitlements_route J cfg rq = unlimited (signed_in J cfg rq (\<lambda>u. get_entitlements_me cfg (rt_now rq) (us_id u)))"

definition job_status_route :: "jwt_api \<Rightarrow> settings \<Rightarrow> api_request \<Rightarrow> uuid \<Rightarrow> ('z, job) endpoint" where
  "job_status_route J cfg rq i = unlimited (signed_in J cfg rq (\<lambda>u. get_job_status i (us_id u) (is_admin u)))"

section \<open>Accounts\<close>

text \<open>\<open>EmailStr\<close>: \<open>normalise\<close> is the check of the e-mail library, which answers with the normalised address.\<close>

definition checked_login ::
    "(string \<Rightarrow> string option) \<Rightarrow> string \<Rightarrow> string \<Rightarrow> (string \<Rightarrow> ('s, 'a) op) \<Rightarrow> ('s, 'a) op" where
  "checked_login normalise email password k =
     (case normalise email of
        None \<Rightarrow> raise (HTTPException 422 ''validation error'')
      | Some e \<Rightarrow>
          if 8 \<le> length password \<and> length password \<le> 128 then k e
          else raise (HTTPException 422 ''validation error''))"

definition register_endpoint ::
    "jwt_api \<Rightarrow> password_api \<Rightarrow> redis_client \<Rightarrow> (string \<Rightarrow> string option) \<Rightarrow> settings \<Rightarrow> api_request \<Rightarrow> string
     \<Rightarrow> string \<Rightarrow> string \<Rightarrow> ('z, token_pair) endpoint" where
  "register_endpoint J H R normalise cfg rq salt email password =
     auth_limited J R cfg rq (checked_login normalise email password (\<lambda>e.
       register_route J H cfg (rt_now rq) salt e password))"

definition login_endpoint ::
    "jwt_api \<Rightarrow> password_api \<Rightarrow> redis_client \<Rightarrow> (string \<Rightarrow> string option) \<Rightarrow> settings \<Rightarrow> api_request
     \<Rightarrow> string \<Rightarrow> string \<Rightarrow> ('z, token_pair) endpoint" where
  "login_endpoint J H R normalise cfg rq email password =
     auth_limited J R cfg rq (checked_login normalise email password (\<lambda>e. login J H cfg (rt_now rq) e password))"

definition refresh_endpoint ::
    "jwt_api \<Rightarrow> redis_client \<Rightarrow> settings \<Rightarrow> api_request \<Rightarrow> string \<Rightarrow> ('z, token_pair) endpoint" where
  "refresh_endpoint J R cfg rq refresh_token =
     auth_limited J R cfg rq (lift (refresh_route J cfg (rt_now rq) refresh_token))"

definition me_route :: "jwt_api \<Rightarrow> settings \<Rightarrow> api_request \<Rightarrow> ('z, user) endpoint" where
  "me_route J cfg rq = unlimited (signed_in J cfg rq ret)"

section \<open>Ingestion\<close>

definition internal :: "settings \<Rightarrow> string option \<Rightarrow> ('z, 'a) ingest_op \<Rightarrow> ('z ingest_db_scheme, 'a) op" where
  "internal cfg tok m = request (bindO (lift (require_internal_token cfg tok)) (\<lambda>_. m))"

definition seed_source_registry_route ::
    "settings \<Rightarrow> time \<Rightarrow> source_seed list \<Rightarrow> string option \<Rightarrow> ('z ingest_db_scheme, nat) op" where
  "seed_source_registry_route cfg now seeds tok = internal cfg tok (seed_source_registry cfg now seeds)"

definition list_source_registry_route ::
    "settings \<Rightarrow> string option \<Rightarrow> string option \<Rightarrow> ('z ingest_db_scheme, source_row list) op" where
  "list_source_registry_route cfg country_code tok = internal cfg tok (list_source_registry country_code)"

definition reprocess_source_route ::
    "outside \<Rightarrow> settings \<Rightarrow> time \<Rightarrow> string \<Rightarrow> bool \<Rightarrow> string option \<Rightarrow> string option
     \<Rightarrow> ('z ingest_db_scheme, dispatch_response) op" where
  "reprocess_source_route W cfg now source_key sync trace_id tok =
     internal cfg tok (reprocess_source W cfg now source_key sync trace_id)"

definition get_ingestion_run_route ::
    "settings \<Rightarrow> uuid \<Rightarrow> string option \<Rightarrow> ('z ingest_db_scheme, ingestion_run) op" where
  "get_ingestion_run_route cfg run_id tok = internal cfg tok (get_ingestion_run run_id)"

section \<open>All routes of a user\<close>

datatype api_call =
  Create_Assessment assessment_create
| Assessment_Status uuid
| Assessment_Breakdown uuid
| Create_Roadmap roadmap_create
| Roadmap_Status uuid
| Roadmap_Detail uuid
| Checkout checkout_payload
| My_Entitlements
| Job_Status uuid
| Me

definition answered :: "('s, 'a) op \<Rightarrow> ('s, unit) op" where
  "answered m = bindO m (\<lambda>_. ret ())"

fun run_call ::
    "jwt_api \<Rightarrow> redis_client \<Rightarrow> stripe_api \<Rightarrow> settings \<Rightarrow> api_request \<Rightarrow> api_call \<Rightarrow> ('z, unit) endpoint" where
  "run_call J R S cfg rq (Create_Assessment p) = answered (create_assessment_route J R cfg rq p)"
| "run_call J R S cfg rq (Assessment_Status i) = answered (assessment_status_route J cfg rq i)"
| "run_call J R S cfg rq (Assessment_Breakdown i) = answered (assessment_breakdown_route J cfg rq i)"
| "run_call J R S cfg rq (Create_Roadmap p) = answered (create_roadmap_route J R cfg rq p)"
| "run_call J R S cfg rq (Roadmap_Status i) = answered (roadmap_status_route J cfg rq i)"
| "run_call J R S cfg rq (Roadmap_Detail i) = answered (roadmap_detail_route J cfg rq i)"
| "run_call J R S cfg rq (Checkout p) = answered (checkout_route J R S cfg rq p)"
| "run_call J R S cfg rq My_Entitlements = answered (my_entitlements_route J cfg rq)"
| "run_call J R S cfg rq (Job_Status i) = answered (job_status_route J cfg rq i)"
| "run_call J R S cfg rq Me = answered (me_route J cfg rq)"

end
