(* ===== verification/Api_Contract.thy ===== *)
theory Api_Contract
  imports Api_Routes Accounts_Contract
begin

text \<open>
  The composition of authentication, rate limiter and services: nobody is answered, and nothing is written, without an
  access token of an active account, and the reading routes show their user's rows only.
\<close>

section \<open>The current user\<close>

definition identified :: "jwt_api \<Rightarrow> settings \<Rightarrow> api_request \<Rightarrow> 'z accounts_db_scheme \<Rightarrow> user \<Rightarrow> bool" where
  "identified J cfg rq d u \<longleftrightarrow>
     (\<exists>tok claims. rt_credentials rq = Some tok \<and> decode_token J cfg (rt_now rq) tok ''access'' = Inr claims
       \<and> subject_uuid (dict_get claims ''sub'') = Inr (us_id u) \<and> user_by_id d (us_id u) = Some u \<and> us_is_active u)"

lemma current_user_run:
  assumes "\<not> aborted t"
  obtains e where "get_current_user J cfg (rt_now rq) (rt_credentials rq) t = (Inl e, t)"
  | u where "get_current_user J cfg (rt_now rq) (rt_credentials rq) t = (Inr u, t)" "identified J cfg rq (working t) u"
proof (cases "rt_credentials rq")
  case None
  then show ?thesis using that(1) by (simp add: get_current_user_def)
next
  case (Some tok)
  note creds = this
  show ?thesis
  proof (cases "decode_token J cfg (rt_now rq) tok ''access''")
    case (Inl e)
    then show ?thesis using that(1) by (simp add: get_current_user_def creds)
  next
    case (Inr claims)
    note decoded = this
    show ?thesis
    proof (cases "subject_uuid (dict_get claims ''sub'')")
      case (Inl e)
      then show ?thesis using that(1) decoded by (simp add: get_current_user_def creds)
    next
      case (Inr i)
      note subject = this
      show ?thesis
      proof (cases "user_by_id (working t) i")
        case None
        then show ?thesis using that(1) decoded subject assms by (simp add: get_current_user_def creds bindO_def)
      next
        case (Some u)
        have id: "us_id u = i" using Some by (auto simp: user_by_id_def find_Some_iff)
        show ?thesis
        proof (cases "us_is_active u")
          case True
          then have "get_current_user J cfg (rt_now rq) (rt_credentials rq) t = (Inr u, t)"
            using decoded subject Some assms by (simp add: get_current_user_def creds bindO_def)
          moreover have "identified J cfg rq (working t) u"
            using creds decoded subject Some True by (simp add: identified_def id)
          ultimately show ?thesis by (rule that(2))
        next
          case False
          then show ?thesis using that(1) decoded subject Some assms by (simp add: get_current_user_def creds bindO_def)
        qed
      qed
    qed
  qed
qed

lemma optional_user_run:
  assumes "\<not> aborted t"
  shows "\<exists>r. get_optional_current_user J cfg now credentials t = (r, t)"
proof (cases credentials)
  case (Some tok)
  then show ?thesis using assms
    by (cases "decode_token J cfg now tok ''access''")
      (auto simp: get_optional_current_user_def bindO_def split: sum.split)
qed (simp add: get_optional_current_user_def)

section \<open>Routes behind the user\<close>

text \<open>What a route of a user does: an error and no change of the database, or the handler of an identified user.\<close>

lemma signed_in_run:
  obtains e where "signed_in J cfg rq m (begin_txn d) = (Inl e, begin_txn d)"
  | u where "identified J cfg rq d u" "signed_in J cfg rq m (begin_txn d) = m u (begin_txn d)"
proof -
  have "\<not> aborted (begin_txn d)" by simp
  then consider (no) e where "get_current_user J cfg (rt_now rq) (rt_credentials rq) (begin_txn d) = (Inl e, begin_txn d)"
    | (user) u where "get_current_user J cfg (rt_now rq) (rt_credentials rq) (begin_txn d) = (Inr u, begin_txn d)"
        "identified J cfg rq (working (begin_txn d)) u"
    by (rule current_user_run)
  then show thesis
  proof cases
    case no
    then show thesis by (intro that(1)) (simp add: signed_in_def bindO_def)
  next
    case user
    then show thesis by (intro that(2)) (simp_all add: signed_in_def bindO_def)
  qed
qed

lemma unlimited_run:
  assumes "answered (unlimited (signed_in J cfg rq m)) (l, d) = (r, (l', d'))" "r = Inr () \<or> d' \<noteq> d"
  shows "\<exists>u x t. identified J cfg rq d u \<and> m u (begin_txn d) = (x, t) \<and> d' = committed t \<and> l' = l
    \<and> (r = Inr () \<longrightarrow> (\<exists>y. x = Inr y))"
  by (rule signed_in_run [of J cfg rq m d]) (use assms in
    \<open>auto simp: answered_def unlimited_def request_def bindO_def split: prod.splits sum.splits\<close>)

lemma limited_run:
  assumes "answered (limited J R cfg rq scope limit window_seconds (signed_in J cfg rq m)) (l, d) = (r, (l', d'))"
    "r = Inr () \<or> d' \<noteq> d"
  shows "\<exists>u x t. identified J cfg rq d u \<and> m u (begin_txn d) = (x, t) \<and> d' = committed t
    \<and> (r = Inr () \<longrightarrow> (\<exists>y. x = Inr y))"
proof -
  obtain q where q: "get_optional_current_user J cfg (rt_now rq) (rt_credentials rq) (begin_txn d) = (q, begin_txn d)"
    using optional_user_run [of "begin_txn d" J cfg "rt_now rq" "rt_credentials rq"] by auto
  show ?thesis
  proof (rule signed_in_run [of J cfg rq m d])
    fix e assume "signed_in J cfg rq m (begin_txn d) = (Inl e, begin_txn d)"
    with assms q show ?thesis by (auto simp: answered_def limited_def bindO_def split: prod.splits sum.splits)
  next
    fix u assume u: "identified J cfg rq d u" "signed_in J cfg rq m (begin_txn d) = m u (begin_txn d)"
    obtain x t where "m u (begin_txn d) = (x, t)" by (cases "m u (begin_txn d)")
    with assms q u show ?thesis by (auto simp: answered_def limited_def bindO_def split: prod.splits sum.splits)
  qed
qed

section \<open>Reading routes\<close>

fun reading :: "api_call \<Rightarrow> bool" where
  "reading (Assessment_Status i) = True"
| "reading (Assessment_Breakdown i) = True"
| "reading (Roadmap_Status i) = True"
| "reading (Roadmap_Detail i) = True"
| "reading (Job_Status i) = True"
| "reading Me = True"
| "reading _ = False"

text \<open>The row that a reading route shows is the user's.\<close>

fun own_row :: "'z app_db_scheme \<Rightarrow> user \<Rightarrow> api_call \<Rightarrow> bool" where
  "own_row d u (Assessment_Status i) \<longleftrightarrow> list_ex (\<lambda>a. am_id a = i \<and> am_user_id a = us_id u) (ad_assessments d)"
| "own_row d u (Assessment_Breakdown i) \<longleftrightarrow> list_ex (\<lambda>a. am_id a = i \<and> am_user_id a = us_id u) (ad_assessments d)"
| "own_row d u (Roadmap_Status i) \<longleftrightarrow> list_ex (\<lambda>r. rm_id r = i \<and> rm_user_id r = us_id u) (ad_roadmaps d)"
| "own_row d u (Roadmap_Detail i) \<longleftrightarrow> list_ex (\<lambda>r. rm_id r = i \<and> rm_user_id r = us_id u) (ad_roadmaps d)"
| "own_row d u (Job_Status i) \<longleftrightarrow> us_role u = Admin \<or> list_ex (\<lambda>j. jb_id j = i \<and> owns_job d (us_id u) j) (ad_jobs d)"
| "own_row d u _ \<longleftrightarrow> True"

lemma found_row: "find (\<lambda>x. f x = i) xs = Some x \<Longrightarrow> g x = n \<Longrightarrow> list_ex (\<lambda>x. f x = i \<and> g x = n) xs"
  using find_mem [of "\<lambda>x. f x = i" xs x] by (auto simp: list_ex_iff)

lemma read_assessment_status:
  assumes "get_assessment_status i n (begin_txn d) = (x, t)"
  shows "t = begin_txn d \<and> (\<forall>y. x = Inr y \<longrightarrow> list_ex (\<lambda>a. am_id a = i \<and> am_user_id a = n) (ad_assessments d))"
proof (cases "find (\<lambda>a. am_id a = i) (ad_assessments d)")
  case (Some a)
  with assms found_row [OF Some, of am_user_id n] show ?thesis
    by (cases "am_user_id a = n")
      (auto simp: get_assessment_status_def get_latest_job_for_assessment_def bindO_def assessment_of_def)
qed (use assms in \<open>auto simp: get_assessment_status_def bindO_def assessment_of_def\<close>)

lemma read_assessment_breakdown:
  assumes "get_assessment_breakdown i n (begin_txn d) = (x, t)"
  shows "t = begin_txn d \<and> (\<forall>y. x = Inr y \<longrightarrow> list_ex (\<lambda>a. am_id a = i \<and> am_user_id a = n) (ad_assessments d))"
proof (cases "find (\<lambda>a. am_id a = i) (ad_assessments d)")
  case (Some a)
  with assms found_row [OF Some, of am_user_id n] show ?thesis
    by (cases "am_user_id a = n"; cases "la_result (load_assessment d a) = None")
      (auto simp: get_assessment_breakdown_def get_assessment_def bindO_def assessment_of_def load_assessment_def)
qed (use assms in \<open>auto simp: get_assessment_breakdown_def get_assessment_def bindO_def assessment_of_def\<close>)

lemma read_roadmap_status:
  assumes "get_roadmap_status i n (begin_txn d) = (x, t)"
  shows "t = begin_txn d \<and> (\<forall>y. x = Inr y \<longrightarrow> list_ex (\<lambda>r. rm_id r = i \<and> rm_user_id r = n) (ad_roadmaps d))"
proof (cases "find (\<lambda>r. rm_id r = i) (ad_roadmaps d)")
  case (Some a)
  with assms found_row [OF Some, of rm_user_id n] show ?thesis
    by (cases "rm_user_id a = n")
      (auto simp: get_roadmap_status_def get_roadmap_def get_latest_job_for_roadmap_def bindO_def roadmap_of_def)
qed (use assms in \<open>auto simp: get_roadmap_status_def get_roadmap_def bindO_def roadmap_of_def\<close>)

lemma read_roadmap_detail:
  assumes "get_roadmap_detail i n (begin_txn d) = (x, t)"
  shows "t = begin_txn d \<and> (\<forall>y. x = Inr y \<longrightarrow> list_ex (\<lambda>r. rm_id r = i \<and> rm_user_id r = n) (ad_roadmaps d))"
proof (cases "find (\<lambda>r. rm_id r = i) (ad_roadmaps d)")
  case (Some a)
  with assms found_row [OF Some, of rm_user_id n] show ?thesis
    by (cases "rm_user_id a = n")
      (auto simp: get_roadmap_detail_def get_roadmap_detail_row_def bindO_def roadmap_of_def)
qed (use assms in \<open>auto simp: get_roadmap_detail_def get_roadmap_detail_row_def bindO_def roadmap_of_def\<close>)

lemma read_job_status:
  "get_job_status i n admin (begin_txn d) = (x, t) \<Longrightarrow> t = begin_txn d \<and>
    (\<forall>y. x = Inr y \<longrightarrow> admin \<or> list_ex (\<lambda>j. jb_id j = i \<and> owns_job d n j) (ad_jobs d))"
  by (cases admin) (auto simp: get_job_status_def get_job_def get_job_for_user_def bindO_def list_ex_iff
      split: option.splits dest!: find_mem)

lemmas route_defs = assessment_status_route_def assessment_breakdown_route_def roadmap_status_route_def
  roadmap_detail_route_def job_status_route_def me_route_def my_entitlements_route_def create_assessment_route_def
  create_roadmap_route_def checkout_route_def creation_limited_def

text \<open>C11. Nobody acts without an account: whenever one of the routes of a user answers, or only changes the database, the
  request carried an access token that the library accepts at that time, of an account that exists and is active. A
  route that reads changes neither database nor limiter, and shows a row of that user only; an administrator sees the
  jobs of all. In particular, a request that the limiter refuses reaches no service.\<close>

theorem routes_need_user:
  assumes run: "run_call J R S cfg rq c (l, d) = (r, (l', d'))" and "r = Inr () \<or> d' \<noteq> d"
  shows "\<exists>u. identified J cfg rq d u \<and> (reading c \<longrightarrow> d' = d \<and> l' = l) \<and> (r = Inr () \<longrightarrow> own_row d u c)"
proof (cases c)
  case (Create_Assessment p)
  with limited_run [OF run [unfolded Create_Assessment run_call.simps route_defs] assms(2)] show ?thesis by auto
next
  case (Assessment_Status i)
  with unlimited_run [OF run [unfolded Assessment_Status run_call.simps route_defs] assms(2)]
  show ?thesis by (fastforce dest: read_assessment_status)
next
  case (Assessment_Breakdown i)
  with unlimited_run [OF run [unfolded Assessment_Breakdown run_call.simps route_defs] assms(2)]
  show ?thesis by (fastforce dest: read_assessment_breakdown)
next
  case (Create_Roadmap p)
  with limited_run [OF run [unfolded Create_Roadmap run_call.simps route_defs] assms(2)] show ?thesis by auto
next
  case (Roadmap_Status i)
  with unlimited_run [OF run [unfolded Roadmap_Status run_call.simps route_defs] assms(2)]
  show ?thesis by (fastforce dest: read_roadmap_status)
next
  case (Roadmap_Detail i)
  with unlimited_run [OF run [unfolded Roadmap_Detail run_call.simps route_defs] assms(2)]
  show ?thesis by (fastforce dest: read_roadmap_detail)
next
  case (Checkout p)
  with limited_run [OF run [unfolded Checkout run_call.simps route_defs] assms(2)] show ?thesis by auto
next
  case My_Entitlements
  with unlimited_run [OF run [unfolded My_Entitlements run_call.simps route_defs] assms(2)] show ?thesis by auto
next
  case (Job_Status i)
  with unlimited_run [OF run [unfolded Job_Status run_call.simps route_defs] assms(2)]
  show ?thesis by (fastforce simp: is_admin_def dest: read_job_status)
next
  case Me
  with unlimited_run [OF run [unfolded Me run_call.simps route_defs] assms(2)] show ?thesis by auto
qed

section \<open>A request\<close>

text \<open>A library that knows one token, of the account 7.\<close>

definition one_token :: jwt_api where
  "one_token = \<lparr>jwt_encode = (\<lambda>claims key alg. ''t''),
     jwt_decode = (\<lambda>now tok key algs. if tok = ''t'' then Some [(''sub'', JStr (uuid_str 7)), (''type'', JStr ''access'')] else None)\<rparr>"

definition one_assessment :: accounts_db where
  "one_assessment = accounts_sample_db\<lparr>ad_assessments := [\<lparr>am_id = 3, am_user_id = 7, am_program_id = 1,
     am_profile_snapshot_id = 2, am_idempotency_key = ''k'', am_status = as_pending, am_requested_at = 0, am_completed_at = None\<rparr>]\<rparr>"

definition one_request :: api_request where
  "one_request = \<lparr>rt_now = 0, rt_credentials = Some ''t'', rt_client_host = None, rt_route_path = ''/{assessment_id}/status'',
     rt_url_path = ''/3/status'', rt_trace_header = None, rt_state_trace = None\<rparr>"

lemma one_token_user:
  "get_current_user one_token cfg (rt_now one_request) (rt_credentials one_request) (begin_txn one_assessment)
    = (Inr (hd (us_users one_assessment)), begin_txn one_assessment)"
proof -
  have "uuid_str 7 \<noteq> []" by (simp add: uuid_str_def)
  then have "decode_token one_token cfg 0 ''t'' ''access'' = Inr [(''sub'', JStr (uuid_str 7)), (''type'', JStr ''access'')]"
    by (simp add: decode_token_def one_token_def get_or_def truthy_def)
  moreover have "uuid_parse (uuid_str 7) = Inr 7" by (rule uuid_parse_str) simp
  ultimately show ?thesis
    by (simp add: get_current_user_def one_request_def bindO_def user_by_id_def one_assessment_def accounts_sample_db_def)
qed

lemma routes_need_user_witness:
  "\<exists>u. identified one_token base_defaults one_request one_assessment u
    \<and> own_row one_assessment u (Assessment_Status 3)"
proof -
  let ?a = "hd (ad_assessments one_assessment)"
  have a: "assessment_of one_assessment 3 = Some ?a" "am_user_id ?a = us_id (hd (us_users one_assessment))"
    by (simp_all add: assessment_of_def one_assessment_def accounts_sample_db_def)
  then have "\<exists>y. get_assessment_status 3 (us_id (hd (us_users one_assessment))) (begin_txn one_assessment)
      = (Inr y, begin_txn one_assessment)"
    by (simp add: get_assessment_status_def get_latest_job_for_assessment_def bindO_def)
  then have "run_call one_token get_redis_client S base_defaults one_request (Assessment_Status 3) (empty_limiter, one_assessment)
      = (Inr (), (empty_limiter, one_assessment))" for S
    using one_token_user [of base_defaults]
    by (auto simp: assessment_status_route_def answered_def unlimited_def signed_in_def request_def bindO_def)
  from routes_need_user [OF this] show ?thesis by blast
qed

end
