(* ===== verification/Profile_Match_Api.thy ===== *)
theory Profile_Match_Api
  imports Api_Contract Profile_Match
begin

text \<open>
  The routes of the profile match, \<open>src/app/api/v1/profile_match.py\<close>: anybody submits a profile, a user claims a
  submission and reads its results. They need the accounts beside the submissions; the dependencies that find the user
  only read, and read the accounts alone.
\<close>

section \<open>Routes\<close>

record portal_db = match_db +
  pd_users :: "user list"

definition accounts_view :: "'z portal_db_scheme \<Rightarrow> accounts_db" where
  "accounts_view d = app_db.extend (app_db.truncate d) (accounts_db.fields (pd_users d))"

type_synonym ('z, 'a) portal_op = "('z portal_db_scheme txn, 'a) op"

definition match_signed_in ::
    "jwt_api \<Rightarrow> settings \<Rightarrow> api_request \<Rightarrow> (user \<Rightarrow> ('z, 'a) portal_op) \<Rightarrow> ('z, 'a) portal_op" where
  "match_signed_in J cfg rq m = (\<lambda>t.
     case get_current_user J cfg (rt_now rq) (rt_credentials rq) (begin_txn (accounts_view (working t))) of
       (Inl e, _) \<Rightarrow> (Inl e, t)
     | (Inr u, _) \<Rightarrow> m u t)"

definition match_visitor ::
    "jwt_api \<Rightarrow> settings \<Rightarrow> api_request \<Rightarrow> (user option \<Rightarrow> ('z, 'a) portal_op) \<Rightarrow> ('z, 'a) portal_op" where
  "match_visitor J cfg rq m = (\<lambda>t.
     case get_optional_current_user J cfg (rt_now rq) (rt_credentials rq) (begin_txn (accounts_view (working t))) of
       (Inl e, _) \<Rightarrow> (Inl e, t)
     | (Inr u, _) \<Rightarrow> m u t)"

definition checked_match :: "bool \<Rightarrow> ('s, unit) op" where
  "checked_match valid = (if valid then ret () else raise (HTTPException 422 ''validation error''))"

definition validate_claim :: "string \<Rightarrow> bool" where
  "validate_claim guest_session_id \<longleftrightarrow> 8 \<le> length guest_session_id \<and> length guest_session_id \<le> 64"

definition submit_match_route ::
    "jwt_api \<Rightarrow> settings \<Rightarrow> api_request \<Rightarrow> match_request \<Rightarrow> ('z portal_db_scheme, match_submitted) op" where
  "submit_match_route J cfg rq p = request (match_visitor J cfg rq (\<lambda>u.
     bindO (checked_match (validate_match_request p)) (\<lambda>_.
     submit_profile (rt_now rq) p (map_option us_id u))))"

definition claim_match_route ::
    "jwt_api \<Rightarrow> settings \<Rightarrow> api_request \<Rightarrow> uuid \<Rightarrow> string \<Rightarrow> ('z portal_db_scheme, match_result) op" where
  "claim_match_route J cfg rq submission_id guest_session_id = request (match_signed_in J cfg rq (\<lambda>u.
     bindO (checked_match (validate_claim guest_session_id)) (\<lambda>_.
     claim_submission (rt_now rq) submission_id guest_session_id (us_id u))))"

definition match_results_route ::
    "jwt_api \<Rightarrow> settings \<Rightarrow> api_request \<Rightarrow> uuid \<Rightarrow> ('z portal_db_scheme, match_result) op" where
  "match_results_route J cfg rq submission_id = request (match_signed_in J cfg rq (\<lambda>u.
     get_results submission_id (us_id u)))"

section \<open>Who reads and claims\<close>

text \<open>The guarded part runs only for an identified user, and then exactly as the service runs for that user.\<close>

lemma match_signed_in_run:
  obtains e where "request (match_signed_in J cfg rq m) d = (Inl e, d)"
  | u where "identified J cfg rq (accounts_view d) u" "request (match_signed_in J cfg rq m) d = request (m u) d"
proof -
  let ?v = "begin_txn (accounts_view d)"
  have "\<not> aborted ?v" by simp
  then consider (no) e where "get_current_user J cfg (rt_now rq) (rt_credentials rq) ?v = (Inl e, ?v)"
    | (user) u where "get_current_user J cfg (rt_now rq) (rt_credentials rq) ?v = (Inr u, ?v)"
        "identified J cfg rq (working ?v) u"
    by (rule current_user_run)
  then show thesis
  proof cases
    case no
    then show thesis by (intro that(1)) (simp add: match_signed_in_def request_def)
  next
    case user
    then show thesis by (intro that(2)) (simp_all add: match_signed_in_def request_def)
  qed
qed

text \<open>A claim that is answered, or that changes anything, is the claim of an identified user with a well-formed session;
  results are read by an identified user, and reading them changes nothing that the service does not change.\<close>

lemma claim_needs_user:
  assumes "claim_match_route J cfg rq i g d = (r, d')" "isl r \<longrightarrow> d' \<noteq> d"
  shows "\<exists>u. identified J cfg rq (accounts_view d) u \<and> validate_claim g
    \<and> request (claim_submission (rt_now rq) i g (us_id u)) d = (r, d')"
proof (rule match_signed_in_run [of J cfg rq "\<lambda>u. bindO (checked_match (validate_claim g)) (\<lambda>_.
    claim_submission (rt_now rq) i g (us_id u))" d])
  fix u
  assume "identified J cfg rq (accounts_view d) u"
    and "request (match_signed_in J cfg rq (\<lambda>u. bindO (checked_match (validate_claim g)) (\<lambda>_.
        claim_submission (rt_now rq) i g (us_id u)))) d
      = request (bindO (checked_match (validate_claim g)) (\<lambda>_. claim_submission (rt_now rq) i g (us_id u))) d"
  with assms show ?thesis
    by (cases "validate_claim g") (auto simp: claim_match_route_def checked_match_def request_def bindO_def)
qed (use assms in \<open>auto simp: claim_match_route_def\<close>)

lemma results_need_user:
  assumes "match_results_route J cfg rq i d = (r, d')" "isl r \<longrightarrow> d' \<noteq> d"
  shows "\<exists>u. identified J cfg rq (accounts_view d) u \<and> request (get_results i (us_id u)) d = (r, d')"
  by (rule match_signed_in_run [of J cfg rq "\<lambda>u. get_results i (us_id u)" d])
    (use assms in \<open>auto simp: match_results_route_def\<close>)

text \<open>A visitor without a token, or with a token that the library refuses, submits as a guest; one whose valid token
  names no UUID cannot submit at all.\<close>

lemma submit_as_guest:
  assumes "rt_credentials rq = None \<or> (\<exists>tok e. rt_credentials rq = Some tok
      \<and> decode_token J cfg (rt_now rq) tok ''access'' = Inl e)"
    and "validate_match_request p"
  shows "submit_match_route J cfg rq p d = request (submit_profile (rt_now rq) p None) d"
  using assms by (auto simp: submit_match_route_def match_visitor_def get_optional_current_user_def checked_match_def request_def)

lemma submit_with_foreign_subject:
  assumes "rt_credentials rq = Some tok" "decode_token J cfg (rt_now rq) tok ''access'' = Inr claims"
    and "subject_uuid (dict_get claims ''sub'') = Inl e"
  shows "submit_match_route J cfg rq p d = (Inl e, d)"
  using assms by (simp add: submit_match_route_def match_visitor_def get_optional_current_user_def request_def bindO_def)

end
