(* ===== verification/Spec2Isabelle.thy ===== *)
theory Spec2Isabelle
  imports
    Settings Mvp_Rules_Contract Billing_Webhook Assessments_Delivery Roadmaps_Flow
    Profile_Match_Contract Accounts_Contract Rate_Limit_Contract
    Ingestion_Items Publisher_Contract Extractors_Contract
    Seeding_Contract Migrations_Contract Tenant_Contract
    Rules_Api_Contract Http_Stack Profile_Match_Api
begin

text \<open>
  Verification of imigrAI, a service that scores a person's chances to immigrate: a FastAPI application over
  PostgreSQL, with Celery workers and an ingestion pipeline that keeps the immigration rules up to date. This theory
  imports the whole development; it holds no definition of its own.

  How the program works. A user registers and signs in (\<open>apps/accounts\<close>), asks for an assessment of a profile against a
  program of a country (\<open>apps/assessments\<close>), which consumes a unit of the monthly quota of the plan (\<open>apps/billing\<close>)
  and sends a message to a worker; the worker reads the version of the program in force (\<open>apps/immigration_rules\<close>), runs the
  score engine and stores the result. With a paid plan the user then asks for a roadmap (\<open>apps/roadmaps\<close>), which another
  worker generates with a language model or a local stub. Visitors without an account rank countries
  (\<open>apps/profile_match\<close>). The rules come from fixtures, from the administration routes, or from the ingestion
  pipeline (\<open>apps/ingestion\<close>), which fetches official pages, extracts rules and is meant to publish new versions.

  How it is modelled. The tables are records of lists, one record for the whole schema: \<open>billing_db\<close> is extended by
  the rules, by the assessments, roadmaps and jobs, and then by the accounts, the submissions of the profile match or
  the ingestion. The constraints of the tables are executable predicates. A session of SQLAlchemy is a
  transaction (\<open>txn\<close> of \<open>Prelude\<close>) with a committed and a working state: \<open>flush\<close> checks the constraints and aborts
  the transaction when they fail, \<open>commit\<close> and \<open>rollback\<close> are those of the code, \<open>request\<close> is a session from its
  beginning to its end. An operation takes a state and returns a result, an exception or a value, with the new state; every
  raise of the source is a branch. Identifiers are numbers, the next one of a counter of the database. The clock is an
  argument, in microseconds since 1970, UTC. A message to a queue is a part of the result of the request that sends it.

  Foundations.
  \<^item> \<open>Prelude\<close>: exceptions, results, transactions, the rules that an operation keeps an invariant, ordered dictionaries,
    and the locales \<open>state_machine\<close> and \<open>refined_machine\<close>.
  \<^item> \<open>Py_Num\<close>, \<open>Py_Value\<close>, \<open>Py_Json\<close>, \<open>Py_Time\<close>: Python's floats and decimals on exact rationals with the rounding
    of binary64 and of the decimal context (locale \<open>rounding\<close>, interpreted for all of them), strings, JSON values and
    their comparison, \<open>json.dumps\<close> and SHA-256, dates. \<open>Uuid_Text\<close> is the round trip of identifiers and their texts.
  \<^item> \<open>Settings\<close>: \<open>app/core/config\<close>, with the checks that keep an unsafe production configuration from starting.

  Assessment.
  \<^item> \<open>Engine\<close>: \<open>apps/assessments/engine.py\<close>. The score is the exact percentage, rounded half up to two decimals, lies
    in 0..100, does not depend on the order of the rules, and is blocked exactly when a blocking group holds. \<open>Stored_Deltas\<close>: the
    two decimals that the database keeps of a delta change nothing.
  \<^item> \<open>Billing\<close>: models, repository and service of \<open>apps/billing\<close>. \<open>Billing_Quota\<close>: the counters never pass the limit, and a
    month yields exactly the units of the limit. \<open>Billing_Webhook\<close>: the replay of an event whose signature is still young
    enough for \<open>stripe\<close> changes nothing, and the entitlements follow the subscription.
  \<^item> \<open>Rules\<close>: \<open>apps/immigration_rules\<close>. \<open>Rules_Versions\<close>: the active versions of a program never overlap, whatever requests are served.
  \<^item> \<open>Jobs\<close>: the tables that assessments, roadmaps and jobs share, \<open>apps/common\<close> and \<open>app/core/retry.py\<close>. \<open>Jobs_Contract\<close>: the
    transitions refine a machine on the statuses alone.
  \<^item> \<open>Assessments\<close>: \<open>apps/assessments\<close>. \<open>Assessments_Contract\<close>, \<open>Assessments_Flow\<close> and \<open>Assessments_Delivery\<close>: creation is
    idempotent, what is stored is what the engine computed, and the owner reads that. \<open>Task_Retry\<close>: the contract of a
    task that is delivered again (locale \<open>retried_task\<close>), interpreted for both tasks: every run ends, whatever goes wrong,
    and settles the job unless a delivery was killed, or could neither work nor record its failure.
  \<^item> \<open>Roadmaps\<close> and \<open>Llm\<close>: \<open>apps/roadmaps\<close>. \<open>Roadmaps_Contract\<close>, \<open>Roadmaps_Generation\<close> and \<open>Roadmaps_Flow\<close>: who may create a
    roadmap, what is stored, the circuit breaker as a function of the history of its calls.
  \<^item> \<open>Profile_Match\<close> and \<open>Profile_Match_Contract\<close>: \<open>apps/profile_match\<close>, its ranking in binary64 and the claim of a guest's
    submission; \<open>Profile_Match_Api\<close>: its routes.

  Access.
  \<^item> \<open>Accounts\<close>: \<open>apps/accounts\<close>, \<open>app/core/security.py\<close>, \<open>app/core/permissions.py\<close>; \<open>Accounts_Contract\<close>: tokens identify their user
    until they expire, in their role only.
  \<^item> \<open>Rate_Limit\<close>: \<open>app/core/rate_limit.py\<close> and \<open>app/core/redis.py\<close>; \<open>Rate_Limit_Contract\<close>: both stores implement the
    abstract window (locale \<open>window_counter\<close>).
  \<^item> \<open>Api_Routes\<close> and \<open>Api_Contract\<close>: the routes of \<open>app/api/v1\<close> for users and internal clients; nothing is answered or
    written without an active account. \<open>Rules_Api\<close> and \<open>Rules_Api_Contract\<close>: the routes of the rules and of the public catalog.
  \<^item> \<open>Http_Stack\<close>: the middlewares, \<open>app/core/http_security.py\<close>, \<open>observability.py\<close> and \<open>log_context.py\<close>, inside
    Starlette's answer to an exception, a plain text or, with \<open>debug\<close>, the traceback.
  \<^item> \<open>Operations\<close>: metrics, health, queues and schedule, \<open>app/core/metrics.py\<close>, \<open>app/api/health.py\<close>, \<open>app/core/celery_app.py\<close>,
    \<open>app/db/engine.py\<close>.

  Rules and data.
  \<^item> \<open>Ingestion\<close>, \<open>Ingestion_Gateway\<close>, \<open>Fetchers\<close>, \<open>Extractors\<close>, \<open>Diff_Engine\<close>, \<open>Publisher\<close>, \<open>Ingestion_Pipeline\<close>: the modules of
    \<open>apps/ingestion\<close>. \<open>Ingestion_Contract\<close> and \<open>Ingestion_Items\<close>: the retry loop ends, failures count until the quarantine, and
    nothing is ever published. \<open>Publisher_Contract\<close>: publication leaves one active version, whose rules are the payload's
    in whatever order the database returns them.
    \<open>Extractors_Contract\<close>: extracted payloads are well formed.
  \<^item> \<open>Mvp_Rules\<close> and \<open>Mvp_Catalog\<close>: the fixtures of rules and countries; \<open>Mvp_Rules_Contract\<close>: what the shipped rules mean.
    \<open>Seeding\<close>: the scripts that write them; \<open>Seeding_Tables\<close> and \<open>Seeding_Contract\<close>: they write every row once (locale
    \<open>growth\<close>), and leave every version a draft.
  \<^item> \<open>Schema\<close>: what the statements of a migration do to a PostgreSQL schema. \<open>Migrations\<close>: the eight revisions of
    \<open>app/db/migrations\<close>. \<open>Migrations_Contract\<close>: revision 0003 uses a value in the transaction that adds it.
  \<^item> \<open>Tenant_Isolation\<close> and \<open>Tenant_Contract\<close>: row level security of revision 0006 and \<open>apply_rls_context\<close>.

  How parts that meet are composed. The service of the assessments calls the operations of billing, rules, engine and
  jobs on one transaction, and the theorems about it are about all of them. The tasks are the handlers of the messages that
  the requests return. The routes put limiter, authentication and service together. The seeding runs on the tables
  of rules and ingestion, and what it leaves is what the assessments need. The policies of the migrations are applied to the
  tables of the application.

  Parameters. Code that is not in the repository is an argument: Stripe, python-jose, the password hasher, the check of
  e-mail addresses, OpenAI, pypdf, the HTML tokenizer, the network with robots.txt, the file system, the conversion of texts to
  identifiers in PostgreSQL, the text of a traceback. So is what the environment decides: the order in which the database
  returns the rules of a version, which no query of the ingestion fixes, and the faults that a delivery of a task meets
  (a session breaks and leaves some state that keeps the constraints and the row of the job, the broker refuses the
  retry, the worker is killed). What the theorems need of one is a named predicate (\<open>jwt_laws\<close>, \<open>password_laws\<close>), which a
  witness instantiates.

  Bounds and fuel. Decimals have the 28 digits of the context, floats the range and precision of binary64. The shortest text
  of a float is searched with at most 17 digits, which always suffice for binary64. A task is delivered at most once more
  than its limit of retries, which \<open>finishes\<close> of \<open>retried_task\<close> shows to be enough. The retry loop of the gateway and the
  loops over texts are total functions with a measure.

  Widths. The width of a text column and the 32 bits of an integer column are checked in the updates of the rules, the
  rows of a roadmap and the rule fixtures; elsewhere, where the schemas of the requests and payloads bound most values, the
  columns are taken to be wide enough. Texts are ordered bytewise, as under the collation C.

  Not modelled. Text outside the code points below 256, and the case mapping of text outside ASCII; negative zero and NaN of
  decimals; interleavings of concurrent transactions other than the redelivery of tasks (each request runs alone);
  Celery's jitter and the transport of its messages; the messages of pydantic's errors, which are reduced to a word or
  a field; read schemas that copy a row; the JSON formatter of the log, CORS, the checks of host and scheme, and the start-up
  hook of \<open>app/main.py\<close>; the arguments of the connection pool; \<open>app/db/migrations/env.py\<close>; the command-line scripts
  (\<open>ingestion_cli.py\<close>, \<open>run_migrations_safe.py\<close>, \<open>smoke_test.py\<close>, \<open>deploy_webhook.py\<close>), which start processes and call the
  network; the frontend, which is TypeScript; tests, dashboards and documents.
\<close>

end
